(* ===== verification/Vd_Prelude.thy ===== *)
theory Vd_Prelude
  imports Main "HOL-Library.Word" "HOL-Library.State_Monad" "HOL-Library.Signed_Division"
begin

text \<open>
  Shared vocabulary of the development: the machine integer types of the C code, the state
  monad in which the stateful C functions are written, its equational reading
  (\<open>eval\<close> for the value a function returns, \<open>exec\<close> for the state it leaves), and the
  locale of effect relations, in which a fact about every state change of a program is proved
  once from the same fact about its primitive calls.
\<close>

unbundle bit_operations_syntax

section \<open>Machine integers\<close>

type_synonym u8 = "8 word"
type_synonym u16 = "16 word"
type_synonym u32 = "32 word"

text \<open>
  The target is a 32-bit ARM: \<open>int\<close>, \<open>long\<close>, \<open>int_fast32_t\<close> and \<open>time_t\<close> have 32 bits.
  A signed result is an \<open>int\<close> reduced to that width; \<open>s64\<close> is the same for \<open>int64_t\<close>.
\<close>

definition s32 :: "int \<Rightarrow> int" where
  "s32 x = signed_take_bit 31 x"

definition s64 :: "int \<Rightarrow> int" where
  "s64 x = signed_take_bit 63 x"

lemma signed_take_bit_range_eq:
  fixes x :: int
  assumes "- (2 ^ n) \<le> x" and "x < 2 ^ n"
  shows "signed_take_bit n x = x"
  using assms by (simp add: signed_take_bit_int_eq_self)

lemma s32_id: "- 2147483648 \<le> x \<Longrightarrow> x < 2147483648 \<Longrightarrow> s32 x = x"
  unfolding s32_def by (rule signed_take_bit_range_eq) simp_all

lemma s64_id: "- 9223372036854775808 \<le> x \<Longrightarrow> x < 9223372036854775808 \<Longrightarrow> s64 x = x"
  unfolding s64_def by (rule signed_take_bit_range_eq) simp_all

lemma s32_bounds: "- 2147483648 \<le> s32 x" "s32 x < 2147483648"
  using signed_take_bit_int_greater_eq_minus_exp [of 31 x]
    signed_take_bit_int_less_exp [of 31 x]
  by (simp_all add: s32_def)

lemma sdiv_nonneg: "0 \<le> a \<Longrightarrow> 0 < b \<Longrightarrow> (a :: int) sdiv b = a div b"
  by (cases "a = 0") (simp_all add: signed_divide_int_def sgn_if)

section \<open>The state monad, read equationally\<close>

abbreviation ret :: "'a \<Rightarrow> ('s, 'a) state" where
  "ret \<equiv> State_Monad.return"

definition reads :: "('s \<Rightarrow> 'a) \<Rightarrow> ('s, 'a) state" where
  "reads f = State (\<lambda>s. (f s, s))"

definition writes :: "('s \<Rightarrow> 's) \<Rightarrow> ('s, unit) state" where
  "writes f = State (\<lambda>s. ((), f s))"

definition eval :: "('s, 'a) state \<Rightarrow> 's \<Rightarrow> 'a" where
  "eval m s = fst (run_state m s)"

definition exec :: "('s, 'a) state \<Rightarrow> 's \<Rightarrow> 's" where
  "exec m s = snd (run_state m s)"

named_theorems monad_simps \<open>evaluation of monadic programs by \<open>eval\<close> and \<open>exec\<close>\<close>

lemma run_eval_exec: "run_state m s = (eval m s, exec m s)"
  by (simp add: eval_def exec_def)

lemma state_eqI:
  assumes "\<And>s. eval m s = eval n s" and "\<And>s. exec m s = exec n s"
  shows "m = n"
  using assms by (cases m; cases n) (simp add: eval_def exec_def prod_eq_iff fun_eq_iff)

lemma eval_ret [simp, monad_simps]: "eval (ret x) s = x"
  and exec_ret [simp, monad_simps]: "exec (ret x) s = s"
  by (simp_all add: eval_def exec_def)

lemma eval_reads [simp, monad_simps]: "eval (reads f) s = f s"
  and exec_reads [simp, monad_simps]: "exec (reads f) s = s"
  by (simp_all add: eval_def exec_def reads_def)

lemma eval_writes [simp, monad_simps]: "eval (writes f) s = ()"
  and exec_writes [simp, monad_simps]: "exec (writes f) s = f s"
  by simp_all (simp add: exec_def writes_def)

lemma eval_bind [simp, monad_simps]:
  "eval (State_Monad.bind m f) s = eval (f (eval m s)) (exec m s)"
  and exec_bind [simp, monad_simps]:
  "exec (State_Monad.bind m f) s = exec (f (eval m s)) (exec m s)"
  by (simp_all add: eval_def exec_def split_beta)

lemma eval_if [simp, monad_simps]:
  "eval (if b then m else n) s = (if b then eval m s else eval n s)"
  and exec_if [simp, monad_simps]:
  "exec (if b then m else n) s = (if b then exec m s else exec n s)"
  by simp_all

lemma eval_case_option [simp, monad_simps]:
  "eval (case x of None \<Rightarrow> m | Some y \<Rightarrow> f y) s
     = (case x of None \<Rightarrow> eval m s | Some y \<Rightarrow> eval (f y) s)"
  and exec_case_option [simp, monad_simps]:
  "exec (case x of None \<Rightarrow> m | Some y \<Rightarrow> f y) s
     = (case x of None \<Rightarrow> exec m s | Some y \<Rightarrow> exec (f y) s)"
  by (simp_all split: option.split)

lemma eval_case_prod [simp, monad_simps]:
  "eval (case x of (a, b) \<Rightarrow> f a b) s = (case x of (a, b) \<Rightarrow> eval (f a b) s)"
  and exec_case_prod [simp, monad_simps]:
  "exec (case x of (a, b) \<Rightarrow> f a b) s = (case x of (a, b) \<Rightarrow> exec (f a b) s)"
  by (simp_all split: prod.split)

lemma eval_Let [simp, monad_simps]: "eval (let x = t in f x) s = (let x = t in eval (f x) s)"
  and exec_Let [simp, monad_simps]: "exec (let x = t in f x) s = (let x = t in exec (f x) s)"
  by (simp_all add: Let_def)

text \<open>
  A program whose thread may block for ever returns \<open>None\<close>; \<open>obind\<close> goes on only when it does not.
\<close>

definition obind :: "('s, 'a option) state \<Rightarrow> ('a \<Rightarrow> ('s, 'b option) state) \<Rightarrow> ('s, 'b option) state" where
  "obind m f = do {
     x \<leftarrow> m;
     (case x of None \<Rightarrow> ret None | Some y \<Rightarrow> f y) }"

lemma eval_obind [simp, monad_simps]:
  "eval (obind m f) s = (case eval m s of None \<Rightarrow> None | Some y \<Rightarrow> eval (f y) (exec m s))"
  and exec_obind [simp, monad_simps]:
  "exec (obind m f) s = (case eval m s of None \<Rightarrow> exec m s | Some y \<Rightarrow> exec (f y) (exec m s))"
  by (simp_all add: obind_def split: option.split)

text \<open>Iterating a program, and running a list of programs one after the other.\<close>

primrec exec_n :: "nat \<Rightarrow> ('s, 'a) state \<Rightarrow> 's \<Rightarrow> 's" where
  "exec_n 0 m s = s"
| "exec_n (Suc n) m s = exec_n n m (exec m s)"

lemma exec_n_add: "exec_n (k + n) m s = exec_n n m (exec_n k m s)"
  by (induction k arbitrary: s) simp_all

section \<open>Effect relations\<close>

text \<open>
  \<open>keeps R m\<close>: whatever state \<open>m\<close> starts in, the state it leaves is \<open>R\<close>-related to it.
  For a preorder \<open>R\<close> this is closed under every way the monad composes programs.
\<close>

definition keeps :: "('s \<Rightarrow> 's \<Rightarrow> bool) \<Rightarrow> ('s, 'a) state \<Rightarrow> bool" where
  "keeps R m \<longleftrightarrow> (\<forall>s. R s (exec m s))"

lemma keepsI: "(\<And>s. R s (exec m s)) \<Longrightarrow> keeps R m"
  by (simp add: keeps_def)

lemma keepsD: "keeps R m \<Longrightarrow> R s (exec m s)"
  by (simp add: keeps_def)

locale effect =
  fixes R :: "'s \<Rightarrow> 's \<Rightarrow> bool"
  assumes eff_refl: "R s s"
    and eff_trans: "R s t \<Longrightarrow> R t u \<Longrightarrow> R s u"
begin

lemma keeps_ret: "keeps R (ret x)"
  by (rule keepsI) (simp add: eff_refl)

lemma keeps_reads: "keeps R (reads f)"
  by (rule keepsI) (simp add: eff_refl)

lemma keeps_bind: "keeps R m \<Longrightarrow> (\<And>x. keeps R (f x)) \<Longrightarrow> keeps R (State_Monad.bind m f)"
  by (rule keepsI) (auto intro: eff_trans keepsD)

lemma keeps_if: "keeps R m \<Longrightarrow> keeps R n \<Longrightarrow> keeps R (if b then m else n)"
  by simp

lemma keeps_case_option:
  "keeps R m \<Longrightarrow> (\<And>y. keeps R (f y)) \<Longrightarrow> keeps R (case x of None \<Rightarrow> m | Some y \<Rightarrow> f y)"
  by (cases x) simp_all

lemma keeps_case_prod: "(\<And>a b. keeps R (f a b)) \<Longrightarrow> keeps R (case x of (a, b) \<Rightarrow> f a b)"
  by (cases x) simp

lemma keeps_obind: "keeps R m \<Longrightarrow> (\<And>x. keeps R (f x)) \<Longrightarrow> keeps R (obind m f)"
  unfolding obind_def by (intro keeps_bind keeps_case_option keeps_ret)

text \<open>A call through a table of programs.\<close>

lemma keeps_map_of:
  assumes "list_all (\<lambda>(k, m). keeps R m) tab" and "keeps R d"
    and "\<And>m. keeps R m \<Longrightarrow> keeps R (f m)"
  shows "keeps R (case map_of tab k of None \<Rightarrow> d | Some m \<Rightarrow> f m)"
  using assms by (auto simp: list_all_iff dest!: map_of_SomeD split: option.split)

lemma keeps_exec_n: "keeps R m \<Longrightarrow> R s (exec_n n m s)"
  by (induction n arbitrary: s) (auto intro: eff_refl eff_trans keepsD)

lemmas keeps_intros =
  keeps_ret keeps_reads keeps_bind keeps_if keeps_case_option keeps_case_prod keeps_obind

end

section \<open>Words and lists\<close>

lemma map_of_Some_mem: "map_of tab k = Some v \<Longrightarrow> (k, v) \<in> set tab"
  by (rule map_of_SomeD)

lemma bit_u8_1 [simp]: "bit (1 :: u8) n \<longleftrightarrow> n = 0"
  by (simp add: bit_1_iff)

lemma word_of_int_uint_u8 [simp]: "word_of_int (uint (x :: u8)) = x"
  by simp

end
