(* ===== verification/Time_Util.thy ===== *)
theory Time_Util
  imports Vd_Prelude
begin

text \<open>
  The time arithmetic of \<open>sys/time_util.c\<close>: differences of \<open>ustime_t\<close>, \<open>timespec\<close> and
  \<open>timeval\<close> values and the overtime test of the road gate. Seconds and sub-second counts are
  integers; every operation that the C code performs in a fixed width is reduced to it with
  \<open>s32\<close> or \<open>s64\<close>.
\<close>

record timeval =
  tv_sec :: int
  tv_usec :: int

record ustime =
  sec :: int
  usec :: int

record timespec =
  ts_sec :: int
  ts_nsec :: int

section \<open>Differences of ustime values\<close>

definition ustime_diff_sec :: "ustime \<Rightarrow> ustime \<Rightarrow> int" where
  "ustime_diff_sec a b = s64 (sec a - sec b)"

definition ustime_diff_usec :: "ustime \<Rightarrow> ustime \<Rightarrow> int" where
  "ustime_diff_usec a b =
     (let aus = s64 (sec a * 1000000 + usec a);
          bus = s64 (sec b * 1000000 + usec b)
      in s64 (aus - bus))"

definition ustime_diff_msec :: "ustime \<Rightarrow> ustime \<Rightarrow> int" where
  "ustime_diff_msec a b =
     (let ams = s64 (sec a * 1000 + usec a sdiv 1000);
          bms = s64 (sec b * 1000 + usec b sdiv 1000)
      in s64 (ams - bms))"

text \<open>A \<open>ustime_t\<close> whose seconds fit \<open>time_t\<close> and whose microseconds are normalised.\<close>

definition ustime_ok :: "ustime \<Rightarrow> bool" where
  "ustime_ok t \<longleftrightarrow> - 2147483648 \<le> sec t \<and> sec t < 2147483648 \<and> 0 \<le> usec t \<and> usec t < 1000000"

lemma ustime_diff_usec_exact:
  assumes "ustime_ok a" and "ustime_ok b"
  shows "ustime_diff_usec a b = (sec a * 1000000 + usec a) - (sec b * 1000000 + usec b)"
  using assms by (simp add: ustime_diff_usec_def ustime_ok_def Let_def s64_id)

lemma ustime_diff_msec_exact:
  assumes "ustime_ok a" and "ustime_ok b"
  shows "ustime_diff_msec a b
    = (sec a * 1000 + usec a div 1000) - (sec b * 1000 + usec b div 1000)"
proof -
  have "0 \<le> usec a div 1000" "usec a div 1000 < 1000" "0 \<le> usec b div 1000" "usec b div 1000 < 1000"
    using assms by (auto simp: ustime_ok_def)
  then show ?thesis
    using assms by (simp add: ustime_diff_msec_def ustime_ok_def Let_def s64_id sdiv_nonneg)
qed

section \<open>timespec differences\<close>

definition timespec_sub :: "timespec \<Rightarrow> timespec \<Rightarrow> timespec" where
  "timespec_sub a b =
     (let t_sec = s32 (ts_sec a - ts_sec b);
          t_nsec = s32 (ts_nsec a - ts_nsec b)
      in if t_nsec < 0
         then \<lparr>ts_sec = s32 (t_sec - 1), ts_nsec = s32 (t_nsec - 1000000000)\<rparr>
         else \<lparr>ts_sec = t_sec, ts_nsec = t_nsec\<rparr>)"

definition timespec_diff_msec :: "timespec \<Rightarrow> timespec \<Rightarrow> int" where
  "timespec_diff_msec a b =
     (let t = timespec_sub a b in s32 (s32 (ts_sec t * 1000) + ts_nsec t sdiv 1000000))"

definition timespec_diff_sec :: "timespec \<Rightarrow> timespec \<Rightarrow> int" where
  "timespec_diff_sec a b = ts_sec (timespec_sub a b)"

definition timespec_ok :: "timespec \<Rightarrow> bool" where
  "timespec_ok t \<longleftrightarrow> 0 \<le> ts_sec t \<and> ts_sec t < 2147483648
     \<and> 0 \<le> ts_nsec t \<and> ts_nsec t < 1000000000"

lemma timespec_sub_borrow:
  assumes "timespec_ok a" and "timespec_ok b" and "ts_nsec a < ts_nsec b"
  shows "timespec_sub a b
    = \<lparr>ts_sec = ts_sec a - ts_sec b - 1, ts_nsec = ts_nsec a - ts_nsec b - 1000000000\<rparr>"
proof -
  have "s32 (ts_sec a - ts_sec b) = ts_sec a - ts_sec b"
    "s32 (ts_nsec a - ts_nsec b) = ts_nsec a - ts_nsec b"
    "s32 (ts_nsec a - ts_nsec b - 1000000000) = ts_nsec a - ts_nsec b - 1000000000"
    "s32 (ts_sec a - ts_sec b - 1) = ts_sec a - ts_sec b - 1"
    using assms by (simp_all add: timespec_ok_def s32_id)
  then show ?thesis using assms(3) by (simp add: timespec_sub_def)
qed

lemma timespec_sub_no_borrow:
  assumes "timespec_ok a" and "timespec_ok b" and "ts_nsec b \<le> ts_nsec a"
  shows "timespec_sub a b
    = \<lparr>ts_sec = ts_sec a - ts_sec b, ts_nsec = ts_nsec a - ts_nsec b\<rparr>"
proof -
  have "s32 (ts_sec a - ts_sec b) = ts_sec a - ts_sec b"
    "s32 (ts_nsec a - ts_nsec b) = ts_nsec a - ts_nsec b"
    using assms by (simp_all add: timespec_ok_def s32_id)
  then show ?thesis using assms(3) by (simp add: timespec_sub_def)
qed

text \<open>
  Borrow of \<open>timespec_sub\<close>: when the nanoseconds of the minuend are the smaller ones, the
  function takes the borrowed second twice instead of giving it back, so the value it returns
  lies exactly two seconds (2000000000 ns) before the true difference.
\<close>

theorem timespec_sub_borrow_off_by_two_seconds:
  assumes "timespec_ok a" and "timespec_ok b" and "ts_nsec a < ts_nsec b"
  shows "ts_sec (timespec_sub a b) * 1000000000 + ts_nsec (timespec_sub a b)
    = (ts_sec a * 1000000000 + ts_nsec a) - (ts_sec b * 1000000000 + ts_nsec b) - 2000000000"
  using timespec_sub_borrow [OF assms] by simp

theorem timespec_sub_borrow_off_by_two_seconds_witness:
  "ts_sec (timespec_sub \<lparr>ts_sec = 1, ts_nsec = 0\<rparr> \<lparr>ts_sec = 0, ts_nsec = 500000000\<rparr>) * 1000000000
     + ts_nsec (timespec_sub \<lparr>ts_sec = 1, ts_nsec = 0\<rparr> \<lparr>ts_sec = 0, ts_nsec = 500000000\<rparr>)
   = 500000000 - 2000000000"
  using timespec_sub_borrow_off_by_two_seconds
    [of "\<lparr>ts_sec = 1, ts_nsec = 0\<rparr>" "\<lparr>ts_sec = 0, ts_nsec = 500000000\<rparr>"]
  by (simp add: timespec_ok_def)

section \<open>The overtime test\<close>

text \<open>The \<open>timersub\<close> macro of \<open>sys/time.h\<close>.\<close>

definition timersub :: "timeval \<Rightarrow> timeval \<Rightarrow> timeval" where
  "timersub a b =
     (let d_sec = s32 (tv_sec a - tv_sec b);
          d_usec = s32 (tv_usec a - tv_usec b)
      in if d_usec < 0
         then \<lparr>tv_sec = s32 (d_sec - 1), tv_usec = s32 (d_usec + 1000000)\<rparr>
         else \<lparr>tv_sec = d_sec, tv_usec = d_usec\<rparr>)"

text \<open>\<open>overtime now prev timeout\<close>: \<open>timeval_is_overtime\<close> with the clock reading as argument.\<close>

definition overtime :: "timeval \<Rightarrow> timeval \<Rightarrow> int \<Rightarrow> bool" where
  "overtime now prev timeout =
     (let diff = timersub now prev in
      if tv_sec diff < 0 then True
      else let diff_ms = s32 (tv_sec diff * 1000) in
        if timeout < diff_ms then True
        else let diff_ms = s32 (diff_ms + tv_usec diff sdiv 1000) in
          timeout \<le> diff_ms)"

definition timeval_ok :: "timeval \<Rightarrow> bool" where
  "timeval_ok t \<longleftrightarrow> 0 \<le> tv_sec t \<and> tv_sec t < 2147483648 \<and> 0 \<le> tv_usec t \<and> tv_usec t < 1000000"

definition usecs :: "timeval \<Rightarrow> int" where
  "usecs t = tv_sec t * 1000000 + tv_usec t"

lemma timersub_usecs:
  assumes "timeval_ok a" and "timeval_ok b"
  shows "usecs (timersub a b) = usecs a - usecs b"
    and "0 \<le> tv_usec (timersub a b)" and "tv_usec (timersub a b) < 1000000"
proof -
  have s: "s32 (tv_sec a - tv_sec b) = tv_sec a - tv_sec b"
    "s32 (tv_usec a - tv_usec b) = tv_usec a - tv_usec b"
    "s32 (tv_usec a - tv_usec b + 1000000) = tv_usec a - tv_usec b + 1000000"
    "s32 (tv_sec a - tv_sec b - 1) = tv_sec a - tv_sec b - 1"
    using assms by (simp_all add: timeval_ok_def s32_id)
  show "usecs (timersub a b) = usecs a - usecs b"
    "0 \<le> tv_usec (timersub a b)" "tv_usec (timersub a b) < 1000000"
    using assms s by (auto simp: usecs_def timersub_def timeval_ok_def Let_def)
qed

lemma timersub_sec:
  assumes "timeval_ok a" and "timeval_ok b"
  shows "tv_sec (timersub a b) = (usecs a - usecs b) div 1000000"
  using timersub_usecs [OF assms]
  by (simp add: usecs_def)

text \<open>
  The elapsed time that keeps the millisecond count of \<open>timeval_is_overtime\<close> inside its
  32 bits: less than 2147483 seconds, just under 24.9 days.
\<close>

lemma overtime_elapsed:
  assumes ok: "timeval_ok now" "timeval_ok prev"
    and le: "usecs prev \<le> usecs now" and lt: "usecs now - usecs prev < 2147483000000"
  shows "overtime now prev timeout \<longleftrightarrow> timeout \<le> (usecs now - usecs prev) div 1000"
proof -
  let ?d = "timersub now prev"
  note d = timersub_usecs [OF ok] timersub_sec [OF ok]
  have sec: "0 \<le> tv_sec ?d" "tv_sec ?d < 2147483"
    using d(4) le lt by auto
  have ms: "s32 (tv_sec ?d * 1000) = tv_sec ?d * 1000"
    using sec by (simp add: s32_id)
  have us: "tv_usec ?d sdiv 1000 = tv_usec ?d div 1000" "0 \<le> tv_usec ?d div 1000"
    "tv_usec ?d div 1000 < 1000"
    using d(2,3) by (auto simp: sdiv_nonneg)
  have sum: "s32 (tv_sec ?d * 1000 + tv_usec ?d div 1000) = tv_sec ?d * 1000 + tv_usec ?d div 1000"
    using sec us(2,3) by (simp add: s32_id)
  have "(usecs now - usecs prev) div 1000 = tv_sec ?d * 1000 + tv_usec ?d div 1000"
    using d(1) by (simp add: usecs_def)
  then show ?thesis
    using sec(1) us ms sum by (auto simp: overtime_def Let_def)
qed

lemma overtime_clock_back:
  assumes ok: "timeval_ok now" "timeval_ok prev" and lt: "usecs now < usecs prev"
  shows "overtime now prev timeout"
proof -
  have "tv_sec (timersub now prev) < 0"
    using timersub_sec [OF ok] lt by simp
  then show ?thesis by (simp add: overtime_def)
qed

text \<open>
  The overtime test of the road gate: for a clock reading less than 2147483 s after the
  reference it answers whether the elapsed whole milliseconds reach the timeout, and after a
  clock that was set back it always answers yes.
\<close>

theorem overtime_correct:
  assumes "timeval_ok now" and "timeval_ok prev"
    and "usecs now - usecs prev < 2147483000000"
  shows "overtime now prev timeout
    \<longleftrightarrow> usecs now < usecs prev \<or> timeout \<le> (usecs now - usecs prev) div 1000"
proof (cases "usecs prev \<le> usecs now")
  case True
  then show ?thesis using overtime_elapsed [OF assms(1,2) True assms(3)] by simp
next
  case False
  then show ?thesis using overtime_clock_back [OF assms(1,2)] by simp
qed

theorem overtime_correct_witness:
  "overtime \<lparr>tv_sec = 12, tv_usec = 3000\<rparr> \<lparr>tv_sec = 10, tv_usec = 2000\<rparr> 2001
   \<and> \<not> overtime \<lparr>tv_sec = 12, tv_usec = 3000\<rparr> \<lparr>tv_sec = 10, tv_usec = 2000\<rparr> 2002"
  using overtime_correct [of "\<lparr>tv_sec = 12, tv_usec = 3000\<rparr>" "\<lparr>tv_sec = 10, tv_usec = 2000\<rparr>" 2001]
    overtime_correct [of "\<lparr>tv_sec = 12, tv_usec = 3000\<rparr>" "\<lparr>tv_sec = 10, tv_usec = 2000\<rparr>" 2002]
  by (simp add: timeval_ok_def usecs_def)

text \<open>
  Past that range the count wraps: 2147484 s (24.86 days) after the reference the product
  with 1000 leaves the 32-bit range and the test denies that any timeout from 0 on has passed.
\<close>

theorem overtime_wraps:
  assumes "timeval_ok prev" and "tv_sec prev + 2147484 < 2147483648" and "0 \<le> timeout"
  shows "\<not> overtime (prev\<lparr>tv_sec := tv_sec prev + 2147484\<rparr>) prev timeout"
proof -
  have "timersub (prev\<lparr>tv_sec := tv_sec prev + 2147484\<rparr>) prev = \<lparr>tv_sec = 2147484, tv_usec = 0\<rparr>"
    by (simp add: timersub_def s32_id)
  moreover have "s32 2147484000 = - 2147483296"
    by (simp add: s32_def signed_take_bit_eq_take_bit_minus bit_simps)
  ultimately show ?thesis
    using assms(3) by (simp add: overtime_def signed_divide_int_def s32_id)
qed

theorem overtime_wraps_witness:
  "\<not> overtime \<lparr>tv_sec = 2147484, tv_usec = 0\<rparr> \<lparr>tv_sec = 0, tv_usec = 0\<rparr> 1000"
  using overtime_wraps [of "\<lparr>tv_sec = 0, tv_usec = 0\<rparr>" 1000] by (simp add: timeval_ok_def)

end
