(* ===== verification/Xstring.thy ===== *)
theory Xstring
  imports Vd_Prelude
begin

text \<open>
  The bounded string copies of \<open>sys/xstring.c\<close> and \<open>sys/str_util.c\<close>. A destination array is
  the list of its characters; a store outside it makes the whole call \<open>None\<close>, so a result
  \<open>Some _\<close> says that no store left the array. A source string is the list of its characters
  before the terminating NUL, read through \<open>cchar\<close>; a read past the NUL is \<open>None\<close> as well.
\<close>

definition NUL :: char where
  "NUL = CHR 0x00"

text \<open>Reading character \<open>i\<close> of a C string: its NUL is the last readable one.\<close>

definition cchar :: "string \<Rightarrow> nat \<Rightarrow> char option" where
  "cchar src i =
     (if i < length src then Some (src ! i) else if i = length src then Some NUL else None)"

definition store :: "char list \<Rightarrow> nat \<Rightarrow> char \<Rightarrow> char list option" where
  "store dst i c = (if i < length dst then Some (dst[i := c]) else None)"

definition cstring :: "string \<Rightarrow> bool" where
  "cstring s \<longleftrightarrow> NUL \<notin> set s"

section \<open>strlcpy of xstring.c\<close>

text \<open>
  The copying \<open>do ... while (--n != 0)\<close>: position \<open>i\<close> of both pointers, \<open>Suc n\<close> characters
  still allowed. The result is the array, the pointer position and the remaining \<open>n\<close>, which
  is 0 exactly when the loop ended because the room ran out.
\<close>

fun strlcpy_loop :: "char list \<Rightarrow> string \<Rightarrow> nat \<Rightarrow> nat \<Rightarrow> (char list \<times> nat \<times> nat) option" where
  "strlcpy_loop dst src i 0 = Some (dst, i, 0)"
| "strlcpy_loop dst src i (Suc n) =
     (case cchar src i of None \<Rightarrow> None
      | Some c \<Rightarrow>
        (case store dst i c of None \<Rightarrow> None
         | Some dst' \<Rightarrow>
             if c = NUL then Some (dst', Suc i, Suc n)
             else strlcpy_loop dst' src (Suc i) n))"

text \<open>\<open>while (*s++);\<close> from position \<open>i\<close>: the position after the NUL.\<close>

function skip_to_end :: "string \<Rightarrow> nat \<Rightarrow> nat option" where
  "skip_to_end src i =
     (case cchar src i of None \<Rightarrow> None
      | Some c \<Rightarrow> if c = NUL then Some (Suc i) else skip_to_end src (Suc i))"
  by pat_completeness auto
termination
  by (relation "measure (\<lambda>(src, i). Suc (length src) - i)")
    (auto simp: cchar_def split: if_splits)

definition strlcpy :: "char list option \<Rightarrow> string option \<Rightarrow> nat \<Rightarrow> (char list option \<times> nat) option" where
  "strlcpy dst src sz =
     (case (dst, src) of
        (Some d, Some s) \<Rightarrow>
          (case (if sz \<noteq> 0 \<and> sz - 1 \<noteq> 0 then strlcpy_loop d s 0 (sz - 1)
                 else Some (d, 0, 0)) of
             None \<Rightarrow> None
           | Some (d', i, n) \<Rightarrow>
               if n = 0 then
                 (case (if sz \<noteq> 0 then store d' i NUL else Some d') of
                    None \<Rightarrow> None
                  | Some d'' \<Rightarrow> map_option (\<lambda>e. (Some d'', e - 1)) (skip_to_end s i))
               else Some (Some d', i - 1))
      | _ \<Rightarrow> Some (dst, 0))"

section \<open>strlcpy of str_util.c\<close>

definition memcpy :: "char list \<Rightarrow> string \<Rightarrow> nat \<Rightarrow> char list option" where
  "memcpy dst src n = (if n \<le> length dst then Some (take n src @ drop n dst) else None)"

definition strlcpy_memcpy :: "char list \<Rightarrow> string \<Rightarrow> nat \<Rightarrow> (char list \<times> nat) option" where
  "strlcpy_memcpy dst src sz =
     (let ret = length src in
      if sz \<noteq> 0 then
        (let len = (if sz \<le> ret then sz - 1 else ret) in
         case memcpy dst src len of None \<Rightarrow> None
         | Some d \<Rightarrow> map_option (\<lambda>d'. (d', ret)) (store d len NUL))
      else Some (dst, ret))"

section \<open>strlcat\<close>

text \<open>\<open>while (n-- != 0 && *d != 0) d++;\<close>: how many characters the loop passes.\<close>

fun dst_len :: "char list \<Rightarrow> nat \<Rightarrow> nat" where
  "dst_len d 0 = 0"
| "dst_len [] (Suc n) = 0"
| "dst_len (c # d) (Suc n) = (if c = NUL then 0 else Suc (dst_len d n))"

text \<open>The appending loop: destination position \<open>j\<close>, room \<open>n\<close>, the rest of the source.\<close>

fun strlcat_loop :: "char list \<Rightarrow> nat \<Rightarrow> nat \<Rightarrow> string \<Rightarrow> (char list \<times> nat) option" where
  "strlcat_loop dst j n [] = Some (dst, j)"
| "strlcat_loop dst j n (c # s) =
     (if n \<noteq> 1 then
        (case store dst j c of None \<Rightarrow> None | Some dst' \<Rightarrow> strlcat_loop dst' (Suc j) (n - 1) s)
      else strlcat_loop dst j n s)"

definition strlcat :: "char list option \<Rightarrow> string option \<Rightarrow> nat \<Rightarrow> (char list option \<times> nat) option" where
  "strlcat dst src sz =
     (case (dst, src) of
        (Some d, Some s) \<Rightarrow>
          (let dlen = dst_len d sz; n = sz - dlen in
           if n = 0 then Some (dst, dlen + length s)
           else (case strlcat_loop d dlen n s of None \<Rightarrow> None
                 | Some (d', j) \<Rightarrow>
                     map_option (\<lambda>d''. (Some d'', dlen + length s)) (store d' j NUL)))
      | _ \<Rightarrow> Some (dst, 0))"

section \<open>What the copies leave in the destination\<close>

text \<open>The C string in an array: the characters before its first NUL.\<close>

definition str_of :: "char list \<Rightarrow> string" where
  "str_of d = takeWhile (\<lambda>c. c \<noteq> NUL) d"

lemma cchar_in [simp]: "i < length s \<Longrightarrow> cchar s i = Some (s ! i)"
  and cchar_end [simp]: "cchar s (length s) = Some NUL"
  by (simp_all add: cchar_def)

lemma cstring_nth [simp]: "cstring s \<Longrightarrow> i < length s \<Longrightarrow> s ! i \<noteq> NUL"
  by (metis cstring_def nth_mem)

lemma store_in [simp]: "i < length d \<Longrightarrow> store d i c = Some (d[i := c])"
  by (simp add: store_def)

declare skip_to_end.simps [simp del]

lemma skip_to_end_eq:
  assumes "cstring s"
  shows "i \<le> length s \<Longrightarrow> skip_to_end s i = Some (Suc (length s))"
proof (induction "length s - i" arbitrary: i)
  case 0
  then have "i = length s" by simp
  then show ?case by (simp add: skip_to_end.simps [of s "length s"])
next
  case (Suc k)
  then have lt: "i < length s" by simp
  then have "skip_to_end s (Suc i) = Some (Suc (length s))"
    using Suc by simp
  then show ?case using lt assms by (simp add: skip_to_end.simps [of s i])
qed

lemma list_update_take_drop:
  "i < length d \<Longrightarrow> take i d = p \<Longrightarrow> take (Suc i) (d[i := c]) = p @ [c]"
  by (simp add: take_Suc_conv_app_nth)

lemma strlcpy_loop_eq:
  assumes "cstring s"
  shows "i \<le> length s \<Longrightarrow> i + n \<le> length d \<Longrightarrow>
    strlcpy_loop d s i n =
      Some (if i + n \<le> length s
        then (take i d @ take n (drop i s) @ drop (i + n) d, i + n, 0)
        else (take i d @ drop i s @ NUL # drop (Suc (length s)) d, Suc (length s), i + n - length s))"
proof (induction n arbitrary: d i)
  case 0
  then show ?case by simp
next
  case (Suc n)
  show ?case
  proof (cases "i < length s")
    case True
    let ?d = "d[i := s ! i]"
    have ne: "s ! i \<noteq> NUL" using True assms by simp
    have i: "i < length d" using Suc.prems by simp
    have "strlcpy_loop d s i (Suc n) = strlcpy_loop ?d s (Suc i) n"
      using True i ne by simp
    also have "\<dots> = Some (if Suc i + n \<le> length s
        then (take (Suc i) ?d @ take n (drop (Suc i) s) @ drop (Suc i + n) ?d, Suc i + n, 0)
        else (take (Suc i) ?d @ drop (Suc i) s @ NUL # drop (Suc (length s)) ?d, Suc (length s),
              Suc i + n - length s))"
      using Suc.IH [of "Suc i" ?d] Suc.prems True by simp
    finally show ?thesis
      using True i Cons_nth_drop_Suc [OF True, symmetric]
      by (simp add: take_Suc_conv_app_nth)
  next
    case False
    then have "i = length s" using Suc.prems by simp
    then show ?thesis using Suc.prems by (simp add: upd_conv_take_nth_drop)
  qed
qed

text \<open>What both versions of \<open>strlcpy\<close> are to leave: the array and the value returned.\<close>

definition strlcpy_spec :: "char list \<Rightarrow> string \<Rightarrow> nat \<Rightarrow> char list \<times> nat" where
  "strlcpy_spec d s sz =
     (if sz = 0 then d
      else let k = min (length s) (sz - 1) in take k s @ NUL # drop (Suc k) d, length s)"

lemma strlcpy_memcpy_eq:
  assumes "sz \<le> length d"
  shows "strlcpy_memcpy d s sz = Some (strlcpy_spec d s sz)"
proof (cases "sz = 0")
  case True
  then show ?thesis by (simp add: strlcpy_memcpy_def strlcpy_spec_def)
next
  case False
  let ?k = "min (length s) (sz - 1)"
  have k: "?k < length d" "(if sz \<le> length s then sz - 1 else length s) = ?k"
    using False assms by auto
  have "(take ?k s @ drop ?k d)[?k := NUL] = take ?k s @ NUL # drop (Suc ?k) d"
    using k(1) by (simp add: list_update_append Cons_nth_drop_Suc [symmetric])
  then show ?thesis
    using False k by (simp add: strlcpy_memcpy_def strlcpy_spec_def memcpy_def Let_def)
qed

lemma strlcpy_eq:
  assumes "cstring s" and "sz \<le> length d"
  shows "strlcpy (Some d) (Some s) sz
    = Some (Some (fst (strlcpy_spec d s sz)), snd (strlcpy_spec d s sz))"
proof -
  consider (zero) "sz = 0" | (one) "sz = 1" | (short) "1 < sz" "sz - 1 \<le> length s"
    | (fits) "1 < sz" "length s < sz - 1"
    by linarith
  then show ?thesis
  proof cases
    case zero
    then show ?thesis using skip_to_end_eq [OF assms(1), of 0]
      by (simp add: strlcpy_def strlcpy_spec_def)
  next
    case one
    then obtain x xs where "d = x # xs" using assms(2) by (cases d) auto
    then show ?thesis using one skip_to_end_eq [OF assms(1), of 0]
      by (simp add: strlcpy_def strlcpy_spec_def)
  next
    case short
    then have "strlcpy_loop d s 0 (sz - 1)
        = Some (take (sz - 1) s @ drop (sz - 1) d, sz - 1, 0)"
      using strlcpy_loop_eq [OF assms(1), of 0 "sz - 1" d] assms(2) by simp
    moreover have "(take (sz - 1) s @ drop (sz - 1) d)[sz - 1 := NUL]
        = take (sz - 1) s @ NUL # drop sz d"
      using short assms(2)
      by (simp add: list_update_append Cons_nth_drop_Suc [symmetric])
    ultimately show ?thesis
      using short assms(2) skip_to_end_eq [OF assms(1), of "sz - 1"]
      by (simp add: strlcpy_def strlcpy_spec_def min_def)
  next
    case fits
    then have "strlcpy_loop d s 0 (sz - 1)
        = Some (s @ NUL # drop (Suc (length s)) d, Suc (length s), sz - 1 - length s)"
      using strlcpy_loop_eq [OF assms(1), of 0 "sz - 1" d] assms(2) by simp
    then show ?thesis
      using fits by (auto simp: strlcpy_def strlcpy_spec_def min_def)
  qed
qed

lemma str_of_prefix: "cstring s \<Longrightarrow> str_of (take k s @ NUL # r) = take k s"
  by (induction s arbitrary: k) (auto simp: str_of_def cstring_def take_Cons' split: if_splits)

text \<open>
  \<open>strlcpy\<close> never writes outside a destination of the stated size and always succeeds: it
  keeps the array's length, returns the source length, and leaves the source cut to
  \<open>sz - 1\<close> characters as the C string in the destination.
\<close>

theorem strlcpy_safe:
  assumes "cstring s" and "0 < sz" and "sz \<le> length d"
  shows "\<exists>d'. strlcpy (Some d) (Some s) sz = Some (Some d', length s)
    \<and> length d' = length d \<and> str_of d' = take (sz - 1) s"
proof (intro exI conjI)
  let ?k = "min (length s) (sz - 1)"
  let ?d = "take ?k s @ NUL # drop (Suc ?k) d"
  show "strlcpy (Some d) (Some s) sz = Some (Some ?d, length s)"
    using strlcpy_eq [OF assms(1,3)] assms(2) by (simp add: strlcpy_spec_def Let_def)
  show "length ?d = length d" using assms by (simp add: min_def)
  show "str_of ?d = take (sz - 1) s"
    using str_of_prefix [OF assms(1), of ?k] by (simp add: min_def)
qed

theorem strlcpy_safe_witness:
  "\<exists>d'. strlcpy (Some (replicate 4 CHR ''x'')) (Some ''gate'') 4 = Some (Some d', length ''gate'')
    \<and> length d' = length (replicate 4 CHR ''x'') \<and> str_of d' = take (4 - 1) ''gate''"
  by (rule strlcpy_safe) (simp_all add: cstring_def NUL_def)

text \<open>
  The pointer-walking \<open>strlcpy\<close> of \<open>sys/xstring.c\<close> and the \<open>memcpy\<close> version of
  \<open>sys/str_util.c\<close>, which define the same symbol, agree on every destination, source and size.
\<close>

theorem strlcpy_versions_agree:
  assumes "cstring s" and "sz \<le> length d"
  shows "strlcpy (Some d) (Some s) sz
    = map_option (\<lambda>(d', n). (Some d', n)) (strlcpy_memcpy d s sz)"
  using strlcpy_eq [OF assms] strlcpy_memcpy_eq [OF assms(2)] by (simp add: split_beta)

theorem strlcpy_versions_agree_witness:
  "strlcpy (Some ''....'') (Some ''up'') 3
    = map_option (\<lambda>(d', n). (Some d', n)) (strlcpy_memcpy ''....'' ''up'' 3)"
  by (rule strlcpy_versions_agree) (simp_all add: cstring_def NUL_def)

section \<open>What strlcat leaves in the destination\<close>

lemma dst_len_eq: "n \<le> length d \<Longrightarrow> dst_len d n = length (takeWhile (\<lambda>c. c \<noteq> NUL) (take n d))"
  by (induction d n rule: dst_len.induct) auto

lemma strlcat_loop_eq:
  "0 < n \<Longrightarrow> j + n \<le> length d \<Longrightarrow>
   strlcat_loop d j n s =
     Some (take j d @ take (n - 1) s @ drop (j + min (n - 1) (length s)) d,
       j + min (n - 1) (length s))"
proof (induction s arbitrary: d j n)
  case Nil
  then show ?case by simp
next
  case (Cons c s)
  show ?case
  proof (cases "n = 1")
    case True
    then have "strlcat_loop d j n (c # s) = strlcat_loop d j 1 s" by simp
    then show ?thesis using Cons.IH [of 1 j d] Cons.prems True by simp
  next
    case False
    then obtain m where n: "n = Suc (Suc m)" using Cons.prems by (cases n; cases "n - 1") auto
    have "strlcat_loop (d[j := c]) (Suc j) (Suc m) s =
      Some (take (Suc j) (d[j := c]) @ take m s @ drop (Suc j + min m (length s)) (d[j := c]),
        Suc j + min m (length s))"
      using Cons.IH [of "Suc m" "Suc j" "d[j := c]"] Cons.prems n by simp
    then show ?thesis using Cons.prems n by (simp add: take_Suc_conv_app_nth)
  qed
qed

text \<open>
  \<open>strlcat\<close> never writes outside a destination of the stated size: when the destination
  holds a C string shorter than the size, the result holds that string followed by as much of
  the source as fits before the final NUL, and the length it tried to build is returned; when
  there is no NUL within the size, nothing is written.
\<close>

theorem strlcat_safe:
  assumes "cstring s" and "cstring p" and "sz \<le> length d" and "d = p @ r"
    and "if length p < sz then (\<exists>r'. r = NUL # r') else True"
  shows "\<exists>d'. strlcat (Some d) (Some s) sz = Some (Some d', min (length p) sz + length s)
    \<and> length d' = length d
    \<and> (if length p < sz then str_of d' = p @ take (sz - 1 - length p) s else d' = d)"
proof (cases "length p < sz")
  case True
  then obtain r' where r: "r = NUL # r'" using assms(5) by auto
  have tw: "takeWhile (\<lambda>c. c \<noteq> NUL) (take sz (p @ NUL # r')) = p"
    using True assms(2) by (auto simp: cstring_def take_Cons' takeWhile_append)
  have dl: "dst_len d sz = length p"
    using dst_len_eq [OF assms(3)] tw assms(4) r by simp
  let ?n = "sz - length p"
  let ?k = "min (?n - 1) (length s)"
  let ?d = "p @ take (?n - 1) s @ drop (length p + ?k) d"
  have loop: "strlcat_loop d (length p) ?n s = Some (?d, length p + ?k)"
    using strlcat_loop_eq [of ?n "length p" d s] True assms(3,4) by simp
  have lt: "length p + ?k < length d" using True assms(3) by simp
  have upd: "?d[length p + ?k := NUL] = p @ take (?n - 1) s @ NUL # drop (Suc (length p + ?k)) d"
    using lt by (simp add: list_update_append Cons_nth_drop_Suc [symmetric] min_def)
  have str: "str_of (p @ take (?n - 1) s @ NUL # t) = p @ take (?n - 1) s" for t
    using str_of_prefix [of "p @ take (?n - 1) s" "length p + ?n"] assms(1,2)
    by (auto simp: cstring_def dest: in_set_takeD)
  show ?thesis
    using True dl loop lt upd str by (auto simp: strlcat_def Let_def min_def)
next
  case False
  then have "takeWhile (\<lambda>c. c \<noteq> NUL) (take sz d) = take sz p"
    using assms(2,4) by (auto simp: takeWhile_eq_all_conv cstring_def dest: in_set_takeD)
  then have "dst_len d sz = sz" using dst_len_eq [OF assms(3)] False by simp
  then show ?thesis using False by (simp add: strlcat_def Let_def)
qed

theorem strlcat_safe_witness:
  "\<exists>d'. strlcat (Some (''ab'' @ NUL # ''xyz'')) (Some ''cdef'') 6
      = Some (Some d', min (length ''ab'') 6 + length ''cdef'')
    \<and> length d' = length (''ab'' @ NUL # ''xyz'')
    \<and> (if length ''ab'' < 6 then str_of d' = ''ab'' @ take (6 - 1 - length ''ab'') ''cdef''
       else d' = ''ab'' @ NUL # ''xyz'')"
  by (rule strlcat_safe [of "''cdef''" "''ab''" 6 "''ab'' @ NUL # ''xyz''" "NUL # ''xyz''"])
    (simp_all add: cstring_def NUL_def)

end
