(* ===== verification/World.thy ===== *)
theory World
  imports Time_Util Xstring
begin

text \<open>
  What the device code sees of its surroundings, and the device access of \<open>dev/gpio.c\<close>,
  \<open>dev/pcf8574.c\<close> and the queueing half of \<open>ve/event.c\<close>.

  The surroundings are a record of functions of a tick that every access advances: the
  clocks, the bytes the GPIO files hold, the outcome of an I2C transaction and of an allocation
  can be different at every access, and a theorem about every such record is a theorem about
  every behaviour of the surroundings. The registers and queues the code changes are ordinary
  fields, and \<open>io\<close> records, newest first, what reached the hardware.
\<close>

section \<open>The surroundings\<close>

text \<open>What \<open>open\<close> and \<open>read\<close> on a GPIO value file give.\<close>

datatype gpio_rd = Gpio_Open_Fail | Gpio_Read_Fail | Gpio_Byte u8

text \<open>Where an I2C access of \<open>pcf8574_set_bit\<close> stops.\<close>

datatype i2c_st = I2C_Ok | I2C_Open_Fail | I2C_Lock_Fail | I2C_Read_Fail | I2C_Write_Fail

text \<open>
  The fields of the DSP message \<open>EntranceControlInput\<close> that the road gate code sets; all the
  others are zeroed by \<open>memset\<close>.
\<close>

record dsp_input =
  roadBrakeStatus :: int
  contorlMode :: int
  coilSensorStatus :: int
  antiCoilSensorStatus :: int

datatype io =
    GpioGet string int
  | GpioSet string int
  | PcfWrite u8 u8
  | Usleep int
  | PwmDuty int
  | DspSend dsp_input int

text \<open>The parts of \<open>ve_cfg_t\<close> and \<open>habitcom_t\<close> that the device code reads.\<close>

record light_cfg =
  white_bright :: u8
  white_mode :: u8

record ve_cfg =
  detect_mode :: u8
  ve_mode :: u8
  rg_mode :: u8
  light_cfg :: light_cfg

record habitcom =
  rg_timeout :: int
  run_mode :: int

record event_item =
  ev_tv :: timeval
  ident :: string
  desc :: string

record world =
  tick :: nat
  env_clock :: "nat \<Rightarrow> timeval"
  env_gpio :: "string \<Rightarrow> nat \<Rightarrow> gpio_rd"
  env_i2c :: "nat \<Rightarrow> i2c_st"
  env_alloc :: "nat \<Rightarrow> bool"
  env_mono :: "nat \<Rightarrow> timespec option"
  env_pwm :: "nat \<Rightarrow> bool"
  pcf :: u8
  events :: "event_item list"
  ev_sem :: nat
  cfg :: ve_cfg
  habit :: habitcom
  io :: "io list"

definition pass :: "('z world_scheme, unit) state" where
  "pass = writes (\<lambda>w. w\<lparr>tick := Suc (tick w)\<rparr>)"

definition emit :: "io \<Rightarrow> ('z world_scheme, unit) state" where
  "emit e = writes (\<lambda>w. w\<lparr>io := e # io w\<rparr>)"

definition usleep :: "int \<Rightarrow> ('z world_scheme, unit) state" where
  "usleep us = emit (Usleep us)"

definition gettimeofday :: "('z world_scheme, timeval) state" where
  "gettimeofday = do {
     t \<leftarrow> reads (\<lambda>w. env_clock w (tick w));
     pass;
     ret t }"

text \<open>\<open>clock_gettime(CLOCK_MONOTONIC, ...)\<close>, and \<open>open\<close> on the PWM device: whether it succeeds.\<close>

definition clock_gettime :: "('z world_scheme, timespec option) state" where
  "clock_gettime = do {
     t \<leftarrow> reads (\<lambda>w. env_mono w (tick w));
     pass;
     ret t }"

definition open_pwm :: "('z world_scheme, bool) state" where
  "open_pwm = do {
     b \<leftarrow> reads (\<lambda>w. env_pwm w (tick w));
     pass;
     ret b }"

text \<open>\<open>malloc\<close>: whether it returns memory.\<close>

definition malloc_ok :: "('z world_scheme, bool) state" where
  "malloc_ok = do {
     b \<leftarrow> reads (\<lambda>w. env_alloc w (tick w));
     pass;
     ret b }"

definition ve_cfg_get :: "('z world_scheme, ve_cfg) state" where
  "ve_cfg_get = reads cfg"

definition ve_cfg_set :: "ve_cfg \<Rightarrow> ('z world_scheme, unit) state" where
  "ve_cfg_set c = writes (\<lambda>w. w\<lparr>cfg := c\<rparr>)"

definition habitcom_get :: "('z world_scheme, habitcom) state" where
  "habitcom_get = reads habit"

definition timeval_is_overtime :: "timeval \<Rightarrow> int \<Rightarrow> ('z world_scheme, bool) state" where
  "timeval_is_overtime prev timeout = do {
     now \<leftarrow> gettimeofday;
     ret (overtime now prev timeout) }"

section \<open>GPIO\<close>

text \<open>
  \<open>gpio_get\<close>: -1 when the file cannot be opened; otherwise the character read, less 0x30,
  where a failed \<open>read\<close> leaves the initial 0x2F. \<open>char\<close> is unsigned on the target.
\<close>

definition gpio_get :: "string \<Rightarrow> ('z world_scheme, int) state" where
  "gpio_get gpio = do {
     r \<leftarrow> reads (\<lambda>w. env_gpio w gpio (tick w));
     pass;
     let v = (case r of Gpio_Open_Fail \<Rightarrow> - 1
              | Gpio_Read_Fail \<Rightarrow> 0x2F - 0x30
              | Gpio_Byte c \<Rightarrow> uint c - 0x30);
     emit (GpioGet gpio v);
     ret v }"

definition gpio_set :: "string \<Rightarrow> int \<Rightarrow> ('z world_scheme, int) state" where
  "gpio_set gpio val = do {
     r \<leftarrow> reads (\<lambda>w. env_gpio w gpio (tick w));
     pass;
     (if r = Gpio_Open_Fail then ret (- 1)
      else do {
        emit (GpioSet gpio val);
        usleep 10000;
        ret 0 }) }"

text \<open>The sampling loop of \<open>gpio_get_filter\<close>: how many of \<open>n\<close> samples are high.\<close>

primrec gpio_count_high :: "nat \<Rightarrow> string \<Rightarrow> int \<Rightarrow> int \<Rightarrow> ('z world_scheme, int) state" where
  "gpio_count_high 0 gpio intv high_cnt = ret high_cnt"
| "gpio_count_high (Suc n) gpio intv high_cnt = do {
     v \<leftarrow> gpio_get gpio;
     usleep (intv * 1000);
     gpio_count_high n gpio intv (if v = 1 then high_cnt + 1 else high_cnt) }"

definition filter_times :: "int \<Rightarrow> int" where
  "filter_times n =
     (let t = (if n < 4 then 4 else n) in if t AND 1 = 0 then t - 1 else t)"

definition gpio_get_filter :: "string \<Rightarrow> int \<Rightarrow> int \<Rightarrow> ('z world_scheme, int) state" where
  "gpio_get_filter gpio n intv = do {
     let n' = filter_times n;
     high_cnt \<leftarrow> gpio_count_high (nat n') gpio intv 0;
     let low_cnt = n' - high_cnt;
     ret (if low_cnt < high_cnt then 1 else 0) }"

section \<open>The port expander\<close>

definition setbit :: "u8 \<Rightarrow> nat \<Rightarrow> u8" where
  "setbit n b = n OR push_bit b 1"

definition clrbit :: "u8 \<Rightarrow> nat \<Rightarrow> u8" where
  "clrbit n b = n AND NOT (push_bit b 1)"

definition pcf_newval :: "u8 \<Rightarrow> nat \<Rightarrow> int \<Rightarrow> u8" where
  "pcf_newval regval b value = (if value = 1 then setbit regval b else clrbit regval b)"

text \<open>
  \<open>pcf8574_set_bit\<close>: open and lock the bus, read the register, change one bit, write it back.
  The register is a latch that reads back what was written; the file lock makes the
  read-modify-write one access.
\<close>

definition pcf8574_set_bit :: "nat \<Rightarrow> int \<Rightarrow> ('z world_scheme, int) state" where
  "pcf8574_set_bit b value = do {
     st \<leftarrow> reads (\<lambda>w. env_i2c w (tick w));
     pass;
     (case st of
        I2C_Ok \<Rightarrow> do {
          regval \<leftarrow> reads pcf;
          let regval' = pcf_newval regval b value;
          writes (\<lambda>w. w\<lparr>pcf := regval'\<rparr>);
          emit (PcfWrite regval regval');
          ret 0 }
      | _ \<Rightarrow> ret (- 1)) }"

section \<open>Queueing an event\<close>

text \<open>
  \<open>event_item_alloc\<close>, the two \<open>strlcpy\<close> calls into the 16 and 512 byte fields, and
  \<open>event_put\<close>, as every port function calls them. Nothing happens when the allocation fails.
\<close>

definition event_item_alloc :: "('z world_scheme, event_item option) state" where
  "event_item_alloc = do {
     ok \<leftarrow> malloc_ok;
     (if ok then do {
        t \<leftarrow> gettimeofday;
        ret (Some \<lparr>ev_tv = t, ident = [], desc = []\<rparr>) }
      else ret None) }"

definition event_put :: "event_item \<Rightarrow> ('z world_scheme, int) state" where
  "event_put item = do {
     writes (\<lambda>w. w\<lparr>events := events w @ [item], ev_sem := Suc (ev_sem w)\<rparr>);
     ret 0 }"

definition EVENT_IDENT_LEN :: nat where "EVENT_IDENT_LEN = 16"
definition EVENT_DESC_LEN :: nat where "EVENT_DESC_LEN = 512"

definition put_event :: "string \<Rightarrow> string \<Rightarrow> ('z world_scheme, unit) state" where
  "put_event i d = do {
     ei \<leftarrow> event_item_alloc;
     (case ei of None \<Rightarrow> ret ()
      | Some ei \<Rightarrow> do {
          event_put (ei\<lparr>ident := take (EVENT_IDENT_LEN - 1) i, desc := take (EVENT_DESC_LEN - 1) d\<rparr>);
          ret () }) }"

section \<open>Facts about the accesses\<close>

lemmas world_defs =
  pass_def emit_def usleep_def gettimeofday_def malloc_ok_def ve_cfg_get_def habitcom_get_def
  timeval_is_overtime_def gpio_get_def gpio_set_def event_item_alloc_def event_put_def
  put_event_def pcf8574_set_bit_def

lemma eval_case_i2c [simp, monad_simps]:
  "eval (case st of I2C_Ok \<Rightarrow> m | _ \<Rightarrow> n) s = (if st = I2C_Ok then eval m s else eval n s)"
  and exec_case_i2c [simp, monad_simps]:
  "exec (case st of I2C_Ok \<Rightarrow> m | _ \<Rightarrow> n) s = (if st = I2C_Ok then exec m s else exec n s)"
  by (cases st; simp)+

subsection \<open>The filtered GPIO read is a majority vote\<close>

lemma filter_times_odd: "odd (filter_times n)"
  unfolding filter_times_def Let_def and_one_eq by presburger

lemma filter_times_ge: "3 \<le> filter_times n"
  unfolding filter_times_def Let_def and_one_eq by presburger

lemma filter_times_5 [simp]: "filter_times 5 = 5"
  by (simp add: filter_times_def)

text \<open>Whether the sample taken at a tick is high, and how many of a run of samples are.\<close>

definition gpio_high :: "'z world_scheme \<Rightarrow> string \<Rightarrow> nat \<Rightarrow> bool" where
  "gpio_high w gpio t \<longleftrightarrow> env_gpio w gpio t = Gpio_Byte 0x31"

definition highs :: "'z world_scheme \<Rightarrow> string \<Rightarrow> nat \<Rightarrow> nat \<Rightarrow> nat" where
  "highs w gpio t n = length (filter (gpio_high w gpio) [t..<t + n])"

lemma uint_eq_0x31: "uint (c :: u8) - 48 = 1 \<longleftrightarrow> c = 0x31"
proof
  assume "uint c - 48 = 1"
  then have "word_of_int (uint c) = (word_of_int 49 :: u8)" by simp
  then show "c = 0x31" by simp
qed simp

lemma gpio_get_1: "eval (gpio_get gpio) w = 1 \<longleftrightarrow> gpio_high w gpio (tick w)"
  by (cases "env_gpio w gpio (tick w)")
    (simp_all add: gpio_get_def gpio_high_def Let_def uint_eq_0x31)

lemma exec_gpio_get:
  "exec (gpio_get gpio) w
     = w\<lparr>tick := Suc (tick w), io := GpioGet gpio (eval (gpio_get gpio) w) # io w\<rparr>"
  by (simp add: gpio_get_def pass_def emit_def Let_def)

lemma highs_0 [simp]: "highs w gpio t 0 = 0"
  by (simp add: highs_def)

lemma highs_Suc:
  "highs w gpio t (Suc n) = (if gpio_high w gpio t then 1 else 0) + highs w gpio (Suc t) n"
proof -
  have "[t..<t + Suc n] = t # [Suc t..<Suc t + n]" by (subst upt_conv_Cons) auto
  then show ?thesis by (simp add: highs_def)
qed

lemma highs_env: "env_gpio w' gpio = env_gpio w gpio \<Longrightarrow> highs w' gpio t n = highs w gpio t n"
  by (simp add: highs_def gpio_high_def [abs_def])

lemma eval_gpio_count_high:
  "eval (gpio_count_high n gpio intv k) w = k + int (highs w gpio (tick w) n)"
proof (induction n arbitrary: k w)
  case 0
  then show ?case by simp
next
  case (Suc n)
  let ?w = "exec (usleep (intv * 1000)) (exec (gpio_get gpio) w)"
  have "tick ?w = Suc (tick w)" "env_gpio ?w gpio = env_gpio w gpio"
    by (simp_all add: exec_gpio_get usleep_def emit_def)
  then show ?case
    by (simp add: Suc.IH gpio_get_1 highs_Suc highs_env [of ?w gpio w])
qed

text \<open>
  Debounced input: \<open>gpio_get_filter\<close> takes an odd number of samples, at least three, so
  the vote cannot tie, and answers 1 exactly when the strict majority of them read high.
\<close>

theorem gpio_get_filter_majority:
  "odd (filter_times n) \<and> 3 \<le> filter_times n
   \<and> eval (gpio_get_filter gpio n intv) w
      = (if filter_times n < 2 * int (highs w gpio (tick w) (nat (filter_times n))) then 1 else 0)"
  using filter_times_odd [of n] filter_times_ge [of n]
  by (simp add: gpio_get_filter_def Let_def eval_gpio_count_high)

subsection \<open>The port expander changes one bit\<close>

lemma bit_setbit [simp]: "b < 8 \<Longrightarrow> bit (setbit n b) i \<longleftrightarrow> bit n i \<or> i = b"
  by (auto simp: setbit_def bit_simps)

lemma bit_clrbit [simp]: "bit (clrbit n b) i \<longleftrightarrow> bit n i \<and> i \<noteq> b"
  by (auto simp: clrbit_def bit_simps dest: bit_imp_le_length)

lemma bit_pcf_newval:
  "b < 8 \<Longrightarrow> bit (pcf_newval n b v) i \<longleftrightarrow> (if i = b then v = 1 else bit n i)"
  by (simp add: pcf_newval_def)

lemma eval_pcf8574_set_bit:
  "eval (pcf8574_set_bit b v) w = (if env_i2c w (tick w) = I2C_Ok then 0 else - 1)"
  by (simp add: pcf8574_set_bit_def pass_def emit_def)

lemma exec_pcf8574_set_bit:
  "exec (pcf8574_set_bit b v) w =
     (if env_i2c w (tick w) = I2C_Ok
      then w\<lparr>tick := Suc (tick w), pcf := pcf_newval (pcf w) b v,
             io := PcfWrite (pcf w) (pcf_newval (pcf w) b v) # io w\<rparr>
      else w\<lparr>tick := Suc (tick w)\<rparr>)"
  by (simp add: pcf8574_set_bit_def pass_def emit_def Let_def)

text \<open>
  \<open>pcf8574_set_bit\<close> is a one-bit update: on success exactly the addressed bit takes the
  wanted value and one register write is made; when any step of the I2C access fails it
  returns -1 and neither the register nor the bus sees anything.
\<close>

theorem pcf8574_set_bit_one_bit:
  assumes "b < 8"
  shows "(eval (pcf8574_set_bit b v) w = 0
      \<and> (\<forall>i. bit (pcf (exec (pcf8574_set_bit b v) w)) i
              = (if i = b then v = 1 else bit (pcf w) i))
      \<and> length (io (exec (pcf8574_set_bit b v) w)) = Suc (length (io w)))
    \<or> (eval (pcf8574_set_bit b v) w = - 1
      \<and> pcf (exec (pcf8574_set_bit b v) w) = pcf w
      \<and> io (exec (pcf8574_set_bit b v) w) = io w)"
  using bit_pcf_newval [OF assms] by (simp add: eval_pcf8574_set_bit exec_pcf8574_set_bit)

definition idle_world :: world where
  "idle_world = \<lparr>tick = 0, env_clock = (\<lambda>t. \<lparr>tv_sec = int t, tv_usec = 0\<rparr>),
     env_gpio = (\<lambda>g t. Gpio_Byte 0x31), env_i2c = (\<lambda>t. I2C_Ok), env_alloc = (\<lambda>t. True),
     env_mono = (\<lambda>t. Some \<lparr>ts_sec = int t, ts_nsec = 0\<rparr>), env_pwm = (\<lambda>t. True),
     pcf = 0xFF, events = [], ev_sem = 0,
     cfg = \<lparr>detect_mode = 1, ve_mode = 0, rg_mode = 0,
            light_cfg = \<lparr>white_bright = 50, white_mode = 0\<rparr>\<rparr>,
     habit = \<lparr>rg_timeout = 10, run_mode = 2\<rparr>, io = []\<rparr>"

theorem pcf8574_set_bit_one_bit_witness:
  "(eval (pcf8574_set_bit 1 0) idle_world = 0
      \<and> (\<forall>i. bit (pcf (exec (pcf8574_set_bit 1 0) idle_world)) i
              = (if i = 1 then (0 :: int) = 1 else bit (pcf idle_world) i))
      \<and> length (io (exec (pcf8574_set_bit 1 0) idle_world)) = Suc (length (io idle_world)))
    \<or> (eval (pcf8574_set_bit 1 0) idle_world = - 1
      \<and> pcf (exec (pcf8574_set_bit 1 0) idle_world) = pcf idle_world
      \<and> io (exec (pcf8574_set_bit 1 0) idle_world) = io idle_world)"
  by (rule pcf8574_set_bit_one_bit) simp

subsection \<open>What the accesses leave alone\<close>

text \<open>
  The surroundings never change and the tick only grows: \<open>same_env\<close> is kept by every access.
\<close>

definition same_env :: "'z world_scheme \<Rightarrow> 'z world_scheme \<Rightarrow> bool" where
  "same_env w w' \<longleftrightarrow> env_clock w' = env_clock w \<and> env_gpio w' = env_gpio w
     \<and> env_i2c w' = env_i2c w \<and> env_alloc w' = env_alloc w
     \<and> env_mono w' = env_mono w \<and> env_pwm w' = env_pwm w
     \<and> cfg w' = cfg w \<and> habit w' = habit w \<and> tick w \<le> tick w'"

interpretation same_env: effect same_env
  by unfold_locales (auto simp: same_env_def)

lemma keeps_pass: "keeps same_env pass"
  and keeps_emit: "keeps same_env (emit e)"
  and keeps_usleep: "keeps same_env (usleep us)"
  and keeps_event_put: "keeps same_env (event_put item)"
  and keeps_pcf: "keeps same_env (pcf8574_set_bit b v)"
  and keeps_gpio_get: "keeps same_env (gpio_get gpio)"
  by (auto intro!: keepsI simp: same_env_def pass_def emit_def usleep_def event_put_def
      exec_pcf8574_set_bit exec_gpio_get)

lemmas same_env_intros =
  same_env.keeps_intros keeps_pass keeps_emit keeps_usleep keeps_event_put keeps_pcf keeps_gpio_get

lemma keeps_gettimeofday: "keeps same_env gettimeofday"
  unfolding gettimeofday_def by (intro same_env_intros)

lemma keeps_overtime: "keeps same_env (timeval_is_overtime p n)"
  unfolding timeval_is_overtime_def by (intro same_env_intros keeps_gettimeofday)

lemma keeps_put_event: "keeps same_env (put_event i d)"
  unfolding put_event_def event_item_alloc_def malloc_ok_def
  by (intro same_env_intros keeps_gettimeofday)

lemma keeps_gpio_count_high: "keeps same_env (gpio_count_high n gpio intv k)"
  by (induction n arbitrary: k) (auto intro!: same_env_intros)

lemma keeps_gpio_get_filter: "keeps same_env (gpio_get_filter gpio n intv)"
  unfolding gpio_get_filter_def Let_def by (intro same_env_intros keeps_gpio_count_high)

end
