(* ===== verification/Roadgate_Data.thy ===== *)
theory Roadgate_Data
  imports World
begin

text \<open>
  The data of the road gate, \<open>ve/dev/roadgate/roadgate_data.[ch]\<close>: controls, statuses, the
  gate record with its queue of pending controls, and the accessors the machines use. The
  queue is the list of the controls in arrival order; the control a machine looks at is always
  its first one, and \<open>rg_del_new_ctrl\<close>, only ever called on that control, drops it.
\<close>

section \<open>Constants\<close>

abbreviation (input) COIL_DETECT_NONE :: int where "COIL_DETECT_NONE \<equiv> 1"
abbreviation (input) COIL_DETECT_VEHICLE :: int where "COIL_DETECT_VEHICLE \<equiv> 0"

abbreviation (input) RG_CTRLER_LO :: u8 where "RG_CTRLER_LO \<equiv> 0"
abbreviation (input) RG_CTRLER_CENTER :: u8 where "RG_CTRLER_CENTER \<equiv> 1"
abbreviation (input) RG_CTRLER_END :: u8 where "RG_CTRLER_END \<equiv> 2"

abbreviation (input) RG_CTRL_AUTO :: u8 where "RG_CTRL_AUTO \<equiv> 0"
abbreviation (input) RG_CTRL_MANUAL :: u8 where "RG_CTRL_MANUAL \<equiv> 1"
abbreviation (input) RG_CTRL_OTHER :: u8 where "RG_CTRL_OTHER \<equiv> 2"
abbreviation (input) RG_CTRL_END :: u8 where "RG_CTRL_END \<equiv> 3"

abbreviation (input) RG_ACTION_DN :: u8 where "RG_ACTION_DN \<equiv> 0"
abbreviation (input) RG_ACTION_UP :: u8 where "RG_ACTION_UP \<equiv> 1"
abbreviation (input) RG_ACTION_STOP :: u8 where "RG_ACTION_STOP \<equiv> 2"
abbreviation (input) RG_ACTION_NC_SET :: u8 where "RG_ACTION_NC_SET \<equiv> 3"
abbreviation (input) RG_ACTION_NC_CLR :: u8 where "RG_ACTION_NC_CLR \<equiv> 4"
abbreviation (input) RG_ACTION_NO_SET :: u8 where "RG_ACTION_NO_SET \<equiv> 5"
abbreviation (input) RG_ACTION_END :: u8 where "RG_ACTION_END \<equiv> 6"

abbreviation (input) STATUS_IDLE :: int where "STATUS_IDLE \<equiv> 0"
abbreviation (input) STATUS_CENTER_OPEN :: int where "STATUS_CENTER_OPEN \<equiv> 1"
abbreviation (input) STATUS_CENTER_CLOSE :: int where "STATUS_CENTER_CLOSE \<equiv> 2"
abbreviation (input) STATUS_CENTER_STOP :: int where "STATUS_CENTER_STOP \<equiv> 3"
abbreviation (input) STATUS_CENTER_NC :: int where "STATUS_CENTER_NC \<equiv> 4"
abbreviation (input) STATUS_CENTER_NC_LO_WAIT :: int where "STATUS_CENTER_NC_LO_WAIT \<equiv> 5"
abbreviation (input) STATUS_CENTER_NC_CENTER_OPEN :: int where "STATUS_CENTER_NC_CENTER_OPEN \<equiv> 6"
abbreviation (input) STATUS_CENTER_NC_CENTER_CLOSE :: int where "STATUS_CENTER_NC_CENTER_CLOSE \<equiv> 7"
abbreviation (input) STATUS_CENTER_NC_CENTER_STOP :: int where "STATUS_CENTER_NC_CENTER_STOP \<equiv> 8"
abbreviation (input) STATUS_CENTER_NO :: int where "STATUS_CENTER_NO \<equiv> 9"
abbreviation (input) STATUS_LO_OPEN :: int where "STATUS_LO_OPEN \<equiv> 10"
abbreviation (input) STATUS_END :: int where "STATUS_END \<equiv> 11"

section \<open>Records\<close>

record rg_ctrl_t =
  ctrler :: u8
  ctype :: u8
  action :: u8
  timeout :: u32

record rg_t =
  status :: u8
  prev_status :: u8
  ctrl :: rg_ctrl_t
  ctrl_ls :: "rg_ctrl_t list"
  last_time :: timeval

record rgw = world +
  rg :: rg_t

section \<open>Texts\<close>

definition ctrl_type_text :: "string list" where
  "ctrl_type_text = [''auto'', ''manual'', ''other'']"

definition ctrl_ctrler_text :: "string list" where
  "ctrl_ctrler_text = [''local'', ''center'']"

definition ctrl_action_text :: "string list" where
  "ctrl_action_text = [''down'', ''up'', ''stop'', ''normal close set'', ''normal close clear'',
     ''normal open set'']"

definition status_text :: "string list" where
  "status_text = [''idle'', ''center open'', ''center close'', ''center stop'',
     ''center normal close'', ''center normal close and wait cancel'',
     ''center normal close and manual open'', ''center normal close and manual close'',
     ''center normal close and manual stop'', ''center normal open'', ''local open'']"

text \<open>
  \<open>if (type < numberof(tab)) return tab[type];\<close> with a signed index: the comparison with the
  \<open>size_t\<close> bound is unsigned, so a negative index is refused as well.
\<close>

definition text_lookup :: "string list \<Rightarrow> int \<Rightarrow> string option" where
  "text_lookup tab i =
     (if (word_of_int i :: u32) < word_of_nat (length tab) then Some (tab ! nat i) else None)"

definition rg_get_status_text :: "int \<Rightarrow> string option" where
  "rg_get_status_text t = text_lookup status_text t"

definition rg_get_ctrl_type_text :: "int \<Rightarrow> string option" where
  "rg_get_ctrl_type_text t = text_lookup ctrl_type_text t"

definition rg_get_ctrl_ctrler_text :: "int \<Rightarrow> string option" where
  "rg_get_ctrl_ctrler_text c = text_lookup ctrl_ctrler_text c"

definition rg_get_ctrl_action_text :: "int \<Rightarrow> string option" where
  "rg_get_ctrl_action_text a = text_lookup ctrl_action_text a"

section \<open>Checking a control\<close>

definition rg_ctrl_is_ok :: "rg_ctrl_t \<Rightarrow> bool" where
  "rg_ctrl_is_ok c =
     (if RG_CTRLER_END \<le> ctrler c then False
      else if ctrler c = RG_CTRLER_LO then
        (action c XOR RG_ACTION_UP) OR (ctype c XOR RG_CTRL_AUTO) = 0
      else if ctrler c = RG_CTRLER_CENTER then
        action c < RG_ACTION_END \<and> ctype c < RG_CTRL_END
      else False)"

section \<open>Accessors and updates\<close>

definition upd_rg :: "(rg_t \<Rightarrow> rg_t) \<Rightarrow> ('z rgw_scheme, unit) state" where
  "upd_rg f = writes (\<lambda>s. s\<lparr>rg := f (rg s)\<rparr>)"

definition rg_get_new_ctrl :: "('z rgw_scheme, rg_ctrl_t option) state" where
  "rg_get_new_ctrl = reads (\<lambda>s. case ctrl_ls (rg s) of [] \<Rightarrow> None | c # _ \<Rightarrow> Some c)"

definition rg_del_new_ctrl :: "rg_ctrl_t \<Rightarrow> ('z rgw_scheme, unit) state" where
  "rg_del_new_ctrl c = upd_rg (\<lambda>r. r\<lparr>ctrl_ls := tl (ctrl_ls r)\<rparr>)"

definition rg_update_curr_ctrl :: "rg_ctrl_t \<Rightarrow> ('z rgw_scheme, unit) state" where
  "rg_update_curr_ctrl c = upd_rg (\<lambda>r. r\<lparr>ctrl := c\<rparr>)"

definition rg_get_prev_status :: "('z rgw_scheme, int) state" where
  "rg_get_prev_status = reads (\<lambda>s. uint (prev_status (rg s)))"

definition rg_get_curr_status :: "('z rgw_scheme, int) state" where
  "rg_get_curr_status = reads (\<lambda>s. uint (status (rg s)))"

definition rg_refresh_last_time :: "('z rgw_scheme, unit) state" where
  "rg_refresh_last_time = do {
     t \<leftarrow> gettimeofday;
     upd_rg (\<lambda>r. r\<lparr>last_time := t\<rparr>) }"

definition rg_refresh_status :: "int \<Rightarrow> ('z rgw_scheme, unit) state" where
  "rg_refresh_status next_status = do {
     st \<leftarrow> rg_get_curr_status;
     (if st \<noteq> next_status
      then upd_rg (\<lambda>r. r\<lparr>prev_status := status r, status := word_of_int next_status\<rparr>)
      else ret ()) }"

text \<open>\<open>timeval_is_overtime(&rg->last_time, rg->ctrl.timeout)\<close>: the unsigned timeout becomes signed.\<close>

definition rg_is_overtime :: "('z rgw_scheme, bool) state" where
  "rg_is_overtime = do {
     r \<leftarrow> reads rg;
     timeval_is_overtime (last_time r) (sint (timeout (ctrl r))) }"

text \<open>
  \<open>rg_new_ctrl_alloc\<close> (whether there is memory for a control) and, of \<open>roadgate.c\<close>, the
  initialisation of the record and the queueing of a control, which takes any control.
\<close>

definition rg_new_ctrl_alloc :: "('z rgw_scheme, bool) state" where
  "rg_new_ctrl_alloc = malloc_ok"

definition roadgate_ram_init :: "('z rgw_scheme, int) state" where
  "roadgate_ram_init = do {
     upd_rg (\<lambda>r. r\<lparr>ctrl_ls := [], status := 0\<rparr>);
     ret 0 }"

definition roadgate_new_ctrl :: "rg_ctrl_t \<Rightarrow> ('z rgw_scheme, int) state" where
  "roadgate_new_ctrl c = do {
     upd_rg (\<lambda>r. r\<lparr>ctrl_ls := ctrl_ls r @ [c]\<rparr>);
     ret 0 }"

section \<open>Lemmas\<close>

lemmas rg_ops =
  upd_rg_def rg_get_new_ctrl_def rg_del_new_ctrl_def rg_update_curr_ctrl_def
  rg_get_prev_status_def rg_get_curr_status_def rg_refresh_status_def

text \<open>The world accesses leave the gate record alone.\<close>

lemma rg_pass [simp]: "rg (exec pass s) = rg s"
  and rg_emit [simp]: "rg (exec (emit e) s) = rg s"
  and rg_usleep [simp]: "rg (exec (usleep us) s) = rg s"
  and rg_event_put [simp]: "rg (exec (event_put item) s) = rg s"
  and rg_pcf [simp]: "rg (exec (pcf8574_set_bit b v) s) = rg s"
  and rg_gpio_get [simp]: "rg (exec (gpio_get g) s) = rg s"
  by (simp_all add: pass_def emit_def usleep_def event_put_def exec_pcf8574_set_bit exec_gpio_get)

lemma rg_gettimeofday [simp]: "rg (exec gettimeofday s) = rg s"
  by (simp add: gettimeofday_def)

lemma rg_timeval_is_overtime [simp]: "rg (exec (timeval_is_overtime p n) s) = rg s"
  by (simp add: timeval_is_overtime_def)

lemma rg_put_event [simp]: "rg (exec (put_event i d) s) = rg s"
  by (simp add: put_event_def event_item_alloc_def malloc_ok_def split: option.split)

lemma rg_gpio_count_high [simp]: "rg (exec (gpio_count_high n g intv k) s) = rg s"
  by (induction n arbitrary: k s) simp_all

lemma rg_gpio_get_filter [simp]: "rg (exec (gpio_get_filter g n intv) s) = rg s"
  by (simp add: gpio_get_filter_def Let_def)

lemma rg_rg_is_overtime [simp]: "rg (exec rg_is_overtime s) = rg s"
  by (simp add: rg_is_overtime_def)

lemma eval_rg_refresh_last_time [simp]: "eval rg_refresh_last_time s = ()"
  by simp

lemma rg_rg_refresh_last_time [simp]:
  "rg (exec rg_refresh_last_time s) = (rg s)\<lparr>last_time := env_clock s (tick s)\<rparr>"
  by (simp add: rg_refresh_last_time_def upd_rg_def gettimeofday_def)

lemma rg_rg_update_curr_ctrl [simp]: "rg (exec (rg_update_curr_ctrl c) s) = (rg s)\<lparr>ctrl := c\<rparr>"
  and rg_rg_del_new_ctrl [simp]:
    "rg (exec (rg_del_new_ctrl c) s) = (rg s)\<lparr>ctrl_ls := tl (ctrl_ls (rg s))\<rparr>"
  by (simp_all add: rg_ops)

lemma rg_getters [simp]:
  "eval rg_get_curr_status s = uint (status (rg s))" "exec rg_get_curr_status s = s"
  "eval rg_get_prev_status s = uint (prev_status (rg s))" "exec rg_get_prev_status s = s"
  "eval rg_get_new_ctrl s = (case ctrl_ls (rg s) of [] \<Rightarrow> None | c # _ \<Rightarrow> Some c)"
  "exec rg_get_new_ctrl s = s"
  by (simp_all add: rg_ops)

lemma rg_rg_refresh_status [simp]:
  "rg (exec (rg_refresh_status n) s) =
     (if uint (status (rg s)) \<noteq> n
      then (rg s)\<lparr>prev_status := status (rg s), status := word_of_int n\<rparr> else rg s)"
  by (simp add: rg_refresh_status_def upd_rg_def)

text \<open>
  \<open>rg_ctrl_is_ok\<close> accepts exactly the controls the machines know: the automatic raise of
  the local controller, and every known action of every known type from the center.
\<close>

theorem rg_ctrl_is_ok_iff:
  "rg_ctrl_is_ok c \<longleftrightarrow>
     ctrler c = RG_CTRLER_LO \<and> action c = RG_ACTION_UP \<and> ctype c = RG_CTRL_AUTO
   \<or> ctrler c = RG_CTRLER_CENTER \<and> action c < RG_ACTION_END \<and> ctype c < RG_CTRL_END"
proof -
  have or0: "x OR y = 0 \<longleftrightarrow> x = 0 \<and> y = 0" for x y :: u8
    by (auto simp: or_eq_0_iff)
  have xor0: "x XOR y = 0 \<longleftrightarrow> x = y" for x y :: u8
    by (auto simp: bit_eq_iff bit_xor_iff)
  have "\<not> (2 :: u8) \<le> 1" by (simp add: word_le_def)
  then show ?thesis
    unfolding rg_ctrl_is_ok_def or0 xor0 by auto
qed

lemma text_lookup_range:
  assumes "length tab < 2 ^ 31" and "- (2 ^ 31) \<le> i" and "i < 2 ^ 31"
  shows "text_lookup tab i = (if 0 \<le> i \<and> i < int (length tab) then Some (tab ! nat i) else None)"
proof -
  have len: "uint (word_of_nat (length tab) :: u32) = int (length tab)"
    using assms(1) by (simp add: uint_word_of_int take_bit_nat_eq_self unsigned_of_nat)
  have "uint (word_of_int i :: u32) = i mod 2 ^ 32"
    by (simp add: uint_word_of_int)
  also have "\<dots> = (if 0 \<le> i then i else i + 2 ^ 32)"
    using assms(2,3) mod_add_self2 [of i "2 ^ 32"] by (auto simp: mod_pos_pos_trivial not_le simp del: mod_add_self2)
  finally have "(word_of_int i :: u32) < word_of_nat (length tab) \<longleftrightarrow> 0 \<le> i \<and> i < int (length tab)"
    unfolding word_less_def len using assms by auto
  then show ?thesis by (simp add: text_lookup_def)
qed

text \<open>
  The status text lookup never reads outside its table: every 32-bit index, negative ones
  included, gives the text of a status of the machine or nothing.
\<close>

theorem rg_get_status_text_total:
  assumes "- (2 ^ 31) \<le> t" and "t < 2 ^ 31"
  shows "rg_get_status_text t
    = (if 0 \<le> t \<and> t < STATUS_END then Some (status_text ! nat t) else None)"
  unfolding rg_get_status_text_def
  using text_lookup_range [of status_text t] assms by (simp add: status_text_def)

theorem rg_get_status_text_total_witness:
  "rg_get_status_text 4 = Some ''center normal close'' \<and> rg_get_status_text (- 1) = None"
  using rg_get_status_text_total [of 4] rg_get_status_text_total [of "- 1"]
  by (simp add: status_text_def)

end
