(* ===== verification/Roadgate_Ports.thy ===== *)
theory Roadgate_Ports
  imports Roadgate_Data
begin

text \<open>
  The outputs and inputs of the road gate: \<open>ve/dev/roadgate/roadgate_ports.c\<close> (the three
  active-low lines stop, down and up on the port expander, the two induction coils on GPIO)
  and \<open>ve/dev/roadgate/dsp_msg.c\<close> (status messages to the DSP).
\<close>

abbreviation (input) RG_STOP_BIT :: nat where "RG_STOP_BIT \<equiv> 0"
abbreviation (input) RG_DN_BIT :: nat where "RG_DN_BIT \<equiv> 1"
abbreviation (input) RG_UP_BIT :: nat where "RG_UP_BIT \<equiv> 2"

definition SAFE_COIL_GPIO :: string where "SAFE_COIL_GPIO = ''gpio24''"
definition DETECT_COIL_GPIO :: string where "DETECT_COIL_GPIO = ''gpio72''"

section \<open>DSP messages\<close>

abbreviation (input) DSP_RG_DN :: int where "DSP_RG_DN \<equiv> 1"
abbreviation (input) DSP_RG_UP :: int where "DSP_RG_UP \<equiv> 2"
abbreviation (input) DSP_DETECT_COIL_INTO :: int where "DSP_DETECT_COIL_INTO \<equiv> 1"
abbreviation (input) DSP_DETECT_COIL_LEAVE :: int where "DSP_DETECT_COIL_LEAVE \<equiv> 2"
abbreviation (input) DSP_SAFE_COIL_INTO :: int where "DSP_SAFE_COIL_INTO \<equiv> 1"
abbreviation (input) DSP_SAFE_COIL_LEAVE :: int where "DSP_SAFE_COIL_LEAVE \<equiv> 2"

definition dsp_zero :: dsp_input where
  "dsp_zero = \<lparr>roadBrakeStatus = 0, contorlMode = 0, coilSensorStatus = 0, antiCoilSensorStatus = 0\<rparr>"

definition send_dsp_msg :: "dsp_input \<Rightarrow> int \<Rightarrow> ('z world_scheme, unit) state" where
  "send_dsp_msg d ty = emit (DspSend d ty)"

definition rg_status_sendto_dsp :: "int \<Rightarrow> ('z world_scheme, unit) state" where
  "rg_status_sendto_dsp st = send_dsp_msg (dsp_zero\<lparr>roadBrakeStatus := st\<rparr>) 4"

definition detect_coil_sendto_dsp :: "int \<Rightarrow> ('z world_scheme, unit) state" where
  "detect_coil_sendto_dsp st = send_dsp_msg (dsp_zero\<lparr>contorlMode := 2, coilSensorStatus := st\<rparr>) 4"

definition safe_coil_sendto_dsp :: "int \<Rightarrow> ('z world_scheme, unit) state" where
  "safe_coil_sendto_dsp st = send_dsp_msg (dsp_zero\<lparr>antiCoilSensorStatus := st, contorlMode := 2\<rparr>) 4"

definition ytbrk_rg_status_sendto_dsp :: "int \<Rightarrow> ('z world_scheme, unit) state" where
  "ytbrk_rg_status_sendto_dsp st = send_dsp_msg (dsp_zero\<lparr>roadBrakeStatus := st\<rparr>) 4"

section \<open>Ports\<close>

definition coil_text_tab :: "string list" where
  "coil_text_tab = [''detected'', ''undetected'']"

definition get_coil_text :: "int \<Rightarrow> string option" where
  "get_coil_text v = text_lookup coil_text_tab v"

definition rg_down :: "('z world_scheme, unit) state" where
  "rg_down = do {
     put_event ''gate'' ''down'';
     pcf8574_set_bit RG_DN_BIT 0;
     usleep (100 * 1000);
     pcf8574_set_bit RG_DN_BIT 1;
     ret () }"

definition rg_set_up_signal :: "('z world_scheme, unit) state" where
  "rg_set_up_signal = do {
     put_event ''gate'' ''up'';
     pcf8574_set_bit RG_UP_BIT 0;
     ret () }"

definition rg_clr_up_signal :: "('z world_scheme, unit) state" where
  "rg_clr_up_signal = do {
     pcf8574_set_bit RG_UP_BIT 1;
     ret () }"

definition rg_stop :: "('z world_scheme, unit) state" where
  "rg_stop = do {
     put_event ''gate'' ''stop'';
     pcf8574_set_bit RG_STOP_BIT 0;
     usleep (100 * 1000);
     pcf8574_set_bit RG_STOP_BIT 1;
     ret () }"

definition rg_read_safe_coil :: "('z world_scheme, int) state" where
  "rg_read_safe_coil = gpio_get_filter SAFE_COIL_GPIO 5 1"

definition rg_read_in_coil :: "('z world_scheme, int) state" where
  "rg_read_in_coil = gpio_get_filter DETECT_COIL_GPIO 5 1"

definition rg_down_s :: "('z world_scheme, unit) state" where
  "rg_down_s = do {
     v \<leftarrow> rg_read_safe_coil;
     (if v = 1 then do {
        rg_clr_up_signal;
        rg_down }
      else ret ()) }"

definition rg_dev_init :: "('z world_scheme, unit) state" where
  "rg_dev_init = do {
     pcf8574_set_bit RG_DN_BIT 1;
     pcf8574_set_bit RG_UP_BIT 1;
     pcf8574_set_bit RG_STOP_BIT 1;
     ret () }"

lemmas port_defs =
  rg_down_def rg_set_up_signal_def rg_clr_up_signal_def rg_stop_def rg_dev_init_def
lemmas dsp_defs =
  send_dsp_msg_def rg_status_sendto_dsp_def detect_coil_sendto_dsp_def safe_coil_sendto_dsp_def
  ytbrk_rg_status_sendto_dsp_def

section \<open>The ports leave the gate record alone\<close>

lemma rg_ports [simp]:
  "rg (exec rg_down s) = rg s" "rg (exec rg_set_up_signal s) = rg s"
  "rg (exec rg_clr_up_signal s) = rg s" "rg (exec rg_stop s) = rg s"
  "rg (exec rg_dev_init s) = rg s"
  by (simp_all add: port_defs)

lemma rg_read_coils [simp]:
  "rg (exec rg_read_safe_coil s) = rg s" "rg (exec rg_read_in_coil s) = rg s"
  by (simp_all add: rg_read_safe_coil_def rg_read_in_coil_def)

lemma rg_rg_down_s [simp]: "rg (exec rg_down_s s) = rg s"
  by (simp add: rg_down_s_def)

lemma rg_dsp [simp]:
  "rg (exec (rg_status_sendto_dsp st) s) = rg s" "rg (exec (detect_coil_sendto_dsp st) s) = rg s"
  "rg (exec (safe_coil_sendto_dsp st) s) = rg s" "rg (exec (ytbrk_rg_status_sendto_dsp st) s) = rg s"
  by (simp_all add: dsp_defs)

section \<open>When the down line may fall\<close>

text \<open>
  The down line is active low: the bar is driven down when bit 1 of the register falls. A
  history \<open>io\<close> is \<open>dn_guarded\<close> when every such fall comes right after a debounced reading of
  the safe coil that found it free: between the reading and the fall only register writes
  (the release of the up line) may lie, and the reading is five samples, each followed by its
  1 ms pause, at least three of them high.
\<close>

definition dn_falls :: "u8 \<Rightarrow> u8 \<Rightarrow> bool" where
  "dn_falls old new \<longleftrightarrow> bit old RG_DN_BIT \<and> \<not> bit new RG_DN_BIT"

fun is_pcf_write :: "io \<Rightarrow> bool" where
  "is_pcf_write (PcfWrite _ _) = True"
| "is_pcf_write _ = False"

fun safe_sampling :: "io \<Rightarrow> bool" where
  "safe_sampling (GpioGet g v) = (g = SAFE_COIL_GPIO)"
| "safe_sampling (Usleep us) = (us = 1000)"
| "safe_sampling _ = False"

fun safe_free :: "io \<Rightarrow> bool" where
  "safe_free (GpioGet g v) = (g = SAFE_COIL_GPIO \<and> v = 1)"
| "safe_free _ = False"

definition safe_before :: "io list \<Rightarrow> bool" where
  "safe_before h =
     (let u = take 10 (dropWhile is_pcf_write h)
      in length u = 10 \<and> list_all safe_sampling u \<and> 3 \<le> length (filter safe_free u))"

fun dn_guarded :: "io list \<Rightarrow> bool" where
  "dn_guarded [] = True"
| "dn_guarded (PcfWrite old new # h) = ((dn_falls old new \<longrightarrow> safe_before h) \<and> dn_guarded h)"
| "dn_guarded (e # h) = dn_guarded h"

text \<open>What the sampling loop appends to the history.\<close>

primrec samples :: "'z world_scheme \<Rightarrow> string \<Rightarrow> int \<Rightarrow> nat \<Rightarrow> nat \<Rightarrow> io list" where
  "samples w g intv t 0 = []"
| "samples w g intv t (Suc n) =
     samples w g intv (Suc t) n @
     [Usleep (intv * 1000), GpioGet g (case env_gpio w g t of Gpio_Open_Fail \<Rightarrow> - 1
         | Gpio_Read_Fail \<Rightarrow> - 1 | Gpio_Byte c \<Rightarrow> uint c - 48)]"

lemma samples_env: "env_gpio w' g = env_gpio w g \<Longrightarrow> samples w' g intv t n = samples w g intv t n"
  by (induction n arbitrary: t) simp_all

lemma length_samples [simp]: "length (samples w g intv t n) = 2 * n"
  by (induction n arbitrary: t) simp_all

lemma eval_gpio_get:
  "eval (gpio_get g) w = (case env_gpio w g (tick w) of Gpio_Open_Fail \<Rightarrow> - 1
     | Gpio_Read_Fail \<Rightarrow> - 1 | Gpio_Byte c \<Rightarrow> uint c - 48)"
  by (simp add: gpio_get_def Let_def split: gpio_rd.split)

lemma io_gpio_count_high:
  "io (exec (gpio_count_high n g intv k) w) = samples w g intv (tick w) n @ io w"
proof (induction n arbitrary: k w)
  case 0
  then show ?case by simp
next
  case (Suc n)
  let ?w = "exec (usleep (intv * 1000)) (exec (gpio_get g) w)"
  have w: "tick ?w = Suc (tick w)" "env_gpio ?w g = env_gpio w g"
    "io ?w = Usleep (intv * 1000) # GpioGet g (eval (gpio_get g) w) # io w"
    by (simp_all add: exec_gpio_get usleep_def emit_def)
  show ?case
    by (simp add: Suc.IH w samples_env [of ?w g w] eval_gpio_get)
qed

lemma samples_sampling: "list_all safe_sampling (samples w SAFE_COIL_GPIO 1 t n)"
  by (induction n arbitrary: t) simp_all

lemma samples_free: "length (filter safe_free (samples w SAFE_COIL_GPIO 1 t n)) = highs w SAFE_COIL_GPIO t n"
proof (induction n arbitrary: t)
  case 0
  then show ?case by simp
next
  case (Suc n)
  then show ?case
    using uint_eq_0x31
    by (simp add: highs_Suc gpio_high_def split: gpio_rd.split)
qed

lemma io_read_safe_coil:
  "io (exec rg_read_safe_coil w) = samples w SAFE_COIL_GPIO 1 (tick w) 5 @ io w"
  by (simp add: rg_read_safe_coil_def gpio_get_filter_def Let_def io_gpio_count_high)

lemma safe_before_samples:
  assumes "list_all is_pcf_write p" and "2 < highs w SAFE_COIL_GPIO t 5"
  shows "safe_before (p @ samples w SAFE_COIL_GPIO 1 t 5 @ h)"
proof -
  let ?u = "samples w SAFE_COIL_GPIO 1 t 5"
  have "\<exists>e r. ?u = e # r \<and> \<not> is_pcf_write e"
    using samples_sampling [of w t 5] length_samples [of w SAFE_COIL_GPIO 1 t 5]
    by (cases ?u) (auto elim: safe_sampling.elims)
  then have "dropWhile is_pcf_write (p @ ?u @ h) = ?u @ h"
    using assms(1) by (auto simp: dropWhile_append2 list_all_iff)
  then show ?thesis
    using assms(2) by (simp add: safe_before_def samples_sampling samples_free)
qed

lemma dn_guarded_append:
  "list_all (\<lambda>e. \<not> is_pcf_write e) p \<Longrightarrow> dn_guarded (p @ h) = dn_guarded h"
proof (induction p)
  case (Cons e p)
  then show ?case by (cases e) simp_all
qed simp

lemma samples_no_write: "list_all (\<lambda>e. \<not> is_pcf_write e) (samples w g intv t n)"
  by (induction n arbitrary: t) simp_all

lemma dn_falls_other: "b < 8 \<Longrightarrow> b \<noteq> RG_DN_BIT \<or> v = 1 \<Longrightarrow> \<not> dn_falls r (pcf_newval r b v)"
  by (auto simp: dn_falls_def bit_pcf_newval)

end
