(* ===== verification/Rg_Machine.thy ===== *)
theory Rg_Machine
  imports Roadgate_Ports
begin

text \<open>
  What the 24 road gate machines of \<open>ve/dev/roadgate/{coil,mix,video}\<close> share. Each source file
  holds one machine: a handler per status and a function that calls the handler of the current
  status. The bodies of the handlers are, file by file, the same two dozen texts with other
  tables of actions, so each text is one definition here, with the tables as arguments, and
  the machines' handlers are these definitions at the tables of their file.

  \<open>Rg_Contract\<close> states what a machine promises and derives it from these bodies,
  \<open>Rg_Effect\<close> does the same for what a machine does to its surroundings.
\<close>

section \<open>Tables of actions\<close>

text \<open>
  A table with designated initialisers is the association list of its initialised entries; an
  entry that is not initialised has a null \<open>handle\<close>.
\<close>

type_synonym 'z rgm = "('z rgw_scheme, int) state"
type_synonym ('k, 'z) ctrl_tab = "('k \<times> ('z rgw_scheme, unit) state \<times> int) list"

text \<open>\<open>if (tab[k].handle) { tab[k].handle(); status = tab[k].status; changed = true; }\<close>\<close>

definition tab_handle :: "('k, 'z) ctrl_tab \<Rightarrow> 'k \<Rightarrow> int \<Rightarrow> ('z rgw_scheme, int \<times> bool) state" where
  "tab_handle tab k st =
     (case map_of tab k of
        None \<Rightarrow> ret (st, False)
      | Some (handle, st') \<Rightarrow> do { handle; ret (st', True) })"

text \<open>The look-up guards around it, for the center's and for the local controller's table.\<close>

definition center_handle ::
  "(u8 \<times> u8, 'z) ctrl_tab \<Rightarrow> rg_ctrl_t \<Rightarrow> int \<Rightarrow> ('z rgw_scheme, int \<times> bool) state" where
  "center_handle tab c st =
     (if action c < RG_ACTION_END \<and> ctype c < RG_CTRL_END
      then tab_handle tab (ctype c, action c) st else ret (st, False))"

definition lo_handle ::
  "(u8, 'z) ctrl_tab \<Rightarrow> rg_ctrl_t \<Rightarrow> int \<Rightarrow> ('z rgw_scheme, int \<times> bool) state" where
  "lo_handle tab c st =
     (if action c < RG_ACTION_END then tab_handle tab (action c) st else ret (st, False))"

section \<open>Handler bodies\<close>

text \<open>\<open>*_idle\<close>, with and without a local controller.\<close>

definition no_resume :: "rg_ctrl_t \<Rightarrow> int \<Rightarrow> bool" where
  "no_resume c prev \<longleftrightarrow> ctype c = RG_CTRL_MANUAL \<and> action c = RG_ACTION_NC_CLR
     \<and> (prev = STATUS_CENTER_NC \<or> prev = STATUS_CENTER_NO)"

definition idle_lo_center :: "(u8, 'z) ctrl_tab \<Rightarrow> (u8 \<times> u8, 'z) ctrl_tab \<Rightarrow> 'z rgm" where
  "idle_lo_center lo_tab tab = do {
     st \<leftarrow> rg_get_curr_status;
     c \<leftarrow> rg_get_new_ctrl;
     (case c of None \<Rightarrow> ret st
      | Some c \<Rightarrow> do {
          (st, changed, resume) \<leftarrow>
            (if ctrler c = RG_CTRLER_LO then do {
               (st, changed) \<leftarrow> lo_handle lo_tab c st;
               ret (st, changed, True) }
             else if ctrler c = RG_CTRLER_CENTER then do {
               (st, changed) \<leftarrow> center_handle tab c st;
               prev \<leftarrow> rg_get_prev_status;
               ret (st, changed, \<not> no_resume c prev) }
             else ret (st, False, True));
          st \<leftarrow> (if changed then do {
                    rg_refresh_last_time;
                    rg_update_curr_ctrl c;
                    ret st }
                  else if resume then rg_get_prev_status
                  else ret st);
          rg_del_new_ctrl c;
          ret st }) }"

definition idle_center :: "(u8 \<times> u8, 'z) ctrl_tab \<Rightarrow> 'z rgm" where
  "idle_center tab = do {
     st \<leftarrow> rg_get_curr_status;
     c \<leftarrow> rg_get_new_ctrl;
     (case c of None \<Rightarrow> ret st
      | Some c \<Rightarrow> do {
          (st, changed, resume) \<leftarrow>
            (if ctrler c = RG_CTRLER_CENTER then do {
               (st, changed) \<leftarrow> center_handle tab c st;
               prev \<leftarrow> rg_get_prev_status;
               ret (st, changed, \<not> no_resume c prev) }
             else ret (st, False, True));
          st \<leftarrow> (if changed then do {
                    rg_refresh_last_time;
                    rg_update_curr_ctrl c;
                    ret st }
                  else if resume then rg_get_prev_status
                  else ret st);
          rg_del_new_ctrl c;
          ret st }) }"

text \<open>\<open>*_center_nc\<close>, with and without a local controller.\<close>

definition nc_lo_center :: "(u8, 'z) ctrl_tab \<Rightarrow> (u8 \<times> u8, 'z) ctrl_tab \<Rightarrow> 'z rgm" where
  "nc_lo_center lo_tab tab = do {
     st \<leftarrow> rg_get_curr_status;
     c \<leftarrow> rg_get_new_ctrl;
     (case c of None \<Rightarrow> ret st
      | Some c \<Rightarrow> do {
          (st, changed) \<leftarrow>
            (if ctrler c = RG_CTRLER_LO then lo_handle lo_tab c st
             else if ctrler c = RG_CTRLER_CENTER then center_handle tab c st
             else ret (st, False));
          st \<leftarrow> (if changed then do {
                    rg_refresh_last_time;
                    rg_update_curr_ctrl c;
                    ret st }
                  else rg_get_prev_status);
          rg_del_new_ctrl c;
          ret st }) }"

definition nc_center :: "(u8 \<times> u8, 'z) ctrl_tab \<Rightarrow> 'z rgm" where
  "nc_center tab = do {
     st \<leftarrow> rg_get_curr_status;
     c \<leftarrow> rg_get_new_ctrl;
     (case c of None \<Rightarrow> ret st
      | Some c \<Rightarrow> do {
          (st, changed) \<leftarrow>
            (if ctrler c = RG_CTRLER_CENTER then center_handle tab c st else ret (st, False));
          st \<leftarrow> (if changed then do {
                    rg_refresh_last_time;
                    rg_update_curr_ctrl c;
                    ret st }
                  else rg_get_prev_status);
          rg_del_new_ctrl c;
          ret st }) }"

text \<open>\<open>*_center_nc_lo_wait\<close>.\<close>

definition nc_lo_wait :: "(u8 \<times> u8, 'z) ctrl_tab \<Rightarrow> 'z rgm" where
  "nc_lo_wait tab = do {
     st \<leftarrow> rg_get_curr_status;
     c \<leftarrow> rg_get_new_ctrl;
     (case c of None \<Rightarrow> do {
          v \<leftarrow> rg_read_in_coil;
          ret (if v = COIL_DETECT_NONE then STATUS_CENTER_NC else st) }
      | Some c \<Rightarrow> do {
          (st, changed) \<leftarrow>
            (if ctrler c = RG_CTRLER_CENTER then center_handle tab c st else ret (st, False));
          (if changed then do {
             rg_update_curr_ctrl c;
             rg_refresh_last_time }
           else ret ());
          rg_del_new_ctrl c;
          ret st }) }"

text \<open>\<open>*_center_no\<close>.\<close>

definition no_center :: "(u8 \<times> u8, 'z) ctrl_tab \<Rightarrow> 'z rgm" where
  "no_center tab = do {
     st \<leftarrow> rg_get_curr_status;
     c \<leftarrow> rg_get_new_ctrl;
     (case c of None \<Rightarrow> ret st
      | Some c \<Rightarrow> do {
          (st, changed) \<leftarrow>
            (if ctrler c = RG_CTRLER_CENTER then center_handle tab c st else ret (st, False));
          (if changed then do {
             rg_update_curr_ctrl c;
             rg_refresh_last_time }
           else ret ());
          rg_del_new_ctrl c;
          ret st }) }"

text \<open>The open statuses: close after the timeout, with the conditions of the different files.\<close>

definition open_overtime :: "int \<Rightarrow> 'z rgm" where
  "open_overtime next = do {
     st \<leftarrow> rg_get_curr_status;
     over \<leftarrow> rg_is_overtime;
     (if over then do { rg_clr_up_signal; ret next } else ret st) }"

definition open_overtime_coil :: "'z rgm" where
  "open_overtime_coil = do {
     st \<leftarrow> rg_get_curr_status;
     over \<leftarrow> rg_is_overtime;
     (if over then do {
        v \<leftarrow> rg_read_in_coil;
        (if v = COIL_DETECT_NONE then do { rg_clr_up_signal; ret STATUS_IDLE } else ret st) }
      else ret st) }"

definition open_new_ctrl :: "'z rgm" where
  "open_new_ctrl = do {
     st \<leftarrow> rg_get_curr_status;
     c \<leftarrow> rg_get_new_ctrl;
     (if c = None then do {
        over \<leftarrow> rg_is_overtime;
        (if over then do { rg_clr_up_signal; ret STATUS_IDLE } else ret st) }
      else ret STATUS_IDLE) }"

definition open_new_ctrl_coil :: "'z rgm" where
  "open_new_ctrl_coil = do {
     st \<leftarrow> rg_get_curr_status;
     c \<leftarrow> rg_get_new_ctrl;
     (if c = None then do {
        v \<leftarrow> rg_read_in_coil;
        (if v = COIL_DETECT_NONE then do {
           over \<leftarrow> rg_is_overtime;
           (if over then do { rg_clr_up_signal; ret STATUS_IDLE } else ret st) }
         else ret st) }
      else ret STATUS_IDLE) }"

definition open_overtime_new_ctrl_coil :: "'z rgm" where
  "open_overtime_new_ctrl_coil = do {
     st \<leftarrow> rg_get_curr_status;
     c \<leftarrow> rg_get_new_ctrl;
     over \<leftarrow> rg_is_overtime;
     (if over then
        (if c = None then do {
           v \<leftarrow> rg_read_in_coil;
           (if v = COIL_DETECT_NONE then do { rg_clr_up_signal; ret STATUS_IDLE } else ret st) }
         else ret STATUS_IDLE)
      else ret st) }"

text \<open>
  \<open>*_lo_open\<close> of the entrances that look at the queue while the bar is up: the status to go on
  with and whether the control at the head is deleted. \<open>jump\<close> are the manual actions of the
  center that end the local opening.
\<close>

definition lo_open_screen :: "u8 list \<Rightarrow> rg_ctrl_t \<Rightarrow> int \<Rightarrow> int \<times> bool" where
  "lo_open_screen jump c st =
     (let (st, del) =
        (if ctrler c = RG_CTRLER_CENTER \<and> ctype c = RG_CTRL_MANUAL then
           (let (st, del) = (if action c \<in> set jump then (STATUS_IDLE, False) else (st, True))
            in if action c = RG_ACTION_NC_SET \<or> action c = RG_ACTION_NO_SET
               then (st, False) else (st, del))
         else (st, True))
      in if ctrler c = RG_CTRLER_LO then (STATUS_IDLE, False) else (st, del))"

definition lo_open_queue :: "u8 list \<Rightarrow> 'z rgm" where
  "lo_open_queue jump = do {
     st \<leftarrow> rg_get_curr_status;
     c \<leftarrow> rg_get_new_ctrl;
     (case c of None \<Rightarrow> ret st
      | Some c \<Rightarrow>
          (let (st, del) = lo_open_screen jump c st in
           do { (if del then rg_del_new_ctrl c else ret ()); ret st })) }"

definition lo_open_coil :: "u8 list \<Rightarrow> 'z rgm" where
  "lo_open_coil jump = do {
     st \<leftarrow> lo_open_queue jump;
     v \<leftarrow> rg_read_in_coil;
     (if v = COIL_DETECT_NONE then do { rg_clr_up_signal; ret STATUS_IDLE } else ret st) }"

definition lo_open_coil_overtime :: "u8 list \<Rightarrow> 'z rgm" where
  "lo_open_coil_overtime jump = do {
     st \<leftarrow> lo_open_queue jump;
     v \<leftarrow> rg_read_in_coil;
     (if v = COIL_DETECT_NONE then do {
        over \<leftarrow> rg_is_overtime;
        (if over then do { rg_clr_up_signal; ret STATUS_IDLE } else ret st) }
      else ret st) }"

text \<open>\<open>*_center_nc_center_open\<close> and the statuses that fall back to normally closed.\<close>

definition nc_open :: "'z rgm" where
  "nc_open = do {
     st \<leftarrow> rg_get_curr_status;
     c \<leftarrow> rg_get_new_ctrl;
     (if c = None then do {
        over \<leftarrow> rg_is_overtime;
        (if over then do { rg_clr_up_signal; ret STATUS_CENTER_NC } else ret st) }
      else ret STATUS_CENTER_NC) }"

definition nc_or_lo_wait :: "'z rgm" where
  "nc_or_lo_wait = do {
     prev \<leftarrow> rg_get_prev_status;
     ret (if prev = STATUS_CENTER_NC_LO_WAIT then STATUS_CENTER_NC_LO_WAIT else STATUS_CENTER_NC) }"

definition nc_open_lo_wait :: "'z rgm" where
  "nc_open_lo_wait = do {
     st \<leftarrow> rg_get_curr_status;
     c \<leftarrow> rg_get_new_ctrl;
     (if c = None then do {
        over \<leftarrow> rg_is_overtime;
        (if over then do { rg_clr_up_signal; nc_or_lo_wait } else ret st) }
      else nc_or_lo_wait) }"

text \<open>Raising the bar for the local controller only when a vehicle is on the detection coil.\<close>

definition set_up_signal_on_coil :: "('z rgw_scheme, unit) state" where
  "set_up_signal_on_coil = do {
     v \<leftarrow> rg_read_in_coil;
     (if v = COIL_DETECT_VEHICLE then rg_set_up_signal else ret ()) }"

section \<open>The machine: calling the handler of the current status\<close>

text \<open>Calling a null entry of \<open>status_handle\<close> is a call through a null pointer.\<close>

datatype rg_fault = NullHandler

definition run_status_handle :: "(int \<times> 'z rgm) list \<Rightarrow> ('z rgw_scheme, rg_fault + int) state" where
  "run_status_handle status_handle = do {
     st \<leftarrow> rg_get_curr_status;
     (if STATUS_END \<le> st then ret (Inr (- 1))
      else (case map_of status_handle st of
              None \<Rightarrow> ret (Inl NullHandler)
            | Some h \<Rightarrow> do {
                next_status \<leftarrow> h;
                rg_refresh_status next_status;
                ret (Inr 0) })) }"

end
