(* ===== verification/Rg_Contract.thy ===== *)
theory Rg_Contract
  imports Rg_Machine
begin

text \<open>
  What every road gate machine promises to the daemon that runs it. The promise is the locale
  \<open>rg_machine\<close>: its step never calls a null handler, keeps the statuses inside the machine's own
  set, serves the controls in arrival order, waits only for the timeout and the detection coil,
  releases the up line when it closes, ignores everything but the center's manual "down" while
  normally open, and leaves the bar alone when a local control arrives while normally closed.

  A machine meets the promise when each of its handlers meets \<open>handler_ok\<close> for its status; the
  lemmas \<open>handler_*\<close> prove this once per handler body, with conditions on the tables only, and
  \<open>machineI\<close> assembles the machine's contract from them.
\<close>

section \<open>Statuses, waiting and the surroundings that end it\<close>

definition mach_inv :: "int set \<Rightarrow> 'z rgw_scheme \<Rightarrow> bool" where
  "mach_inv hs s \<longleftrightarrow> uint (status (rg s)) \<in> hs \<and> uint (prev_status (rg s)) \<in> hs"

text \<open>The statuses in which a control at the head of the queue is taken at once.\<close>

definition draining :: "int set" where
  "draining = {STATUS_IDLE, STATUS_CENTER_NC, STATUS_CENTER_NC_LO_WAIT, STATUS_CENTER_NO}"

text \<open>From now on the timeout of the current control has passed and the detection coil is free.\<close>

definition quiet :: "'z rgw_scheme \<Rightarrow> bool" where
  "quiet s \<longleftrightarrow> (\<forall>t \<ge> tick s.
     overtime (env_clock s t) (last_time (rg s)) (sint (timeout (ctrl (rg s))))
     \<and> gpio_high s DETECT_COIL_GPIO t)"

definition i2c_ok :: "'z world_scheme \<Rightarrow> bool" where
  "i2c_ok s \<longleftrightarrow> (\<forall>t \<ge> tick s. env_i2c s t = I2C_Ok)"

lemma keeps_rg_is_overtime: "keeps same_env rg_is_overtime"
  unfolding rg_is_overtime_def by (intro same_env_intros keeps_overtime)

lemma keeps_rg_read_in_coil: "keeps same_env rg_read_in_coil"
  and keeps_rg_read_safe_coil: "keeps same_env rg_read_safe_coil"
  unfolding rg_read_in_coil_def rg_read_safe_coil_def by (rule keeps_gpio_get_filter)+

lemma quiet_mono: "quiet s \<Longrightarrow> same_env s s' \<Longrightarrow> last_time (rg s') = last_time (rg s)
    \<Longrightarrow> ctrl (rg s') = ctrl (rg s) \<Longrightarrow> quiet s'"
  by (simp add: quiet_def same_env_def gpio_high_def)

lemma i2c_ok_mono: "i2c_ok s \<Longrightarrow> same_env s s' \<Longrightarrow> i2c_ok s'"
  by (simp add: i2c_ok_def same_env_def)

lemma quiet_reads [simp]:
  "quiet s \<Longrightarrow> quiet (exec rg_is_overtime s)" "quiet s \<Longrightarrow> quiet (exec rg_read_in_coil s)"
  "quiet s \<Longrightarrow> quiet (exec (rg_del_new_ctrl c) s)"
  by (rule quiet_mono, assumption, rule keepsD, rule keeps_rg_is_overtime keeps_rg_read_in_coil,
      simp, simp)+ (auto simp: rg_del_new_ctrl_def upd_rg_def quiet_def gpio_high_def)

lemma i2c_ok_reads [simp]:
  "i2c_ok s \<Longrightarrow> i2c_ok (exec rg_is_overtime s)" "i2c_ok s \<Longrightarrow> i2c_ok (exec rg_read_in_coil s)"
  "i2c_ok s \<Longrightarrow> i2c_ok (exec (rg_del_new_ctrl c) s)"
  by (rule i2c_ok_mono, assumption, rule keepsD, rule keeps_rg_is_overtime keeps_rg_read_in_coil)+
    (auto simp: rg_del_new_ctrl_def upd_rg_def i2c_ok_def)

lemma quiet_overtime [simp]: "quiet s \<Longrightarrow> eval rg_is_overtime s"
  by (simp add: quiet_def rg_is_overtime_def timeval_is_overtime_def gettimeofday_def)

lemma quiet_coil [simp]: "quiet s \<Longrightarrow> eval rg_read_in_coil s = COIL_DETECT_NONE"
proof -
  assume "quiet s"
  then have "filter (gpio_high s DETECT_COIL_GPIO) [tick s..<tick s + 5] = [tick s..<tick s + 5]"
    by (intro filter_True) (simp add: quiet_def)
  then have "highs s DETECT_COIL_GPIO (tick s) 5 = 5" by (simp add: highs_def)
  then show ?thesis
    by (simp add: rg_read_in_coil_def gpio_get_filter_def Let_def eval_gpio_count_high)
qed

lemma up_released [simp]: "i2c_ok s \<Longrightarrow> bit (pcf (exec rg_clr_up_signal s)) RG_UP_BIT"
  by (simp add: rg_clr_up_signal_def exec_pcf8574_set_bit i2c_ok_def bit_pcf_newval)

text \<open>Reads and bookkeeping leave the port register alone.\<close>

lemma pcf_gpio_count_high [simp]: "pcf (exec (gpio_count_high n g intv k) s) = pcf s"
  by (induction n arbitrary: k s) (simp_all add: exec_gpio_get usleep_def emit_def)

lemma pcf_coils [simp]:
  "pcf (exec rg_read_in_coil s) = pcf s" "pcf (exec rg_read_safe_coil s) = pcf s"
  by (simp_all add: rg_read_in_coil_def rg_read_safe_coil_def gpio_get_filter_def Let_def)

lemma pcf_frame [simp]:
  "pcf (exec rg_is_overtime s) = pcf s" "pcf (exec rg_refresh_last_time s) = pcf s"
  "pcf (exec (rg_update_curr_ctrl c) s) = pcf s" "pcf (exec (rg_del_new_ctrl c) s) = pcf s"
  "pcf (exec (rg_refresh_status n) s) = pcf s"
  by (simp_all add: rg_is_overtime_def timeval_is_overtime_def gettimeofday_def pass_def
      rg_refresh_last_time_def rg_ops)

lemma pcf_dsp [simp]: "pcf (exec (rg_status_sendto_dsp st) s) = pcf s"
  by (simp add: dsp_defs emit_def)

lemma up_asserted [simp]: "i2c_ok s \<Longrightarrow> \<not> bit (pcf (exec rg_set_up_signal s)) RG_UP_BIT"
proof -
  assume ok: "i2c_ok s"
  have "same_env s (exec (put_event ''gate'' ''up'') s)"
    by (rule keepsD [OF keeps_put_event])
  with ok have "i2c_ok (exec (put_event ''gate'' ''up'') s)"
    by (rule i2c_ok_mono)
  then show ?thesis
    by (simp add: rg_set_up_signal_def exec_pcf8574_set_bit i2c_ok_def bit_pcf_newval)
qed

section \<open>The contract of a handler\<close>

text \<open>The control at the head of the queue is the center's manual \<open>a\<close>.\<close>

definition manual :: "u8 \<Rightarrow> rg_ctrl_t \<Rightarrow> bool" where
  "manual a c \<longleftrightarrow> ctrler c = RG_CTRLER_CENTER \<and> ctype c = RG_CTRL_MANUAL \<and> action c = a"

definition head_manual :: "u8 \<Rightarrow> 'z rgw_scheme \<Rightarrow> bool" where
  "head_manual a s \<longleftrightarrow> (case ctrl_ls (rg s) of [] \<Rightarrow> False | c # _ \<Rightarrow> manual a c)"

definition head_local :: "'z rgw_scheme \<Rightarrow> bool" where
  "head_local s \<longleftrightarrow> (case ctrl_ls (rg s) of [] \<Rightarrow> False | c # _ \<Rightarrow> ctrler c = RG_CTRLER_LO)"

text \<open>
  A run of a handler from \<open>s\<close> in status \<open>k\<close> to \<open>s'\<close> with result \<open>r\<close>. The queue loses at most its
  head.
\<close>

definition queue_ok :: "int \<Rightarrow> 'z rgw_scheme \<Rightarrow> 'z rgw_scheme \<Rightarrow> bool" where
  "queue_ok k s s' \<longleftrightarrow>
     ctrl_ls (rg s') = tl (ctrl_ls (rg s)) \<or> k \<notin> draining \<and> ctrl_ls (rg s') = ctrl_ls (rg s)"

definition statuses_kept :: "'z rgw_scheme \<Rightarrow> 'z rgw_scheme \<Rightarrow> bool" where
  "statuses_kept s s' \<longleftrightarrow> status (rg s') = status (rg s) \<and> prev_status (rg s') = prev_status (rg s)"

definition waits_ok :: "int \<Rightarrow> 'z rgw_scheme \<Rightarrow> int \<Rightarrow> bool" where
  "waits_ok k s r \<longleftrightarrow> (k \<notin> draining \<and> quiet s \<longrightarrow> r \<in> draining)"

definition closes_ok :: "int \<Rightarrow> 'z rgw_scheme \<Rightarrow> int \<Rightarrow> 'z rgw_scheme \<Rightarrow> bool" where
  "closes_ok k s r s' \<longleftrightarrow>
     (k \<in> {STATUS_CENTER_OPEN, STATUS_LO_OPEN, STATUS_CENTER_NC_CENTER_OPEN}
        \<and> quiet s \<and> i2c_ok s \<and> ctrl_ls (rg s) = []
      \<longrightarrow> bit (pcf s') RG_UP_BIT
          \<and> (if k = STATUS_CENTER_NC_CENTER_OPEN
             then r = STATUS_CENTER_NC \<or> r = STATUS_CENTER_NC_LO_WAIT else r = STATUS_IDLE))"

definition no_holds :: "int \<Rightarrow> 'z rgw_scheme \<Rightarrow> int \<Rightarrow> 'z rgw_scheme \<Rightarrow> bool" where
  "no_holds k s r s' \<longleftrightarrow>
     (k = STATUS_CENTER_NO \<longrightarrow>
        (if head_manual RG_ACTION_DN s then r = STATUS_IDLE
         else r = STATUS_CENTER_NO \<and> pcf s' = pcf s))"

definition nc_blocks :: "int \<Rightarrow> 'z rgw_scheme \<Rightarrow> int \<Rightarrow> 'z rgw_scheme \<Rightarrow> bool" where
  "nc_blocks k s r s' \<longleftrightarrow>
     ((k = STATUS_CENTER_NC \<or> k = STATUS_CENTER_NC_LO_WAIT) \<and> head_local s \<longrightarrow> pcf s' = pcf s)
   \<and> (k = STATUS_CENTER_NC \<and> head_manual RG_ACTION_NC_CLR s
        \<longrightarrow> r = STATUS_IDLE \<and> pcf s' = pcf s)
   \<and> (k = STATUS_CENTER_NC \<and> head_manual RG_ACTION_NC_SET s
        \<longrightarrow> r = uint (prev_status (rg s)) \<and> pcf s' = pcf s)"

text \<open>A machine that cannot let a vehicle wait leaves normally closed when a local control arrives.\<close>

definition nc_local :: "int set \<Rightarrow> int \<Rightarrow> 'z rgw_scheme \<Rightarrow> int \<Rightarrow> bool" where
  "nc_local hs k s r \<longleftrightarrow>
     (k = STATUS_CENTER_NC \<and> head_local s \<and> STATUS_CENTER_NC_LO_WAIT \<notin> hs
        \<longrightarrow> r = uint (prev_status (rg s)))"

text \<open>What the five manual actions that an idle machine takes from the center lead to.\<close>

definition idle_target :: "u8 \<Rightarrow> int" where
  "idle_target a =
     (if a = RG_ACTION_DN then STATUS_CENTER_CLOSE
      else if a = RG_ACTION_UP then STATUS_CENTER_OPEN
      else if a = RG_ACTION_STOP then STATUS_CENTER_STOP
      else if a = RG_ACTION_NC_SET then STATUS_CENTER_NC
      else STATUS_CENTER_NO)"

definition idle_takes :: "int \<Rightarrow> 'z rgw_scheme \<Rightarrow> int \<Rightarrow> 'z rgw_scheme \<Rightarrow> bool" where
  "idle_takes k s r s' \<longleftrightarrow>
     (\<forall>a \<in> {RG_ACTION_DN, RG_ACTION_UP, RG_ACTION_STOP, RG_ACTION_NC_SET, RG_ACTION_NO_SET}.
        k = STATUS_IDLE \<and> head_manual a s \<longrightarrow>
          r = idle_target a \<and> ctrl (rg s') = hd (ctrl_ls (rg s))
          \<and> (i2c_ok s \<longrightarrow>
               (a = RG_ACTION_UP \<or> a = RG_ACTION_NO_SET \<longrightarrow> \<not> bit (pcf s') RG_UP_BIT)
             \<and> (a = RG_ACTION_NC_SET \<longrightarrow> bit (pcf s') RG_UP_BIT)))"

definition run_ok :: "int set \<Rightarrow> int \<Rightarrow> 'z rgw_scheme \<Rightarrow> int \<Rightarrow> 'z rgw_scheme \<Rightarrow> bool" where
  "run_ok hs k s r s' \<longleftrightarrow> r \<in> hs \<and> statuses_kept s s' \<and> queue_ok k s s' \<and> waits_ok k s r
     \<and> closes_ok k s r s' \<and> no_holds k s r s' \<and> nc_blocks k s r s' \<and> nc_local hs k s r
     \<and> idle_takes k s r s'"

definition handler_ok :: "int set \<Rightarrow> int \<Rightarrow> 'z rgm \<Rightarrow> bool" where
  "handler_ok hs k h \<longleftrightarrow>
     (\<forall>s. uint (status (rg s)) = k \<and> mach_inv hs s \<longrightarrow> run_ok hs k s (eval h s) (exec h s))"

lemma handler_okI:
  assumes "\<And>s. uint (status (rg s)) = k \<Longrightarrow> mach_inv hs s \<Longrightarrow> run_ok hs k s (eval h s) (exec h s)"
  shows "handler_ok hs k h"
  using assms by (simp add: handler_ok_def)

section \<open>Tables\<close>

definition center_entry ::
  "(u8 \<times> u8, 'z) ctrl_tab \<Rightarrow> rg_ctrl_t \<Rightarrow> (('z rgw_scheme, unit) state \<times> int) option" where
  "center_entry tab c =
     (if action c < RG_ACTION_END \<and> ctype c < RG_CTRL_END then map_of tab (ctype c, action c) else None)"

definition lo_entry ::
  "(u8, 'z) ctrl_tab \<Rightarrow> rg_ctrl_t \<Rightarrow> (('z rgw_scheme, unit) state \<times> int) option" where
  "lo_entry tab c = (if action c < RG_ACTION_END then map_of tab (action c) else None)"

lemma center_handle_entry [simp]:
  "eval (center_handle tab c st) s
     = (case center_entry tab c of None \<Rightarrow> (st, False) | Some (h, t) \<Rightarrow> (t, True))"
  "exec (center_handle tab c st) s
     = (case center_entry tab c of None \<Rightarrow> s | Some (h, t) \<Rightarrow> exec h s)"
  by (simp_all add: center_handle_def center_entry_def tab_handle_def split: option.split)

lemma lo_handle_entry [simp]:
  "eval (lo_handle tab c st) s
     = (case lo_entry tab c of None \<Rightarrow> (st, False) | Some (h, t) \<Rightarrow> (t, True))"
  "exec (lo_handle tab c st) s
     = (case lo_entry tab c of None \<Rightarrow> s | Some (h, t) \<Rightarrow> exec h s)"
  by (simp_all add: lo_handle_def lo_entry_def tab_handle_def split: option.split)

text \<open>
  A table is well formed for a machine: its targets are statuses of the machine and its actions
  leave the gate record alone.
\<close>

definition tab_ok :: "int set \<Rightarrow> ('k, 'z) ctrl_tab \<Rightarrow> bool" where
  "tab_ok hs tab \<longleftrightarrow> list_all (\<lambda>(k, h, t). t \<in> hs \<and> (\<forall>s. rg (exec h s) = rg s)) tab"

lemma tab_ok_map_of:
  "tab_ok hs tab \<Longrightarrow> map_of tab k = Some (h, t) \<Longrightarrow> t \<in> hs \<and> rg (exec h s) = rg s"
  by (drule map_of_SomeD) (auto simp: tab_ok_def list_all_iff)

lemma tab_ok_center:
  "tab_ok hs tab \<Longrightarrow> center_entry tab c = Some (h, t) \<Longrightarrow> t \<in> hs \<and> rg (exec h s) = rg s"
  by (auto simp: center_entry_def tab_ok_map_of split: if_splits)

lemma tab_ok_lo:
  "tab_ok hs tab \<Longrightarrow> lo_entry tab c = Some (h, t) \<Longrightarrow> t \<in> hs \<and> rg (exec h s) = rg s"
  by (auto simp: lo_entry_def tab_ok_map_of split: if_splits)

text \<open>Entries that all the machines have in common.\<close>

definition idle_tab :: "(u8 \<times> u8, 'z) ctrl_tab \<Rightarrow> bool" where
  "idle_tab tab \<longleftrightarrow>
     map_of tab (RG_CTRL_MANUAL, RG_ACTION_DN) = Some (rg_down_s, STATUS_CENTER_CLOSE)
   \<and> map_of tab (RG_CTRL_MANUAL, RG_ACTION_UP) = Some (rg_set_up_signal, STATUS_CENTER_OPEN)
   \<and> map_of tab (RG_CTRL_MANUAL, RG_ACTION_STOP) = Some (rg_stop, STATUS_CENTER_STOP)
   \<and> map_of tab (RG_CTRL_MANUAL, RG_ACTION_NC_SET) = Some (rg_clr_up_signal, STATUS_CENTER_NC)
   \<and> map_of tab (RG_CTRL_MANUAL, RG_ACTION_NO_SET) = Some (rg_set_up_signal, STATUS_CENTER_NO)"

definition nc_tab :: "(u8 \<times> u8, 'z) ctrl_tab \<Rightarrow> bool" where
  "nc_tab tab \<longleftrightarrow>
     map_of tab (RG_CTRL_MANUAL, RG_ACTION_NC_CLR) = Some (ret (), STATUS_IDLE)
   \<and> map_of tab (RG_CTRL_MANUAL, RG_ACTION_NC_SET) = None"

definition nc_lo_tab :: "(u8, 'z) ctrl_tab \<Rightarrow> bool" where
  "nc_lo_tab tab \<longleftrightarrow> list_all (\<lambda>(k, h, t). h = ret () \<and> t = STATUS_CENTER_NC_LO_WAIT) tab"

lemma manual_entry:
  "manual a c \<Longrightarrow> a < RG_ACTION_END
    \<Longrightarrow> ctrler c = RG_CTRLER_CENTER \<and> center_entry tab c = map_of tab (RG_CTRL_MANUAL, a)"
  by (simp add: manual_def center_entry_def)

lemma statuses_kept_rg [simp]: "rg s' = rg s \<Longrightarrow> statuses_kept s s'"
  by (simp add: statuses_kept_def)

section \<open>Handler bodies meet the contract\<close>

lemmas run_defs = run_ok_def queue_ok_def waits_ok_def closes_ok_def no_holds_def nc_blocks_def
  nc_local_def idle_takes_def statuses_kept_def draining_def

text \<open>
  In the other statuses only the result, the queue and the two laws on waiting and closing
  say anything; most handlers there leave the whole gate record alone.
\<close>

lemma run_ok_waiting:
  assumes "k \<notin> draining" "r \<in> hs" "statuses_kept s s'" "queue_ok k s s'"
    "quiet s \<Longrightarrow> r \<in> draining" "closes_ok k s r s'"
  shows "run_ok hs k s r s'"
  using assms
  by (simp add: run_ok_def waits_ok_def no_holds_def nc_blocks_def nc_local_def idle_takes_def
      draining_def)

lemma run_ok_still:
  assumes "k \<notin> draining" "r \<in> hs" "rg s' = rg s" "quiet s \<Longrightarrow> r \<in> draining"
    "closes_ok k s r s'"
  shows "run_ok hs k s r s'"
  using assms by (intro run_ok_waiting) (simp_all add: statuses_kept_def queue_ok_def)

lemma handler_const:
  assumes "r \<in> hs" and "r \<in> draining"
    and "k \<in> {STATUS_CENTER_CLOSE, STATUS_CENTER_STOP, STATUS_CENTER_NC_CENTER_CLOSE,
      STATUS_CENTER_NC_CENTER_STOP}"
  shows "handler_ok hs k (ret r)"
  using assms by (intro handler_okI run_ok_still) (auto simp: draining_def closes_ok_def)

lemma handler_nc_or_lo_wait:
  assumes "STATUS_CENTER_NC \<in> hs" and "STATUS_CENTER_NC_LO_WAIT \<in> hs"
    and "k \<in> {STATUS_CENTER_NC_CENTER_CLOSE, STATUS_CENTER_NC_CENTER_STOP}"
  shows "handler_ok hs k nc_or_lo_wait"
  using assms
  by (intro handler_okI run_ok_still) (auto simp: nc_or_lo_wait_def draining_def closes_ok_def)

lemmas open_bodies = open_overtime_def open_overtime_coil_def open_new_ctrl_def
  open_new_ctrl_coil_def open_overtime_new_ctrl_coil_def nc_open_def nc_open_lo_wait_def
  nc_or_lo_wait_def

lemma handler_open_overtime:
  assumes "next \<in> hs" and "k \<in> {STATUS_CENTER_OPEN, STATUS_LO_OPEN} \<and> next = STATUS_IDLE
      \<or> k = STATUS_CENTER_NC_CENTER_OPEN \<and> next = STATUS_CENTER_NC"
  shows "handler_ok hs k (open_overtime next)"
  using assms
  by (intro handler_okI run_ok_still)
    (auto simp: open_bodies mach_inv_def draining_def closes_ok_def)

lemma handler_open_overtime_coil:
  assumes "STATUS_IDLE \<in> hs" and "k \<in> {STATUS_CENTER_OPEN, STATUS_LO_OPEN}"
  shows "handler_ok hs k open_overtime_coil"
  using assms
  by (intro handler_okI run_ok_still)
    (auto simp: open_bodies mach_inv_def draining_def closes_ok_def)

lemma handler_open_new_ctrl:
  assumes "STATUS_IDLE \<in> hs" and "k \<in> {STATUS_CENTER_OPEN, STATUS_LO_OPEN}"
  shows "handler_ok hs k open_new_ctrl"
  using assms
  by (intro handler_okI run_ok_still)
    (auto simp: open_bodies mach_inv_def draining_def closes_ok_def split: list.split)

lemma handler_open_new_ctrl_coil:
  assumes "STATUS_IDLE \<in> hs" and "k \<in> {STATUS_CENTER_OPEN, STATUS_LO_OPEN}"
  shows "handler_ok hs k open_new_ctrl_coil"
  using assms
  by (intro handler_okI run_ok_still)
    (auto simp: open_bodies mach_inv_def draining_def closes_ok_def split: list.split)

lemma handler_open_overtime_new_ctrl_coil:
  assumes "STATUS_IDLE \<in> hs" and "k \<in> {STATUS_CENTER_OPEN, STATUS_LO_OPEN}"
  shows "handler_ok hs k open_overtime_new_ctrl_coil"
  using assms
  by (intro handler_okI run_ok_still)
    (auto simp: open_bodies mach_inv_def draining_def closes_ok_def split: list.split)

lemma handler_nc_open:
  assumes "STATUS_CENTER_NC \<in> hs"
  shows "handler_ok hs STATUS_CENTER_NC_CENTER_OPEN nc_open"
  using assms
  by (intro handler_okI run_ok_still)
    (auto simp: open_bodies mach_inv_def draining_def closes_ok_def split: list.split)

lemma handler_nc_open_lo_wait:
  assumes "STATUS_CENTER_NC \<in> hs" and "STATUS_CENTER_NC_LO_WAIT \<in> hs"
  shows "handler_ok hs STATUS_CENTER_NC_CENTER_OPEN nc_open_lo_wait"
  using assms
  by (intro handler_okI run_ok_still)
    (auto simp: open_bodies mach_inv_def draining_def closes_ok_def split: list.split)

lemma lo_open_screen_result: "lo_open_screen jump c st = (st', del) \<Longrightarrow> st' = st \<or> st' = STATUS_IDLE"
  by (auto simp: lo_open_screen_def split: if_splits)

lemma eval_lo_open_queue:
  "eval (lo_open_queue jump) s = uint (status (rg s)) \<or> eval (lo_open_queue jump) s = STATUS_IDLE"
  by (auto simp: lo_open_queue_def split: list.split prod.split dest: lo_open_screen_result)

lemma exec_lo_open_queue:
  "exec (lo_open_queue jump) s = s
   \<or> exec (lo_open_queue jump) s = exec (rg_del_new_ctrl (hd (ctrl_ls (rg s)))) s"
  by (auto simp: lo_open_queue_def split: list.split prod.split)

lemma handler_lo_open_coil:
  assumes "STATUS_IDLE \<in> hs"
  shows "handler_ok hs STATUS_LO_OPEN (lo_open_coil jump)"
proof (rule handler_okI)
  fix s :: "'a rgw_scheme"
  assume "uint (status (rg s)) = STATUS_LO_OPEN" "mach_inv hs s"
  then show "run_ok hs STATUS_LO_OPEN s (eval (lo_open_coil jump) s) (exec (lo_open_coil jump) s)"
    using assms eval_lo_open_queue [of jump s] exec_lo_open_queue [of jump s]
    by (auto simp: run_defs lo_open_coil_def mach_inv_def split: if_splits)
qed

lemma handler_lo_open_coil_overtime:
  assumes "STATUS_IDLE \<in> hs"
  shows "handler_ok hs STATUS_LO_OPEN (lo_open_coil_overtime jump)"
proof (rule handler_okI)
  fix s :: "'a rgw_scheme"
  assume "uint (status (rg s)) = STATUS_LO_OPEN" "mach_inv hs s"
  then show "run_ok hs STATUS_LO_OPEN s (eval (lo_open_coil_overtime jump) s)
      (exec (lo_open_coil_overtime jump) s)"
    using assms eval_lo_open_queue [of jump s] exec_lo_open_queue [of jump s]
    by (auto simp: run_defs lo_open_coil_overtime_def mach_inv_def split: if_splits)
qed

lemma handler_nc_lo_wait:
  assumes "STATUS_CENTER_NC \<in> hs" and "tab_ok hs tab"
  shows "handler_ok hs STATUS_CENTER_NC_LO_WAIT (nc_lo_wait tab)"
proof (rule handler_okI)
  fix s :: "'a rgw_scheme"
  assume "uint (status (rg s)) = STATUS_CENTER_NC_LO_WAIT" "mach_inv hs s"
  then show "run_ok hs STATUS_CENTER_NC_LO_WAIT s (eval (nc_lo_wait tab) s) (exec (nc_lo_wait tab) s)"
    using assms(1) tab_ok_center [OF assms(2)]
    by (auto simp: run_defs nc_lo_wait_def mach_inv_def head_local_def split: list.split option.split)
qed


text \<open>A machine without a local controller behaves as one whose local table is empty.\<close>

lemma idle_center_eq: "idle_center tab = idle_lo_center [] tab"
  by (rule state_eqI) (simp_all add: idle_center_def idle_lo_center_def lo_entry_def split: list.split)

lemma nc_center_eq: "nc_center tab = nc_lo_center [] tab"
  by (rule state_eqI) (simp_all add: nc_center_def nc_lo_center_def lo_entry_def split: list.split)

text \<open>The entry that a machine with a local controller looks up, and what taking it leaves.\<close>

definition served :: "(u8, 'z) ctrl_tab \<Rightarrow> (u8 \<times> u8, 'z) ctrl_tab \<Rightarrow> rg_ctrl_t
    \<Rightarrow> (('z rgw_scheme, unit) state \<times> int) option" where
  "served lo tab c =
     (if ctrler c = RG_CTRLER_LO then lo_entry lo c
      else if ctrler c = RG_CTRLER_CENTER then center_entry tab c else None)"

lemma served_ok:
  "tab_ok hs lo \<Longrightarrow> tab_ok hs tab \<Longrightarrow> served lo tab c = Some (h, t)
    \<Longrightarrow> t \<in> hs \<and> rg (exec h s) = rg s"
  by (auto simp: served_def tab_ok_lo tab_ok_center split: if_splits)

definition took :: "rg_ctrl_t \<Rightarrow> ('z rgw_scheme, unit) state \<Rightarrow> 'z rgw_scheme \<Rightarrow> 'z rgw_scheme" where
  "took c h s = exec (rg_del_new_ctrl c)
     (exec (rg_update_curr_ctrl c) (exec rg_refresh_last_time (exec h s)))"

lemma rg_took:
  "rg (exec h s) = rg s \<Longrightarrow> rg (took c h s) = (rg s)\<lparr>ctrl := c, ctrl_ls := tl (ctrl_ls (rg s)),
      last_time := env_clock (exec h s) (tick (exec h s))\<rparr>"
  by (simp add: took_def)

lemma pcf_took [simp]: "pcf (took c h s) = pcf (exec h s)"
  by (simp add: took_def)

lemma idle_served:
  assumes "ctrl_ls (rg s) = c # cs" and "served lo tab c = Some (h, t)"
  shows "eval (idle_lo_center lo tab) s = t \<and> exec (idle_lo_center lo tab) s = took c h s"
  using assms by (simp add: idle_lo_center_def served_def took_def split: if_splits)

lemma idle_unserved:
  assumes "ctrl_ls (rg s) = c # cs" and "served lo tab c = None"
  shows "eval (idle_lo_center lo tab) s
      = (if ctrler c = RG_CTRLER_CENTER \<and> no_resume c (uint (prev_status (rg s)))
         then uint (status (rg s)) else uint (prev_status (rg s)))
    \<and> exec (idle_lo_center lo tab) s = exec (rg_del_new_ctrl c) s"
  using assms by (simp add: idle_lo_center_def served_def split: if_splits)

lemma idle_empty:
  "ctrl_ls (rg s) = [] \<Longrightarrow> eval (idle_lo_center lo tab) s = uint (status (rg s))
     \<and> exec (idle_lo_center lo tab) s = s"
  by (simp add: idle_lo_center_def)

lemma nc_served:
  assumes "ctrl_ls (rg s) = c # cs" and "served lo tab c = Some (h, t)"
  shows "eval (nc_lo_center lo tab) s = t \<and> exec (nc_lo_center lo tab) s = took c h s"
  using assms by (simp add: nc_lo_center_def served_def took_def split: if_splits)

lemma nc_unserved:
  assumes "ctrl_ls (rg s) = c # cs" and "served lo tab c = None"
  shows "eval (nc_lo_center lo tab) s = uint (prev_status (rg s))
    \<and> exec (nc_lo_center lo tab) s = exec (rg_del_new_ctrl c) s"
  using assms by (simp add: nc_lo_center_def served_def split: if_splits)

lemma nc_empty:
  "ctrl_ls (rg s) = [] \<Longrightarrow> eval (nc_lo_center lo tab) s = uint (status (rg s))
     \<and> exec (nc_lo_center lo tab) s = s"
  by (simp add: nc_lo_center_def)

text \<open>In a draining status the queue, the result and the laws of that status are all there is.\<close>

lemma run_ok_draining:
  assumes "k \<in> draining" "r \<in> hs" "statuses_kept s s'" "ctrl_ls (rg s') = tl (ctrl_ls (rg s))"
    "no_holds k s r s'" "nc_blocks k s r s'" "nc_local hs k s r" "idle_takes k s r s'"
  shows "run_ok hs k s r s'"
proof -
  have "closes_ok k s r s'" using assms(1) by (auto simp: closes_ok_def draining_def)
  then show ?thesis using assms by (simp add: run_ok_def queue_ok_def waits_ok_def)
qed

lemma idle_takes_served:
  assumes "idle_tab tab" and "ctrl_ls (rg s) = c # cs" and "served lo tab c = Some (h, t)"
    and "rg (exec h s) = rg s"
  shows "idle_takes STATUS_IDLE s t (took c h s)"
proof -
  have "t = idle_target a \<and> map_of tab (RG_CTRL_MANUAL, a) = Some (h, t)"
    if "manual a c" "a \<in> {RG_ACTION_DN, RG_ACTION_UP, RG_ACTION_STOP, RG_ACTION_NC_SET, RG_ACTION_NO_SET}"
    for a
    using that assms(1,3) manual_entry [of a c tab]
    by (auto simp: served_def idle_tab_def idle_target_def)
  then show ?thesis
    using assms(1,2) by (auto simp: idle_takes_def head_manual_def rg_took [OF assms(4)] idle_tab_def)
qed

lemma idle_takes_unserved:
  assumes "idle_tab tab" and "ctrl_ls (rg s) = c # cs" and "served lo tab c = None"
  shows "idle_takes STATUS_IDLE s r s'"
proof -
  have "\<not> manual a c"
    if "a \<in> {RG_ACTION_DN, RG_ACTION_UP, RG_ACTION_STOP, RG_ACTION_NC_SET, RG_ACTION_NO_SET}" for a
    using that assms(1,3) manual_entry [of a c tab] by (auto simp: served_def idle_tab_def)
  then show ?thesis
    using assms(2) by (simp add: idle_takes_def head_manual_def)
qed

lemma handler_idle_lo_center:
  assumes "STATUS_IDLE \<in> hs" and "tab_ok hs lo" and "tab_ok hs tab" and "idle_tab tab"
  shows "handler_ok hs STATUS_IDLE (idle_lo_center lo tab)"
proof (rule handler_okI)
  fix s :: "'a rgw_scheme"
  assume st: "uint (status (rg s)) = STATUS_IDLE" and inv: "mach_inv hs s"
  let ?run = "run_ok hs STATUS_IDLE s (eval (idle_lo_center lo tab) s) (exec (idle_lo_center lo tab) s)"
  show ?run
  proof (cases "ctrl_ls (rg s)")
    case Nil
    then show ?thesis
      using inv st by (auto simp: idle_empty run_defs mach_inv_def head_manual_def)
  next
    case q: (Cons c cs)
    show ?thesis
    proof (cases "served lo tab c")
      case None
      then show ?thesis
        using q st inv idle_takes_unserved [OF assms(4) q None]
        by (auto intro!: run_ok_draining simp: idle_unserved [OF q None] draining_def mach_inv_def
            statuses_kept_def no_holds_def nc_blocks_def nc_local_def)
    next
      case (Some e)
      then obtain h t where e: "served lo tab c = Some (h, t)" by (cases e) simp
      note h = served_ok [OF assms(2,3) e]
      show ?thesis
        using h [of s] idle_takes_served [OF assms(4) q e] q
        by (auto intro!: run_ok_draining simp: idle_served [OF q e] draining_def rg_took
            statuses_kept_def no_holds_def nc_blocks_def nc_local_def)
    qed
  qed
qed

lemma handler_idle_center:
  "STATUS_IDLE \<in> hs \<Longrightarrow> tab_ok hs tab \<Longrightarrow> idle_tab tab
    \<Longrightarrow> handler_ok hs STATUS_IDLE (idle_center tab)"
  unfolding idle_center_eq by (rule handler_idle_lo_center) (simp_all add: tab_ok_def)

lemma nc_blocks_served:
  assumes "nc_tab tab" and "nc_lo_tab lo" and "ctrl_ls (rg s) = c # cs"
    and "served lo tab c = Some (h, t)"
  shows "nc_blocks STATUS_CENTER_NC s t (took c h s)"
proof -
  have "h = ret ()" if "ctrler c = RG_CTRLER_LO"
    using that assms(2,4)
    by (auto simp: served_def lo_entry_def nc_lo_tab_def list_all_iff dest!: map_of_SomeD
        split: if_splits)
  then show ?thesis
    using assms(1,3,4) manual_entry [of RG_ACTION_NC_SET c tab]
      manual_entry [of RG_ACTION_NC_CLR c tab]
    by (auto simp: nc_blocks_def head_local_def head_manual_def served_def nc_tab_def)
qed

lemma nc_blocks_unserved:
  assumes "nc_tab tab" and "ctrl_ls (rg s) = c # cs" and "served lo tab c = None"
  shows "nc_blocks STATUS_CENTER_NC s (uint (prev_status (rg s))) (exec (rg_del_new_ctrl c) s)"
  using assms manual_entry [of RG_ACTION_NC_CLR c tab]
  by (auto simp: nc_blocks_def head_local_def head_manual_def served_def nc_tab_def)

lemma nc_local_served:
  assumes "tab_ok hs lo" and "nc_lo_tab lo" and "ctrl_ls (rg s) = c # cs"
    and "served lo tab c = Some (h, t)"
  shows "nc_local hs STATUS_CENTER_NC s r"
proof -
  have "STATUS_CENTER_NC_LO_WAIT \<in> hs" if "ctrler c = RG_CTRLER_LO"
    using that assms(1,2,4)
    by (auto simp: served_def lo_entry_def nc_lo_tab_def tab_ok_def list_all_iff dest!: map_of_SomeD
        split: if_splits)
  then show ?thesis using assms(3) by (auto simp: nc_local_def head_local_def)
qed

lemma handler_nc_lo_center:
  assumes "tab_ok hs lo" and "tab_ok hs tab" and "nc_tab tab" and "nc_lo_tab lo"
  shows "handler_ok hs STATUS_CENTER_NC (nc_lo_center lo tab)"
proof (rule handler_okI)
  fix s :: "'a rgw_scheme"
  assume st: "uint (status (rg s)) = STATUS_CENTER_NC" and inv: "mach_inv hs s"
  let ?run = "run_ok hs STATUS_CENTER_NC s (eval (nc_lo_center lo tab) s) (exec (nc_lo_center lo tab) s)"
  show ?run
  proof (cases "ctrl_ls (rg s)")
    case Nil
    then show ?thesis
      using inv st by (auto simp: nc_empty run_defs mach_inv_def head_manual_def head_local_def)
  next
    case q: (Cons c cs)
    show ?thesis
    proof (cases "served lo tab c")
      case None
      then show ?thesis
        using q inv nc_blocks_unserved [OF assms(3) q None]
        by (auto intro!: run_ok_draining simp: nc_unserved [OF q None] draining_def mach_inv_def
            statuses_kept_def no_holds_def idle_takes_def nc_local_def)
    next
      case (Some e)
      then obtain h t where e: "served lo tab c = Some (h, t)" by (cases e) simp
      note h = served_ok [OF assms(1,2) e]
      show ?thesis
        using h [of s] nc_blocks_served [OF assms(3,4) q e] nc_local_served [OF assms(1,4) q e] q
        by (auto intro!: run_ok_draining simp: nc_served [OF q e] draining_def rg_took
            statuses_kept_def no_holds_def idle_takes_def)
    qed
  qed
qed

lemma handler_nc_center:
  "tab_ok hs tab \<Longrightarrow> nc_tab tab \<Longrightarrow> handler_ok hs STATUS_CENTER_NC (nc_center tab)"
  unfolding nc_center_eq by (rule handler_nc_lo_center) (simp_all add: tab_ok_def nc_lo_tab_def)


lemma handler_no_center:
  assumes "STATUS_IDLE \<in> hs"
  shows "handler_ok hs STATUS_CENTER_NO
    (no_center [((RG_CTRL_MANUAL, RG_ACTION_DN), rg_down_s, STATUS_IDLE)])"
proof (rule handler_okI)
  fix s :: "'a rgw_scheme"
  let ?h = "no_center [((RG_CTRL_MANUAL, RG_ACTION_DN), rg_down_s, STATUS_IDLE)]"
  assume st: "uint (status (rg s)) = STATUS_CENTER_NO" and "mach_inv hs s"
  then show "run_ok hs STATUS_CENTER_NO s (eval ?h s) (exec ?h s)"
    using assms
    by (intro run_ok_draining; cases "ctrl_ls (rg s)")
      (auto simp: no_center_def mach_inv_def head_manual_def manual_def center_entry_def
        statuses_kept_def no_holds_def nc_blocks_def nc_local_def idle_takes_def draining_def)
qed

section \<open>The contract of a machine\<close>

text \<open>
  The client of a machine is the daemon, which runs its step for ever. \<open>hs\<close> are the statuses the
  machine has handlers for.
\<close>

locale rg_machine =
  fixes step :: "('z rgw_scheme, rg_fault + int) state" and hs :: "int set"
  assumes hs_range: "hs \<subseteq> {0..<STATUS_END}"
    and step_run: "mach_inv hs s \<Longrightarrow> eval step s = Inr 0 \<and>
      (\<exists>r t. run_ok hs (uint (status (rg s))) s r t \<and> exec step s = exec (rg_refresh_status r) t)"
    and step_null: "uint (status (rg s)) \<notin> hs \<Longrightarrow> exec step s = s \<and>
      eval step s = (if STATUS_END \<le> uint (status (rg s)) then Inr (- 1) else Inl NullHandler)"
begin

lemma step_cases:
  assumes "mach_inv hs s"
  obtains r t where "run_ok hs (uint (status (rg s))) s r t"
    and "rg (exec step s) = (if uint (status (rg s)) = r then rg t
           else (rg t)\<lparr>prev_status := status (rg s), status := word_of_int r\<rparr>)"
    and "uint (status (rg (exec step s))) = r" and "pcf (exec step s) = pcf t"
    and "ctrl_ls (rg (exec step s)) = ctrl_ls (rg t)" and "ctrl (rg (exec step s)) = ctrl (rg t)"
proof -
  obtain r t where run: "run_ok hs (uint (status (rg s))) s r t"
    and ex: "exec step s = exec (rg_refresh_status r) t"
    using step_run [OF assms] by blast
  have "r \<in> hs" and kept: "statuses_kept s t" using run by (simp_all add: run_ok_def)
  with hs_range have "uint (word_of_int r :: u8) = r"
    by (force simp: uint_word_of_int)
  then show thesis
    using that [OF run] ex kept by (simp add: statuses_kept_def)
qed

lemma step_inv:
  assumes "mach_inv hs s"
  shows "mach_inv hs (exec step s)"
  using assms
  by (rule step_cases) (use assms in \<open>auto simp: mach_inv_def run_ok_def statuses_kept_def\<close>)

lemma step_no_fault: "mach_inv hs s \<Longrightarrow> eval step s = Inr 0"
  using step_run by blast

lemma runs_inv: "mach_inv hs s \<Longrightarrow> mach_inv hs (exec_n n step s)"
  by (induction n arbitrary: s) (auto intro: step_inv)

lemma step_queue:
  assumes "mach_inv hs s"
  shows "queue_ok (uint (status (rg s))) s (exec step s)"
  using assms by (rule step_cases) (auto simp: run_ok_def queue_ok_def)

lemma head_taken_at_once:
  "mach_inv hs s \<Longrightarrow> uint (status (rg s)) \<in> draining
    \<Longrightarrow> ctrl_ls (rg (exec step s)) = tl (ctrl_ls (rg s))"
  using step_queue [of s] by (simp add: queue_ok_def)

lemma waiting_ends:
  assumes "mach_inv hs s" and "uint (status (rg s)) \<notin> draining" and "quiet s"
  shows "uint (status (rg (exec step s))) \<in> draining"
  using assms(1) by (rule step_cases) (use assms(2,3) in \<open>auto simp: run_ok_def waits_ok_def\<close>)

lemma head_served:
  assumes "mach_inv hs s" and "quiet s"
  shows "\<exists>n \<in> {1, 2}. ctrl_ls (rg (exec_n n step s)) = tl (ctrl_ls (rg s))"
proof (cases "ctrl_ls (rg (exec step s)) = tl (ctrl_ls (rg s))")
  case False
  then have "uint (status (rg s)) \<notin> draining"
    and same: "ctrl_ls (rg (exec step s)) = ctrl_ls (rg s)"
    using step_queue [OF assms(1)] by (auto simp: queue_ok_def)
  from waiting_ends [OF assms(1) this(1) assms(2)]
  have "ctrl_ls (rg (exec step (exec step s))) = tl (ctrl_ls (rg s))"
    using head_taken_at_once [OF step_inv [OF assms(1)]] same by simp
  then show ?thesis by (simp add: numeral_2_eq_2)
qed simp

lemma queue_suffix:
  assumes "mach_inv hs s"
  shows "\<exists>k \<le> n. ctrl_ls (rg (exec_n n step s)) = drop k (ctrl_ls (rg s))"
  using assms
proof (induction n arbitrary: s)
  case (Suc n)
  then obtain k where k: "k \<le> n" "ctrl_ls (rg (exec_n (Suc n) step s)) = drop k (ctrl_ls (rg (exec step s)))"
    using step_inv by fastforce
  from step_queue [OF Suc.prems]
  have "ctrl_ls (rg (exec step s)) = drop 1 (ctrl_ls (rg s)) \<or> ctrl_ls (rg (exec step s)) = drop 0 (ctrl_ls (rg s))"
    by (auto simp: queue_ok_def drop_Suc)
  then show ?case
  proof
    assume "ctrl_ls (rg (exec step s)) = drop 1 (ctrl_ls (rg s))"
    with k show ?thesis by (intro exI [of _ "k + 1"]) (simp add: add.commute)
  next
    assume "ctrl_ls (rg (exec step s)) = drop 0 (ctrl_ls (rg s))"
    with k show ?thesis by (intro exI [of _ k]) simp
  qed
qed simp

lemma closes:
  assumes "mach_inv hs s" and "uint (status (rg s)) \<in> {STATUS_CENTER_OPEN, STATUS_LO_OPEN}"
    and "quiet s" and "i2c_ok s" and "ctrl_ls (rg s) = []"
  shows "uint (status (rg (exec step s))) = STATUS_IDLE \<and> bit (pcf (exec step s)) RG_UP_BIT"
  using assms(1) by (rule step_cases) (use assms(2-) in \<open>auto simp: run_ok_def closes_ok_def\<close>)

lemma nc_open_closes:
  assumes "mach_inv hs s" and "uint (status (rg s)) = STATUS_CENTER_NC_CENTER_OPEN"
    and "quiet s" and "i2c_ok s" and "ctrl_ls (rg s) = []"
  shows "uint (status (rg (exec step s))) \<in> {STATUS_CENTER_NC, STATUS_CENTER_NC_LO_WAIT}
     \<and> bit (pcf (exec step s)) RG_UP_BIT"
  using assms(1) by (rule step_cases) (use assms(2-) in \<open>auto simp: run_ok_def closes_ok_def\<close>)

lemma normally_open:
  assumes "mach_inv hs s" and "uint (status (rg s)) = STATUS_CENTER_NO"
  shows "if head_manual RG_ACTION_DN s then uint (status (rg (exec step s))) = STATUS_IDLE
    else uint (status (rg (exec step s))) = STATUS_CENTER_NO \<and> pcf (exec step s) = pcf s"
  using assms(1) by (rule step_cases) (use assms(2) in \<open>auto simp: run_ok_def no_holds_def\<close>)

lemma normally_closed_local:
  assumes "mach_inv hs s" and "uint (status (rg s)) \<in> {STATUS_CENTER_NC, STATUS_CENTER_NC_LO_WAIT}"
    and "head_local s"
  shows "pcf (exec step s) = pcf s"
  using assms(1) by (rule step_cases) (use assms(2-) in \<open>auto simp: run_ok_def nc_blocks_def\<close>)

lemma normally_closed_cleared:
  assumes "mach_inv hs s" and "uint (status (rg s)) = STATUS_CENTER_NC"
    and "head_manual RG_ACTION_NC_CLR s"
  shows "uint (status (rg (exec step s))) = STATUS_IDLE \<and> pcf (exec step s) = pcf s"
  using assms(1) by (rule step_cases) (use assms(2-) in \<open>auto simp: run_ok_def nc_blocks_def\<close>)

lemma normally_closed_set_again:
  assumes "mach_inv hs s" and "uint (status (rg s)) = STATUS_CENTER_NC"
    and "head_manual RG_ACTION_NC_SET s"
  shows "status (rg (exec step s)) = prev_status (rg s)"
proof -
  have "uint (status (rg (exec step s))) = uint (prev_status (rg s))"
    using assms(1) by (rule step_cases) (use assms(2-) in \<open>auto simp: run_ok_def nc_blocks_def\<close>)
  then show ?thesis by (simp only: word_uint_eq_iff)
qed

lemma normally_closed_dropped:
  assumes "mach_inv hs s" and "uint (status (rg s)) = STATUS_CENTER_NC" and "head_local s"
    and "STATUS_CENTER_NC_LO_WAIT \<notin> hs"
  shows "status (rg (exec step s)) = prev_status (rg s)"
proof -
  have "uint (status (rg (exec step s))) = uint (prev_status (rg s))"
    using assms(1) by (rule step_cases) (use assms(2-) in \<open>auto simp: run_ok_def nc_local_def\<close>)
  then show ?thesis by (simp only: word_uint_eq_iff)
qed

lemma idle_manual:
  assumes "mach_inv hs s" and "uint (status (rg s)) = STATUS_IDLE" and "head_manual a s"
    and "a \<in> {RG_ACTION_DN, RG_ACTION_UP, RG_ACTION_STOP, RG_ACTION_NC_SET, RG_ACTION_NO_SET}"
  shows "uint (status (rg (exec step s))) = idle_target a
    \<and> ctrl (rg (exec step s)) = hd (ctrl_ls (rg s))
    \<and> ctrl_ls (rg (exec step s)) = tl (ctrl_ls (rg s))
    \<and> (i2c_ok s \<and> a \<in> {RG_ACTION_UP, RG_ACTION_NO_SET} \<longrightarrow> \<not> bit (pcf (exec step s)) RG_UP_BIT)
    \<and> (i2c_ok s \<and> a = RG_ACTION_NC_SET \<longrightarrow> bit (pcf (exec step s)) RG_UP_BIT)"
  using assms(1)
proof (rule step_cases)
  fix r t
  assume run: "run_ok hs (uint (status (rg s))) s r t"
    and eqs: "uint (status (rg (exec step s))) = r" "pcf (exec step s) = pcf t"
      "ctrl_ls (rg (exec step s)) = ctrl_ls (rg t)" "ctrl (rg (exec step s)) = ctrl (rg t)"
  have "idle_takes STATUS_IDLE s r t" "ctrl_ls (rg t) = tl (ctrl_ls (rg s))"
    using run assms(2) by (auto simp: run_ok_def queue_ok_def draining_def)
  then show ?thesis
    using assms(3,4) unfolding eqs idle_takes_def by blast
qed

end

section \<open>Assembling a machine's contract\<close>

lemma machineI:
  assumes "fst ` set tab = hs" and "hs \<subseteq> {0..<STATUS_END}" and "distinct (map fst tab)"
    and "list_all (\<lambda>(k, h). handler_ok hs k h) tab"
  shows "rg_machine (run_status_handle tab) hs"
proof
  show "hs \<subseteq> {0..<STATUS_END}" by (fact assms(2))
  fix s :: "'a rgw_scheme"
  let ?k = "uint (status (rg s))"
  assume inv: "mach_inv hs s"
  then obtain h where h: "map_of tab ?k = Some h" and mem: "(?k, h) \<in> set tab"
    using assms(1,3) by (force simp: mach_inv_def)
  have "handler_ok hs ?k h" using assms(4) mem by (auto simp: list_all_iff)
  then have "run_ok hs ?k s (eval h s) (exec h s)" using inv by (simp add: handler_ok_def)
  moreover have "\<not> STATUS_END \<le> ?k" using assms(2) inv by (auto simp: mach_inv_def)
  ultimately show "eval (run_status_handle tab) s = Inr 0 \<and>
      (\<exists>r t. run_ok hs ?k s r t \<and> exec (run_status_handle tab) s = exec (rg_refresh_status r) t)"
    using h by (auto simp: run_status_handle_def)
next
  fix s :: "'a rgw_scheme"
  assume "uint (status (rg s)) \<notin> hs"
  then have "map_of tab (uint (status (rg s))) = None"
    using assms(1) by (auto simp: map_of_eq_None_iff)
  then show "exec (run_status_handle tab) s = s \<and> eval (run_status_handle tab) s
      = (if STATUS_END \<le> uint (status (rg s)) then Inr (- 1) else Inl NullHandler)"
    by (simp add: run_status_handle_def)
qed

text \<open>The three sets of statuses the machines have handlers for.\<close>

definition lo_wait_statuses :: "int set" where
  "lo_wait_statuses = {STATUS_IDLE, STATUS_LO_OPEN, STATUS_CENTER_OPEN, STATUS_CENTER_CLOSE,
     STATUS_CENTER_STOP, STATUS_CENTER_NC, STATUS_CENTER_NC_LO_WAIT, STATUS_CENTER_NC_CENTER_OPEN,
     STATUS_CENTER_NC_CENTER_CLOSE, STATUS_CENTER_NC_CENTER_STOP, STATUS_CENTER_NO}"

definition lo_statuses :: "int set" where
  "lo_statuses = lo_wait_statuses - {STATUS_CENTER_NC_LO_WAIT}"

definition center_statuses :: "int set" where
  "center_statuses = lo_statuses - {STATUS_LO_OPEN}"

lemma rg_set_up_signal_on_coil [simp]: "rg (exec set_up_signal_on_coil s) = rg s"
  by (simp add: set_up_signal_on_coil_def)

lemmas handler_intros = handler_const handler_nc_or_lo_wait handler_open_overtime
  handler_open_overtime_coil handler_open_new_ctrl handler_open_new_ctrl_coil
  handler_open_overtime_new_ctrl_coil handler_nc_open handler_nc_open_lo_wait
  handler_lo_open_coil handler_lo_open_coil_overtime handler_nc_lo_wait handler_idle_lo_center
  handler_idle_center handler_nc_lo_center handler_nc_center handler_no_center

lemmas machine_simps = lo_wait_statuses_def lo_statuses_def center_statuses_def tab_ok_def
  idle_tab_def nc_tab_def nc_lo_tab_def draining_def

end
