(* ===== verification/Rg_Effect.thy ===== *)
theory Rg_Effect
  imports Rg_Contract
begin

text \<open>
  What the road gate code does to its surroundings. A handler reaches the hardware, the clock,
  the queue and the gate record only through a dozen calls; locale \<open>rg_effect\<close> takes a relation
  that each of those calls respects and shows that every handler body and every machine built
  from them respects it. The interpretations are the relations that matter: the surroundings
  and the configuration stay as they are, the down line falls only over a free safe coil, the
  lamps on the same port register are untouched, pulses end, the queue only loses controls from
  its front, and events are only appended.
\<close>

section \<open>The interface\<close>

definition tab_keeps ::
  "('z rgw_scheme \<Rightarrow> 'z rgw_scheme \<Rightarrow> bool) \<Rightarrow> ('k, 'z) ctrl_tab \<Rightarrow> bool" where
  "tab_keeps R tab \<longleftrightarrow> list_all (\<lambda>(k, h, t). keeps R h) tab"

locale rg_effect = effect R
  for R :: "'z rgw_scheme \<Rightarrow> 'z rgw_scheme \<Rightarrow> bool" +
  assumes eff_set_up: "keeps R rg_set_up_signal"
    and eff_clr_up: "keeps R rg_clr_up_signal"
    and eff_stop: "keeps R rg_stop"
    and eff_down_s: "keeps R rg_down_s"
    and eff_in_coil: "keeps R rg_read_in_coil"
    and eff_overtime: "keeps R rg_is_overtime"
    and eff_last_time: "keeps R rg_refresh_last_time"
    and eff_update: "keeps R (rg_update_curr_ctrl c)"
    and eff_del: "keeps R (rg_del_new_ctrl c)"
    and eff_status: "keeps R (rg_refresh_status n)"
    and eff_dsp: "keeps R (rg_status_sendto_dsp d)"
begin

lemma keeps_getters:
  "keeps R rg_get_curr_status" "keeps R rg_get_prev_status" "keeps R rg_get_new_ctrl"
  unfolding rg_get_curr_status_def rg_get_prev_status_def rg_get_new_ctrl_def by (rule keeps_reads)+

lemmas gate_intros = keeps_intros keeps_getters eff_set_up eff_clr_up eff_stop eff_down_s
  eff_in_coil eff_overtime eff_last_time eff_update eff_del eff_status eff_dsp

lemma tab_keeps_Nil: "tab_keeps R []"
  and tab_keeps_Cons: "keeps R h \<Longrightarrow> tab_keeps R tab \<Longrightarrow> tab_keeps R ((k, h, t) # tab)"
  by (simp_all add: tab_keeps_def)

lemma keeps_tab_handle: "tab_keeps R tab \<Longrightarrow> keeps R (tab_handle tab k st)"
proof -
  assume tab: "tab_keeps R tab"
  show ?thesis
  proof (cases "map_of tab k")
    case None
    then show ?thesis by (simp add: tab_handle_def keeps_ret)
  next
    case (Some e)
    then have "keeps R (fst e)"
      using tab by (auto simp: tab_keeps_def list_all_iff dest!: map_of_SomeD)
    then show ?thesis
      using Some by (auto simp: tab_handle_def split_beta intro!: keeps_bind keeps_ret)
  qed
qed

lemma keeps_center_handle: "tab_keeps R tab \<Longrightarrow> keeps R (center_handle tab c st)"
  and keeps_lo_handle: "tab_keeps R lo \<Longrightarrow> keeps R (lo_handle lo c st)"
  unfolding center_handle_def lo_handle_def
  by (intro keeps_if keeps_tab_handle keeps_ret; assumption)+

lemma keeps_draining_bodies:
  "tab_keeps R lo \<Longrightarrow> tab_keeps R tab \<Longrightarrow> keeps R (idle_lo_center lo tab)"
  "tab_keeps R tab \<Longrightarrow> keeps R (idle_center tab)"
  "tab_keeps R lo \<Longrightarrow> tab_keeps R tab \<Longrightarrow> keeps R (nc_lo_center lo tab)"
  "tab_keeps R tab \<Longrightarrow> keeps R (nc_center tab)"
  "tab_keeps R tab \<Longrightarrow> keeps R (nc_lo_wait tab)"
  "tab_keeps R tab \<Longrightarrow> keeps R (no_center tab)"
  unfolding idle_lo_center_def idle_center_def nc_lo_center_def nc_center_def nc_lo_wait_def
    no_center_def
  by (intro gate_intros keeps_center_handle keeps_lo_handle; assumption)+

lemma keeps_waiting_bodies:
  "keeps R (open_overtime next)" "keeps R open_overtime_coil" "keeps R open_new_ctrl"
  "keeps R open_new_ctrl_coil" "keeps R open_overtime_new_ctrl_coil" "keeps R nc_open"
  "keeps R nc_or_lo_wait" "keeps R nc_open_lo_wait" "keeps R set_up_signal_on_coil"
  unfolding open_bodies set_up_signal_on_coil_def by (intro gate_intros)+

lemma keeps_lo_open_queue: "keeps R (lo_open_queue jump)"
  unfolding lo_open_queue_def Let_def by (intro gate_intros)

lemma keeps_lo_open_bodies:
  "keeps R (lo_open_coil jump)" "keeps R (lo_open_coil_overtime jump)"
  unfolding lo_open_coil_def lo_open_coil_overtime_def by (intro gate_intros keeps_lo_open_queue)+

lemma keeps_run_status_handle:
  assumes "list_all (\<lambda>(k, h). keeps R h) tab"
  shows "keeps R (run_status_handle tab)"
proof (rule keepsI)
  fix s
  show "R s (exec (run_status_handle tab) s)"
  proof (cases "map_of tab (uint (status (rg s)))")
    case None
    then show ?thesis by (simp add: run_status_handle_def eff_refl)
  next
    case (Some h)
    then have "keeps R h" using assms by (auto simp: list_all_iff dest: map_of_SomeD)
    then have "R s (exec (rg_refresh_status (eval h s)) (exec h s))"
      by (blast intro: eff_trans keepsD eff_status)
    then show ?thesis using Some by (simp add: run_status_handle_def eff_refl)
  qed
qed

lemma handlers_keep_Nil: "list_all (\<lambda>(k, h). keeps R h) []"
  and handlers_keep_Cons: "keeps R h \<Longrightarrow> list_all (\<lambda>(k, h). keeps R h) tab
    \<Longrightarrow> list_all (\<lambda>(k, h). keeps R h) ((k, h) # tab)"
  by simp_all

lemmas machine_intros = keeps_run_status_handle handlers_keep_Nil handlers_keep_Cons
  tab_keeps_Nil tab_keeps_Cons keeps_draining_bodies keeps_waiting_bodies keeps_lo_open_bodies
  gate_intros

end

section \<open>The surroundings and the configuration stay as they are\<close>

lemma same_env_rg_writes:
  "keeps same_env (upd_rg f)" "keeps same_env (rg_update_curr_ctrl c)"
  "keeps same_env (rg_del_new_ctrl c)"
  by (auto intro!: keepsI simp: same_env_def rg_ops)

lemma same_env_ports:
  "keeps same_env rg_set_up_signal" "keeps same_env rg_clr_up_signal" "keeps same_env rg_stop"
  "keeps same_env rg_down" "keeps same_env rg_dev_init"
  unfolding port_defs by (intro same_env_intros keeps_put_event)+

lemma same_env_down_s: "keeps same_env rg_down_s"
  unfolding rg_down_s_def by (intro same_env_intros same_env_ports keeps_rg_read_safe_coil)

lemma same_env_refresh:
  "keeps same_env rg_refresh_last_time" "keeps same_env (rg_refresh_status n)"
  unfolding rg_refresh_last_time_def rg_refresh_status_def rg_get_curr_status_def
  by (intro same_env_intros keeps_gettimeofday same_env_rg_writes)+

lemma same_env_dsp: "keeps same_env (rg_status_sendto_dsp d)"
  "keeps same_env (detect_coil_sendto_dsp d)" "keeps same_env (safe_coil_sendto_dsp d)"
  "keeps same_env (ytbrk_rg_status_sendto_dsp d)"
  unfolding dsp_defs by (rule keeps_emit)+

interpretation env_eff: rg_effect same_env
  by unfold_locales (rule same_env_ports same_env_down_s keeps_rg_read_in_coil
      keeps_rg_is_overtime same_env_refresh same_env_rg_writes same_env_dsp)+

section \<open>The histories of the other calls\<close>

lemma io_frame [simp]:
  "io (exec rg_is_overtime s) = io s"
  "io (exec rg_refresh_last_time s) = io s" "io (exec (rg_update_curr_ctrl c) s) = io s"
  "io (exec (rg_del_new_ctrl c) s) = io s" "io (exec (rg_refresh_status n) s) = io s"
  by (simp_all add: gettimeofday_def pass_def rg_is_overtime_def timeval_is_overtime_def
      rg_refresh_last_time_def rg_ops)

lemma put_event_frame [simp]:
  "io (exec (put_event i d) s) = io s" "pcf (exec (put_event i d) s) = pcf s"
  by (simp_all add: put_event_def event_item_alloc_def malloc_ok_def gettimeofday_def pass_def
      event_put_def split: option.split)

lemma pcf_usleep [simp]: "pcf (exec (usleep us) s) = pcf s"
  by (simp add: usleep_def emit_def)

lemma io_usleep [simp]: "io (exec (usleep us) s) = Usleep us # io s"
  by (simp add: usleep_def emit_def)

lemma io_in_coil: "io (exec rg_read_in_coil s) = samples s DETECT_COIL_GPIO 1 (tick s) 5 @ io s"
  by (simp add: rg_read_in_coil_def gpio_get_filter_def Let_def io_gpio_count_high)

section \<open>The down line falls only over a free safe coil\<close>

definition dn_safe :: "'z world_scheme \<Rightarrow> 'z world_scheme \<Rightarrow> bool" where
  "dn_safe s s' \<longleftrightarrow> (dn_guarded (io s) \<longrightarrow> dn_guarded (io s'))"

lemma dn_guarded_pcf:
  assumes "dn_guarded (io s)" and "b < 8" and "b \<noteq> RG_DN_BIT \<or> v = 1 \<or> safe_before (io s)"
  shows "dn_guarded (io (exec (pcf8574_set_bit b v) s))"
  using assms dn_falls_other [of b v "pcf s"] by (auto simp: exec_pcf8574_set_bit)

lemma safe_coil_free:
  "eval rg_read_safe_coil s = 1 \<longleftrightarrow> 2 < highs s SAFE_COIL_GPIO (tick s) 5"
  by (auto simp: rg_read_safe_coil_def gpio_get_filter_def Let_def eval_gpio_count_high)

lemma io_clr_up: "\<exists>p. list_all is_pcf_write p \<and> io (exec rg_clr_up_signal s) = p @ io s"
proof (cases "env_i2c s (tick s) = I2C_Ok")
  case True
  then show ?thesis
    by (intro exI [of _ "[PcfWrite (pcf s) (pcf_newval (pcf s) RG_UP_BIT 1)]"])
      (simp add: rg_clr_up_signal_def exec_pcf8574_set_bit)
next
  case False
  then show ?thesis
    by (intro exI [of _ "[]"]) (simp add: rg_clr_up_signal_def exec_pcf8574_set_bit)
qed

lemma dn_safe_down:
  assumes "dn_guarded (io s)" and "safe_before (io s)"
  shows "dn_guarded (io (exec rg_down s))"
proof -
  let ?s1 = "exec (pcf8574_set_bit RG_DN_BIT 0) (exec (put_event ''gate'' ''down'') s)"
  have "dn_guarded (io ?s1)" by (rule dn_guarded_pcf) (use assms in simp_all)
  then have "dn_guarded (io (exec (usleep (100 * 1000)) ?s1))" by simp
  then have "dn_guarded (io (exec (pcf8574_set_bit RG_DN_BIT 1) (exec (usleep (100 * 1000)) ?s1)))"
    by (rule dn_guarded_pcf) simp_all
  then show ?thesis by (simp add: rg_down_def)
qed

lemma dn_safe_down_s: "keeps dn_safe rg_down_s"
proof (rule keepsI)
  fix s :: "'a world_scheme"
  let ?s1 = "exec rg_read_safe_coil s"
  have s1: "dn_guarded (io ?s1) = dn_guarded (io s)"
    unfolding io_read_safe_coil by (rule dn_guarded_append [OF samples_no_write])
  show "dn_safe s (exec rg_down_s s)"
  proof (cases "eval rg_read_safe_coil s = 1")
    case False
    then show ?thesis by (simp add: rg_down_s_def dn_safe_def s1)
  next
    case True
    then have free: "2 < highs s SAFE_COIL_GPIO (tick s) 5" by (simp add: safe_coil_free)
    obtain p where p: "list_all is_pcf_write p" "io (exec rg_clr_up_signal ?s1) = p @ io ?s1"
      using io_clr_up by blast
    have "safe_before (io (exec rg_clr_up_signal ?s1))"
      unfolding p(2) io_read_safe_coil by (rule safe_before_samples [OF p(1) free])
    moreover have "dn_guarded (io (exec rg_clr_up_signal ?s1))" if "dn_guarded (io s)"
      unfolding rg_clr_up_signal_def exec_bind exec_ret
      by (rule dn_guarded_pcf) (use that s1 in simp_all)
    ultimately show ?thesis
      using True by (simp add: rg_down_s_def dn_safe_def dn_safe_down)
  qed
qed

lemma dn_safe_signals:
  "keeps dn_safe rg_set_up_signal" "keeps dn_safe rg_clr_up_signal" "keeps dn_safe rg_stop"
  "keeps dn_safe rg_dev_init"
  by (auto intro!: keepsI dn_guarded_pcf simp: dn_safe_def port_defs)

lemma dn_safe_reads: "keeps dn_safe rg_read_in_coil" "keeps dn_safe rg_read_safe_coil"
  by (auto intro!: keepsI simp: dn_safe_def io_in_coil io_read_safe_coil dn_guarded_append
      samples_no_write)

lemma dn_safe_rest:
  "keeps dn_safe rg_is_overtime" "keeps dn_safe rg_refresh_last_time"
  "keeps dn_safe (rg_update_curr_ctrl c)" "keeps dn_safe (rg_del_new_ctrl c)"
  "keeps dn_safe (rg_refresh_status n)" "keeps dn_safe (rg_status_sendto_dsp d)"
  "keeps dn_safe (detect_coil_sendto_dsp d)" "keeps dn_safe (safe_coil_sendto_dsp d)"
  "keeps dn_safe (ytbrk_rg_status_sendto_dsp d)"
  by (auto intro!: keepsI simp: dn_safe_def dsp_defs emit_def)

interpretation dn_eff: rg_effect dn_safe
  by unfold_locales
    (rule dn_safe_signals dn_safe_down_s dn_safe_reads dn_safe_rest | auto simp: dn_safe_def)+

section \<open>The lamps on the port register are untouched\<close>

definition lamps_kept :: "'z world_scheme \<Rightarrow> 'z world_scheme \<Rightarrow> bool" where
  "lamps_kept s s' \<longleftrightarrow> (\<forall>i > RG_UP_BIT. bit (pcf s') i = bit (pcf s) i)"

lemma bit_pcf_other [simp]:
  "b < 8 \<Longrightarrow> i \<noteq> b \<Longrightarrow> bit (pcf (exec (pcf8574_set_bit b v) s)) i = bit (pcf s) i"
  by (simp add: exec_pcf8574_set_bit bit_pcf_newval)

lemma lamps_kept_ports:
  "keeps lamps_kept rg_set_up_signal" "keeps lamps_kept rg_clr_up_signal"
  "keeps lamps_kept rg_stop" "keeps lamps_kept rg_down" "keeps lamps_kept rg_dev_init"
  by (auto intro!: keepsI simp: lamps_kept_def port_defs)

lemma lamps_kept_down_s: "keeps lamps_kept rg_down_s"
proof (rule keepsI)
  fix s :: "'a world_scheme"
  show "lamps_kept s (exec rg_down_s s)"
    using keepsD [OF lamps_kept_ports(2), of "exec rg_read_safe_coil s"]
      keepsD [OF lamps_kept_ports(4), of "exec rg_clr_up_signal (exec rg_read_safe_coil s)"]
    by (simp add: rg_down_s_def lamps_kept_def)
qed

interpretation lamp_eff: rg_effect lamps_kept
  by unfold_locales
    (rule lamps_kept_ports lamps_kept_down_s | (auto intro!: keepsI simp: lamps_kept_def)[1])+

section \<open>Pulses end\<close>

text \<open>
  When the bus works, a machine step leaves the stop and the down line released if it found
  them released: the 100 ms pulses are over when it returns.
\<close>

definition rests :: "'z world_scheme \<Rightarrow> bool" where
  "rests s \<longleftrightarrow> bit (pcf s) RG_DN_BIT \<and> bit (pcf s) RG_STOP_BIT"

definition pulses_end :: "'z world_scheme \<Rightarrow> 'z world_scheme \<Rightarrow> bool" where
  "pulses_end s s' \<longleftrightarrow> same_env s s' \<and> (i2c_ok s \<and> rests s \<longrightarrow> rests s')"

lemma bit_pcf_same:
  "i2c_ok s \<Longrightarrow> b < 8 \<Longrightarrow> bit (pcf (exec (pcf8574_set_bit b v) s)) b \<longleftrightarrow> v = 1"
  by (simp add: exec_pcf8574_set_bit bit_pcf_newval i2c_ok_def)

lemma i2c_ok_calls [simp]:
  "i2c_ok s \<Longrightarrow> i2c_ok (exec (put_event i d) s)" "i2c_ok s \<Longrightarrow> i2c_ok (exec (usleep us) s)"
  "i2c_ok s \<Longrightarrow> i2c_ok (exec (pcf8574_set_bit b v) s)"
  "i2c_ok s \<Longrightarrow> i2c_ok (exec rg_read_safe_coil s)" "i2c_ok s \<Longrightarrow> i2c_ok (exec rg_clr_up_signal s)"
  by (erule i2c_ok_mono, rule keepsD,
      rule keeps_put_event keeps_usleep keeps_pcf keeps_rg_read_safe_coil same_env_ports)+

lemma pulses_end_ports:
  "keeps pulses_end rg_set_up_signal" "keeps pulses_end rg_clr_up_signal"
  "keeps pulses_end rg_stop" "keeps pulses_end rg_down"
  using same_env_ports [THEN keepsD]
  by (auto intro!: keepsI simp: pulses_end_def rests_def port_defs bit_pcf_same)

lemma pulses_end_down_s: "keeps pulses_end rg_down_s"
proof (rule keepsI)
  fix s :: "'a world_scheme"
  show "pulses_end s (exec rg_down_s s)"
    using keepsD [OF same_env_down_s, of s]
      keepsD [OF pulses_end_ports(2), of "exec rg_read_safe_coil s"]
      keepsD [OF pulses_end_ports(4), of "exec rg_clr_up_signal (exec rg_read_safe_coil s)"]
    by (auto simp: rg_down_s_def pulses_end_def rests_def)
qed

lemma pulses_end_pcf:
  assumes "keeps same_env m" and "\<And>s. pcf (exec m s) = pcf s"
  shows "keeps pulses_end m"
  using assms by (simp add: keeps_def pulses_end_def rests_def)

interpretation pulse_eff: rg_effect pulses_end
proof unfold_locales
  show "pulses_end s u" if "pulses_end s t" "pulses_end t u" for s t u :: "'a rgw_scheme"
    using that i2c_ok_mono [of s t] same_env.eff_trans [of s t u] by (auto simp: pulses_end_def)
  show "pulses_end s s" for s :: "'a rgw_scheme"
    by (simp add: pulses_end_def same_env.eff_refl)
qed (rule pulses_end_ports pulses_end_down_s
    pulses_end_pcf [OF env_eff.eff_in_coil] pulses_end_pcf [OF env_eff.eff_overtime]
    pulses_end_pcf [OF env_eff.eff_last_time] pulses_end_pcf [OF env_eff.eff_update]
    pulses_end_pcf [OF env_eff.eff_del] pulses_end_pcf [OF env_eff.eff_status]
    pulses_end_pcf [OF env_eff.eff_dsp] | simp)+

section \<open>The queue only loses controls from its front\<close>

definition queue_shrinks :: "'z rgw_scheme \<Rightarrow> 'z rgw_scheme \<Rightarrow> bool" where
  "queue_shrinks s s' \<longleftrightarrow> (\<exists>k. ctrl_ls (rg s') = drop k (ctrl_ls (rg s)))"

lemma queue_shrinks_same: "ctrl_ls (rg s') = ctrl_ls (rg s) \<Longrightarrow> queue_shrinks s s'"
  unfolding queue_shrinks_def by (rule exI [of _ 0]) simp

lemma queue_shrinks_tl: "ctrl_ls (rg s') = tl (ctrl_ls (rg s)) \<Longrightarrow> queue_shrinks s s'"
  unfolding queue_shrinks_def by (rule exI [of _ 1]) (simp add: drop_Suc)

interpretation queue_eff: rg_effect queue_shrinks
proof unfold_locales
  show "queue_shrinks s u" if "queue_shrinks s t" "queue_shrinks t u" for s t u :: "'a rgw_scheme"
    using that by (auto simp: queue_shrinks_def)
  show "keeps queue_shrinks (rg_del_new_ctrl c)" for c
    by (rule keepsI, rule queue_shrinks_tl) simp
qed (auto intro!: keepsI queue_shrinks_same)

end
