(* ===== verification/Pool.thy ===== *)
theory Pool
  imports Vd_Prelude
begin

text \<open>
  The fixed-size allocator of \<open>sys/pool.c\<close>: a caller's buffer of \<open>nr\<close> entries of \<open>sz\<close> bytes, cut
  into a free list that is threaded through the entries at \<open>offset\<close>. Addresses are numbers; the
  free list is the list of the addresses of the links. Locale \<open>allocator\<close> is what the clients
  of a pool rely on.
\<close>

record pool =
  pfree :: "int list"
  nr_free :: int
  nr_used :: int
  nr_total :: int

text \<open>\<open>while (nr--)\<close>: append the link of the next entry.\<close>

primrec create_loop :: "nat \<Rightarrow> int \<Rightarrow> int \<Rightarrow> int \<Rightarrow> int list \<Rightarrow> int list" where
  "create_loop 0 pi sz offset fr = fr"
| "create_loop (Suc nr) pi sz offset fr = create_loop nr (pi + sz) sz offset (fr @ [pi + offset])"

definition create_pool :: "int \<Rightarrow> nat \<Rightarrow> int \<Rightarrow> int \<Rightarrow> pool" where
  "create_pool buf nr sz offset =
     \<lparr>pfree = create_loop nr buf sz offset [], nr_free = int nr, nr_used = 0, nr_total = int nr\<rparr>"

definition get_from_pool :: "pool \<Rightarrow> int \<Rightarrow> int option \<times> pool" where
  "get_from_pool po offset =
     (case pfree po of
        [] \<Rightarrow> (None, po)
      | link # rest \<Rightarrow> (Some (link - offset),
          po\<lparr>pfree := rest, nr_free := nr_free po - 1, nr_used := nr_used po + 1\<rparr>))"

definition put_into_pool :: "pool \<Rightarrow> int \<Rightarrow> int \<Rightarrow> pool" where
  "put_into_pool po ent offset =
     po\<lparr>pfree := pfree po @ [ent + offset], nr_used := nr_used po - 1, nr_free := nr_free po + 1\<rparr>"

section \<open>The contract of an allocator\<close>

text \<open>
  \<open>inv p us\<close>: the allocator is consistent and exactly the entries \<open>us\<close> are handed out. An entry
  that is handed out is new, allocation fails only when all \<open>cap\<close> entries are out, and giving an
  entry back makes room again.
\<close>

primrec gets :: "('p \<Rightarrow> 'e option \<times> 'p) \<Rightarrow> nat \<Rightarrow> 'p \<Rightarrow> 'e list \<times> 'p" where
  "gets get 0 p = ([], p)"
| "gets get (Suc n) p =
     (case get p of
        (None, p') \<Rightarrow> ([], p')
      | (Some e, p') \<Rightarrow> (let (es, p'') = gets get n p' in (e # es, p'')))"

locale allocator =
  fixes inv :: "'p \<Rightarrow> 'e set \<Rightarrow> bool" and get :: "'p \<Rightarrow> 'e option \<times> 'p"
    and put :: "'p \<Rightarrow> 'e \<Rightarrow> 'p" and entries :: "'e set"
  assumes used_entries: "inv p us \<Longrightarrow> us \<subseteq> entries"
    and finite_entries: "finite entries"
    and get_Some: "inv p us \<Longrightarrow> get p = (Some e, p') \<Longrightarrow> e \<in> entries - us \<and> inv p' (insert e us)"
    and get_None: "inv p us \<Longrightarrow> get p = (None, p') \<Longrightarrow> us = entries \<and> p' = p"
    and put_back: "inv p us \<Longrightarrow> e \<in> us \<Longrightarrow> inv (put p e) (us - {e})"
begin

lemma get_free: "inv p us \<Longrightarrow> us \<noteq> entries \<Longrightarrow> \<exists>e p'. get p = (Some e, p')"
  using get_None [of p us] by (cases "get p"; cases "fst (get p)") auto

lemma get_all: "inv p entries \<Longrightarrow> get p = (None, p)"
  using get_Some [of p entries] get_None [of p entries]
  by (cases "get p"; cases "fst (get p)") auto

text \<open>Clients allocate at most as many entries as there are, each a different one.\<close>

lemma gets_distinct:
  assumes "inv p us" and "gets get n p = (es, p')"
  shows "distinct es \<and> set es \<subseteq> entries - us \<and> inv p' (us \<union> set es)
    \<and> length es \<le> n \<and> (length es < n \<longrightarrow> us \<union> set es = entries)"
  using assms
proof (induction n arbitrary: p us es p')
  case (Suc n)
  show ?case
  proof (cases "get p")
    case (Pair r q)
    show ?thesis
    proof (cases r)
      case None
      then show ?thesis using Suc.prems Pair get_None [OF Suc.prems(1)] by auto
    next
      case (Some e)
      obtain es' where es: "gets get n q = (es', p')" "es = e # es'"
        using Suc.prems(2) Pair Some by (auto split: prod.splits)
      have q: "e \<in> entries - us" "inv q (insert e us)"
        using get_Some [OF Suc.prems(1)] Pair Some by auto
      show ?thesis using Suc.IH [OF q(2) es(1)] q(1) es(2) by auto
    qed
  qed
qed auto

end

section \<open>The pool is one\<close>

definition pool_entries :: "int \<Rightarrow> nat \<Rightarrow> int \<Rightarrow> int set" where
  "pool_entries buf nr sz = (\<lambda>i. buf + int i * sz) ` {..<nr}"

definition pool_inv :: "int \<Rightarrow> nat \<Rightarrow> int \<Rightarrow> int \<Rightarrow> pool \<Rightarrow> int set \<Rightarrow> bool" where
  "pool_inv buf nr sz offset po us \<longleftrightarrow>
     distinct (pfree po) \<and> us \<inter> (\<lambda>l. l - offset) ` set (pfree po) = {}
   \<and> us \<union> (\<lambda>l. l - offset) ` set (pfree po) = pool_entries buf nr sz
   \<and> nr_free po = int (length (pfree po)) \<and> nr_used po = int (card us) \<and> nr_total po = int nr"

lemma finite_pool_entries: "finite (pool_entries buf nr sz)"
  by (simp add: pool_entries_def)

lemma create_loop_append:
  "create_loop nr pi sz offset fr = fr @ map (\<lambda>i. pi + int i * sz + offset) [0..<nr]"
proof (induction nr arbitrary: pi fr)
  case (Suc nr)
  have "[0..<Suc nr] = 0 # map Suc [0..<nr]" by (simp add: upt_conv_Cons map_Suc_upt del: upt_Suc)
  then show ?case by (simp add: Suc.IH algebra_simps del: upt_Suc)
qed simp

lemma create_pool_inv: "0 < sz \<Longrightarrow> pool_inv buf nr sz offset (create_pool buf nr sz offset) {}"
  by (auto simp: pool_inv_def create_pool_def create_loop_append pool_entries_def distinct_map
      inj_on_def image_image lessThan_atLeast0)

lemma pool_inv_used:
  assumes "pool_inv buf nr sz offset po us"
  shows "finite us" and "us \<subseteq> pool_entries buf nr sz"
proof -
  show "us \<subseteq> pool_entries buf nr sz" using assms by (auto simp: pool_inv_def)
  then show "finite us" by (rule finite_subset [OF _ finite_pool_entries])
qed

interpretation pool: allocator "pool_inv buf nr sz offset" "\<lambda>po. get_from_pool po offset"
  "\<lambda>po e. put_into_pool po e offset" "pool_entries buf nr sz" for buf nr sz offset
proof
  fix p p' us e
  assume inv: "pool_inv buf nr sz offset p us"
  note used = pool_inv_used [OF inv]
  show "us \<subseteq> pool_entries buf nr sz" by (rule used)
  show "e \<in> pool_entries buf nr sz - us \<and> pool_inv buf nr sz offset p' (insert e us)"
    if "get_from_pool p offset = (Some e, p')"
    using that inv used(1)
    by (auto simp: get_from_pool_def pool_inv_def split: list.splits)
  show "us = pool_entries buf nr sz \<and> p' = p" if "get_from_pool p offset = (None, p')"
    using that inv by (auto simp: get_from_pool_def pool_inv_def split: list.splits)
  show "pool_inv buf nr sz offset (put_into_pool p e offset) (us - {e})" if "e \<in> us"
  proof -
    have "e + offset \<notin> set (pfree p)"
      using inv that by (force simp: pool_inv_def)
    moreover have "0 < card us" using that used(1) by (auto simp: card_gt_0_iff)
    ultimately show ?thesis
      using inv that used(1)
      by (auto simp: put_into_pool_def pool_inv_def card_Diff_singleton)
  qed
qed (rule finite_pool_entries)

text \<open>
  C40. The pool hands out each entry of its buffer at most once until it is given back: any
  number of allocations from a new pool returns pairwise different entries, each the start of an
  entry inside the buffer, and an allocation fails only when all of them are out.
\<close>

theorem pool_entries_once:
  assumes "0 < sz"
    and "gets (\<lambda>po. get_from_pool po offset) n (create_pool buf nr sz offset) = (es, po)"
  shows "distinct es \<and> set es \<subseteq> pool_entries buf nr sz \<and> length es = min n nr
    \<and> nr_used po = int (length es) \<and> nr_free po = int nr - int (length es)"
proof -
  have card: "card (pool_entries buf nr sz) = nr"
    using assms(1) by (simp add: pool_entries_def card_image inj_on_def)
  note g = pool.gets_distinct [OF create_pool_inv [OF assms(1)] assms(2)]
  have len: "card (set es) = length es" using g by (simp add: distinct_card)
  with g card card_mono [OF finite_pool_entries, of "set es" buf nr sz]
  have min: "length es = min n nr" by (cases "length es < n") auto
  from g have inv: "pool_inv buf nr sz offset po (set es)" by simp
  have "nr = card (set es \<union> (\<lambda>l. l - offset) ` set (pfree po))"
    using inv card by (simp add: pool_inv_def)
  also have "\<dots> = card (set es) + card ((\<lambda>l. l - offset) ` set (pfree po))"
    using inv by (intro card_Un_disjoint) (auto simp: pool_inv_def)
  also have "card ((\<lambda>l. l - offset) ` set (pfree po)) = length (pfree po)"
    using inv by (simp add: card_image inj_on_def distinct_card pool_inv_def)
  finally show ?thesis using g inv min len by (simp add: pool_inv_def)
qed

theorem pool_entries_once_witness:
  "distinct [100, 116 :: int] \<and> set [100, 116] \<subseteq> pool_entries 100 2 16 \<and> length [100, 116 :: int] = min 3 2"
proof -
  have "gets (\<lambda>po. get_from_pool po 8) 3 (create_pool 100 2 16 8)
      = ([100, 116], \<lparr>pfree = [], nr_free = 0, nr_used = 2, nr_total = 2\<rparr>)"
    by (simp add: get_from_pool_def create_pool_def numeral_3_eq_3 numeral_2_eq_2)
  from pool_entries_once [OF _ this] show ?thesis by simp
qed

text \<open>
  Giving back an entry that is out makes it available again and keeps the counters
  consistent; the entry just given back is the last one to be handed out.
\<close>

theorem pool_put_back:
  assumes "pool_inv buf nr sz offset po us" and "e \<in> us"
  shows "pool_inv buf nr sz offset (put_into_pool po e offset) (us - {e})
    \<and> last (pfree (put_into_pool po e offset)) - offset = e
    \<and> nr_free (put_into_pool po e offset) + nr_used (put_into_pool po e offset) = nr_free po + nr_used po"
  using pool.put_back [OF assms] by (simp add: put_into_pool_def)

theorem pool_put_back_witness:
  "let po = snd (get_from_pool (create_pool 100 2 16 8) 8) in
     pool_inv 100 2 16 8 (put_into_pool po 100 8) ({100} - {100})"
proof -
  have "pool_inv 100 2 16 8 (create_pool 100 2 16 8) {}" by (rule create_pool_inv) simp
  then have "pool_inv 100 2 16 8 (snd (get_from_pool (create_pool 100 2 16 8) 8)) {100}"
    using pool.get_Some [of 100 2 16 8 "create_pool 100 2 16 8" "{}" 100]
    by (simp add: get_from_pool_def create_pool_def numeral_2_eq_2)
  from pool_put_back [OF this, of 100] show ?thesis by (simp add: Let_def)
qed

end
