(* ===== verification/Light.thy ===== *)
theory Light
  imports Rg_Effect Pool
begin

text \<open>
  The lamps: \<open>ve/dev/light.c\<close> (the manager with its idle, steady and flash lists, and the white
  lamp's own state machine), \<open>ve/dev/light_ports.c\<close> (the four drivers) and the day and night
  query of \<open>ve/config/cam_param.c\<close>. The state of the gate, the lamps and the coil detection
  threads together is \<open>vew\<close>.

  A function that takes the manager's mutex returns \<open>None\<close> when the mutex is already held by a
  call that has returned: the thread blocks for ever.
\<close>

section \<open>State\<close>

abbreviation (input) LIGHT_ID_GREEN :: u8 where "LIGHT_ID_GREEN \<equiv> 0"
abbreviation (input) LIGHT_ID_RED :: u8 where "LIGHT_ID_RED \<equiv> 1"
abbreviation (input) LIGHT_ID_BLUE :: u8 where "LIGHT_ID_BLUE \<equiv> 2"
abbreviation (input) LIGHT_ID_WHITE :: u8 where "LIGHT_ID_WHITE \<equiv> 3"
abbreviation (input) LIGHT_ID_END :: nat where "LIGHT_ID_END \<equiv> 4"

abbreviation (input) WL_STATUS_OFF :: u8 where "WL_STATUS_OFF \<equiv> 0"
abbreviation (input) WL_STATUS_ON :: u8 where "WL_STATUS_ON \<equiv> 1"
abbreviation (input) LIGHT_OFF :: int where "LIGHT_OFF \<equiv> 0"
abbreviation (input) LIGHT_ON :: int where "LIGHT_ON \<equiv> 1"

abbreviation (input) WLIGHT_MODE_NIGHT_ON :: u8 where "WLIGHT_MODE_NIGHT_ON \<equiv> 0"
abbreviation (input) WLIGHT_MODE_COIL_TOGGLE :: u8 where "WLIGHT_MODE_COIL_TOGGLE \<equiv> 1"
abbreviation (input) WLIGHT_MODE_ALWAYS_ON :: u8 where "WLIGHT_MODE_ALWAYS_ON \<equiv> 2"
abbreviation (input) WLIGHT_MODE_END :: u8 where "WLIGHT_MODE_END \<equiv> 3"

abbreviation (input) DETECT_MODE_VIDEO :: u8 where "DETECT_MODE_VIDEO \<equiv> 0"
abbreviation (input) DETECT_MODE_COIL :: u8 where "DETECT_MODE_COIL \<equiv> 1"
abbreviation (input) DETECT_MODE_MIX :: u8 where "DETECT_MODE_MIX \<equiv> 2"
abbreviation (input) DETECT_MODE_END :: u8 where "DETECT_MODE_END \<equiv> 3"

abbreviation (input) NIGHTTIME :: int where "NIGHTTIME \<equiv> 0"

text \<open>The drivers a lamp can be registered with: the values of \<open>opt.set\<close>.\<close>

datatype light_drv = Red_Drv | Blue_Drv | White_Drv | Green_Drv

record light_info =
  li_value :: u8
  li_intv :: u8

record light_ctrl =
  lc_info :: "light_info list"
  mask :: u32

record light =
  ent :: int
  lid :: u8
  opt :: light_drv
  linfo :: light_info
  prev_tm :: timespec
  prev_val :: u8

record white =
  wl_status :: u8
  wl_prev_status :: u8
  cm_action :: int

record light_mng =
  idle_ls :: "light list"
  steady_ls :: "light list"
  flash_ls :: "light list"
  light_po :: pool
  lm_mutex :: bool
  white :: white
  prev_bright :: u8

record cam_param =
  daynight :: int
  sunrise :: int
  sunset :: int

text \<open>
  The state of the device: beside the gate, the lamps and the camera parameters, the static
  variables of the detection threads of \<open>coil/detect.c\<close> and \<open>mix/detect.c\<close> and whether those
  threads have been started.
\<close>

record vew = rgw +
  lm :: light_mng
  cam :: cam_param
  dc_prev :: u8
  sc_prev :: u8
  mix_dc_prev :: u8
  mix_sc_prev :: u8
  coil_started :: bool
  mix_started :: bool

definition upd_lm :: "(light_mng \<Rightarrow> light_mng) \<Rightarrow> ('z vew_scheme, unit) state" where
  "upd_lm f = writes (\<lambda>s. s\<lparr>lm := f (lm s)\<rparr>)"

definition lm_lock :: "('z vew_scheme, unit option) state" where
  "lm_lock = do {
     held \<leftarrow> reads (\<lambda>s. lm_mutex (lm s));
     (if held then ret None
      else do { upd_lm (\<lambda>m. m\<lparr>lm_mutex := True\<rparr>); ret (Some ()) }) }"

definition lm_unlock :: "('z vew_scheme, unit) state" where
  "lm_unlock = upd_lm (\<lambda>m. m\<lparr>lm_mutex := False\<rparr>)"

section \<open>Drivers\<close>

definition light_enable_set :: "bool \<Rightarrow> ('z world_scheme, int) state" where
  "light_enable_set enable = gpio_set ''gpio99'' (if enable then 1 else 0)"

definition port_white_light_set :: "u8 \<Rightarrow> ('z world_scheme, int) state" where
  "port_white_light_set v = do {
     ok \<leftarrow> open_pwm;
     (if \<not> ok then ret (- 1)
      else if v = 0 then do {
        emit (PwmDuty 0);
        pcf8574_set_bit 5 1;
        ret 0 }
      else do {
        c \<leftarrow> ve_cfg_get;
        let rate = (if 100 < white_bright (light_cfg c) then 100 else white_bright (light_cfg c));
        emit (PwmDuty (uint rate));
        pcf8574_set_bit 5 0;
        ret 0 }) }"

definition port_green_light_set :: "u8 \<Rightarrow> ('z world_scheme, int) state" where
  "port_green_light_set v = do {
     light_enable_set False;
     r \<leftarrow> gpio_set ''gpio100'' (if v = 0 then 0 else 1);
     light_enable_set True;
     ret r }"

definition port_blue_light_set :: "u8 \<Rightarrow> ('z world_scheme, int) state" where
  "port_blue_light_set v = do {
     light_enable_set False;
     pcf8574_set_bit 7 (uint v);
     light_enable_set True;
     ret 0 }"

definition port_red_light_set :: "u8 \<Rightarrow> ('z world_scheme, int) state" where
  "port_red_light_set v = do {
     light_enable_set False;
     gpio_set ''gpio73'' (if v = 0 then 0 else 1);
     light_enable_set True;
     ret 0 }"

definition light_opt_set :: "light_drv \<Rightarrow> u8 \<Rightarrow> ('z world_scheme, int) state" where
  "light_opt_set d v =
     (case d of Red_Drv \<Rightarrow> port_red_light_set v | Blue_Drv \<Rightarrow> port_blue_light_set v
      | White_Drv \<Rightarrow> port_white_light_set v | Green_Drv \<Rightarrow> port_green_light_set v)"

section \<open>Manager\<close>

text \<open>\<open>light_entry\<close> starts at address 0 here, an entry has 64 bytes and its link is its first field.\<close>

definition light_mng_init :: "('z vew_scheme, unit) state" where
  "light_mng_init = upd_lm (\<lambda>m. m\<lparr>idle_ls := [], steady_ls := [], flash_ls := [],
     light_po := create_pool 0 LIGHT_ID_END 64 0, lm_mutex := False,
     white := (white m)\<lparr>wl_status := WL_STATUS_OFF\<rparr>\<rparr>)"

definition light_find_from_list :: "light list \<Rightarrow> u8 \<Rightarrow> light option" where
  "light_find_from_list ls i = find (\<lambda>l. lid l = i) ls"

definition light_find :: "light_mng \<Rightarrow> u8 \<Rightarrow> light option" where
  "light_find m i =
     (case light_find_from_list (idle_ls m) i of Some l \<Rightarrow> Some l
      | None \<Rightarrow> (case light_find_from_list (steady_ls m) i of Some l \<Rightarrow> Some l
      | None \<Rightarrow> light_find_from_list (flash_ls m) i))"

definition new_light :: "int \<Rightarrow> u8 \<Rightarrow> light_drv \<Rightarrow> light" where
  "new_light e i d = \<lparr>ent = e, lid = i, opt = d, linfo = \<lparr>li_value = 0, li_intv = 0\<rparr>,
     prev_tm = \<lparr>ts_sec = 0, ts_nsec = 0\<rparr>, prev_val = 0\<rparr>"

text \<open>
  \<open>__light_regst\<close>. The two error paths return with the mutex still held. An entry is zero when it
  is first used, and entries are never given back.
\<close>

definition light_regst :: "u8 \<Rightarrow> light_drv \<Rightarrow> ('z vew_scheme, int option) state" where
  "light_regst i d = obind lm_lock (\<lambda>_. do {
     m \<leftarrow> reads lm;
     (if light_find m i \<noteq> None then ret (Some (- 1))
      else (case get_from_pool (light_po m) 0 of
              (None, po) \<Rightarrow> ret (Some (- 1))
            | (Some e, po) \<Rightarrow> do {
                upd_lm (\<lambda>m. m\<lparr>light_po := po, idle_ls := idle_ls m @ [new_light e i d]\<rparr>);
                lm_unlock;
                ret (Some 0) })) })"

text \<open>\<open>list_move_tail\<close>: out of the list it is in, to the end of another.\<close>

definition unlink :: "light \<Rightarrow> light_mng \<Rightarrow> light_mng" where
  "unlink l m = m\<lparr>idle_ls := filter (\<lambda>x. ent x \<noteq> ent l) (idle_ls m),
     steady_ls := filter (\<lambda>x. ent x \<noteq> ent l) (steady_ls m),
     flash_ls := filter (\<lambda>x. ent x \<noteq> ent l) (flash_ls m)\<rparr>"

definition to_idle :: "light \<Rightarrow> light_mng \<Rightarrow> light_mng" where
  "to_idle l m = (let m = unlink l m in m\<lparr>idle_ls := idle_ls m @ [l]\<rparr>)"

definition to_steady :: "light \<Rightarrow> light_mng \<Rightarrow> light_mng" where
  "to_steady l m = (let m = unlink l m in m\<lparr>steady_ls := steady_ls m @ [l]\<rparr>)"

definition to_flash :: "light \<Rightarrow> light_mng \<Rightarrow> light_mng" where
  "to_flash l m = (let m = unlink l m in m\<lparr>flash_ls := flash_ls m @ [l]\<rparr>)"

definition ts_or_zero :: "timespec option \<Rightarrow> timespec" where
  "ts_or_zero t = (case t of None \<Rightarrow> \<lparr>ts_sec = 0, ts_nsec = 0\<rparr> | Some t \<Rightarrow> t)"

definition light_ctrl_put_id :: "u8 \<Rightarrow> light_info \<Rightarrow> ('z vew_scheme, int) state" where
  "light_ctrl_put_id i info = do {
     m \<leftarrow> reads lm;
     (case light_find m i of
        None \<Rightarrow> ret (- 1)
      | Some l \<Rightarrow>
          (if li_intv info = 0 then do {
             upd_lm (to_steady (l\<lparr>linfo := info\<rparr>));
             ret 0 }
           else do {
             t \<leftarrow> clock_gettime;
             upd_lm (to_flash (l\<lparr>linfo := info, prev_tm := ts_or_zero t, prev_val := 0\<rparr>));
             ret 0 })) }"

primrec ctrl_put_loop :: "light_ctrl \<Rightarrow> nat list \<Rightarrow> ('z vew_scheme, int) state" where
  "ctrl_put_loop c [] = ret 0"
| "ctrl_put_loop c (i # is) =
     (if bit (mask c) i then do {
        r \<leftarrow> light_ctrl_put_id (word_of_nat i) (lc_info c ! i);
        (if r \<noteq> 0 then ret (- 1) else ctrl_put_loop c is) }
      else ctrl_put_loop c is)"

definition light_ctrl_put :: "light_ctrl \<Rightarrow> ('z vew_scheme, int option) state" where
  "light_ctrl_put c = obind lm_lock (\<lambda>_. do {
     r \<leftarrow> ctrl_put_loop c [0..<LIGHT_ID_END];
     lm_unlock;
     ret (Some r) })"

text \<open>\<open>light_ctrl_daemon\<close>: the two loops over the lists, and the function.\<close>

primrec steady_loop :: "light list \<Rightarrow> ('z vew_scheme, unit) state" where
  "steady_loop [] = ret ()"
| "steady_loop (l # ls) = do {
     light_opt_set (opt l) (li_value (linfo l));
     upd_lm (to_idle l);
     steady_loop ls }"

definition flash_due :: "timespec \<Rightarrow> light \<Rightarrow> bool" where
  "flash_due now l =
     (let tm_diff = timespec_diff_msec now (prev_tm l)
      in uint (li_intv (linfo l)) * 100 \<le> tm_diff \<or> tm_diff \<le> 0)"

definition flashed :: "timespec \<Rightarrow> light \<Rightarrow> light" where
  "flashed now l = l\<lparr>prev_val := (if prev_val l = 0 then li_value (linfo l) else 0), prev_tm := now\<rparr>"

primrec flash_loop :: "timespec \<Rightarrow> light list \<Rightarrow> ('z vew_scheme, unit) state" where
  "flash_loop now [] = ret ()"
| "flash_loop now (l # ls) = do {
     (if flash_due now l then do {
        light_opt_set (opt l) (prev_val (flashed now l));
        upd_lm (\<lambda>m. m\<lparr>flash_ls :=
          map (\<lambda>x. if ent x = ent l then flashed now l else x) (flash_ls m)\<rparr>) }
      else ret ());
     flash_loop now ls }"

definition light_ctrl_daemon :: "('z vew_scheme, int option) state" where
  "light_ctrl_daemon = obind lm_lock (\<lambda>_. do {
     m \<leftarrow> reads lm;
     steady_loop (steady_ls m);
     t \<leftarrow> clock_gettime;
     m \<leftarrow> reads lm;
     flash_loop (ts_or_zero t) (flash_ls m);
     lm_unlock;
     ret (Some 0) })"

section \<open>Day and night\<close>

definition isdaytime :: "('z vew_scheme, bool) state" where
  "isdaytime = do {
     p \<leftarrow> reads cam;
     (if daynight p = NIGHTTIME then ret False
      else do {
        t \<leftarrow> gettimeofday;
        ret (\<not> (tv_sec t \<le> sunrise p) \<and> \<not> (sunset p \<le> tv_sec t)) }) }"

definition daynight_set :: "int \<Rightarrow> ('z vew_scheme, unit) state" where
  "daynight_set d = writes (\<lambda>s. s\<lparr>cam := (cam s)\<lparr>daynight := d\<rparr>\<rparr>)"

definition daynight_get :: "('z vew_scheme, int) state" where
  "daynight_get = reads (\<lambda>s. daynight (cam s))"

section \<open>The white lamp\<close>

definition white_ctrl :: "bool \<Rightarrow> light_ctrl" where
  "white_ctrl on =
     (let z = \<lparr>li_value = 0, li_intv = 0\<rparr>
      in \<lparr>lc_info = [z, z, z, z\<lparr>li_value := if on then 255 else 0\<rparr>], mask = push_bit 3 1\<rparr>)"

definition white_light_set :: "bool \<Rightarrow> ('z vew_scheme, unit option) state" where
  "white_light_set on = obind (light_ctrl_put (white_ctrl on)) (\<lambda>_. ret (Some ()))"

definition upd_white :: "(white \<Rightarrow> white) \<Rightarrow> ('z vew_scheme, unit) state" where
  "upd_white f = upd_lm (\<lambda>m. m\<lparr>white := f (white m)\<rparr>)"

definition ve_cm_white_light_set :: "bool \<Rightarrow> ('z vew_scheme, unit) state" where
  "ve_cm_white_light_set on = do {
     h \<leftarrow> habitcom_get;
     (if run_mode h = 2 then upd_white (\<lambda>w. w\<lparr>cm_action := if on then LIGHT_ON else LIGHT_OFF\<rparr>)
      else ret ()) }"

definition white_light_always :: "('z vew_scheme, u8 option) state" where
  "white_light_always = do {
     st \<leftarrow> reads (\<lambda>s. wl_status (white (lm s)));
     (if st = WL_STATUS_OFF then obind (white_light_set True) (\<lambda>_. ret (Some WL_STATUS_ON))
      else ret (Some st)) }"

definition white_light_night :: "('z vew_scheme, u8 option) state" where
  "white_light_night = do {
     st \<leftarrow> reads (\<lambda>s. wl_status (white (lm s)));
     daytime \<leftarrow> isdaytime;
     (if st = WL_STATUS_ON then do {
        c \<leftarrow> ve_cfg_get;
        pb \<leftarrow> reads (\<lambda>s. prev_bright (lm s));
        obind
          (if pb \<noteq> white_bright (light_cfg c) then do {
             upd_lm (\<lambda>m. m\<lparr>prev_bright := white_bright (light_cfg c)\<rparr>);
             white_light_set True }
           else ret (Some ()))
          (\<lambda>_. if daytime then obind (white_light_set False) (\<lambda>_. ret (Some WL_STATUS_OFF))
               else ret (Some st)) }
      else if st = WL_STATUS_OFF then
        (if \<not> daytime then obind (white_light_set True) (\<lambda>_. ret (Some WL_STATUS_ON))
         else ret (Some st))
      else ret (Some st)) }"

definition white_light_night_coil :: "('z vew_scheme, u8 option) state" where
  "white_light_night_coil = do {
     st \<leftarrow> reads (\<lambda>s. wl_status (white (lm s)));
     act \<leftarrow> reads (\<lambda>s. cm_action (white (lm s)));
     (if st = WL_STATUS_ON then
        (if act = LIGHT_OFF then do {
           upd_white (\<lambda>w. w\<lparr>cm_action := - 1\<rparr>);
           obind (white_light_set False) (\<lambda>_. ret (Some WL_STATUS_OFF)) }
         else ret (Some st))
      else if st = WL_STATUS_OFF then
        (if act = LIGHT_ON then do {
           upd_white (\<lambda>w. w\<lparr>cm_action := - 1\<rparr>);
           daytime \<leftarrow> isdaytime;
           (if \<not> daytime then obind (white_light_set True) (\<lambda>_. ret (Some WL_STATUS_ON))
            else ret (Some st)) }
         else ret (Some st))
      else ret (Some st)) }"

definition white_light_update_status :: "u8 \<Rightarrow> ('z vew_scheme, unit) state" where
  "white_light_update_status next = do {
     st \<leftarrow> reads (\<lambda>s. wl_status (white (lm s)));
     (if next \<noteq> st then upd_white (\<lambda>w. w\<lparr>wl_prev_status := wl_status w, wl_status := next\<rparr>)
      else ret ()) }"

definition run_wlight :: "(u8 \<times> ('z vew_scheme, u8 option) state) list \<Rightarrow> ('z vew_scheme, unit option) state" where
  "run_wlight tab = do {
     c \<leftarrow> ve_cfg_get;
     (if white_mode (light_cfg c) < WLIGHT_MODE_END then
        (case map_of tab (white_mode (light_cfg c)) of
           None \<Rightarrow> ret (Some ())
         | Some h \<Rightarrow> obind h (\<lambda>next. do { white_light_update_status next; ret (Some ()) }))
      else ret (Some ())) }"

definition cm_white_light_daemon :: "('z vew_scheme, unit option) state" where
  "cm_white_light_daemon = run_wlight
     [(WLIGHT_MODE_NIGHT_ON, white_light_night),
      (WLIGHT_MODE_ALWAYS_ON, white_light_always),
      (WLIGHT_MODE_COIL_TOGGLE, white_light_night_coil)]"

definition mm_white_light_daemon :: "('z vew_scheme, unit option) state" where
  "mm_white_light_daemon = run_wlight
     [(WLIGHT_MODE_NIGHT_ON, white_light_night),
      (WLIGHT_MODE_ALWAYS_ON, white_light_always),
      (WLIGHT_MODE_COIL_TOGGLE, white_light_night_coil)]"

definition vm_white_light_daemon :: "('z vew_scheme, unit option) state" where
  "vm_white_light_daemon = run_wlight
     [(WLIGHT_MODE_NIGHT_ON, white_light_night),
      (WLIGHT_MODE_ALWAYS_ON, white_light_always)]"

definition white_light_daemon :: "('z vew_scheme, unit option) state" where
  "white_light_daemon = do {
     c \<leftarrow> ve_cfg_get;
     (if detect_mode c < DETECT_MODE_END then
        (case map_of [(DETECT_MODE_VIDEO, vm_white_light_daemon),
                      (DETECT_MODE_COIL, cm_white_light_daemon),
                      (DETECT_MODE_MIX, mm_white_light_daemon)] (detect_mode c) of
           None \<Rightarrow> ret (Some ())
         | Some d \<Rightarrow> d)
      else ret (Some ())) }"

text \<open>One round of \<open>light_thread\<close>, and the registrations at start-up.\<close>

definition light_thread_round :: "('z vew_scheme, unit option) state" where
  "light_thread_round =
     obind light_ctrl_daemon (\<lambda>_. obind white_light_daemon (\<lambda>_. do { usleep 1000; ret (Some ()) }))"

definition board_light_init :: "('z vew_scheme, unit option) state" where
  "board_light_init =
     obind (light_regst LIGHT_ID_RED Red_Drv) (\<lambda>_.
     obind (light_regst LIGHT_ID_BLUE Blue_Drv) (\<lambda>_.
     obind (light_regst LIGHT_ID_WHITE White_Drv) (\<lambda>_.
     obind (light_regst LIGHT_ID_GREEN Green_Drv) (\<lambda>_. ret (Some ())))))"

text \<open>A state of the whole device just before start-up, with every input quiet and the bus working.\<close>

definition idle_vew :: vew where
  "idle_vew = \<lparr>tick = 0, env_clock = (\<lambda>t. \<lparr>tv_sec = int t, tv_usec = 0\<rparr>),
     env_gpio = (\<lambda>g t. Gpio_Byte 0x31), env_i2c = (\<lambda>t. I2C_Ok), env_alloc = (\<lambda>t. True),
     env_mono = (\<lambda>t. Some \<lparr>ts_sec = int t, ts_nsec = 0\<rparr>), env_pwm = (\<lambda>t. True),
     pcf = 0xFF, events = [], ev_sem = 0,
     cfg = \<lparr>detect_mode = DETECT_MODE_COIL, ve_mode = 0, rg_mode = 0,
            light_cfg = \<lparr>white_bright = 50, white_mode = WLIGHT_MODE_NIGHT_ON\<rparr>\<rparr>,
     habit = \<lparr>rg_timeout = 10, run_mode = 2\<rparr>, io = [],
     rg = \<lparr>status = 0, prev_status = 0, ctrl = \<lparr>ctrler = 0, ctype = 0, action = 0, timeout = 0\<rparr>,
           ctrl_ls = [], last_time = \<lparr>tv_sec = 0, tv_usec = 0\<rparr>\<rparr>,
     lm = \<lparr>idle_ls = [], steady_ls = [], flash_ls = [],
           light_po = \<lparr>pfree = [], nr_free = 0, nr_used = 0, nr_total = 0\<rparr>, lm_mutex = False,
           white = \<lparr>wl_status = WL_STATUS_OFF, wl_prev_status = 0, cm_action = 0\<rparr>, prev_bright = 0\<rparr>,
     cam = \<lparr>daynight = NIGHTTIME, sunrise = 0, sunset = 0\<rparr>, dc_prev = 1, sc_prev = 1,
     mix_dc_prev = 1, mix_sc_prev = 1, coil_started = False, mix_started = False\<rparr>"

section \<open>The lamps leave the gate alone\<close>

text \<open>
  What no lamp program touches: the gate record, the three gate lines of the port register, the
  events and the surroundings; and it never makes the down line fall.
\<close>

definition gate_kept :: "'z vew_scheme \<Rightarrow> 'z vew_scheme \<Rightarrow> bool" where
  "gate_kept s s' \<longleftrightarrow> same_env s s' \<and> dn_safe s s' \<and> rg s' = rg s \<and> events s' = events s
     \<and> (\<forall>i \<le> RG_UP_BIT. bit (pcf s') i = bit (pcf s) i)"

interpretation gate_kept: effect gate_kept
  by unfold_locales
    (auto simp: gate_kept_def dn_safe_def intro: same_env.eff_refl same_env.eff_trans)

lemma gate_kept_reads:
  "keeps gate_kept gettimeofday" "keeps gate_kept clock_gettime" "keeps gate_kept open_pwm"
  by (auto intro!: keepsI simp: gate_kept_def dn_safe_def gettimeofday_def clock_gettime_def
      open_pwm_def pass_def same_env_def)

lemma gate_kept_upd: "keeps gate_kept (upd_lm f)"
  by (auto intro!: keepsI simp: gate_kept_def dn_safe_def upd_lm_def same_env_def)

lemma gate_kept_gpio_set: "keeps gate_kept (gpio_set g v)"
  by (auto intro!: keepsI simp: gate_kept_def dn_safe_def gpio_set_def pass_def emit_def usleep_def
      same_env_def)

lemma gate_kept_emit: "keeps gate_kept (emit (PwmDuty d))" "keeps gate_kept (usleep us)"
  by (auto intro!: keepsI simp: gate_kept_def dn_safe_def emit_def usleep_def same_env_def)

lemma gate_kept_pcf: "RG_UP_BIT < b \<Longrightarrow> b < 8 \<Longrightarrow> keeps gate_kept (pcf8574_set_bit b v)"
  using keeps_pcf [of b v]
  by (auto intro!: keepsI dn_guarded_pcf simp: gate_kept_def dn_safe_def exec_pcf8574_set_bit
      bit_pcf_newval same_env_def dn_falls_other)

lemma gate_kept_pcf_lamps: "keeps gate_kept (pcf8574_set_bit 5 v)" "keeps gate_kept (pcf8574_set_bit 7 v)"
  by (rule gate_kept_pcf; simp)+

lemmas lamp_intros = gate_kept.keeps_intros gate_kept_reads gate_kept_upd gate_kept_gpio_set
  gate_kept_emit gate_kept_pcf_lamps

lemma gate_kept_drivers: "keeps gate_kept (light_opt_set d v)"
  unfolding light_opt_set_def port_red_light_set_def port_blue_light_set_def Let_def
    port_white_light_set_def port_green_light_set_def light_enable_set_def ve_cfg_get_def
  by (cases d) (auto intro!: lamp_intros)

lemma gate_kept_locks: "keeps gate_kept lm_lock" "keeps gate_kept lm_unlock"
  unfolding lm_lock_def lm_unlock_def by (intro lamp_intros)+

lemma gate_kept_loops: "keeps gate_kept (steady_loop ls)" "keeps gate_kept (flash_loop now ls)"
  by (induction ls) (auto intro!: lamp_intros gate_kept_drivers)

lemma gate_kept_put_id: "keeps gate_kept (light_ctrl_put_id i info)"
  unfolding light_ctrl_put_id_def by (intro lamp_intros)

lemma gate_kept_put_loop: "keeps gate_kept (ctrl_put_loop c is)"
  by (induction "is") (auto intro!: lamp_intros gate_kept_put_id)

lemma gate_kept_ctrl: "keeps gate_kept (light_ctrl_put c)" "keeps gate_kept light_ctrl_daemon"
  "keeps gate_kept (light_regst i d)"
  unfolding light_ctrl_put_def light_ctrl_daemon_def light_regst_def
  by (intro lamp_intros gate_kept_locks gate_kept_loops gate_kept_put_loop)+

lemma gate_kept_white_set: "keeps gate_kept (white_light_set on)" "keeps gate_kept isdaytime"
  unfolding white_light_set_def isdaytime_def by (intro lamp_intros gate_kept_ctrl)+

lemma gate_kept_white:
  "keeps gate_kept white_light_night" "keeps gate_kept white_light_always"
  "keeps gate_kept white_light_night_coil"
  unfolding white_light_night_def white_light_always_def white_light_night_coil_def upd_white_def
    ve_cfg_get_def
  by (intro lamp_intros gate_kept_white_set)+

lemma gate_kept_update_status: "keeps gate_kept (white_light_update_status n)"
  unfolding white_light_update_status_def upd_white_def by (intro lamp_intros)

lemma gate_kept_run_wlight:
  "list_all (\<lambda>(k, h). keeps gate_kept h) tab \<Longrightarrow> keeps gate_kept (run_wlight tab)"
  unfolding run_wlight_def ve_cfg_get_def
  by (intro gate_kept.keeps_bind gate_kept.keeps_reads gate_kept.keeps_if gate_kept.keeps_map_of
      gate_kept.keeps_ret gate_kept.keeps_obind gate_kept_update_status)

lemma gate_kept_white_daemons:
  "keeps gate_kept cm_white_light_daemon" "keeps gate_kept mm_white_light_daemon"
  "keeps gate_kept vm_white_light_daemon"
  unfolding cm_white_light_daemon_def mm_white_light_daemon_def vm_white_light_daemon_def
  by (rule gate_kept_run_wlight; simp add: gate_kept_white)+

lemma gate_kept_white_daemon: "keeps gate_kept white_light_daemon"
  unfolding white_light_daemon_def ve_cfg_get_def
  by (intro gate_kept.keeps_bind gate_kept.keeps_reads gate_kept.keeps_if gate_kept.keeps_map_of
      gate_kept.keeps_ret) (simp_all add: gate_kept_white_daemons)

lemma gate_kept_thread_round: "keeps gate_kept light_thread_round"
  unfolding light_thread_round_def by (intro lamp_intros gate_kept_ctrl gate_kept_white_daemon)

lemma gate_kept_cm_set: "keeps gate_kept (ve_cm_white_light_set on)"
  unfolding ve_cm_white_light_set_def habitcom_get_def upd_white_def by (intro lamp_intros)

end
