(* ===== verification/Detect.thy ===== *)
theory Detect
  imports Light
begin

text \<open>
  The coil detection threads, \<open>ve/dev/roadgate/coil/detect.c\<close> and \<open>ve/dev/roadgate/mix/detect.c\<close>.
  The two files hold the same functions with their own static variables; \<open>detect_coil_round\<close> and
  \<open>safe_coil_round\<close> are the common bodies with the static variable as argument.
\<close>

abbreviation (input) VE_MODE_IN :: u8 where "VE_MODE_IN \<equiv> 0"
abbreviation (input) VE_MODE_OUT :: u8 where "VE_MODE_OUT \<equiv> 1"
abbreviation (input) VE_MODE_END :: u8 where "VE_MODE_END \<equiv> 2"
abbreviation (input) ROAD_GATE_CTRL_FRONT :: u8 where "ROAD_GATE_CTRL_FRONT \<equiv> 0"
abbreviation (input) ROAD_GATE_CTRL_FRONT_RECORD :: u8 where "ROAD_GATE_CTRL_FRONT_RECORD \<equiv> 1"
abbreviation (input) ROAD_GATE_CTRL_BACKGROUND :: u8 where "ROAD_GATE_CTRL_BACKGROUND \<equiv> 2"
abbreviation (input) ROAD_GATE_CTRL_MIX :: u8 where "ROAD_GATE_CTRL_MIX \<equiv> 3"
abbreviation (input) ROAD_GATE_CTRL_END :: u8 where "ROAD_GATE_CTRL_END \<equiv> 4"

section \<open>Rounds of the threads\<close>

text \<open>\<open>"%s -> %s"\<close> of the two coil texts; \<open>printf\<close> shows a null string as \<open>(null)\<close>.\<close>

definition coil_change_text :: "int \<Rightarrow> int \<Rightarrow> string" where
  "coil_change_text p now =
     (let txt = (\<lambda>v. case get_coil_text v of None \<Rightarrow> ''(null)'' | Some t \<Rightarrow> t)
      in txt p @ '' -> '' @ txt now)"

definition lo_up_ctrl :: rg_ctrl_t where
  "lo_up_ctrl = \<lparr>ctrler = RG_CTRLER_LO, ctype = RG_CTRL_AUTO, action = RG_ACTION_UP, timeout = 1000\<rparr>"

definition vehicle_into :: "('z vew_scheme, unit) state" where
  "vehicle_into = do {
     h \<leftarrow> habitcom_get;
     (if run_mode h = 2 then do {
        ve_cm_white_light_set True;
        c \<leftarrow> ve_cfg_get;
        (if rg_mode c = ROAD_GATE_CTRL_FRONT then do {
           ok \<leftarrow> rg_new_ctrl_alloc;
           (if ok then do { roadgate_new_ctrl lo_up_ctrl; ret () } else ret ()) }
         else ret ());
        detect_coil_sendto_dsp DSP_DETECT_COIL_INTO }
      else if run_mode h = 6 then ytbrk_rg_status_sendto_dsp DSP_RG_UP
      else ret ()) }"

definition vehicle_leave :: "('z vew_scheme, unit) state" where
  "vehicle_leave = do {
     h \<leftarrow> habitcom_get;
     (if run_mode h = 2 then do {
        ve_cm_white_light_set False;
        detect_coil_sendto_dsp DSP_DETECT_COIL_LEAVE }
      else if run_mode h = 6 then ytbrk_rg_status_sendto_dsp DSP_RG_DN
      else ret ()) }"

definition detect_coil_round ::
  "('z vew_scheme \<Rightarrow> u8) \<Rightarrow> (u8 \<Rightarrow> 'z vew_scheme \<Rightarrow> 'z vew_scheme) \<Rightarrow> ('z vew_scheme, unit) state" where
  "detect_coil_round prev set_prev = do {
     now \<leftarrow> rg_read_in_coil;
     p \<leftarrow> reads prev;
     (if now \<noteq> uint p then do {
        put_event ''detect coil'' (coil_change_text (uint p) now);
        writes (set_prev (word_of_int now));
        (if now = COIL_DETECT_VEHICLE then vehicle_into else vehicle_leave) }
      else ret ()) }"

definition safe_coil_round ::
  "('z vew_scheme \<Rightarrow> u8) \<Rightarrow> (u8 \<Rightarrow> 'z vew_scheme \<Rightarrow> 'z vew_scheme) \<Rightarrow> ('z vew_scheme, unit) state" where
  "safe_coil_round prev set_prev = do {
     now \<leftarrow> rg_read_safe_coil;
     p \<leftarrow> reads prev;
     (if uint p \<noteq> now then do {
        put_event ''safe coil'' (coil_change_text (uint p) now);
        writes (set_prev (word_of_int now));
        (if now = COIL_DETECT_VEHICLE then safe_coil_sendto_dsp DSP_SAFE_COIL_INTO
         else safe_coil_sendto_dsp DSP_SAFE_COIL_LEAVE) }
      else ret ()) }"

definition detect_coil_daemon :: "('z vew_scheme, unit) state" where
  "detect_coil_daemon = detect_coil_round dc_prev (\<lambda>v s. s\<lparr>dc_prev := v\<rparr>)"

definition safe_coil_daemon :: "('z vew_scheme, unit) state" where
  "safe_coil_daemon = safe_coil_round sc_prev (\<lambda>v s. s\<lparr>sc_prev := v\<rparr>)"

definition mix_detect_coil_daemon :: "('z vew_scheme, unit) state" where
  "mix_detect_coil_daemon = detect_coil_round mix_dc_prev (\<lambda>v s. s\<lparr>mix_dc_prev := v\<rparr>)"

definition mix_safe_coil_daemon :: "('z vew_scheme, unit) state" where
  "mix_safe_coil_daemon = safe_coil_round mix_sc_prev (\<lambda>v s. s\<lparr>mix_sc_prev := v\<rparr>)"

text \<open>One pass of a thread's loop: poll in the thread's detection mode, sleep ten seconds in others.\<close>

definition poll_round :: "u8 \<Rightarrow> ('z vew_scheme, unit) state \<Rightarrow> ('z vew_scheme, unit) state" where
  "poll_round mode daemon = do {
     c \<leftarrow> ve_cfg_get;
     (if detect_mode c = mode then do { daemon; usleep 1000 }
      else usleep (10 * 1000000)) }"

definition detect_coil_thread :: "('z vew_scheme, unit) state" where
  "detect_coil_thread = poll_round DETECT_MODE_COIL detect_coil_daemon"

definition safe_coil_thread :: "('z vew_scheme, unit) state" where
  "safe_coil_thread = poll_round DETECT_MODE_COIL safe_coil_daemon"

definition mix_detect_coil_thread :: "('z vew_scheme, unit) state" where
  "mix_detect_coil_thread = poll_round DETECT_MODE_MIX mix_detect_coil_daemon"

definition mix_safe_coil_thread :: "('z vew_scheme, unit) state" where
  "mix_safe_coil_thread = poll_round DETECT_MODE_MIX mix_safe_coil_daemon"

text \<open>\<open>pthread_once\<close> around the creation of the two threads.\<close>

definition coil_detect_once :: "('z vew_scheme, unit) state" where
  "coil_detect_once = writes (\<lambda>s. s\<lparr>coil_started := True\<rparr>)"

definition mix_detect_once :: "('z vew_scheme, unit) state" where
  "mix_detect_once = writes (\<lambda>s. s\<lparr>mix_started := True\<rparr>)"

section \<open>What the threads touch\<close>

text \<open>
  A detection thread never moves the bar and never changes the gate's status: all it does to the
  gate is to queue the local controller's automatic raise.
\<close>

definition only_queues :: "'z vew_scheme \<Rightarrow> 'z vew_scheme \<Rightarrow> bool" where
  "only_queues s s' \<longleftrightarrow> same_env s s' \<and> dn_safe s s' \<and> pcf s' = pcf s
     \<and> (\<exists>cs. set cs \<subseteq> {lo_up_ctrl} \<and> rg s' = (rg s)\<lparr>ctrl_ls := ctrl_ls (rg s) @ cs\<rparr>)"

lemma only_queues_same:
  "same_env s s' \<Longrightarrow> dn_safe s s' \<Longrightarrow> pcf s' = pcf s \<Longrightarrow> rg s' = rg s \<Longrightarrow> only_queues s s'"
  unfolding only_queues_def by (auto intro!: exI [of _ "[]"])

interpretation only_queues: effect only_queues
proof
  show "only_queues s s" for s :: "'a vew_scheme"
    by (rule only_queues_same) (simp_all add: same_env.eff_refl dn_safe_def)
  show "only_queues s u" if st: "only_queues s t" and tu: "only_queues t u" for s t u :: "'a vew_scheme"
  proof -
    obtain cs ds where cs: "set cs \<subseteq> {lo_up_ctrl}" "rg t = (rg s)\<lparr>ctrl_ls := ctrl_ls (rg s) @ cs\<rparr>"
      and ds: "set ds \<subseteq> {lo_up_ctrl}" "rg u = (rg t)\<lparr>ctrl_ls := ctrl_ls (rg t) @ ds\<rparr>"
      using st tu by (auto simp: only_queues_def)
    have "same_env s u" using st tu same_env.eff_trans [of s t u] by (simp add: only_queues_def)
    with st tu cs ds show ?thesis
      unfolding only_queues_def by (auto simp: dn_safe_def intro!: exI [of _ "cs @ ds"])
  qed
qed

lemma only_queues_reads: "keeps only_queues rg_read_in_coil" "keeps only_queues rg_read_safe_coil"
  by (rule keepsI, rule only_queues_same,
      rule keepsD keeps_rg_read_in_coil keeps_rg_read_safe_coil,
      rule keeps_rg_read_in_coil keeps_rg_read_safe_coil,
      rule keepsD, rule dn_safe_reads, simp_all)+

lemma only_queues_put_event: "keeps only_queues (put_event i d)"
  by (rule keepsI, rule only_queues_same, rule keepsD, rule keeps_put_event)
    (simp_all add: dn_safe_def)

lemma only_queues_dsp:
  "keeps only_queues (detect_coil_sendto_dsp d)" "keeps only_queues (safe_coil_sendto_dsp d)"
  "keeps only_queues (ytbrk_rg_status_sendto_dsp d)" "keeps only_queues (usleep us)"
  by (auto intro!: keepsI only_queues_same simp: dsp_defs emit_def usleep_def same_env_def dn_safe_def)

lemma only_queues_cm_set: "keeps only_queues (ve_cm_white_light_set on)"
  by (auto intro!: keepsI only_queues_same simp: ve_cm_white_light_set_def habitcom_get_def
      upd_white_def upd_lm_def same_env_def dn_safe_def)

lemma only_queues_alloc: "keeps only_queues rg_new_ctrl_alloc"
  by (auto intro!: keepsI only_queues_same
      simp: rg_new_ctrl_alloc_def malloc_ok_def pass_def same_env_def dn_safe_def)

lemma only_queues_new_ctrl: "keeps only_queues (roadgate_new_ctrl lo_up_ctrl)"
  by (rule keepsI) (simp add: only_queues_def roadgate_new_ctrl_def upd_rg_def same_env_def dn_safe_def,
      rule exI [of _ "[lo_up_ctrl]"], simp)

lemmas detect_intros = only_queues.keeps_intros only_queues_reads only_queues_put_event
  only_queues_dsp only_queues_cm_set only_queues_alloc only_queues_new_ctrl

lemma only_queues_vehicle: "keeps only_queues vehicle_into" "keeps only_queues vehicle_leave"
  unfolding vehicle_into_def vehicle_leave_def habitcom_get_def ve_cfg_get_def
  by (intro detect_intros)+

lemma only_queues_daemons:
  "keeps only_queues detect_coil_daemon" "keeps only_queues safe_coil_daemon"
  "keeps only_queues mix_detect_coil_daemon" "keeps only_queues mix_safe_coil_daemon"
proof -
  have w: "keeps only_queues (writes (\<lambda>s. s\<lparr>dc_prev := v\<rparr>))"
    "keeps only_queues (writes (\<lambda>s. s\<lparr>sc_prev := v\<rparr>))"
    "keeps only_queues (writes (\<lambda>s. s\<lparr>mix_dc_prev := v\<rparr>))"
    "keeps only_queues (writes (\<lambda>s. s\<lparr>mix_sc_prev := v\<rparr>))" for v
    by (auto intro!: keepsI only_queues_same simp: same_env_def dn_safe_def)
  show "keeps only_queues detect_coil_daemon" "keeps only_queues safe_coil_daemon"
    "keeps only_queues mix_detect_coil_daemon" "keeps only_queues mix_safe_coil_daemon"
    unfolding detect_coil_daemon_def safe_coil_daemon_def mix_detect_coil_daemon_def
      mix_safe_coil_daemon_def detect_coil_round_def safe_coil_round_def
    by (intro detect_intros only_queues_vehicle w)+
qed

lemma only_queues_threads:
  "keeps only_queues detect_coil_thread" "keeps only_queues safe_coil_thread"
  "keeps only_queues mix_detect_coil_thread" "keeps only_queues mix_safe_coil_thread"
  unfolding detect_coil_thread_def safe_coil_thread_def mix_detect_coil_thread_def
    mix_safe_coil_thread_def poll_round_def ve_cfg_get_def
  by (intro detect_intros only_queues_daemons)+

section \<open>One vehicle, one raise\<close>

lemma dc_prev_frame [simp]:
  "dc_prev (exec rg_read_in_coil s) = dc_prev s" "dc_prev (exec (put_event i d) s) = dc_prev s"
  "dc_prev (exec vehicle_into s) = dc_prev s" "dc_prev (exec vehicle_leave s) = dc_prev s"
proof -
  have count: "dc_prev (exec (gpio_count_high n g intv k) s) = dc_prev s" for n g intv k and s :: "'a vew_scheme"
    by (induction n arbitrary: k s) (simp_all add: exec_gpio_get usleep_def emit_def)
  show "dc_prev (exec rg_read_in_coil s) = dc_prev s"
    by (simp add: rg_read_in_coil_def gpio_get_filter_def Let_def count)
  show "dc_prev (exec (put_event i d) s) = dc_prev s"
    by (simp add: put_event_def event_item_alloc_def malloc_ok_def gettimeofday_def pass_def
        event_put_def split: option.split)
  show "dc_prev (exec vehicle_into s) = dc_prev s" "dc_prev (exec vehicle_leave s) = dc_prev s"
    by (simp_all add: vehicle_into_def vehicle_leave_def habitcom_get_def ve_cfg_get_def
        ve_cm_white_light_set_def upd_white_def upd_lm_def rg_new_ctrl_alloc_def malloc_ok_def
        pass_def roadgate_new_ctrl_def upd_rg_def dsp_defs emit_def)
qed

lemma coil_reading: "eval rg_read_in_coil s = COIL_DETECT_NONE \<or> eval rg_read_in_coil s = COIL_DETECT_VEHICLE"
  by (simp add: rg_read_in_coil_def gpio_get_filter_def Let_def)

text \<open>
  Where a vehicle that drives onto the coil raises the bar by itself: in run mode 2, with the gate
  controlled by the front end, and when the control can be allocated.
\<close>

definition raises_itself :: "'z vew_scheme \<Rightarrow> bool \<Rightarrow> bool" where
  "raises_itself s mem \<longleftrightarrow> run_mode (habit s) = 2 \<and> rg_mode (cfg s) = ROAD_GATE_CTRL_FRONT \<and> mem"

lemma vehicle_into_queue:
  assumes "\<forall>t. env_alloc s t = mem"
  shows "ctrl_ls (rg (exec vehicle_into s)) = ctrl_ls (rg s) @ (if raises_itself s mem then [lo_up_ctrl] else [])"
  using assms
  by (simp add: raises_itself_def vehicle_into_def habitcom_get_def ve_cfg_get_def ve_cm_white_light_set_def
      upd_white_def upd_lm_def rg_new_ctrl_alloc_def malloc_ok_def pass_def roadgate_new_ctrl_def
      upd_rg_def)

lemma vehicle_leave_queue: "ctrl_ls (rg (exec vehicle_leave s)) = ctrl_ls (rg s)"
  by (simp add: vehicle_leave_def habitcom_get_def ve_cm_white_light_set_def upd_white_def upd_lm_def)

text \<open>
  C13. One vehicle, one raise: a poll of the detection coil queues the local controller's raise
  exactly when the debounced reading turns from free to occupied, the run mode is 2, the gate is
  controlled by the front end and memory is left for the control; in every other case the queue
  stays as it is, however long the vehicle stays on the coil and however often it is polled. The
  reading is always remembered. (Memory: the allocations of this poll all succeed or all fail.)
\<close>

theorem one_vehicle_one_raise:
  assumes "\<forall>t. env_alloc s t = mem"
  shows "ctrl_ls (rg (exec detect_coil_daemon s)) = ctrl_ls (rg s) @
      (if eval rg_read_in_coil s = COIL_DETECT_VEHICLE \<and> dc_prev s \<noteq> 0
          \<and> run_mode (habit s) = 2 \<and> rg_mode (cfg s) = ROAD_GATE_CTRL_FRONT \<and> mem
       then [lo_up_ctrl] else [])
    \<and> uint (dc_prev (exec detect_coil_daemon s)) = eval rg_read_in_coil s"
proof -
  let ?v = "eval rg_read_in_coil s" and ?s1 = "exec rg_read_in_coil s"
  let ?s2 = "(exec (put_event ''detect coil'' (coil_change_text (uint (dc_prev s)) ?v)) ?s1)
    \<lparr>dc_prev := word_of_int ?v\<rparr>"
  have "same_env s ?s1" by (rule keepsD [OF keeps_rg_read_in_coil])
  moreover have "same_env ?s1 (exec (put_event i d) ?s1)" for i d by (rule keepsD [OF keeps_put_event])
  ultimately have env: "raises_itself ?s2 mem = raises_itself s mem" "\<forall>t. env_alloc ?s2 t = mem"
    using assms by (simp_all add: same_env_def raises_itself_def)
  have q: "ctrl_ls (rg ?s2) = ctrl_ls (rg s)" by simp
  consider (same) "?v = uint (dc_prev s)" | (into) "?v \<noteq> uint (dc_prev s)" "?v = COIL_DETECT_VEHICLE"
    | (leave) "?v \<noteq> uint (dc_prev s)" "?v = COIL_DETECT_NONE"
    using coil_reading [of s] by blast
  then show ?thesis
  proof cases
    case same
    then have "?v = 0 \<Longrightarrow> dc_prev s = 0" by (simp add: uint_0_iff)
    with same show ?thesis by (auto simp: detect_coil_daemon_def detect_coil_round_def)
  next
    case into
    then have "dc_prev s \<noteq> 0" by auto
    with into vehicle_into_queue [OF env(2)] env(1) q show ?thesis
      by (simp add: detect_coil_daemon_def detect_coil_round_def raises_itself_def)
  next
    case leave
    with vehicle_leave_queue [of ?s2] q show ?thesis
      by (simp add: detect_coil_daemon_def detect_coil_round_def)
  qed
qed

theorem one_vehicle_one_raise_witness:
  "let s = idle_vew\<lparr>env_gpio := (\<lambda>g t. Gpio_Byte 0x30)\<rparr> in
     ctrl_ls (rg (exec detect_coil_daemon s)) = [lo_up_ctrl]"
proof -
  let ?s = "idle_vew\<lparr>env_gpio := (\<lambda>g t. Gpio_Byte 0x30)\<rparr>"
  have "highs ?s DETECT_COIL_GPIO 0 5 = 0" by (simp add: highs_def gpio_high_def)
  then have "eval rg_read_in_coil ?s = COIL_DETECT_VEHICLE"
    by (simp add: rg_read_in_coil_def gpio_get_filter_def Let_def eval_gpio_count_high idle_vew_def)
  moreover have "dc_prev ?s \<noteq> 0" "run_mode (habit ?s) = 2" "rg_mode (cfg ?s) = ROAD_GATE_CTRL_FRONT"
    "\<forall>t. env_alloc ?s t" "ctrl_ls (rg ?s) = []"
    by (simp_all add: idle_vew_def)
  ultimately show ?thesis using one_vehicle_one_raise [of ?s True] by (simp add: Let_def)
qed

end
