(* ===== verification/Coil_Entrance.thy ===== *)
theory Coil_Entrance
  imports Rg_Effect
begin

text \<open>
  The four entrance machines of \<open>ve/dev/roadgate/coil\<close>, one section per source file. A handler is
  the source function of the same name with the prefix of its machine; the machine's contract
  and its effects follow from the bodies of \<open>Rg_Machine\<close> by the rules of \<open>Rg_Contract\<close> and
  \<open>Rg_Effect\<close>.
\<close>

section \<open>\<open>coil/front_entrance.c\<close>\<close>

definition cfe_front_set_up_signal :: "('z rgw_scheme, unit) state" where
  "cfe_front_set_up_signal = set_up_signal_on_coil"

definition cfe_front_do_dummy :: "('z rgw_scheme, unit) state" where
  "cfe_front_do_dummy = ret ()"

definition cfe_front_idle :: "'z rgm" where
  "cfe_front_idle = idle_lo_center
     [(RG_ACTION_UP, cfe_front_set_up_signal, STATUS_LO_OPEN)]
     [((RG_CTRL_MANUAL, RG_ACTION_UP), rg_set_up_signal, STATUS_CENTER_OPEN),
      ((RG_CTRL_MANUAL, RG_ACTION_DN), rg_down_s, STATUS_CENTER_CLOSE),
      ((RG_CTRL_MANUAL, RG_ACTION_STOP), rg_stop, STATUS_CENTER_STOP),
      ((RG_CTRL_MANUAL, RG_ACTION_NC_SET), rg_clr_up_signal, STATUS_CENTER_NC),
      ((RG_CTRL_MANUAL, RG_ACTION_NO_SET), rg_set_up_signal, STATUS_CENTER_NO),
      ((RG_CTRL_OTHER, RG_ACTION_UP), rg_set_up_signal, STATUS_CENTER_OPEN)]"

definition cfe_front_lo_open :: "'z rgm" where
  "cfe_front_lo_open = lo_open_coil [RG_ACTION_DN, RG_ACTION_STOP]"

definition cfe_front_center_open :: "'z rgm" where
  "cfe_front_center_open = open_overtime STATUS_IDLE"

definition cfe_front_center_close :: "'z rgm" where
  "cfe_front_center_close = ret STATUS_IDLE"

definition cfe_front_center_stop :: "'z rgm" where
  "cfe_front_center_stop = ret STATUS_IDLE"

definition cfe_front_center_nc :: "'z rgm" where
  "cfe_front_center_nc = nc_lo_center
     [(RG_ACTION_UP, cfe_front_do_dummy, STATUS_CENTER_NC_LO_WAIT)]
     [((RG_CTRL_MANUAL, RG_ACTION_NC_CLR), cfe_front_do_dummy, STATUS_IDLE),
      ((RG_CTRL_MANUAL, RG_ACTION_UP), rg_set_up_signal, STATUS_CENTER_NC_CENTER_OPEN),
      ((RG_CTRL_MANUAL, RG_ACTION_DN), rg_down_s, STATUS_CENTER_NC_CENTER_CLOSE),
      ((RG_CTRL_MANUAL, RG_ACTION_STOP), rg_clr_up_signal, STATUS_CENTER_NC_CENTER_STOP)]"

definition cfe_front_center_nc_lo_wait :: "'z rgm" where
  "cfe_front_center_nc_lo_wait = nc_lo_wait
     [((RG_CTRL_MANUAL, RG_ACTION_NC_CLR), cfe_front_set_up_signal, STATUS_LO_OPEN),
      ((RG_CTRL_MANUAL, RG_ACTION_UP), rg_set_up_signal, STATUS_CENTER_NC_CENTER_OPEN),
      ((RG_CTRL_MANUAL, RG_ACTION_DN), rg_down_s, STATUS_CENTER_NC_CENTER_CLOSE),
      ((RG_CTRL_MANUAL, RG_ACTION_STOP), rg_clr_up_signal, STATUS_CENTER_NC_CENTER_STOP)]"

definition cfe_front_center_nc_center_open :: "'z rgm" where
  "cfe_front_center_nc_center_open = nc_open_lo_wait"

definition cfe_front_center_nc_center_close :: "'z rgm" where
  "cfe_front_center_nc_center_close = nc_or_lo_wait"

definition cfe_front_center_nc_center_stop :: "'z rgm" where
  "cfe_front_center_nc_center_stop = nc_or_lo_wait"

definition cfe_front_center_no :: "'z rgm" where
  "cfe_front_center_no = no_center
     [((RG_CTRL_MANUAL, RG_ACTION_DN), rg_down_s, STATUS_IDLE)]"

definition coil_front_entrance :: "('z rgw_scheme, rg_fault + int) state" where
  "coil_front_entrance = run_status_handle
     [(STATUS_IDLE, cfe_front_idle),
      (STATUS_LO_OPEN, cfe_front_lo_open),
      (STATUS_CENTER_OPEN, cfe_front_center_open),
      (STATUS_CENTER_CLOSE, cfe_front_center_close),
      (STATUS_CENTER_STOP, cfe_front_center_stop),
      (STATUS_CENTER_NC, cfe_front_center_nc),
      (STATUS_CENTER_NC_LO_WAIT, cfe_front_center_nc_lo_wait),
      (STATUS_CENTER_NC_CENTER_OPEN, cfe_front_center_nc_center_open),
      (STATUS_CENTER_NC_CENTER_CLOSE, cfe_front_center_nc_center_close),
      (STATUS_CENTER_NC_CENTER_STOP, cfe_front_center_nc_center_stop),
      (STATUS_CENTER_NO, cfe_front_center_no)]"

lemmas cfe_defs = cfe_front_set_up_signal_def cfe_front_do_dummy_def cfe_front_idle_def
  cfe_front_lo_open_def cfe_front_center_open_def cfe_front_center_close_def
  cfe_front_center_stop_def cfe_front_center_nc_def cfe_front_center_nc_lo_wait_def
  cfe_front_center_nc_center_open_def cfe_front_center_nc_center_close_def
  cfe_front_center_nc_center_stop_def cfe_front_center_no_def

interpretation cfe: rg_machine coil_front_entrance lo_wait_statuses
  unfolding coil_front_entrance_def cfe_defs
  by (rule machineI) (auto intro!: handler_intros simp: machine_simps)

section \<open>\<open>coil/front_record_entrance.c\<close>\<close>

definition cfre_front_record_set_up_signal :: "('z rgw_scheme, unit) state" where
  "cfre_front_record_set_up_signal = set_up_signal_on_coil"

definition cfre_front_record_do_dummy :: "('z rgw_scheme, unit) state" where
  "cfre_front_record_do_dummy = ret ()"

definition cfre_front_record_idle :: "'z rgm" where
  "cfre_front_record_idle = idle_lo_center
     [(RG_ACTION_UP, cfre_front_record_set_up_signal, STATUS_LO_OPEN)]
     [((RG_CTRL_MANUAL, RG_ACTION_UP), rg_set_up_signal, STATUS_CENTER_OPEN),
      ((RG_CTRL_MANUAL, RG_ACTION_DN), rg_down_s, STATUS_CENTER_CLOSE),
      ((RG_CTRL_MANUAL, RG_ACTION_STOP), rg_stop, STATUS_CENTER_STOP),
      ((RG_CTRL_MANUAL, RG_ACTION_NC_SET), rg_clr_up_signal, STATUS_CENTER_NC),
      ((RG_CTRL_MANUAL, RG_ACTION_NO_SET), rg_set_up_signal, STATUS_CENTER_NO),
      ((RG_CTRL_OTHER, RG_ACTION_UP), rg_set_up_signal, STATUS_CENTER_OPEN)]"

definition cfre_front_record_lo_open :: "'z rgm" where
  "cfre_front_record_lo_open = lo_open_coil [RG_ACTION_DN, RG_ACTION_STOP]"

definition cfre_front_record_center_open :: "'z rgm" where
  "cfre_front_record_center_open = open_overtime STATUS_IDLE"

definition cfre_front_record_center_close :: "'z rgm" where
  "cfre_front_record_center_close = ret STATUS_IDLE"

definition cfre_front_record_center_stop :: "'z rgm" where
  "cfre_front_record_center_stop = ret STATUS_IDLE"

definition cfre_front_record_center_nc :: "'z rgm" where
  "cfre_front_record_center_nc = nc_lo_center
     [(RG_ACTION_UP, cfre_front_record_do_dummy, STATUS_CENTER_NC_LO_WAIT)]
     [((RG_CTRL_MANUAL, RG_ACTION_NC_CLR), cfre_front_record_do_dummy, STATUS_IDLE),
      ((RG_CTRL_MANUAL, RG_ACTION_UP), rg_set_up_signal, STATUS_CENTER_NC_CENTER_OPEN),
      ((RG_CTRL_MANUAL, RG_ACTION_DN), rg_down_s, STATUS_CENTER_NC_CENTER_CLOSE),
      ((RG_CTRL_MANUAL, RG_ACTION_STOP), rg_clr_up_signal, STATUS_CENTER_NC_CENTER_STOP)]"

definition cfre_front_record_center_nc_lo_wait :: "'z rgm" where
  "cfre_front_record_center_nc_lo_wait = nc_lo_wait
     [((RG_CTRL_MANUAL, RG_ACTION_NC_CLR), cfre_front_record_set_up_signal, STATUS_LO_OPEN),
      ((RG_CTRL_MANUAL, RG_ACTION_UP), rg_set_up_signal, STATUS_CENTER_NC_CENTER_OPEN),
      ((RG_CTRL_MANUAL, RG_ACTION_DN), rg_down_s, STATUS_CENTER_NC_CENTER_CLOSE),
      ((RG_CTRL_MANUAL, RG_ACTION_STOP), rg_clr_up_signal, STATUS_CENTER_NC_CENTER_STOP)]"

definition cfre_front_record_center_nc_center_open :: "'z rgm" where
  "cfre_front_record_center_nc_center_open = nc_open_lo_wait"

definition cfre_front_record_center_nc_center_close :: "'z rgm" where
  "cfre_front_record_center_nc_center_close = nc_or_lo_wait"

definition cfre_front_record_center_nc_center_stop :: "'z rgm" where
  "cfre_front_record_center_nc_center_stop = nc_or_lo_wait"

definition cfre_front_record_center_no :: "'z rgm" where
  "cfre_front_record_center_no = no_center
     [((RG_CTRL_MANUAL, RG_ACTION_DN), rg_down_s, STATUS_IDLE)]"

definition coil_front_record_entrance :: "('z rgw_scheme, rg_fault + int) state" where
  "coil_front_record_entrance = run_status_handle
     [(STATUS_IDLE, cfre_front_record_idle),
      (STATUS_LO_OPEN, cfre_front_record_lo_open),
      (STATUS_CENTER_OPEN, cfre_front_record_center_open),
      (STATUS_CENTER_CLOSE, cfre_front_record_center_close),
      (STATUS_CENTER_STOP, cfre_front_record_center_stop),
      (STATUS_CENTER_NC, cfre_front_record_center_nc),
      (STATUS_CENTER_NC_LO_WAIT, cfre_front_record_center_nc_lo_wait),
      (STATUS_CENTER_NC_CENTER_OPEN, cfre_front_record_center_nc_center_open),
      (STATUS_CENTER_NC_CENTER_CLOSE, cfre_front_record_center_nc_center_close),
      (STATUS_CENTER_NC_CENTER_STOP, cfre_front_record_center_nc_center_stop),
      (STATUS_CENTER_NO, cfre_front_record_center_no)]"

lemmas cfre_defs = cfre_front_record_set_up_signal_def cfre_front_record_do_dummy_def
  cfre_front_record_idle_def cfre_front_record_lo_open_def cfre_front_record_center_open_def
  cfre_front_record_center_close_def cfre_front_record_center_stop_def
  cfre_front_record_center_nc_def cfre_front_record_center_nc_lo_wait_def
  cfre_front_record_center_nc_center_open_def cfre_front_record_center_nc_center_close_def
  cfre_front_record_center_nc_center_stop_def cfre_front_record_center_no_def

interpretation cfre: rg_machine coil_front_record_entrance lo_wait_statuses
  unfolding coil_front_record_entrance_def cfre_defs
  by (rule machineI) (auto intro!: handler_intros simp: machine_simps)

section \<open>\<open>coil/center_entrance.c\<close>\<close>

definition cce_center_center_set_up_signal :: "('z rgw_scheme, unit) state" where
  "cce_center_center_set_up_signal = do { rg_set_up_signal; rg_status_sendto_dsp DSP_RG_UP }"

definition cce_rg_do_dummy :: "('z rgw_scheme, unit) state" where
  "cce_rg_do_dummy = ret ()"

definition cce_center_idle :: "'z rgm" where
  "cce_center_idle = idle_center
     [((RG_CTRL_MANUAL, RG_ACTION_UP), rg_set_up_signal, STATUS_CENTER_OPEN),
      ((RG_CTRL_MANUAL, RG_ACTION_DN), rg_down_s, STATUS_CENTER_CLOSE),
      ((RG_CTRL_MANUAL, RG_ACTION_STOP), rg_stop, STATUS_CENTER_STOP),
      ((RG_CTRL_MANUAL, RG_ACTION_NC_SET), rg_clr_up_signal, STATUS_CENTER_NC),
      ((RG_CTRL_MANUAL, RG_ACTION_NO_SET), rg_set_up_signal, STATUS_CENTER_NO),
      ((RG_CTRL_AUTO, RG_ACTION_UP), cce_center_center_set_up_signal, STATUS_CENTER_OPEN),
      ((RG_CTRL_OTHER, RG_ACTION_UP), cce_center_center_set_up_signal, STATUS_CENTER_OPEN)]"

definition cce_center_center_open :: "'z rgm" where
  "cce_center_center_open = open_overtime_new_ctrl_coil"

definition cce_center_center_close :: "'z rgm" where
  "cce_center_center_close = ret STATUS_IDLE"

definition cce_center_center_stop :: "'z rgm" where
  "cce_center_center_stop = ret STATUS_IDLE"

definition cce_center_center_nc :: "'z rgm" where
  "cce_center_center_nc = nc_center
     [((RG_CTRL_MANUAL, RG_ACTION_NC_CLR), cce_rg_do_dummy, STATUS_IDLE),
      ((RG_CTRL_MANUAL, RG_ACTION_UP), rg_set_up_signal, STATUS_CENTER_NC_CENTER_OPEN),
      ((RG_CTRL_MANUAL, RG_ACTION_DN), rg_down_s, STATUS_CENTER_NC_CENTER_CLOSE),
      ((RG_CTRL_MANUAL, RG_ACTION_STOP), rg_clr_up_signal, STATUS_CENTER_NC_CENTER_STOP),
      ((RG_CTRL_AUTO, RG_ACTION_UP), cce_center_center_set_up_signal, STATUS_CENTER_OPEN)]"

definition cce_center_center_nc_center_open :: "'z rgm" where
  "cce_center_center_nc_center_open = nc_open"

definition cce_center_center_nc_center_close :: "'z rgm" where
  "cce_center_center_nc_center_close = ret STATUS_CENTER_NC"

definition cce_center_center_nc_center_stop :: "'z rgm" where
  "cce_center_center_nc_center_stop = ret STATUS_CENTER_NC"

definition cce_center_center_no :: "'z rgm" where
  "cce_center_center_no = no_center
     [((RG_CTRL_MANUAL, RG_ACTION_DN), rg_down_s, STATUS_IDLE)]"

definition coil_center_entrance :: "('z rgw_scheme, rg_fault + int) state" where
  "coil_center_entrance = run_status_handle
     [(STATUS_IDLE, cce_center_idle),
      (STATUS_CENTER_OPEN, cce_center_center_open),
      (STATUS_CENTER_CLOSE, cce_center_center_close),
      (STATUS_CENTER_STOP, cce_center_center_stop),
      (STATUS_CENTER_NC, cce_center_center_nc),
      (STATUS_CENTER_NC_CENTER_OPEN, cce_center_center_nc_center_open),
      (STATUS_CENTER_NC_CENTER_CLOSE, cce_center_center_nc_center_close),
      (STATUS_CENTER_NC_CENTER_STOP, cce_center_center_nc_center_stop),
      (STATUS_CENTER_NO, cce_center_center_no)]"

lemmas cce_defs = cce_center_center_set_up_signal_def cce_rg_do_dummy_def cce_center_idle_def
  cce_center_center_open_def cce_center_center_close_def cce_center_center_stop_def
  cce_center_center_nc_def cce_center_center_nc_center_open_def
  cce_center_center_nc_center_close_def cce_center_center_nc_center_stop_def
  cce_center_center_no_def

interpretation cce: rg_machine coil_center_entrance center_statuses
  unfolding coil_center_entrance_def cce_defs
  by (rule machineI) (auto intro!: handler_intros simp: machine_simps)

section \<open>\<open>coil/mix_entrance.c\<close>\<close>

definition cme_mix_set_up_signal :: "('z rgw_scheme, unit) state" where
  "cme_mix_set_up_signal = set_up_signal_on_coil"

definition cme_mix_do_dummy :: "('z rgw_scheme, unit) state" where
  "cme_mix_do_dummy = ret ()"

definition cme_mix_idle :: "'z rgm" where
  "cme_mix_idle = idle_lo_center
     [(RG_ACTION_UP, cme_mix_set_up_signal, STATUS_LO_OPEN)]
     [((RG_CTRL_MANUAL, RG_ACTION_UP), rg_set_up_signal, STATUS_CENTER_OPEN),
      ((RG_CTRL_MANUAL, RG_ACTION_DN), rg_down_s, STATUS_CENTER_CLOSE),
      ((RG_CTRL_MANUAL, RG_ACTION_STOP), rg_stop, STATUS_CENTER_STOP),
      ((RG_CTRL_MANUAL, RG_ACTION_NC_SET), rg_clr_up_signal, STATUS_CENTER_NC),
      ((RG_CTRL_MANUAL, RG_ACTION_NO_SET), rg_set_up_signal, STATUS_CENTER_NO),
      ((RG_CTRL_AUTO, RG_ACTION_UP), rg_set_up_signal, STATUS_CENTER_OPEN),
      ((RG_CTRL_OTHER, RG_ACTION_UP), rg_set_up_signal, STATUS_CENTER_OPEN)]"

definition cme_mix_lo_open :: "'z rgm" where
  "cme_mix_lo_open = lo_open_coil_overtime [RG_ACTION_DN, RG_ACTION_STOP]"

definition cme_mix_center_open :: "'z rgm" where
  "cme_mix_center_open = open_overtime_coil"

definition cme_mix_center_close :: "'z rgm" where
  "cme_mix_center_close = ret STATUS_IDLE"

definition cme_mix_center_stop :: "'z rgm" where
  "cme_mix_center_stop = ret STATUS_IDLE"

definition cme_mix_center_nc :: "'z rgm" where
  "cme_mix_center_nc = nc_lo_center
     [(RG_ACTION_UP, cme_mix_do_dummy, STATUS_CENTER_NC_LO_WAIT)]
     [((RG_CTRL_MANUAL, RG_ACTION_NC_CLR), cme_mix_do_dummy, STATUS_IDLE),
      ((RG_CTRL_MANUAL, RG_ACTION_UP), rg_set_up_signal, STATUS_CENTER_NC_CENTER_OPEN),
      ((RG_CTRL_MANUAL, RG_ACTION_DN), rg_down_s, STATUS_CENTER_NC_CENTER_CLOSE),
      ((RG_CTRL_MANUAL, RG_ACTION_STOP), rg_clr_up_signal, STATUS_CENTER_NC_CENTER_STOP)]"

definition cme_mix_center_nc_lo_wait :: "'z rgm" where
  "cme_mix_center_nc_lo_wait = nc_lo_wait
     [((RG_CTRL_MANUAL, RG_ACTION_NC_CLR), cme_mix_set_up_signal, STATUS_LO_OPEN),
      ((RG_CTRL_MANUAL, RG_ACTION_UP), rg_set_up_signal, STATUS_CENTER_NC_CENTER_OPEN),
      ((RG_CTRL_MANUAL, RG_ACTION_DN), rg_down_s, STATUS_CENTER_NC_CENTER_CLOSE),
      ((RG_CTRL_MANUAL, RG_ACTION_STOP), rg_clr_up_signal, STATUS_CENTER_NC_CENTER_STOP)]"

definition cme_mix_center_nc_center_open :: "'z rgm" where
  "cme_mix_center_nc_center_open = nc_open_lo_wait"

definition cme_mix_center_nc_center_close :: "'z rgm" where
  "cme_mix_center_nc_center_close = nc_or_lo_wait"

definition cme_mix_center_nc_center_stop :: "'z rgm" where
  "cme_mix_center_nc_center_stop = nc_or_lo_wait"

definition cme_mix_center_no :: "'z rgm" where
  "cme_mix_center_no = no_center
     [((RG_CTRL_MANUAL, RG_ACTION_DN), rg_down_s, STATUS_IDLE)]"

definition coil_mix_entrance :: "('z rgw_scheme, rg_fault + int) state" where
  "coil_mix_entrance = run_status_handle
     [(STATUS_IDLE, cme_mix_idle),
      (STATUS_LO_OPEN, cme_mix_lo_open),
      (STATUS_CENTER_OPEN, cme_mix_center_open),
      (STATUS_CENTER_CLOSE, cme_mix_center_close),
      (STATUS_CENTER_STOP, cme_mix_center_stop),
      (STATUS_CENTER_NC, cme_mix_center_nc),
      (STATUS_CENTER_NC_LO_WAIT, cme_mix_center_nc_lo_wait),
      (STATUS_CENTER_NC_CENTER_OPEN, cme_mix_center_nc_center_open),
      (STATUS_CENTER_NC_CENTER_CLOSE, cme_mix_center_nc_center_close),
      (STATUS_CENTER_NC_CENTER_STOP, cme_mix_center_nc_center_stop),
      (STATUS_CENTER_NO, cme_mix_center_no)]"

lemmas cme_defs = cme_mix_set_up_signal_def cme_mix_do_dummy_def cme_mix_idle_def
  cme_mix_lo_open_def cme_mix_center_open_def cme_mix_center_close_def cme_mix_center_stop_def
  cme_mix_center_nc_def cme_mix_center_nc_lo_wait_def cme_mix_center_nc_center_open_def
  cme_mix_center_nc_center_close_def cme_mix_center_nc_center_stop_def cme_mix_center_no_def

interpretation cme: rg_machine coil_mix_entrance lo_wait_statuses
  unfolding coil_mix_entrance_def cme_defs
  by (rule machineI) (auto intro!: handler_intros simp: machine_simps)

section \<open>Effects\<close>

context rg_effect
begin

lemma keeps_coil_front_entrance: "keeps R coil_front_entrance"
  unfolding coil_front_entrance_def cfe_defs by (intro machine_intros)

lemma keeps_coil_front_record_entrance: "keeps R coil_front_record_entrance"
  unfolding coil_front_record_entrance_def cfre_defs by (intro machine_intros)

lemma keeps_coil_center_entrance: "keeps R coil_center_entrance"
  unfolding coil_center_entrance_def cce_defs by (intro machine_intros)

lemma keeps_coil_mix_entrance: "keeps R coil_mix_entrance"
  unfolding coil_mix_entrance_def cme_defs by (intro machine_intros)

end

end
