(* ===== verification/Coil_Export.thy ===== *)
theory Coil_Export
  imports Rg_Effect
begin

text \<open>
  The four export machines of \<open>ve/dev/roadgate/coil\<close>, one section per source file. A handler is
  the source function of the same name with the prefix of its machine; the machine's contract
  and its effects follow from the bodies of \<open>Rg_Machine\<close> by the rules of \<open>Rg_Contract\<close> and
  \<open>Rg_Effect\<close>.
\<close>

section \<open>\<open>coil/front_export.c\<close>\<close>

definition cfx_rg_do_dummy :: "('z rgw_scheme, unit) state" where
  "cfx_rg_do_dummy = ret ()"

definition cfx_front_idle :: "'z rgm" where
  "cfx_front_idle = idle_lo_center
     [(RG_ACTION_UP, rg_set_up_signal, STATUS_LO_OPEN)]
     [((RG_CTRL_MANUAL, RG_ACTION_UP), rg_set_up_signal, STATUS_CENTER_OPEN),
      ((RG_CTRL_MANUAL, RG_ACTION_DN), rg_down_s, STATUS_CENTER_CLOSE),
      ((RG_CTRL_MANUAL, RG_ACTION_STOP), rg_stop, STATUS_CENTER_STOP),
      ((RG_CTRL_MANUAL, RG_ACTION_NC_SET), rg_clr_up_signal, STATUS_CENTER_NC),
      ((RG_CTRL_MANUAL, RG_ACTION_NO_SET), rg_set_up_signal, STATUS_CENTER_NO),
      ((RG_CTRL_OTHER, RG_ACTION_UP), rg_set_up_signal, STATUS_CENTER_OPEN)]"

definition cfx_front_lo_open :: "'z rgm" where
  "cfx_front_lo_open = open_new_ctrl_coil"

definition cfx_front_center_open :: "'z rgm" where
  "cfx_front_center_open = open_overtime STATUS_IDLE"

definition cfx_front_center_close :: "'z rgm" where
  "cfx_front_center_close = ret STATUS_IDLE"

definition cfx_front_center_stop :: "'z rgm" where
  "cfx_front_center_stop = ret STATUS_IDLE"

definition cfx_front_center_nc :: "'z rgm" where
  "cfx_front_center_nc = nc_center
     [((RG_CTRL_MANUAL, RG_ACTION_NC_CLR), cfx_rg_do_dummy, STATUS_IDLE),
      ((RG_CTRL_MANUAL, RG_ACTION_UP), rg_set_up_signal, STATUS_CENTER_NC_CENTER_OPEN),
      ((RG_CTRL_MANUAL, RG_ACTION_DN), rg_down_s, STATUS_CENTER_NC_CENTER_CLOSE),
      ((RG_CTRL_MANUAL, RG_ACTION_STOP), rg_clr_up_signal, STATUS_CENTER_NC_CENTER_STOP)]"

definition cfx_front_center_nc_center_open :: "'z rgm" where
  "cfx_front_center_nc_center_open = nc_open"

definition cfx_front_center_nc_center_close :: "'z rgm" where
  "cfx_front_center_nc_center_close = ret STATUS_CENTER_NC"

definition cfx_front_center_nc_center_stop :: "'z rgm" where
  "cfx_front_center_nc_center_stop = ret STATUS_CENTER_NC"

definition cfx_front_center_no :: "'z rgm" where
  "cfx_front_center_no = no_center
     [((RG_CTRL_MANUAL, RG_ACTION_DN), rg_down_s, STATUS_IDLE)]"

definition coil_front_export :: "('z rgw_scheme, rg_fault + int) state" where
  "coil_front_export = run_status_handle
     [(STATUS_IDLE, cfx_front_idle),
      (STATUS_LO_OPEN, cfx_front_lo_open),
      (STATUS_CENTER_OPEN, cfx_front_center_open),
      (STATUS_CENTER_CLOSE, cfx_front_center_close),
      (STATUS_CENTER_STOP, cfx_front_center_stop),
      (STATUS_CENTER_NC, cfx_front_center_nc),
      (STATUS_CENTER_NC_CENTER_OPEN, cfx_front_center_nc_center_open),
      (STATUS_CENTER_NC_CENTER_CLOSE, cfx_front_center_nc_center_close),
      (STATUS_CENTER_NC_CENTER_STOP, cfx_front_center_nc_center_stop),
      (STATUS_CENTER_NO, cfx_front_center_no)]"

lemmas cfx_defs = cfx_rg_do_dummy_def cfx_front_idle_def cfx_front_lo_open_def
  cfx_front_center_open_def cfx_front_center_close_def cfx_front_center_stop_def
  cfx_front_center_nc_def cfx_front_center_nc_center_open_def cfx_front_center_nc_center_close_def
  cfx_front_center_nc_center_stop_def cfx_front_center_no_def

interpretation cfx: rg_machine coil_front_export lo_statuses
  unfolding coil_front_export_def cfx_defs
  by (rule machineI) (auto intro!: handler_intros simp: machine_simps)

section \<open>\<open>coil/front_record_export.c\<close>\<close>

definition cfrx_rg_do_dummy :: "('z rgw_scheme, unit) state" where
  "cfrx_rg_do_dummy = ret ()"

definition cfrx_front_record_idle :: "'z rgm" where
  "cfrx_front_record_idle = idle_lo_center
     [(RG_ACTION_UP, rg_set_up_signal, STATUS_LO_OPEN)]
     [((RG_CTRL_MANUAL, RG_ACTION_UP), rg_set_up_signal, STATUS_CENTER_OPEN),
      ((RG_CTRL_MANUAL, RG_ACTION_DN), rg_down_s, STATUS_CENTER_CLOSE),
      ((RG_CTRL_MANUAL, RG_ACTION_STOP), rg_stop, STATUS_CENTER_STOP),
      ((RG_CTRL_MANUAL, RG_ACTION_NC_SET), rg_clr_up_signal, STATUS_CENTER_NC),
      ((RG_CTRL_MANUAL, RG_ACTION_NO_SET), rg_set_up_signal, STATUS_CENTER_NO),
      ((RG_CTRL_OTHER, RG_ACTION_UP), rg_set_up_signal, STATUS_CENTER_OPEN)]"

definition cfrx_front_record_lo_open :: "'z rgm" where
  "cfrx_front_record_lo_open = open_new_ctrl_coil"

definition cfrx_front_record_center_open :: "'z rgm" where
  "cfrx_front_record_center_open = open_overtime STATUS_IDLE"

definition cfrx_front_record_center_close :: "'z rgm" where
  "cfrx_front_record_center_close = ret STATUS_IDLE"

definition cfrx_front_record_center_stop :: "'z rgm" where
  "cfrx_front_record_center_stop = ret STATUS_IDLE"

definition cfrx_front_record_center_nc :: "'z rgm" where
  "cfrx_front_record_center_nc = nc_center
     [((RG_CTRL_MANUAL, RG_ACTION_NC_CLR), cfrx_rg_do_dummy, STATUS_IDLE),
      ((RG_CTRL_MANUAL, RG_ACTION_UP), rg_set_up_signal, STATUS_CENTER_NC_CENTER_OPEN),
      ((RG_CTRL_MANUAL, RG_ACTION_DN), rg_down_s, STATUS_CENTER_NC_CENTER_CLOSE),
      ((RG_CTRL_MANUAL, RG_ACTION_STOP), rg_clr_up_signal, STATUS_CENTER_NC_CENTER_STOP)]"

definition cfrx_front_record_center_nc_center_open :: "'z rgm" where
  "cfrx_front_record_center_nc_center_open = nc_open"

definition cfrx_front_record_center_nc_center_close :: "'z rgm" where
  "cfrx_front_record_center_nc_center_close = ret STATUS_CENTER_NC"

definition cfrx_front_record_center_nc_center_stop :: "'z rgm" where
  "cfrx_front_record_center_nc_center_stop = ret STATUS_CENTER_NC"

definition cfrx_front_record_center_no :: "'z rgm" where
  "cfrx_front_record_center_no = no_center
     [((RG_CTRL_MANUAL, RG_ACTION_DN), rg_down_s, STATUS_IDLE)]"

definition coil_front_record_export :: "('z rgw_scheme, rg_fault + int) state" where
  "coil_front_record_export = run_status_handle
     [(STATUS_IDLE, cfrx_front_record_idle),
      (STATUS_LO_OPEN, cfrx_front_record_lo_open),
      (STATUS_CENTER_OPEN, cfrx_front_record_center_open),
      (STATUS_CENTER_CLOSE, cfrx_front_record_center_close),
      (STATUS_CENTER_STOP, cfrx_front_record_center_stop),
      (STATUS_CENTER_NC, cfrx_front_record_center_nc),
      (STATUS_CENTER_NC_CENTER_OPEN, cfrx_front_record_center_nc_center_open),
      (STATUS_CENTER_NC_CENTER_CLOSE, cfrx_front_record_center_nc_center_close),
      (STATUS_CENTER_NC_CENTER_STOP, cfrx_front_record_center_nc_center_stop),
      (STATUS_CENTER_NO, cfrx_front_record_center_no)]"

lemmas cfrx_defs = cfrx_rg_do_dummy_def cfrx_front_record_idle_def cfrx_front_record_lo_open_def
  cfrx_front_record_center_open_def cfrx_front_record_center_close_def
  cfrx_front_record_center_stop_def cfrx_front_record_center_nc_def
  cfrx_front_record_center_nc_center_open_def cfrx_front_record_center_nc_center_close_def
  cfrx_front_record_center_nc_center_stop_def cfrx_front_record_center_no_def

interpretation cfrx: rg_machine coil_front_record_export lo_statuses
  unfolding coil_front_record_export_def cfrx_defs
  by (rule machineI) (auto intro!: handler_intros simp: machine_simps)

section \<open>\<open>coil/center_export.c\<close>\<close>

definition ccx_center_center_set_up_signal :: "('z rgw_scheme, unit) state" where
  "ccx_center_center_set_up_signal = do { rg_set_up_signal; rg_status_sendto_dsp DSP_RG_UP }"

definition ccx_rg_do_dummy :: "('z rgw_scheme, unit) state" where
  "ccx_rg_do_dummy = ret ()"

definition ccx_center_idle :: "'z rgm" where
  "ccx_center_idle = idle_center
     [((RG_CTRL_MANUAL, RG_ACTION_UP), rg_set_up_signal, STATUS_CENTER_OPEN),
      ((RG_CTRL_MANUAL, RG_ACTION_DN), rg_down_s, STATUS_CENTER_CLOSE),
      ((RG_CTRL_MANUAL, RG_ACTION_STOP), rg_stop, STATUS_CENTER_STOP),
      ((RG_CTRL_MANUAL, RG_ACTION_NC_SET), rg_clr_up_signal, STATUS_CENTER_NC),
      ((RG_CTRL_MANUAL, RG_ACTION_NO_SET), rg_set_up_signal, STATUS_CENTER_NO),
      ((RG_CTRL_AUTO, RG_ACTION_UP), ccx_center_center_set_up_signal, STATUS_CENTER_OPEN),
      ((RG_CTRL_OTHER, RG_ACTION_UP), ccx_center_center_set_up_signal, STATUS_CENTER_OPEN)]"

definition ccx_center_center_open :: "'z rgm" where
  "ccx_center_center_open = open_overtime STATUS_IDLE"

definition ccx_center_center_close :: "'z rgm" where
  "ccx_center_center_close = ret STATUS_IDLE"

definition ccx_center_center_stop :: "'z rgm" where
  "ccx_center_center_stop = ret STATUS_IDLE"

definition ccx_center_center_nc :: "'z rgm" where
  "ccx_center_center_nc = nc_center
     [((RG_CTRL_MANUAL, RG_ACTION_NC_CLR), ccx_rg_do_dummy, STATUS_IDLE),
      ((RG_CTRL_MANUAL, RG_ACTION_UP), rg_set_up_signal, STATUS_CENTER_NC_CENTER_OPEN),
      ((RG_CTRL_MANUAL, RG_ACTION_DN), rg_down_s, STATUS_CENTER_NC_CENTER_CLOSE),
      ((RG_CTRL_MANUAL, RG_ACTION_STOP), rg_clr_up_signal, STATUS_CENTER_NC_CENTER_STOP),
      ((RG_CTRL_AUTO, RG_ACTION_UP), ccx_center_center_set_up_signal, STATUS_CENTER_OPEN),
      ((RG_CTRL_OTHER, RG_ACTION_UP), ccx_center_center_set_up_signal, STATUS_CENTER_OPEN)]"

definition ccx_center_center_nc_center_open :: "'z rgm" where
  "ccx_center_center_nc_center_open = nc_open"

definition ccx_center_center_nc_center_close :: "'z rgm" where
  "ccx_center_center_nc_center_close = ret STATUS_CENTER_NC"

definition ccx_center_center_nc_center_stop :: "'z rgm" where
  "ccx_center_center_nc_center_stop = ret STATUS_CENTER_NC"

definition ccx_center_center_no :: "'z rgm" where
  "ccx_center_center_no = no_center
     [((RG_CTRL_MANUAL, RG_ACTION_DN), rg_down_s, STATUS_IDLE)]"

definition coil_center_export :: "('z rgw_scheme, rg_fault + int) state" where
  "coil_center_export = run_status_handle
     [(STATUS_IDLE, ccx_center_idle),
      (STATUS_CENTER_OPEN, ccx_center_center_open),
      (STATUS_CENTER_CLOSE, ccx_center_center_close),
      (STATUS_CENTER_STOP, ccx_center_center_stop),
      (STATUS_CENTER_NC, ccx_center_center_nc),
      (STATUS_CENTER_NC_CENTER_OPEN, ccx_center_center_nc_center_open),
      (STATUS_CENTER_NC_CENTER_CLOSE, ccx_center_center_nc_center_close),
      (STATUS_CENTER_NC_CENTER_STOP, ccx_center_center_nc_center_stop),
      (STATUS_CENTER_NO, ccx_center_center_no)]"

lemmas ccx_defs = ccx_center_center_set_up_signal_def ccx_rg_do_dummy_def ccx_center_idle_def
  ccx_center_center_open_def ccx_center_center_close_def ccx_center_center_stop_def
  ccx_center_center_nc_def ccx_center_center_nc_center_open_def
  ccx_center_center_nc_center_close_def ccx_center_center_nc_center_stop_def
  ccx_center_center_no_def

interpretation ccx: rg_machine coil_center_export center_statuses
  unfolding coil_center_export_def ccx_defs
  by (rule machineI) (auto intro!: handler_intros simp: machine_simps)

section \<open>\<open>coil/mix_export.c\<close>\<close>

definition cmx_rg_do_dummy :: "('z rgw_scheme, unit) state" where
  "cmx_rg_do_dummy = ret ()"

definition cmx_mix_idle :: "'z rgm" where
  "cmx_mix_idle = idle_lo_center
     [(RG_ACTION_UP, rg_set_up_signal, STATUS_LO_OPEN)]
     [((RG_CTRL_MANUAL, RG_ACTION_UP), rg_set_up_signal, STATUS_CENTER_OPEN),
      ((RG_CTRL_MANUAL, RG_ACTION_DN), rg_down_s, STATUS_CENTER_CLOSE),
      ((RG_CTRL_MANUAL, RG_ACTION_STOP), rg_stop, STATUS_CENTER_STOP),
      ((RG_CTRL_MANUAL, RG_ACTION_NC_SET), rg_clr_up_signal, STATUS_CENTER_NC),
      ((RG_CTRL_MANUAL, RG_ACTION_NO_SET), rg_set_up_signal, STATUS_CENTER_NO),
      ((RG_CTRL_AUTO, RG_ACTION_UP), rg_set_up_signal, STATUS_CENTER_OPEN),
      ((RG_CTRL_OTHER, RG_ACTION_UP), rg_set_up_signal, STATUS_CENTER_OPEN)]"

definition cmx_mix_lo_open :: "'z rgm" where
  "cmx_mix_lo_open = open_new_ctrl"

definition cmx_mix_center_open :: "'z rgm" where
  "cmx_mix_center_open = open_overtime STATUS_IDLE"

definition cmx_mix_center_close :: "'z rgm" where
  "cmx_mix_center_close = ret STATUS_IDLE"

definition cmx_mix_center_stop :: "'z rgm" where
  "cmx_mix_center_stop = ret STATUS_IDLE"

definition cmx_mix_center_nc :: "'z rgm" where
  "cmx_mix_center_nc = nc_center
     [((RG_CTRL_MANUAL, RG_ACTION_NC_CLR), cmx_rg_do_dummy, STATUS_IDLE),
      ((RG_CTRL_MANUAL, RG_ACTION_UP), rg_set_up_signal, STATUS_CENTER_NC_CENTER_OPEN),
      ((RG_CTRL_MANUAL, RG_ACTION_DN), rg_down_s, STATUS_CENTER_NC_CENTER_CLOSE),
      ((RG_CTRL_MANUAL, RG_ACTION_STOP), rg_clr_up_signal, STATUS_CENTER_NC_CENTER_STOP)]"

definition cmx_mix_center_nc_center_open :: "'z rgm" where
  "cmx_mix_center_nc_center_open = nc_open"

definition cmx_mix_center_nc_center_close :: "'z rgm" where
  "cmx_mix_center_nc_center_close = ret STATUS_CENTER_NC"

definition cmx_mix_center_nc_center_stop :: "'z rgm" where
  "cmx_mix_center_nc_center_stop = ret STATUS_CENTER_NC"

definition cmx_mix_center_no :: "'z rgm" where
  "cmx_mix_center_no = no_center
     [((RG_CTRL_MANUAL, RG_ACTION_DN), rg_down_s, STATUS_IDLE)]"

definition coil_mix_export :: "('z rgw_scheme, rg_fault + int) state" where
  "coil_mix_export = run_status_handle
     [(STATUS_IDLE, cmx_mix_idle),
      (STATUS_LO_OPEN, cmx_mix_lo_open),
      (STATUS_CENTER_OPEN, cmx_mix_center_open),
      (STATUS_CENTER_CLOSE, cmx_mix_center_close),
      (STATUS_CENTER_STOP, cmx_mix_center_stop),
      (STATUS_CENTER_NC, cmx_mix_center_nc),
      (STATUS_CENTER_NC_CENTER_OPEN, cmx_mix_center_nc_center_open),
      (STATUS_CENTER_NC_CENTER_CLOSE, cmx_mix_center_nc_center_close),
      (STATUS_CENTER_NC_CENTER_STOP, cmx_mix_center_nc_center_stop),
      (STATUS_CENTER_NO, cmx_mix_center_no)]"

lemmas cmx_defs = cmx_rg_do_dummy_def cmx_mix_idle_def cmx_mix_lo_open_def cmx_mix_center_open_def
  cmx_mix_center_close_def cmx_mix_center_stop_def cmx_mix_center_nc_def
  cmx_mix_center_nc_center_open_def cmx_mix_center_nc_center_close_def
  cmx_mix_center_nc_center_stop_def cmx_mix_center_no_def

interpretation cmx: rg_machine coil_mix_export lo_statuses
  unfolding coil_mix_export_def cmx_defs
  by (rule machineI) (auto intro!: handler_intros simp: machine_simps)

section \<open>Effects\<close>

context rg_effect
begin

lemma keeps_coil_front_export: "keeps R coil_front_export"
  unfolding coil_front_export_def cfx_defs by (intro machine_intros)

lemma keeps_coil_front_record_export: "keeps R coil_front_record_export"
  unfolding coil_front_record_export_def cfrx_defs by (intro machine_intros)

lemma keeps_coil_center_export: "keeps R coil_center_export"
  unfolding coil_center_export_def ccx_defs by (intro machine_intros)

lemma keeps_coil_mix_export: "keeps R coil_mix_export"
  unfolding coil_mix_export_def cmx_defs by (intro machine_intros)

end

end
