(* ===== verification/Mix_Entrance.thy ===== *)
theory Mix_Entrance
  imports Rg_Effect
begin

text \<open>
  The four entrance machines of \<open>ve/dev/roadgate/mix\<close>, one section per source file. A handler is
  the source function of the same name with the prefix of its machine; the machine's contract
  and its effects follow from the bodies of \<open>Rg_Machine\<close> by the rules of \<open>Rg_Contract\<close> and
  \<open>Rg_Effect\<close>.
\<close>

section \<open>\<open>mix/front_entrance.c\<close>\<close>

definition mfe_front_set_up_signal :: "('z rgw_scheme, unit) state" where
  "mfe_front_set_up_signal = rg_set_up_signal"

definition mfe_front_do_dummy :: "('z rgw_scheme, unit) state" where
  "mfe_front_do_dummy = ret ()"

definition mfe_front_idle :: "'z rgm" where
  "mfe_front_idle = idle_lo_center
     [(RG_ACTION_UP, mfe_front_set_up_signal, STATUS_LO_OPEN)]
     [((RG_CTRL_MANUAL, RG_ACTION_UP), rg_set_up_signal, STATUS_CENTER_OPEN),
      ((RG_CTRL_MANUAL, RG_ACTION_DN), rg_down_s, STATUS_CENTER_CLOSE),
      ((RG_CTRL_MANUAL, RG_ACTION_STOP), rg_stop, STATUS_CENTER_STOP),
      ((RG_CTRL_MANUAL, RG_ACTION_NC_SET), rg_clr_up_signal, STATUS_CENTER_NC),
      ((RG_CTRL_MANUAL, RG_ACTION_NO_SET), rg_set_up_signal, STATUS_CENTER_NO),
      ((RG_CTRL_OTHER, RG_ACTION_UP), rg_set_up_signal, STATUS_CENTER_OPEN)]"

definition mfe_front_lo_open :: "'z rgm" where
  "mfe_front_lo_open = lo_open_coil_overtime [RG_ACTION_UP, RG_ACTION_DN, RG_ACTION_STOP]"

definition mfe_front_center_open :: "'z rgm" where
  "mfe_front_center_open = open_overtime STATUS_IDLE"

definition mfe_front_center_close :: "'z rgm" where
  "mfe_front_center_close = ret STATUS_IDLE"

definition mfe_front_center_stop :: "'z rgm" where
  "mfe_front_center_stop = ret STATUS_IDLE"

definition mfe_front_center_nc :: "'z rgm" where
  "mfe_front_center_nc = nc_lo_center
     [(RG_ACTION_UP, mfe_front_do_dummy, STATUS_CENTER_NC_LO_WAIT)]
     [((RG_CTRL_MANUAL, RG_ACTION_NC_CLR), mfe_front_do_dummy, STATUS_IDLE),
      ((RG_CTRL_MANUAL, RG_ACTION_UP), rg_set_up_signal, STATUS_CENTER_NC_CENTER_OPEN),
      ((RG_CTRL_MANUAL, RG_ACTION_DN), rg_down_s, STATUS_CENTER_NC_CENTER_CLOSE),
      ((RG_CTRL_MANUAL, RG_ACTION_STOP), rg_clr_up_signal, STATUS_CENTER_NC_CENTER_STOP)]"

definition mfe_front_center_nc_lo_wait :: "'z rgm" where
  "mfe_front_center_nc_lo_wait = nc_lo_wait
     [((RG_CTRL_MANUAL, RG_ACTION_NC_CLR), mfe_front_set_up_signal, STATUS_LO_OPEN),
      ((RG_CTRL_MANUAL, RG_ACTION_UP), rg_set_up_signal, STATUS_CENTER_NC_CENTER_OPEN),
      ((RG_CTRL_MANUAL, RG_ACTION_DN), rg_down_s, STATUS_CENTER_NC_CENTER_CLOSE),
      ((RG_CTRL_MANUAL, RG_ACTION_STOP), rg_clr_up_signal, STATUS_CENTER_NC_CENTER_STOP)]"

definition mfe_front_center_nc_center_open :: "'z rgm" where
  "mfe_front_center_nc_center_open = nc_open_lo_wait"

definition mfe_front_center_nc_center_close :: "'z rgm" where
  "mfe_front_center_nc_center_close = nc_or_lo_wait"

definition mfe_front_center_nc_center_stop :: "'z rgm" where
  "mfe_front_center_nc_center_stop = nc_or_lo_wait"

definition mfe_front_center_no :: "'z rgm" where
  "mfe_front_center_no = no_center
     [((RG_CTRL_MANUAL, RG_ACTION_DN), rg_down_s, STATUS_IDLE)]"

definition mix_front_entrance :: "('z rgw_scheme, rg_fault + int) state" where
  "mix_front_entrance = run_status_handle
     [(STATUS_IDLE, mfe_front_idle),
      (STATUS_LO_OPEN, mfe_front_lo_open),
      (STATUS_CENTER_OPEN, mfe_front_center_open),
      (STATUS_CENTER_CLOSE, mfe_front_center_close),
      (STATUS_CENTER_STOP, mfe_front_center_stop),
      (STATUS_CENTER_NC, mfe_front_center_nc),
      (STATUS_CENTER_NC_LO_WAIT, mfe_front_center_nc_lo_wait),
      (STATUS_CENTER_NC_CENTER_OPEN, mfe_front_center_nc_center_open),
      (STATUS_CENTER_NC_CENTER_CLOSE, mfe_front_center_nc_center_close),
      (STATUS_CENTER_NC_CENTER_STOP, mfe_front_center_nc_center_stop),
      (STATUS_CENTER_NO, mfe_front_center_no)]"

lemmas mfe_defs = mfe_front_set_up_signal_def mfe_front_do_dummy_def mfe_front_idle_def
  mfe_front_lo_open_def mfe_front_center_open_def mfe_front_center_close_def
  mfe_front_center_stop_def mfe_front_center_nc_def mfe_front_center_nc_lo_wait_def
  mfe_front_center_nc_center_open_def mfe_front_center_nc_center_close_def
  mfe_front_center_nc_center_stop_def mfe_front_center_no_def

interpretation mfe: rg_machine mix_front_entrance lo_wait_statuses
  unfolding mix_front_entrance_def mfe_defs
  by (rule machineI) (auto intro!: handler_intros simp: machine_simps)

section \<open>\<open>mix/front_record_entrance.c\<close>\<close>

definition mfre_front_record_set_up_signal :: "('z rgw_scheme, unit) state" where
  "mfre_front_record_set_up_signal = rg_set_up_signal"

definition mfre_front_record_do_dummy :: "('z rgw_scheme, unit) state" where
  "mfre_front_record_do_dummy = ret ()"

definition mfre_front_record_idle :: "'z rgm" where
  "mfre_front_record_idle = idle_lo_center
     [(RG_ACTION_UP, mfre_front_record_set_up_signal, STATUS_LO_OPEN)]
     [((RG_CTRL_MANUAL, RG_ACTION_UP), rg_set_up_signal, STATUS_CENTER_OPEN),
      ((RG_CTRL_MANUAL, RG_ACTION_DN), rg_down_s, STATUS_CENTER_CLOSE),
      ((RG_CTRL_MANUAL, RG_ACTION_STOP), rg_stop, STATUS_CENTER_STOP),
      ((RG_CTRL_MANUAL, RG_ACTION_NC_SET), rg_clr_up_signal, STATUS_CENTER_NC),
      ((RG_CTRL_MANUAL, RG_ACTION_NO_SET), rg_set_up_signal, STATUS_CENTER_NO),
      ((RG_CTRL_OTHER, RG_ACTION_UP), rg_set_up_signal, STATUS_CENTER_OPEN)]"

definition mfre_front_record_lo_open :: "'z rgm" where
  "mfre_front_record_lo_open = lo_open_coil_overtime [RG_ACTION_DN, RG_ACTION_STOP]"

definition mfre_front_record_center_open :: "'z rgm" where
  "mfre_front_record_center_open = open_overtime STATUS_IDLE"

definition mfre_front_record_center_close :: "'z rgm" where
  "mfre_front_record_center_close = ret STATUS_IDLE"

definition mfre_front_record_center_stop :: "'z rgm" where
  "mfre_front_record_center_stop = ret STATUS_IDLE"

definition mfre_front_record_center_nc :: "'z rgm" where
  "mfre_front_record_center_nc = nc_lo_center
     [(RG_ACTION_UP, mfre_front_record_do_dummy, STATUS_CENTER_NC_LO_WAIT)]
     [((RG_CTRL_MANUAL, RG_ACTION_NC_CLR), mfre_front_record_do_dummy, STATUS_IDLE),
      ((RG_CTRL_MANUAL, RG_ACTION_UP), rg_set_up_signal, STATUS_CENTER_NC_CENTER_OPEN),
      ((RG_CTRL_MANUAL, RG_ACTION_DN), rg_down_s, STATUS_CENTER_NC_CENTER_CLOSE),
      ((RG_CTRL_MANUAL, RG_ACTION_STOP), rg_clr_up_signal, STATUS_CENTER_NC_CENTER_STOP)]"

definition mfre_front_record_center_nc_lo_wait :: "'z rgm" where
  "mfre_front_record_center_nc_lo_wait = nc_lo_wait
     [((RG_CTRL_MANUAL, RG_ACTION_NC_CLR), mfre_front_record_set_up_signal, STATUS_LO_OPEN),
      ((RG_CTRL_MANUAL, RG_ACTION_UP), rg_set_up_signal, STATUS_CENTER_NC_CENTER_OPEN),
      ((RG_CTRL_MANUAL, RG_ACTION_DN), rg_down_s, STATUS_CENTER_NC_CENTER_CLOSE),
      ((RG_CTRL_MANUAL, RG_ACTION_STOP), rg_clr_up_signal, STATUS_CENTER_NC_CENTER_STOP)]"

definition mfre_front_record_center_nc_center_open :: "'z rgm" where
  "mfre_front_record_center_nc_center_open = nc_open_lo_wait"

definition mfre_front_record_center_nc_center_close :: "'z rgm" where
  "mfre_front_record_center_nc_center_close = nc_or_lo_wait"

definition mfre_front_record_center_nc_center_stop :: "'z rgm" where
  "mfre_front_record_center_nc_center_stop = nc_or_lo_wait"

definition mfre_front_record_center_no :: "'z rgm" where
  "mfre_front_record_center_no = no_center
     [((RG_CTRL_MANUAL, RG_ACTION_DN), rg_down_s, STATUS_IDLE)]"

definition mix_front_record_entrance :: "('z rgw_scheme, rg_fault + int) state" where
  "mix_front_record_entrance = run_status_handle
     [(STATUS_IDLE, mfre_front_record_idle),
      (STATUS_LO_OPEN, mfre_front_record_lo_open),
      (STATUS_CENTER_OPEN, mfre_front_record_center_open),
      (STATUS_CENTER_CLOSE, mfre_front_record_center_close),
      (STATUS_CENTER_STOP, mfre_front_record_center_stop),
      (STATUS_CENTER_NC, mfre_front_record_center_nc),
      (STATUS_CENTER_NC_LO_WAIT, mfre_front_record_center_nc_lo_wait),
      (STATUS_CENTER_NC_CENTER_OPEN, mfre_front_record_center_nc_center_open),
      (STATUS_CENTER_NC_CENTER_CLOSE, mfre_front_record_center_nc_center_close),
      (STATUS_CENTER_NC_CENTER_STOP, mfre_front_record_center_nc_center_stop),
      (STATUS_CENTER_NO, mfre_front_record_center_no)]"

lemmas mfre_defs = mfre_front_record_set_up_signal_def mfre_front_record_do_dummy_def
  mfre_front_record_idle_def mfre_front_record_lo_open_def mfre_front_record_center_open_def
  mfre_front_record_center_close_def mfre_front_record_center_stop_def
  mfre_front_record_center_nc_def mfre_front_record_center_nc_lo_wait_def
  mfre_front_record_center_nc_center_open_def mfre_front_record_center_nc_center_close_def
  mfre_front_record_center_nc_center_stop_def mfre_front_record_center_no_def

interpretation mfre: rg_machine mix_front_record_entrance lo_wait_statuses
  unfolding mix_front_record_entrance_def mfre_defs
  by (rule machineI) (auto intro!: handler_intros simp: machine_simps)

section \<open>\<open>mix/center_entrance.c\<close>\<close>

definition mce_center_center_set_up_signal :: "('z rgw_scheme, unit) state" where
  "mce_center_center_set_up_signal = do { rg_set_up_signal; rg_status_sendto_dsp DSP_RG_UP }"

definition mce_rg_do_dummy :: "('z rgw_scheme, unit) state" where
  "mce_rg_do_dummy = ret ()"

definition mce_center_idle :: "'z rgm" where
  "mce_center_idle = idle_center
     [((RG_CTRL_MANUAL, RG_ACTION_UP), rg_set_up_signal, STATUS_CENTER_OPEN),
      ((RG_CTRL_MANUAL, RG_ACTION_DN), rg_down_s, STATUS_CENTER_CLOSE),
      ((RG_CTRL_MANUAL, RG_ACTION_STOP), rg_stop, STATUS_CENTER_STOP),
      ((RG_CTRL_MANUAL, RG_ACTION_NC_SET), rg_clr_up_signal, STATUS_CENTER_NC),
      ((RG_CTRL_MANUAL, RG_ACTION_NO_SET), rg_set_up_signal, STATUS_CENTER_NO),
      ((RG_CTRL_AUTO, RG_ACTION_UP), mce_center_center_set_up_signal, STATUS_CENTER_OPEN),
      ((RG_CTRL_OTHER, RG_ACTION_UP), mce_center_center_set_up_signal, STATUS_CENTER_OPEN)]"

definition mce_center_center_open :: "'z rgm" where
  "mce_center_center_open = open_overtime_new_ctrl_coil"

definition mce_center_center_close :: "'z rgm" where
  "mce_center_center_close = ret STATUS_IDLE"

definition mce_center_center_stop :: "'z rgm" where
  "mce_center_center_stop = ret STATUS_IDLE"

definition mce_center_center_nc :: "'z rgm" where
  "mce_center_center_nc = nc_center
     [((RG_CTRL_MANUAL, RG_ACTION_NC_CLR), mce_rg_do_dummy, STATUS_IDLE),
      ((RG_CTRL_MANUAL, RG_ACTION_UP), rg_set_up_signal, STATUS_CENTER_NC_CENTER_OPEN),
      ((RG_CTRL_MANUAL, RG_ACTION_DN), rg_down_s, STATUS_CENTER_NC_CENTER_CLOSE),
      ((RG_CTRL_MANUAL, RG_ACTION_STOP), rg_clr_up_signal, STATUS_CENTER_NC_CENTER_STOP),
      ((RG_CTRL_AUTO, RG_ACTION_UP), mce_center_center_set_up_signal, STATUS_CENTER_OPEN)]"

definition mce_center_center_nc_center_open :: "'z rgm" where
  "mce_center_center_nc_center_open = nc_open"

definition mce_center_center_nc_center_close :: "'z rgm" where
  "mce_center_center_nc_center_close = ret STATUS_CENTER_NC"

definition mce_center_center_nc_center_stop :: "'z rgm" where
  "mce_center_center_nc_center_stop = ret STATUS_CENTER_NC"

definition mce_center_center_no :: "'z rgm" where
  "mce_center_center_no = no_center
     [((RG_CTRL_MANUAL, RG_ACTION_DN), rg_down_s, STATUS_IDLE)]"

definition mix_center_entrance :: "('z rgw_scheme, rg_fault + int) state" where
  "mix_center_entrance = run_status_handle
     [(STATUS_IDLE, mce_center_idle),
      (STATUS_CENTER_OPEN, mce_center_center_open),
      (STATUS_CENTER_CLOSE, mce_center_center_close),
      (STATUS_CENTER_STOP, mce_center_center_stop),
      (STATUS_CENTER_NC, mce_center_center_nc),
      (STATUS_CENTER_NC_CENTER_OPEN, mce_center_center_nc_center_open),
      (STATUS_CENTER_NC_CENTER_CLOSE, mce_center_center_nc_center_close),
      (STATUS_CENTER_NC_CENTER_STOP, mce_center_center_nc_center_stop),
      (STATUS_CENTER_NO, mce_center_center_no)]"

lemmas mce_defs = mce_center_center_set_up_signal_def mce_rg_do_dummy_def mce_center_idle_def
  mce_center_center_open_def mce_center_center_close_def mce_center_center_stop_def
  mce_center_center_nc_def mce_center_center_nc_center_open_def
  mce_center_center_nc_center_close_def mce_center_center_nc_center_stop_def
  mce_center_center_no_def

interpretation mce: rg_machine mix_center_entrance center_statuses
  unfolding mix_center_entrance_def mce_defs
  by (rule machineI) (auto intro!: handler_intros simp: machine_simps)

section \<open>\<open>mix/mix_entrance.c\<close>\<close>

definition mme_mix_set_up_signal :: "('z rgw_scheme, unit) state" where
  "mme_mix_set_up_signal = set_up_signal_on_coil"

definition mme_mix_do_dummy :: "('z rgw_scheme, unit) state" where
  "mme_mix_do_dummy = ret ()"

definition mme_mix_idle :: "'z rgm" where
  "mme_mix_idle = idle_lo_center
     [(RG_ACTION_UP, mme_mix_set_up_signal, STATUS_LO_OPEN)]
     [((RG_CTRL_MANUAL, RG_ACTION_UP), rg_set_up_signal, STATUS_CENTER_OPEN),
      ((RG_CTRL_MANUAL, RG_ACTION_DN), rg_down_s, STATUS_CENTER_CLOSE),
      ((RG_CTRL_MANUAL, RG_ACTION_STOP), rg_stop, STATUS_CENTER_STOP),
      ((RG_CTRL_MANUAL, RG_ACTION_NC_SET), rg_clr_up_signal, STATUS_CENTER_NC),
      ((RG_CTRL_MANUAL, RG_ACTION_NO_SET), rg_set_up_signal, STATUS_CENTER_NO),
      ((RG_CTRL_AUTO, RG_ACTION_UP), rg_set_up_signal, STATUS_CENTER_OPEN),
      ((RG_CTRL_OTHER, RG_ACTION_UP), rg_set_up_signal, STATUS_CENTER_OPEN)]"

definition mme_mix_lo_open :: "'z rgm" where
  "mme_mix_lo_open = lo_open_coil_overtime [RG_ACTION_DN, RG_ACTION_STOP]"

definition mme_mix_center_open :: "'z rgm" where
  "mme_mix_center_open = open_overtime_coil"

definition mme_mix_center_close :: "'z rgm" where
  "mme_mix_center_close = ret STATUS_IDLE"

definition mme_mix_center_stop :: "'z rgm" where
  "mme_mix_center_stop = ret STATUS_IDLE"

definition mme_mix_center_nc :: "'z rgm" where
  "mme_mix_center_nc = nc_lo_center
     [(RG_ACTION_UP, mme_mix_do_dummy, STATUS_CENTER_NC_LO_WAIT)]
     [((RG_CTRL_MANUAL, RG_ACTION_NC_CLR), mme_mix_do_dummy, STATUS_IDLE),
      ((RG_CTRL_MANUAL, RG_ACTION_UP), rg_set_up_signal, STATUS_CENTER_NC_CENTER_OPEN),
      ((RG_CTRL_MANUAL, RG_ACTION_DN), rg_down_s, STATUS_CENTER_NC_CENTER_CLOSE),
      ((RG_CTRL_MANUAL, RG_ACTION_STOP), rg_clr_up_signal, STATUS_CENTER_NC_CENTER_STOP)]"

definition mme_mix_center_nc_lo_wait :: "'z rgm" where
  "mme_mix_center_nc_lo_wait = nc_lo_wait
     [((RG_CTRL_MANUAL, RG_ACTION_NC_CLR), mme_mix_set_up_signal, STATUS_LO_OPEN),
      ((RG_CTRL_MANUAL, RG_ACTION_UP), rg_set_up_signal, STATUS_CENTER_NC_CENTER_OPEN),
      ((RG_CTRL_MANUAL, RG_ACTION_DN), rg_down_s, STATUS_CENTER_NC_CENTER_CLOSE),
      ((RG_CTRL_MANUAL, RG_ACTION_STOP), rg_clr_up_signal, STATUS_CENTER_NC_CENTER_STOP)]"

definition mme_mix_center_nc_center_open :: "'z rgm" where
  "mme_mix_center_nc_center_open = nc_open_lo_wait"

definition mme_mix_center_nc_center_close :: "'z rgm" where
  "mme_mix_center_nc_center_close = nc_or_lo_wait"

definition mme_mix_center_nc_center_stop :: "'z rgm" where
  "mme_mix_center_nc_center_stop = nc_or_lo_wait"

definition mme_mix_center_no :: "'z rgm" where
  "mme_mix_center_no = no_center
     [((RG_CTRL_MANUAL, RG_ACTION_DN), rg_down_s, STATUS_IDLE)]"

definition mix_mix_entrance :: "('z rgw_scheme, rg_fault + int) state" where
  "mix_mix_entrance = run_status_handle
     [(STATUS_IDLE, mme_mix_idle),
      (STATUS_LO_OPEN, mme_mix_lo_open),
      (STATUS_CENTER_OPEN, mme_mix_center_open),
      (STATUS_CENTER_CLOSE, mme_mix_center_close),
      (STATUS_CENTER_STOP, mme_mix_center_stop),
      (STATUS_CENTER_NC, mme_mix_center_nc),
      (STATUS_CENTER_NC_LO_WAIT, mme_mix_center_nc_lo_wait),
      (STATUS_CENTER_NC_CENTER_OPEN, mme_mix_center_nc_center_open),
      (STATUS_CENTER_NC_CENTER_CLOSE, mme_mix_center_nc_center_close),
      (STATUS_CENTER_NC_CENTER_STOP, mme_mix_center_nc_center_stop),
      (STATUS_CENTER_NO, mme_mix_center_no)]"

lemmas mme_defs = mme_mix_set_up_signal_def mme_mix_do_dummy_def mme_mix_idle_def
  mme_mix_lo_open_def mme_mix_center_open_def mme_mix_center_close_def mme_mix_center_stop_def
  mme_mix_center_nc_def mme_mix_center_nc_lo_wait_def mme_mix_center_nc_center_open_def
  mme_mix_center_nc_center_close_def mme_mix_center_nc_center_stop_def mme_mix_center_no_def

interpretation mme: rg_machine mix_mix_entrance lo_wait_statuses
  unfolding mix_mix_entrance_def mme_defs
  by (rule machineI) (auto intro!: handler_intros simp: machine_simps)

section \<open>Effects\<close>

context rg_effect
begin

lemma keeps_mix_front_entrance: "keeps R mix_front_entrance"
  unfolding mix_front_entrance_def mfe_defs by (intro machine_intros)

lemma keeps_mix_front_record_entrance: "keeps R mix_front_record_entrance"
  unfolding mix_front_record_entrance_def mfre_defs by (intro machine_intros)

lemma keeps_mix_center_entrance: "keeps R mix_center_entrance"
  unfolding mix_center_entrance_def mce_defs by (intro machine_intros)

lemma keeps_mix_mix_entrance: "keeps R mix_mix_entrance"
  unfolding mix_mix_entrance_def mme_defs by (intro machine_intros)

end

end
