(* ===== verification/Mix_Export.thy ===== *)
theory Mix_Export
  imports Rg_Effect
begin

text \<open>
  The four export machines of \<open>ve/dev/roadgate/mix\<close>, one section per source file. A handler is
  the source function of the same name with the prefix of its machine; the machine's contract
  and its effects follow from the bodies of \<open>Rg_Machine\<close> by the rules of \<open>Rg_Contract\<close> and
  \<open>Rg_Effect\<close>.
\<close>

section \<open>\<open>mix/front_export.c\<close>\<close>

definition mfx_rg_do_dummy :: "('z rgw_scheme, unit) state" where
  "mfx_rg_do_dummy = ret ()"

definition mfx_front_idle :: "'z rgm" where
  "mfx_front_idle = idle_lo_center
     [(RG_ACTION_UP, rg_set_up_signal, STATUS_LO_OPEN)]
     [((RG_CTRL_MANUAL, RG_ACTION_UP), rg_set_up_signal, STATUS_CENTER_OPEN),
      ((RG_CTRL_MANUAL, RG_ACTION_DN), rg_down_s, STATUS_CENTER_CLOSE),
      ((RG_CTRL_MANUAL, RG_ACTION_STOP), rg_stop, STATUS_CENTER_STOP),
      ((RG_CTRL_MANUAL, RG_ACTION_NC_SET), rg_clr_up_signal, STATUS_CENTER_NC),
      ((RG_CTRL_MANUAL, RG_ACTION_NO_SET), rg_set_up_signal, STATUS_CENTER_NO),
      ((RG_CTRL_OTHER, RG_ACTION_UP), rg_set_up_signal, STATUS_CENTER_OPEN)]"

definition mfx_front_lo_open :: "'z rgm" where
  "mfx_front_lo_open = open_new_ctrl_coil"

definition mfx_front_center_open :: "'z rgm" where
  "mfx_front_center_open = open_overtime STATUS_IDLE"

definition mfx_front_center_close :: "'z rgm" where
  "mfx_front_center_close = ret STATUS_IDLE"

definition mfx_front_center_stop :: "'z rgm" where
  "mfx_front_center_stop = ret STATUS_IDLE"

definition mfx_front_center_nc :: "'z rgm" where
  "mfx_front_center_nc = nc_center
     [((RG_CTRL_MANUAL, RG_ACTION_NC_CLR), mfx_rg_do_dummy, STATUS_IDLE),
      ((RG_CTRL_MANUAL, RG_ACTION_UP), rg_set_up_signal, STATUS_CENTER_NC_CENTER_OPEN),
      ((RG_CTRL_MANUAL, RG_ACTION_DN), rg_down_s, STATUS_CENTER_NC_CENTER_CLOSE),
      ((RG_CTRL_MANUAL, RG_ACTION_STOP), rg_clr_up_signal, STATUS_CENTER_NC_CENTER_STOP)]"

definition mfx_front_center_nc_center_open :: "'z rgm" where
  "mfx_front_center_nc_center_open = nc_open"

definition mfx_front_center_nc_center_close :: "'z rgm" where
  "mfx_front_center_nc_center_close = ret STATUS_CENTER_NC"

definition mfx_front_center_nc_center_stop :: "'z rgm" where
  "mfx_front_center_nc_center_stop = ret STATUS_CENTER_NC"

definition mfx_front_center_no :: "'z rgm" where
  "mfx_front_center_no = no_center
     [((RG_CTRL_MANUAL, RG_ACTION_DN), rg_down_s, STATUS_IDLE)]"

definition mix_front_export :: "('z rgw_scheme, rg_fault + int) state" where
  "mix_front_export = run_status_handle
     [(STATUS_IDLE, mfx_front_idle),
      (STATUS_LO_OPEN, mfx_front_lo_open),
      (STATUS_CENTER_OPEN, mfx_front_center_open),
      (STATUS_CENTER_CLOSE, mfx_front_center_close),
      (STATUS_CENTER_STOP, mfx_front_center_stop),
      (STATUS_CENTER_NC, mfx_front_center_nc),
      (STATUS_CENTER_NC_CENTER_OPEN, mfx_front_center_nc_center_open),
      (STATUS_CENTER_NC_CENTER_CLOSE, mfx_front_center_nc_center_close),
      (STATUS_CENTER_NC_CENTER_STOP, mfx_front_center_nc_center_stop),
      (STATUS_CENTER_NO, mfx_front_center_no)]"

lemmas mfx_defs = mfx_rg_do_dummy_def mfx_front_idle_def mfx_front_lo_open_def
  mfx_front_center_open_def mfx_front_center_close_def mfx_front_center_stop_def
  mfx_front_center_nc_def mfx_front_center_nc_center_open_def mfx_front_center_nc_center_close_def
  mfx_front_center_nc_center_stop_def mfx_front_center_no_def

interpretation mfx: rg_machine mix_front_export lo_statuses
  unfolding mix_front_export_def mfx_defs
  by (rule machineI) (auto intro!: handler_intros simp: machine_simps)

section \<open>\<open>mix/front_record_export.c\<close>\<close>

definition mfrx_rg_do_dummy :: "('z rgw_scheme, unit) state" where
  "mfrx_rg_do_dummy = ret ()"

definition mfrx_front_record_idle :: "'z rgm" where
  "mfrx_front_record_idle = idle_lo_center
     [(RG_ACTION_UP, rg_set_up_signal, STATUS_LO_OPEN)]
     [((RG_CTRL_MANUAL, RG_ACTION_UP), rg_set_up_signal, STATUS_CENTER_OPEN),
      ((RG_CTRL_MANUAL, RG_ACTION_DN), rg_down_s, STATUS_CENTER_CLOSE),
      ((RG_CTRL_MANUAL, RG_ACTION_STOP), rg_stop, STATUS_CENTER_STOP),
      ((RG_CTRL_MANUAL, RG_ACTION_NC_SET), rg_clr_up_signal, STATUS_CENTER_NC),
      ((RG_CTRL_MANUAL, RG_ACTION_NO_SET), rg_set_up_signal, STATUS_CENTER_NO),
      ((RG_CTRL_OTHER, RG_ACTION_UP), rg_set_up_signal, STATUS_CENTER_OPEN)]"

definition mfrx_front_record_lo_open :: "'z rgm" where
  "mfrx_front_record_lo_open = open_new_ctrl_coil"

definition mfrx_front_record_center_open :: "'z rgm" where
  "mfrx_front_record_center_open = open_overtime STATUS_IDLE"

definition mfrx_front_record_center_close :: "'z rgm" where
  "mfrx_front_record_center_close = ret STATUS_IDLE"

definition mfrx_front_record_center_stop :: "'z rgm" where
  "mfrx_front_record_center_stop = ret STATUS_IDLE"

definition mfrx_front_record_center_nc :: "'z rgm" where
  "mfrx_front_record_center_nc = nc_center
     [((RG_CTRL_MANUAL, RG_ACTION_NC_CLR), mfrx_rg_do_dummy, STATUS_IDLE),
      ((RG_CTRL_MANUAL, RG_ACTION_UP), rg_set_up_signal, STATUS_CENTER_NC_CENTER_OPEN),
      ((RG_CTRL_MANUAL, RG_ACTION_DN), rg_down_s, STATUS_CENTER_NC_CENTER_CLOSE),
      ((RG_CTRL_MANUAL, RG_ACTION_STOP), rg_clr_up_signal, STATUS_CENTER_NC_CENTER_STOP)]"

definition mfrx_front_record_center_nc_center_open :: "'z rgm" where
  "mfrx_front_record_center_nc_center_open = nc_open"

definition mfrx_front_record_center_nc_center_close :: "'z rgm" where
  "mfrx_front_record_center_nc_center_close = ret STATUS_CENTER_NC"

definition mfrx_front_record_center_nc_center_stop :: "'z rgm" where
  "mfrx_front_record_center_nc_center_stop = ret STATUS_CENTER_NC"

definition mfrx_front_record_center_no :: "'z rgm" where
  "mfrx_front_record_center_no = no_center
     [((RG_CTRL_MANUAL, RG_ACTION_DN), rg_down_s, STATUS_IDLE)]"

definition mix_front_record_export :: "('z rgw_scheme, rg_fault + int) state" where
  "mix_front_record_export = run_status_handle
     [(STATUS_IDLE, mfrx_front_record_idle),
      (STATUS_LO_OPEN, mfrx_front_record_lo_open),
      (STATUS_CENTER_OPEN, mfrx_front_record_center_open),
      (STATUS_CENTER_CLOSE, mfrx_front_record_center_close),
      (STATUS_CENTER_STOP, mfrx_front_record_center_stop),
      (STATUS_CENTER_NC, mfrx_front_record_center_nc),
      (STATUS_CENTER_NC_CENTER_OPEN, mfrx_front_record_center_nc_center_open),
      (STATUS_CENTER_NC_CENTER_CLOSE, mfrx_front_record_center_nc_center_close),
      (STATUS_CENTER_NC_CENTER_STOP, mfrx_front_record_center_nc_center_stop),
      (STATUS_CENTER_NO, mfrx_front_record_center_no)]"

lemmas mfrx_defs = mfrx_rg_do_dummy_def mfrx_front_record_idle_def mfrx_front_record_lo_open_def
  mfrx_front_record_center_open_def mfrx_front_record_center_close_def
  mfrx_front_record_center_stop_def mfrx_front_record_center_nc_def
  mfrx_front_record_center_nc_center_open_def mfrx_front_record_center_nc_center_close_def
  mfrx_front_record_center_nc_center_stop_def mfrx_front_record_center_no_def

interpretation mfrx: rg_machine mix_front_record_export lo_statuses
  unfolding mix_front_record_export_def mfrx_defs
  by (rule machineI) (auto intro!: handler_intros simp: machine_simps)

section \<open>\<open>mix/center_export.c\<close>\<close>

definition mcx_center_center_set_up_signal :: "('z rgw_scheme, unit) state" where
  "mcx_center_center_set_up_signal = do { rg_set_up_signal; rg_status_sendto_dsp DSP_RG_UP }"

definition mcx_rg_do_dummy :: "('z rgw_scheme, unit) state" where
  "mcx_rg_do_dummy = ret ()"

definition mcx_center_idle :: "'z rgm" where
  "mcx_center_idle = idle_center
     [((RG_CTRL_MANUAL, RG_ACTION_UP), rg_set_up_signal, STATUS_CENTER_OPEN),
      ((RG_CTRL_MANUAL, RG_ACTION_DN), rg_down_s, STATUS_CENTER_CLOSE),
      ((RG_CTRL_MANUAL, RG_ACTION_STOP), rg_stop, STATUS_CENTER_STOP),
      ((RG_CTRL_MANUAL, RG_ACTION_NC_SET), rg_clr_up_signal, STATUS_CENTER_NC),
      ((RG_CTRL_MANUAL, RG_ACTION_NO_SET), rg_set_up_signal, STATUS_CENTER_NO),
      ((RG_CTRL_AUTO, RG_ACTION_UP), mcx_center_center_set_up_signal, STATUS_CENTER_OPEN),
      ((RG_CTRL_OTHER, RG_ACTION_UP), mcx_center_center_set_up_signal, STATUS_CENTER_OPEN)]"

definition mcx_center_center_open :: "'z rgm" where
  "mcx_center_center_open = open_overtime STATUS_IDLE"

definition mcx_center_center_close :: "'z rgm" where
  "mcx_center_center_close = ret STATUS_IDLE"

definition mcx_center_center_stop :: "'z rgm" where
  "mcx_center_center_stop = ret STATUS_IDLE"

definition mcx_center_center_nc :: "'z rgm" where
  "mcx_center_center_nc = nc_center
     [((RG_CTRL_MANUAL, RG_ACTION_NC_CLR), mcx_rg_do_dummy, STATUS_IDLE),
      ((RG_CTRL_MANUAL, RG_ACTION_UP), rg_set_up_signal, STATUS_CENTER_NC_CENTER_OPEN),
      ((RG_CTRL_MANUAL, RG_ACTION_DN), rg_down_s, STATUS_CENTER_NC_CENTER_CLOSE),
      ((RG_CTRL_MANUAL, RG_ACTION_STOP), rg_clr_up_signal, STATUS_CENTER_NC_CENTER_STOP),
      ((RG_CTRL_AUTO, RG_ACTION_UP), mcx_center_center_set_up_signal, STATUS_CENTER_OPEN),
      ((RG_CTRL_OTHER, RG_ACTION_UP), mcx_center_center_set_up_signal, STATUS_CENTER_OPEN)]"

definition mcx_center_center_nc_center_open :: "'z rgm" where
  "mcx_center_center_nc_center_open = nc_open"

definition mcx_center_center_nc_center_close :: "'z rgm" where
  "mcx_center_center_nc_center_close = ret STATUS_CENTER_NC"

definition mcx_center_center_nc_center_stop :: "'z rgm" where
  "mcx_center_center_nc_center_stop = ret STATUS_CENTER_NC"

definition mcx_center_center_no :: "'z rgm" where
  "mcx_center_center_no = no_center
     [((RG_CTRL_MANUAL, RG_ACTION_DN), rg_down_s, STATUS_IDLE)]"

definition mix_center_export :: "('z rgw_scheme, rg_fault + int) state" where
  "mix_center_export = run_status_handle
     [(STATUS_IDLE, mcx_center_idle),
      (STATUS_CENTER_OPEN, mcx_center_center_open),
      (STATUS_CENTER_CLOSE, mcx_center_center_close),
      (STATUS_CENTER_STOP, mcx_center_center_stop),
      (STATUS_CENTER_NC, mcx_center_center_nc),
      (STATUS_CENTER_NC_CENTER_OPEN, mcx_center_center_nc_center_open),
      (STATUS_CENTER_NC_CENTER_CLOSE, mcx_center_center_nc_center_close),
      (STATUS_CENTER_NC_CENTER_STOP, mcx_center_center_nc_center_stop),
      (STATUS_CENTER_NO, mcx_center_center_no)]"

lemmas mcx_defs = mcx_center_center_set_up_signal_def mcx_rg_do_dummy_def mcx_center_idle_def
  mcx_center_center_open_def mcx_center_center_close_def mcx_center_center_stop_def
  mcx_center_center_nc_def mcx_center_center_nc_center_open_def
  mcx_center_center_nc_center_close_def mcx_center_center_nc_center_stop_def
  mcx_center_center_no_def

interpretation mcx: rg_machine mix_center_export center_statuses
  unfolding mix_center_export_def mcx_defs
  by (rule machineI) (auto intro!: handler_intros simp: machine_simps)

section \<open>\<open>mix/mix_export.c\<close>\<close>

definition mmx_rg_do_dummy :: "('z rgw_scheme, unit) state" where
  "mmx_rg_do_dummy = ret ()"

definition mmx_mix_idle :: "'z rgm" where
  "mmx_mix_idle = idle_lo_center
     [(RG_ACTION_UP, rg_set_up_signal, STATUS_LO_OPEN)]
     [((RG_CTRL_MANUAL, RG_ACTION_UP), rg_set_up_signal, STATUS_CENTER_OPEN),
      ((RG_CTRL_MANUAL, RG_ACTION_DN), rg_down_s, STATUS_CENTER_CLOSE),
      ((RG_CTRL_MANUAL, RG_ACTION_STOP), rg_stop, STATUS_CENTER_STOP),
      ((RG_CTRL_MANUAL, RG_ACTION_NC_SET), rg_clr_up_signal, STATUS_CENTER_NC),
      ((RG_CTRL_MANUAL, RG_ACTION_NO_SET), rg_set_up_signal, STATUS_CENTER_NO),
      ((RG_CTRL_AUTO, RG_ACTION_UP), rg_set_up_signal, STATUS_CENTER_OPEN),
      ((RG_CTRL_OTHER, RG_ACTION_UP), rg_set_up_signal, STATUS_CENTER_OPEN)]"

definition mmx_mix_lo_open :: "'z rgm" where
  "mmx_mix_lo_open = open_new_ctrl"

definition mmx_mix_center_open :: "'z rgm" where
  "mmx_mix_center_open = open_overtime STATUS_IDLE"

definition mmx_mix_center_close :: "'z rgm" where
  "mmx_mix_center_close = ret STATUS_IDLE"

definition mmx_mix_center_stop :: "'z rgm" where
  "mmx_mix_center_stop = ret STATUS_IDLE"

definition mmx_mix_center_nc :: "'z rgm" where
  "mmx_mix_center_nc = nc_center
     [((RG_CTRL_MANUAL, RG_ACTION_NC_CLR), mmx_rg_do_dummy, STATUS_IDLE),
      ((RG_CTRL_MANUAL, RG_ACTION_UP), rg_set_up_signal, STATUS_CENTER_NC_CENTER_OPEN),
      ((RG_CTRL_MANUAL, RG_ACTION_DN), rg_down_s, STATUS_CENTER_NC_CENTER_CLOSE),
      ((RG_CTRL_MANUAL, RG_ACTION_STOP), rg_clr_up_signal, STATUS_CENTER_NC_CENTER_STOP)]"

definition mmx_mix_center_nc_center_open :: "'z rgm" where
  "mmx_mix_center_nc_center_open = nc_open"

definition mmx_mix_center_nc_center_close :: "'z rgm" where
  "mmx_mix_center_nc_center_close = ret STATUS_CENTER_NC"

definition mmx_mix_center_nc_center_stop :: "'z rgm" where
  "mmx_mix_center_nc_center_stop = ret STATUS_CENTER_NC"

definition mmx_mix_center_no :: "'z rgm" where
  "mmx_mix_center_no = no_center
     [((RG_CTRL_MANUAL, RG_ACTION_DN), rg_down_s, STATUS_IDLE)]"

definition mix_mix_export :: "('z rgw_scheme, rg_fault + int) state" where
  "mix_mix_export = run_status_handle
     [(STATUS_IDLE, mmx_mix_idle),
      (STATUS_LO_OPEN, mmx_mix_lo_open),
      (STATUS_CENTER_OPEN, mmx_mix_center_open),
      (STATUS_CENTER_CLOSE, mmx_mix_center_close),
      (STATUS_CENTER_STOP, mmx_mix_center_stop),
      (STATUS_CENTER_NC, mmx_mix_center_nc),
      (STATUS_CENTER_NC_CENTER_OPEN, mmx_mix_center_nc_center_open),
      (STATUS_CENTER_NC_CENTER_CLOSE, mmx_mix_center_nc_center_close),
      (STATUS_CENTER_NC_CENTER_STOP, mmx_mix_center_nc_center_stop),
      (STATUS_CENTER_NO, mmx_mix_center_no)]"

lemmas mmx_defs = mmx_rg_do_dummy_def mmx_mix_idle_def mmx_mix_lo_open_def mmx_mix_center_open_def
  mmx_mix_center_close_def mmx_mix_center_stop_def mmx_mix_center_nc_def
  mmx_mix_center_nc_center_open_def mmx_mix_center_nc_center_close_def
  mmx_mix_center_nc_center_stop_def mmx_mix_center_no_def

interpretation mmx: rg_machine mix_mix_export lo_statuses
  unfolding mix_mix_export_def mmx_defs
  by (rule machineI) (auto intro!: handler_intros simp: machine_simps)

section \<open>Effects\<close>

context rg_effect
begin

lemma keeps_mix_front_export: "keeps R mix_front_export"
  unfolding mix_front_export_def mfx_defs by (intro machine_intros)

lemma keeps_mix_front_record_export: "keeps R mix_front_record_export"
  unfolding mix_front_record_export_def mfrx_defs by (intro machine_intros)

lemma keeps_mix_center_export: "keeps R mix_center_export"
  unfolding mix_center_export_def mcx_defs by (intro machine_intros)

lemma keeps_mix_mix_export: "keeps R mix_mix_export"
  unfolding mix_mix_export_def mmx_defs by (intro machine_intros)

end

end
