(* ===== verification/Video_Entrance.thy ===== *)
theory Video_Entrance
  imports Rg_Effect
begin

text \<open>
  The four entrance machines of \<open>ve/dev/roadgate/video\<close>, one section per source file. A handler is
  the source function of the same name with the prefix of its machine; the machine's contract
  and its effects follow from the bodies of \<open>Rg_Machine\<close> by the rules of \<open>Rg_Contract\<close> and
  \<open>Rg_Effect\<close>.
\<close>

section \<open>\<open>video/front_entrance.c\<close>\<close>

definition vfe_front_do_dummy :: "('z rgw_scheme, unit) state" where
  "vfe_front_do_dummy = ret ()"

definition vfe_front_idle :: "'z rgm" where
  "vfe_front_idle = idle_lo_center
     [(RG_ACTION_UP, rg_set_up_signal, STATUS_LO_OPEN)]
     [((RG_CTRL_MANUAL, RG_ACTION_UP), rg_set_up_signal, STATUS_CENTER_OPEN),
      ((RG_CTRL_MANUAL, RG_ACTION_DN), rg_down_s, STATUS_CENTER_CLOSE),
      ((RG_CTRL_MANUAL, RG_ACTION_STOP), rg_stop, STATUS_CENTER_STOP),
      ((RG_CTRL_MANUAL, RG_ACTION_NC_SET), rg_clr_up_signal, STATUS_CENTER_NC),
      ((RG_CTRL_MANUAL, RG_ACTION_NO_SET), rg_set_up_signal, STATUS_CENTER_NO),
      ((RG_CTRL_OTHER, RG_ACTION_UP), rg_set_up_signal, STATUS_CENTER_OPEN)]"

definition vfe_front_lo_open :: "'z rgm" where
  "vfe_front_lo_open = open_new_ctrl"

definition vfe_front_center_open :: "'z rgm" where
  "vfe_front_center_open = open_overtime STATUS_IDLE"

definition vfe_front_center_close :: "'z rgm" where
  "vfe_front_center_close = ret STATUS_IDLE"

definition vfe_front_center_stop :: "'z rgm" where
  "vfe_front_center_stop = ret STATUS_IDLE"

definition vfe_front_center_nc :: "'z rgm" where
  "vfe_front_center_nc = nc_lo_center
     [(RG_ACTION_UP, vfe_front_do_dummy, STATUS_CENTER_NC_LO_WAIT)]
     [((RG_CTRL_MANUAL, RG_ACTION_NC_CLR), vfe_front_do_dummy, STATUS_IDLE),
      ((RG_CTRL_MANUAL, RG_ACTION_UP), rg_set_up_signal, STATUS_CENTER_NC_CENTER_OPEN),
      ((RG_CTRL_MANUAL, RG_ACTION_DN), rg_down_s, STATUS_CENTER_NC_CENTER_CLOSE),
      ((RG_CTRL_MANUAL, RG_ACTION_STOP), rg_clr_up_signal, STATUS_CENTER_NC_CENTER_STOP)]"

definition vfe_front_center_nc_lo_wait :: "'z rgm" where
  "vfe_front_center_nc_lo_wait = nc_lo_wait
     [((RG_CTRL_MANUAL, RG_ACTION_NC_CLR), rg_set_up_signal, STATUS_LO_OPEN),
      ((RG_CTRL_MANUAL, RG_ACTION_UP), rg_set_up_signal, STATUS_CENTER_NC_CENTER_OPEN),
      ((RG_CTRL_MANUAL, RG_ACTION_DN), rg_down_s, STATUS_CENTER_NC_CENTER_CLOSE),
      ((RG_CTRL_MANUAL, RG_ACTION_STOP), rg_clr_up_signal, STATUS_CENTER_NC_CENTER_STOP)]"

definition vfe_front_center_nc_center_open :: "'z rgm" where
  "vfe_front_center_nc_center_open = nc_open_lo_wait"

definition vfe_front_center_nc_center_close :: "'z rgm" where
  "vfe_front_center_nc_center_close = nc_or_lo_wait"

definition vfe_front_center_nc_center_stop :: "'z rgm" where
  "vfe_front_center_nc_center_stop = nc_or_lo_wait"

definition vfe_front_center_no :: "'z rgm" where
  "vfe_front_center_no = no_center
     [((RG_CTRL_MANUAL, RG_ACTION_DN), rg_down_s, STATUS_IDLE)]"

definition video_front_entrance :: "('z rgw_scheme, rg_fault + int) state" where
  "video_front_entrance = run_status_handle
     [(STATUS_IDLE, vfe_front_idle),
      (STATUS_LO_OPEN, vfe_front_lo_open),
      (STATUS_CENTER_OPEN, vfe_front_center_open),
      (STATUS_CENTER_CLOSE, vfe_front_center_close),
      (STATUS_CENTER_STOP, vfe_front_center_stop),
      (STATUS_CENTER_NC, vfe_front_center_nc),
      (STATUS_CENTER_NC_LO_WAIT, vfe_front_center_nc_lo_wait),
      (STATUS_CENTER_NC_CENTER_OPEN, vfe_front_center_nc_center_open),
      (STATUS_CENTER_NC_CENTER_CLOSE, vfe_front_center_nc_center_close),
      (STATUS_CENTER_NC_CENTER_STOP, vfe_front_center_nc_center_stop),
      (STATUS_CENTER_NO, vfe_front_center_no)]"

lemmas vfe_defs = vfe_front_do_dummy_def vfe_front_idle_def vfe_front_lo_open_def
  vfe_front_center_open_def vfe_front_center_close_def vfe_front_center_stop_def
  vfe_front_center_nc_def vfe_front_center_nc_lo_wait_def vfe_front_center_nc_center_open_def
  vfe_front_center_nc_center_close_def vfe_front_center_nc_center_stop_def vfe_front_center_no_def

interpretation vfe: rg_machine video_front_entrance lo_wait_statuses
  unfolding video_front_entrance_def vfe_defs
  by (rule machineI) (auto intro!: handler_intros simp: machine_simps)

section \<open>\<open>video/front_record_entrance.c\<close>\<close>

definition vfre_front_record_do_dummy :: "('z rgw_scheme, unit) state" where
  "vfre_front_record_do_dummy = ret ()"

definition vfre_front_record_idle :: "'z rgm" where
  "vfre_front_record_idle = idle_lo_center
     [(RG_ACTION_UP, rg_set_up_signal, STATUS_LO_OPEN)]
     [((RG_CTRL_MANUAL, RG_ACTION_UP), rg_set_up_signal, STATUS_CENTER_OPEN),
      ((RG_CTRL_MANUAL, RG_ACTION_DN), rg_down_s, STATUS_CENTER_CLOSE),
      ((RG_CTRL_MANUAL, RG_ACTION_STOP), rg_stop, STATUS_CENTER_STOP),
      ((RG_CTRL_MANUAL, RG_ACTION_NC_SET), rg_clr_up_signal, STATUS_CENTER_NC),
      ((RG_CTRL_MANUAL, RG_ACTION_NO_SET), rg_set_up_signal, STATUS_CENTER_NO),
      ((RG_CTRL_OTHER, RG_ACTION_UP), rg_set_up_signal, STATUS_CENTER_OPEN)]"

definition vfre_front_record_lo_open :: "'z rgm" where
  "vfre_front_record_lo_open = open_new_ctrl_coil"

definition vfre_front_record_center_open :: "'z rgm" where
  "vfre_front_record_center_open = open_overtime STATUS_IDLE"

definition vfre_front_record_center_close :: "'z rgm" where
  "vfre_front_record_center_close = ret STATUS_IDLE"

definition vfre_front_record_center_stop :: "'z rgm" where
  "vfre_front_record_center_stop = ret STATUS_IDLE"

definition vfre_front_record_center_nc :: "'z rgm" where
  "vfre_front_record_center_nc = nc_lo_center
     [(RG_ACTION_UP, vfre_front_record_do_dummy, STATUS_CENTER_NC_LO_WAIT)]
     [((RG_CTRL_MANUAL, RG_ACTION_NC_CLR), vfre_front_record_do_dummy, STATUS_IDLE),
      ((RG_CTRL_MANUAL, RG_ACTION_UP), rg_set_up_signal, STATUS_CENTER_NC_CENTER_OPEN),
      ((RG_CTRL_MANUAL, RG_ACTION_DN), rg_down_s, STATUS_CENTER_NC_CENTER_CLOSE),
      ((RG_CTRL_MANUAL, RG_ACTION_STOP), rg_clr_up_signal, STATUS_CENTER_NC_CENTER_STOP)]"

definition vfre_front_record_center_nc_lo_wait :: "'z rgm" where
  "vfre_front_record_center_nc_lo_wait = nc_lo_wait
     [((RG_CTRL_MANUAL, RG_ACTION_NC_CLR), rg_set_up_signal, STATUS_LO_OPEN),
      ((RG_CTRL_MANUAL, RG_ACTION_UP), rg_set_up_signal, STATUS_CENTER_NC_CENTER_OPEN),
      ((RG_CTRL_MANUAL, RG_ACTION_DN), rg_down_s, STATUS_CENTER_NC_CENTER_CLOSE),
      ((RG_CTRL_MANUAL, RG_ACTION_STOP), rg_clr_up_signal, STATUS_CENTER_NC_CENTER_STOP)]"

definition vfre_front_record_center_nc_center_open :: "'z rgm" where
  "vfre_front_record_center_nc_center_open = nc_open_lo_wait"

definition vfre_front_record_center_nc_center_close :: "'z rgm" where
  "vfre_front_record_center_nc_center_close = nc_or_lo_wait"

definition vfre_front_record_center_nc_center_stop :: "'z rgm" where
  "vfre_front_record_center_nc_center_stop = nc_or_lo_wait"

definition vfre_front_record_center_no :: "'z rgm" where
  "vfre_front_record_center_no = no_center
     [((RG_CTRL_MANUAL, RG_ACTION_DN), rg_down_s, STATUS_IDLE)]"

definition video_front_record_entrance :: "('z rgw_scheme, rg_fault + int) state" where
  "video_front_record_entrance = run_status_handle
     [(STATUS_IDLE, vfre_front_record_idle),
      (STATUS_LO_OPEN, vfre_front_record_lo_open),
      (STATUS_CENTER_OPEN, vfre_front_record_center_open),
      (STATUS_CENTER_CLOSE, vfre_front_record_center_close),
      (STATUS_CENTER_STOP, vfre_front_record_center_stop),
      (STATUS_CENTER_NC, vfre_front_record_center_nc),
      (STATUS_CENTER_NC_LO_WAIT, vfre_front_record_center_nc_lo_wait),
      (STATUS_CENTER_NC_CENTER_OPEN, vfre_front_record_center_nc_center_open),
      (STATUS_CENTER_NC_CENTER_CLOSE, vfre_front_record_center_nc_center_close),
      (STATUS_CENTER_NC_CENTER_STOP, vfre_front_record_center_nc_center_stop),
      (STATUS_CENTER_NO, vfre_front_record_center_no)]"

lemmas vfre_defs = vfre_front_record_do_dummy_def vfre_front_record_idle_def
  vfre_front_record_lo_open_def vfre_front_record_center_open_def
  vfre_front_record_center_close_def vfre_front_record_center_stop_def
  vfre_front_record_center_nc_def vfre_front_record_center_nc_lo_wait_def
  vfre_front_record_center_nc_center_open_def vfre_front_record_center_nc_center_close_def
  vfre_front_record_center_nc_center_stop_def vfre_front_record_center_no_def

interpretation vfre: rg_machine video_front_record_entrance lo_wait_statuses
  unfolding video_front_record_entrance_def vfre_defs
  by (rule machineI) (auto intro!: handler_intros simp: machine_simps)

section \<open>\<open>video/center_entrance.c\<close>\<close>

definition vce_front_center_set_up_signal :: "('z rgw_scheme, unit) state" where
  "vce_front_center_set_up_signal = do { rg_set_up_signal; rg_status_sendto_dsp DSP_RG_UP }"

definition vce_rg_do_dummy :: "('z rgw_scheme, unit) state" where
  "vce_rg_do_dummy = ret ()"

definition vce_center_idle :: "'z rgm" where
  "vce_center_idle = idle_center
     [((RG_CTRL_MANUAL, RG_ACTION_UP), rg_set_up_signal, STATUS_CENTER_OPEN),
      ((RG_CTRL_MANUAL, RG_ACTION_DN), rg_down_s, STATUS_CENTER_CLOSE),
      ((RG_CTRL_MANUAL, RG_ACTION_STOP), rg_stop, STATUS_CENTER_STOP),
      ((RG_CTRL_MANUAL, RG_ACTION_NC_SET), rg_clr_up_signal, STATUS_CENTER_NC),
      ((RG_CTRL_MANUAL, RG_ACTION_NO_SET), rg_set_up_signal, STATUS_CENTER_NO),
      ((RG_CTRL_AUTO, RG_ACTION_UP), vce_front_center_set_up_signal, STATUS_CENTER_OPEN),
      ((RG_CTRL_OTHER, RG_ACTION_UP), vce_front_center_set_up_signal, STATUS_CENTER_OPEN)]"

definition vce_center_center_open :: "'z rgm" where
  "vce_center_center_open = open_new_ctrl"

definition vce_center_center_close :: "'z rgm" where
  "vce_center_center_close = ret STATUS_IDLE"

definition vce_center_center_stop :: "'z rgm" where
  "vce_center_center_stop = ret STATUS_IDLE"

definition vce_center_center_nc :: "'z rgm" where
  "vce_center_center_nc = nc_center
     [((RG_CTRL_MANUAL, RG_ACTION_NC_CLR), vce_rg_do_dummy, STATUS_IDLE),
      ((RG_CTRL_MANUAL, RG_ACTION_UP), rg_set_up_signal, STATUS_CENTER_NC_CENTER_OPEN),
      ((RG_CTRL_MANUAL, RG_ACTION_DN), rg_down_s, STATUS_CENTER_NC_CENTER_CLOSE),
      ((RG_CTRL_MANUAL, RG_ACTION_STOP), rg_clr_up_signal, STATUS_CENTER_NC_CENTER_STOP),
      ((RG_CTRL_AUTO, RG_ACTION_UP), vce_front_center_set_up_signal, STATUS_CENTER_OPEN)]"

definition vce_center_center_nc_center_open :: "'z rgm" where
  "vce_center_center_nc_center_open = nc_open"

definition vce_center_center_nc_center_close :: "'z rgm" where
  "vce_center_center_nc_center_close = ret STATUS_CENTER_NC"

definition vce_center_center_nc_center_stop :: "'z rgm" where
  "vce_center_center_nc_center_stop = ret STATUS_CENTER_NC"

definition vce_center_center_no :: "'z rgm" where
  "vce_center_center_no = no_center
     [((RG_CTRL_MANUAL, RG_ACTION_DN), rg_down_s, STATUS_IDLE)]"

definition video_center_entrance :: "('z rgw_scheme, rg_fault + int) state" where
  "video_center_entrance = run_status_handle
     [(STATUS_IDLE, vce_center_idle),
      (STATUS_CENTER_OPEN, vce_center_center_open),
      (STATUS_CENTER_CLOSE, vce_center_center_close),
      (STATUS_CENTER_STOP, vce_center_center_stop),
      (STATUS_CENTER_NC, vce_center_center_nc),
      (STATUS_CENTER_NC_CENTER_OPEN, vce_center_center_nc_center_open),
      (STATUS_CENTER_NC_CENTER_CLOSE, vce_center_center_nc_center_close),
      (STATUS_CENTER_NC_CENTER_STOP, vce_center_center_nc_center_stop),
      (STATUS_CENTER_NO, vce_center_center_no)]"

lemmas vce_defs = vce_front_center_set_up_signal_def vce_rg_do_dummy_def vce_center_idle_def
  vce_center_center_open_def vce_center_center_close_def vce_center_center_stop_def
  vce_center_center_nc_def vce_center_center_nc_center_open_def
  vce_center_center_nc_center_close_def vce_center_center_nc_center_stop_def
  vce_center_center_no_def

interpretation vce: rg_machine video_center_entrance center_statuses
  unfolding video_center_entrance_def vce_defs
  by (rule machineI) (auto intro!: handler_intros simp: machine_simps)

section \<open>\<open>video/mix_entrance.c\<close>\<close>

definition vme_mix_do_dummy :: "('z rgw_scheme, unit) state" where
  "vme_mix_do_dummy = ret ()"

definition vme_mix_idle :: "'z rgm" where
  "vme_mix_idle = idle_lo_center
     [(RG_ACTION_UP, rg_set_up_signal, STATUS_LO_OPEN)]
     [((RG_CTRL_MANUAL, RG_ACTION_UP), rg_set_up_signal, STATUS_CENTER_OPEN),
      ((RG_CTRL_MANUAL, RG_ACTION_DN), rg_down_s, STATUS_CENTER_CLOSE),
      ((RG_CTRL_MANUAL, RG_ACTION_STOP), rg_stop, STATUS_CENTER_STOP),
      ((RG_CTRL_MANUAL, RG_ACTION_NC_SET), rg_clr_up_signal, STATUS_CENTER_NC),
      ((RG_CTRL_MANUAL, RG_ACTION_NO_SET), rg_set_up_signal, STATUS_CENTER_NO),
      ((RG_CTRL_AUTO, RG_ACTION_UP), rg_set_up_signal, STATUS_CENTER_OPEN),
      ((RG_CTRL_OTHER, RG_ACTION_UP), rg_set_up_signal, STATUS_CENTER_OPEN)]"

definition vme_mix_lo_open :: "'z rgm" where
  "vme_mix_lo_open = open_overtime STATUS_IDLE"

definition vme_mix_center_open :: "'z rgm" where
  "vme_mix_center_open = open_overtime_coil"

definition vme_mix_center_close :: "'z rgm" where
  "vme_mix_center_close = ret STATUS_IDLE"

definition vme_mix_center_stop :: "'z rgm" where
  "vme_mix_center_stop = ret STATUS_IDLE"

definition vme_mix_center_nc :: "'z rgm" where
  "vme_mix_center_nc = nc_center
     [((RG_CTRL_MANUAL, RG_ACTION_NC_CLR), vme_mix_do_dummy, STATUS_IDLE),
      ((RG_CTRL_MANUAL, RG_ACTION_UP), rg_set_up_signal, STATUS_CENTER_NC_CENTER_OPEN),
      ((RG_CTRL_MANUAL, RG_ACTION_DN), rg_down_s, STATUS_CENTER_NC_CENTER_CLOSE),
      ((RG_CTRL_MANUAL, RG_ACTION_STOP), rg_clr_up_signal, STATUS_CENTER_NC_CENTER_STOP),
      ((RG_CTRL_OTHER, RG_ACTION_UP), rg_set_up_signal, STATUS_CENTER_NC_CENTER_OPEN)]"

definition vme_mix_center_nc_center_open :: "'z rgm" where
  "vme_mix_center_nc_center_open = open_overtime STATUS_CENTER_NC"

definition vme_mix_center_nc_center_close :: "'z rgm" where
  "vme_mix_center_nc_center_close = ret STATUS_CENTER_NC"

definition vme_mix_center_nc_center_stop :: "'z rgm" where
  "vme_mix_center_nc_center_stop = ret STATUS_CENTER_NC"

definition vme_mix_center_no :: "'z rgm" where
  "vme_mix_center_no = no_center
     [((RG_CTRL_MANUAL, RG_ACTION_DN), rg_down_s, STATUS_IDLE)]"

definition video_mix_entrance :: "('z rgw_scheme, rg_fault + int) state" where
  "video_mix_entrance = run_status_handle
     [(STATUS_IDLE, vme_mix_idle),
      (STATUS_LO_OPEN, vme_mix_lo_open),
      (STATUS_CENTER_OPEN, vme_mix_center_open),
      (STATUS_CENTER_CLOSE, vme_mix_center_close),
      (STATUS_CENTER_STOP, vme_mix_center_stop),
      (STATUS_CENTER_NC, vme_mix_center_nc),
      (STATUS_CENTER_NC_CENTER_OPEN, vme_mix_center_nc_center_open),
      (STATUS_CENTER_NC_CENTER_CLOSE, vme_mix_center_nc_center_close),
      (STATUS_CENTER_NC_CENTER_STOP, vme_mix_center_nc_center_stop),
      (STATUS_CENTER_NO, vme_mix_center_no)]"

lemmas vme_defs = vme_mix_do_dummy_def vme_mix_idle_def vme_mix_lo_open_def
  vme_mix_center_open_def vme_mix_center_close_def vme_mix_center_stop_def vme_mix_center_nc_def
  vme_mix_center_nc_center_open_def vme_mix_center_nc_center_close_def
  vme_mix_center_nc_center_stop_def vme_mix_center_no_def

interpretation vme: rg_machine video_mix_entrance lo_statuses
  unfolding video_mix_entrance_def vme_defs
  by (rule machineI) (auto intro!: handler_intros simp: machine_simps)

section \<open>Effects\<close>

context rg_effect
begin

lemma keeps_video_front_entrance: "keeps R video_front_entrance"
  unfolding video_front_entrance_def vfe_defs by (intro machine_intros)

lemma keeps_video_front_record_entrance: "keeps R video_front_record_entrance"
  unfolding video_front_record_entrance_def vfre_defs by (intro machine_intros)

lemma keeps_video_center_entrance: "keeps R video_center_entrance"
  unfolding video_center_entrance_def vce_defs by (intro machine_intros)

lemma keeps_video_mix_entrance: "keeps R video_mix_entrance"
  unfolding video_mix_entrance_def vme_defs by (intro machine_intros)

end

end
