(* ===== verification/Video_Export.thy ===== *)
theory Video_Export
  imports Rg_Effect
begin

text \<open>
  The four export machines of \<open>ve/dev/roadgate/video\<close>, one section per source file. A handler is
  the source function of the same name with the prefix of its machine; the machine's contract
  and its effects follow from the bodies of \<open>Rg_Machine\<close> by the rules of \<open>Rg_Contract\<close> and
  \<open>Rg_Effect\<close>.
\<close>

section \<open>\<open>video/front_export.c\<close>\<close>

definition vfx_rg_do_dummy :: "('z rgw_scheme, unit) state" where
  "vfx_rg_do_dummy = ret ()"

definition vfx_front_idle :: "'z rgm" where
  "vfx_front_idle = idle_lo_center
     [(RG_ACTION_UP, rg_set_up_signal, STATUS_LO_OPEN)]
     [((RG_CTRL_MANUAL, RG_ACTION_UP), rg_set_up_signal, STATUS_CENTER_OPEN),
      ((RG_CTRL_MANUAL, RG_ACTION_DN), rg_down_s, STATUS_CENTER_CLOSE),
      ((RG_CTRL_MANUAL, RG_ACTION_STOP), rg_stop, STATUS_CENTER_STOP),
      ((RG_CTRL_MANUAL, RG_ACTION_NC_SET), rg_clr_up_signal, STATUS_CENTER_NC),
      ((RG_CTRL_MANUAL, RG_ACTION_NO_SET), rg_set_up_signal, STATUS_CENTER_NO),
      ((RG_CTRL_OTHER, RG_ACTION_UP), rg_set_up_signal, STATUS_CENTER_OPEN)]"

definition vfx_front_lo_open :: "'z rgm" where
  "vfx_front_lo_open = open_new_ctrl"

definition vfx_front_center_open :: "'z rgm" where
  "vfx_front_center_open = open_overtime STATUS_IDLE"

definition vfx_front_center_close :: "'z rgm" where
  "vfx_front_center_close = ret STATUS_IDLE"

definition vfx_front_center_stop :: "'z rgm" where
  "vfx_front_center_stop = ret STATUS_IDLE"

definition vfx_front_center_nc :: "'z rgm" where
  "vfx_front_center_nc = nc_center
     [((RG_CTRL_MANUAL, RG_ACTION_NC_CLR), vfx_rg_do_dummy, STATUS_IDLE),
      ((RG_CTRL_MANUAL, RG_ACTION_UP), rg_set_up_signal, STATUS_CENTER_NC_CENTER_OPEN),
      ((RG_CTRL_MANUAL, RG_ACTION_DN), rg_down_s, STATUS_CENTER_NC_CENTER_CLOSE),
      ((RG_CTRL_MANUAL, RG_ACTION_STOP), rg_clr_up_signal, STATUS_CENTER_NC_CENTER_STOP)]"

definition vfx_front_center_nc_center_open :: "'z rgm" where
  "vfx_front_center_nc_center_open = nc_open"

definition vfx_front_center_nc_center_close :: "'z rgm" where
  "vfx_front_center_nc_center_close = ret STATUS_CENTER_NC"

definition vfx_front_center_nc_center_stop :: "'z rgm" where
  "vfx_front_center_nc_center_stop = ret STATUS_CENTER_NC"

definition vfx_front_center_no :: "'z rgm" where
  "vfx_front_center_no = no_center
     [((RG_CTRL_MANUAL, RG_ACTION_DN), rg_down_s, STATUS_IDLE)]"

definition video_front_export :: "('z rgw_scheme, rg_fault + int) state" where
  "video_front_export = run_status_handle
     [(STATUS_IDLE, vfx_front_idle),
      (STATUS_LO_OPEN, vfx_front_lo_open),
      (STATUS_CENTER_OPEN, vfx_front_center_open),
      (STATUS_CENTER_CLOSE, vfx_front_center_close),
      (STATUS_CENTER_STOP, vfx_front_center_stop),
      (STATUS_CENTER_NC, vfx_front_center_nc),
      (STATUS_CENTER_NC_CENTER_OPEN, vfx_front_center_nc_center_open),
      (STATUS_CENTER_NC_CENTER_CLOSE, vfx_front_center_nc_center_close),
      (STATUS_CENTER_NC_CENTER_STOP, vfx_front_center_nc_center_stop),
      (STATUS_CENTER_NO, vfx_front_center_no)]"

lemmas vfx_defs = vfx_rg_do_dummy_def vfx_front_idle_def vfx_front_lo_open_def
  vfx_front_center_open_def vfx_front_center_close_def vfx_front_center_stop_def
  vfx_front_center_nc_def vfx_front_center_nc_center_open_def vfx_front_center_nc_center_close_def
  vfx_front_center_nc_center_stop_def vfx_front_center_no_def

interpretation vfx: rg_machine video_front_export lo_statuses
  unfolding video_front_export_def vfx_defs
  by (rule machineI) (auto intro!: handler_intros simp: machine_simps)

section \<open>\<open>video/front_record_export.c\<close>\<close>

definition vfrx_rg_do_dummy :: "('z rgw_scheme, unit) state" where
  "vfrx_rg_do_dummy = ret ()"

definition vfrx_front_record_idle :: "'z rgm" where
  "vfrx_front_record_idle = idle_lo_center
     [(RG_ACTION_UP, rg_set_up_signal, STATUS_LO_OPEN)]
     [((RG_CTRL_MANUAL, RG_ACTION_UP), rg_set_up_signal, STATUS_CENTER_OPEN),
      ((RG_CTRL_MANUAL, RG_ACTION_DN), rg_down_s, STATUS_CENTER_CLOSE),
      ((RG_CTRL_MANUAL, RG_ACTION_STOP), rg_stop, STATUS_CENTER_STOP),
      ((RG_CTRL_MANUAL, RG_ACTION_NC_SET), rg_clr_up_signal, STATUS_CENTER_NC),
      ((RG_CTRL_MANUAL, RG_ACTION_NO_SET), rg_set_up_signal, STATUS_CENTER_NO),
      ((RG_CTRL_OTHER, RG_ACTION_UP), rg_set_up_signal, STATUS_CENTER_OPEN)]"

definition vfrx_front_record_lo_open :: "'z rgm" where
  "vfrx_front_record_lo_open = open_new_ctrl"

definition vfrx_front_record_center_open :: "'z rgm" where
  "vfrx_front_record_center_open = open_overtime STATUS_IDLE"

definition vfrx_front_record_center_close :: "'z rgm" where
  "vfrx_front_record_center_close = ret STATUS_IDLE"

definition vfrx_front_record_center_stop :: "'z rgm" where
  "vfrx_front_record_center_stop = ret STATUS_IDLE"

definition vfrx_front_record_center_nc :: "'z rgm" where
  "vfrx_front_record_center_nc = nc_center
     [((RG_CTRL_MANUAL, RG_ACTION_NC_CLR), vfrx_rg_do_dummy, STATUS_IDLE),
      ((RG_CTRL_MANUAL, RG_ACTION_UP), rg_set_up_signal, STATUS_CENTER_NC_CENTER_OPEN),
      ((RG_CTRL_MANUAL, RG_ACTION_DN), rg_down_s, STATUS_CENTER_NC_CENTER_CLOSE),
      ((RG_CTRL_MANUAL, RG_ACTION_STOP), rg_clr_up_signal, STATUS_CENTER_NC_CENTER_STOP)]"

definition vfrx_front_record_center_nc_center_open :: "'z rgm" where
  "vfrx_front_record_center_nc_center_open = nc_open"

definition vfrx_front_record_center_nc_center_close :: "'z rgm" where
  "vfrx_front_record_center_nc_center_close = ret STATUS_CENTER_NC"

definition vfrx_front_record_center_nc_center_stop :: "'z rgm" where
  "vfrx_front_record_center_nc_center_stop = ret STATUS_CENTER_NC"

definition vfrx_front_record_center_no :: "'z rgm" where
  "vfrx_front_record_center_no = no_center
     [((RG_CTRL_MANUAL, RG_ACTION_DN), rg_down_s, STATUS_IDLE)]"

definition video_front_record_export :: "('z rgw_scheme, rg_fault + int) state" where
  "video_front_record_export = run_status_handle
     [(STATUS_IDLE, vfrx_front_record_idle),
      (STATUS_LO_OPEN, vfrx_front_record_lo_open),
      (STATUS_CENTER_OPEN, vfrx_front_record_center_open),
      (STATUS_CENTER_CLOSE, vfrx_front_record_center_close),
      (STATUS_CENTER_STOP, vfrx_front_record_center_stop),
      (STATUS_CENTER_NC, vfrx_front_record_center_nc),
      (STATUS_CENTER_NC_CENTER_OPEN, vfrx_front_record_center_nc_center_open),
      (STATUS_CENTER_NC_CENTER_CLOSE, vfrx_front_record_center_nc_center_close),
      (STATUS_CENTER_NC_CENTER_STOP, vfrx_front_record_center_nc_center_stop),
      (STATUS_CENTER_NO, vfrx_front_record_center_no)]"

lemmas vfrx_defs = vfrx_rg_do_dummy_def vfrx_front_record_idle_def vfrx_front_record_lo_open_def
  vfrx_front_record_center_open_def vfrx_front_record_center_close_def
  vfrx_front_record_center_stop_def vfrx_front_record_center_nc_def
  vfrx_front_record_center_nc_center_open_def vfrx_front_record_center_nc_center_close_def
  vfrx_front_record_center_nc_center_stop_def vfrx_front_record_center_no_def

interpretation vfrx: rg_machine video_front_record_export lo_statuses
  unfolding video_front_record_export_def vfrx_defs
  by (rule machineI) (auto intro!: handler_intros simp: machine_simps)

section \<open>\<open>video/center_export.c\<close>\<close>

definition vcx_front_center_set_up_signal :: "('z rgw_scheme, unit) state" where
  "vcx_front_center_set_up_signal = do { rg_set_up_signal; rg_status_sendto_dsp DSP_RG_UP }"

definition vcx_rg_do_dummy :: "('z rgw_scheme, unit) state" where
  "vcx_rg_do_dummy = ret ()"

definition vcx_center_idle :: "'z rgm" where
  "vcx_center_idle = idle_center
     [((RG_CTRL_MANUAL, RG_ACTION_UP), rg_set_up_signal, STATUS_CENTER_OPEN),
      ((RG_CTRL_MANUAL, RG_ACTION_DN), rg_down_s, STATUS_CENTER_CLOSE),
      ((RG_CTRL_MANUAL, RG_ACTION_STOP), rg_stop, STATUS_CENTER_STOP),
      ((RG_CTRL_MANUAL, RG_ACTION_NC_SET), rg_clr_up_signal, STATUS_CENTER_NC),
      ((RG_CTRL_MANUAL, RG_ACTION_NO_SET), rg_set_up_signal, STATUS_CENTER_NO),
      ((RG_CTRL_AUTO, RG_ACTION_UP), vcx_front_center_set_up_signal, STATUS_CENTER_OPEN),
      ((RG_CTRL_OTHER, RG_ACTION_UP), vcx_front_center_set_up_signal, STATUS_CENTER_OPEN)]"

definition vcx_center_center_open :: "'z rgm" where
  "vcx_center_center_open = open_overtime STATUS_IDLE"

definition vcx_center_center_close :: "'z rgm" where
  "vcx_center_center_close = ret STATUS_IDLE"

definition vcx_center_center_stop :: "'z rgm" where
  "vcx_center_center_stop = ret STATUS_IDLE"

definition vcx_center_center_nc :: "'z rgm" where
  "vcx_center_center_nc = nc_center
     [((RG_CTRL_MANUAL, RG_ACTION_NC_CLR), vcx_rg_do_dummy, STATUS_IDLE),
      ((RG_CTRL_MANUAL, RG_ACTION_UP), rg_set_up_signal, STATUS_CENTER_NC_CENTER_OPEN),
      ((RG_CTRL_MANUAL, RG_ACTION_DN), rg_down_s, STATUS_CENTER_NC_CENTER_CLOSE),
      ((RG_CTRL_MANUAL, RG_ACTION_STOP), rg_clr_up_signal, STATUS_CENTER_NC_CENTER_STOP),
      ((RG_CTRL_AUTO, RG_ACTION_UP), vcx_front_center_set_up_signal, STATUS_CENTER_OPEN),
      ((RG_CTRL_OTHER, RG_ACTION_UP), vcx_front_center_set_up_signal, STATUS_CENTER_OPEN)]"

definition vcx_center_center_nc_center_open :: "'z rgm" where
  "vcx_center_center_nc_center_open = nc_open"

definition vcx_center_center_nc_center_close :: "'z rgm" where
  "vcx_center_center_nc_center_close = ret STATUS_CENTER_NC"

definition vcx_center_center_nc_center_stop :: "'z rgm" where
  "vcx_center_center_nc_center_stop = ret STATUS_CENTER_NC"

definition vcx_center_center_no :: "'z rgm" where
  "vcx_center_center_no = no_center
     [((RG_CTRL_MANUAL, RG_ACTION_DN), rg_down_s, STATUS_IDLE)]"

definition video_center_export :: "('z rgw_scheme, rg_fault + int) state" where
  "video_center_export = run_status_handle
     [(STATUS_IDLE, vcx_center_idle),
      (STATUS_CENTER_OPEN, vcx_center_center_open),
      (STATUS_CENTER_CLOSE, vcx_center_center_close),
      (STATUS_CENTER_STOP, vcx_center_center_stop),
      (STATUS_CENTER_NC, vcx_center_center_nc),
      (STATUS_CENTER_NC_CENTER_OPEN, vcx_center_center_nc_center_open),
      (STATUS_CENTER_NC_CENTER_CLOSE, vcx_center_center_nc_center_close),
      (STATUS_CENTER_NC_CENTER_STOP, vcx_center_center_nc_center_stop),
      (STATUS_CENTER_NO, vcx_center_center_no)]"

lemmas vcx_defs = vcx_front_center_set_up_signal_def vcx_rg_do_dummy_def vcx_center_idle_def
  vcx_center_center_open_def vcx_center_center_close_def vcx_center_center_stop_def
  vcx_center_center_nc_def vcx_center_center_nc_center_open_def
  vcx_center_center_nc_center_close_def vcx_center_center_nc_center_stop_def
  vcx_center_center_no_def

interpretation vcx: rg_machine video_center_export center_statuses
  unfolding video_center_export_def vcx_defs
  by (rule machineI) (auto intro!: handler_intros simp: machine_simps)

section \<open>\<open>video/mix_export.c\<close>\<close>

definition vmx_rg_do_dummy :: "('z rgw_scheme, unit) state" where
  "vmx_rg_do_dummy = ret ()"

definition vmx_mix_idle :: "'z rgm" where
  "vmx_mix_idle = idle_lo_center
     [(RG_ACTION_UP, rg_set_up_signal, STATUS_LO_OPEN)]
     [((RG_CTRL_MANUAL, RG_ACTION_UP), rg_set_up_signal, STATUS_CENTER_OPEN),
      ((RG_CTRL_MANUAL, RG_ACTION_DN), rg_down_s, STATUS_CENTER_CLOSE),
      ((RG_CTRL_MANUAL, RG_ACTION_STOP), rg_stop, STATUS_CENTER_STOP),
      ((RG_CTRL_MANUAL, RG_ACTION_NC_SET), rg_clr_up_signal, STATUS_CENTER_NC),
      ((RG_CTRL_MANUAL, RG_ACTION_NO_SET), rg_set_up_signal, STATUS_CENTER_NO),
      ((RG_CTRL_AUTO, RG_ACTION_UP), rg_set_up_signal, STATUS_CENTER_OPEN),
      ((RG_CTRL_OTHER, RG_ACTION_UP), rg_set_up_signal, STATUS_CENTER_OPEN)]"

definition vmx_mix_lo_open :: "'z rgm" where
  "vmx_mix_lo_open = open_new_ctrl"

definition vmx_mix_center_open :: "'z rgm" where
  "vmx_mix_center_open = open_overtime STATUS_IDLE"

definition vmx_mix_center_close :: "'z rgm" where
  "vmx_mix_center_close = ret STATUS_IDLE"

definition vmx_mix_center_stop :: "'z rgm" where
  "vmx_mix_center_stop = ret STATUS_IDLE"

definition vmx_mix_center_nc :: "'z rgm" where
  "vmx_mix_center_nc = nc_center
     [((RG_CTRL_MANUAL, RG_ACTION_NC_CLR), vmx_rg_do_dummy, STATUS_IDLE),
      ((RG_CTRL_MANUAL, RG_ACTION_UP), rg_set_up_signal, STATUS_CENTER_NC_CENTER_OPEN),
      ((RG_CTRL_MANUAL, RG_ACTION_DN), rg_down_s, STATUS_CENTER_NC_CENTER_CLOSE),
      ((RG_CTRL_MANUAL, RG_ACTION_STOP), rg_clr_up_signal, STATUS_CENTER_NC_CENTER_STOP)]"

definition vmx_mix_center_nc_center_open :: "'z rgm" where
  "vmx_mix_center_nc_center_open = nc_open"

definition vmx_mix_center_nc_center_close :: "'z rgm" where
  "vmx_mix_center_nc_center_close = ret STATUS_CENTER_NC"

definition vmx_mix_center_nc_center_stop :: "'z rgm" where
  "vmx_mix_center_nc_center_stop = ret STATUS_CENTER_NC"

definition vmx_mix_center_no :: "'z rgm" where
  "vmx_mix_center_no = no_center
     [((RG_CTRL_MANUAL, RG_ACTION_DN), rg_down_s, STATUS_IDLE)]"

definition video_mix_export :: "('z rgw_scheme, rg_fault + int) state" where
  "video_mix_export = run_status_handle
     [(STATUS_IDLE, vmx_mix_idle),
      (STATUS_LO_OPEN, vmx_mix_lo_open),
      (STATUS_CENTER_OPEN, vmx_mix_center_open),
      (STATUS_CENTER_CLOSE, vmx_mix_center_close),
      (STATUS_CENTER_STOP, vmx_mix_center_stop),
      (STATUS_CENTER_NC, vmx_mix_center_nc),
      (STATUS_CENTER_NC_CENTER_OPEN, vmx_mix_center_nc_center_open),
      (STATUS_CENTER_NC_CENTER_CLOSE, vmx_mix_center_nc_center_close),
      (STATUS_CENTER_NC_CENTER_STOP, vmx_mix_center_nc_center_stop),
      (STATUS_CENTER_NO, vmx_mix_center_no)]"

lemmas vmx_defs = vmx_rg_do_dummy_def vmx_mix_idle_def vmx_mix_lo_open_def vmx_mix_center_open_def
  vmx_mix_center_close_def vmx_mix_center_stop_def vmx_mix_center_nc_def
  vmx_mix_center_nc_center_open_def vmx_mix_center_nc_center_close_def
  vmx_mix_center_nc_center_stop_def vmx_mix_center_no_def

interpretation vmx: rg_machine video_mix_export lo_statuses
  unfolding video_mix_export_def vmx_defs
  by (rule machineI) (auto intro!: handler_intros simp: machine_simps)

section \<open>Effects\<close>

context rg_effect
begin

lemma keeps_video_front_export: "keeps R video_front_export"
  unfolding video_front_export_def vfx_defs by (intro machine_intros)

lemma keeps_video_front_record_export: "keeps R video_front_record_export"
  unfolding video_front_record_export_def vfrx_defs by (intro machine_intros)

lemma keeps_video_center_export: "keeps R video_center_export"
  unfolding video_center_export_def vcx_defs by (intro machine_intros)

lemma keeps_video_mix_export: "keeps R video_mix_export"
  unfolding video_mix_export_def vmx_defs by (intro machine_intros)

end

end
