(* ===== verification/Roadgate.thy ===== *)
theory Roadgate
  imports Detect Coil_Entrance Coil_Export Mix_Entrance Mix_Export Video_Entrance Video_Export
begin

text \<open>
  The road gate as a whole: the mode dispatchers \<open>coil/coil.c\<close>, \<open>mix/mix.c\<close>, \<open>video/video.c\<close>, the
  daemon of \<open>roadgate.c\<close> that runs one of the 24 machines, and what the contracts of the machines
  mean for the daemon under every configuration.
\<close>

section \<open>Dispatch\<close>

type_synonym 'z machine = "('z rgw_scheme, rg_fault + int) state"

definition coil_sm_tab :: "((u8 \<times> u8) \<times> 'z machine) list" where
  "coil_sm_tab =
     [((VE_MODE_IN, ROAD_GATE_CTRL_FRONT), coil_front_entrance),
      ((VE_MODE_IN, ROAD_GATE_CTRL_FRONT_RECORD), coil_front_record_entrance),
      ((VE_MODE_IN, ROAD_GATE_CTRL_BACKGROUND), coil_center_entrance),
      ((VE_MODE_IN, ROAD_GATE_CTRL_MIX), coil_mix_entrance),
      ((VE_MODE_OUT, ROAD_GATE_CTRL_FRONT), coil_front_export),
      ((VE_MODE_OUT, ROAD_GATE_CTRL_FRONT_RECORD), coil_front_record_export),
      ((VE_MODE_OUT, ROAD_GATE_CTRL_BACKGROUND), coil_center_export),
      ((VE_MODE_OUT, ROAD_GATE_CTRL_MIX), coil_mix_export)]"

definition mix_sm_tab :: "((u8 \<times> u8) \<times> 'z machine) list" where
  "mix_sm_tab =
     [((VE_MODE_IN, ROAD_GATE_CTRL_FRONT), mix_front_entrance),
      ((VE_MODE_IN, ROAD_GATE_CTRL_FRONT_RECORD), mix_front_record_entrance),
      ((VE_MODE_IN, ROAD_GATE_CTRL_BACKGROUND), mix_center_entrance),
      ((VE_MODE_IN, ROAD_GATE_CTRL_MIX), mix_mix_entrance),
      ((VE_MODE_OUT, ROAD_GATE_CTRL_FRONT), mix_front_export),
      ((VE_MODE_OUT, ROAD_GATE_CTRL_FRONT_RECORD), mix_front_record_export),
      ((VE_MODE_OUT, ROAD_GATE_CTRL_BACKGROUND), mix_center_export),
      ((VE_MODE_OUT, ROAD_GATE_CTRL_MIX), mix_mix_export)]"

definition video_sm_tab :: "((u8 \<times> u8) \<times> 'z machine) list" where
  "video_sm_tab =
     [((VE_MODE_IN, ROAD_GATE_CTRL_FRONT), video_front_entrance),
      ((VE_MODE_IN, ROAD_GATE_CTRL_FRONT_RECORD), video_front_record_entrance),
      ((VE_MODE_IN, ROAD_GATE_CTRL_BACKGROUND), video_center_entrance),
      ((VE_MODE_IN, ROAD_GATE_CTRL_MIX), video_mix_entrance),
      ((VE_MODE_OUT, ROAD_GATE_CTRL_FRONT), video_front_export),
      ((VE_MODE_OUT, ROAD_GATE_CTRL_FRONT_RECORD), video_front_record_export),
      ((VE_MODE_OUT, ROAD_GATE_CTRL_BACKGROUND), video_center_export),
      ((VE_MODE_OUT, ROAD_GATE_CTRL_MIX), video_mix_export)]"

definition run_sm_tab :: "((u8 \<times> u8) \<times> 'z machine) list \<Rightarrow> 'z machine" where
  "run_sm_tab tab = do {
     c \<leftarrow> ve_cfg_get;
     (if VE_MODE_END \<le> ve_mode c then ret (Inr (- 1))
      else if ROAD_GATE_CTRL_END \<le> rg_mode c then ret (Inr (- 1))
      else (case map_of tab (ve_mode c, rg_mode c) of
              None \<Rightarrow> ret (Inr (- 1))
            | Some m \<Rightarrow> m)) }"

definition coil_mode :: "('z vew_scheme, rg_fault + int) state" where
  "coil_mode = do { coil_detect_once; run_sm_tab coil_sm_tab }"

definition mix_mode :: "('z vew_scheme, rg_fault + int) state" where
  "mix_mode = do { mix_detect_once; run_sm_tab mix_sm_tab }"

definition video_mode :: "('z vew_scheme, rg_fault + int) state" where
  "video_mode = run_sm_tab video_sm_tab"

definition roadgate_daemon :: "('z vew_scheme, rg_fault + int) state" where
  "roadgate_daemon = do {
     c \<leftarrow> ve_cfg_get;
     (if DETECT_MODE_END \<le> detect_mode c then ret (Inr (- 1))
      else (case map_of [(DETECT_MODE_COIL, coil_mode), (DETECT_MODE_VIDEO, video_mode),
                         (DETECT_MODE_MIX, mix_mode)] (detect_mode c) of
              None \<Rightarrow> ret (Inr 0)
            | Some m \<Rightarrow> do {
                r \<leftarrow> m;
                ret (case r of Inl f \<Rightarrow> Inl f | Inr _ \<Rightarrow> Inr 0) })) }"

text \<open>One pass of the loop of \<open>roadgate_thread\<close>, and what it does before the loop.\<close>

definition roadgate_thread_round :: "('z vew_scheme, rg_fault + int) state" where
  "roadgate_thread_round = do {
     r \<leftarrow> roadgate_daemon;
     (case r of Inl f \<Rightarrow> ret (Inl f) | Inr v \<Rightarrow> do { usleep (1 * 1000); ret (Inr v) }) }"

definition roadgate_thread_init :: "('z vew_scheme, unit) state" where
  "roadgate_thread_init = do {
     roadgate_ram_init;
     rg_dev_init }"

section \<open>The machine a configuration selects\<close>

definition cfg_ok :: "ve_cfg \<Rightarrow> bool" where
  "cfg_ok c \<longleftrightarrow> detect_mode c < DETECT_MODE_END \<and> ve_mode c < VE_MODE_END
     \<and> rg_mode c < ROAD_GATE_CTRL_END"

definition sm_tab :: "u8 \<Rightarrow> ((u8 \<times> u8) \<times> 'z machine) list" where
  "sm_tab d = (if d = DETECT_MODE_COIL then coil_sm_tab
     else if d = DETECT_MODE_MIX then mix_sm_tab else video_sm_tab)"

definition selected :: "ve_cfg \<Rightarrow> 'z machine option" where
  "selected c = map_of (sm_tab (detect_mode c)) (ve_mode c, rg_mode c)"

text \<open>The statuses that machine has handlers for.\<close>

definition statuses_of :: "ve_cfg \<Rightarrow> int set" where
  "statuses_of c =
     (if rg_mode c = ROAD_GATE_CTRL_BACKGROUND then center_statuses
      else if ve_mode c = VE_MODE_OUT
        \<or> detect_mode c = DETECT_MODE_VIDEO \<and> rg_mode c = ROAD_GATE_CTRL_MIX then lo_statuses
      else lo_wait_statuses)"

text \<open>The threads the dispatcher has started before it runs the machine.\<close>

definition threads_started :: "'z vew_scheme \<Rightarrow> 'z vew_scheme" where
  "threads_started s =
     (if detect_mode (cfg s) = DETECT_MODE_COIL then s\<lparr>coil_started := True\<rparr>
      else if detect_mode (cfg s) = DETECT_MODE_MIX then s\<lparr>mix_started := True\<rparr> else s)"

lemma less_2_cases: "(x :: u8) < 2 \<Longrightarrow> x = 0 \<or> x = 1"
  by unat_arith

lemma less_3_cases: "(x :: u8) < 3 \<Longrightarrow> x = 0 \<or> x = 1 \<or> x = 2"
  by unat_arith

lemma less_4_cases: "(x :: u8) < 4 \<Longrightarrow> x = 0 \<or> x = 1 \<or> x = 2 \<or> x = 3"
  by unat_arith

lemma cfg_ok_cases:
  assumes "cfg_ok c"
  shows "detect_mode c \<in> {0, 1, 2} \<and> ve_mode c \<in> {0, 1} \<and> rg_mode c \<in> {0, 1, 2, 3}"
  using assms less_2_cases less_3_cases less_4_cases by (simp add: cfg_ok_def)

lemmas machine_axioms = cfe.rg_machine_axioms cfre.rg_machine_axioms cce.rg_machine_axioms
  cme.rg_machine_axioms cfx.rg_machine_axioms cfrx.rg_machine_axioms ccx.rg_machine_axioms
  cmx.rg_machine_axioms mfe.rg_machine_axioms mfre.rg_machine_axioms mce.rg_machine_axioms
  mme.rg_machine_axioms mfx.rg_machine_axioms mfrx.rg_machine_axioms mcx.rg_machine_axioms
  mmx.rg_machine_axioms vfe.rg_machine_axioms vfre.rg_machine_axioms vce.rg_machine_axioms
  vme.rg_machine_axioms vfx.rg_machine_axioms vfrx.rg_machine_axioms vcx.rg_machine_axioms
  vmx.rg_machine_axioms

lemma selected_machine_ex:
  assumes "cfg_ok c"
  shows "\<exists>m :: 'z machine. selected c = Some m \<and> rg_machine m (statuses_of c)"
proof -
  have "detect_mode c = 0 \<or> detect_mode c = 1 \<or> detect_mode c = 2" "ve_mode c = 0 \<or> ve_mode c = 1"
    "rg_mode c = 0 \<or> rg_mode c = 1 \<or> rg_mode c = 2 \<or> rg_mode c = 3"
    using cfg_ok_cases [OF assms] by simp_all
  then show ?thesis
    by (elim disjE)
      (simp_all add: selected_def sm_tab_def statuses_of_def machine_axioms
        coil_sm_tab_def mix_sm_tab_def video_sm_tab_def)
qed

lemma selected_machine:
  assumes "cfg_ok c"
  obtains m :: "'z machine" where "selected c = Some m" and "rg_machine m (statuses_of c)"
  using selected_machine_ex [OF assms] by blast

section \<open>The daemon runs the selected machine\<close>

lemma rg_threads_started [simp]: "rg (threads_started s) = rg s" "pcf (threads_started s) = pcf s"
  "io (threads_started s) = io s" "events (threads_started s) = events s"
  "cfg (threads_started s) = cfg s" "same_env (threads_started s) s' = same_env s s'"
  "same_env s s" "lm (threads_started s) = lm s"
  by (simp_all add: threads_started_def same_env_def)

lemma threads_started_kept [simp]:
  "mach_inv hs (threads_started s) = mach_inv hs s" "quiet (threads_started s) = quiet s"
  "i2c_ok (threads_started s) = i2c_ok s" "head_manual a (threads_started s) = head_manual a s"
  "head_local (threads_started s) = head_local s" "rests (threads_started s) = rests s"
  by (simp_all add: threads_started_def mach_inv_def quiet_def i2c_ok_def head_manual_def
      head_local_def gpio_high_def rests_def)

lemma daemon_runs:
  assumes "cfg_ok (cfg s)" and "selected (cfg s) = Some m"
  shows "eval roadgate_daemon s = (case eval m (threads_started s) of Inl f \<Rightarrow> Inl f | Inr _ \<Rightarrow> Inr 0)"
    and "exec roadgate_daemon s = exec m (threads_started s)"
proof -
  have modes: "\<not> DETECT_MODE_END \<le> detect_mode (cfg s)" "\<not> VE_MODE_END \<le> ve_mode (cfg s)"
    "\<not> ROAD_GATE_CTRL_END \<le> rg_mode (cfg s)"
    using assms(1) by (simp_all add: cfg_ok_def not_le)
  have tab: "map_of (sm_tab (detect_mode (cfg s))) (ve_mode (cfg s), rg_mode (cfg s)) = Some m"
    using assms(2) by (simp add: selected_def)
  have "detect_mode (cfg s) = DETECT_MODE_VIDEO \<or> detect_mode (cfg s) = DETECT_MODE_COIL
      \<or> detect_mode (cfg s) = DETECT_MODE_MIX"
    using cfg_ok_cases [OF assms(1)] by auto
  then have "eval roadgate_daemon s = (case eval m (threads_started s) of Inl f \<Rightarrow> Inl f | Inr _ \<Rightarrow> Inr 0)
      \<and> exec roadgate_daemon s = exec m (threads_started s)"
    using modes tab
    by (elim disjE)
      (simp_all add: roadgate_daemon_def ve_cfg_get_def coil_mode_def mix_mode_def video_mode_def
        coil_detect_once_def mix_detect_once_def run_sm_tab_def threads_started_def sm_tab_def)
  then show "eval roadgate_daemon s = (case eval m (threads_started s) of Inl f \<Rightarrow> Inl f | Inr _ \<Rightarrow> Inr 0)"
    "exec roadgate_daemon s = exec m (threads_started s)" by simp_all
qed

lemma daemon_bad_cfg:
  assumes "\<not> cfg_ok (cfg s)"
  shows "eval roadgate_daemon s = (if detect_mode (cfg s) < DETECT_MODE_END then Inr 0 else Inr (- 1))"
    and "exec roadgate_daemon s = (if detect_mode (cfg s) < DETECT_MODE_END then threads_started s else s)"
proof -
  have "eval roadgate_daemon s = (if detect_mode (cfg s) < DETECT_MODE_END then Inr 0 else Inr (- 1))
    \<and> exec roadgate_daemon s = (if detect_mode (cfg s) < DETECT_MODE_END then threads_started s else s)"
  proof (cases "detect_mode (cfg s) < DETECT_MODE_END")
    case False
    then have "DETECT_MODE_END \<le> detect_mode (cfg s)" by simp
    with False show ?thesis by (simp add: roadgate_daemon_def ve_cfg_get_def)
  next
    case True
    then have bad: "VE_MODE_END \<le> ve_mode (cfg s) \<or> ROAD_GATE_CTRL_END \<le> rg_mode (cfg s)"
      using assms by (auto simp: cfg_ok_def)
    have "\<not> DETECT_MODE_END \<le> detect_mode (cfg s)" using True by simp
    with bad less_3_cases [OF True] show ?thesis
      by (elim disjE)
        (simp_all add: roadgate_daemon_def ve_cfg_get_def coil_mode_def mix_mode_def video_mode_def
          coil_detect_once_def mix_detect_once_def run_sm_tab_def threads_started_def)
  qed
  then show "eval roadgate_daemon s = (if detect_mode (cfg s) < DETECT_MODE_END then Inr 0 else Inr (- 1))"
    "exec roadgate_daemon s = (if detect_mode (cfg s) < DETECT_MODE_END then threads_started s else s)"
    by simp_all
qed

section \<open>Effects of the daemon\<close>

text \<open>
  What every machine respects, the daemon respects, when starting the detection threads does.
\<close>

locale daemon_effect = rg_effect R
  for R :: "'z vew_scheme \<Rightarrow> 'z vew_scheme \<Rightarrow> bool" +
  assumes eff_coil_once: "keeps R coil_detect_once"
    and eff_mix_once: "keeps R mix_detect_once"
begin

lemmas keeps_machines = keeps_coil_front_entrance keeps_coil_front_record_entrance
  keeps_coil_center_entrance keeps_coil_mix_entrance keeps_coil_front_export
  keeps_coil_front_record_export keeps_coil_center_export keeps_coil_mix_export
  keeps_mix_front_entrance keeps_mix_front_record_entrance keeps_mix_center_entrance
  keeps_mix_mix_entrance keeps_mix_front_export keeps_mix_front_record_export
  keeps_mix_center_export keeps_mix_mix_export keeps_video_front_entrance
  keeps_video_front_record_entrance keeps_video_center_entrance keeps_video_mix_entrance
  keeps_video_front_export keeps_video_front_record_export keeps_video_center_export
  keeps_video_mix_export

lemma keeps_run_sm_tab: "list_all (\<lambda>(k, m). keeps R m) tab \<Longrightarrow> keeps R (run_sm_tab tab)"
  unfolding run_sm_tab_def ve_cfg_get_def
  by (intro keeps_bind keeps_reads keeps_if keeps_map_of keeps_ret)

lemma keeps_modes: "keeps R coil_mode" "keeps R mix_mode" "keeps R video_mode"
  unfolding coil_mode_def mix_mode_def video_mode_def
  by (intro keeps_bind keeps_run_sm_tab eff_coil_once eff_mix_once;
      simp add: coil_sm_tab_def mix_sm_tab_def video_sm_tab_def keeps_machines)+

lemma keeps_roadgate_daemon: "keeps R roadgate_daemon"
  unfolding roadgate_daemon_def ve_cfg_get_def
  by (intro keeps_bind keeps_reads keeps_if keeps_map_of keeps_ret)
    (simp_all add: keeps_modes)

end

interpretation env_daemon: daemon_effect same_env
  by unfold_locales (auto intro!: keepsI simp: coil_detect_once_def mix_detect_once_def same_env_def)

interpretation dn_daemon: daemon_effect dn_safe
  by unfold_locales (auto intro!: keepsI simp: coil_detect_once_def mix_detect_once_def dn_safe_def)

interpretation lamp_daemon: daemon_effect lamps_kept
  by unfold_locales (auto intro!: keepsI simp: coil_detect_once_def mix_detect_once_def lamps_kept_def)

interpretation pulse_daemon: daemon_effect pulses_end
  by unfold_locales
    (auto intro!: keepsI simp: coil_detect_once_def mix_detect_once_def pulses_end_def same_env_def rests_def)

interpretation queue_daemon: daemon_effect queue_shrinks
  by unfold_locales
    (auto intro!: keepsI queue_shrinks_same simp: coil_detect_once_def mix_detect_once_def)

end
