(* ===== verification/Light_Correct.thy ===== *)
theory Light_Correct
  imports Light "HOL-Library.Multiset"
begin

text \<open>
  Correctness of the lamps of theory \<open>Light\<close>: the manager's lists are a partition of the
  registered lamps that agrees with the pool, a commanded lamp is driven, the white lamp follows
  day and night; and what goes wrong: the mutex that a failed registration leaves locked, the
  blue lamp's driver, and flashing lamps that toggle early.
\<close>

section \<open>The manager's invariant\<close>

definition all_lights :: "light_mng \<Rightarrow> light list" where
  "all_lights m = idle_ls m @ steady_ls m @ flash_ls m"

definition lm_inv :: "light_mng \<Rightarrow> bool" where
  "lm_inv m \<longleftrightarrow> distinct (map ent (all_lights m)) \<and> distinct (map lid (all_lights m))
     \<and> pool_inv 0 LIGHT_ID_END 64 0 (light_po m) (ent ` set (all_lights m))"

lemma lm_upd [simp]: "lm (exec (upd_lm f) s) = f (lm s)"
  by (simp add: upd_lm_def)

text \<open>A lamp with the identity of a registered one: only its changing fields may differ.\<close>

definition same_lamp :: "light \<Rightarrow> light \<Rightarrow> bool" where
  "same_lamp l l' \<longleftrightarrow> ent l = ent l' \<and> lid l = lid l' \<and> opt l = opt l'"

text \<open>
  Moving a lamp between the lists permutes the identities: the multiset of them is what the
  invariant is about.
\<close>

definition idents :: "light_mng \<Rightarrow> (int \<times> u8 \<times> light_drv) multiset" where
  "idents m = mset (map (\<lambda>l. (ent l, lid l, opt l)) (all_lights m))"

lemma lm_inv_idents:
  assumes "idents m' = idents m" and "light_po m' = light_po m"
  shows "lm_inv m' \<longleftrightarrow> lm_inv m"
proof -
  have ents: "mset (map ent (all_lights m)) = image_mset fst (idents m)"
    and lids: "mset (map lid (all_lights m)) = image_mset (fst \<circ> snd) (idents m)"
    and set: "ent ` set (all_lights m) = fst ` set_mset (idents m)" for m
    by (simp_all add: idents_def multiset.map_comp comp_def image_image)
  have "distinct (map ent (all_lights m')) = distinct (map ent (all_lights m))"
    by (rule mset_eq_imp_distinct_iff) (simp only: ents assms)
  moreover have "distinct (map lid (all_lights m')) = distinct (map lid (all_lights m))"
    by (rule mset_eq_imp_distinct_iff) (simp only: lids assms)
  ultimately show ?thesis by (simp add: lm_inv_def set assms)
qed

lemma filter_ent:
  assumes "distinct (map ent ls)" and "l \<in> set ls"
  shows "mset (filter (\<lambda>x. ent x \<noteq> ent l) ls) + {#l#} = mset ls"
proof -
  have "filter (\<lambda>x. ent x \<noteq> ent l) ls = removeAll l ls"
    unfolding removeAll_filter_not_eq
    using assms by (intro filter_cong) (auto simp: distinct_map inj_on_def)
  also have "\<dots> = remove1 l ls" using assms by (simp add: distinct_map distinct_remove1_removeAll)
  finally show ?thesis using assms(2) by simp
qed

lemma all_lights_unlink: "all_lights (unlink l m) = filter (\<lambda>x. ent x \<noteq> ent l) (all_lights m)"
  by (simp add: all_lights_def unlink_def)

lemma light_po_moves [simp]:
  "light_po (to_idle l m) = light_po m" "light_po (to_steady l m) = light_po m"
  "light_po (to_flash l m) = light_po m"
  by (simp_all add: to_idle_def to_steady_def to_flash_def unlink_def Let_def)

lemma idents_move:
  assumes "lm_inv m" and "x \<in> set (all_lights m)" and "same_lamp l x"
  shows "idents (to_idle l m) = idents m" "idents (to_steady l m) = idents m"
    "idents (to_flash l m) = idents m"
proof -
  have el: "ent l = ent x" using assms(3) by (simp add: same_lamp_def)
  let ?k = "\<lambda>l. (ent l, lid l, opt l)"
  have k: "?k l = ?k x" using assms(3) by (simp add: same_lamp_def)
  have "mset (filter (\<lambda>y. ent y \<noteq> ent l) (all_lights m)) + {#x#} = mset (all_lights m)"
    unfolding el by (rule filter_ent) (use assms(1,2) in \<open>simp_all add: lm_inv_def\<close>)
  then have "image_mset ?k (mset (filter (\<lambda>y. ent y \<noteq> ent l) (all_lights m)) + {#x#}) = idents m"
    by (simp add: idents_def)
  then have *: "image_mset ?k (mset (all_lights (unlink l m))) + {#?k l#} = idents m"
    by (simp add: all_lights_unlink k)
  then show "idents (to_idle l m) = idents m" "idents (to_steady l m) = idents m"
    "idents (to_flash l m) = idents m"
    by (simp_all add: idents_def to_idle_def to_steady_def to_flash_def all_lights_def Let_def
        ac_simps)
qed

lemma light_find_Some: "light_find m i = Some l \<Longrightarrow> l \<in> set (all_lights m) \<and> lid l = i"
  by (auto simp: light_find_def light_find_from_list_def all_lights_def find_Some_iff
      split: option.splits)

lemma find_lid: "find (\<lambda>l. lid l = i) ls = Some l \<Longrightarrow> i \<in> lid ` set ls"
  by (auto simp: find_Some_iff)

lemma light_find_None: "light_find m i = None \<longleftrightarrow> i \<notin> lid ` set (all_lights m)"
proof -
  have "find (\<lambda>l. lid l = i) ls = None \<longleftrightarrow> i \<notin> lid ` set ls" for ls
    by (auto simp: find_None_iff)
  then show ?thesis
    by (cases "find (\<lambda>l. lid l = i) (idle_ls m)"; cases "find (\<lambda>l. lid l = i) (steady_ls m)")
      (auto simp: light_find_def light_find_from_list_def all_lights_def image_Un dest: find_lid)
qed

text \<open>The invariant as an effect: programs that keep the identities and the pool keep it.\<close>

definition lamps_same :: "'z vew_scheme \<Rightarrow> 'z vew_scheme \<Rightarrow> bool" where
  "lamps_same s s' \<longleftrightarrow> (lm_inv (lm s) \<longrightarrow>
     idents (lm s') = idents (lm s) \<and> light_po (lm s') = light_po (lm s))"

lemma lamps_same_inv: "lamps_same s s' \<Longrightarrow> lm_inv (lm s) \<Longrightarrow> lm_inv (lm s')"
  by (simp add: lamps_same_def lm_inv_idents [of "lm s'" "lm s"])

interpretation lamps_same: effect lamps_same
proof
  show "lamps_same s u" if "lamps_same s t" "lamps_same t u" for s t u :: "'a vew_scheme"
    using that lamps_same_inv [OF that(1)] by (auto simp: lamps_same_def)
qed (simp add: lamps_same_def)

lemma lamps_same_lm: "(\<And>s. lm (exec m s) = lm s) \<Longrightarrow> keeps lamps_same m"
  by (simp add: keeps_def lamps_same_def)

lemma lm_frame [simp]:
  "lm (exec (gpio_set g v) s) = lm s" "lm (exec (pcf8574_set_bit b v) s) = lm s"
  "lm (exec open_pwm s) = lm s" "lm (exec clock_gettime s) = lm s" "lm (exec (emit e) s) = lm s"
  "lm (exec gettimeofday s) = lm s" "lm (exec (usleep us) s) = lm s"
  by (simp_all add: gpio_set_def exec_pcf8574_set_bit open_pwm_def clock_gettime_def pass_def
      emit_def usleep_def gettimeofday_def)

lemma lm_drivers [simp]: "lm (exec (light_opt_set d v) s) = lm s"
  by (cases d) (simp_all add: light_opt_set_def port_red_light_set_def port_blue_light_set_def
      port_white_light_set_def port_green_light_set_def light_enable_set_def ve_cfg_get_def Let_def)

lemma lamps_same_put_id: "keeps lamps_same (light_ctrl_put_id i info)"
proof (rule keepsI)
  fix s :: "'a vew_scheme"
  show "lamps_same s (exec (light_ctrl_put_id i info) s)"
  proof (cases "light_find (lm s) i")
    case None
    then show ?thesis by (simp add: light_ctrl_put_id_def lamps_same_def)
  next
    case (Some l)
    have l: "l \<in> set (all_lights (lm s))" using light_find_Some [OF Some] by simp
    have "same_lamp (l\<lparr>linfo := a, prev_tm := b, prev_val := c\<rparr>) l" "same_lamp (l\<lparr>linfo := a\<rparr>) l" for a b c
      by (simp_all add: same_lamp_def)
    with l Some show ?thesis
      by (auto simp: light_ctrl_put_id_def lamps_same_def idents_move)
  qed
qed

lemma lamps_same_put_loop: "keeps lamps_same (ctrl_put_loop c is)"
  by (induction "is") (auto intro!: lamps_same.keeps_intros lamps_same_put_id)

text \<open>
  The steady loop runs over a snapshot of the list it empties, the flash loop over the list it
  updates in place.
\<close>

lemma to_idle_head:
  assumes "distinct (map ent (all_lights m))" and "steady_ls m = l # ls"
  shows "to_idle l m = m\<lparr>idle_ls := idle_ls m @ [l], steady_ls := ls\<rparr>"
proof -
  have "\<forall>x \<in> set (idle_ls m) \<union> set ls \<union> set (flash_ls m). ent x \<noteq> ent l"
    using assms by (auto simp: all_lights_def intro: rev_image_eqI)
  then show ?thesis
    using assms(2) by (simp add: to_idle_def unlink_def Let_def filter_id_conv)
qed

lemma lm_steady_loop:
  assumes "distinct (map ent (all_lights (lm s)))" and "steady_ls (lm s) = ls"
  shows "lm (exec (steady_loop ls) s) = (lm s)\<lparr>idle_ls := idle_ls (lm s) @ ls, steady_ls := []\<rparr>"
  using assms
proof (induction ls arbitrary: s)
  case (Cons l ls)
  let ?s = "exec (upd_lm (to_idle l)) (exec (light_opt_set (opt l) (li_value (linfo l))) s)"
  have lm: "lm ?s = (lm s)\<lparr>idle_ls := idle_ls (lm s) @ [l], steady_ls := ls\<rparr>"
    using to_idle_head [OF Cons.prems] by simp
  have "distinct (map ent (all_lights (lm ?s)))"
    using Cons.prems unfolding lm by (auto simp: all_lights_def)
  from Cons.IH [OF this] show ?case by (simp add: lm [simplified])
qed simp

lemma lm_flash_loop:
  assumes "distinct (map ent (done @ ls))" and "flash_ls (lm s) = done @ ls"
  shows "lm (exec (flash_loop now ls) s)
    = (lm s)\<lparr>flash_ls := done @ map (\<lambda>l. if flash_due now l then flashed now l else l) ls\<rparr>"
  using assms
proof (induction ls arbitrary: s "done")
  case (Cons l ls)
  let ?l = "if flash_due now l then flashed now l else l"
  let ?s = "if flash_due now l then exec (upd_lm (\<lambda>m. m\<lparr>flash_ls :=
      map (\<lambda>x. if ent x = ent l then flashed now l else x) (flash_ls m)\<rparr>))
      (exec (light_opt_set (opt l) (prev_val (flashed now l))) s) else s"
  have "\<forall>x \<in> set done \<union> set ls. ent x \<noteq> ent l"
    using Cons.prems(1) by (auto intro: rev_image_eqI)
  then have "map (\<lambda>x. if ent x = ent l then flashed now l else x) (done @ l # ls)
      = done @ flashed now l # ls"
    by (auto intro!: map_idI)
  then have lm: "lm ?s = (lm s)\<lparr>flash_ls := (done @ [?l]) @ ls\<rparr>"
    using Cons.prems(2) by simp
  have "ent ?l = ent l" by (simp add: flashed_def)
  then have "distinct (map ent ((done @ [?l]) @ ls))" using Cons.prems(1) by auto
  from Cons.IH [OF this, of ?s] lm
  have "lm (exec (flash_loop now ls) ?s)
    = (lm s)\<lparr>flash_ls := (done @ [?l]) @ map (\<lambda>l. if flash_due now l then flashed now l else l) ls\<rparr>"
    by simp
  then show ?case by (cases "flash_due now l") simp_all
qed simp

section \<open>Locking\<close>

lemma eval_lm_lock [simp]: "eval lm_lock s = (if lm_mutex (lm s) then None else Some ())"
  by (simp add: lm_lock_def)

lemma lm_exec_lock [simp]:
  "lm (exec lm_lock s) = (if lm_mutex (lm s) then lm s else (lm s)\<lparr>lm_mutex := True\<rparr>)"
  "lm (exec lm_unlock s) = (lm s)\<lparr>lm_mutex := False\<rparr>"
  by (simp_all add: lm_lock_def lm_unlock_def)

lemma idents_mutex [simp]: "idents (m\<lparr>lm_mutex := b\<rparr>) = idents m"
  and all_lights_mutex [simp]: "all_lights (m\<lparr>lm_mutex := b\<rparr>) = all_lights m"
  and lm_inv_mutex [simp]: "lm_inv (m\<lparr>lm_mutex := b\<rparr>) = lm_inv m"
  by (simp_all add: idents_def all_lights_def lm_inv_def)

lemma light_find_mutex [simp]: "light_find (m\<lparr>lm_mutex := b\<rparr>) i = light_find m i"
  by (simp add: light_find_def split: option.split)

lemma lamps_same_lock: "keeps lamps_same lm_lock" "keeps lamps_same lm_unlock"
  by (simp_all add: keeps_def lamps_same_def)

lemma lamps_same_put: "keeps lamps_same (light_ctrl_put c)"
  unfolding light_ctrl_put_def
  by (intro lamps_same.keeps_intros lamps_same_lock lamps_same_put_loop)

lemma light_ctrl_daemon_free:
  assumes "lm_inv (lm s)" and "\<not> lm_mutex (lm s)"
  shows "eval light_ctrl_daemon s = Some 0"
    and "\<exists>now. lm (exec light_ctrl_daemon s) = (lm s)\<lparr>idle_ls := idle_ls (lm s) @ steady_ls (lm s),
      steady_ls := [], flash_ls := map (\<lambda>l. if flash_due now l then flashed now l else l) (flash_ls (lm s))\<rparr>"
proof -
  let ?s1 = "exec lm_lock s"
  let ?s2 = "exec (steady_loop (steady_ls (lm s))) ?s1"
  have d: "distinct (map ent (all_lights (lm s)))" using assms(1) by (simp add: lm_inv_def)
  have "lm ?s2 = (lm ?s1)\<lparr>idle_ls := idle_ls (lm s) @ steady_ls (lm s), steady_ls := []\<rparr>"
    using lm_steady_loop [of ?s1 "steady_ls (lm s)"] d assms(2) by simp
  then have s2: "lm (exec clock_gettime ?s2) = (lm s)\<lparr>lm_mutex := True,
      idle_ls := idle_ls (lm s) @ steady_ls (lm s), steady_ls := []\<rparr>"
    using assms(2) by simp
  have "distinct (map ent ([] @ flash_ls (lm s)))" using d by (simp add: all_lights_def)
  from lm_flash_loop [OF this, of "exec clock_gettime ?s2" "ts_or_zero (eval clock_gettime ?s2)"] s2
  have "lm (exec light_ctrl_daemon s) = (lm s)\<lparr>idle_ls := idle_ls (lm s) @ steady_ls (lm s),
      steady_ls := [], flash_ls := map (\<lambda>l. if flash_due (ts_or_zero (eval clock_gettime ?s2)) l
        then flashed (ts_or_zero (eval clock_gettime ?s2)) l else l) (flash_ls (lm s))\<rparr>"
    using assms(2) by (simp add: light_ctrl_daemon_def)
  then show "\<exists>now. lm (exec light_ctrl_daemon s) = (lm s)\<lparr>idle_ls := idle_ls (lm s) @ steady_ls (lm s),
      steady_ls := [], flash_ls := map (\<lambda>l. if flash_due now l then flashed now l else l) (flash_ls (lm s))\<rparr>"
    by blast
  show "eval light_ctrl_daemon s = Some 0" using assms(2) by (simp add: light_ctrl_daemon_def)
qed

lemma blocked:
  assumes "lm_mutex (lm s)"
  shows "eval light_ctrl_daemon s = None \<and> exec light_ctrl_daemon s = s"
    and "eval (light_ctrl_put c) s = None \<and> exec (light_ctrl_put c) s = s"
    and "eval (light_regst i d) s = None \<and> exec (light_regst i d) s = s"
  using assms
  by (simp_all add: light_ctrl_daemon_def light_ctrl_put_def light_regst_def lm_lock_def)

lemma lamps_same_daemon: "keeps lamps_same light_ctrl_daemon"
proof (rule keepsI)
  fix s :: "'a vew_scheme"
  show "lamps_same s (exec light_ctrl_daemon s)"
  proof (cases "lm_mutex (lm s)")
    case True
    then show ?thesis by (simp add: blocked lamps_same_def)
  next
    case False
    let ?k = "\<lambda>l. (ent l, lid l, opt l)"
    have "image_mset ?k (image_mset (\<lambda>l. if flash_due now l then flashed now l else l) M)
        = image_mset ?k M" for now M
      unfolding multiset.map_comp by (rule image_mset_cong) (simp add: flashed_def)
    moreover have "\<exists>now. lm (exec light_ctrl_daemon s) = (lm s)\<lparr>idle_ls := idle_ls (lm s) @ steady_ls (lm s),
      steady_ls := [], flash_ls := map (\<lambda>l. if flash_due now l then flashed now l else l) (flash_ls (lm s))\<rparr>"
      if "lm_inv (lm s)" by (rule light_ctrl_daemon_free(2) [OF that False])
    ultimately show ?thesis
      by (auto simp: lamps_same_def idents_def all_lights_def)
  qed
qed


lemma lamps_same_white_set: "keeps lamps_same (white_light_set on)" "keeps lamps_same isdaytime"
  unfolding white_light_set_def isdaytime_def
  by (intro lamps_same.keeps_intros lamps_same_put lamps_same_lm, simp)+

lemma lamps_same_upd:
  "keeps lamps_same (upd_white f)" "keeps lamps_same (upd_lm (\<lambda>m. m\<lparr>prev_bright := b\<rparr>))"
  by (simp_all add: keeps_def lamps_same_def upd_white_def idents_def all_lights_def)

lemma lamps_same_white:
  "keeps lamps_same white_light_night" "keeps lamps_same white_light_always"
  "keeps lamps_same white_light_night_coil"
  unfolding white_light_night_def white_light_always_def white_light_night_coil_def ve_cfg_get_def
  by (intro lamps_same.keeps_intros lamps_same_white_set lamps_same_upd)+

lemma lamps_same_run_wlight:
  "list_all (\<lambda>(k, h). keeps lamps_same h) tab \<Longrightarrow> keeps lamps_same (run_wlight tab)"
  unfolding run_wlight_def ve_cfg_get_def white_light_update_status_def
  by (intro lamps_same.keeps_bind lamps_same.keeps_reads lamps_same.keeps_if
      lamps_same.keeps_map_of lamps_same.keeps_ret lamps_same.keeps_obind lamps_same_upd)

lemma lamps_same_white_daemon: "keeps lamps_same white_light_daemon"
  unfolding white_light_daemon_def ve_cfg_get_def
  by (intro lamps_same.keeps_bind lamps_same.keeps_reads lamps_same.keeps_if
      lamps_same.keeps_map_of lamps_same.keeps_ret)
    (simp_all add: cm_white_light_daemon_def mm_white_light_daemon_def vm_white_light_daemon_def
      lamps_same_run_wlight lamps_same_white)

lemma lm_inv_regst:
  assumes "lm_inv (lm s)"
  shows "lm_inv (lm (exec (light_regst i d) s))"
proof (cases "lm_mutex (lm s) \<or> light_find (lm s) i \<noteq> None")
  case True
  then show ?thesis using assms by (auto simp: light_regst_def)
next
  case False
  then have find: "light_find (lm s) i = None" by simp
  show ?thesis
  proof (cases "get_from_pool (light_po (lm s)) 0")
    case (Pair r po)
    show ?thesis
    proof (cases r)
      case None
      then show ?thesis using False Pair assms by (simp add: light_regst_def)
    next
      case (Some e)
      have pool: "pool_inv 0 LIGHT_ID_END 64 0 (light_po (lm s)) (ent ` set (all_lights (lm s)))"
        using assms by (simp add: lm_inv_def)
      have e: "e \<notin> ent ` set (all_lights (lm s))"
        "pool_inv 0 LIGHT_ID_END 64 0 po (insert e (ent ` set (all_lights (lm s))))"
        using pool.get_Some [OF pool] Pair Some by auto
      have lm': "lm (exec (light_regst i d) s) = (lm s)\<lparr>light_po := po,
          idle_ls := idle_ls (lm s) @ [new_light e i d], lm_mutex := False\<rparr>"
        using False Pair Some by (simp add: light_regst_def)
      show ?thesis
        using assms e find unfolding lm' light_find_None
        by (auto simp: lm_inv_def all_lights_def new_light_def image_Un Un_commute insert_commute)
    qed
  qed
qed

text \<open>
  C14. The lamp manager stays consistent: whatever is called, the idle, steady and flash lists
  together hold every registered lamp exactly once, no two lamps share an id or an entry, and
  the entries they use are exactly the ones the pool has handed out.
\<close>

theorem light_mng_consistent:
  assumes "lm_inv (lm s)"
  shows "lm_inv (lm (exec (light_regst i d) s)) \<and> lm_inv (lm (exec (light_ctrl_put c) s))
    \<and> lm_inv (lm (exec light_ctrl_daemon s)) \<and> lm_inv (lm (exec white_light_daemon s))"
  using assms lm_inv_regst [OF assms] lamps_same_inv [OF keepsD [OF lamps_same_put] assms]
    lamps_same_inv [OF keepsD [OF lamps_same_daemon] assms]
    lamps_same_inv [OF keepsD [OF lamps_same_white_daemon] assms]
  by blast


section \<open>Registration\<close>

lemma light_regst_new:
  assumes "\<not> lm_mutex (lm s)" and "light_find (lm s) i = None"
    and "pfree (light_po (lm s)) = e # fr"
  shows "eval (light_regst i d) s = Some 0"
    and "lm (exec (light_regst i d) s) = (lm s)\<lparr>light_po := (light_po (lm s))\<lparr>pfree := fr,
        nr_free := nr_free (light_po (lm s)) - 1, nr_used := nr_used (light_po (lm s)) + 1\<rparr>,
      idle_ls := idle_ls (lm s) @ [new_light e i d], lm_mutex := False\<rparr>"
  using assms by (simp_all add: light_regst_def get_from_pool_def)

lemma light_find_lids: "light_find m i = None \<longleftrightarrow> i \<notin> set (map lid (all_lights m))"
  by (simp add: light_find_None)

lemma new_light_sel [simp]: "lid (new_light e i d) = i" "opt (new_light e i d) = d"
  "ent (new_light e i d) = e"
  by (simp_all add: new_light_def)

definition booted :: "'z vew_scheme \<Rightarrow> 'z vew_scheme" where
  "booted s = exec board_light_init (exec light_mng_init s)"

lemma lm_light_mng_init:
  "lm (exec light_mng_init s) = (lm s)\<lparr>idle_ls := [], steady_ls := [], flash_ls := [],
     light_po := \<lparr>pfree = [0, 64, 128, 192], nr_free = 4, nr_used = 0, nr_total = 4\<rparr>,
     lm_mutex := False, white := (white (lm s))\<lparr>wl_status := WL_STATUS_OFF\<rparr>\<rparr>"
  by (simp add: light_mng_init_def create_pool_def numeral_eq_Suc)

lemma lm_inv_init: "lm_inv (lm (exec light_mng_init s))"
  using create_pool_inv [of 64 0 LIGHT_ID_END 0]
  by (simp add: light_mng_init_def lm_inv_def all_lights_def)

lemma booted_facts:
  "eval board_light_init (exec light_mng_init s) = Some ()
   \<and> map (\<lambda>l. (lid l, opt l)) (all_lights (lm (booted s)))
      = [(LIGHT_ID_RED, Red_Drv), (LIGHT_ID_BLUE, Blue_Drv), (LIGHT_ID_WHITE, White_Drv),
         (LIGHT_ID_GREEN, Green_Drv)]
   \<and> lm_inv (lm (booted s)) \<and> \<not> lm_mutex (lm (booted s))"
proof -
  have "lm_inv (lm (booted s))"
    unfolding booted_def board_light_init_def
    by (auto intro!: lm_inv_regst lm_inv_init split: option.split)
  moreover
  let ?s0 = "exec light_mng_init s"
  let ?s1 = "exec (light_regst LIGHT_ID_RED Red_Drv) ?s0"
  let ?s2 = "exec (light_regst LIGHT_ID_BLUE Blue_Drv) ?s1"
  let ?s3 = "exec (light_regst LIGHT_ID_WHITE White_Drv) ?s2"
  let ?s4 = "exec (light_regst LIGHT_ID_GREEN Green_Drv) ?s3"
  note find = light_find_lids all_lights_def
  note r1 = light_regst_new [of ?s0 LIGHT_ID_RED 0 "[64, 128, 192]" Red_Drv,
      unfolded lm_light_mng_init find, simplified]
  note r2 = light_regst_new [of ?s1 LIGHT_ID_BLUE 64 "[128, 192]" Blue_Drv,
      unfolded r1 lm_light_mng_init find, simplified]
  note r3 = light_regst_new [of ?s2 LIGHT_ID_WHITE 128 "[192]" White_Drv,
      unfolded r2 lm_light_mng_init find, simplified]
  note r4 = light_regst_new [of ?s3 LIGHT_ID_GREEN 192 "[]" Green_Drv,
      unfolded r3 lm_light_mng_init find, simplified]
  have "eval board_light_init ?s0 = Some ()" "booted s = ?s4"
    by (simp_all add: booted_def board_light_init_def r1(1) r2(1) r3(1) r4(1))
  ultimately show ?thesis by (simp add: r4(2) all_lights_def)
qed

lemma white_regst [simp]: "white (lm (exec (light_regst i d) s)) = white (lm s)"
  by (simp add: light_regst_def split: prod.split option.split)

lemma booted_white: "wl_status (white (lm (booted s))) = WL_STATUS_OFF"
  by (simp add: booted_def board_light_init_def light_mng_init_def split: option.split)

lemma booted_lids: "map lid (all_lights (lm (booted s)))
    = [LIGHT_ID_RED, LIGHT_ID_BLUE, LIGHT_ID_WHITE, LIGHT_ID_GREEN]"
proof -
  have "map fst (map (\<lambda>l. (lid l, opt l)) (all_lights (lm (booted s))))
      = [LIGHT_ID_RED, LIGHT_ID_BLUE, LIGHT_ID_WHITE, LIGHT_ID_GREEN]"
    using booted_facts [of s] by (simp del: map_map)
  then show ?thesis by (simp add: comp_def)
qed

text \<open>
  After start-up all four lamps are registered with their drivers and the manager is
  consistent and unlocked, whatever the state before.
\<close>

theorem board_light_init_registers:
  "eval board_light_init (exec light_mng_init s) = Some ()
   \<and> map (\<lambda>l. (lid l, opt l)) (all_lights (lm (booted s)))
      = [(LIGHT_ID_RED, Red_Drv), (LIGHT_ID_BLUE, Blue_Drv), (LIGHT_ID_WHITE, White_Drv),
         (LIGHT_ID_GREEN, Green_Drv)]
   \<and> lm_inv (lm (booted s)) \<and> \<not> lm_mutex (lm (booted s))"
  by (rule booted_facts)

text \<open>
  C15. A registration that fails leaves the manager locked for ever: after registering an id that
  is already taken, every later registration, control and round of the lamp thread blocks.
\<close>

theorem failed_registration_deadlocks:
  assumes "\<not> lm_mutex (lm s)" and "light_find (lm s) i \<noteq> None"
  shows "eval (light_regst i d) s = Some (- 1)
    \<and> (\<forall>j e c. let s' = exec (light_regst i d) s in
         eval (light_regst j e) s' = None \<and> eval (light_ctrl_put c) s' = None
       \<and> eval light_thread_round s' = None)"
  using assms
  by (auto simp: light_regst_def light_ctrl_put_def light_thread_round_def light_ctrl_daemon_def Let_def)

theorem failed_registration_deadlocks_witness:
  "eval (light_regst LIGHT_ID_RED Red_Drv) (booted idle_vew) = Some (- 1)
   \<and> (\<forall>j e c. let s' = exec (light_regst LIGHT_ID_RED Red_Drv) (booted idle_vew) in
        eval (light_regst j e) s' = None \<and> eval (light_ctrl_put c) s' = None
      \<and> eval light_thread_round s' = None)"
proof (rule failed_registration_deadlocks)
  show "\<not> lm_mutex (lm (booted idle_vew))" "light_find (lm (booted idle_vew)) LIGHT_ID_RED \<noteq> None"
    using booted_facts [of idle_vew] booted_lids [of idle_vew] by (simp_all add: light_find_lids del: set_map)
qed

theorem light_mng_consistent_witness:
  "lm_inv (lm (exec (light_ctrl_put (white_ctrl True)) (booted idle_vew)))
   \<and> lm_inv (lm (exec light_ctrl_daemon (booted idle_vew)))"
  using light_mng_consistent [of "booted idle_vew"] booted_facts [of idle_vew] by blast

section \<open>The white lamp follows day and night\<close>

definition registered :: "light_mng \<Rightarrow> u8 \<Rightarrow> bool" where
  "registered m i \<longleftrightarrow> i \<in> lid ` set (all_lights m)"

lemma registered_find: "registered m i \<Longrightarrow> \<exists>l. light_find m i = Some l \<and> lid l = i"
  using light_find_None [of m i] light_find_Some [of m i] by (auto simp: registered_def)

lemma registered_bright [simp]: "registered (m\<lparr>prev_bright := b\<rparr>) i = registered m i"
  by (simp add: registered_def all_lights_def)

lemma white_put:
  "ctrl_put_loop (white_ctrl on) [0..<LIGHT_ID_END] = do {
     r \<leftarrow> light_ctrl_put_id LIGHT_ID_WHITE \<lparr>li_value = if on then 255 else 0, li_intv = 0\<rparr>;
     ret (if r \<noteq> 0 then - 1 else 0) }"
proof -
  have "[0..<LIGHT_ID_END] = [0, 1, 2, 3]" by (simp add: numeral_eq_Suc)
  then show ?thesis
    by (simp add: white_ctrl_def bit_simps Let_def if_distrib [of ret] cong: if_cong)
qed

lemma white_light_set_free:
  assumes "\<not> lm_mutex (lm s)"
  shows "eval (white_light_set on) s = Some ()"
    and "lm (exec (white_light_set on) s) =
      (case light_find (lm s) LIGHT_ID_WHITE of None \<Rightarrow> lm s
       | Some l \<Rightarrow> to_steady (l\<lparr>linfo := \<lparr>li_value = if on then 255 else 0, li_intv = 0\<rparr>\<rparr>) (lm s))"
  using assms
  by (simp_all add: white_light_set_def light_ctrl_put_def white_put light_ctrl_put_id_def
      to_steady_def unlink_def Let_def split: option.split)

text \<open>The white lamp is commanded: the next round of the lamp thread drives it with this value.\<close>

definition commanded :: "light_mng \<Rightarrow> bool \<Rightarrow> bool" where
  "commanded m on \<longleftrightarrow> steady_ls m \<noteq> [] \<and> lid (last (steady_ls m)) = LIGHT_ID_WHITE
     \<and> linfo (last (steady_ls m)) = \<lparr>li_value = if on then 255 else 0, li_intv = 0\<rparr>"

lemma commanded_white [simp]: "commanded (m\<lparr>white := w\<rparr>) on = commanded m on"
  by (simp add: commanded_def)

lemma white_set_commands:
  assumes "\<not> lm_mutex (lm s)" and "registered (lm s) LIGHT_ID_WHITE"
  shows "commanded (lm (exec (white_light_set on) s)) on"
  using assms registered_find [OF assms(2)]
  by (auto simp: white_light_set_free(2) commanded_def to_steady_def Let_def)

lemma white_set_keeps:
  assumes "\<not> lm_mutex (lm s)"
  shows "lm_mutex (lm (exec (white_light_set on) s)) = False"
    and "white (lm (exec (white_light_set on) s)) = white (lm s)"
    and "registered (lm s) LIGHT_ID_WHITE \<Longrightarrow> registered (lm (exec (white_light_set on) s)) LIGHT_ID_WHITE"
  using assms registered_find [of "lm s" LIGHT_ID_WHITE]
  by (auto simp: white_light_set_free(2) to_steady_def unlink_def Let_def
      registered_def all_lights_def split: option.split)

lemma lm_isdaytime [simp]: "lm (exec isdaytime s) = lm s"
  by (simp add: isdaytime_def)

lemma white_light_night_result:
  assumes "\<not> lm_mutex (lm s)" and "wl_status (white (lm s)) \<in> {WL_STATUS_OFF, WL_STATUS_ON}"
    and "registered (lm s) LIGHT_ID_WHITE"
  shows "eval white_light_night s
      = Some (if eval isdaytime s then WL_STATUS_OFF else WL_STATUS_ON)"
    and "wl_status (white (lm (exec white_light_night s))) = wl_status (white (lm s))"
    and "eval white_light_night s \<noteq> Some (wl_status (white (lm s)))
      \<Longrightarrow> commanded (lm (exec white_light_night s)) (\<not> eval isdaytime s)"
  using assms
  by (auto simp: white_light_night_def ve_cfg_get_def white_light_set_free(1) white_set_keeps
      white_set_commands split: option.split)

text \<open>
  In the night mode the white lamp follows day and night in every detection mode: after a
  round of its daemon its status is on exactly when it is night, and when that is a change the
  lamp is commanded accordingly.
\<close>

theorem white_lamp_follows_night:
  assumes "\<not> lm_mutex (lm s)" and "wl_status (white (lm s)) \<in> {WL_STATUS_OFF, WL_STATUS_ON}"
    and "registered (lm s) LIGHT_ID_WHITE"
    and "white_mode (light_cfg (cfg s)) = WLIGHT_MODE_NIGHT_ON"
    and "detect_mode (cfg s) \<in> {DETECT_MODE_VIDEO, DETECT_MODE_COIL, DETECT_MODE_MIX}"
  shows "eval white_light_daemon s = Some ()
    \<and> wl_status (white (lm (exec white_light_daemon s)))
        = (if eval isdaytime s then WL_STATUS_OFF else WL_STATUS_ON)
    \<and> (wl_status (white (lm (exec white_light_daemon s))) \<noteq> wl_status (white (lm s))
        \<longrightarrow> commanded (lm (exec white_light_daemon s)) (\<not> eval isdaytime s))"
proof -
  note r = white_light_night_result [OF assms(1-3)]
  have d: "eval white_light_daemon s = eval (run_wlight [(WLIGHT_MODE_NIGHT_ON, white_light_night)]) s
    \<and> exec white_light_daemon s = exec (run_wlight [(WLIGHT_MODE_NIGHT_ON, white_light_night)]) s"
    using assms(4,5)
    by (auto simp: white_light_daemon_def cm_white_light_daemon_def mm_white_light_daemon_def
        vm_white_light_daemon_def run_wlight_def ve_cfg_get_def)
  show ?thesis
    using r assms(2,4) unfolding d [THEN conjunct1] d [THEN conjunct2]
    by (cases "eval isdaytime s")
      (auto simp: run_wlight_def ve_cfg_get_def white_light_update_status_def upd_white_def)
qed

theorem white_lamp_follows_night_witness:
  "let s = idle_vew\<lparr>lm := lm (booted idle_vew)\<rparr> in
     eval white_light_daemon s = Some () \<and> \<not> eval isdaytime s
   \<and> wl_status (white (lm (exec white_light_daemon s))) = WL_STATUS_ON"
proof -
  let ?s = "idle_vew\<lparr>lm := lm (booted idle_vew)\<rparr>"
  have "registered (lm ?s) LIGHT_ID_WHITE"
    using booted_lids [of idle_vew] by (simp add: registered_def del: set_map flip: set_map)
  moreover have "wl_status (white (lm ?s)) \<in> {WL_STATUS_OFF, WL_STATUS_ON}"
    using booted_white [of idle_vew] by simp
  moreover have "\<not> eval isdaytime ?s" by (simp add: isdaytime_def idle_vew_def)
  ultimately show ?thesis
    using white_lamp_follows_night [of ?s] booted_facts [of idle_vew]
    by (simp add: idle_vew_def Let_def)
qed

section \<open>Driver and timing faults\<close>

text \<open>
  The blue lamp's driver passes its brightness on as a bit: every value but 1 writes the same
  register as \<open>off\<close> does, so a lamp commanded with 255 stays as dark as with 0.
\<close>

theorem blue_lamp_only_value_one:
  assumes "v \<noteq> 1"
  shows "exec (port_blue_light_set v) w = exec (port_blue_light_set 0) w"
proof -
  have "uint v \<noteq> 1" using assms by (metis uint_1 word_uint_eq_iff)
  then show ?thesis
    by (simp add: port_blue_light_set_def exec_pcf8574_set_bit pcf_newval_def eval_pcf8574_set_bit)
qed

theorem blue_lamp_only_value_one_witness:
  "exec (port_blue_light_set 255) idle_world = exec (port_blue_light_set 0) idle_world"
  by (rule blue_lamp_only_value_one) simp

text \<open>
  A flashing lamp toggles too early: the borrow of \<open>timespec_sub\<close> makes the elapsed time of
  up to two seconds negative or zero, which the daemon takes for a clock that was set back, so
  the lamp toggles whenever the nanoseconds of the clock have wrapped, whatever its interval.
\<close>

theorem flash_toggles_early:
  assumes "timespec_ok now" and "timespec_ok (prev_tm l)" and "ts_nsec now < ts_nsec (prev_tm l)"
    and "ts_sec (prev_tm l) \<le> ts_sec now" and "ts_sec now \<le> ts_sec (prev_tm l) + 2"
  shows "flash_due now l"
proof -
  let ?d = "ts_sec now - ts_sec (prev_tm l)" and ?n = "ts_nsec now - ts_nsec (prev_tm l) - 1000000000"
  have sub: "timespec_sub now (prev_tm l) = \<lparr>ts_sec = ?d - 1, ts_nsec = ?n\<rparr>"
    using timespec_sub_borrow [OF assms(1-3)] by simp
  have n: "- 2000000000 < ?n" "?n < - 1000000000"
    using assms by (auto simp: timespec_ok_def)
  then have div: "?n sdiv 1000000 = - ((- ?n) div 1000000)"
    by (simp add: signed_divide_int_def sgn_if)
  have "1000 \<le> (- ?n) div 1000000" "(- ?n) div 1000000 < 2000"
    using n zdiv_mono1 [of 1000000000 "- ?n" 1000000] zdiv_mono1 [of "- ?n" 1999999999 1000000]
    by simp_all
  with div have q: "- 2000 < ?n sdiv 1000000" "?n sdiv 1000000 \<le> - 1000" by linarith+
  have "s32 ((?d - 1) * 1000) = (?d - 1) * 1000" using assms(4,5) by (intro s32_id) simp_all
  moreover have "s32 ((?d - 1) * 1000 + ?n sdiv 1000000) = (?d - 1) * 1000 + ?n sdiv 1000000"
    using assms(4,5) q by (intro s32_id) (simp_all add: algebra_simps)
  ultimately have "timespec_diff_msec now (prev_tm l) = (?d - 1) * 1000 + ?n sdiv 1000000"
    by (simp add: timespec_diff_msec_def sub)
  with assms(5) q show ?thesis by (simp add: flash_due_def Let_def)
qed

theorem flash_toggles_early_witness:
  "let l = (new_light 0 LIGHT_ID_RED Red_Drv)
       \<lparr>linfo := \<lparr>li_value = 255, li_intv = 200\<rparr>, prev_tm := \<lparr>ts_sec = 7, ts_nsec = 999999999\<rparr>\<rparr>
   in flash_due \<lparr>ts_sec = 8, ts_nsec = 0\<rparr> l"
  unfolding Let_def
  by (rule flash_toggles_early) (simp_all add: timespec_ok_def)

end
