(* ===== verification/Device.thy ===== *)
theory Device
  imports Roadgate Light_Correct
begin

text \<open>
  The device as a transition system. A step is one pass of a thread's loop (the gate, the lamps,
  the two coil detection threads of either mode), the arrival of a control or of a lamp command,
  a change of day and night, or a change of the configuration; the threads' passes follow one
  another in any order. The theory proves what holds in every reachable state and, for the gate
  daemon, what the contracts of the machines mean under every valid configuration.
\<close>

section \<open>Steps\<close>

inductive dstep :: "'z vew_scheme \<Rightarrow> 'z vew_scheme \<Rightarrow> bool" where
  gate: "eval roadgate_thread_round s = Inr v \<Longrightarrow> dstep s (exec roadgate_thread_round s)"
| control: "dstep s (exec (roadgate_new_ctrl c) s)"
| lamps: "eval light_thread_round s = Some () \<Longrightarrow> dstep s (exec light_thread_round s)"
| lamp_ctrl: "eval (light_ctrl_put lc) s = Some r \<Longrightarrow> dstep s (exec (light_ctrl_put lc) s)"
| daynight: "dstep s (exec (daynight_set d) s)"
| coil_detect: "coil_started s \<Longrightarrow> dstep s (exec detect_coil_thread s)"
| coil_safe: "coil_started s \<Longrightarrow> dstep s (exec safe_coil_thread s)"
| mix_detect: "mix_started s \<Longrightarrow> dstep s (exec mix_detect_coil_thread s)"
| mix_safe: "mix_started s \<Longrightarrow> dstep s (exec mix_safe_coil_thread s)"

inductive vstep :: "'z vew_scheme \<Rightarrow> 'z vew_scheme \<Rightarrow> bool" where
  run: "dstep s s' \<Longrightarrow> vstep s s'"
| configure: "vstep s (exec (ve_cfg_set c) s)"

definition boot :: "'z vew_scheme \<Rightarrow> 'z vew_scheme" where
  "boot s = exec roadgate_thread_init (booted s)"

text \<open>What is reachable with a fixed configuration, and with configuration changes.\<close>

definition reaches :: "'z vew_scheme \<Rightarrow> 'z vew_scheme \<Rightarrow> bool" where
  "reaches s s' \<longleftrightarrow> dstep\<^sup>*\<^sup>* (boot s) s'"

definition reaches_any_cfg :: "'z vew_scheme \<Rightarrow> 'z vew_scheme \<Rightarrow> bool" where
  "reaches_any_cfg s s' \<longleftrightarrow> vstep\<^sup>*\<^sup>* (boot s) s'"

section \<open>The down line\<close>

lemma dn_safe_round: "keeps dn_safe roadgate_thread_round"
proof (rule keepsI)
  fix s :: "'a vew_scheme"
  have "dn_safe s (exec roadgate_daemon s)" by (rule keepsD [OF dn_daemon.keeps_roadgate_daemon])
  then show "dn_safe s (exec roadgate_thread_round s)"
    by (simp add: roadgate_thread_round_def dn_safe_def split: sum.split)
qed

lemma dn_safe_dstep: "dstep s s' \<Longrightarrow> dn_safe s s'"
proof (induction rule: dstep.induct)
  case (gate s v)
  show ?case by (rule keepsD [OF dn_safe_round])
next
  case (lamps s)
  show ?case using keepsD [OF gate_kept_thread_round, of s] by (simp add: gate_kept_def)
next
  case (lamp_ctrl lc s r)
  show ?case using keepsD [OF gate_kept_ctrl(1), of s lc] by (simp add: gate_kept_def)
next
  case (coil_detect s)
  show ?case using keepsD [OF only_queues_threads(1), of s] by (simp add: only_queues_def)
next
  case (coil_safe s)
  show ?case using keepsD [OF only_queues_threads(2), of s] by (simp add: only_queues_def)
next
  case (mix_detect s)
  show ?case using keepsD [OF only_queues_threads(3), of s] by (simp add: only_queues_def)
next
  case (mix_safe s)
  show ?case using keepsD [OF only_queues_threads(4), of s] by (simp add: only_queues_def)
qed (simp_all add: dn_safe_def roadgate_new_ctrl_def upd_rg_def daynight_set_def)

lemma dn_safe_vstep: "vstep s s' \<Longrightarrow> dn_safe s s'"
  by (induction rule: vstep.induct) (auto dest: dn_safe_dstep simp: dn_safe_def ve_cfg_set_def)

lemma io_booted: "io (booted s) = io s"
proof -
  have r: "io (exec (light_regst i d) s) = io s" for i d and s :: "'a vew_scheme"
    by (simp add: light_regst_def lm_lock_def lm_unlock_def upd_lm_def split: prod.split option.split)
  then show ?thesis
    by (simp add: booted_def board_light_init_def light_mng_init_def upd_lm_def split: option.split)
qed

lemma dn_guarded_boot: "dn_guarded (io s) \<Longrightarrow> dn_guarded (io (boot s))"
proof -
  assume "dn_guarded (io s)"
  then have "dn_guarded (io (exec roadgate_ram_init (booted s)))"
    by (simp add: io_booted roadgate_ram_init_def upd_rg_def)
  then show ?thesis
    using keepsD [OF dn_safe_signals(4), of "exec roadgate_ram_init (booted s)"]
    by (simp add: boot_def roadgate_thread_init_def dn_safe_def)
qed

text \<open>
  C1. The bar is never driven onto a vehicle by a blind command: in every state the device can
  reach, under any interleaving of its threads, controls and configuration changes, each time the
  down line has fallen the debounced reading of the safe coil immediately before it had found the
  coil free.
\<close>

theorem down_line_falls_only_over_free_safe_coil:
  assumes "reaches_any_cfg s s'" and "io s = []"
  shows "dn_guarded (io s')"
proof -
  have "dn_safe (boot s) s'"
    using assms(1) unfolding reaches_any_cfg_def
    by (induction rule: rtranclp_induct) (auto simp: dn_safe_def dest!: dn_safe_vstep)
  moreover have "dn_guarded (io (boot s))" by (rule dn_guarded_boot) (simp add: assms(2))
  ultimately show ?thesis by (simp add: dn_safe_def)
qed

theorem down_line_falls_only_over_free_safe_coil_witness:
  "dn_guarded (io (exec (roadgate_new_ctrl lo_up_ctrl) (boot idle_vew)))"
proof (rule down_line_falls_only_over_free_safe_coil [of idle_vew])
  show "reaches_any_cfg idle_vew (exec (roadgate_new_ctrl lo_up_ctrl) (boot idle_vew))"
    unfolding reaches_any_cfg_def by (intro r_into_rtranclp vstep.run dstep.control)
qed (simp add: idle_vew_def)

lemma set_bit_ok:
  assumes "i2c_ok s"
  shows "pcf (exec (pcf8574_set_bit b v) s) = pcf_newval (pcf s) b v"
    and "io (exec (pcf8574_set_bit b v) s) = PcfWrite (pcf s) (pcf_newval (pcf s) b v) # io s"
  using assms by (simp_all add: exec_pcf8574_set_bit i2c_ok_def)

text \<open>
  C9. The guarded down command does its work exactly when it may: over a free safe coil, with the
  bus working, it releases the up line and gives one pulse on the down line; over an occupied coil
  it writes nothing at all.
\<close>

theorem guarded_down_command:
  assumes "i2c_ok s" and "bit (pcf s) RG_DN_BIT"
  shows "if eval rg_read_safe_coil s = 1
    then bit (pcf (exec rg_down_s s)) RG_UP_BIT \<and> bit (pcf (exec rg_down_s s)) RG_DN_BIT
      \<and> (\<exists>old new up_old up_new h. io (exec rg_down_s s)
           = PcfWrite new old # Usleep 100000 # PcfWrite old new # PcfWrite up_old up_new # h
         \<and> dn_falls old new)
    else pcf (exec rg_down_s s) = pcf s
      \<and> filter is_pcf_write (io (exec rg_down_s s)) = filter is_pcf_write (io s)"
proof -
  let ?s1 = "exec rg_read_safe_coil s"
  let ?old = "pcf_newval (pcf s) RG_UP_BIT 1"
  let ?new = "pcf_newval ?old RG_DN_BIT 0"
  have ok: "i2c_ok ?s1" using assms(1) by simp
  have p: "pcf (exec rg_clr_up_signal ?s1) = ?old"
    "io (exec rg_clr_up_signal ?s1) = PcfWrite (pcf s) ?old # io ?s1"
    using ok by (simp_all add: rg_clr_up_signal_def set_bit_ok)
  have "pcf_newval ?new RG_DN_BIT 1 = ?old"
    using assms(2) by (intro bit_eqI) (simp add: bit_pcf_newval)
  then have u: "io (exec rg_down (exec rg_clr_up_signal ?s1)) = PcfWrite ?new ?old # Usleep 100000
      # PcfWrite ?old ?new # PcfWrite (pcf s) ?old # io ?s1"
    "pcf (exec rg_down (exec rg_clr_up_signal ?s1)) = ?old"
    using ok p by (simp_all add: rg_down_def set_bit_ok)
  have falls: "dn_falls ?old ?new" using assms(2) by (simp add: dn_falls_def bit_pcf_newval)
  have "filter is_pcf_write (samples s SAFE_COIL_GPIO 1 (tick s) 5) = []"
    using samples_no_write [of s SAFE_COIL_GPIO 1 "tick s" 5] by (simp add: list_all_iff filter_empty_conv)
  then show ?thesis
    using u falls assms(2)
    by (auto simp: rg_down_s_def io_read_safe_coil bit_pcf_newval)
qed

theorem guarded_down_command_witness:
  "bit (pcf (exec rg_down_s idle_world)) RG_UP_BIT \<and> bit (pcf (exec rg_down_s idle_world)) RG_DN_BIT"
proof -
  have "highs idle_world SAFE_COIL_GPIO (tick idle_world) 5 = 5"
    by (simp add: highs_def gpio_high_def idle_world_def)
  then have "eval rg_read_safe_coil idle_world = 1" by (simp add: safe_coil_free)
  moreover have "i2c_ok idle_world" "bit (pcf idle_world) RG_DN_BIT"
    by (simp_all add: i2c_ok_def idle_world_def bit_numeral_simps)
  ultimately show ?thesis using guarded_down_command [of idle_world] by simp
qed

section \<open>No null handler while the configuration stays\<close>

definition gate_inv :: "'z vew_scheme \<Rightarrow> bool" where
  "gate_inv s \<longleftrightarrow> cfg_ok (cfg s) \<and> mach_inv (statuses_of (cfg s)) s"

lemma daemon_machine:
  assumes "cfg_ok (cfg s)"
  obtains m where "rg_machine m (statuses_of (cfg s))"
    and "eval roadgate_daemon s = (case eval m (threads_started s) of Inl f \<Rightarrow> Inl f | Inr _ \<Rightarrow> Inr 0)"
    and "exec roadgate_daemon s = exec m (threads_started s)"
  using selected_machine [OF assms] daemon_runs [OF assms] by metis

lemma cfg_daemon [simp]: "cfg (exec roadgate_daemon s) = cfg s"
  using keepsD [OF env_daemon.keeps_roadgate_daemon, of s] by (simp add: same_env_def)

lemma gate_inv_daemon:
  assumes "gate_inv s"
  shows "eval roadgate_daemon s = Inr 0" and "gate_inv (exec roadgate_daemon s)"
proof -
  obtain m where m: "rg_machine m (statuses_of (cfg s))"
    "eval roadgate_daemon s = (case eval m (threads_started s) of Inl f \<Rightarrow> Inl f | Inr _ \<Rightarrow> Inr 0)"
    "exec roadgate_daemon s = exec m (threads_started s)"
    using daemon_machine assms unfolding gate_inv_def by blast
  have inv: "mach_inv (statuses_of (cfg s)) (threads_started s)"
    using assms by (simp add: gate_inv_def)
  show "eval roadgate_daemon s = Inr 0"
    using rg_machine.step_no_fault [OF m(1) inv] m(2) by simp
  show "gate_inv (exec roadgate_daemon s)"
    using rg_machine.step_inv [OF m(1) inv] assms by (simp add: gate_inv_def flip: m(3))
qed

lemma gate_inv_frame: "gate_inv s \<Longrightarrow> cfg s' = cfg s \<Longrightarrow> status (rg s') = status (rg s)
    \<Longrightarrow> prev_status (rg s') = prev_status (rg s) \<Longrightarrow> gate_inv s'"
  by (simp add: gate_inv_def mach_inv_def)

lemma gate_inv_kept: "gate_kept s s' \<Longrightarrow> gate_inv s \<Longrightarrow> gate_inv s'"
  by (rule gate_inv_frame) (simp_all add: gate_kept_def same_env_def)

lemma gate_inv_queues: "only_queues s s' \<Longrightarrow> gate_inv s \<Longrightarrow> gate_inv s'"
  by (auto simp: gate_inv_def mach_inv_def only_queues_def same_env_def)

lemma gate_inv_dstep: "dstep s s' \<Longrightarrow> gate_inv s \<Longrightarrow> gate_inv s' \<and> cfg s' = cfg s"
proof (induction rule: dstep.induct)
  case (gate s v)
  have "gate_inv (exec (usleep 1000) (exec roadgate_daemon s))"
    by (rule gate_inv_frame [OF gate_inv_daemon(2) [OF gate(2)]]) (simp_all add: usleep_def emit_def)
  then show ?case
    using gate_inv_daemon(1) [OF gate(2)] by (simp add: roadgate_thread_round_def usleep_def emit_def)
next
  case (lamps s)
  then show ?case using keepsD [OF gate_kept_thread_round, of s] gate_inv_kept
    by (auto simp: gate_kept_def same_env_def)
next
  case (lamp_ctrl lc s r)
  then show ?case using keepsD [OF gate_kept_ctrl(1), of s lc] gate_inv_kept
    by (auto simp: gate_kept_def same_env_def)
next
  case (coil_detect s)
  then show ?case using keepsD [OF only_queues_threads(1), of s] gate_inv_queues
    by (auto simp: only_queues_def same_env_def)
next
  case (coil_safe s)
  then show ?case using keepsD [OF only_queues_threads(2), of s] gate_inv_queues
    by (auto simp: only_queues_def same_env_def)
next
  case (mix_detect s)
  then show ?case using keepsD [OF only_queues_threads(3), of s] gate_inv_queues
    by (auto simp: only_queues_def same_env_def)
next
  case (mix_safe s)
  then show ?case using keepsD [OF only_queues_threads(4), of s] gate_inv_queues
    by (auto simp: only_queues_def same_env_def)
qed (simp_all add: roadgate_new_ctrl_def upd_rg_def daynight_set_def gate_inv_def mach_inv_def)

lemma zero_status: "STATUS_IDLE \<in> statuses_of c"
  by (simp add: statuses_of_def lo_wait_statuses_def lo_statuses_def center_statuses_def)

lemma boot_frame: "cfg (boot s) = cfg s" "status (rg (boot s)) = 0"
  "prev_status (rg (boot s)) = prev_status (rg s)"
proof -
  have r: "cfg (exec (light_regst i d) s) = cfg s \<and> rg (exec (light_regst i d) s) = rg s"
    for i d and s :: "'a vew_scheme"
    using keepsD [OF gate_kept_ctrl(3), of s i d] by (simp add: gate_kept_def same_env_def)
  have b: "cfg (booted s) = cfg s" "rg (booted s) = rg s"
    by (simp_all add: booted_def board_light_init_def light_mng_init_def upd_lm_def r split: option.split)
  have "same_env t (exec rg_dev_init t)" for t :: "'a vew_scheme"
    by (rule keepsD [OF same_env_ports(5)])
  then have "cfg (exec rg_dev_init t) = cfg t" for t :: "'a vew_scheme"
    by (simp add: same_env_def)
  then show "cfg (boot s) = cfg s" "status (rg (boot s)) = 0" "prev_status (rg (boot s)) = prev_status (rg s)"
    using b by (simp_all add: boot_def roadgate_thread_init_def roadgate_ram_init_def upd_rg_def)
qed

lemma gate_inv_reaches:
  assumes "reaches s s'" and "cfg_ok (cfg s)" and "prev_status (rg s) = 0"
  shows "gate_inv s'"
proof -
  have "gate_inv (boot s)"
    using assms(2,3) zero_status [of "cfg s"] by (simp add: gate_inv_def mach_inv_def boot_frame)
  with assms(1) show ?thesis
    unfolding reaches_def by (induction rule: rtranclp_induct) (auto dest: gate_inv_dstep)
qed

text \<open>
  C2. While the configuration stays, the gate daemon never fails: in every state reachable from
  start-up under a valid configuration, whichever of the 24 machines it selects, whatever controls
  arrive and however the threads interleave, the daemon finds a handler for its status, returns 0
  and leaves a status of the machine.
\<close>

theorem gate_daemon_never_fails:
  assumes "reaches s s'" and "cfg_ok (cfg s)" and "prev_status (rg s) = 0"
  shows "eval roadgate_daemon s' = Inr 0
    \<and> uint (status (rg (exec roadgate_daemon s'))) \<in> statuses_of (cfg s')"
  using gate_inv_daemon [OF gate_inv_reaches [OF assms]] by (simp add: gate_inv_def mach_inv_def)

theorem gate_daemon_never_fails_witness:
  "eval roadgate_daemon (boot idle_vew) = Inr 0"
  using gate_daemon_never_fails [of idle_vew "boot idle_vew"]
  by (simp add: reaches_def cfg_ok_def idle_vew_def word_less_def)

text \<open>
  C12. The daemon calls a null handler exactly when the status is one the selected machine does not
  know. Nothing resets the status when the configuration changes, so switching a gate that is open
  for the local controller, or normally closed with a vehicle waiting, to a mode without that status
  makes the daemon call through a null pointer.
\<close>

theorem gate_daemon_null_handler:
  assumes "cfg_ok (cfg s)" and "uint (status (rg s)) < STATUS_END"
    and "uint (prev_status (rg s)) \<in> statuses_of (cfg s)"
  shows "eval roadgate_daemon s = Inl NullHandler \<longleftrightarrow> uint (status (rg s)) \<notin> statuses_of (cfg s)"
proof -
  obtain m where m: "rg_machine m (statuses_of (cfg s))"
    "eval roadgate_daemon s = (case eval m (threads_started s) of Inl f \<Rightarrow> Inl f | Inr _ \<Rightarrow> Inr 0)"
    using daemon_machine [OF assms(1)] by blast
  show ?thesis
  proof (cases "uint (status (rg s)) \<in> statuses_of (cfg s)")
    case True
    then show ?thesis using gate_inv_daemon(1) [of s] assms by (simp add: gate_inv_def mach_inv_def)
  next
    case False
    then show ?thesis using rg_machine.step_null [OF m(1), of "threads_started s"] m(2) assms(2) by simp
  qed
qed

theorem gate_daemon_null_handler_witness:
  "let s = idle_vew\<lparr>rg := (rg idle_vew)\<lparr>status := 10\<rparr>\<rparr>;
       s' = exec (ve_cfg_set ((cfg s)\<lparr>rg_mode := ROAD_GATE_CTRL_BACKGROUND\<rparr>)) s
   in eval roadgate_daemon s' = Inl NullHandler"
proof -
  let ?s = "idle_vew\<lparr>rg := (rg idle_vew)\<lparr>status := 10\<rparr>\<rparr>"
  let ?s' = "exec (ve_cfg_set ((cfg ?s)\<lparr>rg_mode := ROAD_GATE_CTRL_BACKGROUND\<rparr>)) ?s"
  have "eval roadgate_daemon ?s' = Inl NullHandler \<longleftrightarrow> uint (status (rg ?s')) \<notin> statuses_of (cfg ?s')"
    by (rule gate_daemon_null_handler)
      (simp_all add: idle_vew_def ve_cfg_set_def cfg_ok_def word_less_def zero_status)
  moreover have "uint (status (rg ?s')) \<notin> statuses_of (cfg ?s')"
    by (simp add: idle_vew_def ve_cfg_set_def statuses_of_def center_statuses_def)
  ultimately show ?thesis by (simp add: Let_def)
qed

end
