(* ===== verification/Gate_Behaviour.thy ===== *)
theory Gate_Behaviour
  imports Device
begin

text \<open>
  How the gate behaves under any valid configuration: the contract of the machines, read off at
  the daemon. The hypothesis \<open>gate_inv\<close> holds in every state reachable while the configuration
  stays (lemma \<open>gate_inv_reaches\<close>).
\<close>

lemma gate_machine:
  assumes "gate_inv s"
  obtains m where "rg_machine m (statuses_of (cfg s))"
    and "mach_inv (statuses_of (cfg s)) (threads_started s)"
    and "exec roadgate_daemon s = exec m (threads_started s)"
  using assms daemon_machine [of s] by (auto simp: gate_inv_def)

text \<open>A quiet state for the concrete instances: idle inputs and a clock that stands at 100 s.\<close>

definition quiet_vew :: "u8 \<Rightarrow> rg_ctrl_t list \<Rightarrow> vew" where
  "quiet_vew st cs = idle_vew\<lparr>env_clock := (\<lambda>t. \<lparr>tv_sec = 100, tv_usec = 0\<rparr>),
     rg := (rg idle_vew)\<lparr>status := st, ctrl_ls := cs\<rparr>\<rparr>"

definition manual_ctrl :: "u8 \<Rightarrow> rg_ctrl_t" where
  "manual_ctrl a = \<lparr>ctrler = RG_CTRLER_CENTER, ctype = RG_CTRL_MANUAL, action = a, timeout = 5000\<rparr>"

lemma quiet_vew_sel [simp]: "rg (quiet_vew st cs) = (rg idle_vew)\<lparr>status := st, ctrl_ls := cs\<rparr>"
  "cfg (quiet_vew st cs) = cfg idle_vew" "prev_status (rg idle_vew) = 0"
  by (simp_all add: quiet_vew_def idle_vew_def)

lemma quiet_quiet_vew: "quiet (quiet_vew st cs)"
  by (simp add: quiet_def quiet_vew_def idle_vew_def gpio_high_def overtime_def timersub_def s32_def
      signed_take_bit_int_eq_self)

lemma i2c_ok_quiet_vew: "i2c_ok (quiet_vew st cs)"
  by (simp add: i2c_ok_def quiet_vew_def idle_vew_def)

lemma gate_inv_quiet_vew: "uint st \<in> lo_wait_statuses \<Longrightarrow> gate_inv (quiet_vew st cs)"
  using zero_status [of "cfg idle_vew"]
  by (simp add: gate_inv_def mach_inv_def cfg_ok_def statuses_of_def idle_vew_def word_less_def)

lemma head_quiet_vew: "head_manual a (quiet_vew st (manual_ctrl a # cs))"
  "head_local (quiet_vew st (lo_up_ctrl # cs))"
  by (simp_all add: head_manual_def manual_def manual_ctrl_def head_local_def lo_up_ctrl_def)

lemmas quiet_vew_facts = quiet_quiet_vew i2c_ok_quiet_vew gate_inv_quiet_vew head_quiet_vew
  lo_wait_statuses_def

section \<open>Controls are served\<close>

lemma gate_inv_n: "gate_inv s \<Longrightarrow> gate_inv (exec_n n roadgate_daemon s)"
  by (induction n arbitrary: s) (auto intro: gate_inv_daemon)

lemma daemon_queue:
  "gate_inv s \<Longrightarrow> queue_ok (uint (status (rg s))) s (exec roadgate_daemon s)"
  by (erule gate_machine) (drule (1) rg_machine.step_queue, simp add: queue_ok_def)

lemma daemon_waiting_ends:
  "gate_inv s \<Longrightarrow> uint (status (rg s)) \<notin> draining \<Longrightarrow> quiet s
    \<Longrightarrow> uint (status (rg (exec roadgate_daemon s))) \<in> draining"
  by (erule gate_machine) (drule (1) rg_machine.waiting_ends, simp_all)

text \<open>
  C3. A queued control is served: once the timeout of the current control has passed and the
  detection coil is free, the daemon takes the control at the head of the queue in its first or its
  second pass, and no other one.
\<close>

theorem queued_control_is_served:
  assumes "gate_inv s" and "quiet s"
  shows "\<exists>n \<in> {1, 2}. ctrl_ls (rg (exec_n n roadgate_daemon s)) = tl (ctrl_ls (rg s))"
proof (cases "ctrl_ls (rg (exec roadgate_daemon s)) = tl (ctrl_ls (rg s))")
  case False
  then have "uint (status (rg s)) \<notin> draining"
    and same: "ctrl_ls (rg (exec roadgate_daemon s)) = ctrl_ls (rg s)"
    using daemon_queue [OF assms(1)] by (auto simp: queue_ok_def)
  from daemon_waiting_ends [OF assms(1) this(1) assms(2)]
  have "ctrl_ls (rg (exec roadgate_daemon (exec roadgate_daemon s))) = tl (ctrl_ls (rg s))"
    using daemon_queue [OF gate_inv_daemon(2) [OF assms(1)]] same by (simp add: queue_ok_def)
  then show ?thesis by (simp add: numeral_2_eq_2)
qed simp

theorem queued_control_is_served_witness:
  "\<exists>n \<in> {1, 2}. ctrl_ls (rg (exec_n n roadgate_daemon
     (quiet_vew 1 [manual_ctrl RG_ACTION_DN, lo_up_ctrl]))) = [lo_up_ctrl]"
  using queued_control_is_served [OF gate_inv_quiet_vew quiet_quiet_vew,
      of 1 "[manual_ctrl RG_ACTION_DN, lo_up_ctrl]"]
  by (simp add: lo_wait_statuses_def)

text \<open>
  The history of the gate's queue along a run: \<open>q\<close> are the controls put into the queue since the
  start in the order of their arrival (the control of each \<open>roadgate_new_ctrl\<close>, and as many of the
  local controller's raises as a pass of a detection thread lengthens the queue by), \<open>t\<close> the
  controls taken (as many from the front of the queue as a pass of the gate shortens it by). All
  other steps, and the changes of the configuration, leave the history alone.
\<close>

definition taken :: "'z vew_scheme \<Rightarrow> 'z vew_scheme \<Rightarrow> rg_ctrl_t list" where
  "taken s s' = take (length (ctrl_ls (rg s)) - length (ctrl_ls (rg s'))) (ctrl_ls (rg s))"

definition raised :: "'z vew_scheme \<Rightarrow> 'z vew_scheme \<Rightarrow> rg_ctrl_t list" where
  "raised s s' = replicate (length (ctrl_ls (rg s')) - length (ctrl_ls (rg s))) lo_up_ctrl"

inductive queue_history ::
  "'z vew_scheme \<Rightarrow> rg_ctrl_t list \<Rightarrow> rg_ctrl_t list \<Rightarrow> 'z vew_scheme \<Rightarrow> bool" for s0 where
  start: "queue_history s0 [] [] (boot s0)"
| gate: "queue_history s0 q t s \<Longrightarrow> eval roadgate_thread_round s = Inr v \<Longrightarrow> s' = exec roadgate_thread_round s
    \<Longrightarrow> queue_history s0 q (t @ taken s s') s'"
| control: "queue_history s0 q t s \<Longrightarrow> queue_history s0 (q @ [c]) t (exec (roadgate_new_ctrl c) s)"
| detection: "queue_history s0 q t s \<Longrightarrow>
    coil_started s \<and> s' \<in> {exec detect_coil_thread s, exec safe_coil_thread s} \<or>
    mix_started s \<and> s' \<in> {exec mix_detect_coil_thread s, exec mix_safe_coil_thread s}
    \<Longrightarrow> queue_history s0 (q @ raised s s') t s'"
| lamps: "queue_history s0 q t s \<Longrightarrow> eval light_thread_round s = Some ()
    \<Longrightarrow> queue_history s0 q t (exec light_thread_round s)"
| lamp_ctrl: "queue_history s0 q t s \<Longrightarrow> eval (light_ctrl_put lc) s = Some r
    \<Longrightarrow> queue_history s0 q t (exec (light_ctrl_put lc) s)"
| daynight: "queue_history s0 q t s \<Longrightarrow> queue_history s0 q t (exec (daynight_set d) s)"
| configure: "queue_history s0 q t s \<Longrightarrow> queue_history s0 q t (exec (ve_cfg_set c) s)"

text \<open>Every run of the device has a history.\<close>

lemma history_vstep:
  assumes "vstep s s'" and "queue_history s0 q t s"
  shows "\<exists>q' t'. queue_history s0 q' t' s'"
  using assms(1)
proof cases
  case run
  then show ?thesis
    using assms(2) by cases (blast intro: queue_history.intros)+
next
  case (configure c)
  then show ?thesis using assms(2) by (blast intro: queue_history.configure)
qed

lemma every_run_has_a_history: "reaches_any_cfg s0 s \<Longrightarrow> \<exists>q t. queue_history s0 q t s"
  unfolding reaches_any_cfg_def
  by (induction rule: rtranclp_induct) (blast intro: queue_history.start history_vstep)+

lemma boot_queue: "ctrl_ls (rg (boot s)) = []"
  by (simp add: boot_def roadgate_thread_init_def roadgate_ram_init_def upd_rg_def)

lemma round_taken: "taken s (exec roadgate_thread_round s) @ ctrl_ls (rg (exec roadgate_thread_round s)) = ctrl_ls (rg s)"
proof -
  have "queue_shrinks s (exec roadgate_daemon s)"
    by (rule keepsD [OF queue_daemon.keeps_roadgate_daemon])
  then obtain k where "ctrl_ls (rg (exec roadgate_daemon s)) = drop k (ctrl_ls (rg s))"
    by (auto simp: queue_shrinks_def)
  then have "ctrl_ls (rg (exec roadgate_thread_round s)) = drop k (ctrl_ls (rg s))"
    by (simp add: roadgate_thread_round_def split: sum.split)
  then show ?thesis
    by (cases "k \<le> length (ctrl_ls (rg s))") (simp_all add: taken_def)
qed

lemma detection_raised: "only_queues s s' \<Longrightarrow> ctrl_ls (rg s') = ctrl_ls (rg s) @ raised s s'"
  unfolding only_queues_def raised_def
  by clarsimp (metis replicate_length_same singletonD subsetD)

text \<open>
  C4. Controls are taken in the order of their arrival, none is lost and none is made up: along
  every run of the device from its start, with any changes of the configuration, the controls that
  the gate has taken, followed by those still in its queue, are exactly the controls queued so far,
  in the order in which they were queued.
\<close>

theorem controls_first_in_first_out:
  assumes "queue_history s0 q t s"
  shows "t @ ctrl_ls (rg s) = q"
  using assms
proof (induction rule: queue_history.induct)
  case start
  show ?case by (simp add: boot_queue)
next
  case (gate q t s v s')
  then show ?case using round_taken [of s] by simp
next
  case (control q t s c)
  then show ?case by (simp add: roadgate_new_ctrl_def upd_rg_def)
next
  case (detection q t s s')
  then have "only_queues s s'" using keepsD [OF only_queues_threads(1)] keepsD [OF only_queues_threads(2)]
      keepsD [OF only_queues_threads(3)] keepsD [OF only_queues_threads(4)] by blast
  then show ?case using detection.IH by (simp add: detection_raised)
next
  case (lamps q t s)
  then show ?case using keepsD [OF gate_kept_thread_round, of s] by (simp add: gate_kept_def)
next
  case (lamp_ctrl q t s lc r)
  then show ?case using keepsD [OF gate_kept_ctrl(1), of s lc] by (simp add: gate_kept_def)
qed (simp_all add: daynight_set_def ve_cfg_set_def)

text \<open>Two controls arrive at the started device, then the gate makes a pass.\<close>

theorem controls_first_in_first_out_witness:
  "let s = exec (roadgate_new_ctrl lo_up_ctrl) (exec (roadgate_new_ctrl (manual_ctrl RG_ACTION_DN)) (boot idle_vew));
       s' = exec roadgate_thread_round s
   in taken s s' @ ctrl_ls (rg s') = [manual_ctrl RG_ACTION_DN, lo_up_ctrl]"
proof -
  let ?s = "exec (roadgate_new_ctrl lo_up_ctrl) (exec (roadgate_new_ctrl (manual_ctrl RG_ACTION_DN)) (boot idle_vew))"
  have "reaches idle_vew ?s"
    unfolding reaches_def by (meson dstep.control rtranclp.intros)
  then have "gate_inv ?s"
    by (rule gate_inv_reaches) (simp_all add: cfg_ok_def idle_vew_def word_less_def)
  then have "eval roadgate_daemon ?s = Inr 0"
    by (rule gate_inv_daemon(1))
  then have "eval roadgate_thread_round ?s = Inr 0"
    by (simp add: roadgate_thread_round_def)
  moreover have "queue_history idle_vew [manual_ctrl RG_ACTION_DN, lo_up_ctrl] [] ?s"
    by (metis append_Cons append_Nil queue_history.control queue_history.start)
  ultimately show ?thesis
    using controls_first_in_first_out [OF queue_history.gate [OF _ _ refl]] by (fastforce simp: Let_def)
qed

section \<open>Closing\<close>

text \<open>
  C5. The gate closes by itself: when it is open for the center or for the local controller, no
  control is pending, the timeout has passed and the detection coil is free, one pass of the daemon
  brings it back to idle and, the bus working, releases the up line. Opened by the center while
  normally closed it falls back to normally closed in the same way.
\<close>

theorem gate_closes_by_itself:
  assumes "gate_inv s" and "quiet s" and "i2c_ok s" and "ctrl_ls (rg s) = []"
    and "uint (status (rg s)) \<in> {STATUS_CENTER_OPEN, STATUS_LO_OPEN, STATUS_CENTER_NC_CENTER_OPEN}"
  shows "bit (pcf (exec roadgate_daemon s)) RG_UP_BIT
    \<and> (if uint (status (rg s)) = STATUS_CENTER_NC_CENTER_OPEN
       then uint (status (rg (exec roadgate_daemon s))) \<in> {STATUS_CENTER_NC, STATUS_CENTER_NC_LO_WAIT}
       else uint (status (rg (exec roadgate_daemon s))) = STATUS_IDLE)"
  using assms(1)
  by (rule gate_machine)
    (use assms(2-) rg_machine.closes [of _ _ "threads_started s"]
      rg_machine.nc_open_closes [of _ _ "threads_started s"] in auto)

theorem gate_closes_by_itself_witness:
  "bit (pcf (exec roadgate_daemon (quiet_vew 10 []))) RG_UP_BIT
   \<and> uint (status (rg (exec roadgate_daemon (quiet_vew 10 [])))) = STATUS_IDLE"
  using gate_closes_by_itself [of "quiet_vew 10 []"] by (simp add: quiet_vew_facts)

section \<open>Manual control by the center\<close>

text \<open>
  C6. An idle gate obeys the center: a manual up, down, stop, normally-closed or normally-open
  command at the head of the queue is taken in one pass, leads to the status of that command and
  becomes the current control; with the bus working, up and normally open assert the up line and
  normally closed releases it.
\<close>

theorem idle_gate_obeys_center:
  assumes "gate_inv s" and "uint (status (rg s)) = STATUS_IDLE" and "head_manual a s"
    and "a \<in> {RG_ACTION_DN, RG_ACTION_UP, RG_ACTION_STOP, RG_ACTION_NC_SET, RG_ACTION_NO_SET}"
  shows "uint (status (rg (exec roadgate_daemon s))) = idle_target a
    \<and> ctrl (rg (exec roadgate_daemon s)) = hd (ctrl_ls (rg s))
    \<and> ctrl_ls (rg (exec roadgate_daemon s)) = tl (ctrl_ls (rg s))
    \<and> (i2c_ok s \<and> a \<in> {RG_ACTION_UP, RG_ACTION_NO_SET}
        \<longrightarrow> \<not> bit (pcf (exec roadgate_daemon s)) RG_UP_BIT)
    \<and> (i2c_ok s \<and> a = RG_ACTION_NC_SET \<longrightarrow> bit (pcf (exec roadgate_daemon s)) RG_UP_BIT)"
  using assms(1)
proof (rule gate_machine)
  fix m
  assume m: "rg_machine m (statuses_of (cfg s))" "mach_inv (statuses_of (cfg s)) (threads_started s)"
    "exec roadgate_daemon s = exec m (threads_started s)"
  show ?thesis
    using rg_machine.idle_manual [OF m(1,2), of a] assms(2-4) unfolding m(3) by simp
qed

theorem idle_gate_obeys_center_witness:
  "uint (status (rg (exec roadgate_daemon (quiet_vew 0 [manual_ctrl RG_ACTION_UP])))) = STATUS_CENTER_OPEN
   \<and> \<not> bit (pcf (exec roadgate_daemon (quiet_vew 0 [manual_ctrl RG_ACTION_UP]))) RG_UP_BIT"
  using idle_gate_obeys_center [of "quiet_vew 0 [manual_ctrl RG_ACTION_UP]" RG_ACTION_UP]
  by (simp add: quiet_vew_facts idle_target_def)

text \<open>
  C7. A normally open gate stays open: only the center's manual down command ends it; any other
  control is discarded, and neither the status nor the port register changes.
\<close>

theorem normally_open_gate_stays_open:
  assumes "gate_inv s" and "uint (status (rg s)) = STATUS_CENTER_NO"
  shows "if head_manual RG_ACTION_DN s
    then uint (status (rg (exec roadgate_daemon s))) = STATUS_IDLE
    else uint (status (rg (exec roadgate_daemon s))) = STATUS_CENTER_NO
      \<and> pcf (exec roadgate_daemon s) = pcf s"
  using assms(1)
proof (rule gate_machine)
  fix m
  assume m: "rg_machine m (statuses_of (cfg s))" "mach_inv (statuses_of (cfg s)) (threads_started s)"
    "exec roadgate_daemon s = exec m (threads_started s)"
  show ?thesis
    using rg_machine.normally_open [OF m(1,2)] assms(2) unfolding m(3) by simp
qed

theorem normally_open_gate_stays_open_witness:
  "uint (status (rg (exec roadgate_daemon (quiet_vew 9 [lo_up_ctrl])))) = STATUS_CENTER_NO
   \<and> pcf (exec roadgate_daemon (quiet_vew 9 [lo_up_ctrl])) = pcf (quiet_vew 9 [lo_up_ctrl])"
  using normally_open_gate_stays_open [of "quiet_vew 9 [lo_up_ctrl]"]
  by (simp add: quiet_vew_facts head_manual_def manual_def lo_up_ctrl_def)

text \<open>
  C8. Normally closed: a control of the local controller never moves the bar, and the center's
  "normally closed clear" brings the gate back to idle without moving it.
\<close>

theorem normally_closed_gate_stays_closed:
  assumes "gate_inv s" and "uint (status (rg s)) = STATUS_CENTER_NC"
  shows "(head_local s \<longrightarrow> pcf (exec roadgate_daemon s) = pcf s)
    \<and> (head_manual RG_ACTION_NC_CLR s \<longrightarrow>
         uint (status (rg (exec roadgate_daemon s))) = STATUS_IDLE
       \<and> pcf (exec roadgate_daemon s) = pcf s)"
  using assms(1)
proof (rule gate_machine)
  fix m
  assume m: "rg_machine m (statuses_of (cfg s))" "mach_inv (statuses_of (cfg s)) (threads_started s)"
    "exec roadgate_daemon s = exec m (threads_started s)"
  show ?thesis
    using rg_machine.normally_closed_local [OF m(1,2)] rg_machine.normally_closed_cleared [OF m(1,2)]
      assms(2)
    unfolding m(3) by simp
qed

theorem normally_closed_gate_stays_closed_witness:
  "pcf (exec roadgate_daemon (quiet_vew 4 [lo_up_ctrl])) = pcf (quiet_vew 4 [lo_up_ctrl])
   \<and> uint (status (rg (exec roadgate_daemon (quiet_vew 4 [manual_ctrl RG_ACTION_NC_CLR])))) = STATUS_IDLE"
  using normally_closed_gate_stays_closed [of "quiet_vew 4 [lo_up_ctrl]"]
    normally_closed_gate_stays_closed [of "quiet_vew 4 [manual_ctrl RG_ACTION_NC_CLR]"]
  by (simp add: quiet_vew_facts)

text \<open>
  Normally closed does not survive a control its machine does not handle: repeating the
  center's "normally closed set", or, on a machine that cannot let a vehicle wait (every export and
  every center-controlled gate), a single control of the local controller puts the gate back into
  the status it had before, from which the next local control raises the bar.
\<close>

theorem normally_closed_is_cancelled:
  assumes "gate_inv s" and "uint (status (rg s)) = STATUS_CENTER_NC"
    and "head_manual RG_ACTION_NC_SET s \<or> head_local s \<and> STATUS_CENTER_NC_LO_WAIT \<notin> statuses_of (cfg s)"
  shows "status (rg (exec roadgate_daemon s)) = prev_status (rg s)"
  using assms(1)
proof (rule gate_machine)
  fix m
  assume m: "rg_machine m (statuses_of (cfg s))" "mach_inv (statuses_of (cfg s)) (threads_started s)"
    "exec roadgate_daemon s = exec m (threads_started s)"
  show ?thesis
    using rg_machine.normally_closed_set_again [OF m(1,2)] rg_machine.normally_closed_dropped [OF m(1,2)]
      assms(2,3)
    unfolding m(3) by auto
qed

theorem normally_closed_is_cancelled_witness:
  "status (rg (exec roadgate_daemon (quiet_vew 4 [manual_ctrl RG_ACTION_NC_SET]))) = 0"
  using normally_closed_is_cancelled [of "quiet_vew 4 [manual_ctrl RG_ACTION_NC_SET]"]
  by (simp add: quiet_vew_facts)

section \<open>The gate and the lamps share a port register\<close>

text \<open>
  C11. Gate and lamps do not disturb each other on the shared port register: a pass of the gate
  daemon changes none of the lamps' bits, and a pass of the lamp thread changes none of the three
  gate lines, the gate's status or its queue.
\<close>

theorem gate_and_lamps_are_isolated:
  "(\<forall>i > RG_UP_BIT. bit (pcf (exec roadgate_daemon s)) i = bit (pcf s) i)
   \<and> (\<forall>i \<le> RG_UP_BIT. bit (pcf (exec light_thread_round s)) i = bit (pcf s) i)
   \<and> rg (exec light_thread_round s) = rg s"
  using keepsD [OF lamp_daemon.keeps_roadgate_daemon, of s] keepsD [OF gate_kept_thread_round, of s]
  by (simp add: lamps_kept_def gate_kept_def)

theorem gate_and_lamps_are_isolated_witness:
  "bit (pcf (exec roadgate_daemon (quiet_vew 0 [manual_ctrl RG_ACTION_UP]))) 5
     = bit (pcf (quiet_vew 0 [manual_ctrl RG_ACTION_UP])) 5
   \<and> bit (pcf (exec light_thread_round (booted idle_vew))) RG_DN_BIT = bit (pcf (booted idle_vew)) RG_DN_BIT"
  using gate_and_lamps_are_isolated [of "quiet_vew 0 [manual_ctrl RG_ACTION_UP]"]
    gate_and_lamps_are_isolated [of "booted idle_vew"]
  by simp

text \<open>
  C10. No line stays driven: with the bus working, a pass of the daemon that starts with the down
  and the stop line released ends with both released, whatever it did in between.
\<close>

theorem gate_pulses_end:
  assumes "i2c_ok s" and "rests s"
  shows "rests (exec roadgate_daemon s)"
  using keepsD [OF pulse_daemon.keeps_roadgate_daemon, of s] assms by (simp add: pulses_end_def)

theorem gate_pulses_end_witness: "rests (exec roadgate_daemon (quiet_vew 0 [manual_ctrl RG_ACTION_DN]))"
proof (rule gate_pulses_end)
  show "rests (quiet_vew 0 [manual_ctrl RG_ACTION_DN])"
    by (simp add: rests_def quiet_vew_def idle_vew_def bit_numeral_simps)
qed (rule i2c_ok_quiet_vew)

end
