(* ===== verification/Audio.thy ===== *)
theory Audio
  imports Vd_Prelude
begin

text \<open>
  The audio card manager, \<open>ve/dev/audio.c\<close>. The two cards of \<open>audio_dev_tab\<close> are their model
  numbers; only the local card has driver functions. What a driver call returns is read from
  \<open>env_drv\<close> at the position \<open>drv_tick\<close>, and the calls are recorded, the latest first, in
  \<open>drv_log\<close>. The mutex makes every function of the manager one step.
\<close>

record audio_param =
  ap_volume :: u8
  flag :: u8
  ap_len :: int
  ap_buf :: "u8 list"

datatype drv_call = Drv_Init | Drv_Set_Volume int | Drv_Play audio_param | Drv_Stop | Drv_Destroy

record audio =
  a_dev :: "u8 option"
  a_volume :: u8

record audiow =
  audio :: audio
  audio_cfg_volume :: u8
  env_drv :: "nat \<Rightarrow> int"
  drv_tick :: nat
  drv_log :: "drv_call list"

definition AUDIO_MODEL_OFF :: u8 where "AUDIO_MODEL_OFF = 0"
definition AUDIO_MODEL_LO :: u8 where "AUDIO_MODEL_LO = 1"
definition AUDIO_BUF :: u8 where "AUDIO_BUF = 4"
definition AUDIO_BUF_SIZE :: int where "AUDIO_BUF_SIZE = 512 * 1024"

definition audio_dev_tab :: "u8 list" where
  "audio_dev_tab = [AUDIO_MODEL_OFF, AUDIO_MODEL_LO]"

definition has_driver :: "u8 option \<Rightarrow> bool" where
  "has_driver d \<longleftrightarrow> d = Some AUDIO_MODEL_LO"

definition drv :: "drv_call \<Rightarrow> ('z audiow_scheme, int) state" where
  "drv c = do {
     r \<leftarrow> reads (\<lambda>w. env_drv w (drv_tick w));
     writes (\<lambda>w. w\<lparr>drv_tick := Suc (drv_tick w), drv_log := c # drv_log w\<rparr>);
     ret r }"

definition upd_audio :: "(audio \<Rightarrow> audio) \<Rightarrow> ('z audiow_scheme, unit) state" where
  "upd_audio f = writes (\<lambda>w. w\<lparr>audio := f (audio w)\<rparr>)"

definition audio_dev_search :: "u8 \<Rightarrow> u8 option" where
  "audio_dev_search model = List.find (\<lambda>m. m = model) audio_dev_tab"

definition audio_dev_change :: "u8 \<Rightarrow> ('z audiow_scheme, int) state" where
  "audio_dev_change model = do {
     d \<leftarrow> reads (a_dev \<circ> audio);
     (if d = Some model then ret 0
      else do {
        r \<leftarrow> (if has_driver d then drv Drv_Destroy else ret 0);
        (if r \<noteq> 0 then ret (- 1)
         else do {
           let d' = (case audio_dev_search model of Some m \<Rightarrow> m | None \<Rightarrow> audio_dev_tab ! 0);
           upd_audio (\<lambda>a. a\<lparr>a_dev := Some d'\<rparr>);
           r' \<leftarrow> (if has_driver (Some d') then drv Drv_Init else ret 0);
           ret (if r' \<noteq> 0 then - 1 else 0) }) }) }"

text \<open>
  The code calls the driver after it has unlocked the mutex; the configuration, from which alone the function
  is called, has a mutex of its own that keeps two calls apart, so the function is one step here.
\<close>

definition audio_dev_set_volume :: "u8 \<Rightarrow> ('z audiow_scheme, int) state" where
  "audio_dev_set_volume volume = do {
     upd_audio (\<lambda>a. a\<lparr>a_volume := (if volume > 100 then 100 else volume)\<rparr>);
     a \<leftarrow> reads audio;
     (if has_driver (a_dev a) then drv (Drv_Set_Volume (uint (a_volume a))) else ret 0) }"

definition audio_adjust_param :: "audio_param \<Rightarrow> ('z audiow_scheme, audio_param) state" where
  "audio_adjust_param ap = do {
     v \<leftarrow> reads audio_cfg_volume;
     ret (if ap_volume ap > v then ap\<lparr>ap_volume := v\<rparr> else ap) }"

text \<open>
  \<open>__audio_put\<close> assigns its result only when the card refuses the audio; otherwise it returns
  the uninitialised variable, which is \<open>None\<close> here.
\<close>

definition audio_put :: "audio_param \<Rightarrow> ('z audiow_scheme, int option) state" where
  "audio_put ap = do {
     d \<leftarrow> reads (a_dev \<circ> audio);
     (if d = None \<or> d = Some AUDIO_MODEL_OFF then ret None
      else do {
        r \<leftarrow> drv (Drv_Play ap);
        ret (if r \<noteq> 0 then Some (- 1) else None) }) }"

text \<open>\<open>__audio_stop\<close> reads the model of the card without a check; \<open>None\<close> is the null pointer.\<close>

definition audio_stop :: "('z audiow_scheme, int option) state" where
  "audio_stop = do {
     d \<leftarrow> reads (a_dev \<circ> audio);
     (case d of None \<Rightarrow> ret None
      | Some m \<Rightarrow>
          if m = AUDIO_MODEL_OFF then ret (Some 0)
          else do {
            r \<leftarrow> drv Drv_Stop;
            ret (if r \<noteq> 0 then Some (- 1) else Some 0) }) }"

definition audio_ram_init :: "('z audiow_scheme, unit) state" where
  "audio_ram_init = upd_audio (\<lambda>a. a\<lparr>a_dev := Some (audio_dev_tab ! 0)\<rparr>)"

lemmas audio_defs = drv_def upd_audio_def audio_dev_change_def audio_dev_set_volume_def
  audio_adjust_param_def audio_put_def audio_stop_def audio_ram_init_def

section \<open>The driver is used between its initialisation and its destruction\<close>

datatype audio_op = Op_Change u8 | Op_Volume u8 | Op_Put audio_param | Op_Stop

fun audio_call :: "audio_op \<Rightarrow> ('z audiow_scheme, unit) state" where
  "audio_call (Op_Change m) = do { audio_dev_change m; ret () }"
| "audio_call (Op_Volume v) = do { audio_dev_set_volume v; ret () }"
| "audio_call (Op_Put ap) = do { audio_put ap; ret () }"
| "audio_call Op_Stop = do { audio_stop; ret () }"

fun audio_ops :: "audio_op list \<Rightarrow> ('z audiow_scheme, unit) state" where
  "audio_ops [] = ret ()"
| "audio_ops (c # cs) = do { audio_call c; audio_ops cs }"

text \<open>
  The contract of the driver, on a log with the latest call first: \<open>card_up\<close> after an
  initialisation that no destruction followed; everything but an initialisation needs the card
  up, and an initialisation needs it down.
\<close>

fun card_up :: "drv_call list \<Rightarrow> bool" where
  "card_up [] = False"
| "card_up (c # log) = (c = Drv_Init \<or> (c \<noteq> Drv_Destroy \<and> card_up log))"

fun calls_ok :: "drv_call list \<Rightarrow> bool" where
  "calls_ok [] = True"
| "calls_ok (c # log) = (calls_ok log \<and> (c = Drv_Init \<longleftrightarrow> \<not> card_up log))"

definition audio_inv :: "'z audiow_scheme \<Rightarrow> bool" where
  "audio_inv w \<longleftrightarrow> calls_ok (drv_log w) \<and> (card_up (drv_log w) \<longleftrightarrow> has_driver (a_dev (audio w)))
     \<and> (\<forall>m. a_dev (audio w) = Some m \<longrightarrow> m \<in> set audio_dev_tab) \<and> (\<forall>t. env_drv w t = 0)"

lemma audio_dev_search_cases:
  "audio_dev_search m = (if m = AUDIO_MODEL_OFF \<or> m = AUDIO_MODEL_LO then Some m else None)"
  by (auto simp: audio_dev_search_def audio_dev_tab_def)

lemma audio_call_inv: "audio_inv w \<Longrightarrow> audio_inv (exec (audio_call c) w)"
  by (cases c)
    (auto simp: audio_inv_def audio_defs has_driver_def audio_dev_search_cases audio_dev_tab_def
      AUDIO_MODEL_OFF_def AUDIO_MODEL_LO_def Let_def split: option.splits if_splits)

lemma audio_ops_inv: "audio_inv w \<Longrightarrow> audio_inv (exec (audio_ops cs) w)"
  by (induction cs arbitrary: w) (auto intro: audio_call_inv)

text \<open>
  C34. Card protocol: whatever sequence of card changes, volume settings, plays and stops follows
  the initialisation of the manager, as long as the driver calls succeed, the driver is only
  used between its initialisation and its destruction and is never initialised twice.
\<close>

theorem audio_card_protocol:
  assumes "drv_log w = []" and "\<forall>t. env_drv w t = 0"
  shows "calls_ok (drv_log (exec (audio_ops cs) (exec audio_ram_init w)))"
proof -
  have "audio_inv (exec audio_ram_init w)"
    using assms by (simp add: audio_inv_def audio_defs has_driver_def audio_dev_tab_def
        AUDIO_MODEL_OFF_def AUDIO_MODEL_LO_def)
  then show ?thesis
    using audio_ops_inv unfolding audio_inv_def by blast
qed

definition silent_audiow :: audiow where
  "silent_audiow = \<lparr>audio = \<lparr>a_dev = None, a_volume = 0\<rparr>, audio_cfg_volume = 50,
     env_drv = (\<lambda>_. 0), drv_tick = 0, drv_log = []\<rparr>"

theorem audio_card_protocol_witness:
  "calls_ok (drv_log (exec (audio_ops [Op_Change 1, Op_Volume 200, Op_Stop, Op_Change 0, Op_Change 1])
     (exec audio_ram_init silent_audiow)))"
  by (rule audio_card_protocol) (simp_all add: silent_audiow_def)

text \<open>
  With a failing driver the protocol breaks: after an initialisation that fails, the card stays
  selected, a second request for it returns success without another attempt, and the next audio
  is played on the card that was never initialised.
\<close>

lemma audio_failed_init_is_used:
  fixes w :: "'z audiow_scheme"
  assumes "a_dev (audio w) = Some AUDIO_MODEL_OFF" and "env_drv w (drv_tick w) \<noteq> 0"
  defines "w1 \<equiv> exec (audio_dev_change AUDIO_MODEL_LO) w"
  shows "eval (audio_dev_change AUDIO_MODEL_LO) w = - 1"
    and "eval (audio_dev_change AUDIO_MODEL_LO) w1 = 0"
    and "drv_log (exec (audio_put ap) w1) = Drv_Play ap # Drv_Init # drv_log w"
  using assms(1,2) unfolding w1_def
  by (auto simp: audio_defs has_driver_def audio_dev_search_cases AUDIO_MODEL_OFF_def AUDIO_MODEL_LO_def Let_def)

end
