(* ===== verification/Base64.thy ===== *)
theory Base64
  imports Vd_Prelude
begin

text \<open>
  The Base64 codec of \<open>sys/base64.c\<close>, through which the display daemon receives the audio of a
  line. Memory is a list of bytes: a read outside the list makes the call \<open>None\<close>, and what a call
  stores is the list of bytes written from the start of the destination, so the length of that list
  is the room the call needs. \<open>sg\<close> says whether the compiler's plain \<open>char\<close> is signed. The buffers
  are far below a gigabyte, so none of the \<open>int\<close> expressions on lengths overflows.
\<close>

section \<open>Tables\<close>

definition pr2six :: "u8 list" where
  "pr2six = [
     64, 64, 64, 64, 64, 64, 64, 64, 64, 64, 64, 64, 64, 64, 64, 64,
     64, 64, 64, 64, 64, 64, 64, 64, 64, 64, 64, 64, 64, 64, 64, 64,
     64, 64, 64, 64, 64, 64, 64, 64, 64, 64, 64, 62, 64, 64, 64, 63,
     52, 53, 54, 55, 56, 57, 58, 59, 60, 61, 64, 64, 64, 64, 64, 64,
     64, 0, 1, 2, 3, 4, 5, 6, 7, 8, 9, 10, 11, 12, 13, 14,
     15, 16, 17, 18, 19, 20, 21, 22, 23, 24, 25, 64, 64, 64, 64, 64,
     64, 26, 27, 28, 29, 30, 31, 32, 33, 34, 35, 36, 37, 38, 39, 40,
     41, 42, 43, 44, 45, 46, 47, 48, 49, 50, 51, 64, 64, 64, 64, 64,
     64, 64, 64, 64, 64, 64, 64, 64, 64, 64, 64, 64, 64, 64, 64, 64,
     64, 64, 64, 64, 64, 64, 64, 64, 64, 64, 64, 64, 64, 64, 64, 64,
     64, 64, 64, 64, 64, 64, 64, 64, 64, 64, 64, 64, 64, 64, 64, 64,
     64, 64, 64, 64, 64, 64, 64, 64, 64, 64, 64, 64, 64, 64, 64, 64,
     64, 64, 64, 64, 64, 64, 64, 64, 64, 64, 64, 64, 64, 64, 64, 64,
     64, 64, 64, 64, 64, 64, 64, 64, 64, 64, 64, 64, 64, 64, 64, 64,
     64, 64, 64, 64, 64, 64, 64, 64, 64, 64, 64, 64, 64, 64, 64, 64,
     64, 64, 64, 64, 64, 64, 64, 64, 64, 64, 64, 64, 64, 64, 64, 64]"

definition basis_64 :: "u8 list" where
  "basis_64 = map of_char
     ''ABCDEFGHIJKLMNOPQRSTUVWXYZabcdefghijklmnopqrstuvwxyz0123456789+/''"

text \<open>A byte read through a plain \<open>char\<close> and promoted to \<open>int\<close>, and one read through \<open>pr2six\<close>.\<close>

definition prom :: "bool \<Rightarrow> u8 \<Rightarrow> int" where
  "prom sg c = (if sg then sint c else uint c)"

definition six :: "u8 \<Rightarrow> int" where
  "six b = uint (pr2six ! unat b)"

definition rd :: "u8 list \<Rightarrow> nat \<Rightarrow> u8 option" where
  "rd buf i = (if i < length buf then Some (buf ! i) else None)"

definition basis :: "int \<Rightarrow> u8" where
  "basis k = basis_64 ! nat k"

section \<open>Decoding\<close>

text \<open>
  \<open>while (pr2six[*(bufin++)] <= 63);\<close> from position \<open>i\<close>: the number of characters before the first
  one outside the alphabet.
\<close>

fun scan :: "u8 list \<Rightarrow> nat option" where
  "scan [] = None"
| "scan (b # bs) = (if six b \<le> 63 then map_option Suc (scan bs) else Some 0)"

definition Base64decode_len :: "u8 list \<Rightarrow> int option" where
  "Base64decode_len bufcoded =
     (case scan bufcoded of None \<Rightarrow> None
      | Some nprbytes \<Rightarrow> Some (((int nprbytes + 3) div 4) * 3 + 1))"

definition dec0 :: "u8 \<Rightarrow> u8 \<Rightarrow> u8" where
  "dec0 a b = word_of_int (push_bit 2 (six a) OR drop_bit 4 (six b))"

definition dec1 :: "u8 \<Rightarrow> u8 \<Rightarrow> u8" where
  "dec1 b c = word_of_int (push_bit 4 (six b) OR drop_bit 2 (six c))"

definition dec2 :: "u8 \<Rightarrow> u8 \<Rightarrow> u8" where
  "dec2 c d = word_of_int (push_bit 6 (six c) OR six d)"

text \<open>
  The loop over whole groups of four, at input position \<open>p\<close> with \<open>nprbytes\<close> characters left;
  it leaves the last one to four characters to the conditionals after it.
\<close>

function decode_loop :: "u8 list \<Rightarrow> nat \<Rightarrow> nat \<Rightarrow> u8 list \<Rightarrow> (nat \<times> nat \<times> u8 list) option" where
  "decode_loop buf p nprbytes out =
     (if 4 < nprbytes then do {
        a \<leftarrow> rd buf p;
        b \<leftarrow> rd buf (p + 1);
        c \<leftarrow> rd buf (p + 2);
        d \<leftarrow> rd buf (p + 3);
        decode_loop buf (p + 4) (nprbytes - 4) (out @ [dec0 a b, dec1 b c, dec2 c d]) }
      else Some (p, nprbytes, out))"
  by pat_completeness auto
termination
  by (relation "measure (\<lambda>(buf, p, nprbytes, out). nprbytes)") auto

definition decode_tail :: "u8 list \<Rightarrow> nat \<Rightarrow> nat \<Rightarrow> u8 list \<Rightarrow> u8 list option" where
  "decode_tail buf p nprbytes out = do {
     out1 \<leftarrow> (if 1 < nprbytes then do {
                a \<leftarrow> rd buf p;
                b \<leftarrow> rd buf (p + 1);
                Some (out @ [dec0 a b]) }
              else Some out);
     out2 \<leftarrow> (if 2 < nprbytes then do {
                b \<leftarrow> rd buf (p + 1);
                c \<leftarrow> rd buf (p + 2);
                Some (out1 @ [dec1 b c]) }
              else Some out1);
     out3 \<leftarrow> (if 3 < nprbytes then do {
                c \<leftarrow> rd buf (p + 2);
                d \<leftarrow> rd buf (p + 3);
                Some (out2 @ [dec2 c d]) }
              else Some out2);
     Some (out3 @ [0]) }"

text \<open>The bytes \<open>Base64decode\<close> stores in \<open>bufplain\<close>, and the number it returns.\<close>

definition Base64decode :: "u8 list \<Rightarrow> (u8 list \<times> int) option" where
  "Base64decode bufcoded = do {
     n \<leftarrow> scan bufcoded;
     let nbytesdecoded = ((int n + 3) div 4) * 3;
     (p, nprbytes, out) \<leftarrow> decode_loop bufcoded 0 n [];
     out' \<leftarrow> decode_tail bufcoded p nprbytes out;
     Some (out', nbytesdecoded - ((4 - int nprbytes) AND 3)) }"

section \<open>Encoding\<close>

definition Base64encode_len :: "int \<Rightarrow> int" where
  "Base64encode_len len = (len + 2) sdiv 3 * 4 + 1"

definition enc0 :: "bool \<Rightarrow> u8 \<Rightarrow> u8" where
  "enc0 sg x = basis (drop_bit 2 (prom sg x) AND 0x3F)"

definition enc1 :: "bool \<Rightarrow> u8 \<Rightarrow> u8 \<Rightarrow> u8" where
  "enc1 sg x y = basis (push_bit 4 (prom sg x AND 0x3) OR drop_bit 4 (prom sg y AND 0xF0))"

definition enc2 :: "bool \<Rightarrow> u8 \<Rightarrow> u8 \<Rightarrow> u8" where
  "enc2 sg y z = basis (push_bit 2 (prom sg y AND 0xF) OR drop_bit 6 (prom sg z AND 0xC0))"

definition enc1_end :: "bool \<Rightarrow> u8 \<Rightarrow> u8" where
  "enc1_end sg x = basis (push_bit 4 (prom sg x AND 0x3))"

definition enc2_end :: "bool \<Rightarrow> u8 \<Rightarrow> u8" where
  "enc2_end sg y = basis (push_bit 2 (prom sg y AND 0xF))"

definition enc3 :: "bool \<Rightarrow> u8 \<Rightarrow> u8" where
  "enc3 sg z = basis (prom sg z AND 0x3F)"

function encode_loop :: "bool \<Rightarrow> u8 list \<Rightarrow> int \<Rightarrow> nat \<Rightarrow> u8 list \<Rightarrow> (nat \<times> u8 list) option" where
  "encode_loop sg str len i p =
     (if int i < len - 2 then do {
        x \<leftarrow> rd str i;
        y \<leftarrow> rd str (i + 1);
        z \<leftarrow> rd str (i + 2);
        encode_loop sg str len (i + 3) (p @ [enc0 sg x, enc1 sg x y, enc2 sg y z, enc3 sg z]) }
      else Some (i, p))"
  by pat_completeness auto
termination
  by (relation "measure (\<lambda>(sg, str, len, i, p). nat (len - int i))") auto

definition eq_sign :: u8 where
  "eq_sign = of_char (CHR ''='')"

definition encode_tail :: "bool \<Rightarrow> u8 list \<Rightarrow> int \<Rightarrow> nat \<Rightarrow> u8 list \<Rightarrow> u8 list option" where
  "encode_tail sg str len i p =
     (if int i < len then do {
        x \<leftarrow> rd str i;
        (if int i = len - 1
         then Some (p @ [enc0 sg x, enc1_end sg x, eq_sign, eq_sign])
         else do {
           y \<leftarrow> rd str (i + 1);
           Some (p @ [enc0 sg x, enc1 sg x y, enc2_end sg y, eq_sign]) }) }
      else Some p)"

text \<open>The bytes \<open>Base64encode\<close> stores in \<open>encoded\<close>; their number is what it returns.\<close>

definition Base64encode :: "bool \<Rightarrow> u8 list \<Rightarrow> int \<Rightarrow> (u8 list \<times> int) option" where
  "Base64encode sg str len = do {
     (i, p) \<leftarrow> encode_loop sg str len 0 [];
     p' \<leftarrow> encode_tail sg str len i p;
     Some (p' @ [0], int (length p') + 1) }"

section \<open>Bits\<close>

lemma six_basis:
  assumes "0 \<le> k \<and> k < 64"
  shows "six (basis k) = k"
proof -
  have "\<forall>k \<in> set (upt 0 64). six (basis (int k)) = int k"
    by code_simp
  then show ?thesis
    using assms by (auto dest: bspec [of _ _ "nat k"])
qed

lemma six_basis_le: "0 \<le> k \<and> k < 64 \<Longrightarrow> six (basis k) \<le> 63"
  by (simp add: six_basis)

lemma six_eq_sign [simp]: "six eq_sign = 64"
  by code_simp

text \<open>The signedness of \<open>char\<close> does not matter: only the low eight bits of a promoted byte are used.\<close>

lemma bit_prom: "n < 8 \<Longrightarrow> bit (prom sg c) n \<longleftrightarrow> bit c n"
  by (cases "n = 7") (auto simp: prom_def bit_simps min_def)

lemma int_range_bits:
  fixes k :: int
  assumes "\<And>m. bit k m \<Longrightarrow> m < n"
  shows "0 \<le> k \<and> k < 2 ^ n"
proof -
  have "take_bit n k = k"
    by (rule bit_eqI) (use assms in \<open>auto simp: bit_take_bit_iff\<close>)
  then show ?thesis
    using take_bit_nonnegative [of n k] take_bit_int_less_exp [of n k] by simp
qed

lemmas mask_numerals =
  mask_eq_exp_minus_1 [of 2, where 'a = int, simplified, symmetric]
  mask_eq_exp_minus_1 [of 4, where 'a = int, simplified, symmetric]
  mask_eq_exp_minus_1 [of 6, where 'a = int, simplified, symmetric]

lemma hi4: "(0xF0 :: int) = push_bit 4 (mask 4)" 
  and hi2: "(0xC0 :: int) = push_bit 6 (mask 2)"
  by (simp_all add: mask_eq_exp_minus_1 push_bit_eq_mult)

lemmas b64_bits = mask_numerals hi4 hi2 bit_simps bit_prom

lemma sext_range:
  "0 \<le> drop_bit 2 (prom sg x) AND 0x3F \<and> drop_bit 2 (prom sg x) AND 0x3F < 64"
  "0 \<le> prom sg x AND 0x3F \<and> prom sg x AND 0x3F < 64"
  "0 \<le> push_bit 4 (prom sg x AND 0x3) OR drop_bit 4 (prom sg y AND 0xF0)
   \<and> push_bit 4 (prom sg x AND 0x3) OR drop_bit 4 (prom sg y AND 0xF0) < 64"
  "0 \<le> push_bit 2 (prom sg x AND 0xF) OR drop_bit 6 (prom sg y AND 0xC0)
   \<and> push_bit 2 (prom sg x AND 0xF) OR drop_bit 6 (prom sg y AND 0xC0) < 64"
  "0 \<le> push_bit 4 (prom sg x AND 0x3) \<and> push_bit 4 (prom sg x AND 0x3) < 64"
  "0 \<le> push_bit 2 (prom sg x AND 0xF) \<and> push_bit 2 (prom sg x AND 0xF) < 64"
  by (rule int_range_bits [of _ 6, simplified]; force simp: b64_bits)+

lemmas enc_defs = enc0_def enc1_def enc2_def enc3_def enc1_end_def enc2_end_def

lemma six_enc0: "six (enc0 sg x) = drop_bit 2 (prom sg x) AND 0x3F"
  and six_enc3: "six (enc3 sg x) = prom sg x AND 0x3F"
  and six_enc1: "six (enc1 sg x y) = push_bit 4 (prom sg x AND 0x3) OR drop_bit 4 (prom sg y AND 0xF0)"
  and six_enc2: "six (enc2 sg x y) = push_bit 2 (prom sg x AND 0xF) OR drop_bit 6 (prom sg y AND 0xC0)"
  and six_end1: "six (enc1_end sg x) = push_bit 4 (prom sg x AND 0x3)"
  and six_end2: "six (enc2_end sg x) = push_bit 2 (prom sg x AND 0xF)"
  unfolding enc_defs
  by (rule six_basis, rule sext_range)+

lemmas six_encs = six_enc0 six_enc1 six_enc2 six_enc3 six_end1 six_end2

lemma word8_eqI:
  fixes v w :: u8
  assumes "bit v 0 = bit w 0" "bit v 1 = bit w 1" "bit v 2 = bit w 2" "bit v 3 = bit w 3"
    "bit v 4 = bit w 4" "bit v 5 = bit w 5" "bit v 6 = bit w 6" "bit v 7 = bit w 7"
  shows "v = w"
proof (rule bit_word_eqI)
  fix n assume "n < LENGTH(8)"
  then have "n = 0 \<or> n = 1 \<or> n = 2 \<or> n = 3 \<or> n = 4 \<or> n = 5 \<or> n = 6 \<or> n = 7"
    by (simp) presburger
  with assms show "bit v n = bit w n" by blast
qed

lemma dec_enc:
  "dec0 (enc0 sg x) (enc1 sg x y) = x"
  "dec1 (enc1 sg x y) (enc2 sg y z) = y"
  "dec2 (enc2 sg y z) (enc3 sg z) = z"
  "dec0 (enc0 sg x) (enc1_end sg x) = x"
  "dec1 (enc1 sg x y) (enc2_end sg y) = y"
  unfolding dec0_def dec1_def dec2_def six_encs
  by (rule word8_eqI; simp add: bit_simps bit_prom bit_word_of_int_iff)+

section \<open>The reference codec\<close>

text \<open>Three bytes are four characters, without positions, counters or buffers.\<close>

fun b64_core :: "bool \<Rightarrow> u8 list \<Rightarrow> u8 list" where
  "b64_core sg (x # y # z # r) = [enc0 sg x, enc1 sg x y, enc2 sg y z, enc3 sg z] @ b64_core sg r"
| "b64_core sg [x, y] = [enc0 sg x, enc1 sg x y, enc2_end sg y]"
| "b64_core sg [x] = [enc0 sg x, enc1_end sg x]"
| "b64_core sg [] = []"

definition b64_pad :: "u8 list \<Rightarrow> u8 list" where
  "b64_pad s = replicate ((3 - length s mod 3) mod 3) eq_sign"

fun b64_plain :: "u8 list \<Rightarrow> u8 list" where
  "b64_plain (a # b # c # d # r) = [dec0 a b, dec1 b c, dec2 c d] @ b64_plain r"
| "b64_plain [a, b, c] = [dec0 a b, dec1 b c]"
| "b64_plain [a, b] = [dec0 a b]"
| "b64_plain [a] = []"
| "b64_plain [] = []"

lemma b64_plain_core: "b64_plain (b64_core sg s) = s"
  by (induction sg s rule: b64_core.induct) (simp_all add: dec_enc)

lemma six_le [simp]:
  "six (enc0 sg x) \<le> 63" "six (enc1 sg x y) \<le> 63" "six (enc2 sg x y) \<le> 63"
  "six (enc3 sg x) \<le> 63" "six (enc1_end sg x) \<le> 63" "six (enc2_end sg x) \<le> 63"
  unfolding enc_defs by (rule six_basis_le, rule sext_range)+

lemma six_core: "b \<in> set (b64_core sg s) \<Longrightarrow> six b \<le> 63"
  by (induction sg s rule: b64_core.induct) (auto simp: six_le)

lemma scan_append:
  assumes "\<forall>b \<in> set xs. six b \<le> 63" and "63 < six c"
  shows "scan (xs @ c # ys) = Some (length xs)"
  using assms by (induction xs) auto

lemma scan_bound: "scan buf = Some n \<Longrightarrow> n < length buf"
  by (induction buf arbitrary: n) (auto split: if_splits)

lemma length_b64_core: "length (b64_core sg s) + length (b64_pad s) = (length s + 2) div 3 * 4"
proof (induction sg s rule: b64_core.induct)
  case (1 sg x y z r)
  moreover have "(length (x # y # z # r) + 2) div 3 = Suc ((length r + 2) div 3)"
    by simp
  ultimately show ?case by (simp add: b64_pad_def)
qed (simp_all add: b64_pad_def)

lemma length_b64_plain: "length (b64_plain xs) = length xs div 4 * 3 + (length xs mod 4 - 1)"
proof (induction xs rule: b64_plain.induct)
  case (1 a b c d r)
  moreover have "length (a # b # c # d # r) div 4 = Suc (length r div 4)"
    "length (a # b # c # d # r) mod 4 = length r mod 4"
    by simp_all
  ultimately show ?case by simp
qed simp_all

section \<open>The loops compute the reference\<close>

declare encode_loop.simps [simp del] decode_loop.simps [simp del]

lemma drop_3: "i + 2 < length s \<Longrightarrow> drop i s = s ! i # s ! (i + 1) # s ! (i + 2) # drop (i + 3) s"
  by (simp add: Cons_nth_drop_Suc numeral_eq_Suc)

lemma rd_Some: "i < length buf \<Longrightarrow> rd buf i = Some (buf ! i)"
  by (simp add: rd_def)

lemma rd_take: "i < n \<Longrightarrow> n \<le> length buf \<Longrightarrow> rd buf i = Some (take n buf ! i)"
  by (simp add: rd_def)

lemma b64_pad_3: "b64_pad (x # y # z # r) = b64_pad r"
  and b64_pad_1: "b64_pad [x] = [eq_sign, eq_sign]"
  by (simp_all add: b64_pad_def numeral_2_eq_2)

lemma encode_tail_ok:
  assumes n: "n \<le> length str" and "i \<le> n" and "n \<le> i + 2"
  defines "s \<equiv> take n str"
  shows "encode_tail sg str (int n) i p = Some (p @ b64_core sg (drop i s) @ b64_pad (drop i s))"
proof -
  have len: "length s = n" and rd: "\<And>j. j < n \<Longrightarrow> rd str j = Some (s ! j)"
    using n by (simp_all add: s_def rd_take)
  consider "n = i" | "n = i + 1" | "n = i + 2"
    using assms by linarith
  then show ?thesis
  proof cases
    case 1
    then show ?thesis by (simp add: encode_tail_def b64_pad_def len)
  next
    case 2
    then have "drop i s = [s ! i]"
      using Cons_nth_drop_Suc [of i s] by (simp add: len)
    with 2 show ?thesis
      by (simp add: encode_tail_def b64_pad_1 rd)
  next
    case 3
    then have "drop i s = [s ! i, s ! (i + 1)]"
      using Cons_nth_drop_Suc [of i s] Cons_nth_drop_Suc [of "Suc i" s] by (simp add: len)
    with 3 show ?thesis
      by (simp add: encode_tail_def b64_pad_def rd)
  qed
qed

lemma encode_ok:
  assumes n: "n \<le> length str" and "i \<le> n"
  shows "Option.bind (encode_loop sg str (int n) i p) (\<lambda>(j, q). encode_tail sg str (int n) j q)
       = Some (p @ b64_core sg (drop i (take n str)) @ b64_pad (drop i (take n str)))"
  using assms(2)
proof (induction "n - i" arbitrary: i p rule: less_induct)
  case less
  show ?case
  proof (cases "int i < int n - 2")
    case True
    then have lt: "i + 2 < n" by linarith
    then have rd: "rd str i = Some (take n str ! i)" "rd str (i + 1) = Some (take n str ! (i + 1))"
      "rd str (i + 2) = Some (take n str ! (i + 2))"
      using n by (simp_all add: rd_take del: nth_take)
    have dr: "drop i (take n str) = take n str ! i # take n str ! (i + 1) # take n str ! (i + 2)
        # drop (i + 3) (take n str)"
      using n lt by (intro drop_3) simp
    show ?thesis
      unfolding dr b64_core.simps b64_pad_3
      using less.hyps [of "i + 3"] lt True
      by (subst encode_loop.simps) (simp add: rd rd [simplified] del: nth_take drop_take)
  next
    case False
    then show ?thesis
      using less.prems encode_tail_ok [OF n, of i sg p] by (subst encode_loop.simps) simp
  qed
qed

lemma Base64encode_ok:
  assumes "n \<le> length str"
  shows "Base64encode sg str (int n)
       = Some (b64_core sg (take n str) @ b64_pad (take n str) @ [0], Base64encode_len (int n))"
proof -
  have "Base64encode sg str (int n)
    = Option.bind (Option.bind (encode_loop sg str (int n) 0 []) (\<lambda>(j, q). encode_tail sg str (int n) j q))
       (\<lambda>p'. Some (p' @ [0], int (length p') + 1))"
    by (simp add: Base64encode_def split_def)
  moreover have "int (length (b64_core sg (take n str)) + length (b64_pad (take n str))) + 1
      = Base64encode_len (int n)"
    using assms by (simp add: length_b64_core Base64encode_len_def sdiv_nonneg zdiv_int)
  ultimately show ?thesis
    using encode_ok [OF assms, of 0 sg "[]"] by simp
qed

lemma b64_plain_append: "length xs mod 4 = 0 \<Longrightarrow> b64_plain (xs @ ys) = b64_plain xs @ b64_plain ys"
  by (induction xs rule: b64_plain.induct) auto

lemma drop_4: "p + 3 < length buf \<Longrightarrow>
   drop p buf = buf ! p # buf ! (p + 1) # buf ! (p + 2) # buf ! (p + 3) # drop (p + 4) buf"
  by (simp add: Cons_nth_drop_Suc numeral_eq_Suc)

lemma take_4: "take (4 + m) (a # b # c # d # r) = a # b # c # d # take m r"
  by (simp add: numeral_eq_Suc)

lemma decode_loop_ok:
  "p + n \<le> length buf \<Longrightarrow>
   \<exists>k. decode_loop buf p n out = Some (p + 4 * k, n - 4 * k, out @ b64_plain (take (4 * k) (drop p buf)))
     \<and> n - 4 * k \<le> 4 \<and> 4 * k \<le> n"
proof (induction buf p n out rule: decode_loop.induct)
  case (1 buf p n out)
  show ?case
  proof (cases "4 < n")
    case True
    then have r: "rd buf p = Some (buf ! p)" "rd buf (p + 1) = Some (buf ! (p + 1))"
       "rd buf (p + 2) = Some (buf ! (p + 2))" "rd buf (p + 3) = Some (buf ! (p + 3))"
      using 1 by (simp_all add: rd_Some)
    have dr: "drop p buf = buf ! p # buf ! (p + 1) # buf ! (p + 2) # buf ! (p + 3) # drop (p + 4) buf"
      using 1 True by (intro drop_4) simp
    have "p + 4 + (n - 4) \<le> length buf"
      using 1 True by linarith
    from 1(1) [OF True r this] obtain k where
      k: "decode_loop buf (p + 4) (n - 4) (out @ [dec0 (buf ! p) (buf ! (p + 1)),
         dec1 (buf ! (p + 1)) (buf ! (p + 2)), dec2 (buf ! (p + 2)) (buf ! (p + 3))])
       = Some (p + 4 + 4 * k, n - 4 - 4 * k, (out @ [dec0 (buf ! p) (buf ! (p + 1)),
         dec1 (buf ! (p + 1)) (buf ! (p + 2)), dec2 (buf ! (p + 2)) (buf ! (p + 3))])
         @ b64_plain (take (4 * k) (drop (p + 4) buf)))"
      and le: "n - 4 - 4 * k \<le> 4" "4 * k \<le> n - 4"
      by blast
    from k le True r show ?thesis
      by (intro exI [of _ "Suc k"], subst decode_loop.simps, unfold dr)
        (auto simp: take_4 algebra_simps)
  next
    case False
    then show ?thesis by (intro exI [of _ 0], subst decode_loop.simps) simp
  qed
qed


lemma decode_tail_ok:
  assumes "p + m \<le> length buf" and "m \<le> 4"
  shows "decode_tail buf p m out = Some (out @ b64_plain (take m (drop p buf)) @ [0])"
proof -
  have d: "drop q buf = buf ! q # drop (Suc q) buf" if "q < length buf" for q
    using that by (simp add: Cons_nth_drop_Suc)
  consider "m = 0" | "m = 1" | "m = 2" | "m = 3" | "m = 4"
    using assms(2) by linarith
  then show ?thesis
  proof cases
    case 2
    with assms show ?thesis using d [of p] by (simp add: decode_tail_def)
  next
    case 3
    with assms show ?thesis using d [of p] d [of "p + 1"] by (simp add: decode_tail_def rd_Some)
  next
    case 4
    with assms show ?thesis using d [of p] d [of "p + 1"] d [of "p + 2"]
      by (simp add: decode_tail_def rd_Some)
  next
    case 5
    with assms show ?thesis using drop_4 [of p buf] take_4 [of 0]
      by (simp add: decode_tail_def rd_Some)
  qed (simp add: decode_tail_def)
qed

lemma and_3: "(x :: int) AND 3 = x mod 4"
  using take_bit_eq_mask [of 2 x] by (simp add: take_bit_eq_mod mask_eq_exp_minus_1)

lemma decoded_length:
  assumes "4 * k \<le> n" and "n - 4 * k \<le> 4"
  shows "(int n + 3) div 4 * 3 - ((4 - int (n - 4 * k)) mod 4) = int (n div 4 * 3 + (n mod 4 - 1))"
proof -
  define m where "m = n - 4 * k"
  then have n: "n = m + 4 * k" and "m \<le> 4" using assms by simp_all
  then have "m = 0 \<or> m = 1 \<or> m = 2 \<or> m = 3 \<or> m = 4" by linarith
  then show ?thesis unfolding m_def [symmetric] n by auto
qed

lemma Base64decode_ok:
  assumes "scan buf = Some n"
  shows "Base64decode buf = Some (b64_plain (take n buf) @ [0], int (length (b64_plain (take n buf))))"
proof -
  have n: "n < length buf" using assms by (rule scan_bound)
  then obtain k where
    k: "decode_loop buf 0 n [] = Some (4 * k, n - 4 * k, b64_plain (take (4 * k) buf))"
      "n - 4 * k \<le> 4" "4 * k \<le> n"
    using decode_loop_ok [of 0 n buf "[]"] by auto
  have "take n buf = take (4 * k) buf @ take (n - 4 * k) (drop (4 * k) buf)"
    using take_add [of "4 * k" "n - 4 * k" buf] k(3) by simp
  then have plain: "b64_plain (take (4 * k) buf) @ b64_plain (take (n - 4 * k) (drop (4 * k) buf)) @ [0]
      = b64_plain (take n buf) @ [0]"
    using b64_plain_append [of "take (4 * k) buf"] k(3) n by simp
  have tail: "decode_tail buf (4 * k) (n - 4 * k) (b64_plain (take (4 * k) buf))
      = Some (b64_plain (take n buf) @ [0])"
    unfolding plain [symmetric] by (rule decode_tail_ok) (use k n in linarith)+
  have len: "(int n + 3) div 4 * 3 - ((4 - int (n - 4 * k)) mod 4)
      = int (length (b64_plain (take n buf)))"
    unfolding decoded_length [OF k(3,2)] length_b64_plain using n by simp
  show ?thesis
    unfolding Base64decode_def assms k(1) Option.bind.bind_lunit Let_def prod.case tail and_3 len ..
qed

section \<open>Properties\<close>

lemma Base64decode_len_bounds:
  assumes "scan buf = Some n"
  shows "\<exists>m. Base64decode_len buf = Some m
    \<and> int (length (b64_plain (take n buf))) + 1 \<le> m \<and> m \<le> int (length (b64_plain (take n buf))) + 4"
proof -
  have "length (take n buf) = n"
    using scan_bound [OF assms] by simp
  then have len: "length (b64_plain (take n buf)) = n div 4 * 3 + (n mod 4 - 1)"
    by (simp add: length_b64_plain)
  have "int (n div 4 * 3 + (n mod 4 - 1)) \<le> (int n + 3) div 4 * 3
      \<and> (int n + 3) div 4 * 3 \<le> int (n div 4 * 3 + (n mod 4 - 1)) + 3"
  proof -
    have "n mod 4 = 0 \<or> n mod 4 = 1 \<or> n mod 4 = 2 \<or> n mod 4 = 3" by linarith
    moreover have "int n = 4 * int (n div 4) + int (n mod 4)"
      by (metis div_mod_decomp mult.commute of_nat_add of_nat_mult of_nat_numeral)
    ultimately show ?thesis by (elim disjE) simp_all
  qed
  then show ?thesis
    unfolding Base64decode_len_def len using assms by simp
qed

lemma scan_total: "(\<exists>b \<in> set buf. 63 < six b) \<longleftrightarrow> (\<exists>n. scan buf = Some n)"
  by (induction buf) auto

text \<open>
  C22. Decoding gives back what was encoded. For every buffer and every length within it,
  \<open>Base64encode\<close> fills exactly \<open>Base64encode_len\<close> bytes, and \<open>Base64decode\<close> of that text,
  whatever memory follows it, stores the original bytes and a NUL and returns their number,
  on compilers with a signed and with an unsigned \<open>char\<close>.
\<close>

theorem base64_round_trip:
  assumes "n \<le> length str"
  shows "\<exists>enc. Base64encode sg str (int n) = Some (enc, Base64encode_len (int n))
      \<and> int (length enc) = Base64encode_len (int n)
      \<and> Base64decode (enc @ mem) = Some (take n str @ [0], int n)"
proof -
  let ?s = "take n str"
  let ?enc = "b64_core sg ?s @ b64_pad ?s @ [0]"
  have six0: "63 < six 0" by code_simp
  have pad: "\<forall>b \<in> set (b64_pad ?s). 63 < six b" by (simp add: b64_pad_def)
  obtain c ys where c: "b64_pad ?s @ [0] @ mem = c # ys" "63 < six c"
    using pad six0 by (cases "b64_pad ?s") auto
  have "scan (?enc @ mem) = Some (length (b64_core sg ?s))"
    using scan_append [of "b64_core sg ?s" c ys] c six_core by auto
  then have "Base64decode (?enc @ mem) = Some (?s @ [0], int n)"
    using assms by (simp add: Base64decode_ok b64_plain_core)
  moreover have "int (length ?enc) = Base64encode_len (int n)"
    using length_b64_core [of sg ?s] assms
    by (simp add: Base64encode_len_def sdiv_nonneg zdiv_int)
  ultimately show ?thesis
    using Base64encode_ok [OF assms] by blast
qed

theorem base64_round_trip_witness:
  "\<exists>enc. Base64encode True [0x56, 0x45, 0xFF, 0x80] 4 = Some (enc, 9)
     \<and> Base64decode (enc @ [7]) = Some ([0x56, 0x45, 0xFF, 0x80, 0], 4)"
  using base64_round_trip [of 4 "[0x56, 0x45, 0xFF, 0x80]" True "[7]"]
  by (auto simp: Base64encode_len_def sdiv_nonneg)

text \<open>
  Decoding hostile text is safe: on any text in which the scan meets a character outside the
  alphabet (a NUL is one), \<open>Base64decode\<close> reads nothing beyond it, stores at most
  \<open>Base64decode_len\<close> bytes, ends them with a NUL, and returns the number of bytes before it.
  \<open>Base64decode_len\<close> counts the NUL and up to three bytes more than are decoded.
\<close>

theorem base64_decode_bounds:
  assumes "\<exists>b \<in> set buf. 63 < six b"
  shows "\<exists>out r m. Base64decode buf = Some (out @ [0], r) \<and> Base64decode_len buf = Some m
      \<and> int (length out) = r \<and> r + 1 \<le> m \<and> m \<le> r + 4"
  using assms Base64decode_len_bounds Base64decode_ok unfolding scan_total by blast

theorem base64_decode_bounds_witness:
  "\<exists>out r m. Base64decode (map of_char ''VkU!'') = Some (out @ [0], r)
     \<and> Base64decode_len (map of_char ''VkU!'') = Some m
     \<and> int (length out) = r \<and> r + 1 \<le> m \<and> m \<le> r + 4"
proof (rule base64_decode_bounds)
  show "\<exists>b \<in> set (map of_char ''VkU!''). 63 < six b" by code_simp
qed

end
