(* ===== verification/Led.thy ===== *)
theory Led
  imports Audio Base64
begin

text \<open>
  The display lines of \<open>dev/led/led.c\<close> and the display manager of \<open>ve/dev/led.c\<close>: sixteen rows,
  each with a queue of lines and a countdown, served every ten milliseconds by the display
  thread. The linked lists are lists; a call of the \<open>refresh\<close> function of the selected model is
  recorded with its screen in \<open>shown\<close>, the latest first. The mutex makes every function one step.
\<close>

definition LED_MAX_LINES_NUM :: nat where "LED_MAX_LINES_NUM = 16"

definition LED_STYLE_IMMEDIATE :: u8 where "LED_STYLE_IMMEDIATE = 0"
definition LED_STYLE_SHIFT_LEFT :: u8 where "LED_STYLE_SHIFT_LEFT = 1"
definition LED_STYLE_END :: u8 where "LED_STYLE_END = 2"
definition LED_ACTION_CLR :: u8 where "LED_ACTION_CLR = 1"
definition LED_ACTION_DISP :: u8 where "LED_ACTION_DISP = 2"
definition LED_ACTION_AUDIO :: u8 where "LED_ACTION_AUDIO = 4"
definition LED_MODE_LINE :: u8 where "LED_MODE_LINE = 0"
definition LED_MODE_END :: u8 where "LED_MODE_END = 2"

definition LED_MODEL_DEGAO :: u8 where "LED_MODEL_DEGAO = 0"
definition LED_MODEL_FLY_EQ20131 :: u8 where "LED_MODEL_FLY_EQ20131 = 1"
definition LED_MODEL_LISTEN_A4 :: u8 where "LED_MODEL_LISTEN_A4 = 2"

text \<open>The strings of a line are the bytes before their NUL.\<close>

record led_line =
  idx :: u8
  mode :: u8
  action :: u8
  style :: u8
  duration :: u8
  color :: u32
  volume :: u8
  time_per_col :: u16
  cover :: bool
  ltext :: "u8 list"
  laudio :: "u8 list"

record line_info =
  delay :: int
  ls :: "led_line list"

record led_model =
  model_no :: u8
  nr_line_max :: nat

record ve_led =
  model :: led_model
  lock :: bool
  lines :: "line_info list"

text \<open>
  \<open>env_text\<close> is what the text array of a line that the code does not initialise holds,
  \<open>env_malloc\<close> whether the successive allocations succeed.
\<close>

record ledw = audiow +
  led :: ve_led
  user_content :: "u8 list"
  led_ve_mode :: u8
  led_cfg_model :: u8
  env_malloc :: "nat \<Rightarrow> bool"
  m_tick :: nat
  env_text :: "u8 list"
  shown :: "(u8 \<times> led_line list) list"

section \<open>Lines\<close>

definition led_line_have_action :: "led_line \<Rightarrow> u8 \<Rightarrow> bool" where
  "led_line_have_action line a \<longleftrightarrow> action line AND a \<noteq> 0"

definition led_line_param_chk :: "led_line \<Rightarrow> int" where
  "led_line_param_chk line =
     (if unat (idx line) > LED_MAX_LINES_NUM then - 22
      else if style line \<ge> LED_STYLE_END then - 22
      else if volume line > 100 then - 22
      else if mode line \<ge> LED_MODE_END then - 22
      else if action line AND LED_ACTION_AUDIO \<noteq> 0 \<and> length (laudio line) = 0 then - 22
      else if action line AND LED_ACTION_DISP \<noteq> 0 \<and> length (ltext line) = 0 then - 22
      else 0)"

text \<open>
  A line that the manager makes itself. The fields the code leaves unset are never read by a
  \<open>refresh\<close> function, apart from the text of a clearing line, which is \<open>env_text\<close>.
\<close>

definition own_line :: "u8 \<Rightarrow> nat \<Rightarrow> u8 list \<Rightarrow> led_line" where
  "own_line act i s =
     \<lparr>idx = of_nat i, mode = LED_MODE_LINE, action = act, style = LED_STYLE_IMMEDIATE, duration = 0,
      color = 0xFF0000, volume = 0, time_per_col = 100, cover = False, ltext = s, laudio = []\<rparr>"

section \<open>The manager\<close>

definition model_tab :: "led_model list" where
  "model_tab =
     [\<lparr>model_no = LED_MODEL_FLY_EQ20131, nr_line_max = 4\<rparr>,
      \<lparr>model_no = LED_MODEL_DEGAO, nr_line_max = 1\<rparr>,
      \<lparr>model_no = LED_MODEL_LISTEN_A4, nr_line_max = 4\<rparr>]"

definition upd_led :: "(ve_led \<Rightarrow> ve_led) \<Rightarrow> ('z ledw_scheme, unit) state" where
  "upd_led f = writes (\<lambda>w. w\<lparr>led := f (led w)\<rparr>)"

definition upd_info :: "nat \<Rightarrow> (line_info \<Rightarrow> line_info) \<Rightarrow> ('z ledw_scheme, unit) state" where
  "upd_info i f = upd_led (\<lambda>l. l\<lparr>lines := (lines l)[i := f (lines l ! i)]\<rparr>)"

definition refresh :: "led_line list \<Rightarrow> ('z ledw_scheme, unit) state" where
  "refresh screen = writes (\<lambda>w. w\<lparr>shown := (model_no (model (led w)), screen) # shown w\<rparr>)"

definition ve_led_set_lock :: "bool \<Rightarrow> ('z ledw_scheme, unit) state" where
  "ve_led_set_lock lk = do {
     upd_led (\<lambda>l. l\<lparr>lock := lk\<rparr>);
     (if lk then upd_led (\<lambda>l. l\<lparr>lines := map (\<lambda>info. info\<lparr>delay := 0\<rparr>) (lines l)\<rparr>) else ret ()) }"

text \<open>
  The loop of \<open>__led_add_lines\<close>: how many lines were queued, or \<open>None\<close> when the row of a checked
  line lies outside the array.
\<close>

fun add_loop :: "led_line list \<Rightarrow> int \<Rightarrow> ('z ledw_scheme, int option) state" where
  "add_loop [] cnt = ret (Some cnt)"
| "add_loop (line # rest) cnt =
     (if led_line_param_chk line = 0
      then do {
        n \<leftarrow> reads (\<lambda>w. length (lines (led w)));
        (if unat (idx line) < n
         then do {
           upd_info (unat (idx line)) (\<lambda>info. info\<lparr>ls := ls info @ [line]\<rparr>);
           add_loop rest (cnt + 1) }
         else ret None) }
      else add_loop rest cnt)"

definition led_add_lines :: "led_line list \<Rightarrow> ('z ledw_scheme, int option) state" where
  "led_add_lines ln = do {
     lk \<leftarrow> reads (lock \<circ> led);
     (if lk then ret (Some 0) else add_loop ln 0) }"

definition led_get_max_line_num :: "('z ledw_scheme, nat) state" where
  "led_get_max_line_num = reads (\<lambda>w. min (nr_line_max (model (led w))) LED_MAX_LINES_NUM)"

definition led_disp_a_line :: "nat \<Rightarrow> u8 list \<Rightarrow> ('z ledw_scheme, unit) state" where
  "led_disp_a_line i s = refresh [own_line LED_ACTION_DISP i (take 1023 s)]"

definition led_disp_clear_a_line :: "nat \<Rightarrow> ('z ledw_scheme, unit) state" where
  "led_disp_clear_a_line i = do {
     junk \<leftarrow> reads env_text;
     refresh [own_line LED_ACTION_CLR i junk] }"

definition led_malloc_ok :: "('z ledw_scheme, bool) state" where
  "led_malloc_ok = do {
     b \<leftarrow> reads (\<lambda>w. env_malloc w (m_tick w));
     writes (\<lambda>w. w\<lparr>m_tick := Suc (m_tick w)\<rparr>);
     ret b }"

fun clear_lines :: "nat list \<Rightarrow> ('z ledw_scheme, led_line list) state" where
  "clear_lines [] = ret []"
| "clear_lines (i # is) = do {
     ok \<leftarrow> led_malloc_ok;
     junk \<leftarrow> reads env_text;
     rest \<leftarrow> clear_lines is;
     ret (if ok then own_line LED_ACTION_CLR i junk # rest else rest) }"

definition led_disp_clear :: "('z ledw_scheme, unit) state" where
  "led_disp_clear = do {
     n \<leftarrow> led_get_max_line_num;
     screen \<leftarrow> clear_lines [0..<n];
     refresh screen }"

definition VE_MODE_IN :: u8 where "VE_MODE_IN = 0"

definition led_disp_init :: "('z ledw_scheme, unit) state" where
  "led_disp_init = do {
     first \<leftarrow> reads user_content;
     vm \<leftarrow> reads led_ve_mode;
     let second = (if vm = VE_MODE_IN then [0xC4, 0xFA, 0xBA, 0xC3]
                   else [0xD2, 0xBB, 0xC2, 0xB7, 0xCB, 0xB3, 0xB7, 0xE7]);
     led_disp_clear;
     led_disp_a_line 0 first;
     led_disp_a_line 1 second }"

text \<open>\<open>find_curr_line\<close> keeps only the last line of a queue and returns it.\<close>

definition find_curr_line :: "nat \<Rightarrow> ('z ledw_scheme, led_line option) state" where
  "find_curr_line i = do {
     q \<leftarrow> reads (\<lambda>w. ls (lines (led w) ! i));
     (case q of
        [] \<Rightarrow> ret None
      | _ # _ \<Rightarrow> do {
          upd_info i (\<lambda>info. info\<lparr>ls := [last q]\<rparr>);
          ret (Some (last q)) }) }"

text \<open>
  The audio of a line, which is NUL terminated in its array: the length passed on is
  \<open>Base64decode_len\<close>, the buffer holds what \<open>Base64decode\<close> stored. A read past the array is \<open>None\<close>.
\<close>

definition line_audio :: "led_line \<Rightarrow> audio_param option" where
  "line_audio line = do {
     len \<leftarrow> Base64decode_len (laudio line @ [0]);
     (out, n) \<leftarrow> Base64decode (laudio line @ [0]);
     Some \<lparr>ap_volume = volume line, flag = AUDIO_BUF, ap_len = len, ap_buf = out\<rparr> }"

definition led_play :: "led_line \<Rightarrow> ('z ledw_scheme, unit) state" where
  "led_play line = do {
     ok \<leftarrow> led_malloc_ok;
     (if ok
      then (case line_audio line of
              Some ap \<Rightarrow>
                (if ap_len ap \<le> AUDIO_BUF_SIZE
                 then do {
                   ap' \<leftarrow> audio_adjust_param ap;
                   audio_put ap';
                   ret () }
                 else ret ())
            | None \<Rightarrow> ret ())
      else ret ()) }"

definition refresh_row :: "nat \<Rightarrow> led_line list \<Rightarrow> ('z ledw_scheme, led_line list) state" where
  "refresh_row i screen = do {
     d \<leftarrow> reads (\<lambda>w. delay (lines (led w) ! i));
     (if d > 0 then upd_info i (\<lambda>info. info\<lparr>delay := delay info - 1\<rparr>)
      else if d = 0 then do {
        led_disp_clear_a_line i;
        upd_info i (\<lambda>info. info\<lparr>delay := - 1\<rparr>) }
      else ret ());
     line \<leftarrow> find_curr_line i;
     (case line of
        None \<Rightarrow> ret screen
      | Some line \<Rightarrow> do {
          d \<leftarrow> reads (\<lambda>w. delay (lines (led w) ! i));
          (if duration line > 0 \<or> d = - 1 \<or> cover line
           then do {
             upd_info i (\<lambda>info. info\<lparr>ls := []\<rparr>);
             (if led_line_have_action line LED_ACTION_DISP
              then upd_info i (\<lambda>info. info\<lparr>delay :=
                     (if duration line > 0 then (uint (duration line) + 2) * 100 else - 1)\<rparr>)
              else ret ());
             (if led_line_have_action line LED_ACTION_AUDIO then led_play line else ret ());
             ret (screen @ [line]) }
           else ret screen) }) }"

fun refresh_rows :: "nat list \<Rightarrow> led_line list \<Rightarrow> ('z ledw_scheme, led_line list) state" where
  "refresh_rows [] screen = ret screen"
| "refresh_rows (i # is) screen = do {
     screen' \<leftarrow> refresh_row i screen;
     refresh_rows is screen' }"

definition led_refresh_daemon :: "('z ledw_scheme, unit) state" where
  "led_refresh_daemon = do {
     n \<leftarrow> reads (\<lambda>w. length (lines (led w)));
     screen \<leftarrow> refresh_rows [0..<n] [];
     (if screen \<noteq> [] then refresh screen else ret ()) }"

definition led_model_search :: "u8 \<Rightarrow> led_model option" where
  "led_model_search m = List.find (\<lambda>p. model_no p = m) model_tab"

definition led_set_model :: "u8 \<Rightarrow> ('z ledw_scheme, unit) state" where
  "led_set_model m =
     upd_led (\<lambda>l. l\<lparr>model := (case led_model_search m of Some p \<Rightarrow> p | None \<Rightarrow> model_tab ! 0)\<rparr>)"

definition ve_led_ram_init :: "('z ledw_scheme, unit) state" where
  "ve_led_ram_init = do {
     upd_led (\<lambda>l. l\<lparr>lines := map (\<lambda>_. \<lparr>delay = - 1, ls = []\<rparr>) [0..<LED_MAX_LINES_NUM]\<rparr>);
     m \<leftarrow> reads led_cfg_model;
     led_set_model m;
     upd_led (\<lambda>l. l\<lparr>lock := False\<rparr>) }"

lemmas led_defs = upd_led_def upd_info_def refresh_def ve_led_set_lock_def led_add_lines_def
  led_disp_clear_a_line_def led_malloc_ok_def find_curr_line_def led_play_def refresh_row_def

end
