(* ===== verification/Led_Correct.thy ===== *)
theory Led_Correct
  imports Led
begin

text \<open>
  What the display thread does, row by row: \<open>row_pass\<close> is the specification of one pass over one
  row, without lists of rows, screens or effects, and the daemon refines it. From it follow how
  long a line stays on the display and that every queued line is shown or superseded.
\<close>

section \<open>One pass over one row\<close>

definition countdown :: "int \<Rightarrow> int" where
  "countdown d = (if d > 0 then d - 1 else if d = 0 then - 1 else d)"

definition due :: "line_info \<Rightarrow> led_line option" where
  "due info =
     (if ls info = [] then None
      else if duration (last (ls info)) > 0 \<or> countdown (delay info) = - 1 \<or> cover (last (ls info))
      then Some (last (ls info)) else None)"

definition shown_delay :: "led_line \<Rightarrow> int \<Rightarrow> int" where
  "shown_delay line d =
     (if led_line_have_action line LED_ACTION_DISP
      then (if duration line > 0 then (uint (duration line) + 2) * 100 else - 1) else d)"

definition row_pass :: "line_info \<Rightarrow> line_info" where
  "row_pass info =
     (case due info of
        Some line \<Rightarrow> \<lparr>delay = shown_delay line (countdown (delay info)), ls = []\<rparr>
      | None \<Rightarrow> \<lparr>delay = countdown (delay info), ls = (if ls info = [] then [] else [last (ls info)])\<rparr>)"

definition clearing :: "'z ledw_scheme \<Rightarrow> nat \<Rightarrow> (u8 \<times> led_line list) list" where
  "clearing w i =
     (if delay (lines (led w) ! i) = 0
      then [(model_no (model (led w)), [own_line LED_ACTION_CLR i (env_text w)])] else [])"

definition due_line :: "'z ledw_scheme \<Rightarrow> nat \<Rightarrow> led_line list" where
  "due_line w i = (case due (lines (led w) ! i) of Some l \<Rightarrow> [l] | None \<Rightarrow> [])"

section \<open>The daemon refines the row specification\<close>

lemma led_play_frame:
  "led (exec (led_play line) w) = led w"
  "shown (exec (led_play line) w) = shown w"
  "env_text (exec (led_play line) w) = env_text w"
  by (simp_all add: led_play_def led_malloc_ok_def audio_adjust_param_def audio_put_def drv_def
      split: option.split)

lemma refresh_row_eval:
  assumes "i < length (lines (led w))"
  shows "eval (refresh_row i screen) w = screen @ due_line w i"
  using assms
  by (auto simp: refresh_row_def find_curr_line_def upd_info_def upd_led_def refresh_def
      led_disp_clear_a_line_def due_line_def due_def countdown_def split: list.splits)

lemma refresh_row_exec:
  assumes "i < length (lines (led w))"
  shows "led (exec (refresh_row i screen) w) = (led w)\<lparr>lines := (lines (led w))[i := row_pass (lines (led w) ! i)]\<rparr>"
    and "shown (exec (refresh_row i screen) w) = clearing w i @ shown w"
    and "env_text (exec (refresh_row i screen) w) = env_text w"
proof -
  note d = refresh_row_def find_curr_line_def upd_info_def upd_led_def refresh_def
      led_disp_clear_a_line_def led_play_frame
  show "led (exec (refresh_row i screen) w) = (led w)\<lparr>lines := (lines (led w))[i := row_pass (lines (led w) ! i)]\<rparr>"
    using assms
    by (cases "lines (led w) ! i"; cases "ls (lines (led w) ! i)")
      (auto simp: d row_pass_def due_def countdown_def shown_delay_def intro!: ve_led.equality, metis list_update_id)
  show "shown (exec (refresh_row i screen) w) = clearing w i @ shown w"
    using assms by (auto simp: d clearing_def split: list.splits)
  show "env_text (exec (refresh_row i screen) w) = env_text w"
    using assms by (auto simp: d split: list.splits)
qed

text \<open>A run of rows: those from \<open>a\<close> to \<open>b\<close> are passed, each on its own state of before.\<close>

lemma refresh_rows_run:
  assumes "b \<le> length (lines (led w))"
  shows "eval (refresh_rows [a..<b] screen) w = screen @ concat (map (due_line w) [a..<b])
    \<and> led (exec (refresh_rows [a..<b] screen) w)
      = (led w)\<lparr>lines := map (\<lambda>j. if a \<le> j \<and> j < b then row_pass (lines (led w) ! j) else lines (led w) ! j)
                           [0..<length (lines (led w))]\<rparr>
    \<and> shown (exec (refresh_rows [a..<b] screen) w) = concat (rev (map (clearing w) [a..<b])) @ shown w
    \<and> env_text (exec (refresh_rows [a..<b] screen) w) = env_text w"
  using assms
proof (induction "b - a" arbitrary: a screen w)
  case 0
  then have nil: "[a..<b] = []" by simp
  have "map (\<lambda>j. if a \<le> j \<and> j < b then row_pass (lines (led w) ! j) else lines (led w) ! j)
      [0..<length (lines (led w))] = lines (led w)"
    using 0 by (intro nth_equalityI) auto
  then show ?case unfolding nil by simp
next
  case (Suc n)
  then have ab: "a < b" "[a..<b] = a # [Suc a..<b]" by (auto simp: upt_conv_Cons)
  let ?w = "exec (refresh_row a screen) w"
  have a: "a < length (lines (led w))" using ab Suc.prems by simp
  note row = refresh_row_eval [OF a, of screen] refresh_row_exec [OF a, of screen]
  have len: "length (lines (led ?w)) = length (lines (led w))"
    and same: "\<And>j. j \<noteq> a \<Longrightarrow> lines (led ?w) ! j = lines (led w) ! j"
    and at: "lines (led ?w) ! a = row_pass (lines (led w) ! a)"
    using a by (simp_all add: row)
  have dl: "map (due_line ?w) [Suc a..<b] = map (due_line w) [Suc a..<b]"
    and cl: "map (clearing ?w) [Suc a..<b] = map (clearing w) [Suc a..<b]"
    by (auto simp: due_line_def clearing_def same row)
  note IH = Suc.hyps(1) [of "Suc a" ?w "screen @ due_line w a"]
  have "b \<le> length (lines (led ?w))" using Suc.prems len by simp
  with IH Suc.hyps(2) show ?case
    using a unfolding ab(2)
    by (auto simp: dl cl row nth_list_update intro!: ve_led.equality nth_equalityI)
qed

definition screen_of :: "'z ledw_scheme \<Rightarrow> led_line list" where
  "screen_of w = concat (map (due_line w) [0..<length (lines (led w))])"

definition clearings :: "'z ledw_scheme \<Rightarrow> (u8 \<times> led_line list) list" where
  "clearings w = concat (rev (map (clearing w) [0..<length (lines (led w))]))"

lemma daemon_led: "led (exec led_refresh_daemon w) = (led w)\<lparr>lines := map row_pass (lines (led w))\<rparr>"
proof -
  have "map (\<lambda>j. if 0 \<le> j \<and> j < length (lines (led w)) then row_pass (lines (led w) ! j) else lines (led w) ! j)
      [0..<length (lines (led w))] = map row_pass (lines (led w))"
    by (intro nth_equalityI) auto
  then show ?thesis
    using refresh_rows_run [of "length (lines (led w))" w 0 "[]"]
    by (simp add: led_refresh_daemon_def refresh_def)
qed

lemma daemon_shown:
  "shown (exec led_refresh_daemon w)
     = (if screen_of w = [] then [] else [(model_no (model (led w)), screen_of w)]) @ clearings w @ shown w"
  using refresh_rows_run [of "length (lines (led w))" w 0 "[]"]
  by (simp add: led_refresh_daemon_def refresh_def screen_of_def clearings_def)

lemma daemon_env_text: "env_text (exec led_refresh_daemon w) = env_text w"
  using refresh_rows_run [of "length (lines (led w))" w 0 "[]"]
  by (simp add: led_refresh_daemon_def refresh_def)

section \<open>Reachable states of the display\<close>

text \<open>Queues and countdowns as they can be: sixteen rows, a line in the row of its index.\<close>

definition line_ok :: "nat \<Rightarrow> led_line \<Rightarrow> bool" where
  "line_ok i l \<longleftrightarrow> unat (idx l) = i \<and> led_line_param_chk l = 0"

definition led_inv :: "'z ledw_scheme \<Rightarrow> bool" where
  "led_inv w \<longleftrightarrow> length (lines (led w)) = LED_MAX_LINES_NUM
     \<and> (\<forall>i < length (lines (led w)). - 1 \<le> delay (lines (led w) ! i) \<and> delay (lines (led w) ! i) \<le> 25700
          \<and> (\<forall>l \<in> set (ls (lines (led w) ! i)). line_ok i l))"

text \<open>
  The steps of the display: the start (\<open>ve_led_ram_init\<close>, then \<open>led_disp_init\<close> in the thread), a
  pass of the daemon, and the calls of the other threads; a call of \<open>led_add_lines\<close> is a step
  when it stays within the array.
\<close>

inductive led_reach :: "'z ledw_scheme \<Rightarrow> bool" where
  start: "led_reach (exec led_disp_init (exec ve_led_ram_init w))"
| pass: "led_reach w \<Longrightarrow> led_reach (exec led_refresh_daemon w)"
| add: "led_reach w \<Longrightarrow> eval (led_add_lines ln) w \<noteq> None \<Longrightarrow> led_reach (exec (led_add_lines ln) w)"
| lock: "led_reach w \<Longrightarrow> led_reach (exec (ve_led_set_lock b) w)"
| model: "led_reach w \<Longrightarrow> led_reach (exec (led_set_model m) w)"

lemma clear_lines_led: "led (exec (clear_lines is) w) = led w"
  by (induction "is" arbitrary: w) (simp_all add: led_malloc_ok_def)

lemma led_disp_init_led: "led (exec led_disp_init w) = led w"
  by (simp add: led_disp_init_def led_disp_clear_def led_disp_a_line_def refresh_def
      led_get_max_line_num_def clear_lines_led Let_def)

lemma row_pass_delay:
  assumes "- 1 \<le> delay info" "delay info \<le> 25700"
  shows "- 1 \<le> delay (row_pass info) \<and> delay (row_pass info) \<le> 25700"
proof -
  have "uint (duration l) \<le> 255" for l
    using uint_bounded [of "duration l"] by simp
  then show ?thesis
    using assms by (auto simp: row_pass_def countdown_def shown_delay_def split: option.split)
qed

lemma row_pass_ls: "l \<in> set (ls (row_pass info)) \<Longrightarrow> l \<in> set (ls info)"
  by (auto simp: row_pass_def split: option.splits if_splits)

lemma pass_inv: "led_inv w \<Longrightarrow> led_inv (exec led_refresh_daemon w)"
  unfolding led_inv_def daemon_led
  by (auto intro: row_pass_delay [THEN conjunct1] row_pass_delay [THEN conjunct2] dest!: row_pass_ls)

lemma add_loop_inv:
  "led_inv w \<Longrightarrow> eval (add_loop ln c) w \<noteq> None \<Longrightarrow> led_inv (exec (add_loop ln c) w)"
proof (induction ln c arbitrary: w rule: add_loop.induct)
  case (2 line rest cnt)
  let ?w = "exec (upd_info (unat (idx line)) (\<lambda>info. info\<lparr>ls := ls info @ [line]\<rparr>)) w"
  have "led_inv ?w" if "led_line_param_chk line = 0" "unat (idx line) < length (lines (led w))"
    using that 2(3) by (auto simp: led_inv_def upd_info_def upd_led_def nth_list_update line_ok_def)
  then show ?case using 2 by (simp split: if_splits)
qed simp

lemma reach_inv: "led_reach w \<Longrightarrow> led_inv w"
proof (induction rule: led_reach.induct)
  case (start w)
  then show ?case
    by (simp add: led_inv_def led_disp_init_led ve_led_ram_init_def upd_led_def led_set_model_def)
next
  case (add w ln)
  then show ?case by (auto simp: led_add_lines_def split: if_splits intro: add_loop_inv)
next
  case (lock w b)
  then show ?case by (auto simp: led_inv_def ve_led_set_lock_def upd_led_def)
next
  case (model w m)
  then show ?case by (auto simp: led_inv_def led_set_model_def upd_led_def)
qed (rule pass_inv)

section \<open>Queueing\<close>

text \<open>
  Lines that stay within the array are appended to the queues of their rows in the order given,
  those that fail the check are dropped.
\<close>

definition good_line :: "led_line \<Rightarrow> bool" where
  "good_line l \<longleftrightarrow> led_line_param_chk l = 0 \<and> unat (idx l) < LED_MAX_LINES_NUM"

lemma add_loop_ok:
  assumes "length (lines (led w)) = LED_MAX_LINES_NUM"
    and "\<forall>l \<in> set ln. led_line_param_chk l = 0 \<longrightarrow> good_line l"
  shows "eval (add_loop ln c) w = Some (c + int (length (filter (\<lambda>l. led_line_param_chk l = 0) ln)))
    \<and> led (exec (add_loop ln c) w) = (led w)\<lparr>lines := map (\<lambda>i. (lines (led w) ! i)\<lparr>ls := ls (lines (led w) ! i)
         @ filter (\<lambda>l. led_line_param_chk l = 0 \<and> unat (idx l) = i) ln\<rparr>) [0..<LED_MAX_LINES_NUM]\<rparr>"
  using assms
proof (induction ln c arbitrary: w rule: add_loop.induct)
  case (1 cnt)
  then show ?case by (auto intro!: ve_led.equality nth_equalityI)
next
  case (2 line rest cnt)
  show ?case
  proof (cases "led_line_param_chk line = 0")
    case True
    let ?w = "exec (upd_info (unat (idx line)) (\<lambda>info. info\<lparr>ls := ls info @ [line]\<rparr>)) w"
    have i: "unat (idx line) < length (lines (led w))"
      using 2 True by (simp add: good_line_def)
    have w: "led ?w = (led w)\<lparr>lines := (lines (led w))[unat (idx line) :=
        (lines (led w) ! unat (idx line))\<lparr>ls := ls (lines (led w) ! unat (idx line)) @ [line]\<rparr>]\<rparr>"
      by (simp add: upd_info_def upd_led_def)
    note IH = 2(1) [OF True, of _ ?w]
    then show ?thesis
      using 2(3,4) True i
      by (auto simp: w nth_list_update intro!: ve_led.equality nth_equalityI)
  next
    case False
    then show ?thesis using 2 by simp
  qed
qed

section \<open>A display with one busy row\<close>

definition idle_row :: line_info where
  "idle_row = \<lparr>delay = - 1, ls = []\<rparr>"

definition only_row :: "'z ledw_scheme \<Rightarrow> nat \<Rightarrow> line_info \<Rightarrow> bool" where
  "only_row w i info \<longleftrightarrow> i < LED_MAX_LINES_NUM
     \<and> lines (led w) = (replicate LED_MAX_LINES_NUM idle_row)[i := info]"

lemma row_pass_idle [simp]: "row_pass idle_row = idle_row" "due idle_row = None"
  by (simp_all add: row_pass_def due_def idle_row_def countdown_def)

lemma concat_single:
  assumes "\<And>j. j < n \<Longrightarrow> j \<noteq> i \<Longrightarrow> f j = []" and "i < n"
  shows "concat (map f [0..<n]) = f i" and "concat (rev (map f [0..<n])) = f i"
proof -
  have up: "[0..<n] = [0..<i] @ i # [Suc i..<n]"
    using assms(2) upt_add_eq_append [of 0 i "n - i"] upt_conv_Cons [of i n] by simp
  have "concat (map f [0..<i]) = []" "concat (map f [Suc i..<n]) = []"
    "concat (rev (map f [0..<i])) = []" "concat (rev (map f [Suc i..<n])) = []"
    using assms by auto
  then show "concat (map f [0..<n]) = f i" "concat (rev (map f [0..<n])) = f i"
    unfolding up by (simp_all del: concat_eq_Nil_conv)
qed

lemma only_row_pass:
  assumes "only_row w i info"
  shows "only_row (exec led_refresh_daemon w) i (row_pass info)"
    and "shown (exec led_refresh_daemon w)
      = (case due info of Some l \<Rightarrow> [(model_no (model (led w)), [l])] | None \<Rightarrow> [])
        @ (if delay info = 0 then [(model_no (model (led w)), [own_line LED_ACTION_CLR i (env_text w)])] else [])
        @ shown w"
    and "model (led (exec led_refresh_daemon w)) = model (led w)"
    and "env_text (exec led_refresh_daemon w) = env_text w"
proof -
  note o = assms [unfolded only_row_def]
  show "only_row (exec led_refresh_daemon w) i (row_pass info)"
    using o by (simp add: only_row_def daemon_led map_update)
  have i: "i < length (lines (led w))" and at: "lines (led w) ! i = info"
    and idle: "\<And>j. j < length (lines (led w)) \<Longrightarrow> j \<noteq> i \<Longrightarrow> lines (led w) ! j = idle_row"
    using o by simp_all
  have "screen_of w = due_line w i"
    unfolding screen_of_def by (rule concat_single(1)) (simp_all add: i due_line_def idle)
  moreover have "clearings w = clearing w i"
    unfolding clearings_def by (rule concat_single(2)) (simp_all add: i clearing_def idle, simp add: idle_row_def)
  ultimately show "shown (exec led_refresh_daemon w)
      = (case due info of Some l \<Rightarrow> [(model_no (model (led w)), [l])] | None \<Rightarrow> [])
        @ (if delay info = 0 then [(model_no (model (led w)), [own_line LED_ACTION_CLR i (env_text w)])] else [])
        @ shown w"
    using at by (auto simp: daemon_shown due_line_def clearing_def split: option.split)
qed (simp_all add: daemon_led daemon_env_text)

definition dark_ledw :: ledw where
  "dark_ledw = \<lparr>audio = \<lparr>a_dev = Some AUDIO_MODEL_OFF, a_volume = 50\<rparr>, audio_cfg_volume = 50,
     env_drv = (\<lambda>_. 0), drv_tick = 0, drv_log = [],
     led = \<lparr>model = \<lparr>model_no = 2, nr_line_max = 4\<rparr>, lock = False, lines = replicate 16 idle_row\<rparr>,
     user_content = [0x41], led_ve_mode = 0, led_cfg_model = 2, env_malloc = (\<lambda>_. True), m_tick = 0,
     env_text = [0x20], shown = []\<rparr>"

definition hello_line :: led_line where
  "hello_line = \<lparr>idx = 1, mode = 0, action = 2, style = 0, duration = 3, color = 0xFF0000, volume = 10,
     time_per_col = 100, cover = False, ltext = [0x48, 0x69], laudio = []\<rparr>"

definition hello_ledw :: ledw where
  "hello_ledw = exec (led_add_lines [hello_line]) (exec led_disp_init (exec ve_led_ram_init dark_ledw))"

lemma hello_chk: "led_line_param_chk hello_line = 0" "unat (idx hello_line) = 1"
  by (simp_all add: led_line_param_chk_def hello_line_def LED_MAX_LINES_NUM_def LED_STYLE_END_def
      LED_MODE_END_def LED_ACTION_AUDIO_def LED_ACTION_DISP_def)

lemma boot_led: "lines (led (exec led_disp_init (exec ve_led_ram_init w))) = replicate LED_MAX_LINES_NUM idle_row"
  "lock (led (exec led_disp_init (exec ve_led_ram_init w))) = False"
  by (simp_all add: led_disp_init_led ve_led_ram_init_def upd_led_def led_set_model_def map_replicate_const
      idle_row_def)

lemma hello_reach: "led_reach hello_ledw"
  unfolding hello_ledw_def
  by (rule led_reach.add [OF led_reach.start])
    (simp add: led_add_lines_def boot_led hello_chk LED_MAX_LINES_NUM_def)

lemma hello_rows: "only_row hello_ledw 1 \<lparr>delay = - 1, ls = [hello_line]\<rparr>"
  by (simp add: hello_ledw_def led_add_lines_def boot_led hello_chk only_row_def LED_MAX_LINES_NUM_def
      upd_info_def upd_led_def) (simp add: idle_row_def)

lemma countdown_run:
  assumes "only_row w i \<lparr>delay = int d, ls = []\<rparr>" and "k \<le> d"
  shows "only_row (exec_n k led_refresh_daemon w) i \<lparr>delay = int (d - k), ls = []\<rparr>
    \<and> shown (exec_n k led_refresh_daemon w) = shown w
    \<and> model (led (exec_n k led_refresh_daemon w)) = model (led w)
    \<and> env_text (exec_n k led_refresh_daemon w) = env_text w"
  using assms
proof (induction k arbitrary: w d)
  case (Suc k)
  then obtain d' where d: "d = Suc d'" by (cases d) auto
  have "row_pass \<lparr>delay = int d, ls = []\<rparr> = \<lparr>delay = int d', ls = []\<rparr>"
    "due \<lparr>delay = int d, ls = []\<rparr> = None"
    by (simp_all add: d row_pass_def due_def countdown_def)
  then show ?case
    using only_row_pass [OF Suc.prems(1)] Suc.IH [of "exec led_refresh_daemon w" d'] Suc.prems(2) d by simp
qed simp

text \<open>
  How long a line stays: on a display whose other rows are idle, a line with a duration of
  \<open>n\<close> seconds that is the newest of its row is shown by the next pass, nothing is sent for the
  \<open>100 (n + 2)\<close> passes after it (one every ten milliseconds), the pass after those clears the row
  with one command, and the display is idle again.
\<close>

theorem timed_line_is_shown_and_cleared:
  fixes w :: "'z ledw_scheme"
  assumes "only_row w i \<lparr>delay = - 1, ls = q\<rparr>" and "q \<noteq> []"
    and "0 < duration (last q)" and "led_line_have_action (last q) LED_ACTION_DISP"
  defines "n \<equiv> (unat (duration (last q)) + 2) * 100"
    and "m \<equiv> model_no (model (led w))"
    and "passes \<equiv> (\<lambda>k. exec_n k led_refresh_daemon w)"
  shows "(\<forall>k. 1 \<le> k \<and> k \<le> n + 1 \<longrightarrow> shown (passes k) = (m, [last q]) # shown w)
    \<and> shown (passes (n + 2)) = (m, [own_line LED_ACTION_CLR i (env_text w)]) # (m, [last q]) # shown w
    \<and> only_row (passes (n + 2)) i idle_row"
proof -
  let ?w1 = "exec led_refresh_daemon w"
  have n: "int n = (uint (duration (last q)) + 2) * 100"
    by (simp add: n_def)
  have "due \<lparr>delay = - 1, ls = q\<rparr> = Some (last q)"
    "row_pass \<lparr>delay = - 1, ls = q\<rparr> = \<lparr>delay = int n, ls = []\<rparr>"
    using assms(2-4) unfolding n by (simp_all add: due_def row_pass_def shown_delay_def)
  then have w1: "only_row ?w1 i \<lparr>delay = int n, ls = []\<rparr>" "shown ?w1 = (m, [last q]) # shown w"
      "model (led ?w1) = model (led w)" "env_text ?w1 = env_text w"
    using only_row_pass [OF assms(1)] by (simp_all add: m_def)
  have "shown (passes k) = (m, [last q]) # shown w" if "1 \<le> k" "k \<le> n + 1" for k
    using countdown_run [OF w1(1), of "k - 1"] that w1(2) by (cases k) (simp_all add: passes_def)
  moreover let ?wn = "passes (n + 1)"
  have wn: "only_row ?wn i \<lparr>delay = 0, ls = []\<rparr>" "shown ?wn = (m, [last q]) # shown w"
      "model (led ?wn) = model (led w)" "env_text ?wn = env_text w"
    using countdown_run [OF w1(1), of n] w1 by (simp_all add: passes_def)
  have "passes (n + 2) = exec led_refresh_daemon ?wn"
    using exec_n_add [of "n + 1" 1] by (simp add: passes_def)
  moreover have "row_pass \<lparr>delay = 0, ls = []\<rparr> = idle_row" "due \<lparr>delay = 0, ls = []\<rparr> = None"
    by (simp_all add: row_pass_def due_def countdown_def idle_row_def)
  ultimately show ?thesis
    using only_row_pass [OF wn(1)] wn(2-4) by (simp add: m_def)
qed

theorem timed_line_is_shown_and_cleared_witness:
  "shown (exec_n 502 led_refresh_daemon hello_ledw)
     = (model_no (model (led hello_ledw)), [own_line LED_ACTION_CLR 1 (env_text hello_ledw)])
       # (model_no (model (led hello_ledw)), [hello_line]) # shown hello_ledw"
  using timed_line_is_shown_and_cleared [OF hello_rows]
  by (simp add: led_line_have_action_def hello_line_def LED_ACTION_DISP_def)

section \<open>Every queued line is shown or superseded\<close>

lemma rows_run:
  "i < length (lines (led w)) \<Longrightarrow> lines (led (exec_n k led_refresh_daemon w)) ! i = (row_pass ^^ k) (lines (led w) ! i)"
  by (induction k arbitrary: w) (simp_all add: daemon_led funpow_swap1)

lemma run_length: "length (lines (led (exec_n k led_refresh_daemon w))) = length (lines (led w))"
  by (induction k arbitrary: w) (simp_all add: daemon_led)

lemma waiting_line_comes_due:
  assumes "- 1 \<le> delay info" and "ls info \<noteq> []"
  shows "\<exists>k \<le> nat (delay info). due ((row_pass ^^ k) info) = Some (last (ls info))"
  using assms
proof (induction "nat (delay info)" arbitrary: info)
  case 0
  then have "due info = Some (last (ls info))"
    by (auto simp: due_def countdown_def)
  then show ?case by (intro exI [of _ 0]) simp
next
  case (Suc n)
  show ?case
  proof (cases "due info")
    case None
    with Suc have "row_pass info = \<lparr>delay = delay info - 1, ls = [last (ls info)]\<rparr>"
      by (auto simp: row_pass_def countdown_def)
    moreover have "n = nat (delay info - 1)" "- 1 \<le> delay info - 1"
      using Suc.hyps(2) by simp_all
    ultimately obtain k where "k \<le> n" "due ((row_pass ^^ k) (row_pass info)) = Some (last (ls info))"
      using Suc.hyps(1) [of "row_pass info"] by auto
    then show ?thesis
      using Suc.hyps(2) by (intro exI [of _ "Suc k"]) (simp add: funpow_swap1)
  next
    case (Some l)
    then have "l = last (ls info)" by (auto simp: due_def split: if_splits)
    with Some show ?thesis by (intro exI [of _ 0]) simp
  qed
qed

lemma due_is_shown:
  assumes "i < length (lines (led w))" and "due (lines (led w) ! i) = Some l"
  shows "\<exists>screen. shown (exec led_refresh_daemon w) = (model_no (model (led w)), screen) # clearings w @ shown w
    \<and> l \<in> set screen"
proof -
  have "l \<in> set (screen_of w)"
    using assms by (auto simp: screen_of_def due_line_def intro!: bexI [of _ i])
  then show ?thesis by (auto simp: daemon_shown)
qed

lemma newest_line_comes_due:
  assumes "led_reach w" and "i < LED_MAX_LINES_NUM" and "ls (lines (led w) ! i) \<noteq> []"
  shows "\<exists>k \<le> 25700. due (lines (led (exec_n k led_refresh_daemon w)) ! i) = Some (last (ls (lines (led w) ! i)))"
proof -
  have inv: "i < length (lines (led w))"
      "- 1 \<le> delay (lines (led w) ! i)" "delay (lines (led w) ! i) \<le> 25700"
    using reach_inv [OF assms(1)] assms(2) by (auto simp: led_inv_def)
  obtain k where "k \<le> nat (delay (lines (led w) ! i))"
      "due ((row_pass ^^ k) (lines (led w) ! i)) = Some (last (ls (lines (led w) ! i)))"
    using waiting_line_comes_due [OF inv(2) assms(3)] by blast
  then show ?thesis
    using inv by (intro exI [of _ k]) (simp add: rows_run)
qed

lemma run_model: "model (led (exec_n j led_refresh_daemon w)) = model (led w)"
  by (induction j arbitrary: w) (simp_all add: daemon_led)

text \<open>
  No queued line is lost while the display thread runs: the newest line of every row of a
  reachable display is part of a screen sent within 25701 passes (four minutes and 17 seconds),
  however long the line on the display has been asked to stay.
\<close>

theorem newest_line_is_shown:
  assumes "led_reach w" and "i < LED_MAX_LINES_NUM" and "ls (lines (led w) ! i) \<noteq> []"
  shows "\<exists>k \<le> 25700. \<exists>screen. shown (exec_n (Suc k) led_refresh_daemon w)
        = (model_no (model (led w)), screen) # clearings (exec_n k led_refresh_daemon w)
          @ shown (exec_n k led_refresh_daemon w)
      \<and> last (ls (lines (led w) ! i)) \<in> set screen"
proof -
  obtain k where k: "k \<le> 25700"
      "due (lines (led (exec_n k led_refresh_daemon w)) ! i) = Some (last (ls (lines (led w) ! i)))"
    using newest_line_comes_due [OF assms] by blast
  moreover have "i < length (lines (led (exec_n k led_refresh_daemon w)))"
    using reach_inv [OF assms(1)] assms(2) by (simp add: led_inv_def run_length)
  ultimately show ?thesis
    using due_is_shown [of i "exec_n k led_refresh_daemon w"] exec_n_add [of k 1 led_refresh_daemon w]
    by (intro exI [of _ k]) (auto simp: run_model)
qed

theorem newest_line_is_shown_witness:
  "\<exists>k \<le> 25700. \<exists>screen. shown (exec_n (Suc k) led_refresh_daemon hello_ledw)
        = (model_no (model (led hello_ledw)), screen) # clearings (exec_n k led_refresh_daemon hello_ledw)
          @ shown (exec_n k led_refresh_daemon hello_ledw)
      \<and> hello_line \<in> set screen"
  using newest_line_is_shown [OF hello_reach, of 1] hello_rows
  by (simp add: only_row_def)

text \<open>
  Locking the display does not empty the queues: a line that waits when the lock is taken goes
  out in the next pass, with the lock set.
\<close>

lemma locked_display_shows_queued_line:
  assumes "led_reach w" and "i < LED_MAX_LINES_NUM" and "ls (lines (led w) ! i) \<noteq> []"
  defines "w1 \<equiv> exec (ve_led_set_lock True) w"
  shows "lock (led w1)" and "\<exists>screen. shown (exec led_refresh_daemon w1)
      = (model_no (model (led w)), screen) # clearings w1 @ shown w \<and> last (ls (lines (led w) ! i)) \<in> set screen"
proof -
  have w1: "led w1 = (led w)\<lparr>lock := True, lines := map (\<lambda>info. info\<lparr>delay := 0\<rparr>) (lines (led w))\<rparr>"
      "shown w1 = shown w"
    by (simp_all add: w1_def ve_led_set_lock_def upd_led_def)
  then show "lock (led w1)" by simp
  have i: "i < length (lines (led w))"
    using reach_inv [OF assms(1)] assms(2) by (simp add: led_inv_def)
  have "due (lines (led w1) ! i) = Some (last (ls (lines (led w) ! i)))"
    using i assms(3) by (simp add: w1 due_def countdown_def)
  from due_is_shown [OF _ this] i show "\<exists>screen. shown (exec led_refresh_daemon w1)
      = (model_no (model (led w)), screen) # clearings w1 @ shown w \<and> last (ls (lines (led w) ! i)) \<in> set screen"
    by (simp add: w1)
qed

section \<open>The daemon, the queues and the audio\<close>

text \<open>
  C17. The display thread implements the row specification: one pass of \<open>led_refresh_daemon\<close>
  changes nothing in the manager but the rows, each by \<open>row_pass\<close> and independently of the
  others; it clears the rows whose countdown has ended, one command each, in the order of the
  rows, and then sends the lines that are due as one screen, in the order of the rows, if any is.
\<close>

theorem daemon_refines_row_pass:
  "led (exec led_refresh_daemon w) = (led w)\<lparr>lines := map row_pass (lines (led w))\<rparr>
   \<and> shown (exec led_refresh_daemon w)
     = (if screen_of w = [] then [] else [(model_no (model (led w)), screen_of w)]) @ clearings w @ shown w"
  using daemon_led daemon_shown by blast

text \<open>
  Queueing: on an unlocked display, lines whose checked indices are below sixteen are
  appended to the queues of their rows in the order given; the lines that fail the check are
  dropped, and the number of the others is returned. No other part of the display changes.
\<close>

theorem led_add_lines_queues:
  assumes "led_reach w" and "\<not> lock (led w)"
    and "\<forall>l \<in> set ln. led_line_param_chk l = 0 \<longrightarrow> unat (idx l) < LED_MAX_LINES_NUM"
  shows "eval (led_add_lines ln) w = Some (int (length (filter (\<lambda>l. led_line_param_chk l = 0) ln)))
    \<and> led (exec (led_add_lines ln) w) = (led w)\<lparr>lines := map (\<lambda>i. (lines (led w) ! i)\<lparr>ls := ls (lines (led w) ! i)
         @ filter (\<lambda>l. led_line_param_chk l = 0 \<and> unat (idx l) = i) ln\<rparr>) [0..<LED_MAX_LINES_NUM]\<rparr>"
  using add_loop_ok [of w ln 0] reach_inv [OF assms(1)] assms(2,3)
  by (simp add: led_add_lines_def led_inv_def good_line_def)

theorem led_add_lines_queues_witness:
  "eval (led_add_lines [hello_line, hello_line\<lparr>volume := 101\<rparr>]) hello_ledw = Some 1"
proof -
  have "\<not> lock (led hello_ledw)"
    by (simp add: hello_ledw_def led_add_lines_def boot_led hello_chk LED_MAX_LINES_NUM_def upd_info_def upd_led_def)
  moreover have "led_line_param_chk (hello_line\<lparr>volume := 101\<rparr>) \<noteq> 0"
    by (simp add: led_line_param_chk_def)
  ultimately show ?thesis
    using led_add_lines_queues [OF hello_reach, of "[hello_line, hello_line\<lparr>volume := 101\<rparr>]"]
    by (simp add: hello_chk LED_MAX_LINES_NUM_def)
qed

text \<open>A locked display drops every line and reports none.\<close>

lemma led_add_lines_locked:
  assumes "lock (led w)"
  shows "eval (led_add_lines ln) w = Some 0" and "exec (led_add_lines ln) w = w"
  using assms by (simp_all add: led_add_lines_def)

text \<open>
  The check of the index compares with \<open>>\<close> where \<open>>=\<close> is meant: index sixteen passes, and the
  line is linked into memory behind the sixteen rows.
\<close>

lemma led_index_sixteen_passes_check:
  assumes "led_reach w" and "\<not> lock (led w)"
  shows "led_line_param_chk (hello_line\<lparr>idx := 16\<rparr>) = 0"
    and "eval (led_add_lines [hello_line\<lparr>idx := 16\<rparr>]) w = None"
proof -
  show c: "led_line_param_chk (hello_line\<lparr>idx := 16\<rparr>) = 0"
    by (simp add: led_line_param_chk_def hello_line_def LED_MAX_LINES_NUM_def LED_STYLE_END_def
      LED_MODE_END_def LED_ACTION_AUDIO_def LED_ACTION_DISP_def)
  show "eval (led_add_lines [hello_line\<lparr>idx := 16\<rparr>]) w = None"
    using reach_inv [OF assms(1)] assms(2) c
    by (simp add: led_add_lines_def led_inv_def LED_MAX_LINES_NUM_def)
qed

text \<open>
  The audio of a line: what is decoded always fits the card's buffer, and is followed by a NUL;
  the length handed to the card counts that NUL and up to three bytes more.
\<close>

lemma line_audio_ok:
  assumes "length (laudio line) < 512 * 1024"
  shows "\<exists>ap. line_audio line = Some ap \<and> int (length (ap_buf ap)) \<le> ap_len ap
    \<and> ap_len ap \<le> int (length (ap_buf ap)) + 3 \<and> ap_len ap \<le> AUDIO_BUF_SIZE"
proof -
  have "63 < six 0" by code_simp
  then have "\<exists>b \<in> set (laudio line @ [0]). 63 < six b" by (rule bexI) simp
  then obtain n where n: "scan (laudio line @ [0]) = Some n" unfolding scan_total by blast
  obtain m where m: "Base64decode_len (laudio line @ [0]) = Some m"
      "int (length (b64_plain (take n (laudio line @ [0])))) + 1 \<le> m"
      "m \<le> int (length (b64_plain (take n (laudio line @ [0])))) + 4"
    using Base64decode_len_bounds [OF n] by blast
  have "n \<le> length (laudio line)" using scan_bound [OF n] by simp
  then have "m \<le> AUDIO_BUF_SIZE"
    using m(1) n assms by (auto simp: Base64decode_len_def AUDIO_BUF_SIZE_def)
  with m show ?thesis
    by (simp add: line_audio_def Base64decode_ok [OF n])
qed

end
