(* ===== verification/Bytes.thy ===== *)
theory Bytes
  imports Vd_Prelude "HOL-Library.Monad_Syntax"
begin

text \<open>
  Byte buffers of C: bounded reads and stores, little-endian fields of packed structures, and the
  lazy conjunction of conditions that read memory. An access outside the buffer is \<open>None\<close>.
\<close>

type_synonym bytes = "u8 list"

definition peek :: "bytes \<Rightarrow> nat \<Rightarrow> u8 option" where
  "peek m i = (if i < length m then Some (m ! i) else None)"

definition poke :: "nat \<Rightarrow> bytes \<Rightarrow> bytes \<Rightarrow> bytes option" where
  "poke i bs m = (if i + length bs \<le> length m then Some (take i m @ bs @ drop (i + length bs) m) else None)"

text \<open>Stores into the fields of a structure, given by their offsets in it, one after the other.\<close>

fun stores :: "nat \<Rightarrow> (nat \<times> bytes) list \<Rightarrow> bytes \<Rightarrow> bytes option" where
  "stores p [] m = Some m"
| "stores p ((i, bs) # fs) m = do { m \<leftarrow> poke (p + i) bs m; stores p fs m }"

definition le16 :: "u16 \<Rightarrow> bytes" where
  "le16 v = [ucast v, ucast (drop_bit 8 v)]"

definition le32 :: "u32 \<Rightarrow> bytes" where
  "le32 v = [ucast v, ucast (drop_bit 8 v), ucast (drop_bit 16 v), ucast (drop_bit 24 v)]"

definition of_le16 :: "u8 \<Rightarrow> u8 \<Rightarrow> u16" where
  "of_le16 a b = ucast a OR push_bit 8 (ucast b)"

definition of_le32 :: "u8 \<Rightarrow> u8 \<Rightarrow> u8 \<Rightarrow> u8 \<Rightarrow> u32" where
  "of_le32 a b c d = ucast a OR push_bit 8 (ucast b) OR push_bit 16 (ucast c) OR push_bit 24 (ucast d)"

definition peek16 :: "bytes \<Rightarrow> nat \<Rightarrow> u16 option" where
  "peek16 m i = do { a \<leftarrow> peek m i; b \<leftarrow> peek m (i + 1); Some (of_le16 a b) }"

definition peek32 :: "bytes \<Rightarrow> nat \<Rightarrow> u32 option" where
  "peek32 m i = do {
     a \<leftarrow> peek m i; b \<leftarrow> peek m (i + 1); c \<leftarrow> peek m (i + 2); d \<leftarrow> peek m (i + 3);
     Some (of_le32 a b c d) }"

text \<open>A condition \<open>a && b && \<dots>\<close> reads no further than its first conjunct that is false.\<close>

fun conds :: "(nat \<times> u8) list \<Rightarrow> bytes \<Rightarrow> bool option" where
  "conds [] m = Some True"
| "conds ((i, v) # cs) m = do { b \<leftarrow> peek m i; (if b = v then conds cs m else Some False) }"

section \<open>Facts\<close>

lemma length_le [simp]: "length (le16 v) = 2" "length (le32 w) = 4"
  by (simp_all add: le16_def le32_def)

lemma of_le16_le16 [simp]: "of_le16 (ucast v) (ucast (drop_bit 8 v)) = v"
proof (rule bit_eqI)
  fix n assume "possible_bit TYPE(u16) n"
  then have "n < 16" by simp
  then show "bit (of_le16 (ucast v) (ucast (drop_bit 8 v))) n = bit v n"
    by (auto simp: of_le16_def bit_or_iff bit_push_bit_iff bit_ucast_iff bit_drop_bit_eq)
qed

lemma of_le32_le32 [simp]:
  "of_le32 (ucast v) (ucast (drop_bit 8 v)) (ucast (drop_bit 16 v)) (ucast (drop_bit 24 v)) = v"
proof (rule bit_eqI)
  fix n assume "possible_bit TYPE(u32) n"
  then have n: "n < 32" by simp
  consider "n < 8" | "8 \<le> n" "n < 16" | "16 \<le> n" "n < 24" | "24 \<le> n" by linarith
  then show "bit (of_le32 (ucast v) (ucast (drop_bit 8 v)) (ucast (drop_bit 16 v)) (ucast (drop_bit 24 v))) n = bit v n"
    using n by cases (auto simp: of_le32_def bit_or_iff bit_push_bit_iff bit_ucast_iff bit_drop_bit_eq)
qed

lemma poke_alt:
  "poke i bs m = (if i + length bs \<le> length m then Some (take i m @ bs @ drop (length bs) (drop i m)) else None)"
  by (simp add: poke_def add.commute)

lemma poke_at:
  assumes "length a = i" and "length b = length bs"
  shows "poke i bs (a @ b @ c) = Some (a @ bs @ c)"
  using assms by (simp add: poke_def)

lemma poke_length: "poke i bs m = Some m' \<Longrightarrow> length m' = length m"
  by (auto simp: poke_def split: if_splits)

lemma poke_prefix: "poke i bs m = Some m' \<Longrightarrow> j \<le> i \<Longrightarrow> take j m' = take j m"
  by (auto simp: poke_def min_def split: if_splits)

lemma poke_app:
  assumes "length a = p"
  shows "poke (p + i) bs (a @ m) = map_option (\<lambda>m. a @ m) (poke i bs m)"
  using assms by (simp add: poke_def)

lemma stores_app: "length a = p \<Longrightarrow> stores p fs (a @ m) = map_option (\<lambda>m. a @ m) (stores 0 fs m)"
  by (induction fs arbitrary: m) (auto simp: poke_app bind_eq_None_conv split: bind_split option.split)

lemma stores_append: "stores p (fs @ fs') m = stores p fs m \<bind> stores p fs'"
  by (induction fs arbitrary: m) (auto split: bind_split)

lemma peek_Cons [simp]:
  "peek (x # xs) 0 = Some x" "peek (x # xs) (Suc i) = peek xs i"
  "peek (x # xs) (numeral k) = peek xs (pred_numeral k)"
  by (simp_all add: peek_def numeral_eq_Suc)

lemma peek_append:
  "peek (a @ b) (length a) = peek b 0" "peek (a @ b) (Suc (length a)) = peek b 1"
  "peek (a @ b) (Suc (Suc (length a))) = peek b 2" "peek (a @ b) (length a + i) = peek b i"
  "peek (a @ b) (i + length a) = peek b i"
  by (auto simp: peek_def nth_append Suc_diff_le numeral_2_eq_2)

end
