(* ===== verification/Listen.thy ===== *)
theory Listen
  imports Led Bytes
begin

text \<open>
  The driver of the Listen A4 display a4, \<open>dev/led/listen.c\<close>, with its entry points
  \<open>listen_refresh\<close> and \<open>listen_clear_line\<close> of \<open>ve/dev/led_ports.c\<close>. A frame is built in a buffer of
  2048 bytes, with nested packed structures; the rows shown last are kept in the static array
  \<open>lines_buf\<close>. What the code leaves to chance is an argument: the bytes \<open>stack\<close> in the buffer before the
  call, whether the port opens and the bytes that come back. A store or a read outside the buffer, a
  division by zero and a violated \<open>ASSERT\<close> are \<open>None\<close>.
\<close>

definition A4_LED_LINES_NUM :: nat where "A4_LED_LINES_NUM = 4"
definition UPDATE_OPT_CODE :: u16 where "UPDATE_OPT_CODE = 0xDA00"
definition PARAM_CFG_CODE :: u16 where "PARAM_CFG_CODE = 0xC100"
definition STYLE_IMMEDIATE :: u8 where "STYLE_IMMEDIATE = 1"
definition STYLE_SHIFT_LEFT :: u8 where "STYLE_SHIFT_LEFT = 97"
definition LISTEN_A4_HIGH_MAX :: u8 where "LISTEN_A4_HIGH_MAX = 64"
definition LISTEN_A4_WIDTH_MAX :: u8 where "LISTEN_A4_WIDTH_MAX = 64"
definition LISTEN_A4_LATTICE_MAX :: u8 where "LISTEN_A4_LATTICE_MAX = 32"
definition LISTEN_A4_LATTICE_UNIT :: u8 where "LISTEN_A4_LATTICE_UNIT = 8"

text \<open>The sizes of the packed structures without their trailing \<open>data\<close> member.\<close>

definition req_hdr_len :: nat where "req_hdr_len = 20"
definition disp_data_len :: nat where "disp_data_len = 30"
definition show_data_len :: nat where "show_data_len = 25"
definition region_data_len :: nat where "region_data_len = 26"

definition TIME_TO_A4_SPEED :: "u16 \<Rightarrow> u8" where
  "TIME_TO_A4_SPEED ms = (if unat ms > 5 * 64 then 64 else of_nat (unat ms div 5))"

record listen_led_cfg =
  lcfg_model :: bytes
  lcfg_addr :: u8
  high :: u8
  width :: u8
  lattice :: u8

record region_pos =
  pos_x :: u8
  pos_y :: u8
  pos_width :: u8
  pos_high :: u8

record line_buf =
  lb_line :: led_line
  lb_pos :: region_pos

definition line_y_tab :: "u8 list" where
  "line_y_tab = [0, 16, 32, 48]"

section \<open>Building a frame\<close>

text \<open>
  \<open>make_region\<close> at offset \<open>p\<close> of the buffer: the buffer it leaves and the value it returns, as the
  \<open>size_t\<close> that its caller makes of it. The length fields are stored before they are checked.
\<close>

definition make_region :: "listen_led_cfg \<Rightarrow> bytes \<Rightarrow> nat \<Rightarrow> u32 \<Rightarrow> led_line \<Rightarrow> region_pos \<Rightarrow> (bytes \<times> u32) option" where
  "make_region a4 m p bufsz line pos =
     (if lattice a4 \<noteq> 16 then None
      else let text_len = of_nat (length (ltext line)) :: u32;
               len = of_nat region_data_len + text_len
      in do {
        m \<leftarrow> stores p [(22, le32 text_len), (1, le32 len)] m;
        (if len > bufsz then Some (m, - 1)
         else do {
           t \<leftarrow> peek m p;
           m \<leftarrow> stores p [(0, [t OR 1]), (5, [0x0E])] m;
           c \<leftarrow> peek m (p + 14);
           m \<leftarrow> stores p
             [(14, [(c AND 0xF8) OR 1]), (21, [lattice a4]),
              (18, [TIME_TO_A4_SPEED (time_per_col line)]), (19, le16 65533), (26, ltext line)] m;
           m \<leftarrow> stores p
             (if style line = LED_STYLE_IMMEDIATE
              then [(17, [STYLE_IMMEDIATE]), (6, le16 (ucast (pos_x pos))), (8, le16 (ucast (pos_y pos))),
                    (10, le16 (ucast (pos_x pos) + ucast (pos_width pos) - 1)),
                    (12, le16 (ucast (pos_y pos) + ucast (pos_high pos) - 1))]
              else [(17, [STYLE_SHIFT_LEFT]), (6, le16 0), (8, le16 (ucast (pos_y pos))),
                    (10, le16 (ucast (width a4) - 1)),
                    (12, le16 (ucast (pos_y pos) + ucast (pos_high pos) - 1))]) m;
           Some (m, len) }) })"

text \<open>The rows and columns the configuration gives; a character is half as wide as it is high.\<close>

definition nr_row :: "listen_led_cfg \<Rightarrow> nat" where
  "nr_row a4 = min (unat (high a4) div unat (lattice a4)) A4_LED_LINES_NUM"

definition c_width :: "listen_led_cfg \<Rightarrow> nat" where
  "c_width a4 = unat (lattice a4) div 2"

definition nr_col :: "listen_led_cfg \<Rightarrow> nat" where
  "nr_col a4 = unat (width a4) div c_width a4"

text \<open>
  The first loop of \<open>make_show\<close>: each line of the screen replaces the kept line of its row. (The code copies
  \<open>sizeof(*prev_line)\<close> bytes from the line, four more than it has, which land in the position, whose fields are all set afterwards.)
\<close>

definition place_line :: "listen_led_cfg \<Rightarrow> led_line \<Rightarrow> line_buf" where
  "place_line a4 line =
     (let line' = (if action line AND LED_ACTION_CLR \<noteq> 0 then line\<lparr>ltext := [0x20]\<rparr> else line);
          len = length (ltext line');
          y = line_y_tab ! unat (idx line)
      in if len > nr_col a4
         then \<lparr>lb_line = line'\<lparr>style := LED_STYLE_SHIFT_LEFT\<rparr>,
               lb_pos = \<lparr>pos_x = 0, pos_y = y, pos_width = width a4, pos_high = lattice a4\<rparr>\<rparr>
         else \<lparr>lb_line = line',
               lb_pos = \<lparr>pos_x = of_nat ((nr_col a4 - len) div 2 * c_width a4), pos_y = y,
                         pos_width = of_nat (len * c_width a4), pos_high = lattice a4\<rparr>\<rparr>)"

definition keep_line :: "listen_led_cfg \<Rightarrow> led_line \<Rightarrow> line_buf list \<Rightarrow> line_buf list" where
  "keep_line a4 line lbs =
     (if unat (idx line) < nr_row a4 then lbs[unat (idx line) := place_line a4 line] else lbs)"

text \<open>
  The second loop: \<open>q\<close> is the offset of the show, \<open>p\<close> that of the next region. The length a region
  returns is compared as an unsigned number, so that its error value \<open>-1\<close> passes for a length.
\<close>

fun add_regions :: "listen_led_cfg \<Rightarrow> nat \<Rightarrow> line_buf list \<Rightarrow> bytes \<Rightarrow> u32 \<Rightarrow> u32 \<Rightarrow> u32 \<Rightarrow> (bytes \<times> u32) option" where
  "add_regions a4 q [] m p remain slen = Some (m, slen)"
| "add_regions a4 q (lb # lbs) m p remain slen = do {
     (m, len) \<leftarrow> make_region a4 m (unat p) remain (lb_line lb) (lb_pos lb);
     (if len \<le> 0 then Some (m, - 1)
      else do {
        m \<leftarrow> poke (q + 1) (le32 (slen + len)) m;
        add_regions a4 q lbs m (p + len) (remain - len) (slen + len) }) }"

definition make_show :: "listen_led_cfg \<Rightarrow> bytes \<Rightarrow> nat \<Rightarrow> u32 \<Rightarrow> led_line list \<Rightarrow> line_buf list
    \<Rightarrow> (bytes \<times> line_buf list \<times> int) option" where
  "make_show a4 m q bufsz screen lbs =
     (if unat (lattice a4) < 2 then None
      else do {
        m \<leftarrow> stores q
          [(0, [0]), (5, [of_nat (nr_row a4)]), (6, le16 100), (8, [11]), (9, replicate 16 0),
           (1, le32 (of_nat show_data_len))] m;
        let lbs = fold (keep_line a4) screen lbs;
        (m, slen) \<leftarrow> add_regions a4 q (take (nr_row a4) lbs) m (of_nat (q + show_data_len))
                      (bufsz - of_nat show_data_len) (of_nat show_data_len);
        Some (m, lbs, sint slen) })"

definition make_disp :: "listen_led_cfg \<Rightarrow> bytes \<Rightarrow> nat \<Rightarrow> u32 \<Rightarrow> led_line list \<Rightarrow> line_buf list
    \<Rightarrow> (bytes \<times> line_buf list \<times> int) option" where
  "make_disp a4 m d bufsz screen lbs = do {
     m \<leftarrow> stores d
       [(0, lcfg_model a4), (18, le16 (ucast (high a4))), (16, le16 (ucast (width a4))), (20, [1]), (21, [1])] m;
     (m, lbs, len) \<leftarrow> make_show a4 m (d + disp_data_len) (bufsz - of_nat disp_data_len) screen lbs;
     Some (m, lbs, if len \<le> 0 then - 1 else int disp_data_len + len) }"

text \<open>The header and the tail around \<open>len\<close> bytes of data, the same for both requests.\<close>

definition finish_frm :: "listen_led_cfg \<Rightarrow> u16 \<Rightarrow> int \<Rightarrow> bytes \<Rightarrow> bytes option" where
  "finish_frm a4 opt len m = stores 0
     [(0, [0x55]), (1, [0xAA]), (2, [0x00]), (3, [0x00]), (4, [lcfg_addr a4]), (8, le16 0), (5, [1]), (6, le16 opt),
      (10, le32 0), (18, le16 (word_of_int len)), (14, le32 (word_of_int len)),
      (req_hdr_len + nat len, [0x00, 0x00, 0x0D, 0x0A])] m"

definition make_req_frm :: "listen_led_cfg \<Rightarrow> bytes \<Rightarrow> led_line list \<Rightarrow> line_buf list
    \<Rightarrow> (bytes \<times> line_buf list \<times> int) option" where
  "make_req_frm a4 m screen lbs = do {
     (m, lbs, len) \<leftarrow> make_disp a4 m req_hdr_len (of_nat (length m) - of_nat req_hdr_len - 4) screen lbs;
     (if len \<le> 0 then Some (m, lbs, - 1)
      else do {
        m \<leftarrow> finish_frm a4 UPDATE_OPT_CODE len m;
        Some (m, lbs, int req_hdr_len + len + 4) }) }"

text \<open>The date and time are those of the clock, given by its broken-down value.\<close>

definition make_update_time :: "u16 \<times> u8 \<times> u8 \<times> u8 \<times> u8 \<times> u8 \<Rightarrow> bytes \<Rightarrow> nat \<Rightarrow> (bytes \<times> int) option" where
  "make_update_time t m d =
     (case t of (year, mon, day, hour, minute, sec) \<Rightarrow> do {
        m \<leftarrow> stores d
          [(0, replicate 8 0), (0, [0x10]), (8, le16 year), (10, [mon]), (11, [day]), (12, [hour]), (13, [minute]),
           (14, [sec])] m;
        Some (m, 15) })"

definition make_update_time_frm :: "listen_led_cfg \<Rightarrow> u16 \<times> u8 \<times> u8 \<times> u8 \<times> u8 \<times> u8 \<Rightarrow> bytes \<Rightarrow> (bytes \<times> int) option" where
  "make_update_time_frm a4 t m = do {
     (m, len) \<leftarrow> make_update_time t m req_hdr_len;
     (if len \<le> 0 then Some (m, - 1)
      else do {
        m \<leftarrow> finish_frm a4 PARAM_CFG_CODE len m;
        Some (m, int req_hdr_len + len + 4) }) }"

section \<open>The answer of the card\<close>

text \<open>The loop of \<open>ask_find_hdr\<close> over the offsets it still has to look at.\<close>

definition ask_hdr_conds :: "nat \<Rightarrow> u8 \<Rightarrow> u16 \<Rightarrow> (nat \<times> u8) list" where
  "ask_hdr_conds p flg opt =
     [(p, 0x55), (p + 1, 0xAA), (p + 2, 0x00), (p + 3, 0x00), (p + 5, flg),
      (p + 6, ucast opt), (p + 7, ucast (drop_bit 8 opt))]"

fun ask_find_hdr :: "bytes \<Rightarrow> nat list \<Rightarrow> u8 \<Rightarrow> u16 \<Rightarrow> nat option option" where
  "ask_find_hdr m [] flg opt = Some None"
| "ask_find_hdr m (p # ps) flg opt = do {
     ok \<leftarrow> conds (ask_hdr_conds p flg opt) m;
     (if ok then Some (Some p) else ask_find_hdr m ps flg opt) }"

definition ask_tail_is_pass :: "bytes \<Rightarrow> nat \<Rightarrow> bool option" where
  "ask_tail_is_pass m i = conds [(i, 0x00), (i + 1, 0x00), (i + 2, 0x0D), (i + 3, 0x0A)] m"

definition parse_ask_frm :: "bytes \<Rightarrow> nat \<Rightarrow> u16 \<Rightarrow> int option" where
  "parse_ask_frm m len opt = do {
     ask \<leftarrow> ask_find_hdr m [0..<len] 0 opt;
     (case ask of
        None \<Rightarrow> Some (- 1)
      | Some p \<Rightarrow> do {
          frm_len \<leftarrow> peek16 m (p + 18);
          alen \<leftarrow> peek32 m (p + 14);
          (if ucast frm_len \<noteq> alen then Some (- 1)
           else if unat frm_len < 4 then Some (- 1)
           else do {
             ok \<leftarrow> ask_tail_is_pass m (p + 20 + unat frm_len);
             (if \<not> ok then Some (- 1)
              else do {
                err \<leftarrow> peek32 m (p + 20);
                Some (if err \<noteq> 1 then - 1 else 0) }) }) }) }"

section \<open>Exchanges with the card\<close>

text \<open>
  What one exchange leaves: the kept rows, the bytes sent if any, and the value returned. The
  bytes received overwrite the beginning of the frame in the same buffer.
\<close>

record exchange =
  kept :: "line_buf list"
  sent :: "bytes option"
  result :: int

definition exchange_frm :: "u16 \<Rightarrow> bytes \<Rightarrow> line_buf list \<Rightarrow> bytes \<Rightarrow> int \<Rightarrow> exchange option" where
  "exchange_frm opt reply lbs m len =
     (if len > 0
      then let r = take (length m) reply;
               m' = r @ drop (length r) m
      in if length r > 0
         then do {
           ret \<leftarrow> parse_ask_frm m' (length r) opt;
           Some \<lparr>kept = lbs, sent = Some (take (nat len) m), result = ret\<rparr> }
         else Some \<lparr>kept = lbs, sent = Some (take (nat len) m), result = - 1\<rparr>
      else Some \<lparr>kept = lbs, sent = None, result = - 1\<rparr>)"

definition listen_led_refresh :: "listen_led_cfg \<Rightarrow> bool \<Rightarrow> bytes \<Rightarrow> bytes \<Rightarrow> led_line list \<Rightarrow> line_buf list \<Rightarrow> exchange option" where
  "listen_led_refresh a4 opened stack reply screen lbs =
     (if \<not> opened then Some \<lparr>kept = lbs, sent = None, result = - 1\<rparr>
      else do {
        (m, lbs, len) \<leftarrow> make_req_frm a4 stack screen lbs;
        exchange_frm UPDATE_OPT_CODE reply lbs m len })"

definition listen_led_update_time :: "listen_led_cfg \<Rightarrow> bool \<Rightarrow> bytes \<Rightarrow> bytes \<Rightarrow> u16 \<times> u8 \<times> u8 \<times> u8 \<times> u8 \<times> u8
    \<Rightarrow> line_buf list \<Rightarrow> exchange option" where
  "listen_led_update_time a4 opened stack reply t lbs =
     (if \<not> opened then Some \<lparr>kept = lbs, sent = None, result = - 1\<rparr>
      else do {
        (m, len) \<leftarrow> make_update_time_frm a4 t stack;
        exchange_frm PARAM_CFG_CODE reply lbs m len })"

definition zero_line :: led_line where
  "zero_line = \<lparr>idx = 0, mode = 0, action = 0, style = 0, duration = 0, color = 0, volume = 0, time_per_col = 0,
     cover = False, ltext = [], laudio = []\<rparr>"

definition listen_led_clear :: "listen_led_cfg \<Rightarrow> bool \<Rightarrow> bytes \<Rightarrow> bytes \<Rightarrow> line_buf list \<Rightarrow> exchange option" where
  "listen_led_clear a4 opened stack reply lbs =
     listen_led_refresh a4 opened stack reply
       (map (\<lambda>i. zero_line\<lparr>idx := of_nat i, ltext := [0x20], style := LED_STYLE_IMMEDIATE\<rparr>) [0..<A4_LED_LINES_NUM]) lbs"

text \<open>The array \<open>lines_buf\<close> before the first call.\<close>

definition lines_buf0 :: "line_buf list" where
  "lines_buf0 = replicate A4_LED_LINES_NUM
     \<lparr>lb_line = zero_line, lb_pos = \<lparr>pos_x = 0, pos_y = 0, pos_width = 0, pos_high = 0\<rparr>\<rparr>"

section \<open>Entry points\<close>

text \<open>
  \<open>listen_refresh\<close> with the configured height, width and lattice; the member \<open>model\<close> of the card's
  configuration is never set, and is the argument \<open>mdl\<close>.
\<close>

definition listen_cfg :: "bytes \<Rightarrow> u8 \<Rightarrow> u8 \<Rightarrow> u8 \<Rightarrow> listen_led_cfg" where
  "listen_cfg mdl h w lat =
     \<lparr>lcfg_model = mdl, lcfg_addr = 1, high = min h LISTEN_A4_HIGH_MAX,
      width = min w LISTEN_A4_WIDTH_MAX, lattice = min lat LISTEN_A4_LATTICE_MAX\<rparr>"

definition listen_refresh :: "u8 \<Rightarrow> u8 \<Rightarrow> u8 \<Rightarrow> bytes \<Rightarrow> bool \<Rightarrow> bytes \<Rightarrow> bytes \<Rightarrow> led_line list \<Rightarrow> line_buf list \<Rightarrow> exchange option" where
  "listen_refresh h w lat mdl opened stack reply screen lbs =
     (if h mod LISTEN_A4_LATTICE_UNIT \<noteq> 0 \<or> w mod LISTEN_A4_LATTICE_UNIT \<noteq> 0
         \<or> lat mod LISTEN_A4_LATTICE_UNIT \<noteq> 0
      then Some \<lparr>kept = lbs, sent = None, result = - 22\<rparr>
      else listen_led_refresh (listen_cfg mdl h w lat) opened stack reply screen lbs)"

definition listen_clear_line :: "u8 \<Rightarrow> bytes \<Rightarrow> bool \<Rightarrow> bytes \<Rightarrow> bytes \<Rightarrow> bytes \<Rightarrow> line_buf list \<Rightarrow> exchange option" where
  "listen_clear_line i junk opened mdl stack reply lbs =
     listen_led_refresh (listen_cfg mdl 32 64 16) opened stack reply
       [(own_line LED_ACTION_CLR 0 junk)\<lparr>idx := i\<rparr>] lbs"

end
