(* ===== verification/Listen_Correct.thy ===== *)
theory Listen_Correct
  imports Listen
begin

text \<open>
  Correctness of the Listen driver: the bytes that each function of \<open>listen.c\<close> leaves in the frame buffer when the
  texts fit, a model of the card that takes such a frame apart, the theorem that the card then shows the rows
  it should, and the faults of the code when texts or answers are too long.
\<close>

section \<open>The bytes of a frame\<close>

definition a4_x :: "led_line \<Rightarrow> region_pos \<Rightarrow> u16" where
  "a4_x line pos = (if style line = LED_STYLE_IMMEDIATE then ucast (pos_x pos) else 0)"

definition a4_xx :: "listen_led_cfg \<Rightarrow> led_line \<Rightarrow> region_pos \<Rightarrow> u16" where
  "a4_xx a4 line pos =
     (if style line = LED_STYLE_IMMEDIATE then ucast (pos_x pos) + ucast (pos_width pos) - 1 else ucast (width a4) - 1)"

definition region_bytes :: "bytes \<Rightarrow> listen_led_cfg \<Rightarrow> led_line \<Rightarrow> region_pos \<Rightarrow> bytes" where
  "region_bytes g a4 line pos =
     [g ! 0 OR 1] @ le32 (of_nat (26 + length (ltext line))) @ [0x0E] @ le16 (a4_x line pos) @ le16 (ucast (pos_y pos))
     @ le16 (a4_xx a4 line pos) @ le16 (ucast (pos_y pos) + ucast (pos_high pos) - 1)
     @ [(g ! 14 AND 0xF8) OR 1, g ! 15, g ! 16,
        if style line = LED_STYLE_IMMEDIATE then STYLE_IMMEDIATE else STYLE_SHIFT_LEFT, TIME_TO_A4_SPEED (time_per_col line)]
     @ le16 65533 @ [16] @ le32 (of_nat (length (ltext line))) @ ltext line"

lemma length_26:
  assumes "length g = 26"
  obtains g0 g1 g2 g3 g4 g5 g6 g7 g8 g9 g10 g11 g12 g13 g14 g15 g16 g17 g18 g19 g20 g21 g22 g23 g24 g25
  where "g = [g0, g1, g2, g3, g4, g5, g6, g7, g8, g9, g10, g11, g12, g13, g14, g15, g16, g17, g18, g19, g20, g21, g22, g23, g24, g25]"
  using assms by (auto simp: numeral_eq_Suc length_Suc_conv)

lemma make_region_fits:
  assumes "length a = p" and "length g = 26" and "length t = length (ltext line)" and "lattice a4 = 16"
    and "26 + length (ltext line) \<le> unat bufsz"
  shows "make_region a4 (a @ g @ t @ c) p bufsz line pos
     = Some (a @ region_bytes g a4 line pos @ c, of_nat (26 + length (ltext line)))"
proof -
  have lt: "26 + length (ltext line) < 2 ^ 32"
    using assms(5) unsigned_less [of bufsz, where ?'a = nat] by simp
  then have l: "\<not> (26 + of_nat (length (ltext line)) > bufsz)"
    using assms(5) by (simp add: word_less_nat_alt unat_word_ariths unat_of_nat)
  obtain g0 g1 g2 g3 g4 g5 g6 g7 g8 g9 g10 g11 g12 g13 g14 g15 g16 g17 g18 g19 g20 g21 g22 g23 g24 g25
    where g: "g = [g0, g1, g2, g3, g4, g5, g6, g7, g8, g9, g10, g11, g12, g13, g14, g15, g16, g17, g18, g19, g20, g21, g22, g23, g24, g25]"
    using assms(2) by (rule length_26)
  have [simp]: "peek (a @ m) p = peek m 0" "peek (a @ m) (p + i) = peek m i" for m i
    using assms(1) by (auto simp: peek_def nth_append)
  show ?thesis
    using assms(1,3,4) l unfolding g make_region_def region_data_len_def
    by (simp add: stores_app poke_alt le16_def le32_def Let_def region_bytes_def a4_x_def a4_xx_def del: drop_drop)
qed

lemma length_region_bytes [simp]: "length (region_bytes g a4 line pos) = 26 + length (ltext line)"
  by (simp add: region_bytes_def)

definition lb_size :: "line_buf \<Rightarrow> nat" where
  "lb_size lb = 26 + length (ltext (lb_line lb))"

fun regions_bytes :: "listen_led_cfg \<Rightarrow> line_buf list \<Rightarrow> bytes \<Rightarrow> bytes" where
  "regions_bytes a4 [] free = []"
| "regions_bytes a4 (lb # lbs) free =
     region_bytes (take 26 free) a4 (lb_line lb) (lb_pos lb) @ regions_bytes a4 lbs (drop (lb_size lb) free)"

lemma length_regions_bytes [simp]: "length (regions_bytes a4 lbs free) = sum_list (map lb_size lbs)"
  by (induction lbs arbitrary: free) (auto simp: lb_size_def)

lemma add_regions_fits:
  assumes "lattice a4 = 16" and "length h = q" and "length s = 20"
    and "sum_list (map lb_size lbs) \<le> unat remain" and "sum_list (map lb_size lbs) \<le> length free"
    and "q + 25 + length d + sum_list (map lb_size lbs) < 2 ^ 31" and "p = of_nat (q + 25 + length d)"
  shows "add_regions a4 q lbs (h @ [i] @ le32 slen @ s @ d @ free) p remain slen
     = Some (h @ [i] @ le32 (slen + of_nat (sum_list (map lb_size lbs))) @ s @ d @ regions_bytes a4 lbs free
               @ drop (sum_list (map lb_size lbs)) free, slen + of_nat (sum_list (map lb_size lbs)))"
  using assms(4-)
proof (induction lbs arbitrary: d free p remain slen)
  case Nil
  then show ?case by simp
next
  case (Cons lb lbs)
  define n where "n = lb_size lb"
  let ?t = "ltext (lb_line lb)"
  define r where "r = region_bytes (take 26 free) a4 (lb_line lb) (lb_pos lb)"
  have n: "n = 26 + length ?t" "26 + length ?t \<le> unat remain" "n \<le> length free" "n < 2 ^ 31" "length r = n"
    using Cons.prems by (simp_all add: n_def lb_size_def r_def)
  have up: "unat p = length (h @ [i] @ le32 slen @ s @ d)"
    using Cons.prems assms(2,3) by (simp add: unat_of_nat del: of_nat_add)
  have reg: "make_region a4 (h @ [i] @ le32 slen @ s @ d @ free) (unat p) remain (lb_line lb) (lb_pos lb)
     = Some (h @ [i] @ le32 slen @ s @ d @ r @ drop n free, of_nat n)"
  proof -
    have fr: "free = take 26 free @ take (length ?t) (drop 26 free) @ drop n free"
      using n(1) by (metis append_take_drop_id drop_drop add.commute)
    have "length (take 26 free) = 26" "length (take (length ?t) (drop 26 free)) = length ?t"
      using n by simp_all
    from make_region_fits [OF up [symmetric] this assms(1) n(2), of "drop n free" "lb_pos lb"]
    show ?thesis
      unfolding r_def by (subst fr) (simp add: n(1))
  qed
  have nz: "\<not> (of_nat n :: u32) \<le> 0"
    using n(1,4) by (simp add: word_le_nat_alt unat_of_nat del: of_nat_add)
  have pk: "poke (q + 1) (le32 (slen + of_nat n)) (h @ [i] @ le32 slen @ s @ d @ r @ drop n free)
     = Some (h @ [i] @ le32 (slen + of_nat n) @ s @ d @ r @ drop n free)"
    using poke_at [of "h @ [i]" "q + 1" "le32 slen" "le32 (slen + of_nat n)" "s @ d @ r @ drop n free"] assms(2) by simp
  have rem: "sum_list (map lb_size lbs) \<le> unat (remain - of_nat n)"
    using Cons.prems(1) n(4) by (simp add: unat_sub_if' unat_of_nat flip: n_def)
  have "add_regions a4 q lbs (h @ [i] @ le32 (slen + of_nat n) @ s @ (d @ r) @ drop n free) (p + of_nat n)
      (remain - of_nat n) (slen + of_nat n)
     = Some (h @ [i] @ le32 (slen + of_nat n + of_nat (sum_list (map lb_size lbs))) @ s @ (d @ r)
               @ regions_bytes a4 lbs (drop n free) @ drop (sum_list (map lb_size lbs)) (drop n free),
             slen + of_nat n + of_nat (sum_list (map lb_size lbs)))"
    by (rule Cons.IH) (use Cons.prems rem n in \<open>simp_all add: n_def\<close>)
  then show ?case
    using reg pk nz by (simp add: n_def r_def add.assoc add.commute [of "sum_list (map lb_size lbs)" "lb_size lb"])
qed


lemma sint_of_nat_u32: "n < 2 ^ 31 \<Longrightarrow> sint (of_nat n :: u32) = int n"
  by (simp add: signed_of_nat signed_take_bit_int_eq_self)

definition show_bytes :: "listen_led_cfg \<Rightarrow> nat \<Rightarrow> bytes" where
  "show_bytes a4 n = [0] @ le32 (of_nat n) @ [of_nat (nr_row a4)] @ le16 100 @ [11] @ replicate 16 0"

lemma make_show_fits:
  assumes "lattice a4 = 16" and "length h = q" and "length g = 25"
    and "rows = take (nr_row a4) (fold (keep_line a4) screen lbs)" and "n = sum_list (map lb_size rows)"
    and "25 + n \<le> unat bufsz" and "n \<le> length free" and "q + 25 + n < 2 ^ 31"
  shows "make_show a4 (h @ g @ free) q bufsz screen lbs
     = Some (h @ show_bytes a4 (25 + n) @ regions_bytes a4 rows free @ drop n free,
             fold (keep_line a4) screen lbs, 25 + int n)"
proof -
  obtain g0 g1 g2 g3 g4 g5 g6 g7 g8 g9 g10 g11 g12 g13 g14 g15 g16 g17 g18 g19 g20 g21 g22 g23 g24
    where g: "g = [g0, g1, g2, g3, g4, g5, g6, g7, g8, g9, g10, g11, g12, g13, g14, g15, g16, g17, g18, g19, g20, g21, g22, g23, g24]"
    using assms(3) by (auto simp: numeral_eq_Suc length_Suc_conv)
  let ?s = "[of_nat (nr_row a4)] @ le16 100 @ [11] @ replicate 16 0 :: bytes"
  have st: "stores q [(0, [0]), (5, [of_nat (nr_row a4)]), (6, le16 100), (8, [11]), (9, replicate 16 0),
      (1, le32 (of_nat show_data_len))] (h @ g @ free) = Some (h @ [0] @ le32 25 @ ?s @ free)"
    unfolding g stores_app [OF assms(2)]
    by (simp add: poke_alt le16_def le32_def show_data_len_def numeral_eq_Suc del: drop_drop)
  have "add_regions a4 q rows (h @ [0] @ le32 25 @ ?s @ [] @ free) (of_nat (q + 25)) (bufsz - 25) 25
     = Some (h @ [0] @ le32 (25 + of_nat n) @ ?s @ [] @ regions_bytes a4 rows free @ drop n free, 25 + of_nat n)"
    unfolding assms(5)
    by (rule add_regions_fits)
      (use assms(1,2,5-) in \<open>simp_all add: unat_sub_if' del: of_nat_add\<close>)
  moreover have "sint (25 + of_nat n :: u32) = 25 + int n"
    using sint_of_nat_u32 [of "25 + n"] assms(8) by simp
  ultimately show ?thesis
    using st assms(1,4) by (simp add: make_show_def show_data_len_def show_bytes_def Let_def)
qed


lemma length_show_bytes [simp]: "length (show_bytes a4 n) = 25"
  by (simp add: show_bytes_def)

definition disp_bytes :: "bytes \<Rightarrow> listen_led_cfg \<Rightarrow> bytes" where
  "disp_bytes rsvd a4 = lcfg_model a4 @ le16 (ucast (width a4)) @ le16 (ucast (high a4)) @ [1, 1] @ rsvd"

lemma make_disp_fits:
  assumes "lattice a4 = 16" and "length (lcfg_model a4) = 16" and "length h = d" and "length g = 30" and "length g' = 25"
    and "rows = take (nr_row a4) (fold (keep_line a4) screen lbs)" and "n = sum_list (map lb_size rows)"
    and "55 + n \<le> unat bufsz" and "n \<le> length free" and "d + 55 + n < 2 ^ 31"
  shows "make_disp a4 (h @ g @ g' @ free) d bufsz screen lbs
     = Some (h @ disp_bytes (drop 22 g) a4 @ show_bytes a4 (25 + n) @ regions_bytes a4 rows free @ drop n free,
             fold (keep_line a4) screen lbs, 55 + int n)"
proof -
  have st: "stores d [(0, lcfg_model a4), (18, le16 (ucast (high a4))), (16, le16 (ucast (width a4))), (20, [1]), (21, [1])]
      (h @ g @ g' @ free) = Some (h @ disp_bytes (drop 22 g) a4 @ g' @ free)"
    unfolding stores_app [OF assms(3)] using assms(2,4)
    by (simp add: poke_alt le16_def disp_bytes_def numeral_eq_Suc)
  have l: "length (h @ disp_bytes (drop 22 g) a4) = d + 30"
    using assms by (simp add: disp_bytes_def)
  have "25 + n \<le> unat (bufsz - of_nat disp_data_len)"
    using assms(8) by (simp add: disp_data_len_def unat_sub_if')
  from make_show_fits [OF assms(1) l assms(5,6,7) this assms(9)] st assms(10) show ?thesis
    by (simp add: make_disp_def disp_data_len_def)
qed


definition req_bytes :: "listen_led_cfg \<Rightarrow> u16 \<Rightarrow> nat \<Rightarrow> bytes" where
  "req_bytes a4 opt n =
     [0x55, 0xAA, 0, 0, lcfg_addr a4, 1] @ le16 opt @ le16 0 @ le32 0 @ le32 (of_nat n) @ le16 (of_nat n)"

lemma finish_frm_fits:
  assumes "length g = 20" and "length data = n" and "length t = 4"
  shows "finish_frm a4 opt (int n) (g @ data @ t @ rest) = Some (req_bytes a4 opt n @ data @ [0, 0, 0x0D, 0x0A] @ rest)"
proof -
  obtain g0 g1 g2 g3 g4 g5 g6 g7 g8 g9 g10 g11 g12 g13 g14 g15 g16 g17 g18 g19
    where g: "g = [g0, g1, g2, g3, g4, g5, g6, g7, g8, g9, g10, g11, g12, g13, g14, g15, g16, g17, g18, g19]"
    using assms(1) by (auto simp: numeral_eq_Suc length_Suc_conv)
  define fs :: "(nat \<times> bytes) list" where "fs = [(0, [0x55]), (1, [0xAA]), (2, [0x00]), (3, [0x00]), (4, [lcfg_addr a4]), (8, le16 0), (5, [1]), (6, le16 opt),
      (10, le32 0), (18, le16 (of_nat n)), (14, le32 (of_nat n))]"
  have "stores 0 fs (g @ data @ t @ rest) = Some (req_bytes a4 opt n @ data @ t @ rest)"
    unfolding g fs_def by (simp add: poke_alt le16_def le32_def req_bytes_def del: drop_drop)
  moreover have "poke (20 + n) [0x00, 0x00, 0x0D, 0x0A] (req_bytes a4 opt n @ data @ t @ rest)
      = Some (req_bytes a4 opt n @ data @ [0, 0, 0x0D, 0x0A] @ rest)"
    using poke_at [of "req_bytes a4 opt n @ data" "20 + n" t "[0, 0, 0x0D, 0x0A]" rest] assms(2,3)
    by (simp add: req_bytes_def)
  moreover have "finish_frm a4 opt (int n) m = stores 0 (fs @ [(20 + n, [0x00, 0x00, 0x0D, 0x0A])]) m" for m
    by (simp add: finish_frm_def req_hdr_len_def fs_def)
  ultimately show ?thesis
    unfolding stores_append by simp
qed

lemma make_req_frm_fits:
  assumes "lattice a4 = 16" and "length (lcfg_model a4) = 16" and "length m = 2048"
    and "rows = take (nr_row a4) (fold (keep_line a4) screen lbs)" and "n = sum_list (map lb_size rows)" and "n \<le> 1969"
  shows "\<exists>rsvd free rest. length rsvd = 8 \<and> length rest = 1969 - n \<and> make_req_frm a4 m screen lbs
     = Some (req_bytes a4 UPDATE_OPT_CODE (55 + n) @ (disp_bytes rsvd a4 @ show_bytes a4 (25 + n) @ regions_bytes a4 rows free)
              @ [0, 0, 0x0D, 0x0A] @ rest, fold (keep_line a4) screen lbs, 79 + int n)"
proof -
  define h g g' free where "h = take 20 m" and "g = take 30 (drop 20 m)" and "g' = take 25 (drop 30 (drop 20 m))"
    and "free = drop 25 (drop 30 (drop 20 m))"
  have m: "m = h @ g @ g' @ free"
    unfolding h_def g_def g'_def free_def
    by (simp only: append_take_drop_id)
  have len: "length h = 20" "length g = 30" "length g' = 25" "length free = 1973"
    using assms(3) by (simp_all add: h_def g_def g'_def free_def)
  let ?d = "disp_bytes (drop 22 g) a4 @ show_bytes a4 (25 + n) @ regions_bytes a4 rows free"
  have dn: "length ?d = 55 + n"
    using len assms(2,5) by (simp add: disp_bytes_def)
  have disp: "make_disp a4 (h @ g @ g' @ free) 20 (of_nat (length m) - of_nat req_hdr_len - 4) screen lbs
      = Some (h @ disp_bytes (drop 22 g) a4 @ show_bytes a4 (25 + n) @ regions_bytes a4 rows free @ drop n free,
             fold (keep_line a4) screen lbs, 55 + int n)"
    using assms(6) len by (intro make_disp_fits [OF assms(1,2) len(1-3) assms(4,5)]) (simp_all add: assms(3) req_hdr_len_def)
  have "length (take 4 (drop n free)) = 4"
    using len assms(6) by simp
  from finish_frm_fits [OF len(1) dn this, of a4 UPDATE_OPT_CODE "drop 4 (drop n free)"]
  have "finish_frm a4 UPDATE_OPT_CODE (55 + int n) (h @ ?d @ drop n free)
      = Some (req_bytes a4 UPDATE_OPT_CODE (55 + n) @ ?d @ [0, 0, 0x0D, 0x0A] @ drop 4 (drop n free))"
    by (simp del: drop_drop)
  then have "make_req_frm a4 m screen lbs = Some (req_bytes a4 UPDATE_OPT_CODE (55 + n) @ ?d @ [0, 0, 0x0D, 0x0A] @ drop 4 (drop n free),
      fold (keep_line a4) screen lbs, 79 + int n)"
    using disp m by (simp add: make_req_frm_def req_hdr_len_def del: drop_drop)
  then show ?thesis
    using len by (intro exI [of _ "drop 22 g"] exI [of _ free] exI [of _ "drop 4 (drop n free)"] conjI) simp_all
qed


section \<open>What the card reads\<close>

definition u16_at :: "bytes \<Rightarrow> nat \<Rightarrow> u16" where
  "u16_at f i = of_le16 (f ! i) (f ! (i + 1))"

definition u32_at :: "bytes \<Rightarrow> nat \<Rightarrow> u32" where
  "u32_at f i = of_le32 (f ! i) (f ! (i + 1)) (f ! (i + 2)) (f ! (i + 3))"

record a4_region =
  r_x :: u16
  r_y :: u16
  r_xx :: u16
  r_yy :: u16
  r_style :: u8
  r_speed :: u8
  r_text :: bytes

record a4_screen =
  a_addr :: u8
  a_width :: u16
  a_high :: u16
  a_regions :: "a4_region list"

fun a4_regions :: "nat \<Rightarrow> bytes \<Rightarrow> a4_region list option" where
  "a4_regions 0 f = (if f = [] then Some [] else None)"
| "a4_regions (Suc n) f =
     (let len = unat (u32_at f 1); text_len = unat (u32_at f 22)
      in if 26 \<le> length f \<and> len \<le> length f \<and> len = 26 + text_len
         then map_option (Cons \<lparr>r_x = u16_at f 6, r_y = u16_at f 8, r_xx = u16_at f 10, r_yy = u16_at f 12,
                r_style = f ! 17, r_speed = f ! 18, r_text = take text_len (drop 26 f)\<rparr>) (a4_regions n (drop len f))
         else None)"

definition a4_receive :: "bytes \<Rightarrow> a4_screen option" where
  "a4_receive f =
     (let n = length f - 24; disp = take n (drop 20 f); show = drop 30 disp
      in if 79 \<le> length f \<and> take 4 f = [0x55, 0xAA, 0, 0] \<and> f ! 5 = 1 \<and> u16_at f 6 = UPDATE_OPT_CODE
            \<and> unat (u32_at f 14) = n \<and> unat (u16_at f 18) = n \<and> drop (20 + n) f = [0, 0, 0x0D, 0x0A]
            \<and> disp ! 21 = 1 \<and> unat (u32_at show 1) = length show
         then map_option (\<lambda>rs. \<lparr>a_addr = f ! 4, a_width = u16_at disp 16, a_high = u16_at disp 18, a_regions = rs\<rparr>)
                (a4_regions (unat (show ! 5)) (drop 25 show))
         else None)"

definition region_view :: "listen_led_cfg \<Rightarrow> line_buf \<Rightarrow> a4_region" where
  "region_view a4 lb =
     (let line = lb_line lb; pos = lb_pos lb
      in \<lparr>r_x = a4_x line pos, r_y = ucast (pos_y pos), r_xx = a4_xx a4 line pos,
          r_yy = ucast (pos_y pos) + ucast (pos_high pos) - 1,
          r_style = (if style line = LED_STYLE_IMMEDIATE then STYLE_IMMEDIATE else STYLE_SHIFT_LEFT),
          r_speed = TIME_TO_A4_SPEED (time_per_col line), r_text = ltext line\<rparr>)"

lemma le_at:
  "u16_at (le16 v @ f) 0 = v" "u32_at (le32 w @ f) 0 = w"
  by (simp_all add: u16_at_def u32_at_def le16_def le32_def)

lemma u32_of_nat: "n < 2 ^ 32 \<Longrightarrow> unat (of_nat n :: u32) = n"
  and u16_of_nat: "n < 2 ^ 16 \<Longrightarrow> unat (of_nat n :: u16) = n"
  by (simp_all add: unat_of_nat)

lemma a4_regions_step:
  assumes "26 + length (ltext line) < 2 ^ 32"
  shows "a4_regions (Suc n) (region_bytes g a4 line pos @ f)
    = map_option (Cons (region_view a4 \<lparr>lb_line = line, lb_pos = pos\<rparr>)) (a4_regions n f)"
proof -
  let ?b = "region_bytes g a4 line pos @ f"
  have "u32_at ?b 1 = of_nat (26 + length (ltext line))" "u32_at ?b 22 = of_nat (length (ltext line))"
    "u16_at ?b 6 = a4_x line pos" "u16_at ?b 8 = ucast (pos_y pos)" "u16_at ?b 10 = a4_xx a4 line pos"
    "u16_at ?b 12 = ucast (pos_y pos) + ucast (pos_high pos) - 1"
    "?b ! 17 = (if style line = LED_STYLE_IMMEDIATE then STYLE_IMMEDIATE else STYLE_SHIFT_LEFT)"
    "?b ! 18 = TIME_TO_A4_SPEED (time_per_col line)" "drop 26 ?b = ltext line @ f"
    by (simp_all add: region_bytes_def u16_at_def u32_at_def le16_def le32_def del: of_nat_add)
  moreover have "drop (26 + length (ltext line)) ?b = f"
    by simp
  ultimately show ?thesis
    using u32_of_nat [OF assms] u32_of_nat [of "length (ltext line)"] assms by (simp add: region_view_def del: of_nat_add)
qed

lemma a4_regions_bytes:
  assumes "sum_list (map lb_size lbs) < 2 ^ 32"
  shows "a4_regions (length lbs) (regions_bytes a4 lbs free) = Some (map (region_view a4) lbs)"
  using assms
proof (induction lbs arbitrary: free)
  case (Cons lb lbs)
  then have "26 + length (ltext (lb_line lb)) < 2 ^ 32"
    by (simp add: lb_size_def)
  then show ?case
    using Cons by (simp add: a4_regions_step region_view_def del: a4_regions.simps)
qed simp

lemma a4_receive_frame:
  assumes "length (lcfg_model a4) = 16" and "length rsvd = 8" and "length rows = nr_row a4"
    and "n = sum_list (map lb_size rows)" and "n \<le> 1969"
  shows "a4_receive (req_bytes a4 UPDATE_OPT_CODE (55 + n) @ (disp_bytes rsvd a4 @ show_bytes a4 (25 + n) @ regions_bytes a4 rows free)
      @ [0, 0, 0x0D, 0x0A])
    = Some \<lparr>a_addr = lcfg_addr a4, a_width = ucast (width a4), a_high = ucast (high a4), a_regions = map (region_view a4) rows\<rparr>"
proof -
  let ?show = "show_bytes a4 (25 + n) @ regions_bytes a4 rows free"
  let ?disp = "disp_bytes rsvd a4 @ ?show"
  let ?f = "req_bytes a4 UPDATE_OPT_CODE (55 + n) @ ?disp @ [0, 0, 0x0D, 0x0A]"
  have len: "length ?disp = 55 + n" "length ?show = 25 + n" "length ?f = 79 + n"
    using assms by (simp_all add: disp_bytes_def req_bytes_def)
  have "take 4 ?f = [0x55, 0xAA, 0, 0]" "?f ! 4 = lcfg_addr a4" "?f ! 5 = 1" "u16_at ?f 6 = UPDATE_OPT_CODE"
    "u32_at ?f 14 = of_nat (55 + n)" "u16_at ?f 18 = of_nat (55 + n)"
    by (simp_all add: req_bytes_def u16_at_def u32_at_def le16_def le32_def del: of_nat_add)
  moreover have "drop 20 ?f = ?disp @ [0, 0, 0x0D, 0x0A]"
    by (simp add: req_bytes_def)
  moreover have "u16_at ?disp 16 = ucast (width a4)" "u16_at ?disp 18 = ucast (high a4)" "?disp ! 21 = 1" "drop 30 ?disp = ?show"
    using assms(1,2) by (simp_all add: disp_bytes_def u16_at_def le16_def nth_append)
  moreover have "u32_at ?show 1 = of_nat (25 + n)" "?show ! 5 = of_nat (nr_row a4)" "drop 25 ?show = regions_bytes a4 rows free"
    by (simp_all add: show_bytes_def u32_at_def le32_def le16_def del: of_nat_add)
  moreover have "unat (of_nat (nr_row a4) :: u8) = length rows"
    using assms(3) by (simp add: nr_row_def A4_LED_LINES_NUM_def unat_of_nat min_def)
  moreover have "a4_regions (length rows) (regions_bytes a4 rows free) = Some (map (region_view a4) rows)"
    by (rule a4_regions_bytes) (use assms(4,5) in simp)
  ultimately show ?thesis
    using len assms(5) u32_of_nat [of "55 + n"] u32_of_nat [of "25 + n"] u16_of_nat [of "55 + n"]
    by (simp add: a4_receive_def Let_def del: of_nat_add append_assoc flip: drop_drop)
qed


section \<open>Rows\<close>

lemma keep_line_length [simp]: "length (keep_line a4 line lbs) = length lbs"
  by (simp add: keep_line_def)

lemma keep_lines_length [simp]: "length (fold (keep_line a4) screen lbs) = length lbs"
  by (induction screen arbitrary: lbs) simp_all

definition row_lines :: "nat \<Rightarrow> led_line list \<Rightarrow> led_line list" where
  "row_lines i screen = filter (\<lambda>line. unat (idx line) = i) screen"

definition shown_row :: "listen_led_cfg \<Rightarrow> led_line list \<Rightarrow> line_buf list \<Rightarrow> nat \<Rightarrow> line_buf" where
  "shown_row a4 screen lbs i =
     (if row_lines i screen = [] then lbs ! i else place_line a4 (last (row_lines i screen)))"

lemma kept_row:
  assumes "i < nr_row a4" and "nr_row a4 \<le> length lbs"
  shows "fold (keep_line a4) screen lbs ! i = shown_row a4 screen lbs i"
  using assms(2)
proof (induction screen arbitrary: lbs)
  case Nil
  then show ?case by (simp add: shown_row_def row_lines_def)
next
  case (Cons line screen)
  have "fold (keep_line a4) (line # screen) lbs ! i = shown_row a4 screen (keep_line a4 line lbs) i"
    using Cons by simp
  also have "\<dots> = shown_row a4 (line # screen) lbs i"
    using assms(1) Cons.prems by (auto simp: shown_row_def row_lines_def keep_line_def nth_list_update)
  finally show ?case .
qed

definition rows_ok :: "line_buf list \<Rightarrow> bool" where
  "rows_ok lbs \<longleftrightarrow> length lbs = A4_LED_LINES_NUM \<and> (\<forall>lb \<in> set lbs. length (ltext (lb_line lb)) \<le> 466)"

lemma place_line_text:
  "ltext (lb_line (place_line a4 line)) = (if action line AND LED_ACTION_CLR \<noteq> 0 then [0x20] else ltext line)"
  by (simp add: place_line_def Let_def)

lemma rows_ok_keep:
  assumes "rows_ok lbs" and "length (ltext line) \<le> 466"
  shows "rows_ok (keep_line a4 line lbs)"
  using assms set_update_subset_insert [of lbs "unat (idx line)" "place_line a4 line"]
  by (auto simp: rows_ok_def keep_line_def place_line_text dest!: subsetD)

lemma rows_ok_fold:
  assumes "rows_ok lbs" and "\<forall>line \<in> set screen. length (ltext line) \<le> 466"
  shows "rows_ok (fold (keep_line a4) screen lbs)"
  using assms by (induction screen arbitrary: lbs) (auto intro: rows_ok_keep)

lemma nr_row_le: "nr_row a4 \<le> 4"
  by (simp add: nr_row_def A4_LED_LINES_NUM_def)

lemma rows_fit:
  assumes "rows_ok lbs"
  shows "sum_list (map lb_size (take k lbs)) \<le> 1968"
proof -
  have "sum_list (map lb_size (take k lbs)) \<le> sum_list (map (\<lambda>_. 492) (take k lbs))"
    using assms by (intro sum_list_mono) (auto simp: rows_ok_def lb_size_def dest!: in_set_takeD)
  also have "\<dots> \<le> 1968"
    using assms by (simp add: sum_list_triv rows_ok_def A4_LED_LINES_NUM_def min_def)
  finally show ?thesis .
qed

section \<open>The answer\<close>

definition a4_answer :: "u8 \<Rightarrow> u16 \<Rightarrow> u32 \<Rightarrow> u32 \<Rightarrow> bytes" where
  "a4_answer adr opt sn code =
     [0x55, 0xAA, 0, 0, adr, 0] @ le16 opt @ le16 0 @ le32 sn @ le32 4 @ le16 4 @ le32 code @ [0, 0, 0x0D, 0x0A]"

lemma ask_find_hdr_skip:
  assumes "\<forall>p \<in> set ps. conds (ask_hdr_conds p flg opt) m = Some False" and "conds (ask_hdr_conds q flg opt) m = Some True"
  shows "ask_find_hdr m (ps @ q # qs) flg opt = Some (Some q)"
  using assms by (induction ps) simp_all

lemma parse_ask_frm_answer:
  assumes "0x55 \<notin> set pre" and "length pre < len"
  shows "parse_ask_frm (pre @ a4_answer adr opt sn code @ post) len opt = Some (if code = 1 then 0 else - 1)"
proof -
  let ?a = "a4_answer adr opt sn code @ post" and ?n = "length pre"
  have "conds (ask_hdr_conds p 0 opt) (pre @ ?a) = Some False" if "p < ?n" for p
  proof -
    have "peek (pre @ ?a) p = Some (pre ! p)" "pre ! p \<noteq> 0x55"
      using that assms(1) by (simp add: peek_def nth_append) (use that assms(1) in \<open>metis nth_mem\<close>)
    then show ?thesis by (simp add: ask_hdr_conds_def)
  qed
  moreover have "conds (ask_hdr_conds ?n 0 opt) (pre @ ?a) = Some True"
    by (simp add: ask_hdr_conds_def peek_append a4_answer_def le16_def)
  moreover have "[0..<len] = [0..<?n] @ ?n # [Suc ?n..<len]"
    using assms(2) by (metis less_imp_le_nat upt_add_eq_append upt_conv_Cons le_add_diff_inverse zero_le)
  ultimately have "ask_find_hdr (pre @ ?a) [0..<len] 0 opt = Some (Some ?n)"
    by (simp add: ask_find_hdr_skip)
  moreover have "ask_tail_is_pass (pre @ ?a) (24 + ?n) = Some True"
    by (simp add: ask_tail_is_pass_def peek_append add.assoc a4_answer_def le16_def le32_def)
  moreover have "peek16 (pre @ ?a) (?n + 18) = Some 4" "peek32 (pre @ ?a) (?n + 14) = Some 4" "peek32 (pre @ ?a) (?n + 20) = Some code"
    using of_le16_le16 [of 4] of_le32_le32 [of 4]
    by (simp_all add: peek16_def peek32_def peek_append add.assoc a4_answer_def le16_def le32_def)
  ultimately show ?thesis
    by (simp add: parse_ask_frm_def)
qed


section \<open>The refresh\<close>

lemma listen_led_refresh_rows:
  assumes "lattice a4 = 16" and "length (lcfg_model a4) = 16" and "length stack = 2048"
    and "rows_ok lbs" and "\<forall>line \<in> set screen. length (ltext line) \<le> 466"
    and "reply = pre @ a4_answer adr UPDATE_OPT_CODE sn code @ post" and "0x55 \<notin> set pre" and "length reply \<le> 2048"
  shows "\<exists>e f. listen_led_refresh a4 True stack reply screen lbs = Some e \<and> sent e = Some f
    \<and> a4_receive f = Some \<lparr>a_addr = lcfg_addr a4, a_width = ucast (width a4), a_high = ucast (high a4),
        a_regions = map (region_view a4 \<circ> shown_row a4 screen lbs) [0..<nr_row a4]\<rparr>
    \<and> result e = (if code = 1 then 0 else - 1) \<and> rows_ok (kept e)"
proof -
  define lbs' rows n where "lbs' = fold (keep_line a4) screen lbs" and "rows = take (nr_row a4) lbs'"
    and "n = sum_list (map lb_size rows)"
  have ok: "rows_ok lbs'"
    using assms(4,5) by (simp add: lbs'_def rows_ok_fold)
  then have n: "n \<le> 1968"
    by (simp add: n_def rows_def rows_fit)
  have l4: "length lbs = 4" "length lbs' = 4"
    using assms(4) by (simp_all add: lbs'_def rows_ok_def A4_LED_LINES_NUM_def)
  have rows: "length rows = nr_row a4"
    using l4 nr_row_le [of a4] by (simp add: rows_def)
  obtain rsvd free rest where r: "length rsvd = 8" "length rest = 1969 - n"
    and fr: "make_req_frm a4 stack screen lbs
     = Some (req_bytes a4 UPDATE_OPT_CODE (55 + n) @ (disp_bytes rsvd a4 @ show_bytes a4 (25 + n) @ regions_bytes a4 rows free)
              @ [0, 0, 0x0D, 0x0A] @ rest, lbs', 79 + int n)"
    using make_req_frm_fits [OF assms(1-3) _ n_def] n unfolding rows_def lbs'_def by fastforce
  define f where "f = req_bytes a4 UPDATE_OPT_CODE (55 + n)
      @ (disp_bytes rsvd a4 @ show_bytes a4 (25 + n) @ regions_bytes a4 rows free) @ [0, 0, 0x0D, 0x0A]"
  have "a4_receive f = Some \<lparr>a_addr = lcfg_addr a4, a_width = ucast (width a4), a_high = ucast (high a4),
      a_regions = map (region_view a4) rows\<rparr>"
    unfolding f_def by (rule a4_receive_frame [OF assms(2) r(1) rows n_def]) (use n in simp)
  moreover have "map (region_view a4) rows = map (region_view a4 \<circ> shown_row a4 screen lbs) [0..<nr_row a4]"
    using rows l4 nr_row_le [of a4] by (auto simp: rows_def lbs'_def kept_row intro!: nth_equalityI)
  moreover have lf: "length f = 79 + n"
    using assms(2) r by (simp add: f_def req_bytes_def disp_bytes_def n_def)
  moreover have "take (nat (79 + int n)) (f @ rest) = f"
    using lf by (simp add: nat_add_distrib)
  moreover have "length (f @ rest) = 2048"
    using lf r n by simp
  moreover have "parse_ask_frm (reply @ drop (length reply) (f @ rest)) (length reply) UPDATE_OPT_CODE
      = Some (if code = 1 then 0 else - 1)"
    using parse_ask_frm_answer [OF assms(7), of "length reply" adr UPDATE_OPT_CODE sn code "post @ drop (length reply) (f @ rest)"]
    by (simp add: assms(6) a4_answer_def)
  moreover have "0 < length reply"
    by (simp add: assms(6) a4_answer_def)
  ultimately show ?thesis
    using fr ok assms(8) unfolding listen_led_refresh_def exchange_frm_def f_def by (simp add: Let_def)
qed


lemma unat_ucast_u16: "unat (ucast (w :: u8) :: u16) = unat w"
  using unsigned_less [of w, where ?'a = nat] by (simp add: unsigned_ucast_eq take_bit_nat_eq_self)

lemma ucast_u8_u16: "n < 256 \<Longrightarrow> (ucast (of_nat n :: u8) :: u16) = of_nat n"
  by (rule unsigned_word_eqI [where ?'a = nat]) (simp add: unat_ucast_u16 unat_of_nat)

text \<open>The region of a line with a text that has just been placed.\<close>

lemma placed_region:
  assumes "lattice a4 = 16" and "unat (width a4) = 8 * c" and "0 < c" and "c \<le> 8"
    and "unat (idx line) = i" and "i < nr_row a4" and "ltext line \<noteq> []"
  defines "r \<equiv> region_view a4 (place_line a4 line)"
  shows "unat (r_x r) \<le> unat (r_xx r)" "unat (r_xx r) < unat (width a4)"
    "unat (r_y r) = 16 * i" "unat (r_yy r) = 16 * i + 15" "16 * i + 15 < unat (high a4)"
proof -
  have i: "i = 0 \<or> i = 1 \<or> i = 2 \<or> i = 3" and hi: "16 * i + 15 < unat (high a4)"
    using assms(1,6) by (auto simp: nr_row_def A4_LED_LINES_NUM_def)
  have py: "pos_y (lb_pos (place_line a4 line)) = of_nat (16 * i)" "pos_high (lb_pos (place_line a4 line)) = 16"
    using i assms(1,5) by (auto simp: place_line_def Let_def line_y_tab_def)
  then show "unat (r_y r) = 16 * i" "unat (r_yy r) = 16 * i + 15" "16 * i + 15 < unat (high a4)"
    using i hi by (auto simp: r_def region_view_def Let_def)
  define k where "k = length (ltext (lb_line (place_line a4 line)))"
  have k: "0 < k"
    using assms(7) by (simp add: k_def place_line_text)
  have w: "unat (ucast (width a4) - 1 :: u16) = 8 * c - 1"
    using assms(2,3) by (simp add: unat_sub_if' unat_ucast_u16)
  have "unat (r_x r) \<le> unat (r_xx r) \<and> unat (r_xx r) < unat (width a4)"
  proof (cases "style (lb_line (place_line a4 line)) = LED_STYLE_IMMEDIATE")
    case True
    define x where "x = (c - k) div 2 * 8"
    have "k \<le> c \<and> pos_x (lb_pos (place_line a4 line)) = of_nat x \<and> pos_width (lb_pos (place_line a4 line)) = of_nat (k * 8)"
      using True assms(1,2) unfolding x_def k_def
      by (auto simp: place_line_def Let_def nr_col_def c_width_def LED_STYLE_IMMEDIATE_def LED_STYLE_SHIFT_LEFT_def
          split: if_splits)
    moreover from this have x: "x + (k * 8 - 1) < 8 * c"
      using k div_le_dividend [of "c - k" 2] unfolding x_def by linarith
    ultimately have "r_x r = of_nat x" "r_xx r = of_nat (x + (k * 8 - 1))"
      using True k assms(4)
      by (simp_all add: r_def region_view_def Let_def a4_x_def a4_xx_def ucast_u8_u16 del: of_nat_mult)
    then show ?thesis
      using x assms(2,4) by (simp add: unat_of_nat del: of_nat_add)
  next
    case False
    then have "r_x r = 0" "r_xx r = ucast (width a4) - 1"
      by (simp_all add: r_def region_view_def Let_def a4_x_def a4_xx_def)
    then show ?thesis
      using w assms(2,3) by simp
  qed
  then show "unat (r_x r) \<le> unat (r_xx r)" "unat (r_xx r) < unat (width a4)"
    by simp_all
qed


lemma listen_refresh_rows:
  assumes "h mod 8 = 0" and "w mod 8 = 0" and "length mdl = 16" and "length stack = 2048"
    and "rows_ok lbs" and "\<forall>line \<in> set screen. length (ltext line) \<le> 466"
    and "reply = pre @ a4_answer adr UPDATE_OPT_CODE sn code @ post" and "0x55 \<notin> set pre" and "length reply \<le> 2048"
  shows "\<exists>e f. listen_refresh h w 16 mdl True stack reply screen lbs = Some e \<and> sent e = Some f
    \<and> a4_receive f = Some \<lparr>a_addr = 1, a_width = ucast (min w 64), a_high = ucast (min h 64),
        a_regions = map (\<lambda>i. region_view (listen_cfg mdl h w 16) (shown_row (listen_cfg mdl h w 16) screen lbs i))
                      [0..<nr_row (listen_cfg mdl h w 16)]\<rparr>
    \<and> result e = (if code = 1 then 0 else - 1) \<and> rows_ok (kept e)"
proof -
  have cfg: "lattice (listen_cfg mdl h w 16) = 16" "length (lcfg_model (listen_cfg mdl h w 16)) = 16"
    "lcfg_addr (listen_cfg mdl h w 16) = 1" "width (listen_cfg mdl h w 16) = min w 64" "high (listen_cfg mdl h w 16) = min h 64"
    using assms(3) by (simp_all add: listen_cfg_def LISTEN_A4_LATTICE_MAX_def LISTEN_A4_HIGH_MAX_def LISTEN_A4_WIDTH_MAX_def)
  have "listen_refresh h w 16 mdl True stack reply screen lbs
      = listen_led_refresh (listen_cfg mdl h w 16) True stack reply screen lbs"
    using assms(1,2) by (simp add: listen_refresh_def LISTEN_A4_LATTICE_UNIT_def)
  then show ?thesis
    using listen_led_refresh_rows [OF cfg(1,2) assms(4-9)] by (simp add: cfg comp_def)
qed

text \<open>C19. \<open>listen_refresh\<close> on a card with 16-point rows, when no text exceeds 466 bytes: the frame that is sent is
  one the card can read, with the size of the display and one region per row; a row shows the last line that the
  screen gives it, or what it showed before; the call returns 0 exactly when the card answers with code 1; and the
  rows kept for the next call are again within the bound.\<close>

theorem listen_refresh_shows_rows:
  assumes "h mod 8 = 0" and "w mod 8 = 0" and "length mdl = 16" and "length stack = 2048"
    and "rows_ok lbs" and "\<forall>line \<in> set screen. length (ltext line) \<le> 466"
    and "reply = pre @ a4_answer adr UPDATE_OPT_CODE sn code @ post" and "0x55 \<notin> set pre" and "length reply \<le> 2048"
  shows "\<exists>e f. listen_refresh h w 16 mdl True stack reply screen lbs = Some e \<and> sent e = Some f
    \<and> a4_receive f = Some \<lparr>a_addr = 1, a_width = ucast (min w 64), a_high = ucast (min h 64),
        a_regions = map (\<lambda>i. region_view (listen_cfg mdl h w 16) (shown_row (listen_cfg mdl h w 16) screen lbs i))
                      [0..<nr_row (listen_cfg mdl h w 16)]\<rparr>
    \<and> result e = (if code = 1 then 0 else - 1) \<and> rows_ok (kept e)"
  using assms by (rule listen_refresh_rows)

lemma lines_buf0_ok: "rows_ok lines_buf0"
  by (simp add: rows_ok_def lines_buf0_def zero_line_def)

theorem listen_refresh_shows_rows_witness:
  "\<exists>e f. listen_refresh 32 64 16 (replicate 16 7) True (replicate 2048 0) (a4_answer 1 UPDATE_OPT_CODE 0 1)
      [own_line LED_ACTION_DISP 1 [0x41, 0x42]] lines_buf0 = Some e \<and> sent e = Some f
    \<and> a4_receive f = Some \<lparr>a_addr = 1, a_width = 64, a_high = 32, a_regions =
        [\<lparr>r_x = 0, r_y = 0, r_xx = 65535, r_yy = 65535, r_style = 1, r_speed = 0, r_text = []\<rparr>,
         \<lparr>r_x = 24, r_y = 16, r_xx = 39, r_yy = 31, r_style = 1, r_speed = 20, r_text = [0x41, 0x42]\<rparr>]\<rparr>
    \<and> result e = 0"
proof -
  let ?a4 = "listen_cfg (replicate 16 7) 32 64 16" and ?l = "own_line LED_ACTION_DISP 1 [0x41, 0x42]"
  have "region_view ?a4 (shown_row ?a4 [?l] lines_buf0 0)
      = \<lparr>r_x = 0, r_y = 0, r_xx = 65535, r_yy = 65535, r_style = 1, r_speed = 0, r_text = []\<rparr>"
    "region_view ?a4 (shown_row ?a4 [?l] lines_buf0 1)
      = \<lparr>r_x = 24, r_y = 16, r_xx = 39, r_yy = 31, r_style = 1, r_speed = 20, r_text = [0x41, 0x42]\<rparr>"
    "nr_row ?a4 = 2"
    by code_simp+
  then show ?thesis
    using listen_refresh_shows_rows [of 32 64 "replicate 16 7" "replicate 2048 0" lines_buf0 "[?l]"
        "a4_answer 1 UPDATE_OPT_CODE 0 1" "[]" 1 0 1 "[]"]
    by (simp add: lines_buf0_ok own_line_def a4_answer_def upt_conv_Cons del: upt_rec_numeral) fastforce
qed

section \<open>Faults\<close>

text \<open>Only rows of 16 points pass the assertion in \<open>make_region\<close>, though \<open>listen_refresh\<close> admits other heights.\<close>

lemma lattice_other_than_16_aborts:
  assumes "lattice a4 \<noteq> 16" and "0 < nr_row a4" and "length lbs = 4"
  shows "make_show a4 m q bufsz screen lbs = None"
proof -
  have "take (nr_row a4) (fold (keep_line a4) screen lbs) \<noteq> []"
    using assms(2,3) by (metis keep_lines_length list.size(3) length_take min_0L min_0R neq0_conv min_def zero_neq_numeral)
  then obtain lb rows where "take (nr_row a4) (fold (keep_line a4) screen lbs) = lb # rows"
    by (cases "take (nr_row a4) (fold (keep_line a4) screen lbs)") auto
  then show ?thesis
    using assms(1) by (simp add: make_show_def make_region_def Let_def split: bind_split)
qed

text \<open>
  A row that does not fit: its error value \<open>-1\<close> is taken for a length, so the loop goes on one byte earlier,
  over the end of the region before; and close to the end of the buffer its fields are stored outside.
\<close>

lemma long_row_steps_back:
  assumes "make_region a4 m (unat p) remain (lb_line lb) (lb_pos lb) = Some (m1, - 1)"
    and "poke (q + 1) (le32 (slen - 1)) m1 = Some m2"
  shows "add_regions a4 q (lb # lbs) m p remain slen = add_regions a4 q lbs m2 (p - 1) (remain + 1) (slen - 1)"
  using assms by simp

lemma make_region_overruns:
  assumes "lattice a4 = 16" and "length m < p + 26"
  shows "make_region a4 m p bufsz line pos = None"
  using assms by (simp add: make_region_def poke_def)

text \<open>The length in an answer is not compared with the bytes received: the check of the tail can read outside the buffer.\<close>

lemma answer_length_overreads:
  assumes "m = [0x55, 0xAA, 0, 0, adr, 0] @ le16 opt @ le16 0 @ le32 sn @ le32 (ucast n) @ le16 n @ rest"
    and "length m \<le> 20 + unat n" and "4 \<le> unat n" and "0 < len"
  shows "parse_ask_frm m len opt = None"
proof -
  have "conds (ask_hdr_conds 0 0 opt) m = Some True"
    by (simp add: assms(1) ask_hdr_conds_def le16_def)
  moreover have "[0..<len] = [] @ 0 # [1..<len]"
    using assms(4) by (simp add: upt_conv_Cons)
  ultimately have "ask_find_hdr m [0..<len] 0 opt = Some (Some 0)"
    by (simp add: ask_find_hdr_skip)
  moreover have "peek16 m 18 = Some n" "peek32 m 14 = Some (ucast n)"
    using of_le32_le32 [of "ucast n"] by (simp_all add: assms(1) peek16_def peek32_def le16_def le32_def)
  moreover have "ask_tail_is_pass m (20 + unat n) = None"
    using assms(2) by (simp add: ask_tail_is_pass_def peek_def)
  ultimately show ?thesis
    using assms(3) by (simp add: parse_ask_frm_def)
qed

end
