(* ===== verification/Degao.thy ===== *)
theory Degao
  imports Time_Util
begin

text \<open>
  The driver of the Degao display, \<open>dev/led/degao.c\<close>: building, escaping and pacing the frames
  that go out on the serial port. A buffer of the C code is the list of the bytes stored in it so
  far; a store past its size makes the call \<open>None\<close>. The clock reading of a call is its argument,
  and what it passes to \<open>usleep\<close> and to \<open>putnbyte\<close> is part of its result.
\<close>

definition CVD_STX :: u8 where "CVD_STX = 0x7F"
definition CVD_REFRESH_STATIC :: u8 where "CVD_REFRESH_STATIC = 0x41"
definition CVD_SET_MOVE :: u8 where "CVD_SET_MOVE = 0x44"

record cvd =
  prev_time :: timespec
  cvd_addr :: u8
  sz_max :: int

section \<open>Checksums and escaping\<close>

definition cvd_xor :: "u8 list \<Rightarrow> u8" where
  "cvd_xor data = fold (\<lambda>p cs. cs XOR p) data 0"

definition cvd_sum :: "u8 list \<Rightarrow> u8" where
  "cvd_sum data = fold (\<lambda>p cs. cs + p) data 0"

text \<open>\<open>*d++ = b\<close> into a buffer of \<open>sz\<close> bytes.\<close>

definition put :: "nat \<Rightarrow> u8 list \<Rightarrow> u8 \<Rightarrow> u8 list option" where
  "put sz d b = (if length d < sz then Some (d @ [b]) else None)"

fun esc_loop :: "nat \<Rightarrow> u8 list \<Rightarrow> u8 list \<Rightarrow> u8 list option" where
  "esc_loop sz [] d = Some d"
| "esc_loop sz (s # ss) d =
     (if length d < sz then do {
        d1 \<leftarrow> (if CVD_STX = s then put sz d CVD_STX else Some d);
        d2 \<leftarrow> put sz d1 s;
        esc_loop sz ss d2 }
      else Some d)"

text \<open>The bytes stored in \<open>dest\<close> and the value returned; the first byte is read unconditionally.\<close>

definition cvd_esc :: "nat \<Rightarrow> u8 list \<Rightarrow> (u8 list \<times> int) option" where
  "cvd_esc sz_dest src =
     (case src of [] \<Rightarrow> None
      | s # ss \<Rightarrow> do {
          d \<leftarrow> put sz_dest [] s;
          d' \<leftarrow> esc_loop sz_dest ss d;
          Some (d', if length d' = sz_dest then - 1 else int (length d')) })"

section \<open>Sending a command\<close>

text \<open>What a call does to the outside: nothing, or a delay in microseconds (if any) and a write.\<close>

datatype cvd_out = Dropped | Sent "int option" "u8 list"

definition cvd_buf_size :: nat where "cvd_buf_size = 512"

text \<open>The frame in \<open>buf\<close>: header, data, and the two checksums, which must fit behind them.\<close>

definition cvd_frame :: "u8 \<Rightarrow> u8 \<Rightarrow> u8 list \<Rightarrow> u8 list option" where
  "cvd_frame adr cmd data =
     (let body = [0x80 + adr, of_nat (length data + 1), cmd] @ data;
          frm = CVD_STX # body @ [cvd_xor body, cvd_sum body]
      in if length frm \<le> cvd_buf_size then Some frm else None)"

definition diff_time_max :: int where "diff_time_max = 1250"

definition cvd_send :: "timespec option \<Rightarrow> cvd \<Rightarrow> u8 \<Rightarrow> u8 list \<Rightarrow> (cvd \<times> cvd_out) option" where
  "cvd_send clk cvd cmd data =
     (if length data > cvd_buf_size - 4 then Some (cvd, Dropped)
      else do {
        frm \<leftarrow> cvd_frame (cvd_addr cvd) cmd data;
        (tx, tx_len) \<leftarrow> cvd_esc cvd_buf_size frm;
        (if 0 < tx_len
         then let (diff, cvd') =
                (case clk of
                   Some now \<Rightarrow> (timespec_diff_msec now (prev_time cvd), cvd\<lparr>prev_time := now\<rparr>)
                 | None \<Rightarrow> (0, cvd))
              in Some (cvd', Sent (if diff < diff_time_max then Some ((diff_time_max - diff) * 1000) else None) tx)
         else Some (cvd, Dropped)) })"

definition cvd_reset :: "u8 list" where
  "cvd_reset = [0x7F, 0x81, 0x04, 0x56, 0x01, 0x05, 0xFF, 0x28, 0xE0]"

section \<open>Static display\<close>

definition isascii :: "u8 \<Rightarrow> bool" where
  "isascii c \<longleftrightarrow> c AND 0x80 = 0"

definition fill_adjust_tab :: "u32 list" where
  "fill_adjust_tab = [0, 1, 0, 1, 0]"

text \<open>
  \<open>cvd_static_disp\<close> up to the call of \<open>cvd_send\<close>: the lengths of the front and tail padding, in
  \<open>size_t\<close> arithmetic. The scan starts \<open>4 - tail_space_len\<close> bytes before the end of the string;
  a start outside the string, or a text that does not fit the 32 byte buffer, is \<open>None\<close>.
\<close>

definition static_spaces :: "int \<Rightarrow> u8 list \<Rightarrow> (u32 \<times> u32) option" where
  "static_spaces szm str =
     (let len = of_nat (length str) :: u32;
          tail = (word_of_int szm - len) div 2;
          start = len - (4 - tail)
      in if unat start \<le> length str
         then let cnt = length (filter (\<lambda>c. \<not> isascii c) (drop (unat start) str));
                  tail' = tail + fill_adjust_tab ! cnt
              in if cnt < length fill_adjust_tab then Some (word_of_int szm - len - tail' + 8, tail') else None
         else None)"

definition cvd_static_disp :: "timespec option \<Rightarrow> cvd \<Rightarrow> u8 list \<Rightarrow> (cvd \<times> cvd_out) option" where
  "cvd_static_disp clk cvd str = do {
     (front, tail) \<leftarrow> static_spaces (sz_max cvd) str;
     (if unat front + length str + 1 \<le> 32 \<and> unat front + length str + unat tail \<le> 32
      then cvd_send clk cvd CVD_REFRESH_STATIC
             (replicate (unat front) 0x20 @ str @ replicate (unat tail) 0x20)
      else None) }"

definition cvd_clear :: "timespec option \<Rightarrow> cvd \<Rightarrow> (cvd \<times> cvd_out) option" where
  "cvd_clear clk cvd =
     (if 0 \<le> sz_max cvd \<and> sz_max cvd < 32
      then cvd_static_disp clk cvd (replicate (nat (sz_max cvd)) 0x20)
      else None)"

section \<open>Moving display and initialisation\<close>

definition cvd_dynamic_disp :: "timespec option \<Rightarrow> cvd \<Rightarrow> u8 list \<Rightarrow> u8 \<Rightarrow> (cvd \<times> cvd_out) option" where
  "cvd_dynamic_disp clk cvd str speed =
     (if length str + 1 > 1024 then Some (cvd, Dropped)
      else cvd_send clk cvd CVD_SET_MOVE (speed # str))"

definition cvd_disp :: "timespec option \<Rightarrow> cvd \<Rightarrow> u8 list \<Rightarrow> u8 \<Rightarrow> (cvd \<times> cvd_out) option" where
  "cvd_disp clk cvd str speed = cvd_dynamic_disp clk cvd str speed"

definition cvd_init :: "timespec option \<Rightarrow> u8 \<Rightarrow> cvd" where
  "cvd_init clk adr =
     \<lparr>prev_time = (case clk of Some t \<Rightarrow> t | None \<Rightarrow> \<lparr>ts_sec = 0, ts_nsec = 0\<rparr>),
      cvd_addr = adr, sz_max = 8\<rparr>"

section \<open>The receiver\<close>

text \<open>
  What the display must do to understand a frame: undouble the start bytes after the first one,
  check the two checksums, and take the length byte as the number of bytes from the command on.
\<close>

fun cvd_unesc :: "u8 list \<Rightarrow> u8 list option" where
  "cvd_unesc [] = Some []"
| "cvd_unesc (s # ss) =
     (if s = CVD_STX
      then (case ss of t # ts \<Rightarrow> if t = CVD_STX then map_option (Cons CVD_STX) (cvd_unesc ts) else None
            | [] \<Rightarrow> None)
      else map_option (Cons s) (cvd_unesc ss))"

definition cvd_receive :: "u8 list \<Rightarrow> (u8 \<times> u8 \<times> u8 list) option" where
  "cvd_receive tx =
     (case tx of [] \<Rightarrow> None
      | s # ss \<Rightarrow> do {
          frm \<leftarrow> cvd_unesc ss;
          let body = butlast (butlast frm);
          (case body of
             adr # len # cmd # data \<Rightarrow>
               (if s = CVD_STX \<and> unat len = length data + 1
                   \<and> frm = body @ [cvd_xor body, cvd_sum body]
                then Some (adr, cmd, data) else None)
           | _ \<Rightarrow> None) })"

section \<open>Escaping\<close>

definition esc :: "u8 list \<Rightarrow> u8 list" where
  "esc xs = concat (map (\<lambda>s. if s = CVD_STX then [CVD_STX, CVD_STX] else [s]) xs)"

lemma esc_simps [simp]:
  "esc [] = []" "esc (s # ss) = (if s = CVD_STX then [CVD_STX, CVD_STX] else [s]) @ esc ss"
  "esc (xs @ ys) = esc xs @ esc ys"
  by (simp_all add: esc_def)

lemma unesc_esc: "cvd_unesc (esc xs) = Some xs"
  by (induction xs) auto

lemma length_esc: "length xs \<le> length (esc xs)" "length (esc xs) \<le> 2 * length xs"
  by (induction xs) auto

lemma esc_loop_fits: "length d + length (esc ss) \<le> sz \<Longrightarrow> esc_loop sz ss d = Some (d @ esc ss)"
  by (induction ss arbitrary: d) (auto simp: put_def)

lemma cvd_esc_fits:
  assumes "length (esc ss) + 1 < sz"
  shows "cvd_esc sz (s # ss) = Some (s # esc ss, int (length (esc ss)) + 1)"
  using assms esc_loop_fits [of "[s]" ss sz] by (simp add: cvd_esc_def put_def)

text \<open>One byte of room left and a start byte to escape: the second copy is stored past the buffer.\<close>

lemma esc_loop_overflow:
  assumes "length d + length (esc xs) + 1 = sz"
  shows "esc_loop sz (xs @ CVD_STX # ys) d = None"
  using assms by (induction xs arbitrary: d) (auto simp: put_def)

section \<open>Properties\<close>

lemma cvd_frame_receive:
  assumes "length data \<le> 249" and "cvd_frame adr cmd data = Some (s # ss)"
  shows "cvd_receive (s # esc ss) = Some (0x80 + adr, cmd, data)"
proof -
  let ?body = "[0x80 + adr, of_nat (length data + 1), cmd] @ data"
  have ss: "s = CVD_STX" "ss = ?body @ [cvd_xor ?body, cvd_sum ?body]"
    using assms(2) by (simp_all add: cvd_frame_def Let_def split: if_splits)
  have "unat (of_nat (length data + 1) :: u8) = length data + 1"
    using assms(1) by (simp add: unat_of_nat take_bit_nat_eq_self del: of_nat_add of_nat_Suc)
  moreover have "butlast (butlast (xs @ [a, b])) = xs" for xs and a b :: u8
    by (simp add: butlast_append)
  ultimately show ?thesis
    unfolding ss cvd_receive_def list.case unesc_esc Option.bind.bind_lunit Let_def
    by (simp add: butlast_append)
qed

lemma cvd_send_receivable:
  assumes "length data \<le> 249"
  shows "\<exists>cvd' d tx. cvd_send clk cvd cmd data = Some (cvd', Sent d tx)
      \<and> cvd_receive tx = Some (0x80 + cvd_addr cvd, cmd, data)"
proof -
  obtain s ss where frm: "cvd_frame (cvd_addr cvd) cmd data = Some (s # ss)"
      and len: "length ss = length data + 5"
    using assms by (simp add: cvd_frame_def Let_def cvd_buf_size_def)
  have "length (esc ss) + 1 < cvd_buf_size"
    using length_esc(2) [of ss] len assms by (simp add: cvd_buf_size_def)
  then have "cvd_esc cvd_buf_size (s # ss) = Some (s # esc ss, int (length (esc ss)) + 1)"
    by (rule cvd_esc_fits)
  with frm cvd_frame_receive [OF assms frm] assms show ?thesis
    by (auto simp: cvd_send_def Let_def cvd_buf_size_def split: option.split)
qed

text \<open>
  C20. Every command with up to 249 bytes of data reaches the display: \<open>cvd_send\<close> transmits a
  byte sequence from which a receiver that undoubles the start bytes and checks the length byte
  and both checksums recovers exactly the address, the command and the data, whatever bytes
  they contain.
\<close>

theorem cvd_send_is_received:
  assumes "length data \<le> 249"
  shows "\<exists>cvd' d tx. cvd_send clk cvd cmd data = Some (cvd', Sent d tx)
      \<and> cvd_receive tx = Some (0x80 + cvd_addr cvd, cmd, data)"
  using assms by (rule cvd_send_receivable)

theorem cvd_send_is_received_witness:
  "\<exists>cvd' d tx. cvd_send None (cvd_init None 1) CVD_SET_MOVE [50, 0x7F, 0x41] = Some (cvd', Sent d tx)
     \<and> cvd_receive tx = Some (0x80 + cvd_addr (cvd_init None 1), CVD_SET_MOVE, [50, 0x7F, 0x41])"
  by (rule cvd_send_is_received) simp

text \<open>
  The bounds check of \<open>cvd_send\<close> forgets the checksums: data of 507 or 508 bytes pass it,
  and the checksum bytes are stored behind the 512 byte frame buffer. A text of 506 or 507
  characters, well within the 1023 a display line can hold, does this from \<open>cvd_disp\<close>.
\<close>

lemma cvd_disp_overflows:
  assumes "length str = 506 \<or> length str = 507"
  shows "cvd_disp clk cvd str speed = None"
  using assms by (auto simp: cvd_disp_def cvd_dynamic_disp_def cvd_send_def cvd_frame_def cvd_buf_size_def Let_def)

text \<open>
  The pause between two frames is counted from the call that sent the first one, before its own
  pause: a frame that was itself delayed by 1250 ms can be followed 10 ms later by the next.
\<close>

lemma cvd_pacing_counts_from_the_call:
  fixes c :: cvd
  assumes "prev_time c = \<lparr>ts_sec = 100, ts_nsec = 0\<rparr>" and "length data \<le> 249"
  shows "\<exists>c1 tx1 c2 tx2.
      cvd_send (Some \<lparr>ts_sec = 100, ts_nsec = 0\<rparr>) c cmd data = Some (c1, Sent (Some 1250000) tx1)
    \<and> cvd_send (Some \<lparr>ts_sec = 101, ts_nsec = 260000000\<rparr>) c1 cmd data = Some (c2, Sent None tx2)"
proof -
  obtain s ss where frm: "cvd_frame a cmd data = Some (s # ss)" "length ss = length data + 5" if "a = cvd_addr c" for a
    using assms(2) by (simp add: cvd_frame_def Let_def cvd_buf_size_def)
  have "length (esc ss) + 1 < cvd_buf_size"
    using length_esc(2) [of ss] frm(2) assms(2) by (simp add: cvd_buf_size_def)
  then have "cvd_esc cvd_buf_size (s # ss) = Some (s # esc ss, int (length (esc ss)) + 1)"
    by (rule cvd_esc_fits)
  with frm(1) assms show ?thesis
    by (simp add: cvd_send_def Let_def cvd_buf_size_def diff_time_max_def timespec_diff_msec_def timespec_sub_def
        s32_id sdiv_nonneg)
qed

text \<open>The escaping has an overflow of its own, at a start byte that meets one byte of room.\<close>

lemma cvd_esc_overflow: "cvd_esc 512 (CVD_STX # 0x81 # 0 # CVD_SET_MOVE # 50 # replicate 254 CVD_STX) = None"
proof -
  have r: "replicate 254 CVD_STX = replicate 253 CVD_STX @ CVD_STX # []"
    using replicate_Suc [of 253 CVD_STX] by (simp add: replicate_append_same)
  have "length (esc (replicate n CVD_STX)) = 2 * n" for n
    by (induction n) auto
  then have "esc_loop 512 ((0x81 # 0 # CVD_SET_MOVE # 50 # replicate 253 CVD_STX) @ CVD_STX # []) [CVD_STX] = None"
    by (intro esc_loop_overflow) (simp add: CVD_STX_def CVD_SET_MOVE_def)
  then show ?thesis
    by (simp add: cvd_esc_def put_def r)
qed

lemma static_cases:
  fixes n :: nat
  assumes "n \<le> 8"
  shows "n = 0 \<or> n = 1 \<or> n = 2 \<or> n = 3 \<or> n = 4 \<or> n = 5 \<or> n = 6 \<or> n = 7 \<or> n = 8"
  using assms by linarith

lemma static_tail:
  assumes "n \<le> 8"
  defines "tail \<equiv> (word_of_int 8 - of_nat n :: u32) div 2"
  shows "unat tail = (8 - n) div 2" and "unat (of_nat n - (4 - tail)) = n - (4 - (8 - n) div 2)"
  using static_cases [OF assms(1)] unfolding tail_def by (elim disjE; simp)+

lemma fill_adjust:
  assumes "c \<le> 4"
  shows "fill_adjust_tab ! c = 0 \<or> fill_adjust_tab ! c = 1"
proof -
  have "fill_adjust_tab ! c \<in> set fill_adjust_tab"
    using assms by (intro nth_mem) (simp add: fill_adjust_tab_def)
  then show ?thesis by (auto simp: fill_adjust_tab_def)
qed

lemma static_front:
  assumes "n \<le> 8" and "f = 0 \<or> f = 1"
  defines "tail \<equiv> (word_of_int 8 - of_nat n :: u32) div 2 + f"
  shows "unat (word_of_int 8 - of_nat n - tail + 8) + n + unat tail = 16"
    and "7 \<le> unat (word_of_int 8 - of_nat n - tail + 8)"
    and "unat tail \<le> 5"
  using static_cases [OF assms(1)] assms(2) unfolding tail_def by (elim disjE; simp)+

lemma static_spaces_ok:
  assumes "length str \<le> 8"
  shows "\<exists>front tail. static_spaces 8 str = Some (front, tail)
    \<and> unat front + length str + unat tail = 16 \<and> 7 \<le> unat front \<and> unat tail \<le> 5"
proof -
  let ?n = "length str"
  let ?tail = "(word_of_int 8 - of_nat ?n :: u32) div 2"
  let ?start = "of_nat ?n - (4 - ?tail)"
  let ?c = "length (filter (\<lambda>c. \<not> isascii c) (drop (unat ?start) str))"
  have "?c \<le> length (drop (unat ?start) str)" by (rule length_filter_le)
  also have "\<dots> \<le> 4" unfolding length_drop static_tail(2) [OF assms] by linarith
  finally have c: "?c \<le> 4" .
  have "unat ?start \<le> ?n" unfolding static_tail(2) [OF assms] by simp
  moreover have "?c < length fill_adjust_tab" using c by (simp add: fill_adjust_tab_def)
  moreover have "fill_adjust_tab ! ?c = 0 \<or> fill_adjust_tab ! ?c = 1" by (rule fill_adjust [OF c])
  ultimately show ?thesis
    using static_front [OF assms, of "fill_adjust_tab ! ?c"] unfolding static_spaces_def Let_def by simp
qed

text \<open>
  A static text of up to eight bytes is always sent as sixteen columns and received whole:
  at least seven leading spaces (the display hides the first eight columns), the text, and the
  rest of the spaces.
\<close>

theorem cvd_static_disp_sixteen_columns:
  assumes "length str \<le> 8" and "sz_max cvd = 8"
  shows "\<exists>cvd' d tx front tail. cvd_static_disp clk cvd str = Some (cvd', Sent d tx)
      \<and> cvd_receive tx = Some (0x80 + cvd_addr cvd, CVD_REFRESH_STATIC,
           replicate front 0x20 @ str @ replicate tail 0x20)
      \<and> front + length str + tail = 16 \<and> 7 \<le> front"
proof -
  obtain front tail where s: "static_spaces (sz_max cvd) str = Some (front, tail)"
      and len: "unat front + length str + unat tail = 16" "7 \<le> unat front" "unat tail \<le> 5"
    using static_spaces_ok [OF assms(1)] assms(2) by auto
  let ?data = "replicate (unat front) 0x20 @ str @ replicate (unat tail) 0x20"
  have "cvd_static_disp clk cvd str = cvd_send clk cvd CVD_REFRESH_STATIC ?data"
    using s len by (simp add: cvd_static_disp_def)
  moreover have "length ?data \<le> 249" using len by simp
  ultimately show ?thesis
    using cvd_send_receivable [of ?data clk cvd CVD_REFRESH_STATIC] len by metis
qed

theorem cvd_static_disp_sixteen_columns_witness:
  "\<exists>cvd' d tx front tail. cvd_static_disp None (cvd_init None 1) [0xB2, 0xB4, 0x41] = Some (cvd', Sent d tx)
      \<and> cvd_receive tx = Some (0x80 + cvd_addr (cvd_init None 1), CVD_REFRESH_STATIC,
           replicate front 0x20 @ [0xB2, 0xB4, 0x41] @ replicate tail 0x20)
      \<and> front + length [0xB2, 0xB4, 0x41 :: u8] + tail = 16 \<and> 7 \<le> front"
  by (rule cvd_static_disp_sixteen_columns) (simp_all add: cvd_init_def)

end
