(* ===== verification/Cstdio.thy ===== *)
theory Cstdio
  imports Xstring
begin

text \<open>
  The conversions of the C library that the storage and platform code uses: \<open>%d\<close>, \<open>%0nd\<close> and \<open>%012x\<close>
  of \<open>printf\<close>, the bound of \<open>snprintf\<close>, \<open>strstr\<close>, and \<open>atoi\<close> for texts of numbers within the range of \<open>int\<close>
  (outside it C leaves the result undefined), with the round trip of \<open>atoi\<close> and \<open>%d\<close>.
\<close>

definition snprintf_s :: "nat \<Rightarrow> string \<Rightarrow> string" where
  "snprintf_s n s = take (n - 1) s"

text \<open>\<open>strstr\<close> is the rest of a string from the first occurrence of another.\<close>

fun strstr :: "string \<Rightarrow> string \<Rightarrow> string option" where
  "strstr [] p = (if p = [] then Some [] else None)"
| "strstr (c # s) p = (if take (length p) (c # s) = p then Some (c # s) else strstr s p)"

definition hex_digit :: "nat \<Rightarrow> char" where
  "hex_digit d = (if d < 10 then char_of (48 + d) else char_of (87 + d))"

text \<open>The last \<open>n\<close> hexadecimal digits of a number.\<close>

primrec hex :: "nat \<Rightarrow> nat \<Rightarrow> string" where
  "hex 0 v = []"
| "hex (Suc n) v = hex n (v div 16) @ [hex_digit (v mod 16)]"

fun dec :: "nat \<Rightarrow> string" where
  "dec v = (if v < 10 then [char_of (48 + v)] else dec (v div 10) @ [char_of (48 + v mod 10)])"

declare dec.simps [simp del]

definition dec_int :: "int \<Rightarrow> string" where
  "dec_int i = (if i < 0 then CHR ''-'' # dec (nat (- i)) else dec (nat i))"

text \<open>\<open>%0nd\<close>: at least \<open>n\<close> characters, filled with zeros behind the sign.\<close>

definition dec_pad :: "nat \<Rightarrow> int \<Rightarrow> string" where
  "dec_pad n i = (let s = dec (nat \<bar>i\<bar>); sg = (if i < 0 then ''-'' else '''')
     in sg @ replicate (n - length s - length sg) (CHR ''0'') @ s)"

definition is_digit :: "char \<Rightarrow> bool" where
  "is_digit c \<longleftrightarrow> 48 \<le> (of_char c :: nat) \<and> (of_char c :: nat) \<le> 57"

definition is_space :: "char \<Rightarrow> bool" where
  "is_space c \<longleftrightarrow> c = CHR '' '' \<or> 9 \<le> (of_char c :: nat) \<and> (of_char c :: nat) \<le> 13"

fun digits :: "nat \<Rightarrow> string \<Rightarrow> nat" where
  "digits a [] = a"
| "digits a (c # s) = (if is_digit c then digits (10 * a + (of_char c - 48)) s else a)"

definition atoi :: "string \<Rightarrow> int" where
  "atoi s = (case dropWhile is_space s of
       [] \<Rightarrow> 0
     | c # r \<Rightarrow> if c = CHR ''-'' then - int (digits 0 r)
               else if c = CHR ''+'' then int (digits 0 r) else int (digits 0 (c # r)))"

lemma length_hex [simp]: "length (hex n v) = n"
  by (induction n arbitrary: v) auto

lemma length_dec: "v < 10 ^ k \<Longrightarrow> 0 < k \<Longrightarrow> length (dec v) \<le> k"
proof (induction v arbitrary: k rule: dec.induct)
  case (1 v)
  show ?case
  proof (cases "v < 10")
    case False
    then obtain j where j: "k = Suc j" "0 < j"
      using "1.prems" by (cases k; cases "k = 1") auto
    have "v div 10 < 10 ^ j"
      using "1.prems"(1) j by (simp add: less_mult_imp_div_less mult.commute)
    then show ?thesis
      using "1.IH" [OF False, of j] False j by (simp add: dec.simps [of v])
  qed (use "1.prems" in \<open>simp add: dec.simps [of v]\<close>)
qed

lemma of_char_digit: "(d :: nat) < 10 \<Longrightarrow> (of_char (char_of (48 + d) :: char) :: nat) = 48 + d"
  by simp

lemma is_digit_digit [simp]: "(d :: nat) < 10 \<Longrightarrow> is_digit (char_of (48 + d))"
  unfolding is_digit_def of_char_digit by simp

lemma digits_dec: "digits a (dec v @ s) = digits (a * 10 ^ length (dec v) + v) s"
proof (induction v arbitrary: a s rule: dec.induct)
  case (1 v)
  show ?case
  proof (cases "v < 10")
    case True
    then show ?thesis
      by (simp add: dec.simps [of v] mult.commute)
  next
    case False
    then have "digits a (dec v @ s) = digits (10 * (a * 10 ^ length (dec (v div 10)) + v div 10) + v mod 10) s"
      using "1.IH" [OF False, of a "[char_of (48 + v mod 10)] @ s"]
      by (simp add: dec.simps [of v] mult.commute)
    also have "10 * (a * 10 ^ length (dec (v div 10)) + v div 10) + v mod 10 = a * 10 ^ length (dec v) + v"
      using False by (simp add: dec.simps [of v] algebra_simps)
    finally show ?thesis .
  qed
qed

lemma dec_head: "\<exists>c r. dec v = c # r \<and> is_digit c"
proof (induction v rule: dec.induct)
  case (1 v)
  then show ?case
    by (cases "v < 10") (fastforce simp: dec.simps [of v])+
qed

lemma digit_no_sign: "is_digit c \<Longrightarrow> \<not> is_space c \<and> c \<noteq> CHR ''-'' \<and> c \<noteq> CHR ''+''"
  by (auto simp: is_digit_def is_space_def)

lemma atoi_dec_int [simp]: "atoi (dec_int i) = i"
proof (cases "i < 0")
  case True
  then show ?thesis
    using digits_dec [of 0 "nat (- i)" "[]"] by (simp add: atoi_def dec_int_def is_space_def)
next
  case False
  obtain c r where d: "dec (nat i) = c # r" "is_digit c"
    using dec_head by blast
  then show ?thesis
    using False digits_dec [of 0 "nat i" "[]"] digit_no_sign [OF d(2)] by (simp add: atoi_def dec_int_def)
qed

end
