(* ===== verification/Fly.thy ===== *)
theory Fly
  imports Cstdio "HOL-Library.Monad_Syntax"
begin

text \<open>
  The driver of the Fly EQ20131 display, \<open>dev/led/fly_eq20131.c\<close>, as far as the program calls it: the
  command that deletes all regions, its transmission with two retries, the search for the answer in
  the bytes received, and \<open>fly_eq20131_disp\<close>. The functions that build regions and voice frames have no
  caller that is not commented out or in a loop over zero lines. Whether the port opens, and what
  arrives after each transmission, are arguments.
\<close>

section \<open>Looking for the answer\<close>

text \<open>The searches work on offsets into the buffer, of which \<open>sz\<close> bytes have been received.\<close>

definition find_ask_frm_hdr :: "string \<Rightarrow> nat \<Rightarrow> nat option" where
  "find_ask_frm_hdr frm sz = List.find (\<lambda>p. frm ! p = CHR ''#'' \<and> frm ! (p + 1) = CHR ''#'') [0..<sz - 1]"

definition find_ask_frm_end :: "string \<Rightarrow> nat \<Rightarrow> nat \<Rightarrow> nat option" where
  "find_ask_frm_end frm start sz = List.find (\<lambda>p. frm ! p = CHR ''$'') [start..<start + sz]"

definition find_ask_frm :: "string \<Rightarrow> nat \<Rightarrow> (nat \<times> nat) option" where
  "find_ask_frm frm sz = do {
     start \<leftarrow> find_ask_frm_hdr frm sz;
     e \<leftarrow> find_ask_frm_end frm start (sz - (start + 1));
     Some (start, e - start + 1) }"

definition ok_ask :: string where
  "ok_ask = ''##FOK$''"

definition fly_led_chk_ask :: "string \<Rightarrow> nat \<Rightarrow> int" where
  "fly_led_chk_ask frm sz =
     (case find_ask_frm frm sz of
        None \<Rightarrow> - 1
      | Some (ask, len) \<Rightarrow>
          (let k = min (length ok_ask) len
           in if take k (drop ask frm) \<noteq> take k ok_ask then - 1 else 0))"

section \<open>Sending\<close>

text \<open>
  \<open>fly_led_send\<close>: \<open>r k\<close> are the bytes that arrive after the \<open>k\<close>-th transmission, none when the receiving
  call times out or fails. The value is what the call returns and what it sends.
\<close>

fun send_loop :: "nat \<Rightarrow> (nat \<Rightarrow> string) \<Rightarrow> nat \<Rightarrow> string \<Rightarrow> int \<times> string list" where
  "send_loop 0 r k data = (- 1, [])"
| "send_loop (Suc retry) r k data =
     (let buf = take 256 (r k)
      in if 0 < length buf \<and> fly_led_chk_ask buf (length buf) = 0 then (0, [data])
         else let (res, tx) = send_loop retry r (Suc k) data in (res, data # tx))"

definition fly_led_send :: "(nat \<Rightarrow> string) \<Rightarrow> string \<Rightarrow> int \<times> string list" where
  "fly_led_send r data = send_loop 3 r 0 data"

definition del_all_cmd :: "int \<Rightarrow> string" where
  "del_all_cmd adr = ''!#'' @ dec_pad 3 adr @ ''%ZD00$$''"

definition del_all_lines :: "bool \<Rightarrow> (nat \<Rightarrow> string) \<Rightarrow> int \<Rightarrow> int \<times> string list" where
  "del_all_lines opened r adr =
     (if \<not> opened then (- 1, []) else fly_led_send r (snprintf_s 32 (del_all_cmd adr)))"

definition fly_eq20131_clear :: "bool \<Rightarrow> (nat \<Rightarrow> string) \<Rightarrow> int \<Rightarrow> int \<times> string list" where
  "fly_eq20131_clear opened r adr = del_all_lines opened r adr"

text \<open>
  \<open>fly_eq20131_disp\<close>: the number of lines to show is the constant zero, so that nothing follows the deletion.
\<close>

definition fly_eq20131_disp :: "bool \<Rightarrow> (nat \<Rightarrow> string) \<Rightarrow> int \<Rightarrow> 'screen \<Rightarrow> int \<times> string list" where
  "fly_eq20131_disp opened r adr screen =
     (let (res, tx) = del_all_lines opened r adr in if res \<noteq> 0 then (- 1, tx) else (0, tx))"

section \<open>Facts\<close>

lemma find_upt_Some:
  "List.find P [a..<b] = Some n \<longleftrightarrow> a \<le> n \<and> n < b \<and> P n \<and> (\<forall>m. a \<le> m \<and> m < n \<longrightarrow> \<not> P m)"
  unfolding find_Some_iff
proof (intro iffI; elim exE conjE)
  fix i assume "i < length [a..<b]" "P ([a..<b] ! i)" "n = [a..<b] ! i" "\<forall>j<i. \<not> P ([a..<b] ! j)"
  then show "a \<le> n \<and> n < b \<and> P n \<and> (\<forall>m. a \<le> m \<and> m < n \<longrightarrow> \<not> P m)"
    by (auto, metis add_diff_inverse_nat less_diff_conv2 linorder_not_less nat_add_left_cancel_less nth_upt order_less_trans)
next
  assume "a \<le> n" "n < b" "P n" "\<forall>m. a \<le> m \<and> m < n \<longrightarrow> \<not> P m"
  then show "\<exists>i<length [a..<b]. P ([a..<b] ! i) \<and> n = [a..<b] ! i \<and> (\<forall>j<i. \<not> P ([a..<b] ! j))"
    by (intro exI [of _ "n - a"]) auto
qed

lemma ok_ask_nth: "length ok_ask = 6" "ok_ask ! 0 = CHR ''#''" "ok_ask ! Suc 0 = CHR ''#''" "ok_ask ! 5 = CHR ''$''"
  "i < 5 \<Longrightarrow> ok_ask ! i \<noteq> CHR ''$''"
  by (auto simp: ok_ask_def less_Suc_eq numeral_eq_Suc)

text \<open>
  The driver takes a reply for an acknowledgment exactly when the first pair of number signs in it begins
  \<open>##FOK$\<close> and at least one more byte follows: an acknowledgment that ends the reply is refused.
\<close>

theorem fly_answer_accepted_iff:
  "fly_led_chk_ask frm (length frm) = 0 \<longleftrightarrow>
     (\<exists>pre post. frm = pre @ ok_ask @ post \<and> post \<noteq> []
        \<and> (\<forall>p < length pre. \<not> (frm ! p = CHR ''#'' \<and> frm ! (p + 1) = CHR ''#'')))"
  (is "?l = (\<exists>pre post. ?r pre post)")
proof
  let ?n = "length frm"
  assume ?l
  then obtain s e where s: "find_ask_frm_hdr frm ?n = Some s" and e: "find_ask_frm_end frm s (?n - (s + 1)) = Some e"
    and eq: "take (min 6 (e - s + 1)) (drop s frm) = take (min 6 (e - s + 1)) ok_ask"
    by (auto simp: fly_led_chk_ask_def find_ask_frm_def ok_ask_nth(1) Let_def split: option.splits bind_splits if_splits)
  note S = s [unfolded find_ask_frm_hdr_def find_upt_Some] and E = e [unfolded find_ask_frm_end_def find_upt_Some]
  have se: "s \<le> e" "e < ?n - 1" "frm ! e = CHR ''$''"
    using E by auto
  have "6 \<le> e - s + 1"
  proof (rule ccontr)
    assume short: "\<not> 6 \<le> e - s + 1"
    then have "take (e - s + 1) (drop s frm) ! (e - s) = take (e - s + 1) ok_ask ! (e - s)"
      using eq by (simp add: min_def)
    then have "ok_ask ! (e - s) = CHR ''$''"
      using se by simp
    moreover have "e - s < 5"
      using short by simp
    ultimately show False
      using ok_ask_nth(5) by blast
  qed
  then have "take 6 (drop s frm) = ok_ask" and len: "s + 6 < ?n"
    using eq se by (simp_all add: min_def ok_ask_nth(1))
  then have "frm = take s frm @ ok_ask @ drop (s + 6) frm"
    by (metis add.commute append_take_drop_id drop_drop)
  then have "?r (take s frm) (drop (s + 6) frm)"
    using S len by simp
  then show "\<exists>pre post. ?r pre post" by blast
next
  assume "\<exists>pre post. ?r pre post"
  then obtain pre post where f: "frm = pre @ ok_ask @ post" "post \<noteq> []"
    and no: "\<forall>p < length pre. \<not> (frm ! p = CHR ''#'' \<and> frm ! (p + 1) = CHR ''#'')"
    by blast
  let ?n = "length frm" and ?s = "length pre"
  have n: "?s + 6 < ?n"
    using f by (simp add: ok_ask_nth(1))
  have at: "frm ! (?s + i) = ok_ask ! i" if "i < 6" for i
    using that by (simp add: f(1) nth_append ok_ask_nth(1))
  have "find_ask_frm_hdr frm ?n = Some ?s"
    unfolding find_ask_frm_hdr_def find_upt_Some using n no at [of 0] at [of 1] by (simp add: ok_ask_nth)
  moreover have "find_ask_frm_end frm ?s (?n - (?s + 1)) = Some (?s + 5)"
    unfolding find_ask_frm_end_def find_upt_Some
  proof (intro conjI allI impI)
    fix m assume "?s \<le> m \<and> m < ?s + 5"
    moreover from this have "m - ?s < 5" by arith
    ultimately show "frm ! m \<noteq> CHR ''$''"
      using at [of "m - ?s"] ok_ask_nth(5) [of "m - ?s"] by auto
  qed (use n at [of 5] in \<open>simp_all add: ok_ask_nth\<close>)
  moreover have "take 6 (drop ?s frm) = ok_ask"
    by (simp add: f(1) ok_ask_nth(1))
  ultimately show ?l
    by (simp add: fly_led_chk_ask_def find_ask_frm_def ok_ask_nth(1))
qed

theorem fly_answer_accepted_iff_witness:
  "fly_led_chk_ask ''!##FOK$!'' 8 = 0 \<and> fly_led_chk_ask ok_ask 6 \<noteq> 0"
proof
  have "''!##FOK$!'' = ''!'' @ ok_ask @ ''!'' \<and> ''!'' \<noteq> []
      \<and> (\<forall>p < length ''!''. \<not> (''!##FOK$!'' ! p = CHR ''#'' \<and> ''!##FOK$!'' ! (p + 1) = CHR ''#''))"
    by (simp add: ok_ask_def)
  then have "fly_led_chk_ask ''!##FOK$!'' (length ''!##FOK$!'') = 0"
    unfolding fly_answer_accepted_iff by blast
  then show "fly_led_chk_ask ''!##FOK$!'' 8 = 0"
    by (simp add: numeral_eq_Suc)
  have "ok_ask \<noteq> pre @ ok_ask @ post" if "post \<noteq> []" for pre post
    using that by (metis append_is_Nil_conv append_self_conv length_append less_add_same_cancel2 length_greater_0_conv
        nat_neq_iff add.left_commute)
  then show "fly_led_chk_ask ok_ask 6 \<noteq> 0"
    using fly_answer_accepted_iff [of ok_ask] by (auto simp: ok_ask_nth(1))
qed

text \<open>At most three transmissions, the last one at the first accepted reply.\<close>

lemma send_loop_result:
  defines "ok \<equiv> \<lambda>r k. r k \<noteq> [] \<and> fly_led_chk_ask (take 256 (r k)) (length (take 256 (r k))) = 0"
  shows "send_loop n r k data = (if \<exists>j < n. ok r (k + j)
      then (0, replicate (Suc (LEAST j. ok r (k + j))) data) else (- 1, replicate n data))"
proof (induction n arbitrary: k)
  case (Suc n)
  show ?case
  proof (cases "ok r k")
    case True
    then have "(LEAST j. ok r (k + j)) = 0" by (simp add: Least_eq_0)
    then show ?thesis using True by (auto simp: ok_def Let_def)
  next
    case False
    have ex: "(\<exists>j < Suc n. ok r (k + j)) \<longleftrightarrow> (\<exists>j < n. ok r (Suc k + j))"
      using False by (metis (no_types, lifting) Nat.add_0_right add_Suc_right add_Suc_shift less_Suc_eq_0_disj)
    have least: "(LEAST j. ok r (k + j)) = Suc (LEAST j. ok r (Suc k + j))" if "ok r (Suc k + j)" for j
      using Least_Suc [of "\<lambda>j. ok r (k + j)" "Suc j"] that False by simp
    have "send_loop (Suc n) r k data = (let (res, tx) = send_loop n r (Suc k) data in (res, data # tx))"
      using False by (auto simp: ok_def Let_def)
    then show ?thesis
      using ex least by (auto simp: Suc Let_def)
  qed
qed simp

text \<open>Whatever screen it is given, the display is only cleared.\<close>

lemma fly_disp_shows_nothing:
  "set (snd (fly_eq20131_disp opened r adr screen)) \<subseteq> {snprintf_s 32 (del_all_cmd adr)}"
proof -
  have "set (snd (fly_led_send r data)) \<subseteq> {data}" for data
    unfolding fly_led_send_def send_loop_result by (auto split: if_splits)
  then show ?thesis
    by (auto simp: fly_eq20131_disp_def del_all_lines_def Let_def split: prod.splits)
       (metis in_mono singletonD snd_conv)+
qed

end
