(* ===== verification/Led_Ports.thy ===== *)
theory Led_Ports
  imports Led_Correct Listen_Correct Degao Fly
begin

text \<open>
  The ports of the display manager, \<open>ve/dev/led_ports.c\<close>: the \<open>refresh\<close> functions of the Degao and
  Fly displays (that of the Listen card is in theory Listen), and the path of a line from its queue in
  the display manager over the refresh of the Listen card to what the card reads.
\<close>

section \<open>Degao\<close>

text \<open>
  The static \<open>degao\<close> is initialised by the first call, at the reading \<open>clk0\<close> of the clock. The call shows
  the text of the first line of the screen, whatever its row and its action.
\<close>

definition degao_init :: "timespec option \<Rightarrow> cvd option \<Rightarrow> cvd" where
  "degao_init clk0 d = (case d of None \<Rightarrow> cvd_init clk0 1 | Some c \<Rightarrow> c)"

definition ve_degao_refresh :: "timespec option \<Rightarrow> timespec option \<Rightarrow> cvd option \<Rightarrow> led_line list
    \<Rightarrow> (cvd option \<times> cvd_out option) option" where
  "ve_degao_refresh clk0 clk d screen =
     (let c = degao_init clk0 d
      in case screen of
           [] \<Rightarrow> Some (Some c, None)
         | line # _ \<Rightarrow> do { (c', out) \<leftarrow> cvd_disp clk c (ltext line) 50; Some (Some c', Some out) })"

definition ve_degao_clear_line :: "timespec option \<Rightarrow> timespec option \<Rightarrow> cvd option \<Rightarrow> (cvd option \<times> cvd_out) option" where
  "ve_degao_clear_line clk0 clk d = do { (c', out) \<leftarrow> cvd_clear clk (degao_init clk0 d); Some (Some c', out) }"

lemma cvd_disp_receivable:
  assumes "length str \<le> 248"
  shows "\<exists>c' d tx. cvd_disp clk c str speed = Some (c', Sent d tx)
    \<and> cvd_receive tx = Some (0x80 + cvd_addr c, CVD_SET_MOVE, speed # str)"
  using assms cvd_send_receivable [of "speed # str" clk c CVD_SET_MOVE] by (simp add: cvd_disp_def cvd_dynamic_disp_def)

text \<open>
  The manager clears a row by a line with the action to clear and no text of its own. The Degao port
  ignores the action: it displays whatever the text array of the line happens to hold.
\<close>

lemma degao_clear_displays_garbage:
  assumes "length (env_text w) \<le> 248"
  shows "\<exists>c' dl tx. ve_degao_refresh clk0 clk d [own_line LED_ACTION_CLR i (env_text w)] = Some (Some c', Some (Sent dl tx))
    \<and> cvd_receive tx = Some (0x80 + cvd_addr (degao_init clk0 d), CVD_SET_MOVE, 50 # env_text w)"
  using cvd_disp_receivable [OF assms, of clk "degao_init clk0 d" 50]
  by (auto simp: ve_degao_refresh_def own_line_def Let_def)

section \<open>Fly\<close>

definition ve_fly_eq20131_refresh :: "bool \<Rightarrow> (nat \<Rightarrow> string) \<Rightarrow> led_line list \<Rightarrow> int \<times> string list" where
  "ve_fly_eq20131_refresh opened r screen = fly_eq20131_disp opened r 1 screen"

definition ve_fly_eq20131_clear :: "bool \<Rightarrow> (nat \<Rightarrow> string) \<Rightarrow> int \<times> string list" where
  "ve_fly_eq20131_clear opened r = fly_eq20131_clear opened r 1"

lemma ve_fly_only_clears: "set (snd (ve_fly_eq20131_refresh opened r screen)) \<subseteq> {''!#001%ZD00$$''}"
proof -
  have "snprintf_s 32 (del_all_cmd 1) = ''!#001%ZD00$$''"
    by code_simp
  then show ?thesis
    using fly_disp_shows_nothing [of opened r 1 screen] by (simp add: ve_fly_eq20131_refresh_def)
qed

section \<open>From the queue to the Listen card\<close>

lemma filter_concat_rows:
  assumes "\<And>j. j < n \<Longrightarrow> filter P (f j) = (if j = i then f j else [])" and "i < n"
  shows "filter P (concat (map f [0..<n])) = f i"
proof -
  have "filter P (concat (map f [0..<n])) = concat (map (\<lambda>j. if j = i then f j else []) [0..<n])"
    unfolding filter_concat map_map by (intro arg_cong [where f = concat] map_cong) (use assms(1) in auto)
  also have "\<dots> = f i"
    using concat_single(1) [of n i "\<lambda>j. if j = i then f j else []"] assms(2) by simp
  finally show ?thesis .
qed

lemma due_mem: "due info = Some l \<Longrightarrow> l \<in> set (ls info)"
  by (auto simp: due_def split: if_splits)

lemma row_lines_screen_of:
  assumes "led_inv w" and "i < LED_MAX_LINES_NUM"
  shows "row_lines i (screen_of w) = due_line w i"
proof -
  have "filter (\<lambda>line. unat (idx line) = i) (due_line w j) = (if j = i then due_line w j else [])"
    if "j < length (lines (led w))" for j
  proof (cases "due (lines (led w) ! j)")
    case (Some l)
    then have "unat (idx l) = j"
      using that assms(1) due_mem by (fastforce simp: led_inv_def line_ok_def)
    then show ?thesis using Some by (auto simp: due_line_def)
  qed (auto simp: due_line_def)
  then show ?thesis
    using assms unfolding row_lines_def screen_of_def
    by (intro filter_concat_rows) (simp_all add: led_inv_def)
qed

lemma run_reach: "led_reach w \<Longrightarrow> led_reach (exec_n k led_refresh_daemon w)"
  by (induction k arbitrary: w) (simp_all add: led_reach.pass)

lemma run_ls: "i < length (lines (led w)) \<Longrightarrow> l \<in> set (ls (lines (led (exec_n k led_refresh_daemon w)) ! i))
    \<Longrightarrow> l \<in> set (ls (lines (led w) ! i))"
  unfolding rows_run by (induction k arbitrary: l) (auto dest: row_pass_ls)

lemma screen_of_mem:
  "l \<in> set (screen_of w) \<Longrightarrow> \<exists>j < length (lines (led w)). l \<in> set (ls (lines (led w) ! j))"
  by (auto simp: screen_of_def due_line_def split: option.splits) (metis due_mem)

text \<open>C18. From the queue to the card: in a reachable state of the display manager with the Listen card selected and
  every queued text at most 466 bytes long, the newest line of a row that the card has is in a screen that the manager
  hands to \<open>listen_refresh\<close> within 25701 passes. For a card with rows of 16 points and a width and height divisible by
  8, named by a model of 16 bytes and answering with success, the frame which that call sends, whatever rows were kept
  before, makes the card show this line in the region of its row. The code
  queues texts of up to 1023 bytes and accepts other sizes; rows that do not fit break the frame and other row heights
  stop the program (\<open>long_row_steps_back\<close>, \<open>lattice_other_than_16_aborts\<close>).\<close>

theorem line_reaches_the_card:
  fixes w :: "'z ledw_scheme"
  assumes "led_reach w" and "model_no (model (led w)) = LED_MODEL_LISTEN_A4"
    and "i < nr_row cfg" and "ls (lines (led w) ! i) \<noteq> []"
    and "\<forall>j < LED_MAX_LINES_NUM. \<forall>l \<in> set (ls (lines (led w) ! j)). length (ltext l) \<le> 466"
    and "h mod 8 = 0" and "wd mod 8 = 0" and "length mdl = 16" and "cfg = listen_cfg mdl h wd 16"
  shows "\<exists>k \<le> 25700. \<exists>screen. shown (exec_n (Suc k) led_refresh_daemon w)
        = (LED_MODEL_LISTEN_A4, screen) # clearings (exec_n k led_refresh_daemon w) @ shown (exec_n k led_refresh_daemon w)
      \<and> (\<forall>lbs stack. rows_ok lbs \<and> length stack = 2048 \<longrightarrow>
          (\<exists>e f s. listen_refresh h wd 16 mdl True stack (a4_answer 1 UPDATE_OPT_CODE 0 1) screen lbs = Some e
             \<and> result e = 0 \<and> sent e = Some f \<and> a4_receive f = Some s
             \<and> a_regions s ! i = region_view cfg (place_line cfg (last (ls (lines (led w) ! i))))))"
proof -
  have i: "i < LED_MAX_LINES_NUM"
    using assms(3) nr_row_le [of cfg] by (simp add: LED_MAX_LINES_NUM_def)
  obtain k where k: "k \<le> 25700"
      "due (lines (led (exec_n k led_refresh_daemon w)) ! i) = Some (last (ls (lines (led w) ! i)))"
    using newest_line_comes_due [OF assms(1) i assms(4)] by blast
  define v where "v = exec_n k led_refresh_daemon w"
  let ?l = "last (ls (lines (led w) ! i))"
  have inv: "led_inv v" and len: "length (lines (led w)) = LED_MAX_LINES_NUM" "length (lines (led v)) = LED_MAX_LINES_NUM"
    using reach_inv [OF run_reach [OF assms(1)]] reach_inv [OF assms(1)] by (simp_all add: v_def led_inv_def)
  have row: "row_lines i (screen_of v) = [?l]"
    using row_lines_screen_of [OF inv i] k(2) by (simp add: due_line_def v_def)
  then have ne: "screen_of v \<noteq> []"
    by (auto simp: row_lines_def)
  have short: "\<forall>l \<in> set (screen_of v). length (ltext l) \<le> 466"
    using screen_of_mem run_ls assms(5) len unfolding v_def by (metis run_length)
  have "shown (exec_n (Suc k) led_refresh_daemon w) = (LED_MODEL_LISTEN_A4, screen_of v) # clearings v @ shown v"
    using exec_n_add [of k 1 led_refresh_daemon w] ne assms(2) by (simp add: daemon_shown v_def run_model)
  moreover have "\<exists>e f s. listen_refresh h wd 16 mdl True stack (a4_answer 1 UPDATE_OPT_CODE 0 1) (screen_of v) lbs = Some e
      \<and> result e = 0 \<and> sent e = Some f \<and> a4_receive f = Some s \<and> a_regions s ! i = region_view cfg (place_line cfg ?l)"
    if "rows_ok lbs" "length stack = 2048" for lbs stack
    using listen_refresh_rows [OF assms(6,7,8) that(2,1) short, of "a4_answer 1 UPDATE_OPT_CODE 0 1" "[]" 1 0 1 "[]"] assms(3,9) row
    by (fastforce simp: shown_row_def a4_answer_def)
  ultimately show ?thesis
    using k(1) unfolding v_def by blast
qed


theorem line_reaches_the_card_witness:
  "\<exists>k \<le> 25700. \<exists>screen. shown (exec_n (Suc k) led_refresh_daemon hello_ledw)
        = (LED_MODEL_LISTEN_A4, screen) # clearings (exec_n k led_refresh_daemon hello_ledw) @ shown (exec_n k led_refresh_daemon hello_ledw)
      \<and> (\<forall>lbs stack. rows_ok lbs \<and> length stack = 2048 \<longrightarrow>
          (\<exists>e f s. listen_refresh 32 64 16 (replicate 16 0) True stack (a4_answer 1 UPDATE_OPT_CODE 0 1) screen lbs = Some e
             \<and> result e = 0 \<and> sent e = Some f \<and> a4_receive f = Some s
             \<and> a_regions s ! 1 = \<lparr>r_x = 24, r_y = 16, r_xx = 39, r_yy = 31, r_style = 1, r_speed = 20, r_text = [0x48, 0x69]\<rparr>))"
proof -
  let ?cfg = "listen_cfg (replicate 16 0) 32 64 16"
  have "region_view ?cfg (place_line ?cfg hello_line)
      = \<lparr>r_x = 24, r_y = 16, r_xx = 39, r_yy = 31, r_style = 1, r_speed = 20, r_text = [0x48, 0x69]\<rparr>"
    "1 < nr_row ?cfg"
    by code_simp+
  moreover have "lines (led hello_ledw) = (replicate LED_MAX_LINES_NUM idle_row)[1 := \<lparr>delay = - 1, ls = [hello_line]\<rparr>]"
    using hello_rows by (simp add: only_row_def)
  moreover have "model_no (model (led hello_ledw)) = LED_MODEL_LISTEN_A4"
    by code_simp
  moreover have "length (ltext hello_line) = 2"
    by (simp add: hello_line_def)
  ultimately show ?thesis
    using line_reaches_the_card [OF hello_reach, of 1 ?cfg 32 64 "replicate 16 0"]
    by (simp add: nth_list_update idle_row_def LED_MAX_LINES_NUM_def)
qed

end
