(* ===== verification/Serial.thy ===== *)
theory Serial
  imports Vd_Prelude
begin

text \<open>
  The serial port, \<open>dev/common/serial.c\<close>: the line settings it computes and the descriptor it opens,
  locks and closes. The outcomes of the system calls are arguments; what they leave is the state of the
  descriptor. The memory behind a table that a search runs over is the argument \<open>beyond\<close>.
\<close>

record termios =
  c_iflag :: u32
  c_cflag :: u32
  c_speed :: u32
  vtime :: u8
  vmin :: u8

datatype serial_paity = SERIAL_PAITY_NONE | SERIAL_PAITY_ODD | SERIAL_PAITY_EVEN | SERIAL_PAITY_MARK | SERIAL_PAITY_SPACE

record serial_cfg =
  baud :: int
  paity :: serial_paity
  datasz :: int
  stop_bit :: int

text \<open>The bits of the flags and the speed codes on Linux.\<close>

definition CLOCAL :: u32 where "CLOCAL = 0x800"
definition CREAD :: u32 where "CREAD = 0x80"
definition CSIZE :: u32 where "CSIZE = 0x30"
definition CSTOPB :: u32 where "CSTOPB = 0x40"
definition PARENB :: u32 where "PARENB = 0x100"
definition PARODD :: u32 where "PARODD = 0x200"
definition INPCK :: u32 where "INPCK = 0x10"
definition ISTRIP :: u32 where "ISTRIP = 0x20"
definition B9600 :: u32 where "B9600 = 13"
definition CS8 :: u32 where "CS8 = 0x30"

definition baud_tab :: "(int \<times> u32) list" where
  "baud_tab =
     [(0, 0), (50, 1), (75, 2), (110, 3), (134, 4), (150, 5), (200, 6), (300, 7), (600, 8), (1200, 9),
      (2400, 11), (4800, 12), (9600, B9600), (19200, 14), (38400, 15), (57600, 0x1001), (115200, 0x1002),
      (230400, 0x1003)]"

definition datasz_tab :: "(int \<times> u32) list" where
  "datasz_tab = [(5, 0), (6, 0x10), (7, 0x20), (8, CS8)]"

text \<open>
  \<open>while ((p->a != k) && (p++ < end));\<close> and the access to \<open>p->b\<close> behind it: at the end of the table the
  entry behind it is compared, and if it differs \<open>p\<close> moves past \<open>end\<close>, so that \<open>p == end\<close> is missed.
\<close>

fun tab_search :: "(int \<times> u32) list \<Rightarrow> (nat \<Rightarrow> int \<times> u32) \<Rightarrow> int \<Rightarrow> u32 option" where
  "tab_search [] beyond k = (if fst (beyond 0) = k then None else Some (snd (beyond 1)))"
| "tab_search ((a, b) # tab) beyond k = (if a = k then Some b else tab_search tab beyond k)"

definition serial_set_baud :: "(nat \<Rightarrow> int \<times> u32) \<Rightarrow> termios \<Rightarrow> int \<Rightarrow> termios \<times> int" where
  "serial_set_baud beyond tio b =
     (case tab_search baud_tab beyond b of
        None \<Rightarrow> (tio\<lparr>c_speed := B9600\<rparr>, - 1)
      | Some code \<Rightarrow> (tio\<lparr>c_speed := code\<rparr>, 0))"

definition serial_set_data_size :: "(nat \<Rightarrow> int \<times> u32) \<Rightarrow> termios \<Rightarrow> int \<Rightarrow> termios \<times> int" where
  "serial_set_data_size beyond tio n =
     (let tio = tio\<lparr>c_cflag := c_cflag tio AND NOT CSIZE\<rparr>
      in case tab_search datasz_tab beyond n of
           None \<Rightarrow> (tio\<lparr>c_cflag := c_cflag tio OR CS8\<rparr>, - 1)
         | Some code \<Rightarrow> (tio\<lparr>c_cflag := c_cflag tio OR code\<rparr>, 0))"

definition serial_set_paity :: "termios \<Rightarrow> serial_paity \<Rightarrow> termios \<times> int" where
  "serial_set_paity tio p =
     (case p of
        SERIAL_PAITY_NONE \<Rightarrow> (tio\<lparr>c_cflag := c_cflag tio AND NOT PARENB\<rparr>, 0)
      | SERIAL_PAITY_EVEN \<Rightarrow>
          (tio\<lparr>c_iflag := c_iflag tio OR (INPCK OR ISTRIP), c_cflag := (c_cflag tio OR PARENB) AND NOT PARODD\<rparr>, 0)
      | SERIAL_PAITY_ODD \<Rightarrow>
          (tio\<lparr>c_cflag := (c_cflag tio OR PARENB) OR PARODD, c_iflag := c_iflag tio OR (INPCK OR ISTRIP)\<rparr>, 0)
      | _ \<Rightarrow> (tio, 0))"

definition serial_set_stop_bit :: "termios \<Rightarrow> int \<Rightarrow> termios \<times> int" where
  "serial_set_stop_bit tio n =
     (if n = 1 then (tio\<lparr>c_cflag := c_cflag tio AND NOT CSTOPB\<rparr>, 0)
      else if n = 2 then (tio\<lparr>c_cflag := c_cflag tio OR CSTOPB\<rparr>, 0)
      else (tio\<lparr>c_cflag := c_cflag tio AND NOT CSTOPB\<rparr>, - 1))"

text \<open>The settings that \<open>serial_config\<close> hands to \<open>tcsetattr\<close>; the values of its four calls are ignored.\<close>

definition serial_termios :: "(nat \<Rightarrow> int \<times> u32) \<Rightarrow> serial_cfg \<Rightarrow> termios" where
  "serial_termios beyond cfg =
     (let opt = \<lparr>c_iflag = 0, c_cflag = CLOCAL OR CREAD, c_speed = 0, vtime = 2, vmin = 0\<rparr>;
          opt = fst (serial_set_baud beyond opt (baud cfg));
          opt = fst (serial_set_data_size beyond opt (datasz cfg));
          opt = fst (serial_set_paity opt (paity cfg))
      in fst (serial_set_stop_bit opt (stop_bit cfg)))"

text \<open>The descriptor: the number stored in \<open>serial->fd\<close>, and what the system holds under it.\<close>

record port =
  fd :: int
  is_open :: bool
  is_locked :: bool
  settings :: "termios option"

record sys_outcome =
  open_fd :: int
  flock_ok :: bool
  tcset_ok :: bool

definition serial_config :: "(nat \<Rightarrow> int \<times> u32) \<Rightarrow> sys_outcome \<Rightarrow> serial_cfg \<Rightarrow> port \<Rightarrow> port \<times> int" where
  "serial_config beyond s cfg p =
     (if tcset_ok s then (p\<lparr>settings := Some (serial_termios beyond cfg)\<rparr>, 0) else (p, - 1))"

definition serial_open :: "(nat \<Rightarrow> int \<times> u32) \<Rightarrow> sys_outcome \<Rightarrow> serial_cfg \<Rightarrow> port \<Rightarrow> port \<times> int" where
  "serial_open beyond s cfg p =
     (if open_fd s = - 1 then (p\<lparr>fd := - 1\<rparr>, - 1)
      else let p = p\<lparr>fd := open_fd s, is_open := True\<rparr>
      in if \<not> flock_ok s then (p\<lparr>is_open := False\<rparr>, - 1)
      else let p = p\<lparr>is_locked := True\<rparr>; (p, res) = serial_config beyond s cfg p
      in if res \<noteq> 0 then (p\<lparr>is_locked := False, is_open := False\<rparr>, - 1) else (p, 0))"

definition serial_close :: "port \<Rightarrow> port \<times> int" where
  "serial_close p = (p\<lparr>is_locked := False, is_open := False, fd := - 1\<rparr>, 0)"

section \<open>Facts\<close>

lemma tab_search_known: "(a, b) \<in> set tab \<Longrightarrow> distinct (map fst tab) \<Longrightarrow> tab_search tab beyond a = Some b"
  by (induction tab) force+

lemma tab_search_unknown:
  "k \<notin> fst ` set tab \<Longrightarrow> tab_search tab beyond k = (if fst (beyond 0) = k then None else Some (snd (beyond 1)))"
  by (induction tab) auto

text \<open>Every speed of the table is set as it is listed, and every other one takes its code from behind the table.\<close>

lemma serial_set_baud_known:
  assumes "(b, code) \<in> set baud_tab"
  shows "serial_set_baud beyond tio b = (tio\<lparr>c_speed := code\<rparr>, 0)"
  using tab_search_known [OF assms, of beyond] by (simp add: serial_set_baud_def baud_tab_def)

lemma unknown_baud_is_accepted:
  assumes "b \<notin> fst ` set baud_tab" and "fst (beyond 0) \<noteq> b"
  shows "serial_set_baud beyond tio b = (tio\<lparr>c_speed := snd (beyond 1)\<rparr>, 0)"
  using tab_search_unknown [OF assms(1), of beyond] assms(2) by (simp add: serial_set_baud_def)

text \<open>The settings of all drivers of the program: 9600 baud, eight data bits, no parity, one stop bit.\<close>

definition led_serial_cfg :: serial_cfg where
  "led_serial_cfg = \<lparr>baud = 9600, paity = SERIAL_PAITY_NONE, datasz = 8, stop_bit = 1\<rparr>"

lemma led_serial_settings:
  "serial_termios beyond led_serial_cfg
     = \<lparr>c_iflag = 0, c_cflag = CLOCAL OR CREAD OR CS8, c_speed = B9600, vtime = 2, vmin = 0\<rparr>"
  by (simp add: serial_termios_def led_serial_cfg_def serial_set_baud_def serial_set_data_size_def serial_set_paity_def
      serial_set_stop_bit_def baud_tab_def datasz_tab_def B9600_def CS8_def CSIZE_def PARENB_def CSTOPB_def CLOCAL_def
      CREAD_def Let_def)

lemma serial_open_ok:
  "serial_open beyond s cfg p = (q, 0) \<Longrightarrow>
     is_open q \<and> is_locked q \<and> settings q = Some (serial_termios beyond cfg) \<and> fd q = open_fd s"
  by (auto simp: serial_open_def serial_config_def Let_def split: if_splits)

text \<open>A failing call leaves nothing open or locked, but may leave the number of the closed descriptor.\<close>

lemma serial_open_failed:
  assumes "serial_open beyond s cfg p = (q, res)" and "res \<noteq> 0" and "\<not> is_open p" and "\<not> is_locked p"
  shows "\<not> is_open q \<and> \<not> is_locked q \<and> res = - 1"
  using assms by (auto simp: serial_open_def serial_config_def Let_def split: if_splits prod.splits)

lemma serial_close_closes: "serial_close p = (q, res) \<Longrightarrow> \<not> is_open q \<and> \<not> is_locked q \<and> fd q = - 1"
  by (auto simp: serial_close_def)

end
