(* ===== verification/Event.thy ===== *)
theory Event
  imports World Cstdio
begin

text \<open>
  The event log, \<open>ve/event.c\<close>: the thread that writes the queued events to a file which it rotates at
  50 KB, and \<open>get_file_size\<close> of \<open>sys/xfile.c\<close>. The queueing half is in theory World. The two files are
  their contents; whether \<open>fopen\<close> succeeds is a function of the tick; \<open>localtime_r\<close>, with the time zone
  of the system, is the argument \<open>lt\<close>; \<open>remove\<close> and \<open>rename\<close> on the log directory are taken to succeed.
\<close>

record broken_down =
  tm_year :: int
  tm_mon :: int
  tm_mday :: int
  tm_hour :: int
  tm_min :: int
  tm_sec :: int

text \<open>\<open>timeval2str\<close> of \<open>sys/time_util.c\<close> into a buffer of \<open>n\<close> bytes.\<close>

definition timeval2str :: "(int \<Rightarrow> broken_down) \<Rightarrow> nat \<Rightarrow> timeval \<Rightarrow> string" where
  "timeval2str lt n tv =
     (let t = lt (tv_sec tv)
      in snprintf_s n (dec_pad 4 (tm_year t + 1900) @ ''-'' @ dec_pad 2 (tm_mon t + 1) @ ''-'' @ dec_pad 2 (tm_mday t)
           @ '' '' @ dec_pad 2 (tm_hour t) @ '':'' @ dec_pad 2 (tm_min t) @ '':'' @ dec_pad 2 (tm_sec t)
           @ ''.'' @ dec_pad 3 (tv_usec tv sdiv 1000)))"

text \<open>\<open>%-ns\<close>: a string filled with blanks on the right.\<close>

definition pad_right :: "nat \<Rightarrow> string \<Rightarrow> string" where
  "pad_right n s = s @ replicate (n - length s) (CHR '' '')"

definition newline :: char where "newline = char_of (10 :: nat)"

text \<open>What is written for one event: its line, and a line of as many dashes.\<close>

definition event_line :: "(int \<Rightarrow> broken_down) \<Rightarrow> event_item \<Rightarrow> string" where
  "event_line lt item =
     snprintf_s 1024 (''|'' @ pad_right 24 (timeval2str lt 64 (ev_tv item)) @ ''|'' @ pad_right 32 (ident item) @ ''|''
       @ pad_right 64 (desc item) @ ''|'' @ [newline])"

definition event_text :: "(int \<Rightarrow> broken_down) \<Rightarrow> event_item \<Rightarrow> string" where
  "event_text lt item =
     (let buf = event_line lt item in buf @ replicate (length buf - 1) (CHR ''-'') @ [newline])"

definition EVENT_FILE_MAX_SIZE :: int where "EVENT_FILE_MAX_SIZE = 1024 * 100"

record evw = world +
  ev_file :: "string option"
  ev_old :: "string option"
  env_fopen :: "nat \<Rightarrow> bool"

definition get_file_size :: "string option \<Rightarrow> int" where
  "get_file_size f = (case f of None \<Rightarrow> - 1 | Some s \<Rightarrow> int (length s))"

definition file_rotate :: "('z evw_scheme, unit) state" where
  "file_rotate = do {
     curr \<leftarrow> reads ev_file;
     (if get_file_size curr < EVENT_FILE_MAX_SIZE div 2 then ret ()
      else writes (\<lambda>w. w\<lparr>ev_old := ev_file w, ev_file := None\<rparr>)) }"

definition fopen_ok :: "('z evw_scheme, bool) state" where
  "fopen_ok = do {
     b \<leftarrow> reads (\<lambda>w. env_fopen w (tick w));
     pass;
     ret b }"

definition file_text :: "string option \<Rightarrow> string" where
  "file_text f = (case f of None \<Rightarrow> [] | Some s \<Rightarrow> s)"

text \<open>The loop over the queue: each item is written and then taken off.\<close>

fun write_items :: "(int \<Rightarrow> broken_down) \<Rightarrow> event_item list \<Rightarrow> ('z evw_scheme, unit) state" where
  "write_items lt [] = ret ()"
| "write_items lt (item # items) = do {
     writes (\<lambda>w. w\<lparr>ev_file := Some (file_text (ev_file w) @ event_text lt item), events := tl (events w)\<rparr>);
     write_items lt items }"

text \<open>One pass of the thread; \<open>None\<close> when it blocks on the semaphore.\<close>

definition event_daemon :: "(int \<Rightarrow> broken_down) \<Rightarrow> ('z evw_scheme, int option) state" where
  "event_daemon lt = do {
     file_rotate;
     n \<leftarrow> reads ev_sem;
     (if n = 0 then ret None
      else do {
        writes (\<lambda>w. w\<lparr>ev_sem := n - 1\<rparr>);
        q \<leftarrow> reads events;
        (if q = [] then ret (Some 0)
         else do {
           f \<leftarrow> fopen_ok;
           (if \<not> f then ret (Some (- 1))
            else do {
              write_items lt q;
              ret (Some 0) }) }) }) }"

section \<open>What is written\<close>

definition logged :: "'z evw_scheme \<Rightarrow> string" where
  "logged w = file_text (ev_old w) @ file_text (ev_file w)"

definition events_text :: "(int \<Rightarrow> broken_down) \<Rightarrow> event_item list \<Rightarrow> string" where
  "events_text lt items = concat (map (event_text lt) items)"

lemma file_text_simps [simp]: "file_text None = []" "file_text (Some s) = s"
  by (simp_all add: file_text_def)

lemma write_items_exec:
  assumes "events w = items @ rest"
  shows "ev_old (exec (write_items lt items) w) = ev_old w"
    "file_text (ev_file (exec (write_items lt items) w)) = file_text (ev_file w) @ events_text lt items"
    "events (exec (write_items lt items) w) = rest" "ev_sem (exec (write_items lt items) w) = ev_sem w"
  using assms by (induction items arbitrary: w) (simp_all add: events_text_def)

text \<open>The effect of a pass on the files, the queue and the semaphore.\<close>

definition rotates :: "'z evw_scheme \<Rightarrow> bool" where
  "rotates w \<longleftrightarrow> 51200 \<le> length (file_text (ev_file w))"

definition rotated :: "'z evw_scheme \<Rightarrow> 'z evw_scheme" where
  "rotated w = (if rotates w then w\<lparr>ev_old := ev_file w, ev_file := None\<rparr> else w)"

lemma rotated_simps [simp]:
  "ev_sem (rotated w) = ev_sem w" "events (rotated w) = events w" "tick (rotated w) = tick w"
  "env_fopen (rotated w) = env_fopen w"
  by (simp_all add: rotated_def)

lemma file_rotate_exec: "exec file_rotate w = rotated w"
  by (auto simp: file_rotate_def rotated_def rotates_def get_file_size_def EVENT_FILE_MAX_SIZE_def split: option.split)

lemma daemon_cases:
  obtains (blocks) "ev_sem w = 0" "eval (event_daemon lt) w = None" "exec (event_daemon lt) w = rotated w"
  | (idle) "0 < ev_sem w" "events w = []" "eval (event_daemon lt) w = Some 0"
      "exec (event_daemon lt) w = (rotated w)\<lparr>ev_sem := ev_sem w - 1\<rparr>"
  | (no_file) "0 < ev_sem w" "events w \<noteq> []" "\<not> env_fopen w (tick w)" "eval (event_daemon lt) w = Some (- 1)"
      "exec (event_daemon lt) w = (rotated w)\<lparr>ev_sem := ev_sem w - 1, tick := Suc (tick w)\<rparr>"
  | (written) "0 < ev_sem w" "events w \<noteq> []" "env_fopen w (tick w)" "eval (event_daemon lt) w = Some 0"
      "exec (event_daemon lt) w = exec (write_items lt (events w)) ((rotated w)\<lparr>ev_sem := ev_sem w - 1, tick := Suc (tick w)\<rparr>)"
proof -
  note d = event_daemon_def file_rotate_exec fopen_ok_def pass_def
  consider "ev_sem w = 0" | "0 < ev_sem w" "events w = []"
    | "0 < ev_sem w" "events w \<noteq> []" "\<not> env_fopen w (tick w)"
    | "0 < ev_sem w" "events w \<noteq> []" "env_fopen w (tick w)"
    by blast
  then show thesis
  proof cases
    case 1
    then show ?thesis by (simp add: blocks d)
  next
    case 2
    then show ?thesis by (simp add: idle d)
  next
    case 3
    then show ?thesis by (simp add: no_file d)
  next
    case 4
    then show ?thesis by (simp add: written d)
  qed
qed

text \<open>A pass appends the text of the events it takes off the queue, and drops at most the old file.\<close>

lemma daemon_log:
  "\<exists>lost. logged w @ events_text lt (events w) = lost @ logged (exec (event_daemon lt) w) @ events_text lt (events (exec (event_daemon lt) w))"
proof -
  have "\<exists>lost. logged w = lost @ logged (rotated w)"
    by (auto simp: rotated_def logged_def)
  then obtain lost where lost: "logged w = lost @ logged (rotated w)" by blast
  show ?thesis
  proof (cases rule: daemon_cases [of w lt])
    case written
    let ?s = "(rotated w)\<lparr>ev_sem := ev_sem w - 1, tick := Suc (tick w)\<rparr>"
    have "events ?s = events w @ []" by simp
    from write_items_exec [OF this] show ?thesis
      using lost written(5) by (simp add: logged_def events_text_def)
  qed (use lost in \<open>simp_all add: logged_def\<close>)
qed


section \<open>The log in every reachable state\<close>

text \<open>
  The steps of the event log: an event is put by any thread, with an allocation that may fail, or the
  event thread makes a pass. \<open>ev_reach lt l0 w puts\<close>: from a start with the files holding \<open>l0\<close>, the
  items \<open>puts\<close> have been queued in this order.
\<close>

inductive ev_reach :: "(int \<Rightarrow> broken_down) \<Rightarrow> string \<Rightarrow> 'z evw_scheme \<Rightarrow> event_item list \<Rightarrow> bool" for lt l0 where
  start: "events w = [] \<Longrightarrow> ev_sem w = 0 \<Longrightarrow> logged w = l0 \<Longrightarrow> ev_reach lt l0 w []"
| put: "ev_reach lt l0 w puts \<Longrightarrow>
    ev_reach lt l0 (exec (put_event i d) w) (puts @ drop (length (events w)) (events (exec (put_event i d) w)))"
| run: "ev_reach lt l0 w puts \<Longrightarrow> ev_reach lt l0 (exec (event_daemon lt) w) puts"

definition put_item :: "string \<Rightarrow> string \<Rightarrow> 'z world_scheme \<Rightarrow> event_item" where
  "put_item i d w = \<lparr>ev_tv = env_clock w (Suc (tick w)), ident = take 15 i, desc = take 511 d\<rparr>"

lemma put_event_exec:
  "exec (put_event i d) w = (if env_alloc w (tick w)
     then w\<lparr>tick := Suc (Suc (tick w)), events := events w @ [put_item i d w], ev_sem := Suc (ev_sem w)\<rparr>
     else w\<lparr>tick := Suc (tick w)\<rparr>)"
  by (simp add: put_event_def event_item_alloc_def malloc_ok_def gettimeofday_def pass_def event_put_def put_item_def
      EVENT_IDENT_LEN_def EVENT_DESC_LEN_def)

lemma put_event_files:
  fixes w :: "'z evw_scheme"
  shows "ev_file (exec (put_event i d) w) = ev_file w" "ev_old (exec (put_event i d) w) = ev_old w"
    "logged (exec (put_event i d) w) = logged w"
  by (simp_all add: put_event_exec logged_def)

lemma events_text_append [simp]: "events_text lt (xs @ ys) = events_text lt xs @ events_text lt ys"
  and events_text_Nil [simp]: "events_text lt [] = []"
  by (simp_all add: events_text_def)

lemma event_log_invariant:
  "ev_reach lt l0 w puts \<Longrightarrow> \<exists>lost. l0 @ events_text lt puts = lost @ logged w @ events_text lt (events w)"
proof (induction rule: ev_reach.induct)
  case (put w puts i d)
  then show ?case by (auto simp: put_event_files) (auto simp: put_event_exec)
next
  case (run w puts)
  then show ?case using daemon_log [of w lt] by (metis append_assoc)
qed (simp add: events_text_def)

text \<open>C38. However events are put and the event thread runs, and whichever openings of the file fail: what the files
  held at the start, followed by the texts of all events put, in the order in which they were put, is some oldest part
  that a rotation removed, followed by the contents of the two files and the texts of the events still queued.\<close>

theorem event_log_is_complete:
  assumes "ev_reach lt l0 w puts"
  shows "\<exists>lost. l0 @ events_text lt puts = lost @ logged w @ events_text lt (events w)"
  using assms by (rule event_log_invariant)

section \<open>The size of the files\<close>

definition item_ok :: "event_item \<Rightarrow> bool" where
  "item_ok item \<longleftrightarrow> length (ident item) \<le> 15 \<and> length (desc item) \<le> 511"

lemma length_pad_right: "length (pad_right n s) = max n (length s)"
  by (simp add: pad_right_def max_def)

lemma length_event_text:
  assumes "item_ok item"
  shows "length (event_text lt item) \<le> 1222"
proof -
  have "length (timeval2str lt 64 tv) \<le> 63" for tv
    by (simp add: timeval2str_def Let_def snprintf_s_def)
  then have "length (pad_right 24 (timeval2str lt 64 (ev_tv item))) \<le> 63"
    "length (pad_right 32 (ident item)) = 32" "length (pad_right 64 (desc item)) \<le> 511"
    using assms by (simp_all add: length_pad_right item_ok_def)
  then have "length (event_line lt item) \<le> 611"
    by (simp add: event_line_def snprintf_s_def)
  then show ?thesis
    by (simp add: event_text_def Let_def)
qed


lemma length_events_text:
  assumes "\<forall>item \<in> set items. item_ok item"
  shows "length (events_text lt items) \<le> 1222 * length items"
  using assms length_event_text [of _ lt] by (induction items) (fastforce simp: events_text_def)+

lemma put_item_ok [simp]: "item_ok (put_item i d w)"
  by (simp add: item_ok_def put_item_def)

lemma write_items_more:
  "env_fopen (exec (write_items lt items) w) = env_fopen w" "tick (exec (write_items lt items) w) = tick w"
  by (induction items arbitrary: w) simp_all

lemma daemon_events: "set (events (exec (event_daemon lt) w)) \<subseteq> set (events w)"
proof (cases rule: daemon_cases [of w lt])
  case written
  have "events ((rotated w)\<lparr>ev_sem := ev_sem w - 1, tick := Suc (tick w)\<rparr>) = events w @ []" by simp
  from write_items_exec(3) [OF this] show ?thesis
    by (simp add: written(5))
qed simp_all

lemma reach_items_ok: "ev_reach lt l0 w puts \<Longrightarrow> \<forall>item \<in> set (events w). item_ok item"
proof (induction rule: ev_reach.induct)
  case (run w puts)
  then show ?case using daemon_events [of lt w] by blast
qed (auto simp: put_event_exec)

text \<open>C39. With at most \<open>n\<close> events in the queue, a pass keeps each of the two files within 51199 bytes and 1222 more
  per event, whatever they held before within this bound: the files cannot grow without end.\<close>

theorem event_files_are_bounded:
  fixes w :: "'z evw_scheme"
  assumes "ev_reach lt l0 w puts" and "length (events w) \<le> n"
    and "length (file_text (ev_file w)) \<le> 51199 + 1222 * n" and "length (file_text (ev_old w)) \<le> 51199 + 1222 * n"
  shows "length (file_text (ev_file (exec (event_daemon lt) w))) \<le> 51199 + 1222 * n
    \<and> length (file_text (ev_old (exec (event_daemon lt) w))) \<le> 51199 + 1222 * n"
proof -
  have rot: "length (file_text (ev_file (rotated w))) \<le> 51199" "length (file_text (ev_old (rotated w))) \<le> 51199 + 1222 * n"
    using assms(3,4) by (auto simp: rotated_def rotates_def)
  have new: "length (events_text lt (events w)) \<le> 1222 * n"
    using length_events_text [of "events w" lt] reach_items_ok [OF assms(1)] assms(2)
    by (meson mult_le_mono2 order_trans)
  show ?thesis
  proof (cases rule: daemon_cases [of w lt])
    case written
    have "events ((rotated w)\<lparr>ev_sem := ev_sem w - 1, tick := Suc (tick w)\<rparr>) = events w @ []" by simp
    note x = write_items_exec [OF this, of lt]
    show ?thesis
      using rot new x(1,2) by (simp add: written(5))
  qed (use rot in simp_all)
qed

section \<open>When events are written\<close>

text \<open>A pass that is not blocked and can open the file empties the queue.\<close>

lemma pass_writes_everything:
  fixes w :: "'z evw_scheme"
  assumes "0 < ev_sem w" and "env_fopen w (tick w)"
  shows "events (exec (event_daemon lt) w) = []" "eval (event_daemon lt) w = Some 0"
proof -
  have "events ((rotated w)\<lparr>ev_sem := ev_sem w - 1, tick := Suc (tick w)\<rparr>) = events w @ []" by simp
  note x = write_items_exec(3) [OF this, of lt]
  show "events (exec (event_daemon lt) w) = []" "eval (event_daemon lt) w = Some 0"
    using assms x by (cases rule: daemon_cases [of w lt]; simp)+
qed

text \<open>
  The semaphore counts the events put and not the events queued: after a pass that cannot open the file
  for the only event, the event stays queued and the thread blocks until another one is put.
\<close>

lemma failed_open_strands_the_event:
  fixes w :: "'z evw_scheme"
  assumes "ev_sem w = 1" and "events w \<noteq> []" and "\<not> env_fopen w (tick w)"
  shows "events (exec (event_daemon lt) w) = events w" "eval (event_daemon lt) (exec (event_daemon lt) w) = None"
proof -
  have x: "exec (event_daemon lt) w = (rotated w)\<lparr>ev_sem := 0, tick := Suc (tick w)\<rparr>"
    using assms by (cases rule: daemon_cases [of w lt]) simp_all
  then show "events (exec (event_daemon lt) w) = events w" by simp
  have "ev_sem (exec (event_daemon lt) w) = 0" by (simp add: x)
  then show "eval (event_daemon lt) (exec (event_daemon lt) w) = None"
    by (cases rule: daemon_cases [of "exec (event_daemon lt) w" lt]) simp_all
qed

lemma fopen_kept:
  "env_fopen (exec (put_event i d) w) = env_fopen w" "env_fopen (exec (event_daemon lt) w) = env_fopen w"
proof -
  show "env_fopen (exec (put_event i d) w) = env_fopen w"
    by (simp add: put_event_exec)
  show "env_fopen (exec (event_daemon lt) w) = env_fopen w"
    by (cases rule: daemon_cases [of w lt]) (simp_all add: write_items_more)
qed

text \<open>As long as the file can always be opened, no event waits while the thread is blocked.\<close>

lemma events_not_stranded:
  assumes "ev_reach lt l0 w puts" and "\<And>t. env_fopen w t"
  shows "length (events w) \<le> ev_sem w"
  using assms
proof (induction rule: ev_reach.induct)
  case (put w puts i d)
  then have "length (events w) \<le> ev_sem w" by (simp add: fopen_kept)
  then show ?case by (simp add: put_event_exec)
next
  case (run w puts)
  then have open_ok: "\<And>t. env_fopen w t" by (simp add: fopen_kept)
  show ?case
  proof (cases rule: daemon_cases [of w lt])
    case written
    then show ?thesis using pass_writes_everything [of w lt] by simp
  qed (use run.IH open_ok in simp_all)
qed simp

section \<open>An example\<close>

definition quiet_evw :: evw where
  "quiet_evw = \<lparr>tick = 0, env_clock = (\<lambda>n. \<lparr>tv_sec = int n, tv_usec = 500000\<rparr>), env_gpio = (\<lambda>_ _. Gpio_Byte 0),
     env_i2c = (\<lambda>_. I2C_Ok), env_alloc = (\<lambda>_. True), env_mono = (\<lambda>_. None), env_pwm = (\<lambda>_. True), pcf = 0xFF,
     events = [], ev_sem = 0, cfg = cfg idle_world, habit = habit idle_world, io = [],
     ev_file = Some ''x'', ev_old = None, env_fopen = (\<lambda>_. True)\<rparr>"


definition noon :: "int \<Rightarrow> broken_down" where
  "noon s = \<lparr>tm_year = 117, tm_mon = 4, tm_mday = 18, tm_hour = 12, tm_min = 0, tm_sec = s\<rparr>"

definition gate_evw :: evw where
  "gate_evw = exec (put_event ''gate'' ''up'') quiet_evw"

lemma quiet_simps:
  "events quiet_evw = []" "ev_sem quiet_evw = 0" "logged quiet_evw = ''x''" "env_alloc quiet_evw n" "env_fopen quiet_evw n"
  by (simp_all add: quiet_evw_def logged_def)

lemma gate_reach: "ev_reach noon ''x'' gate_evw [put_item ''gate'' ''up'' quiet_evw]"
  using ev_reach.put [OF ev_reach.start [OF quiet_simps(1-3), of noon], of "''gate''" "''up''"]
  by (simp add: gate_evw_def put_event_exec quiet_simps)

lemma gate_pass_reach: "ev_reach noon ''x'' (exec (event_daemon noon) gate_evw) [put_item ''gate'' ''up'' quiet_evw]"
  by (rule ev_reach.run [OF gate_reach])

theorem event_log_is_complete_witness:
  "\<exists>lost. ''x'' @ events_text noon [put_item ''gate'' ''up'' quiet_evw]
     = lost @ logged (exec (event_daemon noon) gate_evw) @ events_text noon (events (exec (event_daemon noon) gate_evw))"
  by (rule event_log_is_complete [OF gate_pass_reach])

theorem event_files_are_bounded_witness:
  "length (file_text (ev_file (exec (event_daemon noon) gate_evw))) \<le> 51199 + 1222 * 1
    \<and> length (file_text (ev_old (exec (event_daemon noon) gate_evw))) \<le> 51199 + 1222 * 1"
  by (rule event_files_are_bounded [OF gate_reach]) (simp_all add: gate_evw_def put_event_exec quiet_evw_def)

end
