(* ===== verification/Platform.thy ===== *)
theory Platform
  imports World Pool
begin

text \<open>
  The distribution of vehicle records to the management platforms, \<open>ve/platform/platform.c\<close>. A
  platform is its identifier; the two lists of platforms are lists of identifiers. The records
  live in a pool of ten entries; \<open>recs\<close> is the memory of the entries by address. A call of a
  platform's \<open>rec_recv\<close> is recorded in \<open>delivered\<close>, the latest first. A bit outside a mask makes a
  call \<open>None\<close>; the assertions of the code, which are off in the product, have no effect.
\<close>

record pfm_rec =
  r_mask :: "u8 list"
  info :: int

record pfm =
  ready :: "int list"
  suspend :: "int list"
  rec_po :: pool
  mask :: "u8 list"
  readymask :: "u8 list"
  rec_buf :: int
  recs :: "int \<Rightarrow> pfm_rec"
  po_used :: "int list"
  delivered :: "(int \<times> int) list"

definition PFM_REC_POOL_ENTRY_NUM :: nat where "PFM_REC_POOL_ENTRY_NUM = 10"
definition PFM_MASK_GRP_NUM :: nat where "PFM_MASK_GRP_NUM = 1"
definition pfm_rec_size :: int where "pfm_rec_size = 20"
definition pfm_rec_link :: int where "pfm_rec_link = 0"

section \<open>Masks\<close>

definition pfm_bit_is_set :: "u8 list \<Rightarrow> int \<Rightarrow> bool option" where
  "pfm_bit_is_set m i =
     (let grp = nat (drop_bit 3 i); b = nat (i AND 7)
      in if 0 \<le> i \<and> grp < length m then Some (m ! grp AND push_bit b 1 \<noteq> 0) else None)"

definition pfm_set_bit :: "u8 list \<Rightarrow> int \<Rightarrow> u8 list option" where
  "pfm_set_bit m i =
     (let grp = nat (drop_bit 3 i); b = nat (i AND 7)
      in if 0 \<le> i \<and> grp < length m then Some (m[grp := setbit (m ! grp) b]) else None)"

definition pfm_clr_bit :: "u8 list \<Rightarrow> int \<Rightarrow> u8 list option" where
  "pfm_clr_bit m i =
     (let grp = nat (drop_bit 3 i); b = nat (i AND 7)
      in if 0 \<le> i \<and> grp < length m then Some (m[grp := clrbit (m ! grp) b]) else None)"

section \<open>Platforms\<close>

definition pfm_regst :: "int \<Rightarrow> pfm \<Rightarrow> pfm option" where
  "pfm_regst i p = do {
     m \<leftarrow> pfm_set_bit (mask p) i;
     Some (p\<lparr>suspend := suspend p @ [i], mask := m\<rparr>) }"

definition ve_pfm_regst :: "bool \<Rightarrow> int \<Rightarrow> pfm \<Rightarrow> (int \<times> pfm) option" where
  "ve_pfm_regst ok i p =
     (if \<not> ok then Some (- 1, p)
      else do {
        p' \<leftarrow> pfm_regst i p;
        Some (0, p') })"

text \<open>
  \<open>pfm_init\<close>: \<open>mret\<close> and \<open>cret\<close> are what \<open>pthread_mutex_init\<close> and \<open>pthread_create\<close> return. The
  list of platforms whose \<open>init\<close> is called at the end, part of the result, is the suspend list
  that the function has just emptied.
\<close>

definition pfm_init :: "int \<Rightarrow> int \<Rightarrow> pfm \<Rightarrow> int \<times> int list \<times> pfm" where
  "pfm_init mret cret p =
     (let p1 = p\<lparr>ready := [], suspend := [], po_used := [],
                 rec_po := create_pool (rec_buf p) PFM_REC_POOL_ENTRY_NUM pfm_rec_size pfm_rec_link\<rparr>
      in if mret \<noteq> 0 then (mret, [], p1)
         else if cret \<noteq> 0 then (cret, [], p1)
         else (0, suspend p1, p1))"

definition pfm_find :: "int list \<Rightarrow> int \<Rightarrow> int option" where
  "pfm_find xs i = List.find (\<lambda>j. j = i) xs"

definition pfm_start :: "int \<Rightarrow> pfm \<Rightarrow> (int \<times> pfm) option" where
  "pfm_start i p =
     (case pfm_find (suspend p) i of
        None \<Rightarrow> Some (- 1, p)
      | Some item \<Rightarrow> do {
          m \<leftarrow> pfm_set_bit (readymask p) i;
          Some (0, p\<lparr>suspend := remove1 item (suspend p), ready := ready p @ [item], readymask := m\<rparr>) })"

definition pfm_stop :: "int \<Rightarrow> pfm \<Rightarrow> (int \<times> pfm) option" where
  "pfm_stop i p =
     (case pfm_find (ready p) i of
        None \<Rightarrow> Some (- 1, p)
      | Some item \<Rightarrow> do {
          m \<leftarrow> pfm_clr_bit (readymask p) i;
          Some (0, p\<lparr>ready := remove1 item (ready p), suspend := suspend p @ [item], readymask := m\<rparr>) })"

section \<open>Records\<close>

fun deliver :: "u8 list \<Rightarrow> int \<Rightarrow> int list \<Rightarrow> (int \<times> int) list \<Rightarrow> (int \<times> int) list option" where
  "deliver m e [] out = Some out"
| "deliver m e (i # is) out = do {
     b \<leftarrow> pfm_bit_is_set m i;
     deliver m e is (if b then (i, e) # out else out) }"

definition pfm_record_recv :: "int \<Rightarrow> pfm \<Rightarrow> (int \<times> pfm) option" where
  "pfm_record_recv rec p =
     (case get_from_pool (rec_po p) pfm_rec_link of
        (None, po) \<Rightarrow> Some (- 1, p\<lparr>rec_po := po\<rparr>)
      | (Some e, po) \<Rightarrow> do {
          out \<leftarrow> deliver (readymask p) e (ready p) (delivered p);
          Some (0, p\<lparr>rec_po := po, recs := (recs p)(e := \<lparr>r_mask = readymask p, info = rec\<rparr>),
                     po_used := po_used p @ [e], delivered := out\<rparr>) })"

text \<open>
  \<open>pfm_record_del\<close> of the record at \<open>e\<close>. The test for the last platform is \<open>0 == rec->mask\<close>, which
  compares the address of the mask array, an address inside the pool, with the null pointer.
\<close>

definition mask_address :: "int \<Rightarrow> int" where
  "mask_address e = e + 8"

definition pfm_record_del :: "int \<Rightarrow> int \<Rightarrow> pfm \<Rightarrow> (int \<times> pfm) option" where
  "pfm_record_del i e p = do {
     m \<leftarrow> pfm_clr_bit (r_mask (recs p e)) i;
     let p' = p\<lparr>recs := (recs p)(e := (recs p e)\<lparr>r_mask := m\<rparr>)\<rparr>;
     Some (0, if 0 = mask_address e
              then p'\<lparr>po_used := remove1 e (po_used p'), rec_po := put_into_pool (rec_po p') e pfm_rec_link\<rparr>
              else p') }"

section \<open>Masks of eight platforms\<close>

lemma small_id:
  fixes i :: int
  assumes "0 \<le> i" and "nat (drop_bit 3 i) < 1"
  shows "drop_bit 3 i = 0" and "i AND 7 = i" and "i < 8"
proof -
  have "i div 8 = drop_bit 3 i" by (simp add: drop_bit_eq_div)
  then show lt: "i < 8" and "drop_bit 3 i = 0" using assms by auto
  have "i AND 7 = i mod 8"
    using take_bit_eq_mask [of 3 i] by (simp add: take_bit_eq_mod mask_eq_exp_minus_1)
  then show "i AND 7 = i" using assms(1) lt by simp
qed

lemma small_id_drop: "0 \<le> i \<Longrightarrow> i < 8 \<Longrightarrow> drop_bit 3 (i :: int) = 0"
  by (simp add: drop_bit_eq_div)

lemma bit_set_iff: "pfm_bit_is_set [m] i = (if 0 \<le> i \<and> i < 8 then Some (bit m (nat i)) else None)"
proof (cases "0 \<le> i \<and> i < 8")
  case True
  then have "drop_bit 3 i = 0" "i AND 7 = i"
    using small_id(2) [of i] by (simp_all add: small_id_drop)
  then show ?thesis
    using True by (simp add: pfm_bit_is_set_def push_bit_of_1 and_exp_eq_0_iff_not_bit)
next
  case False
  then show ?thesis using small_id(3) [of i] by (auto simp: pfm_bit_is_set_def)
qed

lemma set_bit_iff: "pfm_set_bit [m] i = (if 0 \<le> i \<and> i < 8 then Some [setbit m (nat i)] else None)"
  and clr_bit_iff: "pfm_clr_bit [m] i = (if 0 \<le> i \<and> i < 8 then Some [clrbit m (nat i)] else None)"
proof -
  have "drop_bit 3 i = 0 \<and> i AND 7 = i" if "0 \<le> i \<and> i < 8"
    using that small_id(2) [of i] by (simp add: small_id_drop)
  moreover have "i < 8" if "0 \<le> i" "nat (drop_bit 3 i) < 1"
    using small_id(3) that by blast
  ultimately show "pfm_set_bit [m] i = (if 0 \<le> i \<and> i < 8 then Some [setbit m (nat i)] else None)"
    and "pfm_clr_bit [m] i = (if 0 \<le> i \<and> i < 8 then Some [clrbit m (nat i)] else None)"
    by (auto simp: pfm_set_bit_def pfm_clr_bit_def Let_def)
qed

lemma bit_setbit_id: "n < 8 \<Longrightarrow> bit (setbit m b) n \<longleftrightarrow> n = b \<or> bit m n"
  and bit_clrbit: "n < 8 \<Longrightarrow> bit (clrbit m b) n \<longleftrightarrow> n \<noteq> b \<and> bit m n"
  by (auto simp: setbit_def clrbit_def bit_simps)

section \<open>Reachable states\<close>

text \<open>
  The second argument counts the records accepted since the start. A platform is registered
  once, and a platform gives back only records that it has received.
\<close>

inductive pfm_reach :: "pfm \<Rightarrow> nat \<Rightarrow> bool" where
  start: "0 < rec_buf p \<Longrightarrow> mask p = [m] \<Longrightarrow> readymask p = [0] \<Longrightarrow> pfm_init 0 0 p = (r, inits, p')
    \<Longrightarrow> pfm_reach p' 0"
| regst: "pfm_reach p n \<Longrightarrow> i \<notin> set (ready p @ suspend p) \<Longrightarrow> ve_pfm_regst ok i p = Some (r, p')
    \<Longrightarrow> pfm_reach p' n"
| run: "pfm_reach p n \<Longrightarrow> pfm_start i p = Some (r, p') \<Longrightarrow> pfm_reach p' n"
| stop: "pfm_reach p n \<Longrightarrow> pfm_stop i p = Some (r, p') \<Longrightarrow> pfm_reach p' n"
| recv: "pfm_reach p n \<Longrightarrow> pfm_record_recv rec p = Some (r, p') \<Longrightarrow> pfm_reach p' (if r = 0 then Suc n else n)"
| del: "pfm_reach p n \<Longrightarrow> e \<in> set (po_used p) \<Longrightarrow> pfm_record_del i e p = Some (r, p') \<Longrightarrow> pfm_reach p' n"

abbreviation pfm_pool :: "pfm \<Rightarrow> int set \<Rightarrow> bool" where
  "pfm_pool p \<equiv> pool_inv (rec_buf p) PFM_REC_POOL_ENTRY_NUM pfm_rec_size pfm_rec_link (rec_po p)"

definition ids_ok :: "pfm \<Rightarrow> bool" where
  "ids_ok p \<longleftrightarrow> distinct (ready p @ suspend p) \<and> (\<forall>i \<in> set (ready p @ suspend p). 0 \<le> i \<and> i < 8)
     \<and> (\<exists>m. mask p = [m])
     \<and> (\<exists>m. readymask p = [m] \<and> (\<forall>i. 0 \<le> i \<and> i < 8 \<longrightarrow> bit m (nat i) = (i \<in> set (ready p))))"

definition recs_ok :: "pfm \<Rightarrow> nat \<Rightarrow> bool" where
  "recs_ok p n \<longleftrightarrow> 0 < rec_buf p \<and> pfm_pool p (set (po_used p)) \<and> distinct (po_used p) \<and> length (po_used p) = n
     \<and> (\<forall>e \<in> set (po_used p). \<exists>m. r_mask (recs p e) = [m])"

lemma pfm_find_iff: "pfm_find xs i = (if i \<in> set xs then Some i else None)"
  by (induction xs) (auto simp: pfm_find_def)

lemma ids_start: "ids_ok p \<Longrightarrow> pfm_start i p = Some (r, p') \<Longrightarrow> ids_ok p'"
  by (auto simp: ids_ok_def pfm_start_def pfm_find_iff set_bit_iff bit_setbit_id nat_eq_iff2 split: if_splits)

lemma ids_stop: "ids_ok p \<Longrightarrow> pfm_stop i p = Some (r, p') \<Longrightarrow> ids_ok p'"
  by (auto simp: ids_ok_def pfm_stop_def pfm_find_iff clr_bit_iff bit_clrbit nat_eq_iff2 split: if_splits)

lemma ids_regst:
  "ids_ok p \<Longrightarrow> i \<notin> set (ready p @ suspend p) \<Longrightarrow> ve_pfm_regst ok i p = Some (r, p') \<Longrightarrow> ids_ok p'"
  by (auto simp: ids_ok_def ve_pfm_regst_def pfm_regst_def set_bit_iff split: if_splits)

lemma entry_address: "e \<in> pool_entries buf nr pfm_rec_size \<Longrightarrow> 0 < buf \<Longrightarrow> 0 \<noteq> mask_address e"
  by (auto simp: pool_entries_def pfm_rec_size_def mask_address_def)

lemma recs_del:
  assumes "recs_ok p n" and "e \<in> set (po_used p)" and "pfm_record_del i e p = Some (r, p')"
  shows "recs_ok p' n" and "rec_po p' = rec_po p" and "po_used p' = po_used p"
proof -
  have "e \<in> pool_entries (rec_buf p) PFM_REC_POOL_ENTRY_NUM pfm_rec_size"
    using assms(1,2) pool.used_entries by (fastforce simp: recs_ok_def)
  then have "0 \<noteq> mask_address e"
    using assms(1) by (auto simp: recs_ok_def dest: entry_address)
  moreover obtain m where "r_mask (recs p e) = [m]"
    using assms(1,2) by (auto simp: recs_ok_def)
  ultimately show "recs_ok p' n" "rec_po p' = rec_po p" "po_used p' = po_used p"
    using assms by (auto simp: pfm_record_del_def recs_ok_def clr_bit_iff split: if_splits)
qed

lemma recs_recv:
  assumes "recs_ok p n" and "ids_ok p" and "pfm_record_recv rec p = Some (r, p')"
  shows "recs_ok p' (if r = 0 then Suc n else n)" and "ids_ok p'"
proof -
  have inv: "pfm_pool p (set (po_used p))" using assms(1) by (simp add: recs_ok_def)
  show "recs_ok p' (if r = 0 then Suc n else n)"
    using assms pool.get_Some [OF inv] pool.get_None [OF inv]
    by (auto simp: pfm_record_recv_def recs_ok_def ids_ok_def bind_eq_Some_conv
        split: prod.splits option.splits)
  show "ids_ok p'"
    using assms(2,3) by (auto simp: pfm_record_recv_def ids_ok_def bind_eq_Some_conv
        split: prod.splits option.splits)
qed

lemma pfm_reach_inv: "pfm_reach p n \<Longrightarrow> recs_ok p n \<and> ids_ok p"
proof (induction rule: pfm_reach.induct)
  case (start p m r inits p')
  then show ?case
    using create_pool_inv [of pfm_rec_size]
    by (auto simp: pfm_init_def recs_ok_def ids_ok_def Let_def pfm_rec_size_def)
next
  case (regst p n i ok r p')
  then have "ids_ok p'" using ids_regst by blast
  moreover have "recs_ok p' n"
    using regst by (auto simp: recs_ok_def ve_pfm_regst_def pfm_regst_def bind_eq_Some_conv split: if_splits)
  ultimately show ?case by blast
next
  case (run p n i r p')
  then have "ids_ok p'" using ids_start by blast
  moreover have "recs_ok p' n"
    using run by (auto simp: recs_ok_def pfm_start_def bind_eq_Some_conv split: option.splits)
  ultimately show ?case by blast
next
  case (stop p n i r p')
  then have "ids_ok p'" using ids_stop by blast
  moreover have "recs_ok p' n"
    using stop by (auto simp: recs_ok_def pfm_stop_def bind_eq_Some_conv split: option.splits)
  ultimately show ?case by blast
next
  case (recv p n rec r p')
  then show ?case using recs_recv by blast
next
  case (del p n e i r p')
  then have "recs_ok p' n" using recs_del(1) by blast
  moreover have "ids_ok p'"
    using del by (auto simp: ids_ok_def pfm_record_del_def Let_def bind_eq_Some_conv split: if_splits)
  ultimately show ?case by blast
qed

section \<open>Delivery, and the end of it\<close>

lemma deliver_ready:
  assumes "\<forall>i \<in> set xs. 0 \<le> i \<and> i < 8 \<and> bit m (nat i)"
  shows "deliver [m] e xs out = Some (rev (map (\<lambda>i. (i, e)) xs) @ out)"
  using assms by (induction xs arbitrary: out) (simp_all add: bit_set_iff)

lemma recv_delivers:
  assumes "pfm_reach p n" and "get_from_pool (rec_po p) pfm_rec_link = (Some e, po)"
  shows "pfm_record_recv rec p = Some (0, p\<lparr>rec_po := po,
      recs := (recs p)(e := \<lparr>r_mask = readymask p, info = rec\<rparr>), po_used := po_used p @ [e],
      delivered := rev (map (\<lambda>i. (i, e)) (ready p)) @ delivered p\<rparr>)"
proof -
  obtain m where "readymask p = [m]" "\<forall>i \<in> set (ready p). 0 \<le> i \<and> i < 8 \<and> bit m (nat i)"
    using pfm_reach_inv [OF assms(1)] by (auto simp: ids_ok_def)
  then show ?thesis
    using assms(2) by (simp add: pfm_record_recv_def deliver_ready)
qed

lemma pool_full_iff:
  assumes "pfm_reach p n"
  shows "n \<le> PFM_REC_POOL_ENTRY_NUM"
    and "set (po_used p) = pool_entries (rec_buf p) PFM_REC_POOL_ENTRY_NUM pfm_rec_size \<longleftrightarrow> n = PFM_REC_POOL_ENTRY_NUM"
proof -
  have inv: "pfm_pool p (set (po_used p))" "distinct (po_used p)" "length (po_used p) = n"
    using pfm_reach_inv [OF assms] by (auto simp: recs_ok_def)
  have card: "card (pool_entries (rec_buf p) PFM_REC_POOL_ENTRY_NUM pfm_rec_size) = PFM_REC_POOL_ENTRY_NUM"
    by (simp add: pool_entries_def card_image inj_on_def pfm_rec_size_def)
  have sub: "set (po_used p) \<subseteq> pool_entries (rec_buf p) PFM_REC_POOL_ENTRY_NUM pfm_rec_size"
    using pool.used_entries [OF inv(1)] .
  have n: "card (set (po_used p)) = n" using inv(2,3) by (simp add: distinct_card)
  show "n \<le> PFM_REC_POOL_ENTRY_NUM"
    using card_mono [OF finite_pool_entries sub] card n by simp
  show "set (po_used p) = pool_entries (rec_buf p) PFM_REC_POOL_ENTRY_NUM pfm_rec_size \<longleftrightarrow> n = PFM_REC_POOL_ENTRY_NUM"
    using card_subset_eq [OF finite_pool_entries sub] card n by auto
qed

lemma recv_ok:
  assumes "pfm_reach p n" and "n < 10"
  shows "\<exists>e p'. pfm_record_recv rec p = Some (0, p') \<and> e \<notin> set (po_used p)
      \<and> delivered p' = rev (map (\<lambda>i. (i, e)) (ready p)) @ delivered p
      \<and> recs p' e = \<lparr>r_mask = readymask p, info = rec\<rparr>"
proof -
  have inv: "pfm_pool p (set (po_used p))"
    using pfm_reach_inv [OF assms(1)] by (auto simp: recs_ok_def)
  have "set (po_used p) \<noteq> pool_entries (rec_buf p) PFM_REC_POOL_ENTRY_NUM pfm_rec_size"
    using pool_full_iff(2) [OF assms(1)] assms(2) by (simp add: PFM_REC_POOL_ENTRY_NUM_def)
  from pool.get_free [OF inv this] obtain e po where get: "get_from_pool (rec_po p) pfm_rec_link = (Some e, po)"
    by blast
  show ?thesis
    using recv_delivers [OF assms(1) get, of rec] pool.get_Some [OF inv get] by auto
qed

text \<open>
  C36. A record that finds a free entry is delivered to exactly the platforms that are running,
  once to each and in the order in which they were started, from an entry that no other record
  occupies and that holds the record and the set of its receivers.
\<close>

theorem platform_delivers_to_running:
  assumes "pfm_reach p n" and "n < 10"
  shows "\<exists>e p'. pfm_record_recv rec p = Some (0, p') \<and> e \<notin> set (po_used p)
      \<and> delivered p' = rev (map (\<lambda>i. (i, e)) (ready p)) @ delivered p
      \<and> recs p' e = \<lparr>r_mask = readymask p, info = rec\<rparr>"
  using assms by (rule recv_ok)

definition power_on_pfm :: pfm where
  "power_on_pfm = \<lparr>ready = [], suspend = [], rec_po = create_pool 0 0 1 0, mask = [0],
     readymask = [0], rec_buf = 4096, recs = (\<lambda>_. \<lparr>r_mask = [], info = 0\<rparr>), po_used = [], delivered = []\<rparr>"

definition boot_pfm :: pfm where
  "boot_pfm = snd (snd (pfm_init 0 0 power_on_pfm))"

lemma boot_reach: "pfm_reach boot_pfm 0"
  unfolding boot_pfm_def
  by (rule pfm_reach.start [of power_on_pfm]) (simp_all add: power_on_pfm_def prod_eq_iff)

text \<open>The platforms 5 and 2 are registered after the start and then run, 5 first.\<close>

definition running_pfm :: pfm where
  "running_pfm = boot_pfm\<lparr>ready := [5, 2], mask := [36], readymask := [36]\<rparr>"

lemma running_reach: "pfm_reach running_pfm 0"
proof -
  have b: "boot_pfm = boot_pfm\<lparr>ready := [], suspend := [], mask := [0], readymask := [0]\<rparr>"
    by (simp add: boot_pfm_def pfm_init_def power_on_pfm_def)
  have f: "ready boot_pfm = []" "suspend boot_pfm = []"
    by (simp_all add: boot_pfm_def pfm_init_def power_on_pfm_def)
  have "ve_pfm_regst True 5 boot_pfm = Some (0, boot_pfm\<lparr>suspend := [5], mask := [32]\<rparr>)"
    by (subst (1 2) b) (simp add: ve_pfm_regst_def pfm_regst_def pfm_set_bit_def setbit_def)
  then have 1: "pfm_reach (boot_pfm\<lparr>suspend := [5], mask := [32]\<rparr>) 0"
    by (rule pfm_reach.regst [OF boot_reach, rotated]) (simp add: f)
  have "ve_pfm_regst True 2 (boot_pfm\<lparr>suspend := [5], mask := [32]\<rparr>) = Some (0, boot_pfm\<lparr>suspend := [5, 2], mask := [36]\<rparr>)"
    by (simp add: ve_pfm_regst_def pfm_regst_def pfm_set_bit_def setbit_def)
  then have 2: "pfm_reach (boot_pfm\<lparr>suspend := [5, 2], mask := [36]\<rparr>) 0"
    by (rule pfm_reach.regst [OF 1, rotated]) (simp add: f)
  have "pfm_start 5 (boot_pfm\<lparr>suspend := [5, 2], mask := [36]\<rparr>)
      = Some (0, boot_pfm\<lparr>ready := [5], suspend := [2], mask := [36], readymask := [32]\<rparr>)"
    by (subst (1 2) b) (simp add: pfm_start_def pfm_find_def pfm_set_bit_def setbit_def)
  from pfm_reach.run [OF 2 this] have "pfm_reach (boot_pfm\<lparr>ready := [5], suspend := [2], mask := [36], readymask := [32]\<rparr>) 0" .
  moreover have "pfm_start 2 (boot_pfm\<lparr>ready := [5], suspend := [2], mask := [36], readymask := [32]\<rparr>) = Some (0, running_pfm)"
    unfolding running_pfm_def
    by (subst (1 2) b) (simp add: pfm_start_def pfm_find_def pfm_set_bit_def setbit_def)
  ultimately show ?thesis
    by (rule pfm_reach.run)
qed

theorem platform_delivers_to_running_witness:
  "\<exists>e p'. pfm_record_recv 7 running_pfm = Some (0, p') \<and> delivered p' = [(2, e), (5, e)]
      \<and> recs p' e = \<lparr>r_mask = [36], info = 7\<rparr>"
proof -
  have "delivered running_pfm = []" "ready running_pfm = [5, 2]" "readymask running_pfm = [36]"
    by (simp_all add: running_pfm_def boot_pfm_def pfm_init_def power_on_pfm_def)
  then show ?thesis
    using platform_delivers_to_running [OF running_reach, of 7] by auto
qed

text \<open>
  No record is ever given back to the pool: whatever platforms delete their records, at
  most ten records are accepted after the start, and once ten have been, every further record is
  rejected and nothing is delivered any more.
\<close>

theorem platform_pool_runs_out:
  assumes "pfm_reach p n"
  shows "n \<le> 10 \<and> (n = 10 \<longrightarrow> pfm_record_recv rec p = Some (- 1, p))"
proof -
  have inv: "pfm_pool p (set (po_used p))"
    using pfm_reach_inv [OF assms] by (auto simp: recs_ok_def)
  have "get_from_pool (rec_po p) pfm_rec_link = (None, rec_po p)" if "n = 10"
    using pool_full_iff(2) [OF assms] that inv pool.get_all by (simp add: PFM_REC_POOL_ENTRY_NUM_def)
  then show ?thesis
    using pool_full_iff(1) [OF assms] by (auto simp: pfm_record_recv_def PFM_REC_POOL_ENTRY_NUM_def)
qed

lemma ten_records: "n \<le> 10 \<Longrightarrow> \<exists>p. pfm_reach p n"
proof (induction n)
  case 0
  show ?case using boot_reach by blast
next
  case (Suc n)
  then obtain p where "pfm_reach p n" by auto
  with recv_ok [OF this, of 0] Suc.prems show ?case
    using pfm_reach.recv [of p n 0 0] by auto
qed

theorem platform_pool_runs_out_witness:
  "\<exists>p. pfm_reach p 10 \<and> pfm_record_recv 7 p = Some (- 1, p)"
  using ten_records [of 10] platform_pool_runs_out [of _ 10 7] by auto

text \<open>
  Platforms that are registered before \<open>ve_pfm_init\<close> are forgotten by it: their \<open>init\<close> function is
  not called and they cannot be started.
\<close>

lemma pfm_init_forgets:
  "pfm_init 0 0 p = (r, inits, p') \<Longrightarrow> inits = [] \<and> pfm_start i p' = Some (- 1, p')"
  by (auto simp: pfm_init_def Let_def pfm_start_def pfm_find_def)

end
