(* ===== verification/Sqlite.thy ===== *)
theory Sqlite
  imports Cstdio "HOL-Library.Sublist"
begin

text \<open>
  The data base engine as the storage code uses it. SQLite is not part of the program: it is a
  record \<open>sqlite\<close> of functions over an arbitrary type of data base contents. What it promises whatever
  happens is the locale \<open>sqlite_laws\<close>: a statement that returns another code than 0 has changed nothing,
  and one that returns 0 has done what it says. That files can be opened and correct statements on existing
  tables succeed is the locale \<open>sqlite_works\<close>, interpreted by a data base held in memory.

  The program runs four kinds of statements on three tables. An insertion is the text that the
  program builds, with the values between apostrophes; the others, whose texts contain no configured
  names, are represented by the table, the column numbers (the key is column 0) and the numbers in them,
  of which a new value is the C integer that \<open>%d\<close> prints.
\<close>

datatype sql_stmt =
    Create string
  | Insert string
  | Update string nat "32 word" int
  | Delete string int

text \<open>The conditions of \<open>SELECT * FROM ... WHERE ... limit 1\<close>.\<close>

datatype sql_cond =
    ID_gt_and_pos int nat
  | Text_ge nat string

record 'd sqlite =
  can_open :: "string \<Rightarrow> bool"
  empty_db :: 'd
  run :: "sql_stmt \<Rightarrow> 'd \<Rightarrow> int \<times> 'd"
  get_table :: "string \<Rightarrow> sql_cond \<Rightarrow> 'd \<Rightarrow> string list option"

type_synonym rows = "(int \<times> string list) list"

text \<open>The tables of the program: for each column besides the key whether it holds integers, else texts.\<close>

definition columns :: "string \<Rightarrow> bool list option" where
  "columns =
     [''DB_files'' \<mapsto> [True, False, False, True, True],
      ''traffic_flow'' \<mapsto> [False, False] @ replicate 8 True @ replicate 5 False @ replicate 7 True,
      ''traffic_flow_pedestrian'' \<mapsto> replicate 2 True @ replicate 5 False @ replicate 2 True]"

lemma dom_columns: "dom columns = {''DB_files'', ''traffic_flow'', ''traffic_flow_pedestrian''}"
  by (auto simp: columns_def)

section \<open>The text of an insertion\<close>

definition apos :: char where "apos = CHR 0x27"

definition insert_text :: "string \<Rightarrow> string list \<Rightarrow> string" where
  "insert_text t vs =
     ''INSERT INTO '' @ t @ '' VALUES(NULL'' @ concat (map (\<lambda>v. '','' @ [apos] @ v @ [apos]) vs) @ '');''"

text \<open>Values without an apostrophe.\<close>

definition plain :: "string list \<Rightarrow> bool" where
  "plain vs \<longleftrightarrow> (\<forall>v \<in> set vs. apos \<notin> set v)"

text \<open>
  Values that a table keeps as they are: a column of integers converts other texts, so there they
  must be integers as \<open>%d\<close> prints them.
\<close>

definition c_int :: "int \<Rightarrow> bool" where
  "c_int n \<longleftrightarrow> - (2 ^ 31) \<le> n \<and> n < 2 ^ 31"

definition fits :: "string \<Rightarrow> string list \<Rightarrow> bool" where
  "fits t vs \<longleftrightarrow> plain vs \<and> (case columns t of None \<Rightarrow> False
     | Some ks \<Rightarrow> list_all2 (\<lambda>k v. k \<longrightarrow> v = dec_int (atoi v) \<and> c_int (atoi v)) ks vs)"

lemma fitsD: "fits t vs \<Longrightarrow> plain vs \<and> t \<in> dom columns \<and> (\<exists>ks. columns t = Some ks \<and> length ks = length vs)"
  by (auto simp: fits_def list_all2_lengthD split: option.splits)

text \<open>
  Values with an odd number of apostrophes, and nothing that ends a statement, begins a comment or
  quotes in another way: the last literal of the insertion has no end.
\<close>

definition unclosed :: "string list \<Rightarrow> bool" where
  "unclosed vs \<longleftrightarrow> odd (count_list (concat vs) apos) \<and>
     (\<forall>v \<in> set vs. set v \<inter> set '';[`'' = {} \<and> CHR 0x22 \<notin> set v \<and> \<not> sublist ''--'' v \<and> \<not> sublist ''/*'' v)"

text \<open>The literals of a text.\<close>

function literals :: "string \<Rightarrow> string list" where
  "literals s = (case dropWhile (\<lambda>c. c \<noteq> apos) s of [] \<Rightarrow> []
     | _ # r \<Rightarrow> takeWhile (\<lambda>c. c \<noteq> apos) r # literals (drop 1 (dropWhile (\<lambda>c. c \<noteq> apos) r)))"
  by auto

termination
proof (relation "measure length")
  fix s r :: string and c
  assume "dropWhile (\<lambda>c. c \<noteq> apos) s = c # r"
  then have "Suc (length r) \<le> length s"
    by (metis length_Cons length_dropWhile_le)
  then show "(drop 1 (dropWhile (\<lambda>c. c \<noteq> apos) r), s) \<in> measure length"
    using length_dropWhile_le [of "\<lambda>c. c \<noteq> apos" r] by simp
qed simp

declare literals.simps [simp del]

lemma literals_none: "apos \<notin> set s \<Longrightarrow> literals s = []"
proof -
  assume "apos \<notin> set s"
  then have "dropWhile (\<lambda>c. c \<noteq> apos) s = []"
    by (auto simp: dropWhile_eq_Nil_conv)
  then show ?thesis
    by (simp only: literals.simps [of s] list.case)
qed

lemma literals_one: "apos \<notin> set u \<Longrightarrow> apos \<notin> set v \<Longrightarrow> literals (u @ apos # v @ apos # w) = v # literals w"
proof -
  assume u: "apos \<notin> set u" and v: "apos \<notin> set v"
  have d: "dropWhile (\<lambda>c. c \<noteq> apos) (x @ apos # w') = apos # w'" "takeWhile (\<lambda>c. c \<noteq> apos) (x @ apos # w') = x"
    if "apos \<notin> set x" for x w'
    using that by (induction x) auto
  show ?thesis
    by (subst literals.simps) (simp add: d u v)
qed

lemma literals_insert:
  assumes "t \<in> dom columns" "plain vs"
  shows "literals (insert_text t vs) = vs"
proof -
  have "literals (u @ concat (map (\<lambda>v. '','' @ [apos] @ v @ [apos]) vs) @ '');'') = vs" if "apos \<notin> set u" for u
    using assms(2) that
  proof (induction vs arbitrary: u)
    case Nil
    then show ?case by (simp add: literals_none apos_def)
  next
    case (Cons v vs)
    then show ?case
      using literals_one [of "u @ '',''" v "concat (map (\<lambda>v. '','' @ [apos] @ v @ [apos]) vs) @ '');''"] Cons.IH [of "[]"]
      by (simp add: plain_def apos_def)
  qed
  from this [of "''INSERT INTO '' @ t @ '' VALUES(NULL''"] show ?thesis
    using assms(1) unfolding insert_text_def by (auto simp: apos_def dom_columns)
qed

lemma count_list_concat: "count_list (concat xss) x = sum_list (map (\<lambda>xs. count_list xs x) xss)"
  by (induction xss) auto

lemma count_list_insert: "t \<in> dom columns \<Longrightarrow> count_list (insert_text t vs) apos = 2 * length vs + count_list (concat vs) apos"
proof -
  assume "t \<in> dom columns"
  then have "count_list (''INSERT INTO '' @ t @ '' VALUES(NULL'') apos = 0"
    by (auto simp: apos_def dom_columns)
  moreover have "count_list (concat (map (\<lambda>v. '','' @ [apos] @ v @ [apos]) vs) @ '');'') apos = 2 * length vs + count_list (concat vs) apos"
    by (induction vs) (simp_all add: apos_def)
  ultimately show ?thesis
    by (simp add: insert_text_def apos_def)
qed

lemma plain_not_unclosed: "plain vs \<Longrightarrow> count_list (concat vs) apos = 0"
  by (simp add: plain_def count_list_0_iff)

section \<open>Rows\<close>

text \<open>The order of SQLite on texts compares the bytes.\<close>

fun text_le :: "string \<Rightarrow> string \<Rightarrow> bool" where
  "text_le [] t = True"
| "text_le (c # s) [] = False"
| "text_le (c # s) (d # t) = (if c = d then text_le s t else (of_char c :: nat) < of_char d)"

fun cond_holds :: "sql_cond \<Rightarrow> int \<times> string list \<Rightarrow> bool" where
  "cond_holds (ID_gt_and_pos k c) (i, r) = (k < i \<and> 0 < atoi (r ! (c - 1)))"
| "cond_holds (Text_ge c t) (i, r) = text_le t (r ! (c - 1))"

text \<open>
  An insertion with the key \<open>NULL\<close> gets the key above the greatest one in use, or 1 in an empty
  table; the keys of deleted rows are used again. (Keys have 64 bits; no table gets that far.)
\<close>

definition next_id :: "rows \<Rightarrow> int" where
  "next_id xs = (if xs = [] then 1 else fst (last xs) + 1)"

definition row_insert :: "string list \<Rightarrow> rows \<Rightarrow> rows" where
  "row_insert vs xs = xs @ [(next_id xs, vs)]"

definition row_update :: "nat \<Rightarrow> 32 word \<Rightarrow> int \<Rightarrow> rows \<Rightarrow> rows" where
  "row_update c n k xs = map (\<lambda>(i, r). if i = k then (i, r[c - 1 := dec_int (sint n)]) else (i, r)) xs"

definition row_delete :: "int \<Rightarrow> rows \<Rightarrow> rows" where
  "row_delete k xs = filter (\<lambda>(i, r). i \<noteq> k) xs"

text \<open>What a statement on a table does to its rows.\<close>

definition changes :: "string \<Rightarrow> (rows \<Rightarrow> rows) \<Rightarrow> (string \<Rightarrow> rows option) \<Rightarrow> (string \<Rightarrow> rows option) \<Rightarrow> bool" where
  "changes t g f f' \<longleftrightarrow> (\<exists>xs. f t = Some xs \<and> f' = f(t \<mapsto> g xs))"

text \<open>The changes of a column of integers.\<close>

definition int_column :: "string \<Rightarrow> nat \<Rightarrow> bool" where
  "int_column t c \<longleftrightarrow> (case columns t of None \<Rightarrow> False | Some ks \<Rightarrow> 0 < c \<and> c \<le> length ks \<and> ks ! (c - 1))"

lemma int_column_dom: "int_column t c \<Longrightarrow> t \<in> dom columns"
  by (auto simp: int_column_def split: option.splits)

section \<open>What the code relies on\<close>

text \<open>\<open>rows d t\<close> are the rows of a table, in the order of their keys, and \<open>None\<close> when there is no such table.\<close>

locale sqlite_laws =
  fixes Q :: "'d sqlite" and rows :: "'d \<Rightarrow> string \<Rightarrow> rows option"
  assumes new_file: "rows (empty_db Q) t = None"
    and failed: "(\<nexists>txt. s = Insert txt) \<Longrightarrow> run Q s d = (rc, d') \<Longrightarrow> rc \<noteq> 0 \<Longrightarrow> rows d' = rows d"
    and created: "t \<in> dom columns \<Longrightarrow> run Q (Create t) d = (0, d') \<Longrightarrow> rows d t = None \<and> rows d' = (rows d)(t \<mapsto> [])"
    and inserted: "fits t vs \<Longrightarrow> run Q (Insert (insert_text t vs)) d = (0, d') \<Longrightarrow> changes t (row_insert vs) (rows d) (rows d')"
    and not_inserted: "fits t vs \<Longrightarrow> run Q (Insert (insert_text t vs)) d = (rc, d') \<Longrightarrow> rc \<noteq> 0 \<Longrightarrow> rows d' = rows d"
    and not_closed: "t \<in> dom columns \<Longrightarrow> unclosed vs \<Longrightarrow> run Q (Insert (insert_text t vs)) d = (rc, d')
      \<Longrightarrow> rc \<noteq> 0 \<and> rows d' = rows d"
    and updated: "int_column t col \<Longrightarrow> run Q (Update t col n k) d = (0, d') \<Longrightarrow> changes t (row_update col n k) (rows d) (rows d')"
    and deleted: "t \<in> dom columns \<Longrightarrow> run Q (Delete t k) d = (0, d') \<Longrightarrow> changes t (row_delete k) (rows d) (rows d')"
    and found: "t \<in> dom columns \<Longrightarrow> get_table Q t c d = Some r
      \<Longrightarrow> \<exists>xs x. rows d t = Some xs \<and> find (cond_holds c) xs = Some x \<and> r = dec_int (fst x) # snd x"
    and keys: "rows d t = Some xs \<Longrightarrow> sorted_wrt (<) (map fst xs)" "rows d t = Some xs \<Longrightarrow> x \<in> set xs \<Longrightarrow> 0 < fst x"

text \<open>
  A data base that works: files can be opened, and a statement fails only for a reason that lies in
  the statement: for the creation of a table that the table exists, for an insertion that its text is wrong.
\<close>

locale sqlite_works = sqlite_laws +
  assumes opens: "can_open Q p"
    and create_ok: "t \<in> dom columns \<Longrightarrow> fst (run Q (Create t) d) = (if rows d t = None then 0 else 1)"
    and insert_ok: "rows d t \<noteq> None \<Longrightarrow> fits t vs \<Longrightarrow> fst (run Q (Insert (insert_text t vs)) d) = 0"
    and error_ok: "t \<in> dom columns \<Longrightarrow> unclosed vs \<Longrightarrow> fst (run Q (Insert (insert_text t vs)) d) = 1"
    and update_ok: "rows d t \<noteq> None \<Longrightarrow> int_column t col \<Longrightarrow> fst (run Q (Update t col n k) d) = 0"
    and delete_ok: "rows d t \<noteq> None \<Longrightarrow> t \<in> dom columns \<Longrightarrow> fst (run Q (Delete t k) d) = 0"
    and get_ok: "rows d t = Some xs \<Longrightarrow> t \<in> dom columns
      \<Longrightarrow> get_table Q t c d = map_option (\<lambda>(i, r). dec_int i # r) (find (cond_holds c) xs)"

section \<open>A data base in memory\<close>

text \<open>
  Tables are lists of rows, of which those whose key does not exceed the keys before them are
  ignored.
\<close>

fun norm :: "int \<Rightarrow> (int \<times> 'r) list \<Rightarrow> (int \<times> 'r) list" where
  "norm k [] = []"
| "norm k ((i, r) # t) = (if k < i then (i, r) # norm i t else norm k t)"

lemma sorted_norm: "sorted_wrt (<) (k # map fst (norm k t))"
  by (induction k t rule: norm.induct) (auto intro: less_trans)

lemma norm_id: "sorted_wrt (<) (k # map fst t) \<Longrightarrow> norm k t = t"
  by (induction k t rule: norm.induct) auto

lemma sorted_append_key:
  fixes k :: int
  assumes "sorted_wrt (<) (k # map fst xs)" "k < i" "xs \<noteq> [] \<longrightarrow> fst (last xs) < i"
  shows "sorted_wrt (<) (k # map fst (xs @ [(i, r)]))"
  using assms
proof (cases xs rule: rev_cases)
  case (snoc ys y)
  then have "\<forall>x \<in> set ys. fst x < fst y" "fst y < i"
    using assms(1, 3) by (auto simp: sorted_wrt_append)
  then have "\<forall>x \<in> set ys. fst x < i"
    by (meson less_trans)
  then show ?thesis
    using assms snoc by (auto simp: sorted_wrt_append)
qed (use assms in auto)

lemma norm_last: "norm k t \<noteq> [] \<Longrightarrow> k < fst (last (norm k t))"
  using sorted_norm [of k t] by (cases "norm k t" rule: rev_cases) auto

definition mem_rows :: "(string \<Rightarrow> rows option) \<Rightarrow> string \<Rightarrow> rows option" where
  "mem_rows d t = map_option (norm 0) (d t)"

text \<open>
  An insertion is read back from its text: the table behind the first two words, the literals, and a
  check that they give the text again.
\<close>

definition read_insert :: "string \<Rightarrow> (string \<times> string list) option" where
  "read_insert txt = (let t = takeWhile (\<lambda>c. c \<noteq> CHR '' '') (drop 12 txt); vs = literals txt
     in if plain vs \<and> insert_text t vs = txt \<and> map_option length (columns t) = Some (length vs) then Some (t, vs) else None)"

fun mem_change :: "string \<Rightarrow> (rows \<Rightarrow> rows) \<Rightarrow> (string \<Rightarrow> rows option) \<Rightarrow> int \<times> (string \<Rightarrow> rows option)" where
  "mem_change t g f = (case f t of None \<Rightarrow> (1, f) | Some xs \<Rightarrow> (0, f(t \<mapsto> g xs)))"

fun mem_run :: "sql_stmt \<Rightarrow> (string \<Rightarrow> rows option) \<Rightarrow> int \<times> (string \<Rightarrow> rows option)" where
  "mem_run (Create t) f = (if f t = None then (0, f(t \<mapsto> [])) else (1, f))"
| "mem_run (Insert txt) f = (case read_insert txt of None \<Rightarrow> (1, f) | Some (t, vs) \<Rightarrow> mem_change t (row_insert vs) f)"
| "mem_run (Update t c n k) f = mem_change t (row_update c n k) f"
| "mem_run (Delete t k) f = mem_change t (row_delete k) f"

definition mem_db :: "(string \<Rightarrow> rows option) sqlite" where
  "mem_db = \<lparr>can_open = (\<lambda>_. True), empty_db = (\<lambda>_. None), run = (\<lambda>s d. mem_run s (mem_rows d)),
     get_table = (\<lambda>t c d. case mem_rows d t of None \<Rightarrow> None
       | Some xs \<Rightarrow> map_option (\<lambda>(i, r). dec_int i # r) (find (cond_holds c) xs))\<rparr>"

lemma read_insert_text:
  assumes "fits t vs"
  shows "read_insert (insert_text t vs) = Some (t, vs)"
proof -
  have t: "t \<in> dom columns" "plain vs"
    using fitsD [OF assms] by blast+
  then have "CHR '' '' \<notin> set t"
    by (auto simp: dom_columns)
  then have "takeWhile (\<lambda>c. c \<noteq> CHR '' '') (t @ CHR '' '' # x) = t" for x
    by (induction t) auto
  then have "takeWhile (\<lambda>c. c \<noteq> CHR '' '') (drop 12 (insert_text t vs)) = t"
    by (simp add: insert_text_def)
  then show ?thesis
    using fitsD [OF assms] literals_insert [OF t] by (auto simp: read_insert_def)
qed

lemma read_insert_Some:
  assumes "read_insert (insert_text t vs) = Some (u, ws)" "t \<in> dom columns"
  shows "\<not> unclosed vs" "plain vs \<Longrightarrow> u = t \<and> ws = vs"
proof -
  have w: "plain ws" "insert_text u ws = insert_text t vs" "u \<in> dom columns" "ws = literals (insert_text t vs)"
    "u = takeWhile (\<lambda>c. c \<noteq> CHR '' '') (drop 12 (insert_text t vs))"
    using assms(1) by (auto simp: read_insert_def Let_def split: if_splits)
  have "even (count_list (insert_text t vs) apos)"
    using count_list_insert [OF w(3), of ws] plain_not_unclosed [OF w(1)] by (simp add: w(2))
  then show "\<not> unclosed vs"
    using count_list_insert [OF assms(2), of vs] by (simp add: unclosed_def)
  have "CHR '' '' \<notin> set t"
    using assms(2) by (auto simp: dom_columns)
  then have "takeWhile (\<lambda>c. c \<noteq> CHR '' '') (t @ CHR '' '' # x) = t" for x
    by (induction t) auto
  then have "u = t"
    unfolding w(5) by (simp add: insert_text_def)
  then show "plain vs \<Longrightarrow> u = t \<and> ws = vs"
    using w(4) literals_insert [OF assms(2)] by simp
qed

definition keys_ok :: "rows \<Rightarrow> bool" where
  "keys_ok xs \<longleftrightarrow> sorted_wrt (<) (0 # map fst xs)"

lemma keys_ok_norm: "keys_ok (norm 0 xs)"
  unfolding keys_ok_def by (rule sorted_norm)

lemma keys_ok_insert: "keys_ok xs \<Longrightarrow> keys_ok (row_insert v xs)"
  unfolding keys_ok_def row_insert_def
  by (rule sorted_append_key) (cases xs rule: rev_cases; auto simp: next_id_def)+

lemma keys_ok_delete: "keys_ok xs \<Longrightarrow> keys_ok (row_delete k xs)"
  by (auto simp: keys_ok_def row_delete_def sorted_wrt_map sorted_wrt_filter)

lemma map_fst_update: "map fst (map (\<lambda>(i, r). if i = k then (i, f r) else (i, r)) xs) = map fst xs"
  by (induction xs) auto

lemma keys_ok_update: "keys_ok xs \<Longrightarrow> keys_ok (row_update c n k xs)"
  unfolding keys_ok_def row_update_def map_fst_update .

lemma mem_keys: "mem_rows d t = Some xs \<Longrightarrow> keys_ok xs"
  by (auto simp: mem_rows_def keys_ok_norm)

text \<open>Contents whose tables all have their keys in order.\<close>

definition all_ok :: "(string \<Rightarrow> rows option) \<Rightarrow> bool" where
  "all_ok f \<longleftrightarrow> (\<forall>t xs. f t = Some xs \<longrightarrow> keys_ok xs)"

lemma all_ok_upd: "all_ok f \<Longrightarrow> keys_ok xs \<Longrightarrow> all_ok (f(t \<mapsto> xs))"
  by (simp add: all_ok_def)

lemma all_ok_change: "all_ok f \<Longrightarrow> (\<And>xs. keys_ok xs \<Longrightarrow> keys_ok (g xs)) \<Longrightarrow> all_ok (snd (mem_change t g f))"
  by (cases "f t") (simp_all add: all_ok_def)

lemma all_ok_run: "all_ok f \<Longrightarrow> all_ok (snd (mem_run s f))"
  by (cases s) (auto simp: all_ok_upd all_ok_change keys_ok_insert keys_ok_update keys_ok_delete
      keys_ok_def [of "[]"] simp del: mem_change.simps split: option.split)

lemma mem_rows_id: "all_ok f \<Longrightarrow> mem_rows f = f"
proof
  fix t
  assume "all_ok f"
  then show "mem_rows f t = f t"
    by (cases "f t") (simp_all add: all_ok_def mem_rows_def keys_ok_def norm_id)
qed

lemma all_ok_mem: "all_ok (mem_rows d)"
  by (auto simp: all_ok_def dest: mem_keys)

lemma mem_run_rows: "run mem_db s d = (rc, d') \<Longrightarrow> mem_run s (mem_rows d) = (rc, mem_rows d')"
proof -
  assume r: "run mem_db s d = (rc, d')"
  then have e: "mem_run s (mem_rows d) = (rc, d')"
    by (simp add: mem_db_def)
  then have "mem_rows d' = d'"
    using all_ok_run [OF all_ok_mem, of s d] by (simp add: mem_rows_id)
  then show ?thesis
    using e by simp
qed

lemma mem_change_0: "mem_change t g f = (0, f') \<Longrightarrow> changes t g f f'"
  by (auto simp: changes_def split: option.splits)

lemma mem_change_failed: "mem_change t g f = (rc, f') \<Longrightarrow> rc \<noteq> 0 \<Longrightarrow> f' = f"
  by (auto split: option.splits)

interpretation mem_db: sqlite_works mem_db mem_rows
proof unfold_locales
  fix d d' :: "string \<Rightarrow> rows option" and s rc
  assume "\<nexists>txt. s = Insert txt" "run mem_db s d = (rc, d')" "rc \<noteq> 0"
  then show "mem_rows d' = mem_rows d"
    using mem_run_rows [of s d rc d'] mem_change_failed
    by (cases s) (auto simp del: mem_change.simps split: if_splits option.splits)
next
  fix t and d d' :: "string \<Rightarrow> rows option"
  assume "run mem_db (Create t) d = (0, d')"
  then show "mem_rows d t = None \<and> mem_rows d' = (mem_rows d)(t \<mapsto> [])"
    using mem_run_rows by (auto split: if_splits dest: mem_run_rows)
next
  fix t vs and d d' :: "string \<Rightarrow> rows option"
  assume "fits t vs" "run mem_db (Insert (insert_text t vs)) d = (0, d')"
  then show "changes t (row_insert vs) (mem_rows d) (mem_rows d')"
    using mem_change_0 by (auto simp: read_insert_text simp del: mem_change.simps dest!: mem_run_rows)
next
  fix t vs rc and d d' :: "string \<Rightarrow> rows option"
  assume "fits t vs" "run mem_db (Insert (insert_text t vs)) d = (rc, d')" "rc \<noteq> 0"
  then show "mem_rows d' = mem_rows d"
    using mem_change_failed by (auto simp: read_insert_text simp del: mem_change.simps dest!: mem_run_rows)
next
  fix t vs rc and d d' :: "string \<Rightarrow> rows option"
  assume u: "t \<in> dom columns" "unclosed vs"
  then have r: "read_insert (insert_text t vs) = None"
    using read_insert_Some(1) [of t vs] by (cases "read_insert (insert_text t vs)") auto
  then show "fst (run mem_db (Insert (insert_text t vs)) d) = 1"
    by (simp add: mem_db_def)
  show "rc \<noteq> 0 \<and> mem_rows d' = mem_rows d" if "run mem_db (Insert (insert_text t vs)) d = (rc, d')"
    using mem_run_rows [OF that] r by auto
next
  fix t col n k and d d' :: "string \<Rightarrow> rows option"
  assume "run mem_db (Update t col n k) d = (0, d')"
  then show "changes t (row_update col n k) (mem_rows d) (mem_rows d')"
    using mem_change_0 by (auto simp del: mem_change.simps dest!: mem_run_rows)
next
  fix t k and d d' :: "string \<Rightarrow> rows option"
  assume "run mem_db (Delete t k) d = (0, d')"
  then show "changes t (row_delete k) (mem_rows d) (mem_rows d')"
    using mem_change_0 by (auto simp del: mem_change.simps dest!: mem_run_rows)
next
  fix t c and d :: "string \<Rightarrow> rows option" and r
  assume "get_table mem_db t c d = Some r"
  then show "\<exists>xs x. mem_rows d t = Some xs \<and> find (cond_holds c) xs = Some x \<and> r = dec_int (fst x) # snd x"
    by (auto simp: mem_db_def split: option.splits)
next
  fix d :: "string \<Rightarrow> rows option" and t and xs :: rows and x
  assume "mem_rows d t = Some xs"
  then have "keys_ok xs"
    by (rule mem_keys)
  then show "sorted_wrt (<) (map fst xs)" "x \<in> set xs \<Longrightarrow> 0 < fst x"
    by (auto simp: keys_ok_def)
next
  fix d :: "string \<Rightarrow> rows option" and t and vs :: "string list"
  assume "mem_rows d t \<noteq> None" "fits t vs"
  then show "fst (run mem_db (Insert (insert_text t vs)) d) = 0"
    by (auto simp: mem_db_def read_insert_text)
qed (auto simp: mem_db_def, auto simp: mem_rows_def)

end
