(* ===== verification/Resend.thy ===== *)
theory Resend
  imports Sqlite
begin

text \<open>
  The three resend queues of the parking platform, \<open>ve/platform/bitcom/mq_resend.c\<close>,
  \<open>http_resend.c\<close> and \<open>ftp_resend.c\<close> with their database functions \<open>*_resend_db.c\<close>: records that
  could not be sent are kept in a table, the oldest are dropped beyond a limit, and a thread
  sends the newest again with growing pauses. SQLite is not part of the program: its statements
  are the fields of a record \<open>sql\<close> over an arbitrary database, and what the code relies on is the
  locale \<open>sql_table\<close>. What a transmission returns is an argument of the round that attempts it.
\<close>

record ('d, 'r) sql =
  prep :: "'d \<Rightarrow> bool"
  ins :: "'r \<Rightarrow> 'd \<Rightarrow> 'd"
  del :: "int \<Rightarrow> 'd \<Rightarrow> 'd"
  cnt :: "'d \<Rightarrow> int"
  newest :: "'d \<Rightarrow> (int \<times> 'r) option"
  oldest :: "nat \<Rightarrow> 'd \<Rightarrow> (int \<times> 'r) list"

text \<open>
  The statements: \<open>prep\<close> whether a statement can be prepared, \<open>ins\<close> the insertion of a row with an
  automatic key, \<open>del\<close> the deletion by key, \<open>cnt\<close> \<open>select count(*)\<close>, \<open>newest\<close> \<open>select ... order by id
  desc limit 1\<close> and \<open>oldest k\<close> \<open>select ... order by id asc limit k\<close>.
\<close>

definition backoff_time :: "int list" where
  "backoff_time = [8, 16, 32, 64, 128, 256]"

definition next_backoff :: "nat \<Rightarrow> nat" where
  "next_backoff p = (if length backoff_time = Suc p then 0 else Suc p)"

section \<open>Messages\<close>

record 'd mq_resend =
  mq_db :: 'd
  resv :: int
  mq_backoff :: nat

text \<open>\<open>tabitcom_mq_resend_ram_init\<close>: \<open>d\<close> is the database opened, with the table created.\<close>

definition mq_resend_ram_init :: "'d \<Rightarrow> int \<Rightarrow> 'd mq_resend" where
  "mq_resend_ram_init d n = \<lparr>mq_db = d, resv = n, mq_backoff = 0\<rparr>"

definition mq_resend_insert :: "('d, 'r) sql \<Rightarrow> 'r \<Rightarrow> 'd \<Rightarrow> int \<times> 'd" where
  "mq_resend_insert S item d = (if \<not> prep S d then (- 1, d) else (0, ins S item d))"

definition mq_resend_select :: "('d, 'r) sql \<Rightarrow> 'd \<Rightarrow> int \<times> 'r option" where
  "mq_resend_select S d =
     (if \<not> prep S d then (- 1, None)
      else (case newest S d of Some (i, r) \<Rightarrow> (i, Some r) | None \<Rightarrow> (- 1, None)))"

definition mq_resend_del_redundant :: "('d, 'r) sql \<Rightarrow> int \<Rightarrow> 'd \<Rightarrow> int \<times> 'd" where
  "mq_resend_del_redundant S n d =
     (let limit = cnt S d - n + 1
      in if limit \<le> 0 then (- 1, d)
         else if \<not> prep S d then (- 1, d)
         else (0, fold (\<lambda>(i, r). del S i) (oldest S (nat limit) d) d))"

definition mq_resend_put :: "('d, 'r) sql \<Rightarrow> 'r \<Rightarrow> 'd mq_resend \<Rightarrow> int \<times> 'd mq_resend" where
  "mq_resend_put S item q =
     (let d1 = snd (mq_resend_del_redundant S (resv q) (mq_db q));
          (ret, d2) = mq_resend_insert S item d1
      in (ret, q\<lparr>mq_db := d2\<rparr>))"

text \<open>
  One round of the thread after its pause: what it tries to send, and the state it leaves when
  \<open>send\<close> says what \<open>tabitcom_mq_send\<close> returns.
\<close>

definition mq_resend_round :: "('d, 'r) sql \<Rightarrow> ('r \<Rightarrow> int) \<Rightarrow> 'd mq_resend \<Rightarrow> 'r option \<times> 'd mq_resend" where
  "mq_resend_round S send q =
     (case mq_resend_select S (mq_db q) of
        (i, Some item) \<Rightarrow>
          (if i > 0
           then (Some item,
                 if send item = 0 then q\<lparr>mq_db := del S i (mq_db q), mq_backoff := 0\<rparr>
                 else q\<lparr>mq_backoff := next_backoff (mq_backoff q)\<rparr>)
           else (None, q))
      | (i, None) \<Rightarrow> (None, q))"

section \<open>Records with pictures over HTTP\<close>

record http_item =
  h_json :: string
  h_name :: string
  h_size :: int

record 'd http_resend =
  h_db :: 'd
  nr_record :: int
  h_backoff :: nat
  on :: bool
  files :: "string \<Rightarrow> string option"

definition http_resend_ram_init :: "'d \<Rightarrow> (string \<Rightarrow> string option) \<Rightarrow> int \<Rightarrow> 'd http_resend" where
  "http_resend_ram_init d f n = \<lparr>h_db = d, nr_record = n, h_backoff = 0, on = True, files = f\<rparr>"

text \<open>
  \<open>sabitcom_http_resend_del_redundant\<close> deletes at most \<open>nr_name_max\<close> rows and returns the names of
  their pictures; \<open>None\<close> stands for the result -1.
\<close>

definition del_redundant :: "('d, 'r) sql \<Rightarrow> ('r \<Rightarrow> string) \<Rightarrow> int \<Rightarrow> nat \<Rightarrow> 'd \<Rightarrow> string list option \<times> 'd" where
  "del_redundant S nm n nr_name_max d =
     (let limit = cnt S d - n + 1
      in if limit \<le> 0 then (None, d)
         else if \<not> prep S d then (None, d)
         else let rs = take nr_name_max (oldest S (nat limit) d)
              in (Some (map (nm \<circ> snd) rs), fold (\<lambda>(i, r). del S i) rs d))"

definition remove_files :: "string list \<Rightarrow> (string \<Rightarrow> string option) \<Rightarrow> string \<Rightarrow> string option" where
  "remove_files ns f = fold (\<lambda>n g. g(n := None)) ns f"

text \<open>\<open>fopen\<close> with \<open>"wb"\<close> makes the file empty or does nothing; \<open>fwrite\<close> writes what the device takes.\<close>

definition write_pic :: "nat option \<Rightarrow> string \<Rightarrow> string \<Rightarrow> (string \<Rightarrow> string option) \<Rightarrow> string \<Rightarrow> string option" where
  "write_pic wr name pic f = (case wr of None \<Rightarrow> f | Some n \<Rightarrow> f(name \<mapsto> take n pic))"

text \<open>
  \<open>tabitcom_http_resend_put\<close>: \<open>rc\<close> is what \<open>sqlite3_finalize\<close> returns after the insertion, which has
  inserted the row exactly when that is 0; \<open>wr\<close> is \<open>None\<close> when the picture file cannot be opened for
  writing, and otherwise the number of bytes that the device takes before it is full.
\<close>

definition http_resend_put ::
  "('d, http_item) sql \<Rightarrow> int \<Rightarrow> nat option \<Rightarrow> http_item \<Rightarrow> string \<Rightarrow> 'd http_resend \<Rightarrow> int \<times> 'd http_resend" where
  "http_resend_put S rc wr item pic q =
     (if \<not> on q then (- 1, q)
      else let (names, d1) = del_redundant S h_name (nr_record q) 10 (h_db q);
               f1 = remove_files (case names of Some ns \<Rightarrow> ns | None \<Rightarrow> []) (files q)
           in if \<not> prep S d1 then (- 1, q\<lparr>h_db := d1, files := f1\<rparr>)
              else if rc \<noteq> 0 then (rc, q\<lparr>h_db := d1, files := f1\<rparr>)
              else (0, q\<lparr>h_db := ins S item d1, files := write_pic wr (h_name item) (take (nat (h_size item)) pic) f1\<rparr>))"

text \<open>
  The text of a resent record is cut out of the message that could not be sent; \<open>CRLF\<close> ends a line.
\<close>

definition CRLF :: string where
  "CRLF = [CHR 0x0D, CHR 0x0A]"

text \<open>
  The loop that copies the boundary up to the end of its line into \<open>n\<close> bytes; \<open>None\<close> when it
  reads behind the end of the message.
\<close>

fun copy_line :: "nat \<Rightarrow> string \<Rightarrow> string option" where
  "copy_line 0 s = Some []"
| "copy_line (Suc n) [] = (if n = 0 then Some [NUL] else None)"
| "copy_line (Suc n) (c # s) = (if c = CHR 0x0A then Some [] else map_option ((#) c) (copy_line n s))"

text \<open>
  \<open>http_record_get_boundary\<close>: the outer option is the memory fault, the inner one the result -1.
\<close>

definition http_record_get_boundary :: "string \<Rightarrow> nat \<Rightarrow> string option option" where
  "http_record_get_boundary record sz_buf =
     (case strstr record ''Content-Type: '' of
        None \<Rightarrow> Some None
      | Some content_type \<Rightarrow>
          (case strstr content_type ''boundary='' of
             None \<Rightarrow> Some None
           | Some b \<Rightarrow> map_option Some (copy_line sz_buf (drop (length ''boundary='') b))))"

definition json_ident :: string where
  "json_ident = ''Content-Type: application/json;charset=UTF-8'' @ CRLF"

definition http_record_get_json :: "string \<Rightarrow> string \<Rightarrow> nat \<Rightarrow> string option" where
  "http_record_get_json data boundary sz_buf =
     (case strstr data json_ident of
        None \<Rightarrow> None
      | Some d \<Rightarrow>
          let src = drop (length json_ident) d
          in case strstr src boundary of
               None \<Rightarrow> None
             | Some src_end \<Rightarrow>
                 let n = length src - length src_end
                 in if n > sz_buf - 1 then None else Some (take n src))"

text \<open>
  \<open>tabitcom_http_get_resend_info\<close>: the name made of the clock and a counter is an argument,
  \<open>szj\<close> the size of a picture buffer. A boundary that fills its buffer has no terminator.
\<close>

definition http_get_resend_info ::
  "nat \<Rightarrow> string \<Rightarrow> string \<Rightarrow> string \<Rightarrow> (http_item \<times> string) option option" where
  "http_get_resend_info szj name http pic =
     (case http_record_get_boundary http 256 of
        None \<Rightarrow> None
      | Some None \<Rightarrow> Some None
      | Some (Some b) \<Rightarrow>
          if length b = 256 \<and> NUL \<notin> set b then None
          else (case http_record_get_json http (str_of b) 2048 of
                  None \<Rightarrow> Some None
                | Some j \<Rightarrow>
                    let size = min (length pic) szj
                    in Some (Some (\<lparr>h_json = j, h_name = name, h_size = int size\<rparr>, take size pic))))"

record http_info =
  dev_id :: string
  serv_ip :: string
  http_port :: nat
  usr_agent :: string

definition http_boundary :: "u32 \<Rightarrow> string" where
  "http_boundary rawtime = ''----------COMPANYMSG'' @ hex 12 (unat rawtime)"

definition json_body :: "string \<Rightarrow> string \<Rightarrow> string" where
  "json_body boundary json =
     snprintf_s 1024 (''--'' @ boundary @ CRLF @ json_ident @ json @ CRLF @ ''--'' @ boundary)"

text \<open>
  The picture part: the bytes written into a buffer of one megabyte, and the length that the
  code computes, which counts the whole closing boundary even where \<open>snprintf\<close> cut it off.
\<close>

definition image_body :: "nat \<Rightarrow> string \<Rightarrow> string \<Rightarrow> string \<times> nat" where
  "image_body sz boundary pic =
     (let head = ''Content-Type: image/jpeg'' @ CRLF;
          len = min (length pic) (sz - length head);
          left = sz - length head - len;
          tail = ''--'' @ boundary @ ''--''
      in (head @ take len pic @ (if left = 0 then [] else snprintf_s left tail @ [NUL]),
          length head + len + length tail))"

definition http_hdr :: "http_info \<Rightarrow> string \<Rightarrow> nat \<Rightarrow> string" where
  "http_hdr info boundary n =
     snprintf_s 1024 (''POST /COMPANY/Devices/'' @ dev_id info @ ''/Datas HTTP/1.1'' @ CRLF
       @ ''Content-Type: multipart/form-data;boundary='' @ boundary @ CRLF
       @ ''Content-Length: '' @ dec n @ CRLF
       @ ''Host: '' @ serv_ip info @ '':'' @ dec (http_port info) @ CRLF
       @ ''Connection: Keep-alive'' @ CRLF
       @ ''User-Agent: '' @ usr_agent info @ CRLF @ CRLF)"

text \<open>
  \<open>http_recombine\<close> into \<open>sz_dest\<close> bytes: \<open>None\<close> when more bytes of the picture buffer are copied than
  it has or the lengths wrap.
\<close>

definition http_recombine :: "nat \<Rightarrow> u32 \<Rightarrow> http_info \<Rightarrow> string \<Rightarrow> string \<Rightarrow> string option" where
  "http_recombine sz_dest rawtime info json pic =
     (let boundary = http_boundary rawtime;
          jb = json_body boundary json;
          (ib, n) = image_body (1024 * 1024) boundary pic;
          s = http_hdr info boundary (length jb + n) @ jb;
          len = min (sz_dest - length s) n
      in if length s > sz_dest \<or> len > length ib then None
         else if length s = sz_dest then Some (butlast s @ [NUL])
         else Some (s @ take len ib))"

text \<open>
  One round of the thread: \<open>comb\<close> is \<open>http_recombine\<close> at the time of the round with the settings of
  the platform, \<open>send\<close> the result of the transmission, \<open>szj\<close> the size of the picture buffers. A fault
  of \<open>http_recombine\<close> is the outcome \<open>None\<close>.
\<close>

definition http_resend_round ::
  "nat \<Rightarrow> ('d, http_item) sql \<Rightarrow> u32 \<Rightarrow> http_info \<Rightarrow> (string \<Rightarrow> int) \<Rightarrow> 'd http_resend
     \<Rightarrow> (string option \<times> 'd http_resend) option" where
  "http_resend_round szj S rawtime info send q =
     (if \<not> on q then Some (None, q)
      else case mq_resend_select S (h_db q) of
        (i, None) \<Rightarrow> Some (None, q)
      | (i, Some item) \<Rightarrow>
          if i \<le> 0 then Some (None, q)
          else case files q (h_name item) of
            None \<Rightarrow> Some (None, q\<lparr>h_db := del S i (h_db q)\<rparr>)
          | Some f \<Rightarrow>
              let pic = take szj f
              in if pic = [] then Some (None, q\<lparr>h_db := del S i (h_db q)\<rparr>)
                 else (case http_recombine szj rawtime info (h_json item) pic of
                     None \<Rightarrow> None
                   | Some msg \<Rightarrow>
                       if msg = []
                       then Some (None, q\<lparr>h_db := del S i (h_db q), files := (files q)(h_name item := None)\<rparr>)
                       else Some (Some msg,
                         if send msg = 0
                         then q\<lparr>h_db := del S i (h_db q), files := (files q)(h_name item := None), h_backoff := 0\<rparr>
                         else q\<lparr>h_backoff := next_backoff (h_backoff q)\<rparr>)))"

definition http_set_switch :: "bool \<Rightarrow> 'd http_resend \<Rightarrow> int \<times> 'd http_resend" where
  "http_set_switch b q = (0, q\<lparr>on := b\<rparr>)"

definition http_set_record_num :: "int \<Rightarrow> 'd http_resend \<Rightarrow> int \<times> 'd http_resend" where
  "http_set_record_num nr q = (0, q\<lparr>nr_record := nr\<rparr>)"

section \<open>Pictures over FTP\<close>

record ftp_item =
  f_name :: string
  f_path :: string
  f_size :: int

text \<open>\<open>buf\<close> is the picture buffer of the thread, which outlives the rounds; it starts undefined.\<close>

record 'd ftp_resend =
  f_db :: 'd
  f_resv :: int
  f_backoff :: nat
  f_files :: "string \<Rightarrow> string option"
  buf :: string

definition ftp_resend_ram_init :: "'d \<Rightarrow> (string \<Rightarrow> string option) \<Rightarrow> string \<Rightarrow> int \<Rightarrow> 'd ftp_resend" where
  "ftp_resend_ram_init d f garbage n = \<lparr>f_db = d, f_resv = n, f_backoff = 0, f_files = f, buf = garbage\<rparr>"

text \<open>
  The conversion of the path: the current component \<open>c\<close> gets the next character, and is closed
  when the character after it is a slash, which then opens the next component.
\<close>

fun split_path :: "string \<Rightarrow> string \<Rightarrow> string list" where
  "split_path c [] = [c]"
| "split_path c [x] = [c @ [x]]"
| "split_path c (x # y # r) =
     (if y = CHR ''/'' then (c @ [x]) # split_path [] (y # r) else split_path (c @ [x]) (y # r))"

definition ftp_resend_put ::
  "('d, ftp_item) sql \<Rightarrow> int \<Rightarrow> nat option \<Rightarrow> ftp_item \<Rightarrow> string \<Rightarrow> 'd ftp_resend \<Rightarrow> int \<times> 'd ftp_resend" where
  "ftp_resend_put S rc wr item pic q =
     (let (names, d1) = del_redundant S f_name (f_resv q) 10 (f_db q);
          f1 = remove_files (case names of Some ns \<Rightarrow> ns | None \<Rightarrow> []) (f_files q)
      in if \<not> prep S d1 then (- 1, q\<lparr>f_db := d1, f_files := f1\<rparr>)
         else if rc \<noteq> 0 then (rc, q\<lparr>f_db := d1, f_files := f1\<rparr>)
         else (0, q\<lparr>f_db := ins S item d1, f_files := write_pic wr (f_name item) (take (nat (f_size item)) pic) f1\<rparr>))"

text \<open>
  One round of the thread. When the picture cannot be opened the record is deleted, but the
  buffer and its size stay those of the picture read before.
\<close>

definition ftp_resend_round ::
  "nat \<Rightarrow> ('d, ftp_item) sql \<Rightarrow> (string \<Rightarrow> string list \<Rightarrow> string \<Rightarrow> int) \<Rightarrow> 'd ftp_resend
     \<Rightarrow> (string \<times> string list \<times> string) option \<times> 'd ftp_resend" where
  "ftp_resend_round szj S send q =
     (case mq_resend_select S (f_db q) of
        (i, None) \<Rightarrow> (None, q)
      | (i, Some item) \<Rightarrow>
          if i \<le> 0 then (None, q)
          else let q1 = (case f_files q (f_name item) of
                           Some pic \<Rightarrow> q\<lparr>buf := take szj pic\<rparr>
                         | None \<Rightarrow> q\<lparr>f_db := del S i (f_db q)\<rparr>)
               in if buf q1 \<noteq> []
                  then let path = split_path [] (f_path item)
                       in (Some (f_name item, path, buf q1),
                           if send (f_name item) path (buf q1) = 0
                           then q1\<lparr>f_db := del S i (f_db q1), f_files := (f_files q1)(f_name item := None), f_backoff := 0\<rparr>
                           else q1\<lparr>f_backoff := next_backoff (f_backoff q1)\<rparr>)
                  else (None, q1\<lparr>f_db := del S i (f_db q1)\<rparr>))"

section \<open>What the code relies on of SQLite\<close>

text \<open>
  \<open>rows d\<close> are the rows of the table with their keys, in the order of the keys, which are positive
  and increasing.
\<close>

locale sql_table =
  fixes S :: "('d, 'r) sql" and rows :: "'d \<Rightarrow> (int \<times> 'r) list"
  assumes keys: "sorted_wrt (<) (map fst (rows d))" "i \<in> set (map fst (rows d)) \<Longrightarrow> 0 < i"
    and prep: "prep S d"
    and rows_ins: "\<exists>i. rows (ins S r d) = rows d @ [(i, r)]"
    and rows_del: "rows (del S i d) = filter (\<lambda>(j, r). j \<noteq> i) (rows d)"
    and cnt: "cnt S d = int (length (rows d))"
    and newest: "newest S d = (if rows d = [] then None else Some (last (rows d)))"
    and oldest: "oldest S k d = take k (rows d)"
begin

lemma distinct_keys: "distinct (map fst (rows d))"
  using keys(1) [of d] by (simp add: strict_sorted_iff)

lemma rows_del_many: "rows (fold (\<lambda>(i, r). del S i) rs d) = filter (\<lambda>(j, r). j \<notin> set (map fst rs)) (rows d)"
proof (induction rs arbitrary: d)
  case (Cons x rs)
  then show ?case by (cases x) (auto simp: rows_del intro!: filter_cong)
qed simp

lemma keys_split:
  assumes "rows d = xs @ ys"
  shows "set (map fst xs) \<inter> set (map fst ys) = {}"
  using distinct_keys [of d] unfolding assms map_append distinct_append by blast

lemma rows_drop: "rows (fold (\<lambda>(i, r). del S i) (take k (rows d)) d) = drop k (rows d)"
proof -
  let ?P = "\<lambda>(j, r). j \<notin> set (map fst (take k (rows d)))"
  have disj: "set (map fst (take k (rows d))) \<inter> set (map fst (drop k (rows d))) = {}"
    by (rule keys_split) simp
  have one: "filter ?P (take k (rows d)) = []"
    by (force simp: filter_empty_conv)
  have two: "filter ?P (drop k (rows d)) = drop k (rows d)"
    using disj by (force simp: filter_id_conv)
  have "filter ?P (rows d) = filter ?P (take k (rows d)) @ filter ?P (drop k (rows d))"
    by (metis append_take_drop_id filter_append)
  then show ?thesis
    unfolding rows_del_many one two by simp
qed

lemma select: "mq_resend_select S d = (if rows d = [] then (- 1, None) else (fst (last (rows d)), Some (snd (last (rows d)))))"
  by (simp add: mq_resend_select_def prep newest split: prod.split)

lemma last_key: "rows d \<noteq> [] \<Longrightarrow> 0 < fst (last (rows d))"
  using keys(2) [of "fst (last (rows d))" d] by simp

lemma rows_del_last: "rows d \<noteq> [] \<Longrightarrow> rows (del S (fst (last (rows d))) d) = butlast (rows d)"
proof -
  assume ne: "rows d \<noteq> []"
  then obtain xs x where x: "rows d = xs @ [x]" by (metis rev_exhaust)
  have "fst x \<notin> set (map fst xs)" using keys_split [OF x] by simp
  then have "filter (\<lambda>(j, r). j \<noteq> fst x) xs = xs" by (intro filter_True) (force simp: image_iff)
  then show ?thesis by (simp add: rows_del x split_beta)
qed

lemma mq_put_rows:
  "\<exists>i. rows (mq_db (snd (mq_resend_put S item q)))
     = drop (nat (int (length (rows (mq_db q))) - resv q + 1)) (rows (mq_db q)) @ [(i, item)]"
proof -
  have "rows (snd (mq_resend_del_redundant S n d)) = drop (nat (int (length (rows d)) - n + 1)) (rows d)" for n d
    by (simp add: mq_resend_del_redundant_def prep cnt oldest rows_drop Let_def)
  then show ?thesis
    using rows_ins [of item "snd (mq_resend_del_redundant S (resv q) (mq_db q))"]
    by (simp add: mq_resend_put_def mq_resend_insert_def prep Let_def)
qed

lemma mq_round_eq:
  "mq_resend_round S send q =
     (if rows (mq_db q) = [] then (None, q)
      else (Some (snd (last (rows (mq_db q)))),
            if send (snd (last (rows (mq_db q)))) = 0
            then q\<lparr>mq_db := del S (fst (last (rows (mq_db q)))) (mq_db q), mq_backoff := 0\<rparr>
            else q\<lparr>mq_backoff := next_backoff (mq_backoff q)\<rparr>))"
  by (simp add: mq_resend_round_def select last_key)

lemma del_redundant_rows:
  "del_redundant S nm n m d =
     (if int (length (rows d)) - n + 1 \<le> 0 then (None, d)
      else (Some (map (nm \<circ> snd) (take (min m (nat (int (length (rows d)) - n + 1))) (rows d))),
            fold (\<lambda>(i, r). del S i) (take (min m (nat (int (length (rows d)) - n + 1))) (rows d)) d))"
  by (simp add: del_redundant_def Let_def prep cnt oldest min.commute)

lemma del_redundant_drop:
  "rows (snd (del_redundant S nm n m d)) = drop (min m (nat (int (length (rows d)) - n + 1))) (rows d)"
  by (simp add: del_redundant_rows rows_drop)

lemma del_redundant_names:
  "(case fst (del_redundant S nm n m d) of Some ns \<Rightarrow> ns | None \<Rightarrow> [])
     = map (nm \<circ> snd) (take (min m (nat (int (length (rows d)) - n + 1))) (rows d))"
  by (simp add: del_redundant_rows)

end

section \<open>An instance of the table\<close>

text \<open>
  A table held in memory: a list of rows, of which those out of order are ignored, with the next
  key one above the greatest.
\<close>

definition mem_sql :: "((int \<times> 'r) list, 'r) sql" where
  "mem_sql = \<lparr>prep = (\<lambda>_. True),
     ins = (\<lambda>r d. norm 0 d @ [(if norm 0 d = [] then 1 else fst (last (norm 0 d)) + 1, r)]),
     del = (\<lambda>i d. filter (\<lambda>(j, r). j \<noteq> i) (norm 0 d)),
     cnt = (\<lambda>d. int (length (norm 0 d))),
     newest = (\<lambda>d. if norm 0 d = [] then None else Some (last (norm 0 d))),
     oldest = (\<lambda>k d. take k (norm 0 d))\<rparr>"

lemma norm_ins: "norm 0 (ins mem_sql r d) = ins mem_sql r d"
proof -
  let ?i = "if norm 0 d = [] then 1 else fst (last (norm 0 d)) + 1"
  have "sorted_wrt (<) (0 # map fst (norm 0 d @ [(?i, r)]))"
    using norm_last [of 0 d] by (intro sorted_append_key sorted_norm) auto
  then show ?thesis
    unfolding mem_sql_def sql.simps by (rule norm_id)
qed

lemma norm_del: "norm 0 (del mem_sql i d) = del mem_sql i d"
proof -
  have "sorted_wrt (<) (map fst (filter P (norm 0 d)))" for P :: "int \<times> 'a \<Rightarrow> bool"
    using sorted_norm [of 0 d] by (simp add: sorted_wrt_map sorted_wrt_filter)
  moreover have "\<forall>x \<in> set (norm 0 d). 0 < fst x"
    using sorted_norm [of 0 d] by simp
  ultimately have "sorted_wrt (<) (0 # map fst (filter P (norm 0 d)))" for P :: "int \<times> 'a \<Rightarrow> bool"
    by simp
  then show ?thesis
    unfolding mem_sql_def sql.simps by (rule norm_id)
qed

interpretation mem: sql_table mem_sql "norm 0"
proof unfold_locales
  fix d :: "(int \<times> 'a) list" and i :: int and r :: 'a
  show "sorted_wrt (<) (map fst (norm 0 d))"
    using sorted_norm [of 0 d] by simp
  show "i \<in> set (map fst (norm 0 d)) \<Longrightarrow> 0 < i"
    using sorted_norm [of 0 d] by auto
  show "\<exists>i. norm 0 (ins mem_sql r d) = norm 0 d @ [(i, r)]"
    by (simp add: norm_ins) (simp add: mem_sql_def)
  show "norm 0 (del mem_sql i d) = filter (\<lambda>(j, r). j \<noteq> i) (norm 0 d)"
    by (simp add: norm_del) (simp add: mem_sql_def)
qed (simp_all add: mem_sql_def)

section \<open>Messages: the newest are kept and sent first\<close>

text \<open>
  Putting a message into the queue keeps the newest \<open>resv - 1\<close> messages in their order,
  drops the older ones and appends the new one, whatever the queue held before.
\<close>

theorem mq_put_keeps_newest:
  assumes "sql_table S rows" "0 < resv q"
  shows "fst (mq_resend_put S item q) = 0 \<and>
    (\<exists>i. rows (mq_db (snd (mq_resend_put S item q)))
      = drop (length (rows (mq_db q)) - nat (resv q - 1)) (rows (mq_db q)) @ [(i, item)]) \<and>
    int (length (rows (mq_db (snd (mq_resend_put S item q))))) \<le> resv q"
proof -
  have k: "nat (int (length (rows (mq_db q))) - resv q + 1) = length (rows (mq_db q)) - nat (resv q - 1)"
    using assms(2) by simp
  obtain i where i: "rows (mq_db (snd (mq_resend_put S item q)))
      = drop (length (rows (mq_db q)) - nat (resv q - 1)) (rows (mq_db q)) @ [(i, item)]"
    using sql_table.mq_put_rows [OF assms(1), of item q] unfolding k by blast
  moreover have "fst (mq_resend_put S item q) = 0"
    using sql_table.prep [OF assms(1)] by (simp add: mq_resend_put_def mq_resend_insert_def Let_def)
  ultimately show ?thesis
    using assms(2) by auto
qed

theorem mq_put_keeps_newest_witness:
  "norm 0 (mq_db (snd (mq_resend_put mem_sql ''d'' \<lparr>mq_db = [(1, ''a''), (2, ''b''), (5, ''c'')], resv = 3, mq_backoff = 1\<rparr>)))
     = [(2, ''b''), (5, ''c''), (6, ''d'')] \<and>
   fst (mq_resend_put mem_sql ''d'' \<lparr>mq_db = [(1, ''a''), (2, ''b''), (5, ''c'')], resv = 3, mq_backoff = 1\<rparr>) = 0"
  using mq_put_keeps_newest
    [OF mem.sql_table_axioms, of "\<lparr>mq_db = [(1, ''a''), (2, ''b''), (5, ''c'')], resv = 3, mq_backoff = 1\<rparr>" "''d''"]
  by (simp, simp add: mem_sql_def mq_resend_put_def mq_resend_del_redundant_def mq_resend_insert_def)

text \<open>
  A round of the message thread sends the newest message, and sends none exactly when the
  queue is empty. A success removes that message alone and the next pause is the shortest one; a
  failure keeps the queue and takes the next longer pause, the shortest again after the longest.
\<close>

theorem mq_round_sends_newest:
  assumes "sql_table S rows" "mq_backoff q < 6"
  shows "(case mq_resend_round S send q of (sent, q') \<Rightarrow>
    mq_backoff q' < 6 \<and> resv q' = resv q \<and>
    (if rows (mq_db q) = [] then sent = None \<and> q' = q
     else sent = Some (snd (last (rows (mq_db q)))) \<and>
       (if send (snd (last (rows (mq_db q)))) = 0
        then rows (mq_db q') = butlast (rows (mq_db q)) \<and> backoff_time ! mq_backoff q' = 8
        else rows (mq_db q') = rows (mq_db q) \<and>
          backoff_time ! mq_backoff q' =
            (if backoff_time ! mq_backoff q = 256 then 8 else 2 * backoff_time ! mq_backoff q))))"
proof -
  have c: "mq_backoff q \<in> {0, 1, 2, 3, 4, 5}"
    using assms(2) by auto
  have n: "next_backoff p < 6 \<and> backoff_time ! next_backoff p =
      (if backoff_time ! p = 256 then 8 else 2 * backoff_time ! p)" if "p \<in> {0, 1, 2, 3, 4, 5}" for p
    using that by (auto simp: next_backoff_def backoff_time_def)
  have z: "backoff_time ! 0 = 8"
    by (simp add: backoff_time_def)
  show ?thesis
    using n [OF c] assms(2)
    by (simp add: sql_table.mq_round_eq [OF assms(1)] sql_table.rows_del_last [OF assms(1)] z)
qed

theorem mq_round_sends_newest_witness:
  "mq_resend_round mem_sql (\<lambda>t. if t = ''b'' then - 1 else 0) \<lparr>mq_db = [(1, ''a''), (4, ''b'')], resv = 3, mq_backoff = 5\<rparr>
     = (Some ''b'', \<lparr>mq_db = [(1, ''a''), (4, ''b'')], resv = 3, mq_backoff = 0\<rparr>)"
  using mq_round_sends_newest
    [OF mem.sql_table_axioms, of "\<lparr>mq_db = [(1, ''a''), (4, ''b'')], resv = 3, mq_backoff = 5\<rparr>" "\<lambda>t. if t = ''b'' then - 1 else 0"]
  by (simp, simp add: mem.mq_round_eq next_backoff_def backoff_time_def)

section \<open>Records over HTTP: rows and pictures stay in step\<close>

abbreviation names_of :: "('d \<Rightarrow> (int \<times> http_item) list) \<Rightarrow> 'd http_resend \<Rightarrow> string list" where
  "names_of rows q \<equiv> map (h_name \<circ> snd) (rows (h_db q))"

text \<open>
  Rows and files, given the names \<open>failed\<close> of the records whose picture file could not be opened
  and the names \<open>blank\<close> of the records of which no byte was written: names are used once, a file is
  the picture of a row or an empty file of a record in \<open>blank\<close>, and a row has its file unless it is
  in \<open>failed\<close>.
\<close>

definition http_ok ::
  "('d \<Rightarrow> (int \<times> http_item) list) \<Rightarrow> string set \<Rightarrow> string set \<Rightarrow> 'd http_resend \<Rightarrow> bool" where
  "http_ok rows failed blank q \<longleftrightarrow> distinct (names_of rows q)
     \<and> (\<forall>n p. files q n = Some p \<longrightarrow> p \<noteq> [] \<and> n \<in> set (names_of rows q) \<or> p = [] \<and> n \<in> blank)
     \<and> set (names_of rows q) \<subseteq> dom (files q) \<union> failed \<and> h_backoff q < 6"

text \<open>The number of rows that a put removes.\<close>

definition surplus :: "('d \<Rightarrow> (int \<times> http_item) list) \<Rightarrow> 'd http_resend \<Rightarrow> nat" where
  "surplus rows q = min 10 (nat (int (length (rows (h_db q))) - nr_record q + 1))"

lemma remove_files_apply: "remove_files ns f n = (if n \<in> set ns then None else f n)"
  unfolding remove_files_def by (induction ns arbitrary: f) auto

lemma dom_remove_files: "dom (remove_files ns f) = dom f - set ns"
  by (auto simp: remove_files_apply split: if_splits)

lemma ran_remove_files: "ran (remove_files ns f) \<subseteq> ran f"
  by (auto simp: ran_def remove_files_apply split: if_splits)

text \<open>
  From an empty store: puts under fresh names (the clock and a counter), whatever the insertion
  returns and however much of the picture, possibly an empty one, is written; the rounds with any
  results of the transmissions; and the two settings. The size in a record is that of its picture, as
  \<open>http_get_resend_info\<close> makes it; a round that faults ends the run. The sets of names say which records
  were put without a picture file, and which with an empty one.
\<close>

definition put_failed :: "int \<Rightarrow> nat option \<Rightarrow> http_item \<Rightarrow> 'd http_resend \<Rightarrow> string set" where
  "put_failed rc wr item q = (if on q \<and> rc = 0 \<and> wr = None then {h_name item} else {})"

definition put_empty :: "int \<Rightarrow> nat option \<Rightarrow> http_item \<Rightarrow> string \<Rightarrow> 'd http_resend \<Rightarrow> string set" where
  "put_empty rc wr item pic q = (if on q \<and> rc = 0 \<and> (pic = [] \<and> wr \<noteq> None \<or> wr = Some 0) then {h_name item} else {})"

inductive http_reach ::
  "nat \<Rightarrow> ('d, http_item) sql \<Rightarrow> ('d \<Rightarrow> (int \<times> http_item) list) \<Rightarrow> string set \<Rightarrow> string set \<Rightarrow> 'd http_resend \<Rightarrow> bool"
  for szj S rows where
  init: "rows d = [] \<Longrightarrow> http_reach szj S rows {} {} (http_resend_ram_init d (\<lambda>_. None) n)"
| put: "http_reach szj S rows F E q \<Longrightarrow> files q (h_name item) = None \<Longrightarrow> h_name item \<notin> set (names_of rows q) \<Longrightarrow>
    h_size item = int (length pic) \<Longrightarrow>
    http_reach szj S rows (put_failed rc wr item q \<union> F) (put_empty rc wr item pic q \<union> E) (snd (http_resend_put S rc wr item pic q))"
| round: "http_reach szj S rows F E q \<Longrightarrow> http_resend_round szj S t info send q = Some (m, q') \<Longrightarrow>
    http_reach szj S rows F E q'"
| switch: "http_reach szj S rows F E q \<Longrightarrow> http_reach szj S rows F E (snd (http_set_switch b q))"
| record_num: "http_reach szj S rows F E q \<Longrightarrow> http_reach szj S rows F E (snd (http_set_record_num nr q))"

lemma next_backoff_less: "p < 6 \<Longrightarrow> next_backoff p < 6"
  by (auto simp: next_backoff_def backoff_time_def)

context sql_table
begin

lemma del_redundant_obtain:
  obtains ns d1 where "del_redundant S nm n m d = (ns, d1)"
    "rows d1 = drop (min m (nat (int (length (rows d)) - n + 1))) (rows d)"
    "(case ns of Some ns \<Rightarrow> ns | None \<Rightarrow> []) = map (nm \<circ> snd) (take (min m (nat (int (length (rows d)) - n + 1))) (rows d))"
  using del_redundant_drop [of nm n m d] del_redundant_names [of nm n m d]
  by (cases "del_redundant S nm n m d") simp

lemma names_split:
  assumes "distinct (map nm (xs :: 'c list))"
  shows "set (map nm xs) - set (map nm (take k xs)) = set (map nm (drop k xs))"
proof -
  have "distinct (map nm (take k xs) @ map nm (drop k xs))"
    using assms by (metis append_take_drop_id map_append)
  moreover have "set (map nm xs) = set (map nm (take k xs)) \<union> set (map nm (drop k xs))"
    by (metis append_take_drop_id map_append set_append)
  ultimately show ?thesis by auto
qed

end

locale http_table = sql_table S rows
  for S :: "('d, http_item) sql" and rows :: "'d \<Rightarrow> (int \<times> http_item) list"
begin

lemma put_eq:
  assumes "on q"
  obtains d i where
    "http_resend_put S rc wr item pic q = (rc, q\<lparr>h_db := d,
       files := (if rc = 0 then write_pic wr (h_name item) (take (nat (h_size item)) pic) else id)
         (remove_files (take (surplus rows q) (names_of rows q)) (files q))\<rparr>)"
    "rows d = drop (surplus rows q) (rows (h_db q)) @ (if rc = 0 then [(i, item)] else [])"
proof -
  obtain ns d1 where d1: "del_redundant S h_name (nr_record q) 10 (h_db q) = (ns, d1)"
    "rows d1 = drop (surplus rows q) (rows (h_db q))"
    "(case ns of Some ns \<Rightarrow> ns | None \<Rightarrow> []) = take (surplus rows q) (names_of rows q)"
    unfolding surplus_def by (rule del_redundant_obtain [of h_name "nr_record q" 10 "h_db q"]) (simp add: take_map)
  obtain i where "rows (ins S item d1) = rows d1 @ [(i, item)]"
    using rows_ins by blast
  then show ?thesis
    using assms d1 prep by (intro that [of "if rc = 0 then ins S item d1 else d1" i]) (simp_all add: http_resend_put_def)
qed

lemma put_removes:
  assumes "http_ok rows F E q" "k = surplus rows q"
    "names_of rows q' = drop k (names_of rows q)" "files q' = remove_files (take k (names_of rows q)) (files q)"
    "h_backoff q' = h_backoff q"
  shows "http_ok rows F E q'"
proof -
  have "set (take k (names_of rows q)) \<inter> set (drop k (names_of rows q)) = {}"
    using assms(1) unfolding http_ok_def by (metis append_take_drop_id distinct_append)
  moreover have "set (names_of rows q) = set (take k (names_of rows q)) \<union> set (drop k (names_of rows q))"
    by (metis append_take_drop_id set_append)
  ultimately show ?thesis
    using assms(1) unfolding http_ok_def assms(3-5)
    by (auto simp: remove_files_apply split: if_splits)
qed

lemma put_ok:
  assumes ok: "http_ok rows F E q" and "files q (h_name item) = None" "h_name item \<notin> set (names_of rows q)"
    "h_size item = int (length pic)"
  shows "http_ok rows (put_failed rc wr item q \<union> F) (put_empty rc wr item pic q \<union> E) (snd (http_resend_put S rc wr item pic q))"
proof (cases "on q")
  case True
  let ?k = "surplus rows q"
  obtain d i where e: "http_resend_put S rc wr item pic q = (rc, q\<lparr>h_db := d,
       files := (if rc = 0 then write_pic wr (h_name item) pic else id) (remove_files (take ?k (names_of rows q)) (files q))\<rparr>)"
    "rows d = drop ?k (rows (h_db q)) @ (if rc = 0 then [(i, item)] else [])"
    using put_eq [OF True, of rc wr item pic] assms(4) by (metis nat_int take_all_iff order_refl)
  obtain d' where d': "rows d' = drop ?k (rows (h_db q))"
    using rows_drop by blast
  let ?q = "q\<lparr>h_db := d', files := remove_files (take ?k (names_of rows q)) (files q)\<rparr>"
  have r: "http_ok rows F E ?q"
    by (rule put_removes [OF ok refl]) (simp_all add: d' drop_map)
  have fresh: "h_name item \<notin> set (names_of rows ?q)" "files ?q (h_name item) = None"
    using assms(2,3) d' by (auto simp: remove_files_apply dest: in_set_dropD)
  show ?thesis
    using r fresh unfolding e(1) http_ok_def
    by (auto simp: e(2) d' write_pic_def put_failed_def put_empty_def True split: option.split)
qed (use ok in \<open>simp add: http_resend_put_def put_failed_def put_empty_def\<close>)

lemma round_eq:
  assumes "http_resend_round szj S t info send q = Some (m, q')" "0 < szj"
  shows "q' = q \<or> q' = q\<lparr>h_backoff := next_backoff (h_backoff q)\<rparr> \<or>
    (rows (h_db q) \<noteq> [] \<and> rows (h_db q') = butlast (rows (h_db q)) \<and> h_backoff q' \<in> {0, h_backoff q} \<and>
     (files q' = (files q)(h_name (snd (last (rows (h_db q)))) := None) \<or>
      files q' = files q \<and> files q (h_name (snd (last (rows (h_db q))))) \<in> {None, Some []}))"
  using assms last_key [of "h_db q"] rows_del_last [of "h_db q"]
  by (auto simp: http_resend_round_def select Let_def split: if_splits option.splits)

lemma round_ok:
  assumes "http_resend_round szj S t info send q = Some (m, q')" "http_ok rows F E q" "0 < szj"
  shows "http_ok rows F E q'"
proof (cases "q' = q \<or> q' = q\<lparr>h_backoff := next_backoff (h_backoff q)\<rparr>")
  case True
  then show ?thesis
    using assms(2) next_backoff_less [of "h_backoff q"] unfolding http_ok_def
    by (elim disjE) simp_all
next
  case False
  then obtain xs x where q': "rows (h_db q) = xs @ [x]" "rows (h_db q') = xs" "h_backoff q' \<in> {0, h_backoff q}"
    and f: "files q' = (files q)(h_name (snd x) := None) \<or> files q' = files q \<and> files q (h_name (snd x)) \<in> {None, Some []}"
    using round_eq [OF assms(1,3)] by (metis append_butlast_last_id last_snoc)
  have x: "h_name (snd x) \<notin> set (map (h_name \<circ> snd) xs)" "h_backoff q' < 6" "distinct (map (h_name \<circ> snd) xs)"
    using assms(2) q'(3) by (auto simp: http_ok_def q'(1))
  have n: "n = h_name (snd x) \<or> n \<in> set (map (h_name \<circ> snd) xs)" if "n \<in> set (names_of rows q)" for n
    using that by (auto simp: q'(1))
  have o: "\<And>n p. files q n = Some p \<Longrightarrow> p \<noteq> [] \<and> n \<in> set (names_of rows q) \<or> p = [] \<and> n \<in> E"
    "set (names_of rows q) \<subseteq> dom (files q) \<union> F"
    using assms(2) unfolding http_ok_def by blast+
  have "p \<noteq> [] \<and> k \<in> set (map (h_name \<circ> snd) xs) \<or> p = [] \<and> k \<in> E" if "files q' k = Some p" for k p
    using that f o(1) [of k p] n [of k] by (auto split: if_splits)
  moreover have "set (map (h_name \<circ> snd) xs) \<subseteq> dom (files q') \<union> F"
  proof
    fix k
    assume k: "k \<in> set (map (h_name \<circ> snd) xs)"
    then have "k \<noteq> h_name (snd x)"
      using x(1) by blast
    have "k \<in> set (names_of rows q)"
      using k by (simp add: q'(1))
    then have "k \<in> dom (files q) \<union> F"
      using o(2) by blast
    with \<open>k \<noteq> _\<close> show "k \<in> dom (files q') \<union> F"
      using f by auto
  qed
  ultimately show ?thesis
    using x unfolding http_ok_def q'(2) by blast
qed

lemma reach_ok: "http_reach szj S rows F E q \<Longrightarrow> 0 < szj \<Longrightarrow> http_ok rows F E q"
proof (induction rule: http_reach.induct)
  case (init d n)
  then show ?case by (simp add: http_ok_def http_resend_ram_init_def)
next
  case (put F E q item pic rc wr)
  then show ?case using put_ok [OF _ put.hyps(2-4)] by blast
next
  case (round F E q t info send m q')
  then show ?case using round_ok [OF round.hyps(2)] by blast
next
  case (switch F E q b)
  then show ?case by (simp add: http_ok_def http_set_switch_def)
next
  case (record_num F E q nr)
  then show ?case by (simp add: http_ok_def http_set_record_num_def)
qed

lemma put_length:
  assumes "on q"
  shows "length (rows (h_db (snd (http_resend_put S 0 wr item pic q)))) = Suc (length (rows (h_db q)) - surplus rows q)"
  by (rule put_eq [OF assms, of 0 wr item pic]) simp

end

interpretation mem_http: http_table mem_sql "norm 0"
  by unfold_locales

text \<open>
  C37. The store of the records to be sent again stays consistent: from an empty store, whatever
  records are put under fresh names, whether or not a row can be inserted, its picture file opened
  and its picture written, and however the transmissions end, names are used once, every file
  is the non-empty picture of a row or the empty file of a record of which nothing was written, every row
  has its file unless the file could not be opened when the row was put, and the pause stays within its
  table. The other statements of the data base are taken to succeed.
\<close>

theorem http_store_consistent:
  assumes "sql_table S rows" "0 < szj" "http_reach szj S rows failed blank q"
  shows "distinct (map (h_name \<circ> snd) (rows (h_db q))) \<and>
    (\<forall>n p. files q n = Some p \<longrightarrow> p \<noteq> [] \<and> n \<in> set (map (h_name \<circ> snd) (rows (h_db q))) \<or> p = [] \<and> n \<in> blank) \<and>
    set (map (h_name \<circ> snd) (rows (h_db q))) \<subseteq> dom (files q) \<union> failed \<and>
    h_backoff q < length backoff_time"
  using http_table.reach_ok [OF http_table.intro [OF assms(1)] assms(3, 2)]
  by (simp add: http_ok_def backoff_time_def)

text \<open>
  A store with two records, the picture of the first written, the file of the second not opened.
\<close>

definition two_records :: "(int \<times> http_item) list http_resend" where
  "two_records = snd (http_resend_put mem_sql 0 None \<lparr>h_json = ''k'', h_name = ''r'', h_size = 1\<rparr> ''y''
     (snd (http_resend_put mem_sql 0 (Some 5) \<lparr>h_json = ''j'', h_name = ''p'', h_size = 1\<rparr> ''x''
       (http_resend_ram_init [] (\<lambda>_. None) 4))))"

lemma two_records_eq: "two_records = \<lparr>h_db = [(1, \<lparr>h_json = ''j'', h_name = ''p'', h_size = 1\<rparr>), (2, \<lparr>h_json = ''k'', h_name = ''r'', h_size = 1\<rparr>)],
    nr_record = 4, h_backoff = 0, on = True, files = [''p'' \<mapsto> ''x'']\<rparr>"
  by (simp add: two_records_def http_resend_put_def del_redundant_def http_resend_ram_init_def mem_sql_def write_pic_def remove_files_def)

lemma two_records_reach: "http_reach 2048 mem_sql (norm 0) {''r''} {} two_records"
proof -
  let ?q0 = "http_resend_ram_init [] (\<lambda>_. None) 4 :: (int \<times> http_item) list http_resend"
  let ?i = "\<lparr>h_json = ''j'', h_name = ''p'', h_size = 1\<rparr>" and ?j = "\<lparr>h_json = ''k'', h_name = ''r'', h_size = 1\<rparr>"
  let ?q1 = "snd (http_resend_put mem_sql 0 (Some 5) ?i ''x'' ?q0)"
  have q1: "?q1 = \<lparr>h_db = [(1, ?i)], nr_record = 4, h_backoff = 0, on = True, files = [''p'' \<mapsto> ''x'']\<rparr>"
    by (simp add: http_resend_put_def del_redundant_def http_resend_ram_init_def mem_sql_def write_pic_def remove_files_def)
  have "http_reach 2048 mem_sql (norm 0) (put_failed 0 (Some 5) ?i ?q0 \<union> {}) (put_empty 0 (Some 5) ?i ''x'' ?q0 \<union> {}) ?q1"
    by (intro http_reach.put http_reach.init) (simp_all add: http_resend_ram_init_def)
  then have "http_reach 2048 mem_sql (norm 0) (put_failed 0 None ?j ?q1 \<union> {}) (put_empty 0 None ?j ''y'' ?q1 \<union> {})
      (snd (http_resend_put mem_sql 0 None ?j ''y'' ?q1))"
    by (intro http_reach.put) (simp_all add: q1 put_failed_def put_empty_def)
  then show ?thesis
    unfolding two_records_def by (simp add: q1 put_failed_def put_empty_def)
qed

theorem http_store_consistent_witness:
  "dom (files two_records) = {''p''} \<and> map (h_name \<circ> snd) (h_db two_records) = [''p'', ''r''] \<and> h_backoff two_records < 6"
  using http_store_consistent [OF mem.sql_table_axioms _ two_records_reach]
  by (simp add: backoff_time_def two_records_eq)

text \<open>
  An empty file stays behind: the round that meets a record with an empty picture deletes its row,
  but not its file, which nothing removes any more.
\<close>

lemma empty_picture_file_stays:
  assumes "sql_table S rows" "on q" "rows (h_db q) = xs @ [(i, item)]" "files q (h_name item) = Some []"
  shows "\<exists>d. http_resend_round szj S t info send q = Some (None, q\<lparr>h_db := d\<rparr>) \<and> rows d = xs"
  using assms(2-4) sql_table.last_key [OF assms(1), of "h_db q"] sql_table.rows_del_last [OF assms(1), of "h_db q"]
  by (intro exI [of _ "del S i (h_db q)"]) (simp add: http_resend_round_def sql_table.select [OF assms(1)])

text \<open>
  A put into the store of records removes the oldest surplus rows, but not more than ten:
  when the limit was lowered, each put shortens the store by nine until the limit holds.
\<close>

lemma http_put_shrinks_by_nine:
  assumes "sql_table S rows" "on q" "0 < nr_record q"
  shows "int (length (rows (h_db (snd (http_resend_put S 0 wr item pic q)))))
    = (if nr_record q + 9 \<le> int (length (rows (h_db q))) then int (length (rows (h_db q))) - 9
       else min (nr_record q) (int (length (rows (h_db q))) + 1))"
  using http_table.put_length [OF http_table.intro [OF assms(1)] assms(2), of wr item pic] assms(3)
  unfolding surplus_def by auto

section \<open>The recombined message\<close>

lemma length_boundary [simp]: "length (http_boundary t) = 32"
  by (simp add: http_boundary_def)

lemma length_ident [simp]: "length json_ident = 46"
  by (simp add: json_ident_def CRLF_def)

lemma length_CRLF [simp]: "length CRLF = 2"
  by (simp add: CRLF_def)

text \<open>The two parts of the body that the code means to send.\<close>

definition full_json :: "string \<Rightarrow> string \<Rightarrow> string" where
  "full_json b json = ''--'' @ b @ CRLF @ json_ident @ json @ CRLF @ ''--'' @ b"

definition full_image :: "string \<Rightarrow> string \<Rightarrow> string" where
  "full_image b pic = ''Content-Type: image/jpeg'' @ CRLF @ pic @ ''--'' @ b @ ''--''"

lemma json_body_full: "length b = 32 \<Longrightarrow> length json \<le> 905 \<Longrightarrow> json_body b json = full_json b json"
  by (simp add: json_body_def snprintf_s_def full_json_def)

lemma length_full_json: "length b = 32 \<Longrightarrow> length (full_json b json) = 118 + length json"
  by (simp add: full_json_def)

lemma length_full_image: "length b = 32 \<Longrightarrow> length (full_image b pic) = 62 + length pic"
  by (simp add: full_image_def)

lemma image_body_full:
  assumes "length b = 32" "length pic + 62 < sz"
  shows "image_body sz b pic = (full_image b pic @ [NUL], 62 + length pic)"
  using assms by (simp add: image_body_def Let_def snprintf_s_def full_image_def)

definition full_hdr :: "http_info \<Rightarrow> string \<Rightarrow> nat \<Rightarrow> string" where
  "full_hdr info b n =
     ''POST /COMPANY/Devices/'' @ dev_id info @ ''/Datas HTTP/1.1'' @ CRLF
       @ ''Content-Type: multipart/form-data;boundary='' @ b @ CRLF
       @ ''Content-Length: '' @ dec n @ CRLF
       @ ''Host: '' @ serv_ip info @ '':'' @ dec (http_port info) @ CRLF
       @ ''Connection: Keep-alive'' @ CRLF
       @ ''User-Agent: '' @ usr_agent info @ CRLF @ CRLF"

lemma length_full_hdr:
  assumes "length b = 32" "length (dev_id info) < 32" "length (serv_ip info) < 32"
    "length (usr_agent info) < 32" "http_port info < 65536" "n < 10 ^ 7"
  shows "length (full_hdr info b n) < 400"
  using assms length_dec [of n 7] length_dec [of "http_port info" 5] by (simp add: full_hdr_def)

lemma http_hdr_full: "length (full_hdr info b n) < 1024 \<Longrightarrow> http_hdr info b n = full_hdr info b n"
  unfolding http_hdr_def full_hdr_def [symmetric] snprintf_s_def by simp

text \<open>
  For a text of at most 905 bytes and a picture that leaves room in the two buffers, the
  recombined message is the header, the text and the whole picture between their boundaries, and
  the length that the header declares is the length of what follows it.
\<close>

theorem http_recombine_message:
  assumes "length (dev_id info) < 32" "length (serv_ip info) < 32" "length (usr_agent info) < 32"
    "http_port info < 65536" "length json \<le> 905" "length pic + 62 < 1024 * 1024" "length pic + 1500 \<le> sz_dest"
  shows "\<exists>body. http_recombine sz_dest t info json pic = Some (full_hdr info (http_boundary t) (length body) @ body) \<and>
    body = full_json (http_boundary t) json @ full_image (http_boundary t) pic"
proof -
  let ?b = "http_boundary t" and ?n = "length json + (length pic + 180)"
  have h: "length (full_hdr info ?b ?n) < 400"
    using assms by (intro length_full_hdr) simp_all
  have n: "118 + length json + (62 + length pic) = ?n"
    by simp
  have "http_recombine sz_dest t info json pic = Some (full_hdr info ?b ?n @ full_json ?b json @ full_image ?b pic)"
    using assms h
    by (simp add: http_recombine_def Let_def json_body_full image_body_full length_full_json
        length_full_image http_hdr_full n)
  then show ?thesis
    by (intro exI [of _ "full_json ?b json @ full_image ?b pic"]) (simp add: length_full_json length_full_image add_ac)
qed

theorem http_recombine_message_witness:
  "\<exists>body. http_recombine 2048 0 \<lparr>dev_id = ''7'', serv_ip = ''10.0.0.1'', http_port = 80, usr_agent = ''ice_wind''\<rparr> ''{}'' ''jpeg''
     = Some (full_hdr \<lparr>dev_id = ''7'', serv_ip = ''10.0.0.1'', http_port = 80, usr_agent = ''ice_wind''\<rparr> (http_boundary 0) 186 @ body)
     \<and> length body = 186"
  using http_recombine_message
    [of "\<lparr>dev_id = ''7'', serv_ip = ''10.0.0.1'', http_port = 80, usr_agent = ''ice_wind''\<rparr>" "''{}''" "''jpeg''" 2048 0]
  by (simp add: length_full_json length_full_image)

text \<open>
  A longer text is cut off in its buffer of 1024 bytes: the end of the text and the boundary
  before the picture are missing.
\<close>

lemma http_long_text_is_cut:
  assumes "length b = 32" "941 \<le> length json"
  shows "json_body b json = ''--'' @ b @ CRLF @ json_ident @ take 941 json"
  using assms by (simp add: json_body_def snprintf_s_def)

text \<open>
  The text cut out of the message that could not be sent ends in the two dashes that belong to
  the boundary behind it, which the search for the boundary does not include.
\<close>

definition sent_message :: string where
  "sent_message = ''POST /COMPANY/Devices/7/Datas HTTP/1.1'' @ CRLF
     @ ''Content-Type: multipart/form-data;boundary=----M0'' @ CRLF @ CRLF
     @ CRLF @ ''------M0'' @ CRLF @ json_ident @ ''{}'' @ ''------M0'' @ CRLF @ ''Content-Type: image/jpeg'' @ CRLF"

lemma http_text_gains_dashes:
  "http_get_resend_info 2048 ''n'' sent_message ''jpeg''
     = Some (Some (\<lparr>h_json = ''{}--'', h_name = ''n'', h_size = 4\<rparr>, ''jpeg''))"
  by code_simp

section \<open>Pictures over FTP\<close>

lemma concat_split_path: "concat (split_path c p) = c @ p"
  by (induction c p rule: split_path.induct) auto

lemma split_path_first:
  "c @ p \<noteq> [] \<Longrightarrow> \<exists>s r. split_path c p = s # r \<and> s \<noteq> [] \<and> hd s = hd (c @ p)"
  by (induction c p rule: split_path.induct) (auto simp: hd_append)

lemma split_path_rest: "s \<in> set (tl (split_path c p)) \<Longrightarrow> s \<noteq> [] \<and> hd s = CHR ''/''"
proof (induction c p rule: split_path.induct)
  case (3 c x y r)
  show ?case
  proof (cases "y = CHR ''/''")
    case True
    obtain t u where "split_path [] (y # r) = t # u" "t \<noteq> []" "hd t = y"
      using split_path_first [of "[]" "y # r"] by auto
    then show ?thesis
      using 3 True by auto
  qed (use 3 in simp)
qed auto

lemma set_tl_snoc: "v \<in> set (tl (c @ [x])) \<longleftrightarrow> c \<noteq> [] \<and> (v = x \<or> v \<in> set (tl c))"
  by (cases c) auto

lemma split_path_slashes:
  "s \<in> set (split_path c p) \<Longrightarrow> CHR ''/'' \<notin> set (tl c) \<Longrightarrow> (c \<noteq> [] \<and> p \<noteq> [] \<longrightarrow> hd p \<noteq> CHR ''/'')
     \<Longrightarrow> CHR ''/'' \<notin> set (tl s)"
  by (induction c p rule: split_path.induct) (auto simp: set_tl_snoc split: if_splits)

text \<open>
  The conversion of a path into components loses nothing: joined, the components are the
  path again, every component but the first begins with a slash, and no component has a slash
  behind its first character.
\<close>

theorem split_path_joins:
  "concat (split_path [] p) = p \<and> (\<forall>c \<in> set (tl (split_path [] p)). hd c = CHR ''/'' \<and> c \<noteq> []) \<and>
   (\<forall>c \<in> set (split_path [] p). CHR ''/'' \<notin> set (tl c))"
  using split_path_rest [of _ "[]" p] split_path_slashes [of _ "[]" p]
  by (auto simp: concat_split_path)

theorem split_path_joins_witness:
  "split_path [] ''a/bc/d'' = [''a'', ''/bc'', ''/d''] \<and> concat (split_path [] ''a/bc/d'') = ''a/bc/d''"
  using split_path_joins [of "''a/bc/d''"] by simp

text \<open>
  When the picture of the newest row cannot be opened, the code sends the bytes of the picture it
  read before under the name of that row.
\<close>

lemma ftp_sends_previous_picture:
  assumes "sql_table S rows" "rows (f_db q) = xs @ [(i, item)]" "f_files q (f_name item) = None" "buf q \<noteq> []"
  shows "fst (ftp_resend_round szj S send q) = Some (f_name item, split_path [] (f_path item), buf q)"
  using assms(2-4) sql_table.last_key [OF assms(1), of "f_db q"]
  by (simp add: ftp_resend_round_def sql_table.select [OF assms(1)] Let_def)

end
