(* ===== verification/Flow.thy ===== *)
theory Flow
  imports Sqlite
begin

text \<open>
  Traffic flow statistics, \<open>storage/traffic_flow_process.c\<close> with the index functions it calls in
  \<open>storage/data_process.cpp\<close> and \<open>storage/database_mng.cpp\<close>: the statistics of every lane are sent to
  the message queue, and stored in a data base per hour when that fails or storing is configured;
  an index data base names the hourly data bases that still have records to send.

  A data base file is a value of the type \<open>'d\<close> of the data base engine, found under its path. What
  the message queue answers and which directories can be made are arguments.
\<close>

unbundle bit_operations_syntax

section \<open>Data\<close>

record vd_time =
  tm_year :: int
  tm_mon :: int
  tm_mday :: int
  tm_hour :: int
  tm_min :: int
  tm_sec :: int

record flow_lane =
  laneNo :: int
  largeCount :: int
  smallCount :: int
  commCount :: int
  avgVolume :: int
  avgSpeed :: int
  occupancy' :: int
  queue' :: int
  travelTime :: int
  timeHeadWay :: int
  density' :: int
  carlen :: int

record vehicle_flow =
  statisticReady :: int
  laneNum :: int
  statisticTime :: vd_time
  vehicleFlowLane :: "flow_lane list"

record pedestrian_flow =
  isReady :: int
  flowL2R :: int
  flowR2L :: int
  startTime :: vd_time

record DB_TrafficFlow =
  ID :: int
  section_id :: string
  section_name :: string
  large_count :: int
  small_count :: int
  comm_count :: int
  avg_volume :: int
  avg_speed :: int
  occupancy :: int
  queue :: int
  traval_time :: int
  point_id :: string
  point_name :: string
  dev_id :: string
  dev_name :: string
  uptime :: string
  lan_num :: int
  direction :: int
  time_headway :: int
  density :: int
  car_len :: int
  flag_send :: int
  flag_store :: int

record DB_TrafficFlowPedestrian =
  p_ID :: int
  flow_left2right :: int
  flow_right2left :: int
  p_point_id :: string
  p_point_name :: string
  p_dev_id :: string
  p_dev_name :: string
  p_uptime :: string
  p_flag_send :: int
  p_flag_store :: int

record DB_File =
  f_ID :: int
  record_type :: int
  f_time :: string
  record_path :: string
  f_flag_send :: int
  f_flag_store :: int

text \<open>The configuration that the code reads through the macros \<open>EP_...\<close> of \<open>data_process.h\<close>.\<close>

record flow_cfg =
  EP_SECTION_ID :: string
  EP_SECTION_NAME :: string
  EP_POINT_ID :: string
  EP_POINT_NAME :: string
  EP_EXP_DEV_ID :: string
  EP_DIRECTION :: int
  upload_flow :: int
  disk_save_flow :: int
  is_resume_statistics :: int

text \<open>
  The state: the data base files, the texts handed to the two message queues (the newest first)
  and the static variables of the functions that store records.
\<close>

record 'd flow_store =
  dbs :: "string \<Rightarrow> 'd option"
  mq_flow :: "string list"
  mq_pedestrian :: "string list"
  sf_db_file :: DB_File
  sf_first :: bool
  sp_db_file :: DB_File
  sp_first :: bool

definition DB_NAME_FLOW_RECORDS :: string where
  "DB_NAME_FLOW_RECORDS = ''/var/DB_files/DB_files_flow.db''"

definition DB_NAME_FLOW_PEDESTRIAN :: string where
  "DB_NAME_FLOW_PEDESTRIAN = ''/var/DB_files/DB_files_flow_pedestrian.db''"

definition EP_DATA_SOURCE :: string where "EP_DATA_SOURCE = ''1''"
definition EP_DEV_NAME :: string where "EP_DEV_NAME = ''VD_2014''"

text \<open>The numbers of the columns of \<open>DB_files\<close>, \<open>traffic_flow\<close> and \<open>traffic_flow_pedestrian\<close>.\<close>

definition files_time :: nat where "files_time = 2"
definition files_flag_send :: nat where "files_flag_send = 4"
definition files_flag_store :: nat where "files_flag_store = 5"
definition flow_flag_send :: nat where "flow_flag_send = 21"

section \<open>Formats\<close>

definition time_text :: "vd_time \<Rightarrow> string" where
  "time_text t = dec_pad 4 (tm_year t) @ ''-'' @ dec_pad 2 (tm_mon t) @ ''-'' @ dec_pad 2 (tm_mday t)
     @ '' '' @ dec_pad 2 (tm_hour t) @ '':'' @ dec_pad 2 (tm_min t) @ '':'' @ dec_pad 2 (tm_sec t)"

definition hour_db_name :: "string \<Rightarrow> vd_time \<Rightarrow> string" where
  "hour_db_name dir t = dir @ ''/'' @ dec_pad 4 (tm_year t) @ dec_pad 2 (tm_mon t)
     @ dec_pad 2 (tm_mday t) @ dec_pad 2 (tm_hour t) @ ''.db''"

definition analyze_traffic_flow_motor_vehicle_info :: "flow_cfg \<Rightarrow> vehicle_flow \<Rightarrow> nat \<Rightarrow> DB_TrafficFlow" where
  "analyze_traffic_flow_motor_vehicle_info cfg st i =
     (let l = vehicleFlowLane st ! i
      in \<lparr>ID = 0, section_id = EP_SECTION_ID cfg, section_name = EP_SECTION_NAME cfg,
          large_count = largeCount l, small_count = smallCount l, comm_count = commCount l,
          avg_volume = avgVolume l, avg_speed = avgSpeed l, occupancy = occupancy' l,
          queue = queue' l, traval_time = travelTime l, point_id = EP_POINT_ID cfg,
          point_name = EP_POINT_NAME cfg, dev_id = EP_EXP_DEV_ID cfg, dev_name = EP_DEV_NAME,
          uptime = time_text (statisticTime st), lan_num = laneNo l, direction = EP_DIRECTION cfg,
          time_headway = timeHeadWay l, density = density' l, car_len = carlen l,
          flag_send = 0, flag_store = 0\<rparr>)"

definition analyze_traffic_flow_pedestrian_info :: "flow_cfg \<Rightarrow> pedestrian_flow \<Rightarrow> DB_TrafficFlowPedestrian" where
  "analyze_traffic_flow_pedestrian_info cfg st =
     \<lparr>p_ID = 0, flow_left2right = flowL2R st, flow_right2left = flowR2L st,
      p_point_id = EP_POINT_ID cfg, p_point_name = EP_POINT_NAME cfg, p_dev_id = EP_EXP_DEV_ID cfg,
      p_dev_name = EP_DEV_NAME, p_uptime = time_text (startTime st), p_flag_send = 0, p_flag_store = 0\<rparr>"

definition commas :: "string list \<Rightarrow> string" where
  "commas xs = concat (map ((#) (CHR '','')) xs)"

definition format_mq_text_traffic_flow_motor_vehicle :: "DB_TrafficFlow \<Rightarrow> string" where
  "format_mq_text_traffic_flow_motor_vehicle r =
     EP_DATA_SOURCE @ commas
       [section_id r, section_name r, dec_int (large_count r), dec_int (small_count r),
        dec_int (comm_count r), dec_int (avg_volume r), dec_int (avg_speed r),
        dec_int (occupancy r sdiv 10000) @ ''.'' @ dec_pad 4 (occupancy r smod 10000),
        dec_int (queue r), dec_int (traval_time r), point_id r, point_name r, dev_id r, dev_name r,
        uptime r, dec_int (lan_num r), dec_int (direction r), dec_int (time_headway r),
        dec_int (density r), dec_int (car_len r)]"

definition format_mq_text_traffic_flow_pedestrian :: "DB_TrafficFlowPedestrian \<Rightarrow> string" where
  "format_mq_text_traffic_flow_pedestrian r =
     EP_DATA_SOURCE @ commas
       [dec_int (flow_left2right r), dec_int (flow_right2left r), p_point_id r, p_point_name r,
        p_dev_id r, p_dev_name r, p_uptime r]"

text \<open>The values of an insertion, and the insertion, with the values between apostrophes as they are.\<close>

definition flow_row :: "DB_TrafficFlow \<Rightarrow> string list" where
  "flow_row r =
     [section_id r, section_name r, dec_int (large_count r), dec_int (small_count r),
      dec_int (comm_count r), dec_int (avg_volume r), dec_int (avg_speed r), dec_int (occupancy r),
      dec_int (queue r), dec_int (traval_time r), point_id r, point_name r, dev_id r, dev_name r,
      uptime r, dec_int (lan_num r), dec_int (direction r), dec_int (time_headway r),
      dec_int (density r), dec_int (car_len r), dec_int (flag_send r), dec_int (flag_store r)]"

definition db_format_insert_sql_traffic_flow :: "DB_TrafficFlow \<Rightarrow> string" where
  "db_format_insert_sql_traffic_flow r = insert_text ''traffic_flow'' (flow_row r)"

definition pedestrian_row :: "DB_TrafficFlowPedestrian \<Rightarrow> string list" where
  "pedestrian_row r =
     [dec_int (flow_left2right r), dec_int (flow_right2left r), p_point_id r, p_point_name r,
      p_dev_id r, p_dev_name r, p_uptime r, dec_int (p_flag_send r), dec_int (p_flag_store r)]"

definition db_format_insert_sql_traffic_flow_pedestrian :: "DB_TrafficFlowPedestrian \<Rightarrow> string" where
  "db_format_insert_sql_traffic_flow_pedestrian r = insert_text ''traffic_flow_pedestrian'' (pedestrian_row r)"

definition db_unformat_read_sql_traffic_flow :: "string list \<Rightarrow> DB_TrafficFlow" where
  "db_unformat_read_sql_traffic_flow a =
     \<lparr>ID = atoi (a ! 0), section_id = a ! 1, section_name = a ! 2, large_count = atoi (a ! 3),
      small_count = atoi (a ! 4), comm_count = atoi (a ! 5), avg_volume = atoi (a ! 6),
      avg_speed = atoi (a ! 7), occupancy = atoi (a ! 8), queue = atoi (a ! 9),
      traval_time = atoi (a ! 10), point_id = a ! 11, point_name = a ! 12, dev_id = a ! 13,
      dev_name = a ! 14, uptime = a ! 15, lan_num = atoi (a ! 16), direction = atoi (a ! 17),
      time_headway = atoi (a ! 18), density = atoi (a ! 19), car_len = atoi (a ! 20),
      flag_send = atoi (a ! 21), flag_store = atoi (a ! 22)\<rparr>"

definition db_unformat_traffic_flow_pedestrian_info :: "string list \<Rightarrow> DB_TrafficFlowPedestrian" where
  "db_unformat_traffic_flow_pedestrian_info a =
     \<lparr>p_ID = atoi (a ! 0), flow_left2right = atoi (a ! 1), flow_right2left = atoi (a ! 2),
      p_point_id = a ! 3, p_point_name = a ! 4, p_dev_id = a ! 5, p_dev_name = a ! 6,
      p_uptime = a ! 7, p_flag_send = atoi (a ! 8), p_flag_store = atoi (a ! 9)\<rparr>"

definition file_row :: "DB_File \<Rightarrow> string list" where
  "file_row f = [dec_int (record_type f), f_time f, record_path f, dec_int (f_flag_send f), dec_int (f_flag_store f)]"

definition db_format_insert_sql_db_files :: "DB_File \<Rightarrow> string" where
  "db_format_insert_sql_db_files f = insert_text ''DB_files'' (file_row f)"

definition db_unformat_read_sql_db_files :: "string list \<Rightarrow> DB_File" where
  "db_unformat_read_sql_db_files a =
     \<lparr>f_ID = atoi (a ! 0), record_type = atoi (a ! 1), f_time = a ! 2, record_path = a ! 3,
      f_flag_send = atoi (a ! 4), f_flag_store = atoi (a ! 5)\<rparr>"

text \<open>\<open>get_hour_start\<close>: \<open>None\<close> stands for the result -1, where nothing is stored.\<close>

definition get_hour_start :: "string \<Rightarrow> string option" where
  "get_hour_start t = (if CHR '':'' \<in> set t then Some (takeWhile (\<lambda>c. c \<noteq> CHR '':'') t @ '':00:00'') else None)"

section \<open>Data base access\<close>

definition opened :: "'d sqlite \<Rightarrow> string \<Rightarrow> (string \<Rightarrow> 'd option) \<Rightarrow> 'd" where
  "opened Q p f = (case f p of Some d \<Rightarrow> d | None \<Rightarrow> empty_db Q)"

text \<open>
  \<open>db_write\<close> with the text of an insertion and the table of the creation. The results 0 and 1 of the
  engine are both taken for success: 1 is the result for a table that exists, but also for any wrong text.
\<close>

definition db_write :: "'d sqlite \<Rightarrow> string \<Rightarrow> string \<Rightarrow> string \<Rightarrow> (string \<Rightarrow> 'd option) \<Rightarrow> int \<times> (string \<Rightarrow> 'd option)" where
  "db_write Q p ins create f =
     (if \<not> can_open Q p then (- 1, f)
      else let (rc, d) = run Q (Create create) (opened Q p f)
           in if rc < 0 \<or> 1 < rc then (- 1, f(p \<mapsto> d))
              else let (rc', d') = run Q (Insert ins) d
                   in (if rc' < 0 \<or> 1 < rc' then - 1 else 0, f(p \<mapsto> d')))"

text \<open>
  The common part of \<open>db_read_DB_file\<close>, \<open>db_read_flow_records\<close> and the function for pedestrians:
  open the file, create the table if there is none, and fetch one row.
\<close>

definition db_read :: "'d sqlite \<Rightarrow> string \<Rightarrow> string \<Rightarrow> string \<Rightarrow> sql_cond \<Rightarrow> (string \<Rightarrow> 'd option) \<Rightarrow> string list option \<times> (string \<Rightarrow> 'd option)" where
  "db_read Q p create t c f =
     (if \<not> can_open Q p then (None, f)
      else let (rc, d) = run Q (Create create) (opened Q p f)
           in if rc < 0 \<or> 1 < rc then (None, f(p \<mapsto> d))
              else (get_table Q t c d, f(p \<mapsto> d)))"

text \<open>A statement on an opened file: the result of the engine, -1 when it cannot be opened.\<close>

definition db_exec :: "'d sqlite \<Rightarrow> string \<Rightarrow> sql_stmt \<Rightarrow> (string \<Rightarrow> 'd option) \<Rightarrow> int \<times> (string \<Rightarrow> 'd option)" where
  "db_exec Q p s f =
     (if \<not> can_open Q p then (- 1, f)
      else let (rc, d) = run Q s (opened Q p f) in (rc, f(p \<mapsto> d)))"

definition db_read_DB_file :: "'d sqlite \<Rightarrow> string \<Rightarrow> sql_cond \<Rightarrow> (string \<Rightarrow> 'd option) \<Rightarrow> DB_File option \<times> (string \<Rightarrow> 'd option)" where
  "db_read_DB_file Q p c f = (let (a, f') = db_read Q p ''DB_files'' ''DB_files'' c f
     in (map_option db_unformat_read_sql_db_files a, f'))"

definition db_write_DB_file :: "'d sqlite \<Rightarrow> string \<Rightarrow> DB_File \<Rightarrow> (string \<Rightarrow> 'd option) \<Rightarrow> int \<times> (string \<Rightarrow> 'd option)" where
  "db_write_DB_file Q p df f =
     (let (r, f') = db_write Q p (db_format_insert_sql_db_files df) ''DB_files'' f
      in (if r \<noteq> 0 then - 1 else 0, f'))"

text \<open>\<open>db_update_records\<close> returns 0 whatever the engine says once the file is open.\<close>

definition db_update_records :: "'d sqlite \<Rightarrow> string \<Rightarrow> sql_stmt \<Rightarrow> (string \<Rightarrow> 'd option) \<Rightarrow> int \<times> (string \<Rightarrow> 'd option)" where
  "db_update_records Q p s f = (if \<not> can_open Q p then (- 1, f) else (0, snd (db_exec Q p s f)))"

definition db_delete_DB_file :: "'d sqlite \<Rightarrow> string \<Rightarrow> DB_File \<Rightarrow> (string \<Rightarrow> 'd option) \<Rightarrow> int \<times> (string \<Rightarrow> 'd option)" where
  "db_delete_DB_file Q p df f =
     (if \<not> can_open Q p then (- 1, f)
      else let (rc, f') =
             (if f_flag_store df = 1 then db_exec Q p (Update ''DB_files'' files_flag_send 0 (f_ID df)) f
              else db_exec Q p (Delete ''DB_files'' (f_ID df)) (f(record_path df := None)))
           in (if rc \<noteq> 0 then - 1 else 0, f'))"

definition db_write_flow_records :: "'d sqlite \<Rightarrow> string \<Rightarrow> DB_TrafficFlow \<Rightarrow> (string \<Rightarrow> 'd option) \<Rightarrow> int \<times> (string \<Rightarrow> 'd option)" where
  "db_write_flow_records Q p r f =
     (let (rc, f') = db_write Q p (db_format_insert_sql_traffic_flow r) ''traffic_flow'' f
      in (if rc \<noteq> 0 then - 1 else 0, f'))"

definition db_write_traffic_flow_pedestrian :: "'d sqlite \<Rightarrow> string \<Rightarrow> DB_TrafficFlowPedestrian \<Rightarrow> (string \<Rightarrow> 'd option) \<Rightarrow> int \<times> (string \<Rightarrow> 'd option)" where
  "db_write_traffic_flow_pedestrian Q p r f =
     (let (rc, f') = db_write Q p (db_format_insert_sql_traffic_flow_pedestrian r) ''traffic_flow_pedestrian'' f
      in (if rc \<noteq> 0 then - 1 else 0, f'))"

definition db_read_flow_records :: "'d sqlite \<Rightarrow> string \<Rightarrow> sql_cond \<Rightarrow> (string \<Rightarrow> 'd option) \<Rightarrow> DB_TrafficFlow option \<times> (string \<Rightarrow> 'd option)" where
  "db_read_flow_records Q p c f = (let (a, f') = db_read Q p ''traffic_flow'' ''traffic_flow'' c f
     in (map_option db_unformat_read_sql_traffic_flow a, f'))"

definition db_delete_flow_records :: "'d sqlite \<Rightarrow> string \<Rightarrow> DB_TrafficFlow \<Rightarrow> (string \<Rightarrow> 'd option) \<Rightarrow> int \<times> (string \<Rightarrow> 'd option)" where
  "db_delete_flow_records Q p r f =
     (let (rc, f') = db_exec Q p (if flag_store r = 1 then Update ''traffic_flow'' flow_flag_send 0 (ID r)
                                  else Delete ''traffic_flow'' (ID r)) f
      in (if rc \<noteq> 0 then - 1 else 0, f'))"

text \<open>
  The functions for pedestrians create the table \<open>traffic_flow_pedestrian\<close>, but the statements they
  run name \<open>traffic_flow\<close>.
\<close>

definition db_read_traffic_flow_pedestrian_info :: "'d sqlite \<Rightarrow> string \<Rightarrow> string \<Rightarrow> sql_cond \<Rightarrow> (string \<Rightarrow> 'd option) \<Rightarrow> DB_TrafficFlowPedestrian option \<times> (string \<Rightarrow> 'd option)" where
  "db_read_traffic_flow_pedestrian_info Q p t c f = (let (a, f') = db_read Q p ''traffic_flow_pedestrian'' t c f
     in (map_option db_unformat_traffic_flow_pedestrian_info a, f'))"

definition db_delete_traffic_flow_pedestrian_info :: "'d sqlite \<Rightarrow> string \<Rightarrow> DB_TrafficFlowPedestrian \<Rightarrow> (string \<Rightarrow> 'd option) \<Rightarrow> int \<times> (string \<Rightarrow> 'd option)" where
  "db_delete_traffic_flow_pedestrian_info Q p r f =
     (let (rc, f') = db_exec Q p (if p_flag_store r = 1 then Update ''traffic_flow'' flow_flag_send 0 (p_ID r)
                                  else Delete ''traffic_flow'' (p_ID r)) f
      in (if rc \<noteq> 0 then - 1 else 0, f'))"

section \<open>Storing\<close>

text \<open>
  The update of the index when the data base of the hour exists already: the flags that the new
  record needs are added to those of the index record in the static variable \<open>df\<close>.
\<close>

definition index_add_flags :: "'d sqlite \<Rightarrow> string \<Rightarrow> int \<Rightarrow> int \<Rightarrow> DB_File \<Rightarrow> (string \<Rightarrow> 'd option) \<Rightarrow> DB_File \<times> (string \<Rightarrow> 'd option)" where
  "index_add_flags Q p fsend fstore df f =
     (let (df1, f1) =
            (if (NOT (f_flag_send df)) AND fsend \<noteq> 0
             then let df' = df\<lparr>f_flag_send := f_flag_send df OR fsend\<rparr>
                  in (df', snd (db_update_records Q p (Update ''DB_files'' files_flag_send (word_of_int (f_flag_send df')) (f_ID df')) f))
             else (df, f))
      in if f_flag_store df1 = 0 \<and> fstore \<noteq> 0
         then let df' = df1\<lparr>f_flag_store := fstore\<rparr>
              in (df', snd (db_update_records Q p (Update ''DB_files'' files_flag_store (word_of_int fstore) (f_ID df')) f1))
         else (df1, f1))"

text \<open>The first time, the index record of the hour is read into the static variable.\<close>

definition index_first :: "'d sqlite \<Rightarrow> string \<Rightarrow> string \<Rightarrow> bool \<Rightarrow> DB_File \<Rightarrow> (string \<Rightarrow> 'd option) \<Rightarrow> DB_File \<times> (string \<Rightarrow> 'd option)" where
  "index_first Q p t first df f =
     (if first
      then case db_read_DB_file Q p (Text_ge files_time (case get_hour_start t of Some h \<Rightarrow> h | None \<Rightarrow> [])) f of
             (Some df', f') \<Rightarrow> (df', f')
           | (None, f') \<Rightarrow> (df, f')
      else (df, f))"

definition DB_TYPE_TRAFFIC_FLOW_MOTOR_VEHICLE :: int where "DB_TYPE_TRAFFIC_FLOW_MOTOR_VEHICLE = 3"
definition DB_TYPE_TRAFFIC_FLOW_PEDESTRIAN :: int where "DB_TYPE_TRAFFIC_FLOW_PEDESTRIAN = 4"

text \<open>
  The part of \<open>save_traffic_flow_info\<close> that keeps the index. The index record of a new data base is
  written from a local variable that hides the static one of the same name, which therefore keeps
  its value.
\<close>

definition save_index :: "'d sqlite \<Rightarrow> string \<Rightarrow> DB_TrafficFlow \<Rightarrow> 'd flow_store \<Rightarrow> 'd flow_store" where
  "save_index Q p r s =
     (if dbs s p = None
      then s\<lparr>dbs := snd (db_write_DB_file Q DB_NAME_FLOW_RECORDS
               \<lparr>f_ID = 0, record_type = DB_TYPE_TRAFFIC_FLOW_MOTOR_VEHICLE, f_time = uptime r,
                record_path = p, f_flag_send = flag_send r, f_flag_store = flag_store r\<rparr> (dbs s))\<rparr>
      else let (df, f) = index_first Q DB_NAME_FLOW_RECORDS (uptime r) (sf_first s) (sf_db_file s) (dbs s);
               (df', f') = index_add_flags Q DB_NAME_FLOW_RECORDS (flag_send r) (flag_store r) df f
           in s\<lparr>dbs := f', sf_db_file := df', sf_first := False\<rparr>)"

text \<open>\<open>mk\<close> says whether a directory exists or can be made.\<close>

definition save_traffic_flow_info ::
  "'d sqlite \<Rightarrow> (string \<Rightarrow> bool) \<Rightarrow> DB_TrafficFlow \<Rightarrow> vehicle_flow \<Rightarrow> string \<Rightarrow> 'd flow_store \<Rightarrow> int \<times> 'd flow_store" where
  "save_traffic_flow_info Q mk r st partition_path s =
     (if \<not> mk (partition_path @ ''/DB'') \<or> \<not> mk (partition_path @ ''/DB/traffic_flow'') then (- 1, s)
      else let p = hour_db_name (partition_path @ ''/DB/traffic_flow'') (statisticTime st);
               s1 = save_index Q p r s;
               (ret, f) = db_write_flow_records Q p r (dbs s1)
           in (ret, s1\<lparr>dbs := f\<rparr>))"

text \<open>
  Pedestrians: new index records are written into the index of the vehicles, while those of the
  index of the pedestrians are read and changed.
\<close>

definition save_index_pedestrian :: "'d sqlite \<Rightarrow> string \<Rightarrow> DB_TrafficFlowPedestrian \<Rightarrow> 'd flow_store \<Rightarrow> 'd flow_store" where
  "save_index_pedestrian Q p r s =
     (if dbs s p = None
      then let df = \<lparr>f_ID = 0, record_type = DB_TYPE_TRAFFIC_FLOW_PEDESTRIAN, f_time = p_uptime r,
                     record_path = p, f_flag_send = p_flag_send r, f_flag_store = p_flag_store r\<rparr>
           in s\<lparr>dbs := snd (db_write_DB_file Q DB_NAME_FLOW_RECORDS df (dbs s)), sp_db_file := df\<rparr>
      else let (df, f) = index_first Q DB_NAME_FLOW_PEDESTRIAN (p_uptime r) (sp_first s) (sp_db_file s) (dbs s);
               (df', f') = index_add_flags Q DB_NAME_FLOW_PEDESTRIAN (p_flag_send r) (p_flag_store r) df f
           in s\<lparr>dbs := f', sp_db_file := df', sp_first := False\<rparr>)"

definition save_traffic_flow_pedestrian_info ::
  "'d sqlite \<Rightarrow> (string \<Rightarrow> bool) \<Rightarrow> DB_TrafficFlowPedestrian \<Rightarrow> pedestrian_flow \<Rightarrow> string \<Rightarrow> 'd flow_store \<Rightarrow> int \<times> 'd flow_store" where
  "save_traffic_flow_pedestrian_info Q mk r st partition_path s =
     (let dir = partition_path @ ''/DB/traffic_flow_pedestrian''; p = hour_db_name dir (startTime st)
      in if dbs s p = None \<and> \<not> mk dir then (- 1, s)
         else let s1 = save_index_pedestrian Q p r s;
                  (ret, f) = db_write_traffic_flow_pedestrian Q p r (dbs s1)
              in (if ret < 0 then - 1 else 0, s1\<lparr>dbs := f\<rparr>))"

section \<open>Sending and processing\<close>

text \<open>
  What the environment answers: the status of a message queue, the result of handing a text to
  it, the mounted partition if there is one, the directories that can be made.
\<close>

record flow_env =
  mq_status :: int
  mq_send :: "string \<Rightarrow> int"
  mq_status_p :: int
  mq_send_p :: "string \<Rightarrow> int"
  partition :: "string option"
  mkdirs :: "string \<Rightarrow> bool"

definition send_traffic_flow_motor_vehicle :: "flow_env \<Rightarrow> DB_TrafficFlow \<Rightarrow> 'd flow_store \<Rightarrow> int \<times> 'd flow_store" where
  "send_traffic_flow_motor_vehicle e r s =
     (if mq_status e < 0 then (- 1, s)
      else let t = format_mq_text_traffic_flow_motor_vehicle r
           in (mq_send e t, s\<lparr>mq_flow := t # mq_flow s\<rparr>))"

definition send_traffic_flow_pedestrian :: "flow_env \<Rightarrow> DB_TrafficFlowPedestrian \<Rightarrow> 'd flow_store \<Rightarrow> int \<times> 'd flow_store" where
  "send_traffic_flow_pedestrian e r s =
     (if mq_status_p e < 0 then (- 1, s)
      else let t = format_mq_text_traffic_flow_pedestrian r
           in (mq_send_p e t, s\<lparr>mq_pedestrian := t # mq_pedestrian s\<rparr>))"

text \<open>One lane in the loop of \<open>process_traffic_flow_motor_vehicles\<close>.\<close>

definition process_lane :: "'d sqlite \<Rightarrow> flow_env \<Rightarrow> flow_cfg \<Rightarrow> vehicle_flow \<Rightarrow> nat \<Rightarrow> 'd flow_store \<Rightarrow> 'd flow_store" where
  "process_lane Q e cfg st i s =
     (let r = analyze_traffic_flow_motor_vehicle_info cfg st i;
          (fsend, s1) = (if upload_flow cfg = 1
                         then let (ret, s') = send_traffic_flow_motor_vehicle e r s in (if ret < 0 then 1 else 0, s')
                         else (0, s))
      in if fsend AND 1 \<noteq> (0 :: int) \<or> disk_save_flow cfg = 1
         then case partition e of
                Some path \<Rightarrow> snd (save_traffic_flow_info Q (mkdirs e)
                  (r\<lparr>flag_send := fsend, flag_store := disk_save_flow cfg\<rparr>) st path s1)
              | None \<Rightarrow> s1
         else s1)"

definition process_traffic_flow_motor_vehicles :: "nat \<Rightarrow> 'd sqlite \<Rightarrow> flow_env \<Rightarrow> flow_cfg \<Rightarrow> vehicle_flow \<Rightarrow> 'd flow_store \<Rightarrow> int \<times> 'd flow_store" where
  "process_traffic_flow_motor_vehicles max_lane Q e cfg st s =
     (if statisticReady st = 0 then (0, s)
      else if laneNum st \<le> 0 \<or> int max_lane < laneNum st then (- 1, s)
      else (0, fold (process_lane Q e cfg st) [0..<nat (laneNum st)] s))"

definition process_traffic_flow_pedestrian :: "'d sqlite \<Rightarrow> flow_env \<Rightarrow> flow_cfg \<Rightarrow> pedestrian_flow \<Rightarrow> 'd flow_store \<Rightarrow> int \<times> 'd flow_store" where
  "process_traffic_flow_pedestrian Q e cfg st s =
     (if isReady st = 0 then (0, s)
      else let r = analyze_traffic_flow_pedestrian_info cfg st;
               (fsend, s1) = (if upload_flow cfg = 1
                              then let (ret, s') = send_traffic_flow_pedestrian e r s in (if ret < 0 then 1 else 0, s')
                              else (0, s))
           in (0, if fsend AND 1 \<noteq> (0 :: int) \<or> disk_save_flow cfg = 1
                  then case partition e of
                         Some path \<Rightarrow> snd (save_traffic_flow_pedestrian_info Q (mkdirs e)
                           (r\<lparr>p_flag_send := fsend, p_flag_store := disk_save_flow cfg\<rparr>) st path s1)
                       | None \<Rightarrow> s1
                  else s1))"

definition process_traffic_flow :: "nat \<Rightarrow> 'd sqlite \<Rightarrow> flow_env \<Rightarrow> flow_cfg \<Rightarrow> (vehicle_flow \<times> pedestrian_flow) option \<Rightarrow> 'd flow_store \<Rightarrow> int \<times> 'd flow_store" where
  "process_traffic_flow max_lane Q e cfg tf s =
     (case tf of
        None \<Rightarrow> (- 1, s)
      | Some (v, p) \<Rightarrow>
          let (rc1, s1) = process_traffic_flow_motor_vehicles max_lane Q e cfg v s;
              (rc2, s2) = process_traffic_flow_pedestrian Q e cfg p s1
          in (rc1 OR rc2, s2))"

end
