(* ===== verification/Flow_Reupload.thy ===== *)
theory Flow_Reupload
  imports Flow
begin

text \<open>
  Sending stored statistics again, \<open>storage/data_process_flow.cpp\<close>: each call of
  \<open>db_upload_flow_records\<close> takes the first index record that has something to send and from its data
  base the first record behind the one sent before; when there is none left the index record is
  finished. The lemmas show the round trip of a record through the data base, that nothing is lost
  when the queue is down, that a data base is sent completely, and where records are lost.
\<close>

text \<open>The static variables of the functions that send again.\<close>

record reupload =
  ID_DB_file_last :: int
  ID_record_last :: int

definition reupload_init :: reupload where
  "reupload_init = \<lparr>ID_DB_file_last = 0, ID_record_last = 0\<rparr>"

definition db_upload_flow_records ::
  "'d sqlite \<Rightarrow> flow_env \<Rightarrow> flow_cfg \<Rightarrow> reupload \<times> 'd flow_store \<Rightarrow> int \<times> reupload \<times> 'd flow_store" where
  "db_upload_flow_records Q e cfg = (\<lambda>(u, s).
     if is_resume_statistics cfg = 0 then (- 1, u, s)
     else if mq_status e \<noteq> 0 then (- 1, u, s)
     else case db_read_DB_file Q DB_NAME_FLOW_RECORDS (ID_gt_and_pos (ID_DB_file_last u) files_flag_send) (dbs s) of
       (None, f) \<Rightarrow> (- 1, u, s\<lparr>dbs := f\<rparr>)
     | (Some df, f) \<Rightarrow>
         (case db_read_flow_records Q (record_path df) (ID_gt_and_pos (ID_record_last u) flow_flag_send) f of
            (None, f1) \<Rightarrow>
              (- 1, \<lparr>ID_DB_file_last = 0, ID_record_last = 0\<rparr>,
               s\<lparr>dbs := snd (db_delete_DB_file Q DB_NAME_FLOW_RECORDS df f1)\<rparr>)
          | (Some r, f1) \<Rightarrow>
              (let s1 = s\<lparr>dbs := f1\<rparr>;
                   (ret, s2) = (if flag_send r = 1 then send_traffic_flow_motor_vehicle e r s1 else (0, s1))
               in if ret \<noteq> 0 then (- 1, u, s2)
                  else let (rc, f2) = db_delete_flow_records Q (record_path df) r (dbs s2)
                       in if rc \<noteq> 0 then (- 1, u, s2\<lparr>dbs := f2\<rparr>)
                          else (0, u\<lparr>ID_record_last := ID r\<rparr>, s2\<lparr>dbs := f2\<rparr>))))"

definition traffic_flow_reupload_pedestrian ::
  "'d sqlite \<Rightarrow> flow_env \<Rightarrow> flow_cfg \<Rightarrow> reupload \<times> 'd flow_store \<Rightarrow> int \<times> reupload \<times> 'd flow_store" where
  "traffic_flow_reupload_pedestrian Q e cfg = (\<lambda>(u, s).
     if is_resume_statistics cfg = 0 then (- 1, u, s)
     else if mq_status_p e \<noteq> 0 then (- 1, u, s)
     else case db_read_DB_file Q DB_NAME_FLOW_PEDESTRIAN (ID_gt_and_pos (ID_DB_file_last u) files_flag_send) (dbs s) of
       (None, f) \<Rightarrow> (- 1, u, s\<lparr>dbs := f\<rparr>)
     | (Some df, f) \<Rightarrow>
         (case db_read_traffic_flow_pedestrian_info Q (record_path df) ''traffic_flow''
                 (ID_gt_and_pos (ID_record_last u) flow_flag_send) f of
            (None, f1) \<Rightarrow>
              (- 1, \<lparr>ID_DB_file_last = 0, ID_record_last = 0\<rparr>,
               s\<lparr>dbs := snd (db_delete_DB_file Q DB_NAME_FLOW_PEDESTRIAN df f1)\<rparr>)
          | (Some r, f1) \<Rightarrow>
              (let s1 = s\<lparr>dbs := f1\<rparr>;
                   (ret, s2) = (if p_flag_send r = 1 then send_traffic_flow_pedestrian e r s1 else (0, s1))
               in if ret \<noteq> 0 then (- 1, u, s2)
                  else let (rc, f2) = db_delete_traffic_flow_pedestrian_info Q (record_path df) r (dbs s2)
                       in if rc \<noteq> 0 then (- 1, u, s2\<lparr>dbs := f2\<rparr>)
                          else (0, u\<lparr>ID_record_last := p_ID r\<rparr>, s2\<lparr>dbs := f2\<rparr>))))"

section \<open>The record in the data base\<close>

lemma unformat_flow_row: "db_unformat_read_sql_traffic_flow (dec_int i # flow_row r) = r\<lparr>ID := i\<rparr>"
  by (simp add: flow_row_def db_unformat_read_sql_traffic_flow_def)

lemma length_rows [simp]: "length (flow_row r) = 22" "length (file_row df) = 5" "length (pedestrian_row x) = 9"
  by (simp_all add: flow_row_def file_row_def pedestrian_row_def)

lemma in_tables [simp]: "''DB_files'' \<in> dom columns" "''traffic_flow'' \<in> dom columns" "''traffic_flow_pedestrian'' \<in> dom columns"
  by (simp_all add: dom_columns)

lemma int_columns [simp]:
  "int_column ''DB_files'' files_flag_send" "int_column ''DB_files'' files_flag_store" "int_column ''traffic_flow'' flow_flag_send"
  by (simp_all add: int_column_def columns_def files_flag_send_def files_flag_store_def flow_flag_send_def eval_nat_numeral)

text \<open>
  A record without apostrophes in its names that is formatted for the data base, read as the literals
  of the insertion and parsed from the row found there is the same record, with the key that the data
  base gave it, for vehicles and for pedestrians.
\<close>

theorem flow_record_round_trip:
  "(plain (flow_row r) \<longrightarrow>
     db_unformat_read_sql_traffic_flow (dec_int i # literals (db_format_insert_sql_traffic_flow r)) = r\<lparr>ID := i\<rparr>) \<and>
   (plain (pedestrian_row p) \<longrightarrow>
     db_unformat_traffic_flow_pedestrian_info (dec_int i # literals (db_format_insert_sql_traffic_flow_pedestrian p)) = p\<lparr>p_ID := i\<rparr>)"
  by (simp add: db_format_insert_sql_traffic_flow_def literals_insert unformat_flow_row
      db_format_insert_sql_traffic_flow_pedestrian_def pedestrian_row_def db_unformat_traffic_flow_pedestrian_info_def)

lemma flow_row_flag: "flow_row r ! (flow_flag_send - 1) = dec_int (flag_send r)"
  by (simp add: flow_row_def flow_flag_send_def)

text \<open>The formatted numbers and times have no apostrophes.\<close>

lemma plain_dec: "apos \<notin> set (dec n)"
proof -
  have "c \<in> set (dec n) \<Longrightarrow> is_digit c" for c
  proof (induction n rule: dec.induct)
    case (1 v)
    then show ?case
      by (cases "v < 10") (auto simp: dec.simps [of v])
  qed
  then show ?thesis
    by (force simp: apos_def is_digit_def)
qed

lemma plain_dec_int: "apos \<notin> set (dec_int i)"
  using plain_dec by (simp add: dec_int_def apos_def)

lemma plain_time_text: "apos \<notin> set (time_text t)"
  using plain_dec by (simp add: time_text_def dec_pad_def apos_def Let_def)

text \<open>The names of the configuration that end up in a record.\<close>

definition plain_names :: "flow_cfg \<Rightarrow> bool" where
  "plain_names cfg \<longleftrightarrow> plain [EP_SECTION_ID cfg, EP_SECTION_NAME cfg, EP_POINT_ID cfg, EP_POINT_NAME cfg, EP_EXP_DEV_ID cfg]"

text \<open>The numbers of the configuration and of the statistics are C integers.\<close>

definition int_lane :: "flow_lane \<Rightarrow> bool" where
  "int_lane l \<longleftrightarrow> list_all c_int [laneNo l, largeCount l, smallCount l, commCount l, avgVolume l, avgSpeed l,
     occupancy' l, queue' l, travelTime l, timeHeadWay l, density' l, carlen l]"

definition int_stats :: "flow_cfg \<Rightarrow> vehicle_flow \<Rightarrow> bool" where
  "int_stats cfg st \<longleftrightarrow> c_int (EP_DIRECTION cfg) \<and> c_int (disk_save_flow cfg)
     \<and> (\<forall>i < nat (laneNum st). int_lane (vehicleFlowLane st ! i))"

lemma fits_flow_row:
  "fits ''traffic_flow'' (flow_row r) \<longleftrightarrow> plain (flow_row r) \<and> list_all c_int
     [large_count r, small_count r, comm_count r, avg_volume r, avg_speed r, occupancy r, queue r, traval_time r,
      lan_num r, direction r, time_headway r, density r, car_len r, flag_send r, flag_store r]"
  by (simp add: fits_def columns_def flow_row_def eval_nat_numeral)

section \<open>The tables\<close>

text \<open>The rows under the name of a table, and those of a data base file; none if there is no such table.\<close>

definition view :: "('d \<Rightarrow> string \<Rightarrow> rows option) \<Rightarrow> 'd \<Rightarrow> string \<Rightarrow> rows" where
  "view rows d t = (case rows d t of None \<Rightarrow> [] | Some xs \<Rightarrow> xs)"

definition table :: "'d sqlite \<Rightarrow> ('d \<Rightarrow> string \<Rightarrow> rows option) \<Rightarrow> (string \<Rightarrow> 'd option) \<Rightarrow> string \<Rightarrow> string \<Rightarrow> rows" where
  "table Q rows f p = view rows (opened Q p f)"

lemma table_other: "p \<noteq> q \<Longrightarrow> table Q rows (f(p := x)) q = table Q rows f q"
  by (simp add: table_def opened_def)

lemma table_here: "table Q rows (f(p \<mapsto> d)) p = view rows d"
  by (simp add: table_def opened_def)

lemma view_changes: "changes t g (rows d) (rows d') \<Longrightarrow> view rows d' = (view rows d)(t := g (view rows d t))"
  by (auto simp: changes_def view_def)

text \<open>The statements that change existing rows.\<close>

fun stmt_rows :: "sql_stmt \<Rightarrow> (string \<Rightarrow> rows) \<Rightarrow> string \<Rightarrow> rows" where
  "stmt_rows (Update t c n k) f = f(t := row_update c n k (f t))"
| "stmt_rows (Delete t k) f = f(t := row_delete k (f t))"
| "stmt_rows _ f = f"

fun stmt_table :: "sql_stmt \<Rightarrow> string" where
  "stmt_table (Update t c n k) = t"
| "stmt_table (Delete t k) = t"
| "stmt_table _ = []"

text \<open>Those that can be run on a table of the program.\<close>

definition stmt_ok :: "sql_stmt \<Rightarrow> bool" where
  "stmt_ok st \<longleftrightarrow> (\<exists>t c n k. st = Update t c n k \<and> int_column t c \<or> st = Delete t k \<and> t \<in> dom columns)"

lemma stmt_okD: "stmt_ok st \<Longrightarrow> \<nexists>txt. st = Insert txt"
  by (auto simp: stmt_ok_def)

context sqlite_laws
begin

lemma table_gone: "table Q rows (f(p := None)) p = (\<lambda>_. [])"
  by (rule ext) (simp add: table_def view_def opened_def new_file)

lemma view_keys: "sorted_wrt (<) (map fst (view rows d t))" "x \<in> set (view rows d t) \<Longrightarrow> 0 < fst x"
  using keys(1) [of d t] keys(2) [of d t _ x] by (cases "rows d t"; simp add: view_def)+

lemma view_cong: "rows d' = rows d \<Longrightarrow> view rows d' = view rows d"
  by (simp add: view_def fun_eq_iff)

lemma view_create:
  assumes "t \<in> dom columns" "run Q (Create t) d = (rc, d')"
  shows "view rows d' = view rows d"
proof (cases "rc = 0")
  case True
  then have "rows d t = None" "rows d' = (rows d)(t \<mapsto> [])"
    using created assms by blast+
  then show ?thesis
    by (auto simp: view_def)
next
  case False
  then show ?thesis
    using failed [OF _ assms(2)] by (intro view_cong) simp
qed

lemma view_insert:
  assumes "fits t vs" "run Q (Insert (insert_text t vs)) d = (rc, d')"
  shows "view rows d' = (if rc = 0 then (view rows d)(t := row_insert vs (view rows d t)) else view rows d)"
  using view_cong [OF not_inserted [OF assms]] view_changes [OF inserted [OF assms(1)]] assms(2) by auto

lemma view_stmt:
  assumes "stmt_ok st" "run Q st d = (rc, d')"
  shows "view rows d' = (if rc = 0 then stmt_rows st (view rows d) else view rows d)"
proof (cases "rc = 0")
  case True
  obtain t c n k where "st = Update t c n k \<and> int_column t c \<or> st = Delete t k \<and> t \<in> dom columns"
    using assms(1) unfolding stmt_ok_def by blast
  then show ?thesis
  proof (elim disjE conjE)
    assume st: "st = Update t c n k" and "int_column t c"
    then show ?thesis
      using view_changes [OF updated [OF \<open>int_column t c\<close>]] assms(2) True by simp
  next
    assume st: "st = Delete t k" and "t \<in> dom columns"
    then show ?thesis
      using view_changes [OF deleted [OF \<open>t \<in> dom columns\<close>]] assms(2) True by simp
  qed
next
  case False
  then show ?thesis
    using view_cong [OF failed [OF stmt_okD [OF assms(1)] assms(2)]] by simp
qed

text \<open>Reading changes no table, and finds rows of the table.\<close>

lemma table_read:
  assumes "cr \<in> dom columns"
  shows "table Q rows (snd (db_read Q p cr t c f)) q = table Q rows f q"
proof -
  obtain rc d where e: "run Q (Create cr) (opened Q p f) = (rc, d)" by fastforce
  have "view rows d = table Q rows f p"
    using view_create [OF assms e] by (simp add: table_def)
  then show ?thesis
    using e by (cases "p = q") (auto simp: db_read_def table_here table_other)
qed

lemma read_finds:
  assumes "cr \<in> dom columns" "t \<in> dom columns" "fst (db_read Q p cr t c f) = Some a"
  shows "\<exists>x. find (cond_holds c) (table Q rows f p t) = Some x \<and> a = dec_int (fst x) # snd x"
proof -
  obtain rc d where e: "run Q (Create cr) (opened Q p f) = (rc, d)" by fastforce
  have "view rows d = table Q rows f p"
    using view_create [OF assms(1) e] by (simp add: table_def)
  moreover have "get_table Q t c d = Some a"
    using assms(3) by (simp add: db_read_def e split: if_splits)
  ultimately show ?thesis
    using found [OF assms(2), of c d a] by (auto simp: view_def table_def dest: fun_cong [of _ _ t])
qed

text \<open>A statement on existing rows has its effect or none, and an insertion appends its row or nothing.\<close>

lemma table_exec:
  assumes "stmt_ok st"
  shows "table Q rows (snd (db_exec Q p st f)) p \<in> {table Q rows f p, stmt_rows st (table Q rows f p)}"
  using view_stmt [OF assms, of "opened Q p f"]
  by (auto simp: db_exec_def table_here table_def [symmetric] split: prod.split)

lemma table_write:
  assumes "cr \<in> dom columns" "fits t vs"
  shows "table Q rows (snd (db_write Q p (insert_text t vs) cr f)) p
    \<in> {table Q rows f p, (table Q rows f p)(t := row_insert vs (table Q rows f p t))}"
proof -
  obtain rc d where e: "run Q (Create cr) (opened Q p f) = (rc, d)" by fastforce
  obtain rc' d' where e': "run Q (Insert (insert_text t vs)) d = (rc', d')" by fastforce
  have "view rows d = table Q rows f p"
    using view_create [OF assms(1) e] by (simp add: table_def)
  then show ?thesis
    using view_insert [OF assms(2) e'] by (auto simp: db_write_def e e' table_here)
qed

text \<open>
  A record with an apostrophe in a name: its insertion is not a statement, nothing is stored,
  whatever the result.
\<close>

lemma table_write_unclosed:
  assumes "cr \<in> dom columns" "t \<in> dom columns" "unclosed vs"
  shows "table Q rows (snd (db_write Q p (insert_text t vs) cr f)) p = table Q rows f p"
proof -
  obtain rc d where e: "run Q (Create cr) (opened Q p f) = (rc, d)" by fastforce
  obtain rc' d' where e': "run Q (Insert (insert_text t vs)) d = (rc', d')" by fastforce
  have "view rows d = table Q rows f p"
    using view_create [OF assms(1) e] by (simp add: table_def)
  moreover have "view rows d' = view rows d"
    using not_closed [OF assms(2,3) e'] by (intro view_cong) simp
  ultimately show ?thesis
    by (auto simp: db_write_def e e' table_here)
qed

end

context sqlite_works
begin

lemma run_create: "t \<in> dom columns \<Longrightarrow> run Q (Create t) d = (rc, d') \<Longrightarrow> rc \<in> {0, 1} \<and> rows d' t \<noteq> None"
proof -
  assume t: "t \<in> dom columns" and e: "run Q (Create t) d = (rc, d')"
  have rc: "rc = (if rows d t = None then 0 else 1)"
    using create_ok [OF t, of d] by (simp add: e)
  show ?thesis
  proof (cases "rows d t = None")
    case True
    then have "run Q (Create t) d = (0, d')"
      using e rc by simp
    then have "rows d' = (rows d)(t \<mapsto> [])"
      using created [OF t] by blast
    then show ?thesis
      using rc True by simp
  next
    case False
    then show ?thesis
      using failed [OF _ e] rc by simp
  qed
qed

lemma db_read_eq:
  assumes "t \<in> dom columns"
  obtains d where "db_read Q p t t c f = (map_option (\<lambda>(i, r). dec_int i # r) (find (cond_holds c) (table Q rows f p t)), f(p \<mapsto> d))"
    "view rows d = table Q rows f p"
proof -
  obtain rc d where e: "run Q (Create t) (opened Q p f) = (rc, d)" by fastforce
  have "rc \<in> {0, 1}" "rows d t \<noteq> None"
    using run_create [OF assms e] by blast+
  moreover have v: "view rows d = table Q rows f p"
    using view_create [OF assms e] by (simp add: table_def)
  moreover obtain xs where xs: "rows d t = Some xs"
    using \<open>rows d t \<noteq> None\<close> by blast
  have "table Q rows f p t = xs"
    by (simp add: v [symmetric] view_def xs)
  then have "get_table Q t c d = map_option (\<lambda>(i, r). dec_int i # r) (find (cond_holds c) (table Q rows f p t))"
    using get_ok [OF xs assms, of c] by simp
  then show ?thesis
    using \<open>rc \<in> {0, 1}\<close> v by (intro that [of d]) (auto simp: db_read_def opens e)
qed

lemma db_exec_eq:
  assumes "stmt_ok st" "table Q rows f p (stmt_table st) \<noteq> []"
  obtains d where "db_exec Q p st f = (0, f(p \<mapsto> d))" "view rows d = stmt_rows st (table Q rows f p)"
proof -
  obtain rc d where e: "run Q st (opened Q p f) = (rc, d)" by fastforce
  have "rows (opened Q p f) (stmt_table st) \<noteq> None"
    using assms(2) by (cases "rows (opened Q p f) (stmt_table st)") (simp_all add: table_def view_def)
  moreover obtain t c n k where "st = Update t c n k \<and> int_column t c \<or> st = Delete t k \<and> t \<in> dom columns"
    using assms(1) unfolding stmt_ok_def by blast
  ultimately have "fst (run Q st (opened Q p f)) = 0"
    using update_ok [of "opened Q p f" t c n k] delete_ok [of "opened Q p f" t k] by (elim disjE conjE) simp_all
  then have "rc = 0"
    by (simp add: e)
  then show ?thesis
    using view_stmt [OF assms(1) e] by (intro that [of d]) (auto simp: db_exec_def opens e table_def)
qed

lemma db_write_eq:
  assumes "fits t vs"
  obtains d where "db_write Q p (insert_text t vs) t f = (0, f(p \<mapsto> d))"
    "view rows d = (table Q rows f p)(t := row_insert vs (table Q rows f p t))"
proof -
  have t: "t \<in> dom columns"
    using fitsD [OF assms] by blast
  obtain rc d where e: "run Q (Create t) (opened Q p f) = (rc, d)" by fastforce
  obtain rc' d' where e': "run Q (Insert (insert_text t vs)) d = (rc', d')" by fastforce
  have c: "rc \<in> {0, 1}" "rows d t \<noteq> None" "view rows d = table Q rows f p"
    using run_create [OF t e] view_create [OF t e] by (auto simp: table_def)
  then have "rc' = 0"
    using insert_ok [OF c(2) assms] by (simp add: e')
  then show ?thesis
    using view_insert [OF assms e'] c by (intro that [of d']) (auto simp: db_write_def opens e e')
qed

end

lemma db_frame:
  assumes "p \<noteq> q"
  shows "snd (db_read Q q cr t c f) p = f p" "snd (db_exec Q q st f) p = f p"
    "snd (db_write Q q ins cr f) p = f p"
  using assms by (simp_all add: db_read_def db_exec_def db_write_def Let_def split: prod.split)

lemma index_frame:
  assumes "p \<noteq> q"
  shows "snd (index_first Q q t b df f) p = f p" "snd (index_add_flags Q q a b' df f) p = f p"
    "snd (db_write_DB_file Q q df f) p = f p" "snd (db_read_DB_file Q q c f) p = f p"
  using db_frame [OF assms, of Q]
  by (auto simp: index_first_def index_add_flags_def db_read_DB_file_def db_write_DB_file_def
      db_update_records_def Let_def split: prod.splits option.splits) (metis snd_conv)+

lemma save_index_frame:
  "p \<noteq> DB_NAME_FLOW_RECORDS \<Longrightarrow> dbs (save_index Q q r s) p = dbs s p \<and> mq_flow (save_index Q q r s) = mq_flow s"
  using index_frame [of p DB_NAME_FLOW_RECORDS Q]
  by (auto simp: save_index_def Let_def split: prod.splits) (metis snd_conv)+

lemma table_cong: "f p = g p \<Longrightarrow> table Q rows f p = table Q rows g p"
  by (simp add: table_def opened_def)

lemma dec_last: "\<exists>s c. dec v = s @ [c] \<and> is_digit c"
  by (cases "v < 10") (auto simp: dec.simps [of v])

lemma hour_db_name_digit: "\<exists>s c. hour_db_name dir t = s @ c # ''.db'' \<and> is_digit c"
proof -
  obtain s c where "dec (nat \<bar>tm_hour t\<bar>) = s @ [c]" "is_digit c"
    using dec_last by blast
  then show ?thesis
    by (auto simp: hour_db_name_def dec_pad_def Let_def)
qed

lemma hour_db_not_index: "hour_db_name dir t \<notin> {DB_NAME_FLOW_RECORDS, DB_NAME_FLOW_PEDESTRIAN}"
proof -
  obtain s c where h: "hour_db_name dir t = s @ c # ''.db''" "is_digit c"
    using hour_db_name_digit by blast
  have "rev (hour_db_name dir t) ! 3 = c"
    by (simp add: h)
  moreover have "rev DB_NAME_FLOW_RECORDS ! 3 = CHR ''w''" "rev DB_NAME_FLOW_PEDESTRIAN ! 3 = CHR ''n''"
    by (simp_all add: DB_NAME_FLOW_RECORDS_def DB_NAME_FLOW_PEDESTRIAN_def)
  ultimately show ?thesis
    using h(2) by (auto simp: is_digit_def)
qed

text \<open>The data base of the hour of some statistics.\<close>

definition flow_db :: "string \<Rightarrow> vehicle_flow \<Rightarrow> string" where
  "flow_db path st = hour_db_name (path @ ''/DB/traffic_flow'') (statisticTime st)"

lemma flow_db_not_index: "flow_db path st \<noteq> DB_NAME_FLOW_RECORDS"
  "hour_db_name (path @ ''/DB/traffic_flow'') (statisticTime st) = flow_db path st"
  using hour_db_not_index [of "path @ ''/DB/traffic_flow''" "statisticTime st"] by (simp_all add: flow_db_def)

lemma save_eq:
  assumes "mk (path @ ''/DB'')" "mk (path @ ''/DB/traffic_flow'')"
  shows "save_traffic_flow_info Q mk r st path s =
     (let s1 = save_index Q (flow_db path st) r s;
          (rc, f) = db_write Q (flow_db path st) (db_format_insert_sql_traffic_flow r) ''traffic_flow'' (dbs s1)
      in (if rc \<noteq> 0 then - 1 else 0, s1\<lparr>dbs := f\<rparr>))"
  using assms by (simp add: save_traffic_flow_info_def Let_def flow_db_not_index(2) db_write_flow_records_def split: prod.split)

context sqlite_laws
begin

text \<open>Whatever fails, saving a record appends its row to the data base of the hour or nothing.\<close>

lemma save_row:
  assumes "fits ''traffic_flow'' (flow_row r)"
  shows "table Q rows (dbs (snd (save_traffic_flow_info Q mk r st path s))) (flow_db path st) ''traffic_flow'' \<in>
    {table Q rows (dbs s) (flow_db path st) ''traffic_flow'',
     row_insert (flow_row r) (table Q rows (dbs s) (flow_db path st) ''traffic_flow'')}"
proof (cases "mk (path @ ''/DB'') \<and> mk (path @ ''/DB/traffic_flow'')")
  case True
  let ?p = "flow_db path st" and ?s = "save_index Q (flow_db path st) r s"
  let ?w = "db_write Q ?p (insert_text ''traffic_flow'' (flow_row r)) ''traffic_flow'' (dbs ?s)"
  have "dbs ?s ?p = dbs s ?p"
    using save_index_frame [OF flow_db_not_index(1)] by blast
  then have "table Q rows (dbs ?s) ?p = table Q rows (dbs s) ?p"
    by (rule table_cong)
  moreover have "table Q rows (snd ?w) ?p
      \<in> {table Q rows (dbs ?s) ?p, (table Q rows (dbs ?s) ?p)(''traffic_flow'' := row_insert (flow_row r) (table Q rows (dbs ?s) ?p ''traffic_flow''))}"
    by (rule table_write) (simp_all add: assms)
  moreover have "dbs (snd (save_traffic_flow_info Q mk r st path s)) = snd ?w"
    using True by (simp add: save_eq db_format_insert_sql_traffic_flow_def Let_def split: prod.split)
  ultimately show ?thesis
    by auto
qed (simp add: save_traffic_flow_info_def)

end

context sqlite_works
begin

lemma write_unclosed:
  assumes "t \<in> dom columns" "unclosed vs"
  shows "fst (db_write Q p (insert_text t vs) t f) = 0"
proof -
  obtain rc d where e: "run Q (Create t) (opened Q p f) = (rc, d)" by fastforce
  show ?thesis
    using run_create [OF assms(1) e] error_ok [OF assms, of d]
    by (auto simp: db_write_def opens e split: prod.split)
qed

lemma save_stores:
  assumes "\<forall>d. mk d" "fits ''traffic_flow'' (flow_row r)"
  obtains s' where "save_traffic_flow_info Q mk r st path s = (0, s')"
    "table Q rows (dbs s') (flow_db path st) ''traffic_flow'' =
       row_insert (flow_row r) (table Q rows (dbs s) (flow_db path st) ''traffic_flow'')"
    "mq_flow s' = mq_flow s" "dbs s' (flow_db path st) \<noteq> None"
    "table Q rows (dbs s') DB_NAME_FLOW_RECORDS = table Q rows (dbs (save_index Q (flow_db path st) r s)) DB_NAME_FLOW_RECORDS"
    "sf_db_file s' = sf_db_file (save_index Q (flow_db path st) r s)"
proof -
  let ?p = "flow_db path st"
  let ?s = "save_index Q ?p r s"
  have s1: "dbs ?s ?p = dbs s ?p" "mq_flow ?s = mq_flow s"
    using save_index_frame [OF flow_db_not_index(1)] by blast+
  obtain d where d: "db_write Q ?p (insert_text ''traffic_flow'' (flow_row r)) ''traffic_flow'' (dbs ?s) = (0, (dbs ?s)(?p \<mapsto> d))"
    "view rows d = (table Q rows (dbs ?s) ?p)(''traffic_flow'' := row_insert (flow_row r) (table Q rows (dbs ?s) ?p ''traffic_flow''))"
    by (rule db_write_eq [of "''traffic_flow''" "flow_row r" ?p "dbs ?s"]) (simp_all add: assms)
  have "save_traffic_flow_info Q mk r st path s = (0, ?s\<lparr>dbs := (dbs ?s)(?p \<mapsto> d)\<rparr>)"
    using assms(1) d(1) by (simp add: save_eq db_format_insert_sql_traffic_flow_def Let_def)
  then show ?thesis
    using s1 d(2) table_cong [of "dbs ?s" ?p "dbs s" Q rows] flow_db_not_index(1) [of path st]
    by (intro that [of "?s\<lparr>dbs := (dbs ?s)(?p \<mapsto> d)\<rparr>"]) (simp_all add: table_here table_other)
qed

end

section \<open>Nothing is lost while the queue is down\<close>

text \<open>
  The record of a lane, with the flags it is stored with: it is to be sent again exactly when it
  was to be sent and the queue did not take it.
\<close>

definition send_fails :: "flow_env \<Rightarrow> flow_cfg \<Rightarrow> DB_TrafficFlow \<Rightarrow> bool" where
  "send_fails e cfg r \<longleftrightarrow> upload_flow cfg = 1 \<and>
     (mq_status e < 0 \<or> mq_send e (format_mq_text_traffic_flow_motor_vehicle r) < 0)"

definition lane_record :: "flow_env \<Rightarrow> flow_cfg \<Rightarrow> vehicle_flow \<Rightarrow> nat \<Rightarrow> DB_TrafficFlow" where
  "lane_record e cfg st i = (let r = analyze_traffic_flow_motor_vehicle_info cfg st i
     in r\<lparr>flag_send := of_bool (send_fails e cfg r), flag_store := disk_save_flow cfg\<rparr>)"

definition lane_stored :: "flow_env \<Rightarrow> flow_cfg \<Rightarrow> vehicle_flow \<Rightarrow> nat \<Rightarrow> bool" where
  "lane_stored e cfg st i \<longleftrightarrow> flag_send (lane_record e cfg st i) = 1 \<or> disk_save_flow cfg = 1"

text \<open>The lanes whose records are stored when the disk and the data base work.\<close>

abbreviation lanes_to_store :: "flow_env \<Rightarrow> flow_cfg \<Rightarrow> vehicle_flow \<Rightarrow> nat list" where
  "lanes_to_store e cfg st \<equiv> filter (lane_stored e cfg st) [0..<nat (laneNum st)]"

lemma plain_lane_record: "plain_names cfg \<Longrightarrow> plain (flow_row (lane_record e cfg st i))"
  by (simp add: plain_names_def plain_def flow_row_def lane_record_def analyze_traffic_flow_motor_vehicle_info_def
      Let_def plain_dec_int plain_time_text EP_DEV_NAME_def) (simp add: apos_def)

lemma fits_lane_record:
  assumes "plain_names cfg" "int_stats cfg st" "i < nat (laneNum st)"
  shows "fits ''traffic_flow'' (flow_row (lane_record e cfg st i))"
proof -
  have "int_lane (vehicleFlowLane st ! i)" "c_int (EP_DIRECTION cfg)" "c_int (disk_save_flow cfg)"
    using assms(2,3) by (simp_all add: int_stats_def)
  then show ?thesis
    using plain_lane_record [OF assms(1)] unfolding fits_flow_row
    by (simp add: lane_record_def analyze_traffic_flow_motor_vehicle_info_def int_lane_def Let_def) (simp add: c_int_def)
qed

lemma process_lane_eq:
  assumes "partition e = Some path"
  obtains s1 where "process_lane Q e cfg st i s =
     (if lane_stored e cfg st i then snd (save_traffic_flow_info Q (mkdirs e) (lane_record e cfg st i) st path s1) else s1)"
    "dbs s1 = dbs s"
proof -
  let ?r = "analyze_traffic_flow_motor_vehicle_info cfg st i"
  define s1 where "s1 = (if upload_flow cfg = 1 then snd (send_traffic_flow_motor_vehicle e ?r s) else s)"
  have "dbs s1 = dbs s"
    by (simp add: s1_def send_traffic_flow_motor_vehicle_def Let_def)
  moreover have "process_lane Q e cfg st i s =
     (if lane_stored e cfg st i then snd (save_traffic_flow_info Q (mkdirs e) (lane_record e cfg st i) st path s1) else s1)"
    by (auto simp: process_lane_def lane_stored_def lane_record_def send_fails_def s1_def assms
        send_traffic_flow_motor_vehicle_def Let_def)
  ultimately show ?thesis
    using that by blast
qed

lemma process_lane_no_disk: "partition e = None \<Longrightarrow> dbs (process_lane Q e cfg st i s) = dbs s"
  by (simp add: process_lane_def send_traffic_flow_motor_vehicle_def Let_def)

context sqlite_laws
begin

lemma lane_eq:
  assumes "plain_names cfg" "int_stats cfg st" "i < nat (laneNum st)" "partition e = Some path"
  shows "\<exists>ks js. table Q rows (dbs (process_lane Q e cfg st i s)) (flow_db path st) ''traffic_flow'' =
      table Q rows (dbs s) (flow_db path st) ''traffic_flow'' @ zip ks (map (flow_row \<circ> lane_record e cfg st) js) \<and>
    length ks = length js \<and> subseq js (filter (lane_stored e cfg st) [i]) \<and>
    (sqlite_works Q rows \<and> (\<forall>d. mkdirs e d) \<longrightarrow> js = filter (lane_stored e cfg st) [i])"
proof -
  let ?T = "\<lambda>s. table Q rows (dbs s) (flow_db path st) ''traffic_flow''" and ?r = "lane_record e cfg st i"
  obtain s1 where s1: "process_lane Q e cfg st i s =
     (if lane_stored e cfg st i then snd (save_traffic_flow_info Q (mkdirs e) ?r st path s1) else s1)" "dbs s1 = dbs s"
    by (rule process_lane_eq [OF assms(4)])
  note p = fits_lane_record [OF assms(1-3), of e]
  consider (no) "\<not> lane_stored e cfg st i" | (row) "lane_stored e cfg st i" "?T (process_lane Q e cfg st i s) = row_insert (flow_row ?r) (?T s)"
    | (same) "lane_stored e cfg st i" "?T (process_lane Q e cfg st i s) = ?T s" "\<not> (sqlite_works Q rows \<and> (\<forall>d. mkdirs e d))"
    using save_row [OF p, of "mkdirs e" st path s1] sqlite_works.save_stores [of Q rows "mkdirs e" ?r st path s1, OF _ _ p] s1
    by (cases "lane_stored e cfg st i") (simp, metis insertE singletonD snd_conv)
  then show ?thesis
  proof cases
    case no
    then show ?thesis
      using s1 by (intro exI [of _ "[]"]) simp
  next
    case row
    then show ?thesis
      by (intro exI [of _ "[next_id (?T s)]"] exI [of _ "[i]"]) (simp add: row_insert_def)
  next
    case same
    then show ?thesis
      by (intro exI [of _ "[]"]) simp
  qed
qed

lemma lanes_eq:
  assumes "plain_names cfg" "int_stats cfg st" "set is \<subseteq> {..<nat (laneNum st)}" "partition e = Some path"
  shows "\<exists>ks js. table Q rows (dbs (fold (process_lane Q e cfg st) is s)) (flow_db path st) ''traffic_flow'' =
      table Q rows (dbs s) (flow_db path st) ''traffic_flow'' @ zip ks (map (flow_row \<circ> lane_record e cfg st) js) \<and>
    length ks = length js \<and> subseq js (filter (lane_stored e cfg st) is) \<and>
    (sqlite_works Q rows \<and> (\<forall>d. mkdirs e d) \<longrightarrow> js = filter (lane_stored e cfg st) is)"
  using assms(3)
proof (induction "is" arbitrary: s)
  case Nil
  then show ?case by (intro exI [of _ "[]"]) simp
next
  case (Cons i "is")
  let ?T = "\<lambda>s. table Q rows (dbs s) (flow_db path st) ''traffic_flow''"
    and ?row = "flow_row \<circ> lane_record e cfg st" and ?ok = "sqlite_works Q rows \<and> (\<forall>d. mkdirs e d)"
  have i: "i < nat (laneNum st)" and "is": "set is \<subseteq> {..<nat (laneNum st)}"
    using Cons.prems by simp_all
  obtain ks js where 1: "?T (process_lane Q e cfg st i s) = ?T s @ zip ks (map ?row js)" "length ks = length js"
    "subseq js (filter (lane_stored e cfg st) [i])" "?ok \<Longrightarrow> js = filter (lane_stored e cfg st) [i]"
    using lane_eq [OF assms(1,2) i assms(4), of s] by blast
  obtain ks' js' where 2: "?T (fold (process_lane Q e cfg st) is (process_lane Q e cfg st i s))
      = ?T (process_lane Q e cfg st i s) @ zip ks' (map ?row js')" "length ks' = length js'"
    "subseq js' (filter (lane_stored e cfg st) is)" "?ok \<Longrightarrow> js' = filter (lane_stored e cfg st) is"
    using Cons.IH [OF "is", of "process_lane Q e cfg st i s"] by blast
  have f: "filter (lane_stored e cfg st) (i # is) = filter (lane_stored e cfg st) [i] @ filter (lane_stored e cfg st) is"
    by simp
  show ?case
    unfolding f using 1 2 list_emb_append_mono [OF 1(3) 2(3)]
    by (intro exI [of _ "ks @ ks'"] exI [of _ "js @ js'"]) (simp add: comp_def)
qed

end

text \<open>
  C35. When the statistics of a period are processed, every lane whose record the queue did not take,
  or every lane if storing is configured, is to be stored, flagged to be sent again exactly when the
  transmission failed. Without a mounted partition nothing is stored. With one, whatever the data base
  and the making of directories return, the data base of the hour keeps its rows and grows by the records of some of these
  lanes, in their order and each once; and if directories can be made and the data base works, by the
  records of all of them. (The configured names have no apostrophes, see \<open>apostrophe_loses_the_record\<close>,
  and the numbers are C integers.)
\<close>

theorem flow_records_are_stored:
  assumes "sqlite_laws Q rows" "statisticReady st \<noteq> 0" "0 < laneNum st" "laneNum st \<le> int max_lane" "plain_names cfg" "int_stats cfg st"
  shows "\<exists>s'. process_traffic_flow_motor_vehicles max_lane Q e cfg st s = (0, s') \<and>
    (case partition e of
       None \<Rightarrow> dbs s' = dbs s
     | Some path \<Rightarrow> \<exists>ks js.
         table Q rows (dbs s') (flow_db path st) ''traffic_flow'' =
           table Q rows (dbs s) (flow_db path st) ''traffic_flow'' @ zip ks (map (flow_row \<circ> lane_record e cfg st) js) \<and>
         length ks = length js \<and> subseq js (lanes_to_store e cfg st) \<and>
         (sqlite_works Q rows \<and> (\<forall>d. mkdirs e d) \<longrightarrow> js = lanes_to_store e cfg st))"
proof -
  let ?is = "[0..<nat (laneNum st)]"
  have "dbs (fold (process_lane Q e cfg st) is s) = dbs s" if "partition e = None" for "is"
    by (induction "is" arbitrary: s) (simp_all add: process_lane_no_disk [OF that])
  then show ?thesis
    using sqlite_laws.lanes_eq [OF assms(1,5,6), of ?is e _ s] assms(2-4)
    by (intro exI [of _ "fold (process_lane Q e cfg st) ?is s"])
      (simp add: process_traffic_flow_motor_vehicles_def atLeast0LessThan split: option.split)
qed

text \<open>
  A configured name with an apostrophe: with a working data base and disk, storing a record reports
  success, but the insertion is no statement of the data base and the record is lost.
\<close>

theorem apostrophe_loses_the_record:
  assumes "sqlite_works Q rows" "\<forall>d. mk d" "unclosed (flow_row r)"
  shows "\<exists>s'. save_traffic_flow_info Q mk r st path s = (0, s') \<and>
    table Q rows (dbs s') (flow_db path st) = table Q rows (dbs s) (flow_db path st)"
proof -
  let ?p = "flow_db path st" and ?s = "save_index Q (flow_db path st) r s"
  note laws = sqlite_works.axioms(1) [OF assms(1)]
  have "dbs ?s ?p = dbs s ?p"
    using save_index_frame [OF flow_db_not_index(1)] by blast
  then have "table Q rows (dbs ?s) ?p = table Q rows (dbs s) ?p"
    by (rule table_cong)
  moreover obtain rc f where w: "db_write Q ?p (insert_text ''traffic_flow'' (flow_row r)) ''traffic_flow'' (dbs ?s) = (rc, f)"
    by fastforce
  moreover have "table Q rows f ?p = table Q rows (dbs ?s) ?p"
    using sqlite_laws.table_write_unclosed [OF laws in_tables(2) in_tables(2) assms(3), of ?p "dbs ?s"] by (simp add: w)
  moreover have "rc = 0"
    using sqlite_works.write_unclosed [OF assms(1) in_tables(2) assms(3), of ?p "dbs ?s"] by (simp add: w)
  ultimately show ?thesis
    using assms(2) by (simp add: save_eq db_format_insert_sql_traffic_flow_def Let_def)
qed

section \<open>A data base is sent completely\<close>

abbreviation flagged_after :: "int \<Rightarrow> rows \<Rightarrow> rows" where
  "flagged_after k xs \<equiv> filter (cond_holds (ID_gt_and_pos k flow_flag_send)) xs"

definition row_text :: "int \<times> string list \<Rightarrow> string" where
  "row_text x = (case x of (i, r) \<Rightarrow> format_mq_text_traffic_flow_motor_vehicle (db_unformat_read_sql_traffic_flow (dec_int i # r)))"

text \<open>Rows that \<open>save_traffic_flow_info\<close> can have written.\<close>

definition row_ok :: "string list \<Rightarrow> bool" where
  "row_ok r \<longleftrightarrow> (\<exists>x. r = flow_row x \<and> flag_send x \<in> {0, 1})"

definition rows_ok :: "rows \<Rightarrow> bool" where
  "rows_ok xs \<longleftrightarrow> (\<forall>x \<in> set xs. row_ok (snd x))"

lemma find_filter: "find P xs = (case filter P xs of [] \<Rightarrow> None | x # ys \<Rightarrow> Some x)"
  by (induction xs) auto

lemma flagged_tail:
  assumes "sorted_wrt (<) (map fst xs)" "flagged_after k xs = (i, r) # ps"
  shows "flagged_after i xs = ps"
  using assms
proof (induction xs)
  case (Cons x xs)
  obtain j q where x: "x = (j, q)" by force
  show ?case
  proof (cases "cond_holds (ID_gt_and_pos k flow_flag_send) x")
    case True
    then have "flagged_after k xs = ps" "j = i" "k < i"
      using Cons.prems(2) x by auto
    moreover have "flagged_after i xs = flagged_after k xs"
      using Cons.prems(1) \<open>j = i\<close> \<open>k < i\<close> x by (intro filter_cong) auto
    ultimately show ?thesis
      using x by simp
  next
    case False
    then have "flagged_after k xs = (i, r) # ps"
      using Cons.prems(2) by simp
    moreover from this have "(i, r) \<in> set (flagged_after k xs)"
      by simp
    then have "k < i" "(i, r) \<in> set xs"
      by auto
    then have "\<not> cond_holds (ID_gt_and_pos i flow_flag_send) x"
      using Cons.prems(1) False x by auto
    ultimately show ?thesis
      using Cons by auto
  qed
qed simp

lemma flagged_cleared:
  "flagged_after k (row_update c n k xs) = flagged_after k xs"
  "flagged_after k (row_delete k xs) = flagged_after k xs"
  by (induction xs) (auto simp: row_update_def row_delete_def split: if_splits)

lemma dec_int_0: "dec_int 0 = ''0''"
  by code_simp

lemma flow_row_clear: "(flow_row x)[flow_flag_send - 1 := dec_int 0] = flow_row (x\<lparr>flag_send := 0\<rparr>)"
  by (simp add: flow_row_def flow_flag_send_def)

lemma row_ok_clear: "row_ok r \<Longrightarrow> row_ok (r[flow_flag_send - 1 := dec_int 0])"
proof -
  assume "row_ok r"
  then obtain x where "r = flow_row x" by (auto simp: row_ok_def)
  then show ?thesis
    unfolding row_ok_def by (intro exI [of _ "x\<lparr>flag_send := 0\<rparr>"]) (simp add: flow_row_clear del: One_nat_def)
qed

lemma rows_ok_clear:
  "rows_ok xs \<Longrightarrow> rows_ok (row_update flow_flag_send 0 k xs)"
  "rows_ok xs \<Longrightarrow> rows_ok (row_delete k xs)"
  using row_ok_clear by (auto simp: rows_ok_def row_update_def row_delete_def split: if_splits)

text \<open>
  The situation that an uploading function works on: the index record \<open>(k, ir)\<close> is the first one with
  something to send and names the data base \<open>p\<close>, whose rows are \<open>xs\<close>.
\<close>

definition uploading :: "'d sqlite \<Rightarrow> ('d \<Rightarrow> string \<Rightarrow> rows option) \<Rightarrow> int \<times> string list \<Rightarrow> string \<Rightarrow> rows \<Rightarrow> rows \<Rightarrow> (string \<Rightarrow> 'd option) \<Rightarrow> bool" where
  "uploading Q rows x p idx xs f \<longleftrightarrow> p \<noteq> DB_NAME_FLOW_RECORDS \<and> snd x ! 2 = p \<and>
     table Q rows f DB_NAME_FLOW_RECORDS ''DB_files'' = idx \<and>
     find (cond_holds (ID_gt_and_pos 0 files_flag_send)) idx = Some x \<and>
     table Q rows f p ''traffic_flow'' = xs \<and> rows_ok xs"

definition queue_up :: "flow_env \<Rightarrow> flow_cfg \<Rightarrow> bool" where
  "queue_up e cfg \<longleftrightarrow> is_resume_statistics cfg \<noteq> 0 \<and> mq_status e = 0 \<and> (\<forall>t. mq_send e t = 0)"

context sqlite_works
begin

lemma read_index:
  assumes "uploading Q rows (k, ir) p idx xs f"
  obtains f' where "db_read_DB_file Q DB_NAME_FLOW_RECORDS (ID_gt_and_pos 0 files_flag_send) f
      = (Some (db_unformat_read_sql_db_files (dec_int k # ir)), f')"
    "uploading Q rows (k, ir) p idx xs f'" "\<forall>q. q \<noteq> DB_NAME_FLOW_RECORDS \<longrightarrow> f' q = f q"
proof -
  obtain d where d: "db_read Q DB_NAME_FLOW_RECORDS ''DB_files'' ''DB_files'' (ID_gt_and_pos 0 files_flag_send) f
      = (map_option (\<lambda>(i, r). dec_int i # r)
          (find (cond_holds (ID_gt_and_pos 0 files_flag_send)) (table Q rows f DB_NAME_FLOW_RECORDS ''DB_files'')),
         f(DB_NAME_FLOW_RECORDS \<mapsto> d))" "view rows d = table Q rows f DB_NAME_FLOW_RECORDS"
    by (rule db_read_eq [OF in_tables(1)])
  show ?thesis
    using assms d
    by (intro that [of "f(DB_NAME_FLOW_RECORDS \<mapsto> d)"])
      (auto simp: db_read_DB_file_def uploading_def table_here table_other)
qed

lemma read_flow:
  assumes "uploading Q rows (k, ir) p idx xs f"
  obtains f' where "db_read_flow_records Q p (ID_gt_and_pos l flow_flag_send) f
      = (case flagged_after l xs of [] \<Rightarrow> None | (i, r) # _ \<Rightarrow> Some (db_unformat_read_sql_traffic_flow (dec_int i # r)), f')"
    "uploading Q rows (k, ir) p idx xs f'" "\<forall>q. q \<noteq> p \<longrightarrow> f' q = f q"
proof -
  obtain d where d: "db_read Q p ''traffic_flow'' ''traffic_flow'' (ID_gt_and_pos l flow_flag_send) f
      = (map_option (\<lambda>(i, r). dec_int i # r) (find (cond_holds (ID_gt_and_pos l flow_flag_send)) (table Q rows f p ''traffic_flow'')), f(p \<mapsto> d))"
    "view rows d = table Q rows f p"
    by (rule db_read_eq [OF in_tables(2)])
  show ?thesis
    using assms d
    by (intro that [of "f(p \<mapsto> d)"])
      (auto simp: db_read_flow_records_def uploading_def table_here table_other find_filter split: list.splits)
qed

lemma delete_flow:
  assumes "uploading Q rows x p idx xs f" "xs \<noteq> []"
  obtains f' xs' where "db_delete_flow_records Q p r f = (0, f')" "uploading Q rows x p idx xs' f'"
    "flagged_after (ID r) xs' = flagged_after (ID r) xs" "f' p \<noteq> None"
    "flag_store r \<noteq> 1 \<Longrightarrow> xs' = row_delete (ID r) xs" 
proof -
  let ?st = "if flag_store r = 1 then Update ''traffic_flow'' flow_flag_send 0 (ID r) else Delete ''traffic_flow'' (ID r)"
  obtain d where "db_exec Q p ?st f = (0, f(p \<mapsto> d))" "view rows d = stmt_rows ?st (table Q rows f p)"
    by (rule db_exec_eq [of ?st f p]) (use assms in \<open>auto simp: stmt_ok_def uploading_def split: if_splits\<close>)
  moreover have "rows_ok (stmt_rows ?st (table Q rows f p) ''traffic_flow'')"
    "flagged_after (ID r) (stmt_rows ?st (table Q rows f p) ''traffic_flow'') = flagged_after (ID r) xs"
    using assms rows_ok_clear [of xs "ID r"] flagged_cleared [of "ID r"]
    by (simp_all add: uploading_def)
  ultimately show ?thesis
    using assms
    by (intro that [of "f(p \<mapsto> d)" "stmt_rows ?st (table Q rows f p) ''traffic_flow''"])
      (auto simp: db_delete_flow_records_def uploading_def table_here table_other)
qed

lemma row_record:
  assumes "rows_ok xs" "(i, r) \<in> set xs"
  shows "ID (db_unformat_read_sql_traffic_flow (dec_int i # r)) = i"
    "flag_send (db_unformat_read_sql_traffic_flow (dec_int i # r)) \<in> {0, 1}"
    "atoi (r ! (flow_flag_send - 1)) = flag_send (db_unformat_read_sql_traffic_flow (dec_int i # r))"
proof -
  obtain x where "r = flow_row x" "flag_send x \<in> {0, 1}"
    using assms by (force simp: rows_ok_def row_ok_def)
  then show "ID (db_unformat_read_sql_traffic_flow (dec_int i # r)) = i"
    "flag_send (db_unformat_read_sql_traffic_flow (dec_int i # r)) \<in> {0, 1}"
    "atoi (r ! (flow_flag_send - 1)) = flag_send (db_unformat_read_sql_traffic_flow (dec_int i # r))"
    using flow_row_flag [of x] by (simp_all add: unformat_flow_row)
qed

lemma upload_step:
  assumes up: "uploading Q rows (k, ir) p idx xs (dbs s)" and q: "queue_up e cfg"
    and u: "ID_DB_file_last u = 0" and fl: "flagged_after (ID_record_last u) xs = (i, r) # ps"
  obtains s' xs' where "db_upload_flow_records Q e cfg (u, s) = (0, u\<lparr>ID_record_last := i\<rparr>, s')"
    "uploading Q rows (k, ir) p idx xs' (dbs s')" "flagged_after i xs' = ps"
    "mq_flow s' = row_text (i, r) # mq_flow s"
    "sf_first s' = sf_first s" "sf_db_file s' = sf_db_file s" "dbs s' p \<noteq> None"
    "flag_store (db_unformat_read_sql_traffic_flow (dec_int i # r)) \<noteq> 1 \<Longrightarrow> xs' = row_delete i xs"
proof -
  let ?x = "db_unformat_read_sql_traffic_flow (dec_int i # r)"
  have "(i, r) \<in> set (flagged_after (ID_record_last u) xs)"
    using fl by simp
  then have mem: "(i, r) \<in> set xs" "0 < atoi (r ! (flow_flag_send - 1))"
    by (auto simp del: One_nat_def)
  have ok: "rows_ok xs" "sorted_wrt (<) (map fst xs)" and pth: "ir ! 2 = p"
    using up view_keys(1) by (auto simp: uploading_def table_def)
  have one: "flag_send ?x = 1" "ID ?x = i"
    using row_record [OF ok(1) mem(1)] mem(2) by auto
  obtain f where f: "db_read_DB_file Q DB_NAME_FLOW_RECORDS (ID_gt_and_pos 0 files_flag_send) (dbs s)
      = (Some (db_unformat_read_sql_db_files (dec_int k # ir)), f)" "uploading Q rows (k, ir) p idx xs f"
    by (rule read_index [OF up])
  obtain f1 where f1: "db_read_flow_records Q p (ID_gt_and_pos (ID_record_last u) flow_flag_send) f = (Some ?x, f1)"
    "uploading Q rows (k, ir) p idx xs f1"
    by (rule read_flow [OF f(2), of "ID_record_last u"]) (simp add: fl)
  obtain f2 xs' where f2: "db_delete_flow_records Q p ?x f1 = (0, f2)" "uploading Q rows (k, ir) p idx xs' f2"
    "flagged_after i xs' = flagged_after i xs" "f2 p \<noteq> None"
    "flag_store ?x \<noteq> 1 \<Longrightarrow> xs' = row_delete i xs"
    by (rule delete_flow [OF f1(2), of ?x]) (use mem(1) in \<open>auto simp: one(2)\<close>)
  have path: "record_path (db_unformat_read_sql_db_files (dec_int k # ir)) = p"
    using pth by (simp add: db_unformat_read_sql_db_files_def)
  have "db_upload_flow_records Q e cfg (u, s)
      = (0, u\<lparr>ID_record_last := i\<rparr>, s\<lparr>dbs := f2, mq_flow := row_text (i, r) # mq_flow s\<rparr>)"
    using q f(1) f1(1) f2(1) one
    by (simp add: db_upload_flow_records_def queue_up_def u path send_traffic_flow_motor_vehicle_def row_text_def)
  then show ?thesis
    using f2 flagged_tail [OF ok(2) fl]
    by (intro that [of "s\<lparr>dbs := f2, mq_flow := row_text (i, r) # mq_flow s\<rparr>" xs']) simp_all
qed

lemma upload_finish:
  assumes up: "uploading Q rows (k, ir) p idx xs (dbs s)" and q: "queue_up e cfg"
    and u: "ID_DB_file_last u = 0" and fl: "flagged_after (ID_record_last u) xs = []"
  obtains s' where "db_upload_flow_records Q e cfg (u, s) = (- 1, reupload_init, s')"
    "mq_flow s' = mq_flow s"
    "table Q rows (dbs s') DB_NAME_FLOW_RECORDS ''DB_files'' =
       stmt_rows (if atoi (ir ! 4) = 1 then Update ''DB_files'' files_flag_send 0 k else Delete ''DB_files'' k)
         (\<lambda>_. idx) ''DB_files''"
    "atoi (ir ! 4) \<noteq> 1 \<Longrightarrow> dbs s' p = None"
proof -
  let ?df = "db_unformat_read_sql_db_files (dec_int k # ir)"
  let ?st = "if atoi (ir ! 4) = 1 then Update ''DB_files'' files_flag_send 0 k else Delete ''DB_files'' k"
  have pth: "ir ! 2 = p" "p \<noteq> DB_NAME_FLOW_RECORDS"
    using up by (auto simp: uploading_def)
  obtain f where f: "db_read_DB_file Q DB_NAME_FLOW_RECORDS (ID_gt_and_pos 0 files_flag_send) (dbs s) = (Some ?df, f)"
    "uploading Q rows (k, ir) p idx xs f"
    by (rule read_index [OF up])
  obtain f1 where f1: "db_read_flow_records Q p (ID_gt_and_pos (ID_record_last u) flow_flag_send) f = (None, f1)"
    "uploading Q rows (k, ir) p idx xs f1"
    by (rule read_flow [OF f(2), of "ID_record_last u"]) (simp add: fl)
  have df: "record_path ?df = p" "f_flag_store ?df = atoi (ir ! 4)" "f_ID ?df = k"
    using pth by (simp_all add: db_unformat_read_sql_db_files_def)
  define f2 where "f2 = (if atoi (ir ! 4) = 1 then f1 else f1(p := None))"
  have idx: "table Q rows f2 DB_NAME_FLOW_RECORDS ''DB_files'' = idx"
    using f1(2) pth(2) by (simp add: f2_def uploading_def table_other)
  have ne: "idx \<noteq> []"
    using up by (auto simp: uploading_def)
  obtain d where d: "db_exec Q DB_NAME_FLOW_RECORDS ?st f2 = (0, f2(DB_NAME_FLOW_RECORDS \<mapsto> d))"
    "view rows d = stmt_rows ?st (table Q rows f2 DB_NAME_FLOW_RECORDS)"
    by (rule db_exec_eq [of ?st f2 DB_NAME_FLOW_RECORDS]) (use idx ne in \<open>auto simp: stmt_ok_def split: if_splits\<close>)
  have "snd (db_delete_DB_file Q DB_NAME_FLOW_RECORDS ?df f1) = f2(DB_NAME_FLOW_RECORDS \<mapsto> d)"
    using d(1) by (simp add: db_delete_DB_file_def opens df f2_def split: if_splits)
  then have "db_upload_flow_records Q e cfg (u, s) = (- 1, reupload_init, s\<lparr>dbs := f2(DB_NAME_FLOW_RECORDS \<mapsto> d)\<rparr>)"
    using q f(1) f1(1) by (simp add: db_upload_flow_records_def queue_up_def u df reupload_init_def)
  moreover have "f2 p = None" if "atoi (ir ! 4) \<noteq> 1"
    using that by (simp add: f2_def)
  ultimately show ?thesis
    using d(2) pth(2) idx
    by (intro that [of "s\<lparr>dbs := f2(DB_NAME_FLOW_RECORDS \<mapsto> d)\<rparr>"]) (simp_all add: table_here)
qed

lemma upload_all:
  assumes "uploading Q rows (k, ir) p idx xs (dbs s)" "queue_up e cfg" "ID_DB_file_last u = 0"
    "flagged_after (ID_record_last u) xs = ps"
  shows "\<exists>s'. ((snd \<circ> db_upload_flow_records Q e cfg) ^^ Suc (length ps)) (u, s) = (reupload_init, s') \<and>
    mq_flow s' = rev (map row_text ps) @ mq_flow s \<and>
    table Q rows (dbs s') DB_NAME_FLOW_RECORDS ''DB_files'' =
       stmt_rows (if atoi (ir ! 4) = 1 then Update ''DB_files'' files_flag_send 0 k else Delete ''DB_files'' k)
         (\<lambda>_. idx) ''DB_files'' \<and>
    (atoi (ir ! 4) \<noteq> 1 \<longrightarrow> dbs s' p = None)"
  using assms
proof (induction ps arbitrary: u s xs)
  case Nil
  then show ?case
    by (elim upload_finish) auto
next
  case (Cons x ps)
  obtain i r where x: "x = (i, r)" by force
  obtain s1 xs' where "db_upload_flow_records Q e cfg (u, s) = (0, u\<lparr>ID_record_last := i\<rparr>, s1)"
    "uploading Q rows (k, ir) p idx xs' (dbs s1)" "flagged_after i xs' = ps"
    "mq_flow s1 = row_text (i, r) # mq_flow s"
    by (rule upload_step [OF Cons.prems(1-3), of i r ps]) (use Cons.prems(4) x in auto)
  then show ?case
    using Cons.IH [of xs' s1 "u\<lparr>ID_record_last := i\<rparr>"] Cons.prems(2, 3) x
    by (simp del: funpow.simps add: funpow_Suc_right del: stmt_rows.simps)
qed

end

text \<open>
  With the queue up, a data base is sent completely: if the first index record that has
  something to send names it, as many calls as it has flagged rows hand the texts of exactly these
  rows to the queue, in the order of their keys, and one more call finishes the index record: its
  flag is cleared if the data base is kept, and else record and data base are removed.
\<close>

theorem flow_data_base_is_sent:
  assumes "sqlite_works Q rows" "queue_up e cfg" "uploading Q rows (k, ir) p idx xs (dbs s)"
  shows "\<exists>s'. ((snd \<circ> db_upload_flow_records Q e cfg) ^^ Suc (length (flagged_after 0 xs))) (reupload_init, s) = (reupload_init, s') \<and>
    mq_flow s' = rev (map row_text (flagged_after 0 xs)) @ mq_flow s \<and>
    table Q rows (dbs s') DB_NAME_FLOW_RECORDS ''DB_files'' =
      (if atoi (ir ! 4) = 1 then map (\<lambda>(i, r). if i = k then (i, r[3 := ''0'']) else (i, r)) idx
       else filter (\<lambda>(i, r). i \<noteq> k) idx) \<and>
    (atoi (ir ! 4) \<noteq> 1 \<longrightarrow> dbs s' p = None)"
proof -
  have "stmt_rows (if atoi (ir ! 4) = 1 then Update ''DB_files'' files_flag_send 0 k else Delete ''DB_files'' k) (\<lambda>_. idx) ''DB_files'' =
      (if atoi (ir ! 4) = 1 then map (\<lambda>(i, r). if i = k then (i, r[3 := ''0'']) else (i, r)) idx
       else filter (\<lambda>(i, r). i \<noteq> k) idx)"
    by (auto simp: row_update_def row_delete_def files_flag_send_def dec_int_0)
  then show ?thesis
    using sqlite_works.upload_all [OF assms(1, 3, 2), of reupload_init "flagged_after 0 xs"]
    by (simp add: reupload_init_def)
qed

section \<open>Records that are lost\<close>

definition no_file :: DB_File where
  "no_file = \<lparr>f_ID = 0, record_type = 0, f_time = [], record_path = [], f_flag_send = 0, f_flag_store = 0\<rparr>"

definition flow_boot :: "'d flow_store" where
  "flow_boot = \<lparr>dbs = (\<lambda>_. None), mq_flow = [], mq_pedestrian = [], sf_db_file = no_file, sf_first = True,
     sp_db_file = no_file, sp_first = True\<rparr>"

definition index_row :: "DB_TrafficFlow \<Rightarrow> string \<Rightarrow> string list" where
  "index_row r p = [dec_int DB_TYPE_TRAFFIC_FLOW_MOTOR_VEHICLE, uptime r, p, dec_int (flag_send r), dec_int (flag_store r)]"

lemma plain_hour_db: "apos \<notin> set dir \<Longrightarrow> apos \<notin> set (hour_db_name dir t)"
  using plain_dec by (simp add: hour_db_name_def dec_pad_def apos_def Let_def)

lemma fits_index_row:
  assumes "plain (flow_row r)" "apos \<notin> set p" "c_int (flag_send r)" "c_int (flag_store r)"
  shows "fits ''DB_files'' (index_row r p)"
proof -
  have "plain (index_row r p)"
    using assms(1,2) by (simp add: plain_def index_row_def flow_row_def plain_dec_int)
  then show ?thesis
    using assms(3,4) by (simp add: fits_def columns_def index_row_def)
      (simp add: c_int_def DB_TYPE_TRAFFIC_FLOW_MOTOR_VEHICLE_def)
qed

context sqlite_works
begin

lemma update_no_row:
  assumes "st = Update ''DB_files'' c n 0" "int_column ''DB_files'' c"
  obtains f' where "db_update_records Q p st f = (0, f')" "table Q rows f' p ''DB_files'' = table Q rows f p ''DB_files''"
proof -
  have "stmt_ok st"
    using assms by (auto simp: stmt_ok_def)
  moreover have "row_update c n 0 (table Q rows f p ''DB_files'') = table Q rows f p ''DB_files''"
    using view_keys(2) [of _ "opened Q p f" "''DB_files''"]
    unfolding row_update_def by (intro map_idI) (force simp: table_def)
  ultimately have "table Q rows (snd (db_exec Q p st f)) p ''DB_files'' = table Q rows f p ''DB_files''"
    using table_exec [of st p f] assms(1) by auto
  then show ?thesis
    by (intro that [of "snd (db_exec Q p st f)"]) (simp_all add: db_update_records_def opens)
qed

lemma index_flags_known:
  assumes "f_flag_send df = 1 \<and> f_flag_store df = 0 \<or> df = no_file"
  shows "table Q rows (snd (index_add_flags Q p 1 0 df f)) p ''DB_files'' = table Q rows f p ''DB_files''"
proof (cases "df = no_file")
  case True
  obtain f' where "db_update_records Q p (Update ''DB_files'' files_flag_send 1 0) f = (0, f')"
    "table Q rows f' p ''DB_files'' = table Q rows f p ''DB_files''"
    by (rule update_no_row [OF refl int_columns(1)])
  then show ?thesis
    by (simp add: True index_add_flags_def no_file_def Let_def)
qed (use assms in \<open>simp add: index_add_flags_def Let_def\<close>)

lemma save_index_first:
  assumes "dbs s p = None" "table Q rows (dbs s) DB_NAME_FLOW_RECORDS ''DB_files'' = []" "fits ''DB_files'' (index_row r p)"
  shows "table Q rows (dbs (save_index Q p r s)) DB_NAME_FLOW_RECORDS ''DB_files'' = [(1, index_row r p)]"
    "sf_first (save_index Q p r s) = sf_first s" "sf_db_file (save_index Q p r s) = sf_db_file s"
proof -
  let ?w = "db_write Q DB_NAME_FLOW_RECORDS (insert_text ''DB_files'' (index_row r p)) ''DB_files'' (dbs s)"
  obtain d where "?w = (0, (dbs s)(DB_NAME_FLOW_RECORDS \<mapsto> d))"
    "view rows d = (table Q rows (dbs s) DB_NAME_FLOW_RECORDS)
       (''DB_files'' := row_insert (index_row r p) (table Q rows (dbs s) DB_NAME_FLOW_RECORDS ''DB_files''))"
    by (rule db_write_eq [OF assms(3)])
  then show "table Q rows (dbs (save_index Q p r s)) DB_NAME_FLOW_RECORDS ''DB_files'' = [(1, index_row r p)]"
    "sf_first (save_index Q p r s) = sf_first s" "sf_db_file (save_index Q p r s) = sf_db_file s"
    using assms(1,2)
    by (simp_all add: save_index_def db_write_DB_file_def db_format_insert_sql_db_files_def file_row_def index_row_def
        table_here next_id_def row_insert_def)
qed

lemma save_index_again:
  assumes "dbs s p \<noteq> None" "table Q rows (dbs s) DB_NAME_FLOW_RECORDS ''DB_files'' = [(1, index_row r p)]"
    "flag_send r = 1" "flag_store r = 0" "flag_send r' = 1" "flag_store r' = 0" "sf_db_file s = no_file"
  shows "table Q rows (dbs (save_index Q p r' s)) DB_NAME_FLOW_RECORDS ''DB_files'' = [(1, index_row r p)]"
proof -
  let ?I = DB_NAME_FLOW_RECORDS
  define df f where "df = fst (index_first Q ?I (uptime r') (sf_first s) (sf_db_file s) (dbs s))"
    and "f = snd (index_first Q ?I (uptime r') (sf_first s) (sf_db_file s) (dbs s))"
  let ?c = "Text_ge files_time (case get_hour_start (uptime r') of Some h \<Rightarrow> h | None \<Rightarrow> [])"
  obtain d where d: "db_read Q ?I ''DB_files'' ''DB_files'' ?c (dbs s)
      = (map_option (\<lambda>(i, r). dec_int i # r) (find (cond_holds ?c) (table Q rows (dbs s) ?I ''DB_files'')), (dbs s)(?I \<mapsto> d))"
    "view rows d = table Q rows (dbs s) ?I"
    by (rule db_read_eq [OF in_tables(1)])
  have df: "f_flag_send df = 1 \<and> f_flag_store df = 0 \<or> df = no_file"
    and f: "table Q rows f ?I ''DB_files'' = [(1, index_row r p)]"
    using assms d
    by (auto simp: df_def f_def index_first_def db_read_DB_file_def db_unformat_read_sql_db_files_def
        index_row_def table_here split: prod.splits)
  have "dbs (save_index Q p r' s) = snd (index_add_flags Q ?I 1 0 df f)"
    using assms(1, 5, 6) by (auto simp: save_index_def df_def f_def split_beta Let_def)
  then show ?thesis
    using index_flags_known [OF df] f by simp
qed

lemma boot_save:
  assumes "\<forall>d. mk d" "flag_send r = 1" "flag_store r = 0" "fits ''traffic_flow'' (flow_row r)" "apos \<notin> set path"
  obtains s1 where "save_traffic_flow_info Q mk r st path flow_boot = (0, s1)"
    "uploading Q rows (1, index_row r (flow_db path st)) (flow_db path st) [(1, index_row r (flow_db path st))] [(1, flow_row r)] (dbs s1)"
    "sf_db_file s1 = no_file" "mq_flow s1 = []"
proof -
  let ?p = "flow_db path st"
  have p: "?p \<noteq> DB_NAME_FLOW_RECORDS"
    using hour_db_not_index by (simp add: flow_db_def)
  have e: "table Q rows (dbs flow_boot) q t = []" for q t
    by (simp add: flow_boot_def table_def view_def opened_def new_file)
  obtain s1 where s1: "save_traffic_flow_info Q mk r st path flow_boot = (0, s1)"
    "table Q rows (dbs s1) ?p ''traffic_flow'' = row_insert (flow_row r) (table Q rows (dbs flow_boot) ?p ''traffic_flow'')"
    "mq_flow s1 = []"
    "table Q rows (dbs s1) DB_NAME_FLOW_RECORDS = table Q rows (dbs (save_index Q ?p r flow_boot)) DB_NAME_FLOW_RECORDS"
    "sf_db_file s1 = sf_db_file (save_index Q ?p r flow_boot)"
    by (rule save_stores [OF assms(1,4), of st path flow_boot]) (simp add: flow_boot_def)
  have pl: "fits ''DB_files'' (index_row r ?p)"
    using fitsD [OF assms(4)] assms(5) by (intro fits_index_row) (auto simp: flow_db_def apos_def c_int_def assms(2,3) intro!: plain_hour_db [unfolded apos_def])
  have "table Q rows (dbs s1) DB_NAME_FLOW_RECORDS ''DB_files'' = [(1, index_row r ?p)]" "sf_db_file s1 = no_file"
    using save_index_first [OF _ _ pl, of flow_boot] s1(4, 5) by (simp_all add: e) (simp_all add: flow_boot_def)
  then show ?thesis
    using s1(1-3) p assms(2, 3) e
    by (intro that [of s1])
      (auto simp: uploading_def row_insert_def next_id_def index_row_def files_flag_send_def rows_ok_def row_ok_def flow_boot_def)
qed

lemma later_save:
  assumes "\<forall>d. mk d" "flag_send r = 1" "flag_store r = 0" "flag_send r' = 1" "flag_store r' = 0"
    "sf_db_file s = no_file" "dbs s (flow_db path st) \<noteq> None" "fits ''traffic_flow'' (flow_row r')"
    "uploading Q rows (1, index_row r (flow_db path st)) (flow_db path st) [(1, index_row r (flow_db path st))] [] (dbs s)"
  obtains s' where "save_traffic_flow_info Q mk r' st path s = (0, s')"
    "uploading Q rows (1, index_row r (flow_db path st)) (flow_db path st) [(1, index_row r (flow_db path st))] [(1, flow_row r')] (dbs s')"
    "mq_flow s' = mq_flow s"
proof -
  let ?p = "flow_db path st"
  have i: "table Q rows (dbs (save_index Q ?p r' s)) DB_NAME_FLOW_RECORDS ''DB_files'' = [(1, index_row r ?p)]"
    by (rule save_index_again) (use assms in \<open>auto simp: uploading_def\<close>)
  obtain s' where s': "save_traffic_flow_info Q mk r' st path s = (0, s')"
    "table Q rows (dbs s') ?p ''traffic_flow'' = row_insert (flow_row r') (table Q rows (dbs s) ?p ''traffic_flow'')"
    "mq_flow s' = mq_flow s"
    "table Q rows (dbs s') DB_NAME_FLOW_RECORDS = table Q rows (dbs (save_index Q ?p r' s)) DB_NAME_FLOW_RECORDS"
    by (rule save_stores [OF assms(1,8), of st path s]) blast
  then show ?thesis
    using assms(4, 9) i
    by (intro that [of s']) (auto simp: uploading_def row_insert_def next_id_def rows_ok_def row_ok_def)
qed

lemma lost:
  assumes "\<forall>d. mk d" "flag_send r = 1" "flag_store r = 0" "flag_send r' = 1" "flag_store r' = 0" "queue_up e cfg"
    "flow_db path st' = flow_db path st" "fits ''traffic_flow'' (flow_row r)" "fits ''traffic_flow'' (flow_row r')" "apos \<notin> set path"
  shows "\<exists>s1 u s2 s3 s4. save_traffic_flow_info Q mk r st path flow_boot = (0, s1) \<and>
    db_upload_flow_records Q e cfg (reupload_init, s1) = (0, u, s2) \<and>
    save_traffic_flow_info Q mk r' st' path s2 = (0, s3) \<and>
    db_upload_flow_records Q e cfg (u, s3) = (- 1, reupload_init, s4) \<and>
    table Q rows (dbs s3) (flow_db path st) ''traffic_flow'' = [(1, flow_row r')] \<and>
    mq_flow s4 = [row_text (1, flow_row r)] \<and> dbs s4 (flow_db path st) = None"
proof -
  let ?p = "flow_db path st" and ?ir = "index_row r (flow_db path st)"
  obtain s1 where s1: "save_traffic_flow_info Q mk r st path flow_boot = (0, s1)"
    "uploading Q rows (1, ?ir) ?p [(1, ?ir)] [(1, flow_row r)] (dbs s1)" "sf_db_file s1 = no_file" "mq_flow s1 = []"
    by (rule boot_save [OF assms(1-3,8,10)])
  have fl: "flagged_after (ID_record_last reupload_init) [(1, flow_row r)] = (1, flow_row r) # []"
    and u: "ID_DB_file_last reupload_init = 0"
    using flow_row_flag [of r] assms(2) by (simp_all add: reupload_init_def)
  obtain s2 xs' where s2: "db_upload_flow_records Q e cfg (reupload_init, s1) = (0, reupload_init\<lparr>ID_record_last := 1\<rparr>, s2)"
    "uploading Q rows (1, ?ir) ?p [(1, ?ir)] xs' (dbs s2)" "mq_flow s2 = row_text (1, flow_row r) # mq_flow s1"
    "sf_db_file s2 = sf_db_file s1" "dbs s2 ?p \<noteq> None"
    "flag_store (db_unformat_read_sql_traffic_flow (dec_int 1 # flow_row r)) \<noteq> 1 \<Longrightarrow> xs' = row_delete 1 [(1, flow_row r)]"
    by (rule upload_step [OF s1(2) assms(6) u fl]) blast
  have "xs' = []"
    using s2(6) assms(3) by (simp add: unformat_flow_row row_delete_def)
  then obtain s3 where s3: "save_traffic_flow_info Q mk r' st' path s2 = (0, s3)"
    "uploading Q rows (1, ?ir) ?p [(1, ?ir)] [(1, flow_row r')] (dbs s3)" "mq_flow s3 = mq_flow s2"
    using later_save [OF assms(1-5), of s2 path st'] s1(3) s2 assms(7,9) by auto
  obtain s4 where "db_upload_flow_records Q e cfg (reupload_init\<lparr>ID_record_last := 1\<rparr>, s3) = (- 1, reupload_init, s4)"
    "mq_flow s4 = mq_flow s3" "atoi (?ir ! 4) \<noteq> 1 \<Longrightarrow> dbs s4 ?p = None"
    by (rule upload_finish [OF s3(2) assms(6), of "reupload_init\<lparr>ID_record_last := 1\<rparr>"]) (auto simp: reupload_init_def)
  then show ?thesis
    using s1 s2 s3 assms(3)
    by (intro exI [of _ s1] exI [of _ "reupload_init\<lparr>ID_record_last := 1\<rparr>"] exI [of _ s2] exI [of _ s3] exI [of _ s4])
      (simp add: uploading_def index_row_def)
qed

end

lemma process_down:
  assumes "mq_status e < 0" "upload_flow cfg = 1" "disk_save_flow cfg = 0" "partition e = Some path"
    "statisticReady st \<noteq> 0" "laneNum st = 1" "0 < max_lane"
  shows "process_traffic_flow_motor_vehicles max_lane Q e cfg st s
      = (0, snd (save_traffic_flow_info Q (mkdirs e) (lane_record e cfg st 0) st path s))"
    "flag_send (lane_record e cfg st 0) = 1" "flag_store (lane_record e cfg st 0) = 0"
  using assms
  by (simp_all add: process_traffic_flow_motor_vehicles_def process_lane_def lane_record_def send_fails_def
      send_traffic_flow_motor_vehicle_def Let_def)

text \<open>
  A record stored after the others of its hour were sent again is lost. From the start: the
  statistics of a lane are stored while the queue is down and sent when it is up again; the next
  statistics of the hour, stored while the queue is down, get the key of the row just sent and
  deleted, so the next call finds nothing behind the last key and removes the data base with the
  row, and only the first of the two records has been handed to the queue.
\<close>

theorem flow_record_after_upload_is_lost:
  assumes "sqlite_works Q rows" "queue_up e' cfg" "mq_status e < 0" "upload_flow cfg = 1" "disk_save_flow cfg = 0"
    "partition e = Some path" "\<forall>d. mkdirs e d" "0 < max_lane" "statisticReady st \<noteq> 0" "laneNum st = 1"
    "statisticReady st' \<noteq> 0" "laneNum st' = 1" "flow_db path st' = flow_db path st"
    "plain_names cfg" "apos \<notin> set path" "int_stats cfg st" "int_stats cfg st'"
  shows "\<exists>s1 u s2 s3 s4. process_traffic_flow_motor_vehicles max_lane Q e cfg st flow_boot = (0, s1) \<and>
    db_upload_flow_records Q e' cfg (reupload_init, s1) = (0, u, s2) \<and>
    process_traffic_flow_motor_vehicles max_lane Q e cfg st' s2 = (0, s3) \<and>
    db_upload_flow_records Q e' cfg (u, s3) = (- 1, reupload_init, s4) \<and>
    table Q rows (dbs s3) (flow_db path st) ''traffic_flow'' = [(1, flow_row (lane_record e cfg st' 0))] \<and>
    mq_flow s4 = [row_text (1, flow_row (lane_record e cfg st 0))] \<and> dbs s4 (flow_db path st) = None"
proof -
  note down = process_down [OF assms(3-6)]
  show ?thesis
    using sqlite_works.lost [OF assms(1, 7) down(2, 3) [OF assms(9, 10, 8)] down(2, 3) [OF assms(11, 12, 8)] assms(2, 13)
        fits_lane_record [OF assms(14,16)] fits_lane_record [OF assms(14,17)] assms(15)]
      down(1) [OF assms(9, 10, 8)] down(1) [OF assms(11, 12, 8)] assms(10,12)
    by (metis nat_one_as_int snd_conv zero_less_one)
qed

text \<open>
  The static index record is not replaced when the data base of a new hour is begun, so that the
  flags of a later record of the hour are compared with those of an earlier hour: once that one
  is flagged, no later record changes the index, whatever flag the index record of its own data
  base has.
\<close>

lemma new_hour_keeps_old_index_record: "dbs s p = None \<Longrightarrow> sf_db_file (save_index Q p r s) = sf_db_file s"
  by (simp add: save_index_def)

lemma flag_of_new_hour_is_not_set:
  assumes "dbs s p \<noteq> None" "sf_first s = False" "f_flag_send (sf_db_file s) = 1" "flag_send r = 1" "flag_store r = 0"
  shows "dbs (save_index Q p r s) = dbs s"
  using assms by (auto simp: save_index_def index_first_def index_add_flags_def Let_def)

text \<open>
  The index records of pedestrians are found by the function for vehicles, which looks for rows
  of vehicles in their data base, finds none and removes it.
\<close>

lemma pedestrian_data_base_is_removed:
  assumes "sqlite_works Q rows" "queue_up e cfg" "uploading Q rows (k, ir) p idx [] (dbs s)" "atoi (ir ! 4) \<noteq> 1"
  shows "\<exists>s'. db_upload_flow_records Q e cfg (reupload_init, s) = (- 1, reupload_init, s') \<and> dbs s' p = None"
proof -
  have u: "ID_DB_file_last reupload_init = 0" "flagged_after (ID_record_last reupload_init) [] = []"
    by (simp_all add: reupload_init_def)
  show ?thesis
    by (rule sqlite_works.upload_finish [OF assms(1, 3, 2) u]) (use assms(4) in auto)
qed

section \<open>Pedestrians are never sent again\<close>

text \<open>
  Everything that happens to the store: statistics are processed and the two functions that send
  again are called, in any order, with any answers of the queues and any configuration.
\<close>

inductive flow_reach :: "nat \<Rightarrow> 'd sqlite \<Rightarrow> reupload \<Rightarrow> reupload \<Rightarrow> 'd flow_store \<Rightarrow> bool" for max_lane Q where
  boot: "flow_reach max_lane Q reupload_init reupload_init flow_boot"
| process: "flow_reach max_lane Q u v s \<Longrightarrow> flow_reach max_lane Q u v (snd (process_traffic_flow max_lane Q e cfg tf s))"
| upload: "flow_reach max_lane Q u v s \<Longrightarrow> db_upload_flow_records Q e cfg (u, s) = (rc, u', s') \<Longrightarrow> flow_reach max_lane Q u' v s'"
| upload_pedestrian: "flow_reach max_lane Q u v s \<Longrightarrow> traffic_flow_reupload_pedestrian Q e cfg (v, s) = (rc, v', s') \<Longrightarrow>
    flow_reach max_lane Q u v' s'"

text \<open>The index of the pedestrians is empty.\<close>

definition no_pedestrians :: "'d sqlite \<Rightarrow> ('d \<Rightarrow> string \<Rightarrow> rows option) \<Rightarrow> (string \<Rightarrow> 'd option) \<Rightarrow> bool" where
  "no_pedestrians Q rows f \<longleftrightarrow> table Q rows f DB_NAME_FLOW_PEDESTRIAN ''DB_files'' = []"

lemma index_names [simp]: "DB_NAME_FLOW_PEDESTRIAN \<noteq> DB_NAME_FLOW_RECORDS" "DB_NAME_FLOW_RECORDS \<noteq> DB_NAME_FLOW_PEDESTRIAN"
  by (simp_all add: DB_NAME_FLOW_PEDESTRIAN_def DB_NAME_FLOW_RECORDS_def)

lemma no_pedestrians_cong: "f DB_NAME_FLOW_PEDESTRIAN = g DB_NAME_FLOW_PEDESTRIAN \<Longrightarrow> no_pedestrians Q rows f = no_pedestrians Q rows g"
  by (simp add: no_pedestrians_def table_def opened_def)

context sqlite_laws
begin

lemma np_read:
  "cr \<in> dom columns \<Longrightarrow> no_pedestrians Q rows (snd (db_read Q p cr t c f)) = no_pedestrians Q rows f"
  by (simp add: no_pedestrians_def table_read)

lemma np_exec:
  assumes "stmt_ok st" "no_pedestrians Q rows f"
  shows "no_pedestrians Q rows (snd (db_exec Q p st f))"
proof (cases "p = DB_NAME_FLOW_PEDESTRIAN")
  case True
  have "stmt_rows st (table Q rows f p) ''DB_files'' = []"
    using assms True by (cases st) (auto simp: no_pedestrians_def row_update_def row_delete_def)
  then show ?thesis
    using table_exec [OF assms(1), of p f] assms(2) True by (auto simp: no_pedestrians_def)
next
  case False
  then show ?thesis
    using assms(2) no_pedestrians_cong [of "snd (db_exec Q p st f)" f Q rows] by (simp add: db_frame)
qed

lemma np_remove: "no_pedestrians Q rows f \<Longrightarrow> no_pedestrians Q rows (f(p := None))"
  by (cases "p = DB_NAME_FLOW_PEDESTRIAN") (simp_all add: no_pedestrians_def table_gone table_other)

lemma stmts_ok [simp]:
  "stmt_ok (Update ''DB_files'' files_flag_send n k)" "stmt_ok (Update ''DB_files'' files_flag_store n k)"
  "stmt_ok (Update ''traffic_flow'' flow_flag_send n k)" "stmt_ok (Delete ''DB_files'' k)" "stmt_ok (Delete ''traffic_flow'' k)"
  by (auto simp: stmt_ok_def)

lemma np_delete:
  assumes "no_pedestrians Q rows f"
  shows "no_pedestrians Q rows (snd (db_delete_DB_file Q p df f))"
    "no_pedestrians Q rows (snd (db_delete_flow_records Q p r f))"
    "stmt_ok st \<Longrightarrow> no_pedestrians Q rows (snd (db_update_records Q p st f))"
  using assms np_remove [OF assms] np_exec
  by (auto simp: db_delete_DB_file_def db_delete_flow_records_def db_update_records_def Let_def split_beta)

lemma np_index:
  assumes "no_pedestrians Q rows f"
  shows "no_pedestrians Q rows (snd (db_read_DB_file Q p c f))" "no_pedestrians Q rows (snd (db_read_flow_records Q p c f))"
    "no_pedestrians Q rows (snd (index_first Q p t b df f))" "no_pedestrians Q rows (snd (index_add_flags Q p a b' df f))"
proof -
  show r: "no_pedestrians Q rows (snd (db_read_DB_file Q p c f))" for p c
    using assms by (simp add: db_read_DB_file_def split_beta np_read)
  show "no_pedestrians Q rows (snd (db_read_flow_records Q p c f))"
    using assms by (simp add: db_read_flow_records_def split_beta np_read)
  show "no_pedestrians Q rows (snd (index_first Q p t b df f))"
    using assms r by (auto simp: index_first_def split: prod.split option.split) (metis snd_conv)+
  show "no_pedestrians Q rows (snd (index_add_flags Q p a b' df f))"
    using assms by (auto simp: index_add_flags_def Let_def np_delete)
qed

lemma np_save:
  assumes "no_pedestrians Q rows (dbs s)"
  shows "no_pedestrians Q rows (dbs (snd (save_traffic_flow_info Q mk r st path s)))"
    "no_pedestrians Q rows (dbs (snd (save_traffic_flow_pedestrian_info Q mk r' st' path s)))"
proof -
  have h: "DB_NAME_FLOW_PEDESTRIAN \<noteq> hour_db_name dir t" for dir t
    using hour_db_not_index [of dir t] by auto
  have i: "no_pedestrians Q rows (dbs (save_index Q p r s))" for p r
    using assms save_index_frame [OF index_names(1), of Q p r s]
      no_pedestrians_cong [of "dbs (save_index Q p r s)" "dbs s" Q rows] by blast
  have k: "no_pedestrians Q rows (snd (db_write_DB_file Q DB_NAME_FLOW_RECORDS df (dbs s)))" for df
    using assms index_frame(3) [OF index_names(1), of Q df "dbs s"]
      no_pedestrians_cong [of "snd (db_write_DB_file Q DB_NAME_FLOW_RECORDS df (dbs s))" "dbs s" Q rows] by blast
  have j: "no_pedestrians Q rows (dbs (save_index_pedestrian Q p r' s))" for p
    using k np_index(4) [OF np_index(3) [OF assms]] by (simp add: save_index_pedestrian_def Let_def split_beta)
  have w: "no_pedestrians Q rows (snd (db_write Q (hour_db_name dir t) ins cr f)) = no_pedestrians Q rows f" for dir t ins cr f
    by (rule no_pedestrians_cong) (simp add: db_frame h)
  show "no_pedestrians Q rows (dbs (snd (save_traffic_flow_info Q mk r st path s)))"
    using assms i w by (simp add: save_traffic_flow_info_def db_write_flow_records_def Let_def split_beta)
  show "no_pedestrians Q rows (dbs (snd (save_traffic_flow_pedestrian_info Q mk r' st' path s)))"
    using assms j w by (simp add: save_traffic_flow_pedestrian_info_def db_write_traffic_flow_pedestrian_def Let_def split_beta)
qed

lemma np_process: "no_pedestrians Q rows (dbs s) \<Longrightarrow> no_pedestrians Q rows (dbs (snd (process_traffic_flow max_lane Q e cfg tf s)))"
proof -
  assume np: "no_pedestrians Q rows (dbs s)"
  have lane: "no_pedestrians Q rows (dbs (process_lane Q e cfg st i s))" if "no_pedestrians Q rows (dbs s)" for st i s
    using that np_save(1)
    by (simp add: process_lane_def send_traffic_flow_motor_vehicle_def Let_def split_beta split: option.split)
  have lanes: "no_pedestrians Q rows (dbs (fold (process_lane Q e cfg st) is s))" if "no_pedestrians Q rows (dbs s)" for st "is" s
    using that by (induction "is" arbitrary: s) (simp_all add: lane)
  have p: "no_pedestrians Q rows (dbs (snd (process_traffic_flow_pedestrian Q e cfg st s)))" if "no_pedestrians Q rows (dbs s)" for st s
    using that np_save(2)
    by (simp add: process_traffic_flow_pedestrian_def send_traffic_flow_pedestrian_def Let_def split_beta split: option.split)
  show ?thesis
    using np lanes p
    by (simp add: process_traffic_flow_def process_traffic_flow_motor_vehicles_def Let_def split_beta split: option.split)
qed

lemma np_upload:
  assumes "no_pedestrians Q rows (dbs s)"
  shows "no_pedestrians Q rows (dbs (snd (snd (db_upload_flow_records Q e cfg (u, s)))))"
  using assms np_index(1, 2) np_delete(1, 2)
  by (simp add: db_upload_flow_records_def send_traffic_flow_motor_vehicle_def Let_def split_beta split: option.split)

lemma pedestrian_upload:
  assumes "no_pedestrians Q rows (dbs s)"
  shows "\<exists>s'. traffic_flow_reupload_pedestrian Q e cfg (v, s) = (- 1, v, s') \<and> no_pedestrians Q rows (dbs s') \<and>
    mq_pedestrian s' = mq_pedestrian s"
proof -
  let ?r = "db_read Q DB_NAME_FLOW_PEDESTRIAN ''DB_files'' ''DB_files'' (ID_gt_and_pos (ID_DB_file_last v) files_flag_send) (dbs s)"
  have "fst ?r \<noteq> Some a" for a
    using read_finds [OF in_tables(1) in_tables(1), of DB_NAME_FLOW_PEDESTRIAN _ "dbs s" a] assms
    by (fastforce simp: no_pedestrians_def)
  then have "fst ?r = None"
    by blast
  then obtain f where f: "?r = (None, f)"
    by (cases ?r) simp
  have "no_pedestrians Q rows f"
    using np_read [OF in_tables(1), of DB_NAME_FLOW_PEDESTRIAN "''DB_files''" _ "dbs s"] assms f by (metis snd_conv)
  then show ?thesis
    using f assms by (auto simp: traffic_flow_reupload_pedestrian_def db_read_DB_file_def)
qed

lemma reach_no_pedestrians: "flow_reach max_lane Q u v s \<Longrightarrow> no_pedestrians Q rows (dbs s)"
proof (induction rule: flow_reach.induct)
  case boot
  show ?case
    by (simp add: no_pedestrians_def flow_boot_def table_def view_def opened_def new_file)
next
  case (process u v s e cfg tf)
  then show ?case by (simp add: np_process)
next
  case (upload u v s e cfg rc u' s')
  then show ?case using np_upload [of s e cfg u] by simp
next
  case (upload_pedestrian u v s e cfg rc v' s')
  then show ?case using pedestrian_upload [of s e cfg v] by auto
qed

end

text \<open>
  Statistics of pedestrians are never sent again: in every state the store can reach,
  \<open>traffic_flow_reupload_pedestrian\<close> finds nothing to send, whatever was stored, because the index
  records are written into the index of the vehicles and looked for in another one.
\<close>

theorem pedestrians_are_never_sent_again:
  assumes "sqlite_laws Q rows" "flow_reach max_lane Q u v s"
  shows "\<exists>s'. traffic_flow_reupload_pedestrian Q e cfg (v, s) = (- 1, v, s') \<and> mq_pedestrian s' = mq_pedestrian s"
  using sqlite_laws.pedestrian_upload [OF assms(1) sqlite_laws.reach_no_pedestrians [OF assms]] by blast

section \<open>Witnesses\<close>

definition demo_cfg :: "int \<Rightarrow> flow_cfg" where
  "demo_cfg keep = \<lparr>EP_SECTION_ID = ''s'', EP_SECTION_NAME = ''n'', EP_POINT_ID = ''p'', EP_POINT_NAME = ''q'',
     EP_EXP_DEV_ID = ''d'', EP_DIRECTION = 1, upload_flow = 1, disk_save_flow = keep, is_resume_statistics = 1\<rparr>"

text \<open>Statistics of one lane, with the number of vehicles.\<close>

definition demo_flow :: "int \<Rightarrow> vehicle_flow" where
  "demo_flow n = \<lparr>statisticReady = 1, laneNum = 1,
     statisticTime = \<lparr>tm_year = 2016, tm_mon = 5, tm_mday = 1, tm_hour = 10, tm_min = 20, tm_sec = 0\<rparr>,
     vehicleFlowLane = [\<lparr>laneNo = 1, largeCount = 0, smallCount = n, commCount = n, avgVolume = 0,
       avgSpeed = 40, occupancy' = 0, queue' = 0, travelTime = 0, timeHeadWay = 0, density' = 0, carlen = 4\<rparr>]\<rparr>"

definition demo_env :: "int \<Rightarrow> flow_env" where
  "demo_env st = \<lparr>mq_status = st, mq_send = (\<lambda>_. 0), mq_status_p = st, mq_send_p = (\<lambda>_. 0),
     partition = Some ''/mnt'', mkdirs = (\<lambda>_. True)\<rparr>"

lemma demo_plain: "plain_names (demo_cfg keep)" "apos \<notin> set ''/mnt''"
  by (simp_all add: plain_names_def plain_def demo_cfg_def apos_def)

lemma demo_ints: "c_int keep \<Longrightarrow> c_int n \<Longrightarrow> int_stats (demo_cfg keep) (demo_flow n)"
  by (simp add: int_stats_def int_lane_def demo_cfg_def demo_flow_def) (simp add: c_int_def)

lemma demo_one: "nat (laneNum (demo_flow n)) = 1"
  by (simp add: demo_flow_def)

lemma boot_tables: "table mem_db mem_rows (dbs flow_boot) p t = []"
  by (simp add: flow_boot_def table_def view_def opened_def mem_db.new_file)

theorem flow_records_are_stored_witness:
  "\<exists>s' ks. process_traffic_flow_motor_vehicles 4 mem_db (demo_env (- 1)) (demo_cfg 0) (demo_flow 7) flow_boot = (0, s') \<and>
    table mem_db mem_rows (dbs s') (flow_db ''/mnt'' (demo_flow 7)) ''traffic_flow'' =
      zip ks [flow_row (lane_record (demo_env (- 1)) (demo_cfg 0) (demo_flow 7) 0)] \<and> length ks = 1"
proof -
  have "lanes_to_store (demo_env (- 1)) (demo_cfg 0) (demo_flow 7) = [0]"
    by (simp add: lane_stored_def lane_record_def send_fails_def demo_env_def demo_cfg_def demo_flow_def Let_def)
  then show ?thesis
    using flow_records_are_stored [OF mem_db.sqlite_laws_axioms, of "demo_flow 7" 4 "demo_cfg 0" "demo_env (- 1)" flow_boot]
      mem_db.sqlite_works_axioms demo_plain(1) [of 0] demo_ints [of 0 7]
    by (auto simp: demo_flow_def demo_env_def boot_tables c_int_def)
qed

theorem flow_data_base_is_sent_witness:
  "\<exists>s1 s'. save_traffic_flow_info mem_db (\<lambda>_. True) (lane_record (demo_env (- 1)) (demo_cfg 0) (demo_flow 7) 0)
      (demo_flow 7) ''/mnt'' flow_boot = (0, s1) \<and>
    ((snd \<circ> db_upload_flow_records mem_db (demo_env 0) (demo_cfg 0)) ^^ 2) (reupload_init, s1) = (reupload_init, s') \<and>
    mq_flow s' = [row_text (1, flow_row (lane_record (demo_env (- 1)) (demo_cfg 0) (demo_flow 7) 0))] \<and>
    dbs s' (flow_db ''/mnt'' (demo_flow 7)) = None"
proof -
  let ?r = "lane_record (demo_env (- 1)) (demo_cfg 0) (demo_flow 7) 0" and ?p = "flow_db ''/mnt'' (demo_flow 7)"
  have r: "flag_send ?r = 1" "flag_store ?r = 0"
    by (simp_all add: lane_record_def send_fails_def demo_env_def demo_cfg_def Let_def)
  have q: "queue_up (demo_env 0) (demo_cfg 0)"
    by (simp add: queue_up_def demo_env_def demo_cfg_def)
  obtain s1 where s1: "save_traffic_flow_info mem_db (\<lambda>_. True) ?r (demo_flow 7) ''/mnt'' flow_boot = (0, s1)"
    "uploading mem_db mem_rows (1, index_row ?r ?p) ?p [(1, index_row ?r ?p)] [(1, flow_row ?r)] (dbs s1)" "mq_flow s1 = []"
    by (rule mem_db.boot_save [of "\<lambda>_. True" ?r "''/mnt''" "demo_flow 7"]) (simp_all add: r fits_lane_record demo_plain demo_ints c_int_def demo_one del: set_simps)
  have "flagged_after 0 [(1, flow_row ?r)] = [(1, flow_row ?r)]"
    using flow_row_flag [of ?r] r(1) by simp
  moreover have "atoi (index_row ?r ?p ! 4) \<noteq> 1"
    by (simp add: index_row_def r(2))
  ultimately show ?thesis
    using flow_data_base_is_sent [OF mem_db.sqlite_works_axioms q s1(2)] s1(1, 3)
    by (auto simp: numeral_2_eq_2)
qed

theorem flow_record_after_upload_is_lost_witness:
  "\<exists>s1 u s2 s3 s4. process_traffic_flow_motor_vehicles 4 mem_db (demo_env (- 1)) (demo_cfg 0) (demo_flow 7) flow_boot = (0, s1) \<and>
    db_upload_flow_records mem_db (demo_env 0) (demo_cfg 0) (reupload_init, s1) = (0, u, s2) \<and>
    process_traffic_flow_motor_vehicles 4 mem_db (demo_env (- 1)) (demo_cfg 0) (demo_flow 9) s2 = (0, s3) \<and>
    db_upload_flow_records mem_db (demo_env 0) (demo_cfg 0) (u, s3) = (- 1, reupload_init, s4) \<and>
    dbs s4 (flow_db ''/mnt'' (demo_flow 7)) = None"
  using flow_record_after_upload_is_lost [OF mem_db.sqlite_works_axioms, of "demo_env 0" "demo_cfg 0" "demo_env (- 1)" "''/mnt''" 4 "demo_flow 7" "demo_flow 9"]
    demo_plain demo_ints [of 0 7] demo_ints [of 0 9]
  by (simp add: c_int_def queue_up_def demo_flow_def demo_env_def demo_cfg_def flow_db_def) blast

definition demo_pedestrians :: pedestrian_flow where
  "demo_pedestrians = \<lparr>isReady = 1, flowL2R = 3, flowR2L = 2, startTime = statisticTime (demo_flow 0)\<rparr>"

theorem pedestrians_are_never_sent_again_witness:
  "\<exists>s'. traffic_flow_reupload_pedestrian mem_db (demo_env 0) (demo_cfg 0)
      (reupload_init, snd (process_traffic_flow 4 mem_db (demo_env (- 1)) (demo_cfg 0) (Some (demo_flow 7, demo_pedestrians)) flow_boot))
      = (- 1, reupload_init, s')"
  using pedestrians_are_never_sent_again [OF mem_db.sqlite_laws_axioms flow_reach.process [OF flow_reach.boot]] by blast

text \<open>A road named after O'Brien.\<close>

definition demo_apostrophe :: DB_TrafficFlow where
  "demo_apostrophe = (lane_record (demo_env (- 1)) (demo_cfg 0) (demo_flow 7) 0)\<lparr>section_name := ''O'' @ [apos] @ ''Brien''\<rparr>"

theorem apostrophe_loses_the_record_witness:
  "\<exists>s'. save_traffic_flow_info mem_db (\<lambda>_. True) demo_apostrophe (demo_flow 7) ''/mnt'' flow_boot = (0, s') \<and>
    table mem_db mem_rows (dbs s') (flow_db ''/mnt'' (demo_flow 7)) ''traffic_flow'' = []"
proof -
  have "unclosed (flow_row demo_apostrophe)"
    by code_simp
  then show ?thesis
    using apostrophe_loses_the_record [OF mem_db.sqlite_works_axioms, of "\<lambda>_. True" demo_apostrophe "demo_flow 7" "''/mnt''" flow_boot]
    by (auto simp: boot_tables)
qed

end
