(* ===== verification/Light_Ctl.thy ===== *)
theory Light_Ctl
  imports Vd_Prelude
begin

text \<open>
  The lamps of a parking space, \<open>light_ctl.c\<close>: messages start, stop or change a lamp setting of a
  priority; the setting of the highest priority is shown, steady colours directly and flashing
  ones by a thread that serves them in turn. Accesses to the hardware are recorded as outputs.

  The header \<open>light_ctl.h\<close> is not part of the repository: the number of priorities is a parameter
  \<open>mx\<close>, \<open>LIGHT_PRIO_NULL\<close> is 0 (the list is cleared with \<open>memset\<close>), and the colours red, blue, green
  and white have the numbers 0 to 3 (the order of the message that the code prints).
\<close>

datatype lio =
    Pinmux nat nat
  | GpioVal nat nat
  | GpioIn nat
  | GpioOut nat
  | MemWr nat u32
  | FlashPause int
  | History "(nat \<times> bool) option"

record light_ctl =
  lc_id :: nat
  brightness :: u8
  flash_interval :: int

datatype light_action = LIGHT_ACTION_START | LIGHT_ACTION_STOP | LIGHT_ACTION_CHANGE | LIGHT_ACTION_OTHER

record light_ctl_msg =
  action :: light_action
  priority :: nat
  light_action_list :: "light_ctl list"

text \<open>
  A node of the flash list points to an entry of the action list of a priority, it is not a copy.
\<close>

record light_state =
  prio_list :: "light_ctl_msg list"
  flash_list :: "(nat \<times> nat) list"
  has_light_flash :: bool
  out :: "lio list"

definition GPIO_MODE_VAL :: nat where "GPIO_MODE_VAL = 0x80"
definition PWM_MODE_VAL :: nat where "PWM_MODE_VAL = 0x40"
definition LIGHT_SWITCH_MUXMODE_ADDR :: nat where "LIGHT_SWITCH_MUXMODE_ADDR = 0x4814083c"
definition WHITE_LIGHT_MUXMODE_ADDR :: nat where "WHITE_LIGHT_MUXMODE_ADDR = 0x48140ac8"
definition RED_LIGHT_GPIO_NUM :: nat where "RED_LIGHT_GPIO_NUM = 73"
definition BLUE_LIGHT_GPIO_NUM :: nat where "BLUE_LIGHT_GPIO_NUM = 99"
definition GREEN_LIGHT_GPIO_NUM :: nat where "GREEN_LIGHT_GPIO_NUM = 100"
definition WHITE_LIGHT_GPIO_NUM :: nat where "WHITE_LIGHT_GPIO_NUM = 85"
definition LIGHT_COLOR_MAX :: nat where "LIGHT_COLOR_MAX = 4"
definition LIGHT_FLASH_BASE :: int where "LIGHT_FLASH_BASE = 100"

section \<open>The lamps\<close>

text \<open>
  The value of the PWM register: unsigned 32 bit arithmetic, with the span \<open>hi - lo\<close> of the register.
\<close>

definition pwm_value :: "u32 \<Rightarrow> u8 \<Rightarrow> u32" where
  "pwm_value hi b = (let t = (if b = 128 then 133 else b)
     in (ucast t * (hi - 0xFFFFFF38)) div 255 + 0xFFFFFF38)"

definition set_light_brightness :: "u8 \<Rightarrow> lio list" where
  "set_light_brightness b = [MemWr 0x4804204c (pwm_value 0xFFFFFFFE b)]"

definition set_white_light_brightness :: "u8 \<Rightarrow> lio list" where
  "set_white_light_brightness b = [MemWr 0x4804a04c (pwm_value 0xFFFFFFF5 b)]"

text \<open>\<open>red_light_set\<close>, \<open>blue_light_set\<close> and \<open>green_light_set\<close> differ only in the line they switch.\<close>

definition rgb_light_set :: "nat \<Rightarrow> u8 \<Rightarrow> lio list" where
  "rgb_light_set g b =
     (if b \<noteq> 0
      then set_light_brightness b @ [GpioVal g 1, Pinmux LIGHT_SWITCH_MUXMODE_ADDR PWM_MODE_VAL]
      else [GpioVal g 0])"

definition white_light_set :: "u8 \<Rightarrow> lio list" where
  "white_light_set b =
     (if b \<noteq> 0
      then set_white_light_brightness b @ [Pinmux WHITE_LIGHT_MUXMODE_ADDR PWM_MODE_VAL, MemWr 0x4804a040 0xFFFFFF38]
      else [Pinmux WHITE_LIGHT_MUXMODE_ADDR GPIO_MODE_VAL, GpioOut WHITE_LIGHT_GPIO_NUM, GpioVal WHITE_LIGHT_GPIO_NUM 0])"

text \<open>The table \<open>light_set_list\<close>; \<open>None\<close> is a call through an entry it does not have.\<close>

definition light_set :: "nat \<Rightarrow> u8 \<Rightarrow> lio list option" where
  "light_set c b =
     (if c = 0 then Some (rgb_light_set RED_LIGHT_GPIO_NUM b)
      else if c = 1 then Some (rgb_light_set BLUE_LIGHT_GPIO_NUM b)
      else if c = 2 then Some (rgb_light_set GREEN_LIGHT_GPIO_NUM b)
      else if c = 3 then Some (white_light_set b)
      else None)"

definition rgb_init :: "nat \<Rightarrow> nat \<Rightarrow> lio list" where
  "rgb_init addr g = [Pinmux addr GPIO_MODE_VAL, GpioOut g, GpioVal g 0]"

definition light_init :: "lio list" where
  "light_init = rgb_init 0x48140a3c RED_LIGHT_GPIO_NUM @ rgb_init 0x48140b48 BLUE_LIGHT_GPIO_NUM
     @ rgb_init 0x48140b4c GREEN_LIGHT_GPIO_NUM
     @ [MemWr 0x48042038 0x1843, MemWr 0x48042040 0xFFFFFF38, MemWr 0x4804203c 0xFFFFE31F, MemWr 0x4804204c 0xFFFFFFA0,
        Pinmux LIGHT_SWITCH_MUXMODE_ADDR GPIO_MODE_VAL, GpioIn 9]"

section \<open>The list of priorities\<close>

definition no_light :: light_ctl where
  "no_light = \<lparr>lc_id = 0, brightness = 0, flash_interval = 0\<rparr>"

definition no_msg :: light_ctl_msg where
  "no_msg = \<lparr>action = LIGHT_ACTION_OTHER, priority = 0, light_action_list = replicate LIGHT_COLOR_MAX no_light\<rparr>"

definition light_action_prio_list_alloc :: "nat \<Rightarrow> light_ctl_msg list" where
  "light_action_prio_list_alloc mx = replicate mx no_msg"

definition change_light_action_prio_list :: "light_ctl_msg \<Rightarrow> light_ctl_msg list \<Rightarrow> light_ctl_msg list option" where
  "change_light_action_prio_list m l = (if priority m < length l then Some (l[priority m := m]) else None)"

definition insert_light_action_prio_list :: "light_ctl_msg \<Rightarrow> light_ctl_msg list \<Rightarrow> light_ctl_msg list option" where
  "insert_light_action_prio_list m l = change_light_action_prio_list m l"

definition delete_light_action_prio_list :: "light_ctl_msg \<Rightarrow> light_ctl_msg list \<Rightarrow> light_ctl_msg list option" where
  "delete_light_action_prio_list m l = (if priority m < length l then Some (l[priority m := no_msg]) else None)"

text \<open>The search from the highest index down to 1; the result is the index of the entry.\<close>

fun select_from :: "nat \<Rightarrow> light_ctl_msg list \<Rightarrow> nat option" where
  "select_from 0 l = None"
| "select_from (Suc i) l = (if priority (l ! Suc i) \<noteq> 0 then Some (Suc i) else select_from i l)"

definition select_light_action_prio_list :: "light_ctl_msg list \<Rightarrow> nat option" where
  "select_light_action_prio_list l = select_from (length l - 1) l"

section \<open>Messages\<close>

definition steady :: "light_ctl \<Rightarrow> bool" where
  "steady p \<longleftrightarrow> 0 < brightness p \<and> flash_interval p = 0"

definition flashing :: "light_ctl \<Rightarrow> bool" where
  "flashing p \<longleftrightarrow> 0 < brightness p \<and> 0 < flash_interval p"

text \<open>The outputs of a loop over the colours that sets those for which \<open>P\<close> holds.\<close>

fun set_lights :: "(light_ctl \<Rightarrow> bool) \<Rightarrow> light_ctl list \<Rightarrow> lio list option" where
  "set_lights P [] = Some []"
| "set_lights P (p # ps) =
     (if P p then (case light_set (lc_id p) (brightness p) of
        None \<Rightarrow> None
      | Some o1 \<Rightarrow> map_option ((@) o1) (set_lights P ps))
      else set_lights P ps)"

definition light_text :: "light_ctl list \<Rightarrow> (nat \<times> bool) option" where
  "light_text l =
     (if brightness (l ! 0) \<noteq> 0 then Some (0, flash_interval (l ! 0) \<noteq> 0)
      else if brightness (l ! 1) \<noteq> 0 then Some (1, flash_interval (l ! 1) \<noteq> 0)
      else if brightness (l ! 2) \<noteq> 0 then Some (2, flash_interval (l ! 2) \<noteq> 0)
      else None)"

definition update_prio_list :: "light_ctl_msg \<Rightarrow> light_ctl_msg list \<Rightarrow> light_ctl_msg list option" where
  "update_prio_list m l = (case action m of
       LIGHT_ACTION_START \<Rightarrow> insert_light_action_prio_list m l
     | LIGHT_ACTION_STOP \<Rightarrow> delete_light_action_prio_list m l
     | LIGHT_ACTION_CHANGE \<Rightarrow> change_light_action_prio_list m l
     | LIGHT_ACTION_OTHER \<Rightarrow> Some l)"

text \<open>The test that all of red, blue and green are off.\<close>

definition rgb_dark :: "light_ctl list \<Rightarrow> bool" where
  "rgb_dark ps \<longleftrightarrow> brightness (ps ! 0) = 0 \<and> brightness (ps ! 1) = 0 \<and> brightness (ps ! 2) = 0"

text \<open>
  \<open>put_current_light_state\<close>: \<open>alloc i\<close> says whether the node for colour \<open>i\<close> can be allocated; \<open>None\<close> is
  an access outside an array.
\<close>

definition put_current_light_state :: "(nat \<Rightarrow> bool) \<Rightarrow> light_ctl_msg \<Rightarrow> light_state \<Rightarrow> light_state option" where
  "put_current_light_state alloc m s =
     (case update_prio_list m (prio_list s) of
        None \<Rightarrow> None
      | Some l \<Rightarrow>
          (let s1 = s\<lparr>prio_list := l\<rparr>
           in case select_light_action_prio_list l of
                None \<Rightarrow> Some s1
              | Some i \<Rightarrow>
                  (let ps = light_action_list (l ! i)
                   in if rgb_dark ps then Some s1
                      else let old = (if has_light_flash s then [] else flash_list s);
                               new = filter (\<lambda>c. flashing (ps ! c)) [0..<LIGHT_COLOR_MAX]
                           in case (set_lights steady ps, set_lights (\<lambda>p. brightness p = 0) ps) of
                                (Some ons, Some offs) \<Rightarrow>
                                  Some (s1\<lparr>flash_list := old @ map (Pair i) (filter alloc new),
                                           has_light_flash := (new \<noteq> []),
                                           out := out s @ ons @ offs @ [History (light_text ps)]\<rparr>)
                              | _ \<Rightarrow> None)))"

text \<open>One round of \<open>light_flash_thread\<close> over the first node of the list.\<close>

definition light_flash_round :: "light_state \<Rightarrow> light_state option" where
  "light_flash_round s =
     (case flash_list s of
        [] \<Rightarrow> Some s
      | (i, c) # fs \<Rightarrow>
          (let p = light_action_list (prio_list s ! i) ! c;
               pause = FlashPause (flash_interval p * LIGHT_FLASH_BASE * 1000)
           in case (light_set (lc_id p) (brightness p), light_set (lc_id p) 0) of
                (Some o1, Some o2) \<Rightarrow>
                  Some (s\<lparr>flash_list := fs @ [(i, c)],
                          out := out s @ o1 @ [pause, Pinmux LIGHT_SWITCH_MUXMODE_ADDR GPIO_MODE_VAL] @ o2 @ [pause]\<rparr>)
              | _ \<Rightarrow> None))"

text \<open>
  The answer to \<open>LIGHT_CTL_TYPE_GET\<close>: a copy of the setting shown; \<open>None\<close> is the copy from a null
  pointer when there is none.
\<close>

definition get_current_light_state :: "light_state \<Rightarrow> light_ctl_msg option" where
  "get_current_light_state s = map_option ((!) (prio_list s)) (select_light_action_prio_list (prio_list s))"

definition light_ctl_boot :: "nat \<Rightarrow> light_state" where
  "light_ctl_boot mx = \<lparr>prio_list = light_action_prio_list_alloc mx, flash_list = [], has_light_flash = False, out = light_init\<rparr>"

section \<open>The setting of the highest priority\<close>

text \<open>The active settings by priority.\<close>

definition active :: "light_ctl_msg list \<Rightarrow> nat \<rightharpoonup> light_ctl list" where
  "active l = (\<lambda>i. if 0 < i \<and> i < length l \<and> priority (l ! i) \<noteq> 0 then Some (light_action_list (l ! i)) else None)"

definition prios_ok :: "light_ctl_msg list \<Rightarrow> bool" where
  "prios_ok l \<longleftrightarrow> (\<forall>i < length l. priority (l ! i) \<in> {0, i})"

lemma finite_active: "finite (dom (active l))"
  by (rule finite_subset [of _ "{..<length l}"]) (auto simp: active_def split: if_splits)

lemma select_from_eq:
  "n < length l \<Longrightarrow> select_from n l =
     (if dom (active l) \<inter> {..n} = {} then None else Some (Max (dom (active l) \<inter> {..n})))"
proof (induction n)
  case (Suc n)
  have split: "dom (active l) \<inter> {..Suc n} = (if priority (l ! Suc n) \<noteq> 0 then {Suc n} else {}) \<union> (dom (active l) \<inter> {..n})"
    using Suc.prems by (auto simp: active_def le_Suc_eq split: if_splits)
  show ?case
  proof (cases "priority (l ! Suc n) = 0")
    case False
    have "Max (insert (Suc n) (dom (active l) \<inter> {..n})) = Suc n"
      by (intro Max_eqI) auto
    then show ?thesis using False by (simp add: split)
  qed (use Suc split in simp)
qed (auto simp: active_def split: if_splits)

lemma select_eq:
  "select_light_action_prio_list l = (if dom (active l) = {} then None else Some (Max (dom (active l))))"
proof (cases "l = []")
  case False
  then have "dom (active l) \<inter> {..length l - 1} = dom (active l)"
    by (auto simp: active_def split: if_splits)
  then show ?thesis
    using False select_from_eq [of "length l - 1" l] by (simp add: select_light_action_prio_list_def)
qed (simp add: select_light_action_prio_list_def active_def)

lemma active_update:
  assumes "priority m < length l"
  shows "active (l[priority m := m]) = (if priority m = 0 then active l else (active l)(priority m \<mapsto> light_action_list m))"
    "active (l[priority m := no_msg]) = (active l)(priority m := None)"
  using assms by (auto simp: active_def no_msg_def nth_list_update fun_eq_iff)

lemma update_active:
  assumes "priority m < length l"
  shows "\<exists>l'. update_prio_list m l = Some l' \<and> length l' = length l \<and>
    active l' = (case action m of
        LIGHT_ACTION_STOP \<Rightarrow> (active l)(priority m := None)
      | LIGHT_ACTION_OTHER \<Rightarrow> active l
      | _ \<Rightarrow> if priority m = 0 then active l else (active l)(priority m \<mapsto> light_action_list m))"
  using assms
  by (cases "action m")
    (simp_all add: update_prio_list_def insert_light_action_prio_list_def change_light_action_prio_list_def
      delete_light_action_prio_list_def active_update)

section \<open>What the lamps show\<close>

text \<open>The values written to a line, and whether it is on after a sequence of outputs.\<close>

definition vals :: "nat \<Rightarrow> lio list \<Rightarrow> nat list" where
  "vals g os = concat (map (\<lambda>x. case x of GpioVal h v \<Rightarrow> if h = g then [v] else [] | _ \<Rightarrow> []) os)"

definition lit :: "nat \<Rightarrow> lio list \<Rightarrow> bool" where
  "lit g os \<longleftrightarrow> vals g os \<noteq> [] \<and> last (vals g os) = 1"

definition rgb_line :: "nat \<Rightarrow> nat" where
  "rgb_line c = [RED_LIGHT_GPIO_NUM, BLUE_LIGHT_GPIO_NUM, GREEN_LIGHT_GPIO_NUM] ! c"

text \<open>A setting as the senders build it: the entry of a colour has its number.\<close>

definition colours_ok :: "light_ctl list \<Rightarrow> bool" where
  "colours_ok ps \<longleftrightarrow> map lc_id ps = [0..<LIGHT_COLOR_MAX] \<and> (\<forall>p \<in> set ps. 0 \<le> flash_interval p)"

lemma vals_append [simp]: "vals g (a @ b) = vals g a @ vals g b" and vals_Nil [simp]: "vals g [] = []"
  by (simp_all add: vals_def)

lemma vals_History [simp]: "vals g [History x] = []"
  by (simp add: vals_def)

lemma lit_append: "lit g (a @ b) = (if vals g b = [] then lit g a else lit g b)"
  by (simp add: lit_def)

lemmas lines = RED_LIGHT_GPIO_NUM_def BLUE_LIGHT_GPIO_NUM_def GREEN_LIGHT_GPIO_NUM_def WHITE_LIGHT_GPIO_NUM_def

lemma light_set_vals:
  assumes "c < 3" "d < 4"
  obtains os where "light_set d b = Some os" "vals (rgb_line c) os = (if d = c then [of_bool (b \<noteq> 0)] else [])"
proof -
  have "c \<in> {0, 1, 2}" "d \<in> {0, 1, 2, 3}" using assms by auto
  then show ?thesis
    by (intro that [of "the (light_set d b)"])
      (auto simp: light_set_def rgb_light_set_def white_light_set_def set_light_brightness_def
        set_white_light_brightness_def vals_def rgb_line_def lines)
qed

lemma set_lights_vals:
  assumes "\<forall>p \<in> set ps. lc_id p < 4" "c < 3"
  shows "\<exists>os. set_lights P ps = Some os \<and>
    vals (rgb_line c) os = map (\<lambda>p. of_bool (brightness p \<noteq> 0)) (filter (\<lambda>p. P p \<and> lc_id p = c) ps)"
  using assms(1)
proof (induction ps)
  case (Cons p ps)
  obtain o1 where "light_set (lc_id p) (brightness p) = Some o1"
    "vals (rgb_line c) o1 = (if lc_id p = c then [of_bool (brightness p \<noteq> 0)] else [])"
    using light_set_vals [OF assms(2), of "lc_id p" "brightness p"] Cons.prems by auto
  then show ?case
    using Cons by auto
qed simp

lemma colours_ok_filter:
  assumes "colours_ok ps" "c < 4"
  shows "filter (\<lambda>p. P p \<and> lc_id p = c) ps = (if P (ps ! c) then [ps ! c] else [])"
proof -
  have "length ps = 4"
    using assms(1) by (auto simp: colours_ok_def LIGHT_COLOR_MAX_def dest: arg_cong [of _ _ length])
  then obtain a b d e where "ps = [a, b, d, e]"
    by (auto simp: numeral_eq_Suc length_Suc_conv)
  moreover have "c \<in> {0, 1, 2, 3}" using assms(2) by auto
  ultimately show ?thesis
    using assms(1) by (auto simp: colours_ok_def LIGHT_COLOR_MAX_def upt_rec)
qed

lemma colours_ok_ids: "colours_ok ps \<Longrightarrow> \<forall>p \<in> set ps. lc_id p < 4"
proof -
  assume "colours_ok ps"
  then have "lc_id ` set ps = set [0..<LIGHT_COLOR_MAX]"
    by (metis colours_ok_def list.set_map)
  then show ?thesis
    by (force simp: LIGHT_COLOR_MAX_def)
qed

lemma steady_bright: "steady p \<Longrightarrow> brightness p \<noteq> 0"
  by (auto simp: steady_def)

lemma shown_vals:
  assumes "colours_ok ps" "set_lights steady ps = Some ons" "set_lights (\<lambda>p. brightness p = 0) ps = Some offs" "c < 3"
  shows "vals (rgb_line c) ons = (if steady (ps ! c) then [1] else [])"
    "vals (rgb_line c) offs = (if brightness (ps ! c) = 0 then [0] else [])"
proof -
  have ids: "\<forall>p \<in> set ps. lc_id p < 4"
    by (rule colours_ok_ids [OF assms(1)])
  note steady_bright [simp]
  show "vals (rgb_line c) ons = (if steady (ps ! c) then [1] else [])"
    "vals (rgb_line c) offs = (if brightness (ps ! c) = 0 then [0] else [])"
    using set_lights_vals [OF ids assms(4), of steady] set_lights_vals [OF ids assms(4), of "\<lambda>p. brightness p = 0"]
      assms(2-4) colours_ok_filter [OF assms(1), of c] by auto
qed

text \<open>The specification: settings by priority, started, changed and stopped.\<close>

definition spec_update :: "light_ctl_msg \<Rightarrow> (nat \<rightharpoonup> light_ctl list) \<Rightarrow> nat \<rightharpoonup> light_ctl list" where
  "spec_update m A = (case action m of
       LIGHT_ACTION_STOP \<Rightarrow> A(priority m := None)
     | LIGHT_ACTION_OTHER \<Rightarrow> A
     | _ \<Rightarrow> if priority m = 0 then A else A(priority m \<mapsto> light_action_list m))"

lemma spec_update_ok:
  assumes "\<forall>ps \<in> ran A. colours_ok ps" "colours_ok (light_action_list m)" "ps \<in> ran (spec_update m A)"
  shows "colours_ok ps"
  using assms by (auto simp: spec_update_def ran_def split: light_action.splits if_splits)

lemma put_current_cases:
  assumes "priority m < length (prio_list s)" "\<forall>ps \<in> ran (active (prio_list s)). colours_ok ps"
    "colours_ok (light_action_list m)"
  obtains (none) l where "put_current_light_state alloc m s = Some (s\<lparr>prio_list := l\<rparr>)"
      "active l = spec_update m (active (prio_list s))" "active l = Map.empty"
  | (dark) l ps where "put_current_light_state alloc m s = Some (s\<lparr>prio_list := l\<rparr>)"
      "active l = spec_update m (active (prio_list s))" "active l (Max (dom (active l))) = Some ps" "rgb_dark ps"
  | (shown) l ps ons offs s' where "put_current_light_state alloc m s = Some s'" "prio_list s' = l"
      "active l = spec_update m (active (prio_list s))" "active l (Max (dom (active l))) = Some ps" "\<not> rgb_dark ps"
      "colours_ok ps" "set_lights steady ps = Some ons" "set_lights (\<lambda>p. brightness p = 0) ps = Some offs"
      "out s' = out s @ ons @ offs @ [History (light_text ps)]"
      "flash_list s' = (if has_light_flash s then [] else flash_list s)
         @ map (Pair (Max (dom (active l)))) (filter alloc (filter (\<lambda>c. flashing (ps ! c)) [0..<LIGHT_COLOR_MAX]))"
      "has_light_flash s' \<longleftrightarrow> (\<exists>c < LIGHT_COLOR_MAX. flashing (ps ! c))"
proof -
  obtain l where l: "update_prio_list m (prio_list s) = Some l" "active l = spec_update m (active (prio_list s))"
    using update_active [OF assms(1)] unfolding spec_update_def by blast
  show ?thesis
  proof (cases "dom (active l) = {}")
    case True
    then show ?thesis
      using l by (intro none) (simp_all add: put_current_light_state_def select_eq)
  next
    case False
    let ?i = "Max (dom (active l))"
    have "?i \<in> dom (active l)"
      using False by (intro Max_in finite_active)
    then obtain ps where ps: "active l ?i = Some ps" "ps = light_action_list (l ! ?i)"
      by (auto simp: active_def split: if_splits)
    have ok: "colours_ok ps"
      using spec_update_ok [OF assms(2, 3)] ps(1) l(2) by (metis ranI)
    obtain ons offs where "set_lights steady ps = Some ons" "set_lights (\<lambda>p. brightness p = 0) ps = Some offs"
      using set_lights_vals [OF colours_ok_ids [OF ok], of 0] by (metis zero_less_numeral)
    note o = this
    have sel: "select_light_action_prio_list l = Some ?i"
      using False by (simp add: select_eq)
    show ?thesis
    proof (cases "rgb_dark ps")
      case True
      then show ?thesis
        using l ps sel by (intro dark [of l ps]) (simp_all add: put_current_light_state_def Let_def)
    next
      case False
      let ?new = "filter (\<lambda>c. flashing (ps ! c)) [0..<LIGHT_COLOR_MAX]"
      let ?s' = "s\<lparr>prio_list := l, flash_list := (if has_light_flash s then [] else flash_list s) @ map (Pair ?i) (filter alloc ?new),
         has_light_flash := (?new \<noteq> []), out := out s @ ons @ offs @ [History (light_text ps)]\<rparr>"
      have p: "put_current_light_state alloc m s = Some ?s'"
        using False o l(1) sel ps(2) by (simp add: put_current_light_state_def Let_def)
      show ?thesis
        by (rule shown [OF p _ l(2) ps(1) False ok o]) (auto simp: filter_empty_conv)
    qed
  qed
qed

text \<open>
  C16. The code implements the specification of settings by priority: a message changes the
  active settings as specified, and afterwards the lamps show the setting of the highest priority
  there is: its steady colours are on, its dark colours are off, and its flashing colours are the
  ones the flash thread serves, in place of those it served before. Nothing is switched when no
  setting is active or the one of the highest priority would switch all of red, blue and green off.
\<close>

theorem highest_priority_is_shown:
  assumes "priority m < length (prio_list s)" "\<forall>ps \<in> ran (active (prio_list s)). colours_ok ps"
    "colours_ok (light_action_list m)" "\<forall>c. alloc c" "has_light_flash s \<longleftrightarrow> flash_list s \<noteq> []"
  shows "\<exists>s' A. put_current_light_state alloc m s = Some s' \<and> A = active (prio_list s') \<and>
    A = spec_update m (active (prio_list s)) \<and>
    (has_light_flash s' \<longleftrightarrow> flash_list s' \<noteq> []) \<and>
    (if A = Map.empty \<or> rgb_dark (the (A (Max (dom A)))) then out s' = out s \<and> flash_list s' = flash_list s
     else (let ps = the (A (Max (dom A))) in
       (\<forall>c < 3. (steady (ps ! c) \<longrightarrow> lit (rgb_line c) (out s')) \<and> (brightness (ps ! c) = 0 \<longrightarrow> \<not> lit (rgb_line c) (out s'))) \<and>
       flash_list s' = map (Pair (Max (dom A))) (filter (\<lambda>c. flashing (ps ! c)) [0..<4])))"
  using assms(1-3)
proof (cases rule: put_current_cases [of m s alloc])
  case (none l)
  then show ?thesis using assms(5) by simp
next
  case (dark l ps)
  then show ?thesis using assms(5) by auto
next
  case (shown l ps ons offs s')
  note v = shown_vals [OF shown(6-8)]
  have "(steady (ps ! c) \<longrightarrow> lit (rgb_line c) (out s')) \<and> (brightness (ps ! c) = 0 \<longrightarrow> \<not> lit (rgb_line c) (out s'))"
    if "c < 3" for c
    using v [OF that] by (auto simp: shown(9) lit_def steady_def)
  moreover have "flash_list s' = map (Pair (Max (dom (active l)))) (filter (\<lambda>c. flashing (ps ! c)) [0..<4])"
    using shown(10) assms(4, 5) by (simp add: LIGHT_COLOR_MAX_def)
  moreover have "has_light_flash s' \<longleftrightarrow> flash_list s' \<noteq> []"
    using shown(11) calculation(2) by (auto simp: filter_empty_conv LIGHT_COLOR_MAX_def)
  ultimately show ?thesis
    using shown(1-5) by (auto simp: Let_def)
qed

definition msg :: "light_action \<Rightarrow> nat \<Rightarrow> u8 list \<Rightarrow> int \<Rightarrow> light_ctl_msg" where
  "msg a p bs f = \<lparr>action = a, priority = p, light_action_list =
     map (\<lambda>c. \<lparr>lc_id = c, brightness = bs ! c, flash_interval = (if bs ! c = 0 then 0 else f)\<rparr>) [0..<4]\<rparr>"

lemma colours_ok_msg: "0 \<le> f \<Longrightarrow> colours_ok (light_action_list (msg a p bs f))"
  by (auto simp: msg_def colours_ok_def LIGHT_COLOR_MAX_def comp_def)

lemma boot_active: "active (prio_list (light_ctl_boot mx)) = Map.empty"
  by (auto simp: light_ctl_boot_def light_action_prio_list_alloc_def active_def no_msg_def)

text \<open>After the start, a first message with a steady green lamp of priority 2.\<close>

theorem highest_priority_is_shown_witness:
  "\<exists>s'. put_current_light_state (\<lambda>_. True) (msg LIGHT_ACTION_START 2 [0, 0, 100, 0] 0) (light_ctl_boot 5) = Some s' \<and>
    lit GREEN_LIGHT_GPIO_NUM (out s') \<and> \<not> lit RED_LIGHT_GPIO_NUM (out s')"
proof -
  let ?m = "msg LIGHT_ACTION_START 2 [0, 0, 100, 0] 0"
  have p: "priority ?m < length (prio_list (light_ctl_boot 5))"
    by (simp add: msg_def light_ctl_boot_def light_action_prio_list_alloc_def)
  have b: "has_light_flash (light_ctl_boot 5) \<longleftrightarrow> flash_list (light_ctl_boot 5) \<noteq> []"
    by (simp add: light_ctl_boot_def)
  have u: "spec_update ?m (active (prio_list (light_ctl_boot 5))) = [2 \<mapsto> light_action_list ?m]"
    unfolding boot_active by (simp add: spec_update_def msg_def)
  have L: "steady (light_action_list ?m ! 2)" "brightness (light_action_list ?m ! 0) = 0" "\<not> rgb_dark (light_action_list ?m)"
    by (simp_all add: msg_def steady_def rgb_dark_def upt_rec)
  obtain s' where s': "put_current_light_state (\<lambda>_. True) ?m (light_ctl_boot 5) = Some s'"
    "\<forall>c < 3. (steady (light_action_list ?m ! c) \<longrightarrow> lit (rgb_line c) (out s')) \<and>
     (brightness (light_action_list ?m ! c) = 0 \<longrightarrow> \<not> lit (rgb_line c) (out s'))"
    using highest_priority_is_shown [OF p _ colours_ok_msg _ b, of "\<lambda>_. True"] L(3) unfolding u
    by (auto simp: boot_active Let_def)
  then show ?thesis
    using L(1, 2) spec [OF s'(2), of 2] spec [OF s'(2), of 0] by (auto simp: rgb_line_def)
qed

lemma vals_take: "set (vals g (take k os)) \<subseteq> set (vals g os)"
  by (metis append_take_drop_id set_append Un_upper1 vals_append)

lemma lit_kept: "lit g a \<Longrightarrow> set (vals g b) \<subseteq> {1} \<Longrightarrow> lit g (a @ b)"
  by (metis last_in_set lit_append lit_def singletonD subsetD)

text \<open>
  The lamps never go dark while a setting is changed: if one of red, blue and green was on
  and the setting to be shown has a steady one of them, then one of them is on after every single
  output in between.
\<close>

theorem lamps_never_go_dark:
  assumes "priority m < length (prio_list s)" "\<forall>ps \<in> ran (active (prio_list s)). colours_ok ps"
    "colours_ok (light_action_list m)" "put_current_light_state alloc m s = Some s'"
    "\<exists>c < 3. lit (rgb_line c) (out s)"
    "\<exists>c < 3. steady (the (active (prio_list s') (Max (dom (active (prio_list s'))))) ! c)" "length (out s) \<le> k"
  shows "\<exists>c < 3. lit (rgb_line c) (take k (out s'))"
  using assms(1-3)
proof (cases rule: put_current_cases [of m s alloc])
  case (shown l ps ons offs s1)
  have s1: "s1 = s'" using shown(1) assms(4) by simp
  obtain c where c: "c < 3" "steady (ps ! c)"
    using assms(6) shown(2, 4) s1 by auto
  obtain c0 where c0: "c0 < 3" "lit (rgb_line c0) (out s)"
    using assms(5) by blast
  note v = shown_vals [OF shown(6-8)]
  have t: "take k (out s') = out s @ take (k - length (out s)) (ons @ offs @ [History (light_text ps)])"
    using assms(7) shown(9) s1 by simp
  show ?thesis
  proof (cases "k - length (out s) \<le> length ons")
    case True
    have "set (vals (rgb_line c0) (take (k - length (out s)) ons)) \<subseteq> {1}"
      using vals_take [of "rgb_line c0" "k - length (out s)" ons] v(1) [OF c0(1)] by (auto split: if_splits)
    then show ?thesis
      using lit_kept [OF c0(2)] True c0(1) unfolding t by auto
  next
    case False
    let ?r = "take (k - length (out s) - length ons) (offs @ [History (light_text ps)])"
    have "vals (rgb_line c) ?r = []"
      using vals_take [of "rgb_line c" "k - length (out s) - length ons" "offs @ [History (light_text ps)]"] v(2) [OF c(1)] steady_bright [OF c(2)]
      by simp
    moreover have "lit (rgb_line c) (out s @ ons)"
      using v(1) [OF c(1)] c(2) by (simp add: lit_def)
    ultimately have "lit (rgb_line c) (out s @ ons @ ?r)"
      using lit_append [of "rgb_line c" "out s @ ons" ?r] by simp
    then show ?thesis
      using False c(1) unfolding t by auto
  qed
qed (use assms in auto)

definition demo_green :: light_state where
  "demo_green = (light_ctl_boot 5)\<lparr>prio_list := (light_action_prio_list_alloc 5)[2 := msg LIGHT_ACTION_START 2 [0, 0, 100, 0] 0],
     out := light_init @ rgb_light_set GREEN_LIGHT_GPIO_NUM 100\<rparr>"

theorem lamps_never_go_dark_witness:
  "\<exists>s'. put_current_light_state (\<lambda>_. True) (msg LIGHT_ACTION_START 3 [100, 0, 0, 0] 0) demo_green = Some s' \<and>
    (\<exists>c < 3. lit (rgb_line c) (take (length (out demo_green) + 1) (out s')))"
proof -
  let ?m = "msg LIGHT_ACTION_START 3 [100, 0, 0, 0] 0" and ?L = "light_action_list (msg LIGHT_ACTION_START 2 [0, 0, 100, 0] 0)"
  have p: "priority ?m < length (prio_list demo_green)"
    by (simp add: msg_def demo_green_def light_action_prio_list_alloc_def)
  have A: "active (prio_list demo_green) = [2 \<mapsto> ?L]"
    using active_update(1) [of "msg LIGHT_ACTION_START 2 [0, 0, 100, 0] 0" "light_action_prio_list_alloc 5"] boot_active [of 5]
    by (simp add: demo_green_def light_ctl_boot_def) (simp add: msg_def light_action_prio_list_alloc_def)
  have ok: "\<forall>ps \<in> ran (active (prio_list demo_green)). colours_ok ps"
    unfolding A by (simp add: colours_ok_msg)
  have u: "spec_update ?m (active (prio_list demo_green)) = [2 \<mapsto> ?L, 3 \<mapsto> light_action_list ?m]"
    unfolding A by (simp add: spec_update_def) (simp add: msg_def)
  have st: "steady (light_action_list ?m ! 0)" and g: "lit (rgb_line 2) (out demo_green)"
    by (simp_all add: msg_def steady_def upt_rec lit_def demo_green_def rgb_line_def rgb_light_set_def vals_def set_light_brightness_def)
  have b: "has_light_flash demo_green \<longleftrightarrow> flash_list demo_green \<noteq> []"
    by (simp add: demo_green_def light_ctl_boot_def)
  have dom: "dom [2 \<mapsto> ?L, 3 \<mapsto> light_action_list ?m] = {2, 3 :: nat}"
    by auto
  obtain s' where s': "put_current_light_state (\<lambda>_. True) ?m demo_green = Some s'"
    "active (prio_list s') = [2 \<mapsto> ?L, 3 \<mapsto> light_action_list ?m]"
    using highest_priority_is_shown [OF p ok colours_ok_msg _ b, of "\<lambda>_. True"] u by auto
  have "\<exists>c < 3. steady (the (active (prio_list s') (Max (dom (active (prio_list s'))))) ! c)"
    unfolding s'(2) dom using st by (intro exI [of _ "0 :: nat"]) simp
  moreover have "\<exists>c < 3. lit (rgb_line c) (out demo_green)"
    using g by (intro exI [of _ "2 :: nat"]) simp
  ultimately have "\<exists>c < 3. lit (rgb_line c) (take (length (out demo_green) + 1) (out s'))"
    using lamps_never_go_dark [OF p ok colours_ok_msg s'(1)] by simp
  with s'(1) show ?thesis by blast
qed

section \<open>Brightness and flashing\<close>

text \<open>The register value stays within its span; 128 is shown brighter than 129 to 132.\<close>

lemma pwm_value_range:
  assumes "hi = 0xFFFFFFFE \<or> hi = 0xFFFFFFF5"
  shows "0xFFFFFF38 \<le> pwm_value hi b \<and> pwm_value hi b \<le> hi"
proof -
  define t where "t = (if b = 128 then 133 else b)"
  let ?d = "hi - 0xFFFFFF38"
  have d: "unat ?d \<in> {198, 189}" "unat hi = 0xFFFFFF38 + unat ?d"
    using assms by auto
  have t: "unat t < 256"
    using unsigned_less [of t, where ?'a = nat] by simp
  have uc: "unat (ucast t :: u32) = unat t"
    using t by (simp add: unsigned_ucast_eq take_bit_nat_eq_self)
  have "unat t * unat ?d \<le> 255 * 198"
    using t d(1) by (intro mult_le_mono) auto
  then have m: "unat (ucast t * ?d :: u32) = unat t * unat ?d"
    by (simp add: unat_word_ariths(2) uc)
  have q: "unat (ucast t * ?d div 255 :: u32) = unat t * unat ?d div 255"
    unfolding unat_div m by simp
  have "unat t * unat ?d \<le> 255 * unat ?d"
    using t by (intro mult_le_mono1) simp
  then have le: "unat t * unat ?d div 255 \<le> unat ?d"
    by linarith
  then have "unat t * unat ?d div 255 < 200"
    using d(1) by auto
  then have v: "unat (pwm_value hi b) = unat t * unat ?d div 255 + 0xFFFFFF38"
    by (simp add: pwm_value_def Let_def unat_word_ariths(1) q flip: t_def)
  show ?thesis
    unfolding word_le_nat_alt v d(2) using le by simp
qed

lemma brightness_not_monotone: "pwm_value 0xFFFFFFFE 128 > pwm_value 0xFFFFFFFE 130"
  by (simp add: pwm_value_def)

text \<open>
  The flash thread serves the flashing colours in turn: as many rounds as there are nodes serve
  each node once and leave the list as it was.
\<close>

lemma light_flash_turns:
  assumes "\<forall>(i, c) \<in> set (flash_list s). lc_id (light_action_list (prio_list s ! i) ! c) < 4"
  shows "\<exists>s'. ((\<lambda>x. Option.bind x light_flash_round) ^^ length (flash_list s)) (Some s) = Some s' \<and>
    flash_list s' = flash_list s \<and> prio_list s' = prio_list s"
proof -
  have "\<exists>s'. ((\<lambda>x. Option.bind x light_flash_round) ^^ n) (Some s) = Some s' \<and>
    flash_list s' = rotate n (flash_list s) \<and> prio_list s' = prio_list s" for n
  proof (induction n)
    case (Suc n)
    then obtain s1 where s1: "((\<lambda>x. Option.bind x light_flash_round) ^^ n) (Some s) = Some s1"
      "flash_list s1 = rotate n (flash_list s)" "prio_list s1 = prio_list s" by blast
    show ?case
    proof (cases "flash_list s1")
      case (Cons x fs)
      obtain i c where x: "x = (i, c)" by force
      have "(i, c) \<in> set (flash_list s)"
        using s1(2) Cons x by (metis list.set_intros(1) set_rotate)
      then have "lc_id (light_action_list (prio_list s ! i) ! c) < 4"
        using assms by auto
      then obtain o1 o2 where "light_set (lc_id (light_action_list (prio_list s ! i) ! c)) (brightness (light_action_list (prio_list s ! i) ! c)) = Some o1"
        "light_set (lc_id (light_action_list (prio_list s ! i) ! c)) 0 = Some o2"
        using light_set_vals [of 0] by (metis zero_less_numeral)
      moreover have "rotate (Suc n) (flash_list s) = fs @ [(i, c)]"
        using s1(2) Cons x by (metis rotate1.simps(2) rotate_Suc)
      ultimately have "\<exists>s2. light_flash_round s1 = Some s2 \<and> flash_list s2 = rotate (Suc n) (flash_list s) \<and> prio_list s2 = prio_list s"
        using s1(3) Cons x by (simp add: light_flash_round_def Let_def)
      then show ?thesis
        using s1(1) by simp
    next
      case Nil
      then have "light_flash_round s1 = Some s1"
        by (simp add: light_flash_round_def)
      then show ?thesis
        using s1 Nil by simp
    qed
  qed simp
  from this [of "length (flash_list s)"] show ?thesis by simp
qed

text \<open>
  When the only setting is stopped the flash thread is not told: its node then refers to the
  cleared entry, and it switches the red lamp off without a pause.
\<close>

lemma stopped_setting_keeps_flashing:
  assumes "active (prio_list s) = [p \<mapsto> ps]" "action m = LIGHT_ACTION_STOP" "priority m = p" "flash_list s = [(p, c)]" "c < 4"
  defines "s' \<equiv> s\<lparr>prio_list := (prio_list s)[p := no_msg]\<rparr>"
  shows "put_current_light_state alloc m s = Some s' \<and>
    light_flash_round s' = Some (s'\<lparr>out := out s @ [GpioVal RED_LIGHT_GPIO_NUM 0, FlashPause 0,
      Pinmux LIGHT_SWITCH_MUXMODE_ADDR GPIO_MODE_VAL, GpioVal RED_LIGHT_GPIO_NUM 0, FlashPause 0]\<rparr>)"
proof -
  have "p \<in> dom (active (prio_list s))"
    by (simp add: assms(1))
  then have p: "p < length (prio_list s)"
    by (auto simp: active_def split: if_splits)
  have "active ((prio_list s)[p := no_msg]) = Map.empty"
    using active_update(2) [of m "prio_list s"] p by (auto simp: assms(1, 3))
  then have "put_current_light_state alloc m s = Some s'"
    using p by (simp add: put_current_light_state_def update_prio_list_def delete_light_action_prio_list_def assms(2, 3)
        select_eq s'_def)
  moreover have "light_action_list no_msg ! c = no_light"
    using assms(5) by (simp add: no_msg_def LIGHT_COLOR_MAX_def)
  ultimately show ?thesis
    using p by (auto simp: light_flash_round_def s'_def assms(4) no_light_def light_set_def rgb_light_set_def Let_def
        intro!: light_state.equality)
qed

text \<open>Without a setting the answer to a request is copied from a null pointer.\<close>

lemma get_without_setting_faults: "get_current_light_state (light_ctl_boot mx) = None"
  by (simp add: get_current_light_state_def select_eq boot_active)

end
