(* ===== verification/H264_Stamp.thy ===== *)
theory H264_Stamp
  imports Bytes
begin

text \<open>
  The time stamps of a program stream (\<open>h264/h264_buffer.cpp\<close>): the search for the start codes of
  pack headers and PES headers, the 33 bits of a time stamp spread over the five bytes of a field,
  and \<open>h264_ps_adjust_timestamp\<close>, which walks over all headers and rewrites the stamps that do not
  follow the one before. The buffer is the list of its \<open>buf_len\<close> bytes; \<open>char\<close> is unsigned (ARM), a
  \<open>long long\<close> an \<open>int\<close>. The loop \<open>while (1)\<close> is a partial function: \<open>None\<close> is a call that does not
  return, \<open>Some Fault\<close> one that leaves the buffer.
\<close>

unbundle bit_operations_syntax

section \<open>The search for a start code\<close>

text \<open>\<open>num\<close> after the inner loop: the number of bytes that agree before the first difference.\<close>

fun agree :: "bytes \<Rightarrow> nat \<Rightarrow> bytes \<Rightarrow> nat" where
  "agree buf i [] = 0"
| "agree buf i (c # cs) = (if buf ! i = c then Suc (agree buf (Suc i) cs) else 0)"

function find_from :: "bytes \<Rightarrow> int \<Rightarrow> bytes \<Rightarrow> nat \<Rightarrow> int" where
  "find_from buf len str pos =
     (if int pos + int (length str) \<le> len
      then if agree buf pos str = length str then int pos else find_from buf len str (Suc pos)
      else - 1)"
  by pat_completeness auto
termination
  by (relation "measure (\<lambda>(buf, len, str, pos). nat (len + 1 - int pos - int (length str)))") auto

declare find_from.simps [simp del]

definition find_str_in_buf :: "bytes \<Rightarrow> int \<Rightarrow> bytes \<Rightarrow> int" where
  "find_str_in_buf buf len str = find_from buf len str 0"

section \<open>The five bytes of a time stamp\<close>

definition field :: "u8 \<Rightarrow> u8 \<Rightarrow> nat \<Rightarrow> int" where
  "field b msk sh = drop_bit sh (uint (b AND msk))"

definition get_timestamp_packheader :: "bytes \<Rightarrow> nat \<Rightarrow> int option" where
  "get_timestamp_packheader m p =
     (if p + 5 \<le> length m
      then let t = field (m ! p) 0x38 3;
               t = push_bit 2 t + field (m ! p) 0x03 0;
               t = push_bit 8 t + field (m ! (p + 1)) 0xff 0;
               t = push_bit 5 t + field (m ! (p + 2)) 0xf8 3;
               t = push_bit 2 t + field (m ! (p + 2)) 0x03 0;
               t = push_bit 8 t + field (m ! (p + 3)) 0xff 0;
               t = push_bit 5 t + field (m ! (p + 4)) 0xf8 3
           in Some t
      else None)"

definition get_timestamp_PESheader :: "bytes \<Rightarrow> nat \<Rightarrow> int option" where
  "get_timestamp_PESheader m p =
     (if p + 5 \<le> length m
      then let t = field (m ! p) 0x0E 1;
               t = push_bit 8 t + field (m ! (p + 1)) 0xff 0;
               t = push_bit 7 t + field (m ! (p + 2)) 0xfe 1;
               t = push_bit 8 t + field (m ! (p + 3)) 0xff 0;
               t = push_bit 7 t + field (m ! (p + 4)) 0xfe 1
           in Some t
      else None)"

text \<open>\<open>buf[i] = (buf[i] & keep) + ((v & msk) << sh)\<close>.\<close>

definition byte_put :: "u8 \<Rightarrow> u8 \<Rightarrow> int \<Rightarrow> int \<Rightarrow> nat \<Rightarrow> u8" where
  "byte_put b keep v msk sh = word_of_int (uint (b AND keep) + push_bit sh (v AND msk))"

definition put_bits :: "nat \<Rightarrow> u8 \<Rightarrow> int \<Rightarrow> int \<Rightarrow> nat \<Rightarrow> bytes \<Rightarrow> bytes" where
  "put_bits i keep v msk sh m = m[i := byte_put (m ! i) keep v msk sh]"

definition change_timestamp_packheader :: "bytes \<Rightarrow> nat \<Rightarrow> int \<Rightarrow> bytes option" where
  "change_timestamp_packheader m p t =
     (if p + 5 \<le> length m
      then let m = put_bits (p + 4) 0x07 t 0x1f 3 m; t = drop_bit 5 t;
               m = put_bits (p + 3) 0x00 t 0xff 0 m; t = drop_bit 8 t;
               m = put_bits (p + 2) 0xfc t 0x03 0 m; t = drop_bit 2 t;
               m = put_bits (p + 2) 0x07 t 0x1f 3 m; t = drop_bit 5 t;
               m = put_bits (p + 1) 0x00 t 0xff 0 m; t = drop_bit 8 t;
               m = put_bits p 0xfc t 0x03 0 m; t = drop_bit 2 t;
               m = put_bits p 0xc7 t 0x07 3 m
           in Some m
      else None)"

definition put_PES :: "nat \<Rightarrow> int \<Rightarrow> bytes \<Rightarrow> bytes" where
  "put_PES p t m =
     (let m = put_bits (p + 4) 0x01 t 0x7f 1 m; t = drop_bit 7 t;
          m = put_bits (p + 3) 0x00 t 0xff 0 m; t = drop_bit 8 t;
          m = put_bits (p + 2) 0x01 t 0x7f 1 m; t = drop_bit 7 t;
          m = put_bits (p + 1) 0x00 t 0xff 0 m; t = drop_bit 8 t
      in put_bits p 0xf1 t 0x07 1 m)"

definition change_timestamp_PESheader :: "bytes \<Rightarrow> nat \<Rightarrow> int \<Rightarrow> bytes option" where
  "change_timestamp_PESheader m p t =
     (if p + 10 \<le> length m then Some (put_PES (p + 5) t (put_PES p t m)) else None)"

section \<open>The walk over the stream\<close>

definition str_PackHeader :: bytes where "str_PackHeader = [0x00, 0x00, 0x01, 0xBA]"
definition str_PESHeader :: bytes where "str_PESHeader = [0x00, 0x00, 0x01, 0xE0]"

definition INTERVAL_TIMESTAMP :: int where "INTERVAL_TIMESTAMP = 3600"

datatype header = PACK_HEARDER | PES_HEARDER

datatype 'a outcome = Fault | Err | Done 'a

text \<open>What the loop carries about time stamps.\<close>

record stamp =
  s_buf :: bytes
  s_old :: int            \<comment> \<open>\<open>timestamp_old\<close>\<close>
  s_first :: bool         \<comment> \<open>\<open>flag_first_stamp\<close>\<close>
  s_flag_old :: header    \<comment> \<open>\<open>flag_timestamp_old\<close>\<close>

text \<open>What it carries about positions.\<close>

record place =
  pos_buf :: nat
  pos_pack_header :: int
  pos_pack_total :: nat
  pos_PES_total :: nat

text \<open>A stamp that may stay: the first one, when no start was given, or one that follows the last.\<close>

definition continuous :: "int \<Rightarrow> stamp \<Rightarrow> int \<Rightarrow> bool" where
  "continuous start s t =
     (s_first s \<and> start = - 1 \<or> (t - s_old s \<ge> 0 \<and> t - s_old s \<le> INTERVAL_TIMESTAMP * 2))"

definition visit_pack :: "int \<Rightarrow> nat \<Rightarrow> stamp \<Rightarrow> stamp option" where
  "visit_pack start p s =
     do { t \<leftarrow> get_timestamp_packheader (s_buf s) p;
          s \<leftarrow> (if t = 0 then Some s
                else if continuous start s t then Some (s\<lparr>s_first := False, s_old := t\<rparr>)
                else let t' = s_old s + INTERVAL_TIMESTAMP in
                     do { m \<leftarrow> change_timestamp_packheader (s_buf s) p t';
                          Some (s\<lparr>s_buf := m, s_old := t'\<rparr>) });
          Some (s\<lparr>s_flag_old := PACK_HEARDER\<rparr>) }"

definition visit_PES :: "int \<Rightarrow> nat \<Rightarrow> stamp \<Rightarrow> stamp option" where
  "visit_PES start p s =
     do { t \<leftarrow> get_timestamp_PESheader (s_buf s) p;
          s \<leftarrow> (if t = 0 then Some s
                else if continuous start s t then Some (s\<lparr>s_first := False, s_old := t\<rparr>)
                else let t' = (if s_flag_old s = PACK_HEARDER then s_old s
                               else s_old s + INTERVAL_TIMESTAMP) in
                     do { m \<leftarrow> change_timestamp_PESheader (s_buf s) p t';
                          Some (s\<lparr>s_buf := m, s_old := t'\<rparr>) });
          Some (s\<lparr>s_flag_old := PES_HEARDER\<rparr>) }"

text \<open>
  The search of one turn: the pack header only when the last one was passed, the PES header always.
  \<open>None\<close> leaves the loop; otherwise the header to visit and the place of its first byte.
\<close>

definition seek :: "bytes \<Rightarrow> place \<Rightarrow> (header \<times> place) option" where
  "seek m l =
     (let rest = drop (pos_buf l) m; len = int (length m) - int (pos_buf l);
          l = (if pos_PES_total l \<ge> pos_pack_total l
               then let k = find_str_in_buf rest len str_PackHeader; l = l\<lparr>pos_pack_header := k\<rparr> in
                    if k < 0 then l else l\<lparr>pos_pack_total := pos_buf l + nat k\<rparr>
               else l);
          k = find_str_in_buf rest len str_PESHeader
      in if k < 0 \<and> pos_pack_header l < 0 then None
         else let l = (if k < 0 then l else l\<lparr>pos_PES_total := pos_buf l + nat k\<rparr>) in
              Some (if pos_PES_total l > pos_pack_total l \<and> pos_pack_header l \<ge> 0
                    then (PACK_HEARDER, l\<lparr>pos_buf := pos_pack_total l + 4\<rparr>)
                    else (PES_HEARDER, l\<lparr>pos_buf := pos_PES_total l + 9\<rparr>)))"

definition visit :: "int \<Rightarrow> header \<Rightarrow> nat \<Rightarrow> stamp \<Rightarrow> stamp option" where
  "visit start h p s =
     (case h of PACK_HEARDER \<Rightarrow> visit_pack start p s | PES_HEARDER \<Rightarrow> visit_PES start p s)"

partial_function (option) adjust_loop :: "int \<Rightarrow> place \<Rightarrow> stamp \<Rightarrow> stamp outcome option" where
  "adjust_loop start l s =
     (case seek (s_buf s) l of
        None \<Rightarrow> Some (Done s)
      | Some (h, l) \<Rightarrow>
          (case visit start h (pos_buf l) s of
             None \<Rightarrow> Some Fault
           | Some s \<Rightarrow> adjust_loop start l s))"

definition h264_ps_adjust_timestamp :: "bytes option \<Rightarrow> int \<Rightarrow> (bytes \<times> int) outcome option" where
  "h264_ps_adjust_timestamp buf start =
     (case buf of
        None \<Rightarrow> Some Err
      | Some buf \<Rightarrow>
          if length buf = 0 then Some Err
          else map_option (\<lambda>r. case r of Done s \<Rightarrow> Done (s_buf s, s_old s) | Err \<Rightarrow> Err | Fault \<Rightarrow> Fault)
            (adjust_loop start
               \<lparr>pos_buf = 0, pos_pack_header = 0, pos_pack_total = 0, pos_PES_total = 0\<rparr>
               \<lparr>s_buf = buf, s_old = (if start \<noteq> - 1 then start else 0), s_first = True,
                s_flag_old = PES_HEARDER\<rparr>))"

end
