(* ===== verification/H264_Bits.thy ===== *)
theory H264_Bits
  imports H264_Stamp
begin

text \<open>
  The bytes of a time stamp: the masks of \<open>h264_buffer.cpp\<close> as divisions and remainders, the round
  trips of both kinds of field, the marker bits that a rewriting keeps.
\<close>

section \<open>Masks and bytes\<close>

lemma and_mask_mod: "(v::int) AND (2 ^ n - 1) = v mod 2 ^ n"
  by (simp add: take_bit_eq_mask mask_eq_exp_minus_1 flip: take_bit_eq_mod)

lemmas and_masks =
  and_mask_mod [where n = 1, simplified] and_mask_mod [where n = 2, simplified] and_mask_mod [where n = 3, simplified]
  and_mask_mod [where n = 4, simplified] and_mask_mod [where n = 5, simplified] and_mask_mod [where n = 6, simplified] 
  and_mask_mod [where n = 7, simplified] and_mask_mod [where n = 8, simplified] 

lemma and_split: "(x::int) AND y = 2 ^ n * ((x div 2 ^ n) AND (y div 2 ^ n)) + ((x mod 2 ^ n) AND (y mod 2 ^ n))"
proof -
  have "x AND y = push_bit n (drop_bit n (x AND y)) + take_bit n (x AND y)"
    by (simp only: bits_ident)
  also have "\<dots> = push_bit n (drop_bit n x AND drop_bit n y) + (take_bit n x AND take_bit n y)"
    by (simp only: drop_bit_and take_bit_and)
  finally show ?thesis
    by (simp add: push_bit_eq_mult mult.commute drop_bit_eq_div take_bit_eq_mod)
qed

lemma byte_range: "0 \<le> uint (b::u8)" "uint b < 256"
  using unsigned_less [of b] by simp_all

lemma and_bytes:
  "(x::int) AND 0x38 = 8 * (x div 8 mod 8)" "x AND 0xf8 = 8 * (x div 8 mod 32)"
  "x AND 0x0E = 2 * (x div 2 mod 8)" "x AND 0xfe = 2 * (x div 2 mod 128)"
  "x AND 0xfc = 4 * (x div 4 mod 64)" 
  subgoal using and_split [of x "0x38" 3] by (simp add: and_masks)
  subgoal using and_split [of x "0xf8" 3] by (simp add: and_masks)
  subgoal using and_split [of x "0x0E" 1] by (simp add: and_masks)
  subgoal using and_split [of x "0xfe" 1] by (simp add: and_masks)
  subgoal using and_split [of x "0xfc" 2] by (simp add: and_masks)
  done

lemma and_bytes2: "(x::int) AND 0xc7 = 64 * (x div 64 mod 4) + x mod 8"
  "x AND 0xf1 = 16 * (x div 16 mod 16) + x mod 2"
  subgoal using and_split [of x "0xc7" 6] and_split [of "x mod 64" 7 3]  by (simp add: and_masks mod_mod_cancel)
  subgoal using and_split [of x "0xf1" 4] and_split [of "x mod 16" 1 1] by (simp add: and_masks mod_mod_cancel)
  done

lemma byte_div:
  "0 \<le> uint (b::u8) div 8" "uint b div 8 < 32" "0 \<le> uint b div 2" "uint b div 2 < 128"
  "0 \<le> uint b div 4" "uint b div 4 < 64" "0 \<le> uint b div 64" "uint b div 64 < 4" 
  "0 \<le> uint b div 16" "uint b div 16 < 16"
  using byte_range [of b] by presburger+

lemma byte_div_mod:
  "uint (b::u8) div 8 mod 32 = uint b div 8" "uint b div 2 mod 128 = uint b div 2" "uint b mod 256 = uint b"
  "uint b div 4 mod 64 = uint b div 4" "uint b div 64 mod 4 = uint b div 64" "uint b div 16 mod 16 = uint b div 16"
  using byte_div [of b] byte_range [of b] by (simp_all only: mod_pos_pos_trivial)

lemma field_simps:
  "field b 0x38 3 = uint b div 8 mod 8" "field b 0x03 0 = uint b mod 4" "field b 0xff 0 = uint b"
  "field b 0xf8 3 = uint b div 8" "field b 0x0E 1 = uint b div 2 mod 8" "field b 0xfe 1 = uint b div 2"
  by (simp_all add: field_def unsigned_and_eq drop_bit_eq_div and_masks and_bytes byte_div_mod)

lemma uint_byte: "0 \<le> x \<Longrightarrow> x < 256 \<Longrightarrow> uint (word_of_int x :: u8) = x"
  by (simp add: uint_word_of_int)

lemma mod_le: 
  "(v::int) mod 2 \<le> 1" "v mod 4 \<le> 3" "v mod 8 \<le> 7" "v mod 32 \<le> 31" "v mod 128 \<le> 127" "v mod 256 \<le> 255"
  using pos_mod_bound [of 2 v] pos_mod_bound [of 4 v] pos_mod_bound [of 8 v] 
    pos_mod_bound [of 32 v] pos_mod_bound [of 128 v] pos_mod_bound [of 256 v] by simp_all

lemma put_uint:
  assumes "uint (b AND keep) = k" and "push_bit sh (v AND msk) = w" and "0 \<le> k" and "k \<le> n" and "0 \<le> w" and "w \<le> 255 - n"
  shows "uint (byte_put b keep v msk sh) = k + w"
  unfolding byte_put_def assms(1,2) using assms(3-) by (intro uint_byte) simp_all

lemma uint_put:
  "uint (byte_put b 0x07 v 0x1f 3) = uint b mod 8 + 8 * (v mod 32)"
  "uint (byte_put b 0x00 v 0xff 0) = 0 + v mod 256"
  "uint (byte_put b 0xfc v 0x03 0) = 4 * (uint b div 4) + v mod 4"
  "uint (byte_put b 0x01 v 0x7f 1) = uint b mod 2 + 2 * (v mod 128)"
  "uint (byte_put b 0xc7 v 0x07 3) = (64 * (uint b div 64) + uint b mod 8) + 8 * (v mod 8)"
  "uint (byte_put b 0xf1 v 0x07 1) = (16 * (uint b div 16) + uint b mod 2) + 2 * (v mod 8)"
proof -
  note d = unsigned_and_eq push_bit_eq_mult and_masks and_bytes and_bytes2 byte_div_mod
  show "uint (byte_put b 0x07 v 0x1f 3) = uint b mod 8 + 8 * (v mod 32)"
    by (rule put_uint [where n = 7]) (simp_all add: d mod_le)
  show "uint (byte_put b 0x00 v 0xff 0) = 0 + v mod 256"
    by (rule put_uint [where n = 0]) (simp_all add: d mod_le)
  show "uint (byte_put b 0xfc v 0x03 0) = 4 * (uint b div 4) + v mod 4"
    using byte_div [of b] by (intro put_uint [where n = 252]) (simp_all add: d mod_le)
  show "uint (byte_put b 0x01 v 0x7f 1) = uint b mod 2 + 2 * (v mod 128)"
    by (rule put_uint [where n = 1]) (simp_all add: d mod_le)
  have q: "64 * (uint b div 64) \<le> 192" "16 * (uint b div 16) \<le> 240"
    using byte_div(8,10) [of b] by (simp_all only: zless_imp_add1_zle)
  show "uint (byte_put b 0xc7 v 0x07 3) = (64 * (uint b div 64) + uint b mod 8) + 8 * (v mod 8)"
    by (rule put_uint [OF _ _ add_nonneg_nonneg add_mono [OF q(1) mod_le(3)]]) (simp_all add: d mod_le byte_div)
  show "uint (byte_put b 0xf1 v 0x07 1) = (16 * (uint b div 16) + uint b mod 2) + 2 * (v mod 8)"
    by (rule put_uint [OF _ _ add_nonneg_nonneg add_mono [OF q(2) mod_le(1)]]) (simp_all add: d mod_le byte_div)
qed
section \<open>The round trip of a time stamp\<close>

lemma join_rest:
  fixes x y z :: int
  shows "(64 * x + y mod 8 + 8 * z) div 8 mod 8 = z mod 8" "(64 * x + y mod 8 + 8 * z) mod 4 = y mod 4" 
    "(y mod 8 + 8 * z) mod 4 = y mod 4" "(y mod 8 + 8 * z) div 8 = z" "(16 * x + y mod 2 + 2 * z) div 2 mod 8 = z mod 8"
    "(4 * x + y mod 4) mod 4 = y mod 4"
proof -
  have a: "64 * x + y mod 8 + 8 * z = y mod 8 + (8 * x + z) * 8" 
    "16 * x + y mod 2 + 2 * z = y mod 2 + (8 * x + z) * 2" "64 * x + y mod 8 + 8 * z = y mod 8 + (16 * x + 2 * z) * 4"
    "y mod 8 + 8 * z = y mod 8 + (2 * z) * 4"
    by (simp_all only: ring_distribs)
  have d: "(y mod 8 + c * 8) div 8 = c" "(y mod 2 + c * 2) div 2 = c" for c
    by simp_all
  show "(64 * x + y mod 8 + 8 * z) div 8 mod 8 = z mod 8" unfolding a(1) d by simp
  show "(64 * x + y mod 8 + 8 * z) mod 4 = y mod 4" unfolding a(3) mod_mult_self1 by (simp add: mod_mod_cancel)
  show "(y mod 8 + 8 * z) mod 4 = y mod 4" unfolding a(4) mod_mult_self1 by (simp add: mod_mod_cancel)
  show "(y mod 8 + 8 * z) div 8 = z" by simp
  show "(16 * x + y mod 2 + 2 * z) div 2 mod 8 = z mod 8" unfolding a(2) d by simp
  show "(4 * x + y mod 4) mod 4 = y mod 4" by simp
qed

lemma field_put [simp]:
  "field (byte_put (byte_put b 0xfc v 0x03 0) 0xc7 w 0x07 3) 0x38 3 = w mod 8"
  "field (byte_put (byte_put b 0xfc v 0x03 0) 0xc7 w 0x07 3) 0x03 0 = v mod 4"
  "field (byte_put (byte_put b 0xfc v 0x03 0) 0x07 w 0x1f 3) 0x03 0 = v mod 4"
  "field (byte_put b 0x07 v 0x1f 3) 0xf8 3 = v mod 32"
  "field (byte_put b 0x00 v 0xff 0) 0xff 0 = v mod 256"
  "field (byte_put b 0x01 v 0x7f 1) 0xfe 1 = v mod 128"
  "field (byte_put b 0xf1 v 0x07 1) 0x0E 1 = v mod 8"
  by (simp_all only: field_simps uint_put join_rest mod_mod_trivial)

lemma join_bits:
  assumes "0 \<le> k" shows "push_bit n (v div 2 ^ n mod k) + v mod 2 ^ n = (v::int) mod (2 ^ n * k)"
  using assms by (simp add: push_bit_eq_mult zmod_zmult2_eq)

lemma put_bits_nth: "i < length m \<Longrightarrow> put_bits i k v s h m ! j = (if j = i then byte_put (m ! i) k v s h else m ! j)"
  by (simp add: put_bits_def nth_list_update)

lemma length_put_bits [simp]: "length (put_bits i k v s h m) = length m"
  by (simp add: put_bits_def)

lemma pack_roundtrip:
  assumes "change_timestamp_packheader m p t = Some m'"
  shows "get_timestamp_packheader m' p = Some (t mod 2 ^ 33)"
proof -
  have len: "p + 5 \<le> length m" "length m' = length m"
    using assms by (auto simp: change_timestamp_packheader_def Let_def split: if_splits)
  have m': "m' = put_bits p 0xc7 (drop_bit 30 t) 0x07 3 (put_bits p 0xfc (drop_bit 28 t) 0x03 0
    (put_bits (p + 1) 0x00 (drop_bit 20 t) 0xff 0 (put_bits (p + 2) 0x07 (drop_bit 15 t) 0x1f 3 (put_bits (p + 2) 0xfc (drop_bit 13 t) 0x03 0
      (put_bits (p + 3) 0x00 (drop_bit 5 t) 0xff 0 (put_bits (p + 4) 0x07 t 0x1f 3 m))))))"
    using assms len by (simp add: change_timestamp_packheader_def Let_def)
  have "field (m' ! p) 0x38 3 = t div 2 ^ 30 mod 8" "field (m' ! p) 0x03 0 = t div 2 ^ 28 mod 4"
    "field (m' ! (p + 1)) 0xff 0 = t div 2 ^ 20 mod 256" "field (m' ! (p + 2)) 0x03 0 = t div 2 ^ 13 mod 4"
    "field (m' ! (p + 2)) 0xf8 3 = t div 2 ^ 15 mod 32" 
    "field (m' ! (p + 3)) 0xff 0 = t div 2 ^ 5 mod 256" "field (m' ! (p + 4)) 0xf8 3 = t mod 2 ^ 5"
    using len(1) unfolding m' by (simp_all add: put_bits_nth drop_bit_eq_div)
  note b = this
  have "push_bit 2 (t div 2 ^ 30 mod 8) + t div 2 ^ 28 mod 4 = t div 2 ^ 28 mod 2 ^ 5"
    using join_bits [of 8 2 "t div 2 ^ 28"] by (simp flip: zdiv_zmult2_eq)
  moreover have "push_bit 8 (t div 2 ^ 28 mod 2 ^ 5) + t div 2 ^ 20 mod 256 = t div 2 ^ 20 mod 2 ^ 13"
    using join_bits [of "2 ^ 5" 8 "t div 2 ^ 20"] by (simp flip: zdiv_zmult2_eq)
  moreover have "push_bit 5 (t div 2 ^ 20 mod 2 ^ 13) + t div 2 ^ 15 mod 32 = t div 2 ^ 15 mod 2 ^ 18"
    using join_bits [of "2 ^ 13" 5 "t div 2 ^ 15"] by (simp flip: zdiv_zmult2_eq)
  moreover have "push_bit 2 (t div 2 ^ 15 mod 2 ^ 18) + t div 2 ^ 13 mod 4 = t div 2 ^ 13 mod 2 ^ 20"
    using join_bits [of "2 ^ 18" 2 "t div 2 ^ 13"] by (simp flip: zdiv_zmult2_eq)
  moreover have "push_bit 8 (t div 2 ^ 13 mod 2 ^ 20) + t div 2 ^ 5 mod 256 = t div 2 ^ 5 mod 2 ^ 28"
    using join_bits [of "2 ^ 20" 8 "t div 2 ^ 5"] by (simp flip: zdiv_zmult2_eq)
  moreover have "push_bit 5 (t div 2 ^ 5 mod 2 ^ 28) + t mod 2 ^ 5 = t mod 2 ^ 33"
    using join_bits [of "2 ^ 28" 5 t] by simp
  ultimately show ?thesis
    using len by (simp only: get_timestamp_packheader_def Let_def b if_True)
qed

lemma put_PES_bytes:
  assumes "p + 5 \<le> length m"
  shows "put_PES p t m ! p = byte_put (m ! p) 0xf1 (drop_bit 30 t) 0x07 1"
    "put_PES p t m ! (p + 1) = byte_put (m ! (p + 1)) 0x00 (drop_bit 22 t) 0xff 0"
    "put_PES p t m ! (p + 2) = byte_put (m ! (p + 2)) 0x01 (drop_bit 15 t) 0x7f 1"
    "put_PES p t m ! (p + 3) = byte_put (m ! (p + 3)) 0x00 (drop_bit 7 t) 0xff 0"
    "put_PES p t m ! (p + 4) = byte_put (m ! (p + 4)) 0x01 t 0x7f 1"
    "i < p \<or> p + 5 \<le> i \<Longrightarrow> put_PES p t m ! i = m ! i"
  using assms by (auto simp: put_PES_def Let_def put_bits_nth)

lemma length_put_PES [simp]: "length (put_PES p t m) = length m"
  by (simp add: put_PES_def Let_def)

lemma PES_put_get:
  assumes "p + 5 \<le> length m"
  shows "get_timestamp_PESheader (put_PES p t m) p = Some (t mod 2 ^ 33)"
proof -
  have b: "field (put_PES p t m ! p) 0x0E 1 = t div 2 ^ 30 mod 8" "field (put_PES p t m ! (p + 1)) 0xff 0 = t div 2 ^ 22 mod 256"
    "field (put_PES p t m ! (p + 2)) 0xfe 1 = t div 2 ^ 15 mod 128" "field (put_PES p t m ! (p + 3)) 0xff 0 = t div 2 ^ 7 mod 256"
    "field (put_PES p t m ! (p + 4)) 0xfe 1 = t mod 2 ^ 7"
    unfolding put_PES_bytes(1-5) [OF assms] field_put drop_bit_eq_div by simp_all
  have "push_bit 8 (t div 2 ^ 30 mod 8) + t div 2 ^ 22 mod 256 = t div 2 ^ 22 mod 2 ^ 11"
    using join_bits [of 8 8 "t div 2 ^ 22"] by (simp flip: zdiv_zmult2_eq)
  moreover have "push_bit 7 (t div 2 ^ 22 mod 2 ^ 11) + t div 2 ^ 15 mod 128 = t div 2 ^ 15 mod 2 ^ 18"
    using join_bits [of "2 ^ 11" 7 "t div 2 ^ 15"] by (simp flip: zdiv_zmult2_eq)
  moreover have "push_bit 8 (t div 2 ^ 15 mod 2 ^ 18) + t div 2 ^ 7 mod 256 = t div 2 ^ 7 mod 2 ^ 26"
    using join_bits [of "2 ^ 18" 8 "t div 2 ^ 7"] by (simp flip: zdiv_zmult2_eq)
  moreover have "push_bit 7 (t div 2 ^ 7 mod 2 ^ 26) + t mod 2 ^ 7 = t mod 2 ^ 33"
    using join_bits [of "2 ^ 26" 7 t] by simp
  ultimately show ?thesis
    using assms by (simp only: get_timestamp_PESheader_def Let_def b if_True length_put_PES)
qed

lemma get_PES_cong:
  assumes "\<And>i. i < 5 \<Longrightarrow> m ! (p + i) = m' ! (p + i)" and "length m = length m'"
  shows "get_timestamp_PESheader m p = get_timestamp_PESheader m' p"
  using assms(1) [of 0] assms(1) [of 1] assms(1) [of 2] assms(1) [of 3] assms(1) [of 4] assms(2)
  by (simp only: get_timestamp_PESheader_def add_0_right)

lemma PES_roundtrip:
  assumes "change_timestamp_PESheader m p t = Some m'"
  shows "get_timestamp_PESheader m' p = Some (t mod 2 ^ 33) \<and> get_timestamp_PESheader m' (p + 5) = Some (t mod 2 ^ 33)"
proof -
  have m': "m' = put_PES (p + 5) t (put_PES p t m)" and len: "p + 10 \<le> length m"
    using assms by (auto simp: change_timestamp_PESheader_def split: if_splits)
  have "get_timestamp_PESheader m' p = get_timestamp_PESheader (put_PES p t m) p"
    by (rule get_PES_cong) (use len in \<open>simp_all add: m' put_PES_bytes\<close>)
  then show ?thesis
    using len PES_put_get [where p = p and m = m and t = t] PES_put_get [where p = "p + 5" and m = "put_PES p t m" and t = t] by (simp add: m')
qed

section \<open>Marker bits\<close>

lemma bit_byte: "bit (b::u8) n = odd (uint b div 2 ^ n)"
proof -
  have "bit b n = bit (uint b) n"
    by (auto simp: bit_uint_iff dest: bit_imp_le_length)
  then show ?thesis by (simp add: bit_iff_odd [of "uint b"])
qed

lemma put_marker:
  "bit (byte_put b 0x07 v 0x1f 3) 2 = bit b 2" "bit (byte_put b 0xfc v 0x03 0) 2 = bit b 2" "bit (byte_put b 0xc7 v 0x07 3) 2 = bit b 2"
  "bit (byte_put b 0x01 v 0x7f 1) 0 = bit b 0" "bit (byte_put b 0xf1 v 0x07 1) 0 = bit b 0"
proof -
  have mod8: "x mod 8 = x mod 4 + (x div 4 mod 2) * 4" for x :: int
    using zmod_zmult2_eq [of 2 x 4] by simp
  have a: "(uint b mod 8 + 8 * z) div 4 = (uint b div 4 mod 2) + 2 * z"
    "(64 * x + uint b mod 8 + 8 * z) div 4 = (uint b div 4 mod 2) + 2 * (8 * x + z)" for x z
  proof -
    have "uint b mod 8 + 8 * z = uint b mod 4 + ((uint b div 4 mod 2) + 2 * z) * 4"
      unfolding mod8 by simp
    then show "(uint b mod 8 + 8 * z) div 4 = (uint b div 4 mod 2) + 2 * z"
      by (simp only: div_mult_self1) simp
    have "64 * x + uint b mod 8 + 8 * z = uint b mod 4 + ((uint b div 4 mod 2) + 2 * (8 * x + z)) * 4"
      unfolding mod8 by simp
    then show "(64 * x + uint b mod 8 + 8 * z) div 4 = (uint b div 4 mod 2) + 2 * (8 * x + z)"
      by (simp only: div_mult_self1) simp
  qed
  have c: "(4 * x + v mod 4) div 4 = x" for x by simp
  show "bit (byte_put b 0x07 v 0x1f 3) 2 = bit b 2"
    by (simp add: bit_byte uint_put a)
  show "bit (byte_put b 0xfc v 0x03 0) 2 = bit b 2"
    by (simp add: bit_byte uint_put c)
  show "bit (byte_put b 0xc7 v 0x07 3) 2 = bit b 2"
    by (simp add: bit_byte uint_put a)
  show "bit (byte_put b 0x01 v 0x7f 1) 0 = bit b 0" "bit (byte_put b 0xf1 v 0x07 1) 0 = bit b 0"
    unfolding bit_byte uint_put by simp_all
qed

end
