(* ===== verification/H264_Headers.thy ===== *)
theory H264_Headers
  imports H264_Bits
begin

definition header_at :: "bytes \<Rightarrow> nat \<Rightarrow> header option" where
  "header_at m i =
     (if take 4 (drop i m) = str_PackHeader then Some PACK_HEARDER
      else if take 4 (drop i m) = str_PESHeader then Some PES_HEARDER else None)"

definition find_header :: "header \<Rightarrow> bytes \<Rightarrow> nat \<Rightarrow> nat option" where
  "find_header h m p = List.find (\<lambda>i. header_at m i = Some h) [p..<length m]"

definition start_code :: "header \<Rightarrow> bytes" where
  "start_code h = (case h of PACK_HEARDER \<Rightarrow> str_PackHeader | PES_HEARDER \<Rightarrow> str_PESHeader)"

lemma length_str [simp]: "length str_PackHeader = 4" "length str_PESHeader = 4" "length (start_code h) = 4"
  by (simp_all add: str_PackHeader_def str_PESHeader_def start_code_def split: header.split)

lemma header_at_iff: "header_at m i = Some h \<longleftrightarrow> take 4 (drop i m) = start_code h"
  by (auto simp: header_at_def start_code_def str_PackHeader_def str_PESHeader_def split: header.split)

lemma agree_le: "agree buf i cs \<le> length cs"
  by (induction cs arbitrary: i) auto

lemma agree_iff: "i + length cs \<le> length buf \<Longrightarrow> agree buf i cs = length cs \<longleftrightarrow> take (length cs) (drop i buf) = cs"
proof (induction cs arbitrary: i)
  case (Cons c cs)
  then have "drop i buf = buf ! i # drop (Suc i) buf" by (simp add: Cons_nth_drop_Suc)
  with Cons show ?case by auto
qed simp

lemma find_from_eq:
  "find_from buf (int (length buf)) (start_code h) p = (case find_header h buf p of None \<Rightarrow> - 1 | Some k \<Rightarrow> int k)"
proof (induction "length buf - p" arbitrary: p)
  case 0
  then show ?case by (subst find_from.simps) (simp add: find_header_def)
next
  case (Suc n)
  then have p: "p < length buf" by simp
  have IH: "find_from buf (int (length buf)) (start_code h) (Suc p) =
      (case find_header h buf (Suc p) of None \<Rightarrow> - 1 | Some k \<Rightarrow> int k)"
    using Suc by simp
  have step: "find_header h buf p = (if header_at buf p = Some h then Some p else find_header h buf (Suc p))"
    using p by (simp add: find_header_def upt_conv_Cons)
  show ?case
  proof (cases "p + 4 \<le> length buf")
    case True
    then show ?thesis
      using agree_iff [of p "start_code h" buf] IH
      by (subst find_from.simps) (simp add: step header_at_iff)
  next
    case False
    then have "header_at buf i \<noteq> Some h" if "p \<le> i" for i
      using that by (auto simp: header_at_iff dest: arg_cong [where f = length])
    then have "find_header h buf p = None"
      by (auto simp: find_header_def find_None_iff)
    with False show ?thesis by (subst find_from.simps) simp
  qed
qed

lemma find_map': "List.find P (map f xs) = map_option f (List.find (P \<circ> f) xs)"
  by (induction xs) auto

lemma find_str_rest:
  "find_str_in_buf (drop p m) (int (length m) - int p) (start_code h) =
     (case find_header h m p of None \<Rightarrow> - 1 | Some k \<Rightarrow> int (k - p))"
proof (cases "p \<le> length m")
  case True
  have "map (\<lambda>i. i + p) [0..<length m - p] = [p..<length m]"
    using True by (simp add: map_add_upt)
  then have "find_header h m p = List.find (\<lambda>i. header_at m i = Some h) (map (\<lambda>i. i + p) [0..<length m - p])"
    by (simp add: find_header_def)
  also have "\<dots> = map_option (\<lambda>i. i + p) (List.find (\<lambda>i. header_at m (i + p) = Some h) [0..<length m - p])"
    by (simp add: find_map' comp_def)
  also have "\<dots> = map_option (\<lambda>i. i + p) (find_header h (drop p m) 0)"
    by (simp add: find_header_def header_at_def add.commute)
  finally show ?thesis
    using True find_from_eq [of "drop p m" h 0]
    by (auto simp: find_str_in_buf_def of_nat_diff split: option.splits)
next
  case False
  then show ?thesis by (simp add: find_str_in_buf_def find_from.simps find_header_def)
qed

section \<open>The headers of a stream\<close>

definition headers :: "bytes \<Rightarrow> nat \<Rightarrow> (nat \<times> header) list" where
  "headers m p = [(i, the (header_at m i)). i \<leftarrow> [p..<length m], header_at m i \<noteq> None]"

lemma headers_step:
  "p < length m \<Longrightarrow> headers m p = (case header_at m p of None \<Rightarrow> headers m (Suc p) | Some h \<Rightarrow> (p, h) # headers m (Suc p))"
  by (auto simp: headers_def upt_conv_Cons split: option.split)

lemma headers_end: "length m \<le> p \<Longrightarrow> headers m p = []"
  by (simp add: headers_def)

lemma find_end: "length m \<le> p \<Longrightarrow> find_header h m p = None"
  by (simp add: find_header_def)

lemma find_step:
  "p < length m \<Longrightarrow> find_header h m p = (if header_at m p = Some h then Some p else find_header h m (Suc p))"
  by (simp add: find_header_def upt_conv_Cons)

text \<open>Positions that hold no header may be skipped.\<close>

lemma skip:
  assumes "\<And>i. p \<le> i \<Longrightarrow> i < q \<Longrightarrow> header_at m i = None" and "p \<le> q"
  shows "headers m p = headers m q" "find_header h m p = find_header h m q"
proof -
  have "headers m p = headers m q \<and> find_header h m p = find_header h m q"
    using assms
  proof (induction "q - p" arbitrary: p)
    case (Suc n)
    then have "header_at m p = None" and "headers m (Suc p) = headers m q \<and> find_header h m (Suc p) = find_header h m q"
      by simp_all
    then show ?case
      by (cases "p < length m") (auto simp: headers_step find_step headers_end find_end Suc.prems)
  qed simp
  then show "headers m p = headers m q" "find_header h m p = find_header h m q" by simp_all
qed

lemma headers_ge: "(i, h) \<in> set (headers m p) \<Longrightarrow> p \<le> i \<and> i < length m \<and> header_at m i = Some h"
  by (auto simp: headers_def)

lemma headers_Cons:
  assumes "headers m p = (i, h) # hs"
  shows "p \<le> i" "header_at m i = Some h" "headers m (Suc i) = hs" 
    "\<And>j. p \<le> j \<Longrightarrow> j < i \<Longrightarrow> header_at m j = None" "i < length m"
    "find_header h m p = Some i" "h' \<noteq> h \<Longrightarrow> find_header h' m p = find_header h' m (Suc i)"
proof -
  have "p \<le> i \<and> header_at m i = Some h \<and> headers m (Suc i) = hs \<and> (\<forall>j. p \<le> j \<and> j < i \<longrightarrow> header_at m j = None)
    \<and> i < length m \<and> find_header h m p = Some i \<and> (h' \<noteq> h \<longrightarrow> find_header h' m p = find_header h' m (Suc i))"
    using assms
  proof (induction "length m - p" arbitrary: p)
    case (Suc n)
    then have p: "p < length m" by simp
    show ?case
    proof (cases "header_at m p")
      case None
      then have "headers m (Suc p) = (i, h) # hs" using Suc.prems p by (simp add: headers_step)
      then have IH: "Suc p \<le> i" "header_at m i = Some h" "headers m (Suc i) = hs" "i < length m"
        "\<forall>j. Suc p \<le> j \<and> j < i \<longrightarrow> header_at m j = None" "find_header h m (Suc p) = Some i"
        "h' \<noteq> h \<longrightarrow> find_header h' m (Suc p) = find_header h' m (Suc i)"
        using Suc.hyps(1) [of "Suc p"] Suc.hyps(2) by simp_all
      from IH(5) None have "\<forall>j. p \<le> j \<and> j < i \<longrightarrow> header_at m j = None"
        by (metis Suc_leI le_neq_implies_less)
      with IH None p show ?thesis by (simp add: find_step)
    next
      case (Some h0)
      then show ?thesis using Suc.prems p by (auto simp: headers_step find_step)
    qed
  qed (simp add: headers_end)
  then show "p \<le> i" "header_at m i = Some h" "headers m (Suc i) = hs" 
    "\<And>j. p \<le> j \<Longrightarrow> j < i \<Longrightarrow> header_at m j = None" "i < length m"
    "find_header h m p = Some i" "h' \<noteq> h \<Longrightarrow> find_header h' m p = find_header h' m (Suc i)"
    by blast+
qed

lemma headers_mem: "p \<le> i \<Longrightarrow> i < length m \<Longrightarrow> header_at m i = Some h \<Longrightarrow> (i, h) \<in> set (headers m p)"
  by (force simp: headers_def)

lemma find_headers: "find_header h m p = map_option fst (List.find (\<lambda>(i, h'). h' = h) (headers m p))"
proof (induction "headers m p" arbitrary: p)
  case Nil
  then have "header_at m i = None" if "p \<le> i" "i < length m" for i
    using that headers_mem [of p i m] Nil by (cases "header_at m i") auto
  then show ?case using Nil by (auto simp: find_header_def find_None_iff)
next
  case (Cons x hs)
  obtain i h' where x: "x = (i, h')" by force
  with Cons have c: "headers m p = (i, h') # hs" by simp
  then show ?case
    using Cons.hyps(1) [of "Suc i"] headers_Cons [OF c] by (cases "h = h'") auto
qed

end
