(* ===== verification/H264_Layout.thy ===== *)
theory H264_Layout
  imports H264_Headers
begin

text \<open>
  A stream whose headers are complete: behind the start code of a pack header the five bytes of its
  time stamp with their marker bits, behind that of a PES header the two bits \<open>10\<close>, the flags that
  announce both time stamps, at least ten bytes of header data and the marker bits of both stamps.
\<close>

definition pack_marked :: "bytes \<Rightarrow> nat \<Rightarrow> bool" where
  "pack_marked m i = (i + 9 \<le> length m \<and> bit (m ! (i + 4)) 2 \<and> bit (m ! (i + 6)) 2 \<and> bit (m ! (i + 8)) 2)"

definition PES_marked :: "bytes \<Rightarrow> nat \<Rightarrow> bool" where
  "PES_marked m i =
     (i + 19 \<le> length m \<and> bit (m ! (i + 6)) 7 \<and> bit (m ! (i + 7)) 7 \<and> bit (m ! (i + 7)) 6 \<and> m ! (i + 8) \<ge> 10
      \<and> bit (m ! (i + 9)) 0 \<and> bit (m ! (i + 11)) 0 \<and> bit (m ! (i + 13)) 0
      \<and> bit (m ! (i + 14)) 0 \<and> bit (m ! (i + 16)) 0 \<and> bit (m ! (i + 18)) 0)"

definition marked_at :: "bytes \<Rightarrow> nat \<Rightarrow> bool" where
  "marked_at m i =
     (case header_at m i of None \<Rightarrow> True | Some PACK_HEARDER \<Rightarrow> pack_marked m i | Some PES_HEARDER \<Rightarrow> PES_marked m i)"

definition marked :: "bytes \<Rightarrow> bool" where
  "marked m = list_all (marked_at m) [0..<length m]"

lemma header_at_bytes:
  "header_at m i = Some h \<longleftrightarrow> i + 4 \<le> length m \<and> m ! i = 0 \<and> m ! (i + 1) = 0 \<and> m ! (i + 2) = 1
     \<and> m ! (i + 3) = (case h of PACK_HEARDER \<Rightarrow> 0xBA | PES_HEARDER \<Rightarrow> 0xE0)"
proof -
  have "take 4 (drop i m) = [a, b, c, d] \<longleftrightarrow> i + 4 \<le> length m \<and> m ! i = a \<and> m ! (i + 1) = b \<and> m ! (i + 2) = c \<and> m ! (i + 3) = d" for a b c d
  proof (cases "i + 4 \<le> length m")
    case True
    then have "drop i m = m ! i # m ! Suc i # m ! Suc (Suc i) # m ! Suc (Suc (Suc i)) # drop (i + 4) m"
      by (simp add: Cons_nth_drop_Suc eval_nat_numeral)
    then have "take 4 (drop i m) = [m ! i, m ! (i + 1), m ! (i + 2), m ! (i + 3)]"
      by (simp add: eval_nat_numeral)
    then show ?thesis using True by simp
  next
    case False
    then have "length (take 4 (drop i m)) \<noteq> 4" by simp
    then show ?thesis using False by (metis length_Cons list.size(3) numeral_3_eq_3 Suc_eq_numeral eval_nat_numeral(2,3) semiring_norm(26,27))
  qed
  then show ?thesis
    by (simp add: header_at_iff start_code_def str_PackHeader_def str_PESHeader_def split: header.split)
qed

lemma bit_nonzero: "bit (b::u8) n \<Longrightarrow> b \<noteq> 0"
  by auto

definition size_of :: "header \<Rightarrow> nat" where
  "size_of h = (case h of PACK_HEARDER \<Rightarrow> 9 | PES_HEARDER \<Rightarrow> 19)"

text \<open>No header begins inside the bytes of a marked one.\<close>

lemma less_9: "j < 9 \<longleftrightarrow> j \<in> {0, 1, 2, 3, 4, 5, 6, 7, 8::nat}"
  by auto

lemma less_19: "j < 19 \<longleftrightarrow> j \<in> {0, 1, 2, 3, 4, 5, 6, 7, 8, 9, 10, 11, 12, 13, 14, 15, 16, 17, 18::nat}"
  by (simp only: insert_iff empty_iff) presburger

lemma pack_inside:
  assumes m: "pack_marked m i" and h: "m ! i = 0" "m ! (i + 1) = 0" "m ! (i + 2) = 1" "m ! (i + 3) = 0xBA" and j: "0 < j" "j < 9"
  shows "header_at m (i + j) = None"
proof (rule ccontr)
  assume "header_at m (i + j) \<noteq> None"
  then have z: "m ! (i + j) = 0" "m ! (i + (j + 1)) = 0" "m ! (i + (j + 2)) = 1"
    by (auto simp: header_at_bytes add.assoc)
  have "m ! (i + 4) \<noteq> 0" "m ! (i + 6) \<noteq> 0" "m ! (i + 8) \<noteq> 0"
    using m by (auto simp: pack_marked_def)
  with h z j(1) show False
    using j(2) unfolding less_9 by (elim insertE) auto
qed

lemma PES_inside:
  assumes m: "PES_marked m i" and h: "m ! i = 0" "m ! (i + 1) = 0" "m ! (i + 2) = 1" "m ! (i + 3) = 0xE0" and j: "0 < j" "j < 19"
  shows "header_at m (i + j) = None"
proof (rule ccontr)
  assume "header_at m (i + j) \<noteq> None"
  then have z: "m ! (i + j) = 0" "m ! (i + (j + 1)) = 0" "m ! (i + (j + 2)) = 1"
    by (auto simp: header_at_bytes add.assoc)
  have "m ! (i + 6) \<noteq> 0" "m ! (i + 6) \<noteq> 1" "m ! (i + 7) \<noteq> 0" "m ! (i + 7) \<noteq> 1" "m ! (i + 9) \<noteq> 0" "m ! (i + 11) \<noteq> 0" "m ! (i + 13) \<noteq> 0"
    "m ! (i + 14) \<noteq> 0" "m ! (i + 16) \<noteq> 0" "m ! (i + 18) \<noteq> 0"
    using m by (auto simp: PES_marked_def)
  with h z j(1) show False
    using j(2) unfolding less_19 by (elim insertE) auto
qed

definition h_marked :: "header \<Rightarrow> bytes \<Rightarrow> nat \<Rightarrow> bool" where
  "h_marked h = (case h of PACK_HEARDER \<Rightarrow> pack_marked | PES_HEARDER \<Rightarrow> PES_marked)"

lemma inside_h:
  assumes "h_marked h m i" and "header_at m i = Some h" and "i < j" and "j < i + size_of h"
  shows "header_at m j = None"
  using assms pack_inside [of m i "j - i"] PES_inside [of m i "j - i"]
  by (cases h) (auto simp: header_at_bytes size_of_def h_marked_def)

lemma marked_h: "marked m \<Longrightarrow> header_at m i = Some h \<Longrightarrow> h_marked h m i"
proof -
  assume "marked m" and h: "header_at m i = Some h"
  moreover from h have "i < length m" by (simp add: header_at_bytes)
  ultimately have "marked_at m i" by (simp add: marked_def list_all_iff)
  with h show ?thesis by (cases h) (simp_all add: marked_at_def h_marked_def)
qed

lemma marked_intro: "(\<And>i h. header_at m i = Some h \<Longrightarrow> h_marked h m i) \<Longrightarrow> marked m"
  unfolding marked_def marked_at_def h_marked_def list_all_iff by (fastforce split: option.split header.split)

lemma inside: "marked m \<Longrightarrow> header_at m i = Some h \<Longrightarrow> i < j \<Longrightarrow> j < i + size_of h \<Longrightarrow> header_at m j = None"
  by (blast intro: inside_h marked_h)

lemma h_marked_size: "h_marked h m i \<Longrightarrow> i + size_of h \<le> length m"
  by (cases h) (auto simp: h_marked_def size_of_def pack_marked_def PES_marked_def)

lemma header_at_cong:
  "length m' = length m \<Longrightarrow> (\<And>k. k < 4 \<Longrightarrow> m' ! (j + k) = m ! (j + k)) \<Longrightarrow> header_at m' j = header_at m j"
proof -
  assume l: "length m' = length m" and e: "\<And>k. k < 4 \<Longrightarrow> m' ! (j + k) = m ! (j + k)"
  have "header_at m' j = Some h \<longleftrightarrow> header_at m j = Some h" for h
    using l e [of 0] e [of 1] e [of 2] e [of 3] by (simp add: header_at_bytes)
  then show ?thesis by (metis not_Some_eq)
qed

lemma h_marked_cong:
  assumes "length m' = length m" and "\<And>k. k < size_of h \<Longrightarrow> m' ! (j + k) = m ! (j + k)"
  shows "h_marked h m' j = h_marked h m j"
  using assms by (cases h) (simp_all add: h_marked_def size_of_def pack_marked_def PES_marked_def)

text \<open>Writing into the fields of one header, its marker bits kept, changes no header of the stream.\<close>

lemma layout_kept:
  assumes m: "marked m" and h: "header_at m i = Some h" and l: "length m' = length m"
    and e: "\<And>k. k < i + 4 \<or> i + size_of h \<le> k \<Longrightarrow> m' ! k = m ! k" and hm: "h_marked h m' i"
  shows "header_at m' j = header_at m j" "marked m'"
proof -
  have hi: "header_at m' i = Some h"
    using h by (subst header_at_cong [OF l]) (simp_all add: e)
  show all: "header_at m' j = header_at m j" for j
  proof -
    consider "j \<le> i" | "i < j" "j < i + size_of h" | "i + size_of h \<le> j" by linarith
    then show ?thesis
    proof cases
      case 2
      then show ?thesis using inside [OF m h] inside_h [OF hm hi] by simp
    qed (rule header_at_cong [OF l], rule e, simp)+
  qed
  show "marked m'"
  proof (rule marked_intro)
    fix j g assume g': "header_at m' j = Some g"
    then have g: "header_at m j = Some g" by (simp add: all)
    consider "j = i" | "j < i" | "i < j" by linarith
    then show "h_marked g m' j"
    proof cases
      case 1
      then show ?thesis using hm hi g' by simp
    next
      case 2
      then have "j + size_of g \<le> i" using inside [OF m g] h by (metis not_less option.distinct(1))
      then show ?thesis using marked_h [OF m g] by (subst h_marked_cong [OF l]) (simp_all add: e)
    next
      case 3
      then have "i + size_of h \<le> j" using inside [OF m h] g by (metis not_less option.distinct(1))
      then show ?thesis using marked_h [OF m g] by (subst h_marked_cong [OF l]) (simp_all add: e)
    qed
  qed
qed

section \<open>The stamp of a header\<close>

definition field_of :: "header \<Rightarrow> nat" where
  "field_of h = (case h of PACK_HEARDER \<Rightarrow> 4 | PES_HEARDER \<Rightarrow> 9)"

definition get_stamp :: "header \<Rightarrow> bytes \<Rightarrow> nat \<Rightarrow> int option" where
  "get_stamp h m i = (case h of PACK_HEARDER \<Rightarrow> get_timestamp_packheader m (i + 4)
     | PES_HEARDER \<Rightarrow> get_timestamp_PESheader m (i + 9))"

definition set_stamp :: "header \<Rightarrow> bytes \<Rightarrow> nat \<Rightarrow> int \<Rightarrow> bytes option" where
  "set_stamp h m i t = (case h of PACK_HEARDER \<Rightarrow> change_timestamp_packheader m (i + 4) t
     | PES_HEARDER \<Rightarrow> change_timestamp_PESheader m (i + 9) t)"

lemma set_stamp:
  assumes "h_marked h m i"
  obtains m' where "set_stamp h m i t = Some m'" "length m' = length m" "h_marked h m' i"
    "\<And>k. k < i + 4 \<or> i + size_of h \<le> k \<Longrightarrow> m' ! k = m ! k" "get_stamp h m' i = Some (t mod 2 ^ 33)"
proof (cases h)
  case PACK_HEARDER
  with assms have p: "pack_marked m i" by (simp add: h_marked_def)
  then have len: "i + 9 \<le> length m" by (simp add: pack_marked_def)
  then obtain m' where m': "change_timestamp_packheader m (i + 4) t = Some m'"
    by (auto simp: change_timestamp_packheader_def Let_def)
  have "length m' = length m" "pack_marked m' i" "\<And>k. k < i + 4 \<or> i + 9 \<le> k \<Longrightarrow> m' ! k = m ! k"
    using m' len p unfolding change_timestamp_packheader_def Let_def pack_marked_def
    by (auto simp: put_bits_nth put_marker add.commute [of i] split: if_splits)
  then show ?thesis
    using that [of m'] m' pack_roundtrip [OF m'] PACK_HEARDER by (simp add: set_stamp_def get_stamp_def h_marked_def size_of_def)
next
  case PES_HEARDER
  with assms have p: "PES_marked m i" by (simp add: h_marked_def)
  then have len: "i + 19 \<le> length m" by (simp add: PES_marked_def)
  then obtain m' where m': "change_timestamp_PESheader m (i + 9) t = Some m'"
    and m'_eq: "m' = put_PES (i + 9 + 5) t (put_PES (i + 9) t m)"
    by (auto simp: change_timestamp_PESheader_def Let_def)
  have b: "bit (put_PES q t x ! q) 0 = bit (x ! q) 0" "bit (put_PES q t x ! (q + 2)) 0 = bit (x ! (q + 2)) 0" 
    "bit (put_PES q t x ! (q + 4)) 0 = bit (x ! (q + 4)) 0" if "q + 5 \<le> length x" for q x
    using put_PES_bytes(1,3,5) [OF that, of t] by (simp_all only: put_marker)
  have "PES_marked m' i"
    using p len b [of "i + 9" m] b [of "i + 14" "put_PES (i + 9) t m"] put_PES_bytes(6) [of "i + 9" m _ t] put_PES_bytes(6) [of "i + 14" "put_PES (i + 9) t m" _ t]
    by (simp add: PES_marked_def m'_eq add.assoc add.commute [of i])
  moreover have "length m' = length m" "\<And>k. k < i + 4 \<or> i + 19 \<le> k \<Longrightarrow> m' ! k = m ! k"
    using len by (auto simp: m'_eq put_PES_bytes)
  ultimately show ?thesis
    using that [of m'] m' PES_roundtrip [OF m'] PES_HEARDER by (simp add: set_stamp_def get_stamp_def h_marked_def size_of_def)
qed
section \<open>The walk\<close>

lemma visit_alt:
  "visit start h (i + field_of h) s =
     (case get_stamp h (s_buf s) i of
        None \<Rightarrow> None
      | Some t \<Rightarrow>
          if t = 0 then Some (s\<lparr>s_flag_old := h\<rparr>)
          else if continuous start s t then Some (s\<lparr>s_first := False, s_old := t, s_flag_old := h\<rparr>)
          else let t' = (if h = PES_HEARDER \<and> s_flag_old s = PACK_HEARDER then s_old s else s_old s + INTERVAL_TIMESTAMP) in
               map_option (\<lambda>m. s\<lparr>s_buf := m, s_old := t', s_flag_old := h\<rparr>) (set_stamp h (s_buf s) i t'))"
  by (cases h)
    (auto simp: visit_def visit_pack_def visit_PES_def field_of_def get_stamp_def set_stamp_def Let_def
      split: option.split bind_split)

text \<open>Streams with the same headers at the same places.\<close>

definition same_headers :: "bytes \<Rightarrow> bytes \<Rightarrow> bool" where
  "same_headers m m' \<longleftrightarrow> length m' = length m \<and> (\<forall>i. header_at m' i = header_at m i)"

lemma same_headers_eqs:
  assumes "same_headers m m'"
  shows "headers m' p = headers m p" "find_header h m' p = find_header h m p"
proof -
  have "header_at m' = header_at m" "length m' = length m" using assms by (auto simp: same_headers_def)
  then show "headers m' p = headers m p" "find_header h m' p = find_header h m p"
    by (simp_all only: headers_def find_header_def)
qed

lemma get_stamp_cong:
  assumes "length m' = length m" and "\<And>k. k < size_of h \<Longrightarrow> m' ! (j + k) = m ! (j + k)"
  shows "get_stamp h m' j = get_stamp h m j"
  using assms by (cases h) (simp_all add: get_stamp_def size_of_def get_timestamp_packheader_def get_timestamp_PESheader_def add.assoc add.commute [of j])

lemma marked_stamp: "marked m \<Longrightarrow> header_at m i = Some h \<Longrightarrow> \<exists>t. get_stamp h m i = Some t"
  using marked_h [of m i h]
  by (cases h) (simp_all add: h_marked_def pack_marked_def PES_marked_def get_stamp_def get_timestamp_packheader_def get_timestamp_PESheader_def Let_def)

text \<open>One visit: the headers stay, the stamp of this header becomes the new one, all others stay.\<close>

lemma visit_marked:
  assumes m: "marked (s_buf s)" and h: "header_at (s_buf s) i = Some h"
  obtains s' where "visit start h (i + field_of h) s = Some s'" "marked (s_buf s')" "same_headers (s_buf s) (s_buf s')"
    "\<And>j g. header_at (s_buf s) j = Some g \<Longrightarrow> j \<noteq> i \<Longrightarrow> get_stamp g (s_buf s') j = get_stamp g (s_buf s) j"
proof -
  obtain t where t: "get_stamp h (s_buf s) i = Some t" using marked_stamp [OF m h] ..
  define t' where "t' = (if h = PES_HEARDER \<and> s_flag_old s = PACK_HEARDER then s_old s else s_old s + INTERVAL_TIMESTAMP)"
  show ?thesis
  proof (cases "t = 0 \<or> continuous start s t")
    case True
    then show ?thesis
      using that [of "s\<lparr>s_flag_old := h\<rparr>"] that [of "s\<lparr>s_first := False, s_old := t, s_flag_old := h\<rparr>"] m t
      by (cases "t = 0") (simp_all add: visit_alt same_headers_def)
  next
    case False
    obtain m' where m': "set_stamp h (s_buf s) i t' = Some m'" "length m' = length (s_buf s)" "h_marked h m' i"
      "\<And>k. k < i + 4 \<or> i + size_of h \<le> k \<Longrightarrow> m' ! k = s_buf s ! k"
      using set_stamp [OF marked_h [OF m h], of t'] by blast
    note keep = layout_kept [OF m h m'(2,4,3)]
    have "get_stamp g m' j = get_stamp g (s_buf s) j" if g: "header_at (s_buf s) j = Some g" and "j \<noteq> i" for j g
    proof (rule get_stamp_cong [OF m'(2)], rule m'(4))
      fix k assume k: "k < size_of g"
      consider "j < i" | "i < j" using \<open>j \<noteq> i\<close> by linarith
      then show "j + k < i + 4 \<or> i + size_of h \<le> j + k"
      proof cases
        case 1
        then have "j + size_of g \<le> i" using inside [OF m g] h by (metis not_less option.distinct(1))
        with k show ?thesis by simp
      next
        case 2
        then have "i + size_of h \<le> j" using inside [OF m h] g by (metis not_less option.distinct(1))
        then show ?thesis by simp
      qed
    qed
    then show ?thesis
      using that [of "s\<lparr>s_buf := m', s_old := t', s_flag_old := h\<rparr>"] False t m'(1,2) keep
      by (simp add: visit_alt Let_def t'_def [symmetric] same_headers_def)
  qed
qed

end
