(* ===== verification/H264_Adjust.thy ===== *)
theory H264_Adjust
  imports H264_Layout
begin

text \<open>
  \<open>h264_ps_adjust_timestamp\<close> on streams with complete headers: the search visits every header once,
  in the order of the positions (\<open>adjust_walk\<close>); the visits do on the stamps of the stream what
  \<open>restamp\<close> does on a list of numbers; a stream that ends in a pack header keeps the loop for ever.
\<close>

text \<open>
  A stamp written into a pack header, or into the two fields of a PES header, is read back with
  its 33 bits.
\<close>

theorem timestamp_roundtrip:
  assumes "p + 10 \<le> length m"
  shows "(\<exists>m'. change_timestamp_packheader m p t = Some m' \<and> get_timestamp_packheader m' p = Some (t mod 2 ^ 33))
    \<and> (\<exists>m'. change_timestamp_PESheader m p t = Some m' \<and> get_timestamp_PESheader m' p = Some (t mod 2 ^ 33)
          \<and> get_timestamp_PESheader m' (p + 5) = Some (t mod 2 ^ 33))"
proof -
  obtain m1 where m1: "change_timestamp_packheader m p t = Some m1"
    using assms by (auto simp: change_timestamp_packheader_def Let_def)
  obtain m2 where m2: "change_timestamp_PESheader m p t = Some m2"
    using assms by (auto simp: change_timestamp_PESheader_def)
  show ?thesis using pack_roundtrip [OF m1] PES_roundtrip [OF m2] m1 m2 by blast
qed

theorem timestamp_roundtrip_witness:
  "\<exists>m'. change_timestamp_packheader (replicate 12 0) 1 8589934591 = Some m'
     \<and> get_timestamp_packheader m' 1 = Some 8589934591"
  using timestamp_roundtrip [of 1 "replicate 12 0" 8589934591] by simp

text \<open>
  Where the search stands: either the last pack header was passed, or it is the next one and was
  found already.
\<close>

definition placed :: "bytes \<Rightarrow> place \<Rightarrow> bool" where
  "placed m l \<longleftrightarrow>
     (pos_pack_total l \<le> pos_PES_total l \<and> pos_pack_total l \<le> pos_buf l)
     \<or> (pos_PES_total l < pos_pack_total l \<and> 0 \<le> pos_pack_header l
         \<and> find_header PACK_HEARDER m (pos_buf l) = Some (pos_pack_total l))"

lemma find_ge: "find_header h m p = Some k \<Longrightarrow> p \<le> k"
  by (auto simp: find_header_def find_Some_iff)

text \<open>What one search finds, in terms of the next headers.\<close>

lemma seek_alt:
  assumes "placed m l"
  shows "seek m l =
    (let pk = find_header PACK_HEARDER m (pos_buf l); ps = find_header PES_HEARDER m (pos_buf l);
         again = (pos_pack_total l \<le> pos_PES_total l);
         l1 = (case pk of None \<Rightarrow> l\<lparr>pos_pack_header := - 1\<rparr>
               | Some k \<Rightarrow> if again then l\<lparr>pos_pack_header := int (k - pos_buf l), pos_pack_total := k\<rparr> else l);
         l2 = (case ps of None \<Rightarrow> l1 | Some k \<Rightarrow> l1\<lparr>pos_PES_total := k\<rparr>)
     in if pk = None \<and> ps = None then None
        else Some (if pos_PES_total l2 > pos_pack_total l2 \<and> pk \<noteq> None
                   then (PACK_HEARDER, l2\<lparr>pos_buf := pos_pack_total l2 + 4\<rparr>)
                   else (PES_HEARDER, l2\<lparr>pos_buf := pos_PES_total l2 + 9\<rparr>)))"
proof -
  let ?pk = "find_header PACK_HEARDER m (pos_buf l)" and ?ps = "find_header PES_HEARDER m (pos_buf l)"
  have f: "find_str_in_buf (drop (pos_buf l) m) (int (length m) - int (pos_buf l)) str_PackHeader
      = (case ?pk of None \<Rightarrow> - 1 | Some k \<Rightarrow> int (k - pos_buf l))"
    "find_str_in_buf (drop (pos_buf l) m) (int (length m) - int (pos_buf l)) str_PESHeader
      = (case ?ps of None \<Rightarrow> - 1 | Some k \<Rightarrow> int (k - pos_buf l))"
    using find_str_rest [of "pos_buf l" m PACK_HEARDER] find_str_rest [of "pos_buf l" m PES_HEARDER]
    by (simp_all add: start_code_def)
  have g: "\<And>k. ?pk = Some k \<Longrightarrow> pos_buf l + (k - pos_buf l) = k" "\<And>k. ?ps = Some k \<Longrightarrow> pos_buf l + (k - pos_buf l) = k"
    using find_ge by fastforce+
  show ?thesis
  proof (cases "pos_pack_total l \<le> pos_PES_total l")
    case True
    then show ?thesis
      by (cases ?pk; cases ?ps) (simp_all add: seek_def Let_def f g)
  next
    case False
    then have "0 \<le> pos_pack_header l" "?pk = Some (pos_pack_total l)" using assms by (auto simp: placed_def)
    with False show ?thesis
      by (cases ?ps) (simp_all add: seek_def Let_def f g)
  qed
qed

lemma seek_none: "placed m l \<Longrightarrow> headers m (pos_buf l) = [] \<Longrightarrow> seek m l = None"
  by (simp add: seek_alt find_headers)

definition ends_in_PES :: "(nat \<times> header) list \<Rightarrow> bool" where
  "ends_in_PES hs \<longleftrightarrow> (hs \<noteq> [] \<longrightarrow> snd (last hs) = PES_HEARDER)"

lemma skip_header:
  assumes "marked m" and "header_at m i = Some h"
  shows "headers m (i + field_of h) = headers m (Suc i)" "find_header g m (i + field_of h) = find_header g m (Suc i)"
proof -
  have "header_at m j = None" if "Suc i \<le> j" "j < i + field_of h" for j
    using inside [OF assms, of j] that by (cases h) (simp_all add: field_of_def size_of_def)
  moreover have "Suc i \<le> i + field_of h" by (cases h) (simp_all add: field_of_def)
  ultimately show "headers m (i + field_of h) = headers m (Suc i)" "find_header g m (i + field_of h) = find_header g m (Suc i)"
    using skip by metis+
qed

lemma seek_next:
  assumes l: "placed m l" and m: "marked m" and hs: "headers m (pos_buf l) = (i, h) # hs"
    and e: "h = PACK_HEARDER \<Longrightarrow> PES_HEARDER \<in> snd ` set hs"
  obtains l' where "seek m l = Some (h, l')" "pos_buf l' = i + field_of h" "placed m l'" "headers m (pos_buf l') = hs"
    "h = PES_HEARDER \<Longrightarrow> pos_PES_total l' = i"
    "\<And>k. h = PES_HEARDER \<Longrightarrow> find_header PACK_HEARDER m (pos_buf l') = Some k \<Longrightarrow>
       pos_pack_total l' = k \<and> 0 \<le> pos_pack_header l'"
proof -
  note c = headers_Cons [OF hs]
  note s = skip_header [OF m c(2)]
  show ?thesis
  proof (cases h)
    case PACK_HEARDER
    then obtain q where "(q, PES_HEARDER) \<in> set (headers m (Suc i))"
      using e c(3) by force
    then have "find_header PES_HEARDER m (Suc i) \<noteq> None"
      by (auto simp: find_headers find_None_iff)
    then obtain k where k: "find_header PES_HEARDER m (pos_buf l) = Some k" and "Suc i \<le> k"
      using c(7) [of PES_HEARDER] PACK_HEARDER find_ge by fastforce
    then show ?thesis
      using that PACK_HEARDER l c(1,3,6) s(1) by (auto simp: seek_alt Let_def placed_def field_of_def)
  next
    case PES_HEARDER
    have pk: "find_header PACK_HEARDER m (pos_buf l) = find_header PACK_HEARDER m (i + field_of h)"
      using c(7) [of PACK_HEARDER] PES_HEARDER s(2) by simp
    show ?thesis
    proof (cases "find_header PACK_HEARDER m (pos_buf l)")
      case None
      then show ?thesis
        using that PES_HEARDER l c(1,3,6) s(1) pk by (auto simp: seek_alt Let_def placed_def field_of_def)
    next
      case (Some k)
      then have "i + 9 \<le> k" using pk find_ge [of PACK_HEARDER m "i + field_of h" k] PES_HEARDER by (simp add: field_of_def)
      then show ?thesis
        using that PES_HEARDER l c(1,3,6) s(1) Some pk by (auto simp: seek_alt Let_def placed_def field_of_def)
    qed
  qed
qed

lemma ends_in_PES_Cons:
  assumes "ends_in_PES ((i, h) # hs)"
  shows "h = PACK_HEARDER \<Longrightarrow> PES_HEARDER \<in> snd ` set hs" "ends_in_PES hs"
proof -
  show "PES_HEARDER \<in> snd ` set hs" if "h = PACK_HEARDER"
  proof -
    have "hs \<noteq> []" "snd (last hs) = PES_HEARDER"
      using assms that by (auto simp: ends_in_PES_def split: if_splits)
    then show ?thesis by (metis imageI last_in_set)
  qed
  show "ends_in_PES hs" using assms by (auto simp: ends_in_PES_def split: if_splits)
qed

text \<open>The reference: one visit per header, in the order of their positions.\<close>

primrec walk :: "int \<Rightarrow> (nat \<times> header) list \<Rightarrow> stamp \<Rightarrow> stamp option" where
  "walk start [] s = Some s"
| "walk start (ih # hs) s = visit start (snd ih) (fst ih + field_of (snd ih)) s \<bind> walk start hs"

lemma placed_cong: "same_headers m m' \<Longrightarrow> placed m' l = placed m l"
  by (simp add: placed_def same_headers_eqs)

lemma adjust_walk:
  assumes "placed (s_buf s) l" and "marked (s_buf s)" and "headers (s_buf s) (pos_buf l) = hs" and "ends_in_PES hs"
  shows "\<exists>s'. walk start hs s = Some s' \<and> adjust_loop start l s = Some (Done s')"
  using assms
proof (induction hs arbitrary: l s)
  case Nil
  then show ?case by (subst adjust_loop.simps) (simp add: seek_none)
next
  case (Cons ih hs)
  obtain i h where ih: "ih = (i, h)" by force
  obtain l' where l': "seek (s_buf s) l = Some (h, l')" "pos_buf l' = i + field_of h" "placed (s_buf s) l'"
    "headers (s_buf s) (pos_buf l') = hs"
    using seek_next [OF Cons.prems(1,2)] Cons.prems(3,4) ih ends_in_PES_Cons(1) by metis
  have h: "header_at (s_buf s) i = Some h" using headers_Cons(2) Cons.prems(3) ih by blast
  obtain s' where s': "visit start h (i + field_of h) s = Some s'" "marked (s_buf s')" "same_headers (s_buf s) (s_buf s')"
    using visit_marked [OF Cons.prems(2) h] by metis
  have "ends_in_PES hs" using Cons.prems(4) ih ends_in_PES_Cons(2) by blast
  then have "\<exists>r. walk start hs s' = Some r \<and> adjust_loop start l' s' = Some (Done r)"
    using Cons.IH [of s' l'] s' l' by (simp add: placed_cong same_headers_eqs)
  then show ?case using ih l' s' by (subst adjust_loop.simps) simp
qed

definition place0 :: place where
  "place0 = \<lparr>pos_buf = 0, pos_pack_header = 0, pos_pack_total = 0, pos_PES_total = 0\<rparr>"

definition stamp0 :: "bytes \<Rightarrow> int \<Rightarrow> stamp" where
  "stamp0 buf start = \<lparr>s_buf = buf, s_old = (if start \<noteq> - 1 then start else 0), s_first = True, s_flag_old = PES_HEARDER\<rparr>"

section \<open>A stream that ends in a pack header\<close>

text \<open>Once the last PES header was passed and a pack header is left, every turn returns to that PES header.\<close>

definition stuck :: "place \<Rightarrow> stamp \<Rightarrow> bool" where
  "stuck l s \<longleftrightarrow> marked (s_buf s) \<and> header_at (s_buf s) (pos_PES_total l) = Some PES_HEARDER
     \<and> pos_buf l = pos_PES_total l + 9 \<and> find_header PES_HEARDER (s_buf s) (pos_buf l) = None
     \<and> pos_PES_total l < pos_pack_total l \<and> 0 \<le> pos_pack_header l
     \<and> find_header PACK_HEARDER (s_buf s) (pos_buf l) = Some (pos_pack_total l)"

lemma stuck_seek: "stuck l s \<Longrightarrow> seek (s_buf s) l = Some (PES_HEARDER, l)"
  by (subst seek_alt) (auto simp: placed_def stuck_def Let_def)

lemma stuck_step:
  assumes "stuck l s"
  obtains s' where "visit start PES_HEARDER (pos_buf l) s = Some s'" "stuck l s'"
proof -
  from assms have "marked (s_buf s)" "header_at (s_buf s) (pos_PES_total l) = Some PES_HEARDER"
    and p: "pos_buf l = pos_PES_total l + field_of PES_HEARDER"
    by (simp_all add: stuck_def field_of_def)
  from visit_marked [OF this(1,2), of start] obtain s' where
    "visit start PES_HEARDER (pos_buf l) s = Some s'" "marked (s_buf s')" "same_headers (s_buf s) (s_buf s')"
    unfolding p by metis
  moreover from this have "stuck l s'"
    using assms by (auto simp: stuck_def same_headers_eqs) (simp add: same_headers_def)
  ultimately show ?thesis using that by blast
qed

lemma stuck_forever: "adjust_loop start l s = Some r \<Longrightarrow> \<not> stuck l s"
proof (erule adjust_loop.raw_induct [where P = "\<lambda>start l s r. \<not> stuck l s", rotated])
  fix f start l s r
  assume IH: "\<And>start l s r. f start l s = Some r \<Longrightarrow> \<not> stuck l s"
    and eq: "(case seek (s_buf s) l of None \<Rightarrow> Some (Done s)
      | Some (h, l) \<Rightarrow> (case visit start h (pos_buf l) s of None \<Rightarrow> Some Fault | Some s \<Rightarrow> f start l s)) = Some r"
  show "\<not> stuck l s"
  proof
    assume st: "stuck l s"
    from stuck_step [OF st, of start] obtain s' where "visit start PES_HEARDER (pos_buf l) s = Some s'" "stuck l s'" .
    with eq IH [of start l s' r] show False by (simp add: stuck_seek [OF st])
  qed
qed

lemma adjust_stuck:
  assumes "placed (s_buf s) l" and "marked (s_buf s)" and "headers (s_buf s) (pos_buf l) = hs @ ps"
    and "hs \<noteq> []" and "ends_in_PES hs" and "ps \<noteq> []" and "\<forall>x \<in> set ps. snd x = PACK_HEARDER"
  shows "adjust_loop start l s = None"
  using assms
proof (induction hs arbitrary: l s)
  case (Cons ih hs)
  obtain i h where ih: "ih = (i, h)" by force
  have m: "marked (s_buf s)" and hd: "headers (s_buf s) (pos_buf l) = (i, h) # (hs @ ps)"
    using Cons.prems ih by simp_all
  have e: "h = PACK_HEARDER \<Longrightarrow> PES_HEARDER \<in> snd ` set (hs @ ps)"
    using ends_in_PES_Cons(1) [of i h hs] Cons.prems(5) ih by auto
  obtain l' where l': "seek (s_buf s) l = Some (h, l')" "pos_buf l' = i + field_of h" "placed (s_buf s) l'"
    "headers (s_buf s) (pos_buf l') = hs @ ps" "h = PES_HEARDER \<Longrightarrow> pos_PES_total l' = i"
    "\<And>k. h = PES_HEARDER \<Longrightarrow> find_header PACK_HEARDER (s_buf s) (pos_buf l') = Some k \<Longrightarrow>
       pos_pack_total l' = k \<and> 0 \<le> pos_pack_header l'"
    by (rule seek_next [OF Cons.prems(1) m hd e]) auto
  have h: "header_at (s_buf s) i = Some h" using headers_Cons(2) [OF hd] .
  obtain s' where s': "visit start h (i + field_of h) s = Some s'" "marked (s_buf s')" "same_headers (s_buf s) (s_buf s')"
    using visit_marked [OF m h] by metis
  have "adjust_loop start l' s' = None"
  proof (cases "hs = []")
    case True
    then have PES: "h = PES_HEARDER" using Cons.prems(5) ih by (simp add: ends_in_PES_def)
    obtain k ps' where ps: "ps = (k, PACK_HEARDER) # ps'"
      using Cons.prems(6,7) by (cases ps) auto
    have all: "headers (s_buf s) (pos_buf l') = ps" using l'(4) True by simp
    have "find_header PACK_HEARDER (s_buf s) (pos_buf l') = Some k"
      using all ps by (simp add: find_headers)
    moreover have "find_header PES_HEARDER (s_buf s) (pos_buf l') = None"
      using all Cons.prems(7) by (auto simp: find_headers find_None_iff)
    ultimately have "stuck l' s'"
      using l'(2,5,6) PES h s' find_ge [of PACK_HEARDER "s_buf s" "pos_buf l'" k]
      by (auto simp: stuck_def same_headers_eqs field_of_def) (simp add: same_headers_def)
    then show ?thesis using stuck_forever by (cases "adjust_loop start l' s'") auto
  next
    case False
    then show ?thesis
      using Cons.IH [of s' l'] s' l'(3,4) Cons.prems(5-7) ih ends_in_PES_Cons(2)
      by (auto simp: placed_cong same_headers_eqs)
  qed
  then show ?case using l' s' by (subst adjust_loop.simps) simp
qed simp

section \<open>The stamps of a stream\<close>

text \<open>
  What the adjustment means, on the list of stamps alone: a stamp that does not follow is replaced,
  by the stamp of its pack header in a PES header behind it and otherwise by one interval more.
\<close>

definition stamps :: "bytes \<Rightarrow> (header \<times> int) list" where
  "stamps m = [(h, the (get_stamp h m i)). (i, h) \<leftarrow> headers m 0]"

fun restamp :: "int \<Rightarrow> int \<Rightarrow> bool \<Rightarrow> header \<Rightarrow> (header \<times> int) list \<Rightarrow> (header \<times> int) list \<times> int" where
  "restamp start old first prev [] = ([], old)"
| "restamp start old first prev ((h, t) # ts) =
     (if t = 0 then let (us, e) = restamp start old first h ts in ((h, t) # us, e)
      else if first \<and> start = - 1 \<or> (old \<le> t \<and> t \<le> old + INTERVAL_TIMESTAMP * 2)
      then let (us, e) = restamp start t False h ts in ((h, t) # us, e)
      else let t' = (if h = PES_HEARDER \<and> prev = PACK_HEARDER then old else old + INTERVAL_TIMESTAMP);
               (us, e) = restamp start t' first h ts
           in ((h, t' mod 2 ^ 33) # us, e))"

lemma visit_stamp:
  assumes m: "marked (s_buf s)" and h: "header_at (s_buf s) i = Some h" and t: "get_stamp h (s_buf s) i = Some t"
    and v: "visit start h (i + field_of h) s = Some s'"
  shows "restamp start (s_old s) (s_first s) (s_flag_old s) ((h, t) # ts) =
    (let (us, e) = restamp start (s_old s') (s_first s') (s_flag_old s') ts in ((h, the (get_stamp h (s_buf s') i)) # us, e))"
proof (cases "t = 0 \<or> continuous start s t")
  case True
  then show ?thesis using v t by (cases "t = 0") (auto simp: visit_alt continuous_def Let_def)
next
  case False
  define t' where "t' = (if h = PES_HEARDER \<and> s_flag_old s = PACK_HEARDER then s_old s else s_old s + INTERVAL_TIMESTAMP)"
  obtain m' where m': "set_stamp h (s_buf s) i t' = Some m'" "get_stamp h m' i = Some (t' mod 2 ^ 33)"
    using set_stamp [OF marked_h [OF m h], of t'] by blast
  have s': "s' = s\<lparr>s_buf := m', s_old := t', s_flag_old := h\<rparr>"
    using v t m'(1) False by (simp add: visit_alt Let_def t'_def [symmetric])
  have n: "\<not> (s_first s \<and> start = - 1 \<or> (s_old s \<le> t \<and> t \<le> s_old s + INTERVAL_TIMESTAMP * 2))"
    using False by (auto simp: continuous_def)
  have "t \<noteq> 0" using False by simp
  with m'(2) show ?thesis unfolding restamp.simps if_not_P [OF n] by (simp add: s' Let_def t'_def [symmetric])
qed

lemma walk_stamps:
  assumes "marked (s_buf s)" and "headers (s_buf s) p = hs" and "walk start hs s = Some s'"
  shows "restamp start (s_old s) (s_first s) (s_flag_old s) [(h, the (get_stamp h (s_buf s) i)). (i, h) \<leftarrow> hs]
      = ([(h, the (get_stamp h (s_buf s') i)). (i, h) \<leftarrow> hs], s_old s')
    \<and> same_headers (s_buf s) (s_buf s') \<and> marked (s_buf s')
    \<and> (\<forall>j g. header_at (s_buf s) j = Some g \<longrightarrow> j < p \<longrightarrow> get_stamp g (s_buf s') j = get_stamp g (s_buf s) j)"
  using assms
proof (induction hs arbitrary: s p)
  case Nil
  then show ?case by (simp add: same_headers_def)
next
  case (Cons ih hs)
  obtain i h where ih: "ih = (i, h)" by force
  have hd: "headers (s_buf s) p = (i, h) # hs" using Cons.prems(2) ih by simp
  note c = headers_Cons [OF hd]
  obtain t where t: "get_stamp h (s_buf s) i = Some t" using marked_stamp [OF Cons.prems(1) c(2)] ..
  obtain s1 where s1: "visit start h (i + field_of h) s = Some s1" "marked (s_buf s1)" "same_headers (s_buf s) (s_buf s1)"
    "\<And>j g. header_at (s_buf s) j = Some g \<Longrightarrow> j \<noteq> i \<Longrightarrow> get_stamp g (s_buf s1) j = get_stamp g (s_buf s) j"
    using visit_marked [OF Cons.prems(1) c(2)] by blast
  have w: "walk start hs s1 = Some s'" using Cons.prems(3) ih s1(1) by simp
  note IH = Cons.IH [OF s1(2) _ w, of "Suc i"]
  have hs: "headers (s_buf s1) (Suc i) = hs" using c(3) s1(3) by (simp add: same_headers_eqs)
  have later: "[(h, the (get_stamp h (s_buf s1) i)). (i, h) \<leftarrow> hs] = [(h, the (get_stamp h (s_buf s) i)). (i, h) \<leftarrow> hs]"
  proof (rule map_cong [OF refl])
    fix x assume "x \<in> set hs"
    moreover obtain j g where x: "x = (j, g)" by force
    ultimately have "(j, g) \<in> set hs" by simp
    then have "Suc i \<le> j" "header_at (s_buf s) j = Some g" using headers_ge c(3) by blast+
    then show "(case x of (i, h) \<Rightarrow> (h, the (get_stamp h (s_buf s1) i))) = (case x of (i, h) \<Rightarrow> (h, the (get_stamp h (s_buf s) i)))"
      using s1(4) x by simp
  qed
  have at: "header_at (s_buf s1) j = header_at (s_buf s) j" for j using s1(3) by (simp add: same_headers_def)
  have stay: "get_stamp g (s_buf s') j = get_stamp g (s_buf s1) j" if "header_at (s_buf s) j = Some g" "j < Suc i" for j g
    using IH hs that by (simp add: at)
  have "get_stamp h (s_buf s') i = get_stamp h (s_buf s1) i" using stay c(2) by simp
  moreover have "same_headers (s_buf s) (s_buf s')" using s1(3) IH hs by (simp add: same_headers_def)
  moreover have "get_stamp g (s_buf s') j = get_stamp g (s_buf s) j" if "header_at (s_buf s) j = Some g" "j < p" for j g
    using stay [of j g] s1(4) [of j g] that c(1) by simp
  ultimately show ?case
    using visit_stamp [OF Cons.prems(1) c(2) t s1(1), of "[(h, the (get_stamp h (s_buf s) i)). (i, h) \<leftarrow> hs]"] IH hs
    by (simp add: ih t later)
qed

section \<open>What the adjustment does to a complete stream\<close>

lemma placed0: "placed m place0"
  by (simp add: placed_def place0_def)

lemma adjust_alt:
  "buf \<noteq> [] \<Longrightarrow> h264_ps_adjust_timestamp (Some buf) start =
     map_option (\<lambda>r. case r of Done s \<Rightarrow> Done (s_buf s, s_old s) | Err \<Rightarrow> Err | Fault \<Rightarrow> Fault)
       (adjust_loop start place0 (stamp0 buf start))"
  by (simp add: h264_ps_adjust_timestamp_def place0_def stamp0_def)

lemma adjust_result:
  assumes "buf \<noteq> []" and "marked buf" and "ends_in_PES (headers buf 0)"
  shows "\<exists>buf' e. h264_ps_adjust_timestamp (Some buf) start = Some (Done (buf', e))
    \<and> headers buf' 0 = headers buf 0 \<and> length buf' = length buf
    \<and> (stamps buf', e) = restamp start (if start \<noteq> - 1 then start else 0) True PES_HEARDER (stamps buf)"
proof -
  obtain s where w: "walk start (headers buf 0) (stamp0 buf start) = Some s"
    and a: "adjust_loop start place0 (stamp0 buf start) = Some (Done s)"
    using adjust_walk [of "stamp0 buf start" place0 "headers buf 0" start] placed0 assms(2,3)
    by (auto simp: stamp0_def place0_def)
  have "restamp start (if start \<noteq> - 1 then start else 0) True PES_HEARDER (stamps buf)
      = ([(h, the (get_stamp h (s_buf s) i)). (i, h) \<leftarrow> headers buf 0], s_old s)"
    and same: "same_headers buf (s_buf s)"
    using walk_stamps [OF _ _ w, of 0] assms(2) by (simp_all add: stamp0_def stamps_def)
  moreover have "headers (s_buf s) 0 = headers buf 0" using same by (rule same_headers_eqs)
  ultimately show ?thesis
    using a same by (simp add: adjust_alt [OF assms(1)] stamps_def same_headers_def)
qed

text \<open>
  C31. On a stream whose headers are complete and that does not end in a pack header, the loop
  returns: every header was visited once, in the order of the positions; the result has the same
  headers at the same places, and its stamps are those of the reference on the list of stamps.
\<close>

theorem adjust_returns:
  assumes "buf \<noteq> []" and "marked buf" and "ends_in_PES (headers buf 0)"
  shows "\<exists>buf' e. h264_ps_adjust_timestamp (Some buf) start = Some (Done (buf', e))
    \<and> headers buf' 0 = headers buf 0 \<and> length buf' = length buf
    \<and> (stamps buf', e) = restamp start (if start \<noteq> - 1 then start else 0) True PES_HEARDER (stamps buf)"
  using assms by (rule adjust_result)

definition pack_stream :: bytes where
  "pack_stream =
     [0x00, 0x00, 0x01, 0xBA, 0x44, 0x00, 0x04, 0x00, 0x0C,
      0x00, 0x00, 0x01, 0xE0, 0x00, 0x0D, 0x80, 0xC0, 0x0A,
      0x21, 0x00, 0x01, 0x00, 0x09, 0x11, 0x00, 0x01, 0x00, 0x09]"

lemma pack_stream_ok: "pack_stream \<noteq> []" "marked pack_stream" "ends_in_PES (headers pack_stream 0)"
  by code_simp+

theorem adjust_returns_witness:
  "\<exists>buf' e. h264_ps_adjust_timestamp (Some pack_stream) 90000 = Some (Done (buf', e))
    \<and> headers buf' 0 = headers pack_stream 0 \<and> length buf' = length pack_stream
    \<and> (stamps buf', e) = restamp 90000 90000 True PES_HEARDER (stamps pack_stream)"
  using adjust_returns [OF pack_stream_ok, of 90000] by simp

text \<open>
  A stream with complete headers whose last PES header is followed by a pack header: the call
  never returns. The search finds the pack header only, takes the stale position of the PES header
  for the smaller one and goes back to it, again and again.
\<close>

theorem adjust_never_returns:
  assumes "marked buf" and "headers buf 0 = hs @ (i, PES_HEARDER) # ps" and "ps \<noteq> []"
    and "\<forall>x \<in> set ps. snd x = PACK_HEARDER"
  shows "h264_ps_adjust_timestamp (Some buf) start = None"
proof -
  have "adjust_loop start place0 (stamp0 buf start) = None"
    using assms placed0
    by (intro adjust_stuck [where hs = "hs @ [(i, PES_HEARDER)]" and ps = ps])
      (simp_all add: stamp0_def place0_def ends_in_PES_def)
  moreover have "buf \<noteq> []" using assms(2) by (auto simp: headers_def)
  ultimately show ?thesis by (simp add: adjust_alt)
qed

definition open_stream :: bytes where
  "open_stream =
     [0x00, 0x00, 0x01, 0xE0, 0x00, 0x0D, 0x80, 0xC0, 0x0A,
      0x21, 0x00, 0x01, 0x00, 0x09, 0x11, 0x00, 0x01, 0x00, 0x09,
      0x00, 0x00, 0x01, 0xBA, 0x44, 0x00, 0x04, 0x00, 0x0C]"

theorem adjust_never_returns_witness: "h264_ps_adjust_timestamp (Some open_stream) (- 1) = None"
proof (rule adjust_never_returns)
  show "marked open_stream" by code_simp
  show "headers open_stream 0 = [] @ (0, PES_HEARDER) # [(19, PACK_HEARDER)]" by code_simp
qed simp_all

section \<open>The stamps that result follow one another\<close>

definition follows :: "int \<Rightarrow> int \<Rightarrow> bool" where
  "follows a b = (a \<le> b \<and> b \<le> a + INTERVAL_TIMESTAMP * 2)"

definition set_stamps :: "(header \<times> int) list \<Rightarrow> int list" where
  "set_stamps ts = filter (\<lambda>t. t \<noteq> 0) (map snd ts)"

lemma restamp_old:
  "restamp start old first prev ts = (us, e) \<Longrightarrow> 0 \<le> old \<Longrightarrow> \<not> (first \<and> start = - 1) \<Longrightarrow> old \<le> e"
proof (induction start old first prev ts arbitrary: us rule: restamp.induct)
  case (2 start old first prev h t ts)
  then show ?case
    by (auto simp: Let_def INTERVAL_TIMESTAMP_def split: if_splits prod.splits)
qed simp

lemma restamp_follows:
  assumes "restamp start old first prev ts = (us, e)" and "0 \<le> old" and "\<not> (first \<and> start = - 1)" and "e < 2 ^ 33"
  shows "successively follows (old # set_stamps us) \<and> last (old # set_stamps us) = e"
  using assms
proof (induction start old first prev ts arbitrary: us rule: restamp.induct)
  case (2 start old first prev h t ts)
  consider (zero) "t = 0" | (keep) "t \<noteq> 0" "old \<le> t \<and> t \<le> old + INTERVAL_TIMESTAMP * 2"
    | (new) "t \<noteq> 0" "\<not> (old \<le> t \<and> t \<le> old + INTERVAL_TIMESTAMP * 2)" by blast
  then show ?case
  proof cases
    case zero
    then show ?thesis using "2.IH"(1) "2.prems" by (auto simp: set_stamps_def split: prod.splits)
  next
    case keep
    then obtain vs where vs: "restamp start t False h ts = (vs, e)" "us = (h, t) # vs"
      using "2.prems" by (auto split: prod.splits)
    have "successively follows (t # set_stamps vs) \<and> last (t # set_stamps vs) = e"
      using "2.IH"(2) keep vs "2.prems" by auto
    then show ?thesis using keep vs by (simp add: set_stamps_def follows_def)
  next
    case new
    define t' where "t' = (if h = PES_HEARDER \<and> prev = PACK_HEARDER then old else old + INTERVAL_TIMESTAMP)"
    have n: "\<not> (first \<and> start = - 1 \<or> (old \<le> t \<and> t \<le> old + INTERVAL_TIMESTAMP * 2))"
      using new "2.prems"(3) by blast
    obtain vs where vs: "restamp start t' first h ts = (vs, e)" "us = (h, t' mod 2 ^ 33) # vs"
      using "2.prems"(1) new(1) unfolding restamp.simps if_not_P [OF n] t'_def by (auto simp: Let_def split: prod.splits if_splits)
    have t': "0 \<le> t'" "follows old t'" using "2.prems"(2) by (auto simp: t'_def follows_def INTERVAL_TIMESTAMP_def)
    have IH: "successively follows (t' # set_stamps vs) \<and> last (t' # set_stamps vs) = e"
      using "2.IH"(3) [OF new(1) n t'_def vs(1) t'(1)] "2.prems"(3,4) by blast
    have "t' \<le> e" using restamp_old [OF vs(1) t'(1) "2.prems"(3)] .
    then have "t' mod 2 ^ 33 = t'" using t'(1) "2.prems"(4) by simp
    moreover have "old = 0" if "t' = 0"
      using that "2.prems"(2) by (auto simp: t'_def INTERVAL_TIMESTAMP_def split: if_splits)
    ultimately show ?thesis
      using IH t'(2) vs(2) by (auto simp: set_stamps_def)
  qed
qed (simp add: set_stamps_def)

lemma restamp_first:
  assumes "restamp (- 1) 0 True prev ts = (us, e)" and "\<forall>x \<in> set ts. 0 \<le> snd x" and "e < 2 ^ 33"
  shows "successively follows (set_stamps us) \<and> (set_stamps us \<noteq> [] \<longrightarrow> last (set_stamps us) = e)"
  using assms
proof (induction ts arbitrary: prev us)
  case (Cons x ts)
  obtain h t where x: "x = (h, t)" by force
  show ?case
  proof (cases "t = 0")
    case True
    then show ?thesis using Cons x by (auto simp: set_stamps_def split: prod.splits)
  next
    case False
    then obtain vs where vs: "restamp (- 1) t False h ts = (vs, e)" "us = (h, t) # vs"
      using Cons.prems(1) x by (auto split: prod.splits)
    show ?thesis
      using restamp_follows [OF vs(1)] Cons.prems(2,3) x vs(2) False by (simp add: set_stamps_def)
  qed
qed (simp add: set_stamps_def)

lemma get_stamp_nonneg: "get_stamp h m i = Some t \<Longrightarrow> 0 \<le> t"
  by (cases h) (auto simp: get_stamp_def get_timestamp_packheader_def get_timestamp_PESheader_def Let_def field_def split: if_splits)

text \<open>
  C32. With a start of \<open>- 1\<close> (none) or a stamp, and as long as the end stays below the 33 bits of a
  field: in the stream that results, every stamp other than 0 equals the one before or exceeds it by
  at most two intervals, the first one continues the start, and the end returned is the last stamp.
\<close>

theorem adjusted_stream_follows:
  assumes "marked buf" and "ends_in_PES (headers buf 0)" and "buf \<noteq> []" and "- 1 \<le> start"
    and "h264_ps_adjust_timestamp (Some buf) start = Some (Done (buf', e))" and "e < 2 ^ 33"
  shows "successively follows ((if start = - 1 then [] else [start]) @ set_stamps (stamps buf'))
    \<and> (set_stamps (stamps buf') \<noteq> [] \<longrightarrow> last (set_stamps (stamps buf')) = e)"
proof -
  have r: "restamp start (if start \<noteq> - 1 then start else 0) True PES_HEARDER (stamps buf) = (stamps buf', e)"
    using adjust_result [OF assms(3,1,2), of start] assms(5) by auto
  have nonneg: "\<forall>x \<in> set (stamps buf). 0 \<le> snd x"
  proof
    fix x assume "x \<in> set (stamps buf)"
    then obtain i h where ih: "(i, h) \<in> set (headers buf 0)" "x = (h, the (get_stamp h buf i))" by (auto simp: stamps_def)
    then have "header_at buf i = Some h" using headers_ge by blast
    then obtain t where "get_stamp h buf i = Some t" using marked_stamp [OF assms(1)] by blast
    then show "0 \<le> snd x" using ih get_stamp_nonneg by simp
  qed
  show ?thesis
  proof (cases "start = - 1")
    case True
    then show ?thesis using restamp_first [of PES_HEARDER "stamps buf"] r nonneg assms(6) by simp
  next
    case False
    then have "0 \<le> start" using assms(4) by simp
    then show ?thesis using restamp_follows [of start start True PES_HEARDER "stamps buf" "stamps buf'" e] r False assms(6) by auto
  qed
qed

theorem adjusted_stream_follows_witness:
  "\<exists>buf' e. h264_ps_adjust_timestamp (Some pack_stream) 90000 = Some (Done (buf', e))
    \<and> successively follows (90000 # set_stamps (stamps buf'))"
proof -
  obtain buf' e where r: "h264_ps_adjust_timestamp (Some pack_stream) 90000 = Some (Done (buf', e))"
    "(stamps buf', e) = restamp 90000 90000 True PES_HEARDER (stamps pack_stream)"
    using adjust_result [OF pack_stream_ok, of 90000] by auto
  have "snd (restamp 90000 90000 True PES_HEARDER (stamps pack_stream)) = 93600" by code_simp
  then have "e < 2 ^ 33" by (simp flip: r(2))
  with r(1) adjusted_stream_follows [OF pack_stream_ok(2,3,1) _ r(1)] show ?thesis by auto
qed

end
