(* ===== verification/H264_Ring.thy ===== *)
theory H264_Ring
  imports Vd_Prelude "HOL-Library.Monad_Syntax"
begin

text \<open>
  The ring of H.264 frames (\<open>H264Buffer\<close> of \<open>h264/h264_buffer.cpp\<close>): attaching to the shared
  memory, the searches for a frame of a second and for the I frame before it, and the choice of the
  segments of a record. An index outside the table of frames is \<open>None\<close>. The memory that CMEM
  allocates is a parameter.
\<close>

section \<open>Data\<close>

record h264_index =
  buf_h264_index :: int
  buf_h264_index_max :: int
  h264_Position :: int
  h264_Len :: int
  msecond :: int
  seconds :: int
  timestamp :: int
  is_I_frame :: int
  nextFlag :: int
  h264_id :: int

record create_info =
  protect_time :: int
  camera_frame_rate :: int
  rate :: int
  ci_version :: string

text \<open>The shared memory: \<open>H264_Buffer_Head\<close> and, behind it, the table of frames.\<close>

record cmem =
  id_shmem :: int
  num_writer :: int
  max_index_h264 :: int
  len_buf_h264 :: int
  head_recv :: int          \<comment> \<open>\<open>h264_buffer_head->index_recv_h264\<close>\<close>
  version :: string
  index_h264 :: "h264_index list"

record h264_buffer =
  virtAddr_cmem :: "cmem option"
  physAddr_cmem :: int
  index_set :: bool         \<comment> \<open>\<open>index_h264 != NULL\<close>\<close>
  len_cmem :: int
  flag_write_right :: bool
  index_recv_h264 :: int

definition SYS_SHM_KEY :: int where "SYS_SHM_KEY = 0x7964"
definition SIZE_VERSION :: nat where "SIZE_VERSION = 64"

definition index0 :: h264_index where
  "index0 = \<lparr>buf_h264_index = 0, buf_h264_index_max = 0, h264_Position = 0, h264_Len = 0, msecond = 0,
     seconds = 0, timestamp = 0, is_I_frame = 0, nextFlag = 0, h264_id = 0\<rparr>"

section \<open>Attaching\<close>

text \<open>
  \<open>CMEM_init\<close> succeeds or not; \<open>alloc\<close> is the block of \<open>CMEM_alloc\<close>, of the length asked for, with its
  physical address. Sizes in bytes: 84 of the head, 80 of a frame in the table.
\<close>

definition attach_shm ::
  "bool \<Rightarrow> (int \<Rightarrow> (cmem \<times> int) option) \<Rightarrow> int \<Rightarrow> create_info option \<Rightarrow> h264_buffer \<Rightarrow> int \<times> h264_buffer" where
  "attach_shm init_ok alloc flag_create info b =
     (if physAddr_cmem b \<noteq> 0 \<and> index_set b then (0, b)
      else if flag_create = 1 \<and> info = None then (- 1, b)
      else
        let ci = the info;
            max_index = (if flag_create = 1 then protect_time ci * camera_frame_rate ci * 10 else 0);
            len_buf = (if flag_create = 1 then protect_time ci * rate ci * 1024 * 1024 div 8 else 0);
            len = 84 + 80 * max_index + len_buf
        in if flag_create = 1 \<and> \<not> init_ok then (- 1, b\<lparr>len_cmem := len\<rparr>)
           else
             let b = (if flag_create = 1
                      then b\<lparr>len_cmem := len, virtAddr_cmem := map_option fst (alloc len),
                             physAddr_cmem := (case alloc len of None \<Rightarrow> 0 | Some (_, p) \<Rightarrow> p)\<rparr>
                      else b)
             in case virtAddr_cmem b of
                  None \<Rightarrow> (- 1, b)
                | Some m \<Rightarrow>
                    if flag_create = 1 then
                      let m = m\<lparr>id_shmem := SYS_SHM_KEY, num_writer := 1, max_index_h264 := max_index,
                                len_buf_h264 := len_buf, head_recv := 0,
                                version := take (SIZE_VERSION - 1) (ci_version ci),
                                index_h264 := replicate (nat max_index) index0\<rparr>
                      in (0, b\<lparr>virtAddr_cmem := Some m, flag_write_right := True, index_recv_h264 := head_recv m,
                               index_set := True\<rparr>)
                    else if flag_create = 2 then
                      let b = b\<lparr>flag_write_right := True\<rparr> in
                      if id_shmem m \<noteq> SYS_SHM_KEY \<or> num_writer m > 0 then (- 1, b)
                      else (0, b\<lparr>virtAddr_cmem := Some (m\<lparr>num_writer := num_writer m + 1\<rparr>),
                                 index_recv_h264 := head_recv m, index_set := True\<rparr>)
                    else
                      let b = b\<lparr>flag_write_right := False\<rparr> in
                      if id_shmem m \<noteq> SYS_SHM_KEY then (- 1, b)
                      else (0, b\<lparr>index_recv_h264 := head_recv m, index_set := True\<rparr>))"

definition new_H264Buffer ::
  "bool \<Rightarrow> (int \<Rightarrow> (cmem \<times> int) option) \<Rightarrow> int \<Rightarrow> create_info option \<Rightarrow> h264_buffer" where
  "new_H264Buffer init_ok alloc flag_create info =
     snd (attach_shm init_ok alloc flag_create info
       \<lparr>virtAddr_cmem = None, physAddr_cmem = 0, index_set = False, len_cmem = 0, flag_write_right = False,
        index_recv_h264 = 0\<rparr>)"

text \<open>The constructor over an address of another process: \<open>CMEM_registerAlloc\<close> gives the block, or none.\<close>

definition map_H264Buffer :: "(int \<Rightarrow> cmem option) \<Rightarrow> int \<Rightarrow> int \<Rightarrow> h264_buffer" where
  "map_H264Buffer register addr len =
     (let m = (if addr > 0 then register addr else None)
      in \<lparr>virtAddr_cmem = m, physAddr_cmem = addr, index_set = (m \<noteq> None), len_cmem = len, flag_write_right = False,
          index_recv_h264 = (case m of None \<Rightarrow> 0 | Some m \<Rightarrow> head_recv m)\<rparr>)"

text \<open>The memory is shared: the first component is what the last detaching leaves in it.\<close>

definition deattach_shm :: "h264_buffer \<Rightarrow> cmem option \<times> h264_buffer" where
  "deattach_shm b =
     (map_option (\<lambda>m. if flag_write_right b then m\<lparr>num_writer := num_writer m - 1\<rparr> else m) (virtAddr_cmem b),
      b\<lparr>virtAddr_cmem := None\<rparr>)"

definition get_version :: "h264_buffer \<Rightarrow> int \<Rightarrow> int \<times> string option" where
  "get_version b len =
     (case virtAddr_cmem b of
        None \<Rightarrow> (- 1, None)
      | Some m \<Rightarrow> if len < 0 then (- 1, None)
                  else (int (length (version m)), if len = 0 then None else Some (take (nat len - 1) (version m))))"

definition get_version_h264_pack :: "bool \<Rightarrow> (int \<Rightarrow> (cmem \<times> int) option) \<Rightarrow> int \<Rightarrow> int \<times> string option" where
  "get_version_h264_pack init_ok alloc len =
     (if len \<le> 0 then (- 1, None) else get_version (new_H264Buffer init_ok alloc 0 None) len)"

section \<open>Frames by index\<close>

definition frame :: "h264_index list \<Rightarrow> int \<Rightarrow> h264_index option" where
  "frame xs k = (if 0 \<le> k \<and> k < int (length xs) then Some (xs ! nat k) else None)"

definition get_sec_at_index :: "h264_buffer \<Rightarrow> int \<Rightarrow> int option" where
  "get_sec_at_index b k =
     (case virtAddr_cmem b of None \<Rightarrow> Some (- 1) | Some m \<Rightarrow> map_option seconds (frame (index_h264 m) k))"

definition get_index_info :: "h264_buffer \<Rightarrow> int \<Rightarrow> int \<Rightarrow> (int \<times> h264_index option) option" where
  "get_index_info b last_cy k =
     (case virtAddr_cmem b of
        None \<Rightarrow> Some (- 1, None)
      | Some m \<Rightarrow>
          let xs = index_h264 m; recv = index_recv_h264 b in
          if last_cy = 1 then do {
            i \<leftarrow> (if recv = 0 then map_option buf_h264_index_max (frame xs 0) else Some (recv - 1));
            x \<leftarrow> frame xs i;
            Some (0, Some x) }
          else do {
            v \<leftarrow> frame xs (if recv = 0 then 0 else recv - 1);
            (let max_index = (if buf_h264_index_max v > recv - 1 then buf_h264_index_max v else recv - 1) in
             if k < 0 \<or> k > max_index then Some (- 1, None)
             else if k = recv then Some (- 1, None)
             else do { x \<leftarrow> frame xs k; Some (0, Some x) }) })"

section \<open>Frames by second\<close>

text \<open>The \<open>i\<close>-th frame from the oldest one on.\<close>

definition scan_index :: "bool \<Rightarrow> int \<Rightarrow> int \<Rightarrow> int \<Rightarrow> int" where
  "scan_index continuous recv imax i = (if continuous then i else (recv + 1 + i) mod (imax + 1))"

function forward_loop :: "h264_index list \<Rightarrow> (int \<Rightarrow> int) \<Rightarrow> int \<Rightarrow> int \<Rightarrow> int \<Rightarrow> int \<Rightarrow> int option" where
  "forward_loop xs scan sec index_max i record =
     (if i < index_max then
        let tmp = scan i in
        if record \<noteq> - 1 then Some record
        else do { x \<leftarrow> frame xs tmp;
                  forward_loop xs scan sec index_max (i + 1) (if seconds x = sec \<and> record = - 1 then tmp else record) }
      else Some record)"
  by pat_completeness auto
termination
  by (relation "measure (\<lambda>(xs, scan, sec, index_max, i, record). nat (index_max - i))") auto

function backward_loop :: "h264_index list \<Rightarrow> (int \<Rightarrow> int) \<Rightarrow> int \<Rightarrow> int \<Rightarrow> int \<Rightarrow> int \<Rightarrow> int option" where
  "backward_loop xs scan sec index_max i record =
     (if i < index_max then
        let tmp = scan i in
        do { x \<leftarrow> frame xs tmp;
             (if record \<noteq> - 1 then
                if seconds x = sec then backward_loop xs scan sec index_max (i + 1) tmp else Some record
              else backward_loop xs scan sec index_max (i + 1) (if seconds x = sec \<and> record = - 1 then tmp else record)) }
      else Some record)"
  by pat_completeness auto
termination
  by (relation "measure (\<lambda>(xs, scan, sec, index_max, i, record). nat (index_max - i))") auto

declare forward_loop.simps [simp del] backward_loop.simps [simp del]

text \<open>Both searches share their start: the frame not the oldest one only when the ring wrapped.\<close>

definition search_at ::
  "(h264_index list \<Rightarrow> (int \<Rightarrow> int) \<Rightarrow> int \<Rightarrow> int \<Rightarrow> int \<Rightarrow> int \<Rightarrow> int option)
    \<Rightarrow> h264_buffer \<Rightarrow> bool \<Rightarrow> int \<Rightarrow> int \<Rightarrow> int option" where
  "search_at loop b flushed record sec =
     (case virtAddr_cmem b of
        None \<Rightarrow> Some record
      | Some m \<Rightarrow> do {
          f0 \<leftarrow> frame (index_h264 m) 0;
          (let imax = buf_h264_index_max f0; recv = index_recv_h264 b;
               continuous = (\<not> flushed \<or> recv \<ge> imax)
           in loop (index_h264 m) (scan_index continuous recv imax) sec (if continuous then recv else imax) 0 (- 1)) })"

definition get_frame_at_sec_forward :: "h264_buffer \<Rightarrow> bool \<Rightarrow> int \<Rightarrow> int \<Rightarrow> int option" where
  "get_frame_at_sec_forward = search_at forward_loop"

definition get_frame_at_sec_backward :: "h264_buffer \<Rightarrow> bool \<Rightarrow> int \<Rightarrow> int \<Rightarrow> int option" where
  "get_frame_at_sec_backward = search_at backward_loop"

text \<open>The seconds tried one after the other while no frame is found.\<close>

primrec attempts :: "(int \<Rightarrow> int \<Rightarrow> int option) \<Rightarrow> int list \<Rightarrow> int \<Rightarrow> int option" where
  "attempts search [] record = Some record"
| "attempts search (s # ss) record =
     (if record = - 1 then do { r \<leftarrow> search record s; attempts search ss r } else Some record)"

definition get_frame_at_sec :: "h264_buffer \<Rightarrow> bool \<Rightarrow> int \<Rightarrow> int \<Rightarrow> (int \<times> int \<times> int) option" where
  "get_frame_at_sec b flushed s e =
     (if virtAddr_cmem b = None then Some (- 1, - 1, - 1)
      else do {
        i \<leftarrow> attempts (get_frame_at_sec_forward b flushed) [s, s - 1, s - 2, s + 1, s + 2] (- 1);
        j \<leftarrow> attempts (get_frame_at_sec_backward b flushed) [e, e - 1, e + 1, e - 2, e + 2] (- 1);
        Some (if i = - 1 \<or> j = - 1 then - 1 else 0, i, j) })"

section \<open>The I frame before a frame\<close>

text \<open>\<open>while (i > stop)\<close>, downwards: the index of an I frame, or \<open>stop\<close> when there is none.\<close>

function down :: "h264_index list \<Rightarrow> int \<Rightarrow> int \<Rightarrow> int option" where
  "down xs stop i =
     (if i > stop then do { x \<leftarrow> frame xs i; (if is_I_frame x = 1 then Some i else down xs stop (i - 1)) }
      else Some stop)"
  by pat_completeness auto
termination
  by (relation "measure (\<lambda>(xs, stop, i). nat (i - stop))") auto

declare down.simps [simp del]

definition get_I_frame_by_index :: "h264_buffer \<Rightarrow> bool \<Rightarrow> int \<Rightarrow> (int \<times> int) option" where
  "get_I_frame_by_index b flushed start =
     (case virtAddr_cmem b of
        None \<Rightarrow> Some (- 1, start)
      | Some m \<Rightarrow> do {
          f0 \<leftarrow> frame (index_h264 m) 0;
          (let xs = index_h264 m; recv = index_recv_h264 b; imax = buf_h264_index_max f0 in
           if \<not> flushed \<or> recv \<ge> imax then do {
             i \<leftarrow> down xs (- 1) start;
             Some (if i = - 1 then (- 1, start) else (0, i)) }
           else do {
             i \<leftarrow> (if start < recv then down xs (- 1) start else Some (- 1));
             (if i \<noteq> - 1 then Some (0, i)
              else do {
                j \<leftarrow> down xs recv (if start < recv then imax else start);
                Some (if j > recv then (0, j) else (- 1, start)) }) }) })"

section \<open>The segments of a record\<close>

record seg_info =
  h264_seg :: int
  h264_buf_seg :: "int list"        \<comment> \<open>offsets into \<open>buf_h264\<close>\<close>
  h264_buf_seg_size :: "int list"
  seconds_record_ret :: int

function sum_len :: "h264_index list \<Rightarrow> int \<Rightarrow> int \<Rightarrow> int \<Rightarrow> int option" where
  "sum_len xs i fin acc =
     (if i \<le> fin then do { x \<leftarrow> frame xs i; sum_len xs (i + 1) fin (acc + h264_Len x) } else Some acc)"
  by pat_completeness auto
termination
  by (relation "measure (\<lambda>(xs, i, fin, acc). nat (fin + 1 - i))") auto

declare sum_len.simps [simp del]

text \<open>The static \<open>flag_flushed\<close>: whether the ring was filled once.\<close>

definition flush_check :: "h264_index list \<Rightarrow> int \<Rightarrow> bool \<Rightarrow> bool option" where
  "flush_check xs recv flushed =
     (if flushed then Some True
      else
        let v = (if recv > 1 then recv - 1 else recv + 1) in
        do { x \<leftarrow> frame xs v;
             Some (if buf_h264_index x = v \<and> h264_id x \<noteq> v then True
                   else v > recv \<and> buf_h264_index x = v) })"

text \<open>The end of the record: at least the length asked for, as far as the newest frame goes.\<close>

definition record_end :: "int \<Rightarrow> int \<Rightarrow> int \<Rightarrow> int \<Rightarrow> int" where
  "record_end sec_start sec_end seconds_record sec_last =
     (if seconds_record > sec_end - sec_start
      then if sec_start + seconds_record > sec_last then sec_last else sec_start + seconds_record
      else sec_end)"

text \<open>One segment, or two when the end of the record lies before its start in the buffer.\<close>

definition segments :: "h264_index list \<Rightarrow> int \<Rightarrow> int \<Rightarrow> int \<Rightarrow> seg_info \<Rightarrow> seg_info option" where
  "segments xs i j secs si =
     (if i \<le> j then do {
        n \<leftarrow> sum_len xs i j 0;
        x \<leftarrow> frame xs i;
        Some (si\<lparr>h264_seg := 1, h264_buf_seg := [h264_Position x], h264_buf_seg_size := [n], seconds_record_ret := secs\<rparr>) }
      else do {
        f0 \<leftarrow> frame xs 0;
        n \<leftarrow> sum_len xs i (buf_h264_index_max f0) 0;
        x \<leftarrow> frame xs i;
        k \<leftarrow> sum_len xs 0 j 0;
        Some (si\<lparr>h264_seg := 2, h264_buf_seg := [h264_Position x, h264_Position f0],
                 h264_buf_seg_size := [n, k], seconds_record_ret := secs\<rparr>) })"

text \<open>Start and end frame, the I frame before the start, the segments.\<close>

definition cut_record :: "h264_buffer \<Rightarrow> h264_index list \<Rightarrow> bool \<Rightarrow> int \<Rightarrow> int \<Rightarrow> seg_info \<Rightarrow> (int \<times> seg_info) option" where
  "cut_record b xs flushed s e si = do {
     (r, i, j) \<leftarrow> get_frame_at_sec b flushed s e;
     (if r < 0 then Some (- 1, si)
      else do {
        (r, i) \<leftarrow> get_I_frame_by_index b flushed i;
        (if r < 0 then Some (- 1, si)
         else do { si \<leftarrow> segments xs i j (e - s) si; Some (0, si) }) }) }"

text \<open>The state after the call: the object and the static flag; the result and the record, when written.\<close>

definition get_h264_for_record ::
  "h264_buffer \<Rightarrow> bool \<Rightarrow> bool \<Rightarrow> seg_info option \<Rightarrow> int \<Rightarrow> int \<Rightarrow> int
    \<Rightarrow> (int \<times> seg_info option \<times> h264_buffer \<times> bool) option" where
  "get_h264_for_record b flushed init_ok info sec_start sec_end illegal_video_seconds =
     (let (r, b) = (if virtAddr_cmem b = None then attach_shm init_ok (\<lambda>_. None) 0 None b else (0, b)) in
      if r < 0 then Some (- 1, info, b, flushed)
      else case info of
        None \<Rightarrow> Some (- 1, None, b, flushed)
      | Some si \<Rightarrow>
          if sec_end - sec_start < 0 \<or> sec_end - sec_start > 120 then Some (- 1, Some si, b, flushed)
          else
            let seconds_record = (if illegal_video_seconds < 5 \<or> illegal_video_seconds > 120 then 5
                                  else illegal_video_seconds)
            in case virtAddr_cmem b of
                 None \<Rightarrow> None
               | Some m \<Rightarrow>
                   let b = b\<lparr>index_recv_h264 := head_recv m\<rparr>; recv = head_recv m; xs = index_h264 m;
                       si = si\<lparr>h264_seg := 0\<rparr>
                   in do {
                     newest \<leftarrow> (if recv > 0 then Some (recv - 1) else map_option buf_h264_index_max (frame xs 0));
                     (if newest < 0 \<or> newest \<ge> max_index_h264 m then Some (- 1, Some si, b, flushed)
                      else do {
                        l \<leftarrow> frame xs newest;
                        (if sec_start > seconds l then Some (- 1, Some si, b, flushed)
                         else do {
                           flushed \<leftarrow> flush_check xs recv flushed;
                           (r, si) \<leftarrow> cut_record b xs flushed sec_start
                                        (record_end sec_start sec_end seconds_record (seconds l)) si;
                           Some (r, Some si, b, flushed) }) }) })"

end
