(* ===== verification/H264_Record.thy ===== *)
theory H264_Record
  imports H264_Ring
begin

text \<open>
  What the ring of frames promises: the order of its frames from the oldest on, the searches as
  searches in that list, and the record as a run of consecutive frames that begins with an I frame.
\<close>

section \<open>Attaching\<close>

text \<open>
  An object made for reading never gets at the memory: \<open>attach_shm\<close> maps nothing unless it
  creates the memory, so \<open>get_version_h264_pack\<close>, which makes such an object, always fails.
\<close>

theorem get_version_h264_pack_fails:
  "get_version_h264_pack init_ok alloc len = (- 1, None)"
  by (simp add: get_version_h264_pack_def new_H264Buffer_def attach_shm_def get_version_def)

text \<open>
  A second writer is turned away, but with its right to write set: detaching it takes the first
  writer off the count.
\<close>

theorem second_writer_drops_the_first:
  "attach_shm init_ok alloc 2 info
     \<lparr>virtAddr_cmem = Some (m\<lparr>num_writer := 1\<rparr>), physAddr_cmem = 0, index_set = False, len_cmem = l,
      flag_write_right = w, index_recv_h264 = r\<rparr> = (- 1, b)
   \<Longrightarrow> map_option num_writer (fst (deattach_shm b)) = Some 0"
  by (auto simp: attach_shm_def deattach_shm_def Let_def)

theorem second_writer_drops_the_first_witness:
  "map_option num_writer (fst (deattach_shm (snd (attach_shm True (\<lambda>_. None) 2 None
     \<lparr>virtAddr_cmem = Some \<lparr>id_shmem = SYS_SHM_KEY, num_writer = 1, max_index_h264 = 0, len_buf_h264 = 0,
        head_recv = 0, version = [], index_h264 = []\<rparr>, physAddr_cmem = 0, index_set = False, len_cmem = 0,
      flag_write_right = False, index_recv_h264 = 0\<rparr>)))) = Some 0"
  by (rule second_writer_drops_the_first [where m = "\<lparr>id_shmem = SYS_SHM_KEY, num_writer = 1, max_index_h264 = 0,
        len_buf_h264 = 0, head_recv = 0, version = [], index_h264 = []\<rparr>" and init_ok = True and alloc = "\<lambda>_. None"
        and info = None and l = 0 and w = False and r = 0])
    (simp add: attach_shm_def Let_def)

section \<open>The order of the frames\<close>

definition in_table :: "h264_index list \<Rightarrow> int list \<Rightarrow> bool" where
  "in_table xs ks = list_all (\<lambda>k. 0 \<le> k \<and> k < int (length xs)) ks"

definition sec_of :: "h264_index list \<Rightarrow> int \<Rightarrow> int" where
  "sec_of xs k = seconds (xs ! nat k)"

definition scan_order :: "bool \<Rightarrow> int \<Rightarrow> int \<Rightarrow> int list" where
  "scan_order c recv imax = map (scan_index c recv imax) [0..(if c then recv else imax) - 1]"

lemma frame_in: "0 \<le> k \<Longrightarrow> k < int (length xs) \<Longrightarrow> frame xs k = Some (xs ! nat k)"
  by (simp add: frame_def)

text \<open>The first run of frames of a second; -1 when there is none.\<close>

definition run_of :: "h264_index list \<Rightarrow> int \<Rightarrow> int list \<Rightarrow> int list" where
  "run_of xs sec ks = takeWhile (\<lambda>k. sec_of xs k = sec) (dropWhile (\<lambda>k. sec_of xs k \<noteq> sec) ks)"

lemma forward_found: "0 \<le> rcd \<Longrightarrow> forward_loop xs scan sec n i rcd = Some rcd"
  by (subst forward_loop.simps) (simp add: Let_def)

lemma forward_run:
  "in_table xs (map scan [i..n - 1]) \<Longrightarrow>
   forward_loop xs scan sec n i (- 1) = Some (case run_of xs sec (map scan [i..n - 1]) of [] \<Rightarrow> - 1 | k # _ \<Rightarrow> k)"
proof (induction "nat (n - i)" arbitrary: i)
  case 0
  then show ?case by (subst forward_loop.simps) (simp add: run_of_def)
next
  case (Suc x)
  then have i: "i < n" by simp
  then have l: "map scan [i..n - 1] = scan i # map scan [i + 1..n - 1]" by (simp add: upto.simps [of i])
  then have t: "0 \<le> scan i" "scan i < int (length xs)" "in_table xs (map scan [i + 1..n - 1])"
    using Suc.prems by (simp_all add: in_table_def)
  have "forward_loop xs scan sec n (i + 1) (- 1) =
      Some (case run_of xs sec (map scan [i + 1..n - 1]) of [] \<Rightarrow> - 1 | k # _ \<Rightarrow> k)"
    using Suc t(3) by simp
  then show ?case
    using i t by (subst forward_loop.simps) (simp add: frame_in l run_of_def sec_of_def forward_found Let_def)
qed

lemma backward_in_run:
  "in_table xs (map scan [i..n - 1]) \<Longrightarrow> 0 \<le> rcd \<Longrightarrow>
   backward_loop xs scan sec n i rcd = Some (last (rcd # takeWhile (\<lambda>k. sec_of xs k = sec) (map scan [i..n - 1])))"
proof (induction "nat (n - i)" arbitrary: i rcd)
  case 0
  then show ?case by (subst backward_loop.simps) simp
next
  case (Suc x)
  then have i: "i < n" by simp
  then have l: "map scan [i..n - 1] = scan i # map scan [i + 1..n - 1]" by (simp add: upto.simps [of i])
  then have t: "0 \<le> scan i" "scan i < int (length xs)" "in_table xs (map scan [i + 1..n - 1])"
    using Suc.prems by (simp_all add: in_table_def)
  have "backward_loop xs scan sec n (i + 1) (scan i) =
      Some (last (scan i # takeWhile (\<lambda>k. sec_of xs k = sec) (map scan [i + 1..n - 1])))"
    using Suc t by simp
  then show ?case
    using i t Suc.prems(2) by (subst backward_loop.simps) (simp add: frame_in l sec_of_def Let_def)
qed

lemma backward_run:
  "in_table xs (map scan [i..n - 1]) \<Longrightarrow>
   backward_loop xs scan sec n i (- 1) =
     Some (let ks = run_of xs sec (map scan [i..n - 1]) in if ks = [] then - 1 else last ks)"
proof (induction "nat (n - i)" arbitrary: i)
  case 0
  then show ?case by (subst backward_loop.simps) (simp add: run_of_def)
next
  case (Suc x)
  then have i: "i < n" by simp
  then have l: "map scan [i..n - 1] = scan i # map scan [i + 1..n - 1]" by (simp add: upto.simps [of i])
  then have t: "0 \<le> scan i" "scan i < int (length xs)" "in_table xs (map scan [i + 1..n - 1])"
    using Suc.prems by (simp_all add: in_table_def)
  have "backward_loop xs scan sec n (i + 1) (- 1) =
      Some (let ks = run_of xs sec (map scan [i + 1..n - 1]) in if ks = [] then - 1 else last ks)"
    using Suc t(3) by simp
  then show ?case
    using i t backward_in_run [OF t(3) t(1), of sec]
    by (subst backward_loop.simps) (simp add: frame_in l run_of_def sec_of_def Let_def)
qed

lemma run_mem: "k \<in> set (run_of xs sec ks) \<Longrightarrow> k \<in> set ks \<and> sec_of xs k = sec"
  unfolding run_of_def by (meson set_dropWhileD set_takeWhileD)

section \<open>Slices of the ring\<close>

lemma drop_upto: "drop n [i..j] = [i + int n..j]"
proof (induction n arbitrary: i)
  case (Suc n)
  then show ?case by (cases "i \<le> j") (simp_all add: upto.simps [of i] add.commute add.left_commute)
qed simp

lemma take_upto: "int n \<le> j - i + 1 \<Longrightarrow> take n [i..j] = [i..i + int n - 1]"
proof (induction n arbitrary: i)
  case (Suc n)
  then have "i \<le> j" by simp
  then show ?case using Suc by (simp add: upto.simps [of i j] upto.simps [of i "i + int n"])
qed simp

lemma scan_order_alt:
  assumes "0 \<le> recv" and "\<not> c \<Longrightarrow> recv < imax"
  shows "scan_order c recv imax = (if c then [0..recv - 1] else [recv + 1..imax] @ [0..recv - 1])"
proof (cases c)
  case False
  then have r: "recv < imax" by (rule assms(2))
  have s: "[0..imax - 1] = [0..imax - recv - 1] @ [imax - recv..imax - 1]"
    using assms(1) r upto_split1 [of 0 "imax - recv" "imax - 1"] by (cases "recv = 0") simp_all
  have a: "map (\<lambda>i. (recv + 1 + i) mod (imax + 1)) [0..imax - recv - 1] = [recv + 1..imax]"
    using assms(1) r by (intro nth_equalityI) auto
  have b: "map (\<lambda>i. (recv + 1 + i) mod (imax + 1)) [imax - recv..imax - 1] = [0..recv - 1]"
  proof (rule nth_equalityI)
    fix n assume "n < length (map (\<lambda>i. (recv + 1 + i) mod (imax + 1)) [imax - recv..imax - 1])"
    then have "int n < recv" by simp
    then have "(int n + (imax + 1)) mod (imax + 1) = int n" using r by (subst mod_add_self2) simp
    then show "map (\<lambda>i. (recv + 1 + i) mod (imax + 1)) [imax - recv..imax - 1] ! n = [0..recv - 1] ! n"
      using \<open>int n < recv\<close> nth_upto [of "imax - recv" n "imax - 1"] by (simp add: algebra_simps)
  qed (use r in simp)
  have "scan_index False recv imax = (\<lambda>i. (recv + 1 + i) mod (imax + 1))"
    by (simp add: scan_index_def fun_eq_iff)
  then show ?thesis using False by (simp add: scan_order_def s a b)
next
  case True
  have "scan_index True recv imax = (\<lambda>i. i)" by (simp add: scan_index_def fun_eq_iff)
  with True show ?thesis by (simp add: scan_order_def)
qed

text \<open>A stretch of the ring is one run of indices, or two when it passes the end of the table.\<close>

definition stretch :: "nat \<Rightarrow> nat \<Rightarrow> int list \<Rightarrow> int list" where
  "stretch a d ks = take (Suc d - a) (drop a ks)"

lemma slice_upto: "a \<le> d \<Longrightarrow> int d < j + 1 - i \<Longrightarrow> stretch a d [i..j] = [i + int a..i + int d]"
  by (simp add: stretch_def drop_upto take_upto of_nat_diff)

lemma slice_scan_order:
  assumes r: "0 \<le> recv" "\<not> c \<Longrightarrow> recv < imax" and a: "a \<le> d" "d < length (scan_order c recv imax)"
  shows "stretch a d (scan_order c recv imax) =
    (let i = scan_order c recv imax ! a; j = scan_order c recv imax ! d
     in if i \<le> j then [i..j] else [i..imax] @ [0..j])"
proof (cases c)
  case True
  then have o: "scan_order c recv imax = [0..recv - 1]" using scan_order_alt [of recv c imax] r True by auto
  then have "int d < recv" using a(2) by simp
  with a(1) show ?thesis
    using slice_upto [of a d "recv - 1" 0] by (simp add: o)
next
  case False
  then have im: "recv < imax" by (rule r(2))
  define n1 where "n1 = nat (imax - recv)"
  have o: "scan_order c recv imax = [recv + 1..imax] @ [0..recv - 1]" and l: "length [recv + 1..imax] = n1"
    using False scan_order_alt [of recv c imax] r by (auto simp: n1_def)
  have d: "d < n1 + nat recv" using a(2) l by (simp add: o n1_def)
  consider "d < n1" | "a < n1" "n1 \<le> d" | "n1 \<le> a" using a(1) by linarith
  then show ?thesis
  proof cases
    case 1
    then have "stretch a d (scan_order c recv imax) = stretch a d [recv + 1..imax]"
      using a(1) by (simp add: stretch_def o n1_def)
    also have "\<dots> = [recv + 1 + int a..recv + 1 + int d]"
      using 1 a(1) im by (intro slice_upto) (simp_all add: n1_def)
    finally show ?thesis using 1 a(1) l by (simp add: o nth_append n1_def)
  next
    case 2
    then have "stretch a d (scan_order c recv imax) = drop a [recv + 1..imax] @ take (Suc d - n1) [0..recv - 1]"
      using a(1) l by (simp add: stretch_def o n1_def)
    also have "\<dots> = [recv + 1 + int a..imax] @ [0..int d - int n1]"
      using 2 d by (simp add: drop_upto take_upto of_nat_diff)
    finally show ?thesis using 2 l d im by (simp add: o nth_append n1_def Let_def)
  next
    case 3
    then have "stretch a d (scan_order c recv imax) = stretch (a - n1) (d - n1) [0..recv - 1]"
      using a(1) l by (simp add: stretch_def o n1_def)
    also have "\<dots> = [int (a - n1)..int (d - n1)]"
      using 3 a(1) d im slice_upto [of "a - n1" "d - n1" "recv - 1" 0] by simp
    finally show ?thesis using 3 a(1) l d by (simp add: o nth_append)
  qed
qed

lemma sum_len_upto:
  "(\<And>k. i \<le> k \<Longrightarrow> k \<le> j \<Longrightarrow> 0 \<le> k \<and> k < int (length xs)) \<Longrightarrow>
   sum_len xs i j acc = Some (acc + sum_list (map (\<lambda>k. h264_Len (xs ! nat k)) [i..j]))"
proof (induction "nat (j + 1 - i)" arbitrary: i acc)
  case 0
  then show ?case by (subst sum_len.simps) simp
next
  case (Suc x)
  then have i: "i \<le> j" by simp
  have "sum_len xs (i + 1) j (acc + h264_Len (xs ! nat i)) =
      Some (acc + h264_Len (xs ! nat i) + sum_list (map (\<lambda>k. h264_Len (xs ! nat k)) [i + 1..j]))"
    using Suc by simp
  then show ?case
    using i Suc.prems [of i] by (subst sum_len.simps) (simp add: frame_in upto.simps [of i])
qed

section \<open>The I frame\<close>

lemma down_spec:
  assumes "down xs stop i = Some j" and "stop \<le> i"
  shows "stop \<le> j \<and> j \<le> i \<and> (j \<noteq> stop \<longrightarrow> is_I_frame (xs ! nat j) = 1)
     \<and> (\<forall>k. j < k \<and> k \<le> i \<longrightarrow> is_I_frame (xs ! nat k) \<noteq> 1)"
  using assms
proof (induction "nat (i - stop)" arbitrary: i)
  case 0
  then show ?case by (subst (asm) down.simps) auto
next
  case (Suc n)
  then have i: "stop < i" by simp
  with Suc.prems(1) obtain x where x: "frame xs i = Some x"
    and r: "(if is_I_frame x = 1 then Some i else down xs stop (i - 1)) = Some j"
    by (subst (asm) down.simps) (auto split: bind_splits)
  have xi: "x = xs ! nat i" using x by (auto simp: frame_def split: if_splits)
  show ?case
  proof (cases "is_I_frame x = 1")
    case True
    then show ?thesis using r i xi by auto
  next
    case False
    then have IH: "stop \<le> j \<and> j \<le> i - 1 \<and> (j \<noteq> stop \<longrightarrow> is_I_frame (xs ! nat j) = 1)
        \<and> (\<forall>k. j < k \<and> k \<le> i - 1 \<longrightarrow> is_I_frame (xs ! nat k) \<noteq> 1)"
      using Suc.hyps(1) [of "i - 1"] Suc.hyps(2) r i by simp
    moreover have "is_I_frame (xs ! nat k) \<noteq> 1" if "j < k" "k \<le> i" for k
      using IH that False xi by (cases "k = i") auto
    ultimately show ?thesis by auto
  qed
qed

text \<open>The I frame found is the nearest one at or before the start, in the order of the ring.\<close>

definition nearest_I :: "h264_index list \<Rightarrow> int list \<Rightarrow> nat \<Rightarrow> nat \<Rightarrow> bool" where
  "nearest_I xs ks p a \<longleftrightarrow> a \<le> p \<and> is_I_frame (xs ! nat (ks ! a)) = 1
     \<and> (\<forall>q. a < q \<and> q \<le> p \<longrightarrow> is_I_frame (xs ! nat (ks ! q)) \<noteq> 1)"

lemma get_I_nearest:
  assumes m: "virtAddr_cmem b = Some m" and f0: "frame (index_h264 m) 0 = Some f0" and r: "0 \<le> index_recv_h264 b"
    and c: "c = (\<not> flushed \<or> index_recv_h264 b \<ge> buf_h264_index_max f0)"
    and ks: "ks = scan_order c (index_recv_h264 b) (buf_h264_index_max f0)" and p: "p < length ks"
    and g: "get_I_frame_by_index b flushed (ks ! p) = Some (0, i)"
  shows "\<exists>a. ks ! a = i \<and> nearest_I (index_h264 m) ks p a"
proof -
  define recv where "recv = index_recv_h264 b"
  define imax where "imax = buf_h264_index_max f0"
  define xs where "xs = index_h264 m"
  have o: "\<not> c \<Longrightarrow> recv < imax" using c by (simp add: recv_def imax_def)
  have ks': "ks = (if c then [0..recv - 1] else [recv + 1..imax] @ [0..recv - 1])"
    using scan_order_alt [of recv c imax] ks r o by (simp add: recv_def imax_def)
  have c': "(\<not> flushed \<or> recv \<ge> imax) = c" using c by (simp add: recv_def imax_def)
  show ?thesis
  proof (cases c)
    case True
    then have kp: "ks ! q = int q" if "q < length ks" for q using that by (simp add: ks')
    obtain j where "down xs (- 1) (ks ! p) = Some j" "i = j" "j \<noteq> - 1"
      using g True m f0 c' by (auto simp: get_I_frame_by_index_def Let_def xs_def recv_def imax_def split: bind_splits if_splits)
    with down_spec [of xs "- 1" "int p" i] kp [OF p]
    have "0 \<le> i" "i \<le> int p" "is_I_frame (xs ! nat i) = 1" "\<forall>k. i < k \<and> k \<le> int p \<longrightarrow> is_I_frame (xs ! nat k) \<noteq> 1"
      by auto
    moreover from this have "is_I_frame (xs ! q) \<noteq> 1" if "nat i < q" "q \<le> p" for q
      using that by (metis nat_int nat_less_iff of_nat_le_iff zless_nat_eq_int_zless)
    ultimately show ?thesis
      using kp p by (intro exI [of _ "nat i"]) (auto simp: nearest_I_def xs_def)
  next
    case False
    then have im: "recv < imax" by (rule o)
    define n1 where "n1 = nat (imax - recv)"
    have kp: "ks ! q = (if q < n1 then recv + 1 + int q else int q - int n1)" if "q < length ks" for q
      using that False im by (auto simp: ks' nth_append n1_def)
    have len: "length ks = n1 + nat recv" using False im by (simp add: ks' n1_def)
    have low: "\<exists>a. ks ! a = i \<and> nearest_I xs ks p a"
      if "p < n1" "recv < i" "i \<le> recv + 1 + int p" "is_I_frame (xs ! nat i) = 1"
        "\<And>k. i < k \<Longrightarrow> k \<le> recv + 1 + int p \<Longrightarrow> is_I_frame (xs ! nat k) \<noteq> 1"
      using that kp p by (intro exI [of _ "nat (i - recv - 1)"]) (auto simp: nearest_I_def)
    have high: "\<exists>a. ks ! a = i \<and> nearest_I xs ks p a"
      if "n1 \<le> p" "0 \<le> i" "i \<le> int p - int n1" "is_I_frame (xs ! nat i) = 1"
        "\<And>k. i < k \<Longrightarrow> k \<le> int p - int n1 \<Longrightarrow> is_I_frame (xs ! nat k) \<noteq> 1"
      using that kp p by (intro exI [of _ "n1 + nat i"]) (auto simp: nearest_I_def)
    have round: "\<exists>a. ks ! a = i \<and> nearest_I xs ks p a"
      if "n1 \<le> p" "recv < i" "i \<le> imax" "is_I_frame (xs ! nat i) = 1"
        "\<And>k. i < k \<Longrightarrow> k \<le> imax \<Longrightarrow> is_I_frame (xs ! nat k) \<noteq> 1"
        "\<And>k. - 1 < k \<Longrightarrow> k \<le> int p - int n1 \<Longrightarrow> is_I_frame (xs ! nat k) \<noteq> 1"
      using that kp p im by (intro exI [of _ "nat (i - recv - 1)"]) (auto simp: nearest_I_def n1_def)
    show ?thesis
    proof (cases "p < n1")
      case True
      then have s: "ks ! p = recv + 1 + int p" using kp p by simp
      then obtain j where "down xs recv (recv + 1 + int p) = Some j" "i = j" "recv < j"
        using g False m f0 c' by (auto simp: get_I_frame_by_index_def Let_def xs_def recv_def imax_def split: bind_splits if_splits)
      then show ?thesis using down_spec [of xs recv "recv + 1 + int p" i] low True by (auto simp: xs_def)
    next
      case high_p: False
      then have s: "ks ! p = int p - int n1" and s': "int p - int n1 < recv" using kp p len r by (auto simp: recv_def)
      obtain j where j: "down xs (- 1) (int p - int n1) = Some j"
        using g False m f0 c' s s' by (auto simp: get_I_frame_by_index_def Let_def xs_def recv_def imax_def split: bind_splits if_splits)
      show ?thesis
      proof (cases "j = - 1")
        case True
        then obtain k where "down xs recv imax = Some k" "i = k" "recv < k"
          using g False m f0 c' s s' j
          by (auto simp: get_I_frame_by_index_def Let_def xs_def recv_def imax_def split: bind_splits if_splits)
        then show ?thesis
          using down_spec [of xs recv imax i] down_spec [OF j] True round high_p im by (auto simp: xs_def)
      next
        case False
        then have "i = j"
          using g \<open>\<not> c\<close> m f0 c' s s' j
          by (auto simp: get_I_frame_by_index_def Let_def xs_def recv_def imax_def split: bind_splits if_splits)
        then show ?thesis using down_spec [OF j] False high high_p by (auto simp: xs_def)
      qed
    qed
  qed
qed

section \<open>The frames of a record\<close>

definition continuous_at :: "cmem \<Rightarrow> bool \<Rightarrow> bool" where
  "continuous_at m flushed \<longleftrightarrow> \<not> flushed \<or> head_recv m \<ge> buf_h264_index_max (index_h264 m ! 0)"

definition frames_of :: "cmem \<Rightarrow> bool \<Rightarrow> int list" where
  "frames_of m flushed = scan_order (continuous_at m flushed) (head_recv m) (buf_h264_index_max (index_h264 m ! 0))"

text \<open>The frames stored lie in the table and are in the order of their seconds.\<close>

definition ring_ok :: "cmem \<Rightarrow> bool \<Rightarrow> bool" where
  "ring_ok m flushed \<longleftrightarrow> 0 \<le> head_recv m \<and> index_h264 m \<noteq> [] \<and> in_table (index_h264 m) (frames_of m flushed)
     \<and> sorted (map (sec_of (index_h264 m)) (frames_of m flushed))"

lemma search_run:
  assumes m: "virtAddr_cmem b = Some m" and r: "index_recv_h264 b = head_recv m" and ok: "ring_ok m flushed"
  shows "get_frame_at_sec_forward b flushed rc sec =
      Some (case run_of (index_h264 m) sec (frames_of m flushed) of [] \<Rightarrow> - 1 | k # _ \<Rightarrow> k)"
    "get_frame_at_sec_backward b flushed rc sec =
      Some (let ks = run_of (index_h264 m) sec (frames_of m flushed) in if ks = [] then - 1 else last ks)"
proof -
  have f0: "frame (index_h264 m) 0 = Some (index_h264 m ! 0)" and t: "in_table (index_h264 m) (frames_of m flushed)"
    using ok by (auto simp: ring_ok_def frame_def)
  note d = search_at_def m f0 frames_of_def scan_order_def continuous_at_def Let_def r
  show "get_frame_at_sec_forward b flushed rc sec =
      Some (case run_of (index_h264 m) sec (frames_of m flushed) of [] \<Rightarrow> - 1 | k # _ \<Rightarrow> k)"
    using t forward_run by (simp add: get_frame_at_sec_forward_def d)
  show "get_frame_at_sec_backward b flushed rc sec =
      Some (let ks = run_of (index_h264 m) sec (frames_of m flushed) in if ks = [] then - 1 else last ks)"
    using t backward_run by (simp add: get_frame_at_sec_backward_def d)
qed

text \<open>A run is a part of the list.\<close>

lemma run_place:
  assumes "run_of xs sec ks \<noteq> []"
  obtains p d where "p \<le> d" "d < length ks" "hd (run_of xs sec ks) = ks ! p" "last (run_of xs sec ks) = ks ! d"
    "sec_of xs (ks ! p) = sec" "sec_of xs (ks ! d) = sec"
proof -
  define u where "u = takeWhile (\<lambda>k. sec_of xs k \<noteq> sec) ks"
  define v where "v = run_of xs sec ks"
  define w where "w = dropWhile (\<lambda>k. sec_of xs k = sec) (dropWhile (\<lambda>k. sec_of xs k \<noteq> sec) ks)"
  have ks: "ks = u @ v @ w" by (simp add: u_def v_def w_def run_of_def)
  have v: "v \<noteq> []" "\<forall>k \<in> set v. sec_of xs k = sec"
    using assms run_mem [of _ xs sec ks] by (auto simp: v_def)
  have e: "hd v = ks ! length u" "last v = ks ! (length u + (length v - 1))" "length u + (length v - 1) < length ks"
    using v(1) unfolding ks by (simp_all add: nth_append hd_conv_nth last_conv_nth less_Suc_eq_le trans_less_add1)
  have "hd v \<in> set v" "last v \<in> set v" using v(1) by simp_all
  with v(2) have "sec_of xs (ks ! length u) = sec" "sec_of xs (ks ! (length u + (length v - 1))) = sec"
    unfolding e(1,2) by blast+
  with e show ?thesis
    by (intro that [of "length u" "length u + (length v - 1)"]) (simp_all add: v_def [symmetric])
qed

lemma attempts_first:
  assumes "\<And>r s. search r s = Some (f s)" and "\<And>s. f s \<noteq> - 1 \<longleftrightarrow> P s" and "attempts search ss (- 1) = Some r" and "r \<noteq> - 1"
  shows "\<exists>us s vs. ss = us @ s # vs \<and> P s \<and> r = f s \<and> (\<forall>u \<in> set us. \<not> P u)"
  using assms(3)
proof (induction ss)
  case (Cons s ss)
  show ?case
  proof (cases "P s")
    case True
    then have "f s \<noteq> - 1" using assms(2) by blast
    then have "attempts search ss (f s) = Some (f s)" by (cases ss) simp_all
    moreover have at: "search (- 1) s = Some (f s)" by (rule assms(1))
    have "attempts search ss (f s) = Some r" using Cons.prems by (simp add: at)
    ultimately have "r = f s" by simp
    then show ?thesis using True by (intro exI [of _ "[]"]) simp
  next
    case False
    then have "f s = - 1" using assms(2) by blast
    moreover have at: "search (- 1) s = Some (f s)" by (rule assms(1))
    ultimately obtain us s' vs where "ss = us @ s' # vs" "P s'" "r = f s'" "\<forall>u \<in> set us. \<not> P u"
      using Cons by auto
    then show ?thesis using False by (intro exI [of _ "s # us"]) auto
  qed
qed (use assms(4) in simp)

text \<open>The seconds tried are ordered so that the start found is never behind the end found.\<close>

lemma tried_in_order:
  fixes s e :: int
  assumes "[s, s - 1, s - 2, s + 1, s + 2] = us @ x # vs" "P x" "\<forall>u \<in> set us. \<not> P u"
    and "[e, e - 1, e + 1, e - 2, e + 2] = us' @ y # vs'" "P y" "\<forall>u \<in> set us'. \<not> P u" and "s \<le> e"
  shows "x \<le> y"
proof (rule ccontr)
  assume "\<not> x \<le> y"
  have x: "(x = s) \<or> (x = s - 1 \<and> \<not> P s) \<or> (x = s - 2 \<and> \<not> P s \<and> \<not> P (s - 1))
    \<or> (x = s + 1 \<and> \<not> P s \<and> \<not> P (s - 1) \<and> \<not> P (s - 2)) \<or> (x = s + 2 \<and> \<not> P s \<and> \<not> P (s - 1) \<and> \<not> P (s - 2) \<and> \<not> P (s + 1))"
    using assms(1,3) by (auto simp: Cons_eq_append_conv)
  have y: "(y = e) \<or> (y = e - 1 \<and> \<not> P e) \<or> (y = e + 1 \<and> \<not> P e \<and> \<not> P (e - 1))
    \<or> (y = e - 2 \<and> \<not> P e \<and> \<not> P (e - 1) \<and> \<not> P (e + 1)) \<or> (y = e + 2 \<and> \<not> P e \<and> \<not> P (e - 1) \<and> \<not> P (e + 1) \<and> \<not> P (e - 2))"
    using assms(4,6) by (auto simp: Cons_eq_append_conv)
  consider "e = s" | "e = s + 1" | "e = s + 2" | "e = s + 3" | "s + 4 \<le> e" using assms(7) by linarith
  then show False
    using x y \<open>\<not> x \<le> y\<close> assms(2,5) by cases (auto simp: add.commute [of s])
qed

lemma get_frame_at_sec_found:
  assumes m: "virtAddr_cmem b = Some m" and r: "index_recv_h264 b = head_recv m" and ok: "ring_ok m flushed"
    and g: "get_frame_at_sec b flushed s e = Some (0, i, j)" and se: "s \<le> e"
  obtains p d where "p \<le> d" "d < length (frames_of m flushed)" "i = frames_of m flushed ! p" "j = frames_of m flushed ! d"
    "\<bar>sec_of (index_h264 m) i - s\<bar> \<le> 2" "\<bar>sec_of (index_h264 m) j - e\<bar> \<le> 2"
proof -
  let ?ks = "frames_of m flushed" and ?xs = "index_h264 m"
  define P where "P x \<longleftrightarrow> run_of ?xs x ?ks \<noteq> []" for x
  define f where "f x = (case run_of ?xs x ?ks of [] \<Rightarrow> - 1 | k # _ \<Rightarrow> k)" for x
  define h where "h x = (let ks = run_of ?xs x ?ks in if ks = [] then - 1 else last ks)" for x
  have t: "0 \<le> k" if "k \<in> set ?ks" for k
    using ok that by (auto simp: ring_ok_def in_table_def list_all_iff)
  have fh: "f x = hd (run_of ?xs x ?ks)" "h x = last (run_of ?xs x ?ks)" if "P x" for x
    using that by (auto simp: P_def f_def h_def neq_Nil_conv)
  have "0 \<le> f x \<and> 0 \<le> h x" if "P x" for x
    using t run_mem fh [OF that] that unfolding P_def by (metis hd_in_set last_in_set)
  then have PP: "f x \<noteq> - 1 \<longleftrightarrow> P x" "h x \<noteq> - 1 \<longleftrightarrow> P x" for x
    by (cases "P x"; force simp: P_def f_def h_def)+
  have a: "attempts (get_frame_at_sec_forward b flushed) [s, s - 1, s - 2, s + 1, s + 2] (- 1) = Some i" "i \<noteq> - 1"
    "attempts (get_frame_at_sec_backward b flushed) [e, e - 1, e + 1, e - 2, e + 2] (- 1) = Some j" "j \<noteq> - 1"
    using g m by (auto simp: get_frame_at_sec_def simp del: attempts.simps split: bind_splits if_splits)
  note run = search_run [OF m r ok]
  obtain us x vs where x: "[s, s - 1, s - 2, s + 1, s + 2] = us @ x # vs" "P x" "i = f x" "\<forall>u \<in> set us. \<not> P u"
    using attempts_first [of "get_frame_at_sec_forward b flushed" f P, OF _ PP(1) a(1,2)] run(1) by (auto simp: f_def)
  obtain us' y vs' where y: "[e, e - 1, e + 1, e - 2, e + 2] = us' @ y # vs'" "P y" "j = h y" "\<forall>u \<in> set us'. \<not> P u"
    using attempts_first [of "get_frame_at_sec_backward b flushed" h P, OF _ PP(2) a(3,4)] run(2) by (auto simp: h_def)
  have xy: "x \<le> y" using tried_in_order [OF x(1,2,4) y(1,2,4) se] .
  have "x \<in> set [s, s - 1, s - 2, s + 1, s + 2]" "y \<in> set [e, e - 1, e + 1, e - 2, e + 2]"
    unfolding x(1) y(1) by simp_all
  then have near: "\<bar>x - s\<bar> \<le> 2" "\<bar>y - e\<bar> \<le> 2" by auto
  obtain p d0 where p: "p \<le> d0" "d0 < length ?ks" "i = ?ks ! p" "sec_of ?xs i = x" 
    using run_place [of ?xs x ?ks] x(2,3) fh(1) P_def by metis
  obtain p0 d where d: "p0 \<le> d" "d < length ?ks" "j = ?ks ! d" "sec_of ?xs j = y"
    using run_place [of ?xs y ?ks] y(2,3) fh(2) P_def by metis
  show ?thesis
  proof (cases "x = y")
    case True
    obtain p1 d1 where "p1 \<le> d1" "d1 < length ?ks" "i = ?ks ! p1" "j = ?ks ! d1"
      using run_place [of ?xs x ?ks] x(2,3) y(3) fh True P_def by metis
    then show ?thesis using that near p(4) d(4) by blast
  next
    case False
    with xy have "x < y" by simp
    have "p \<le> d"
    proof (rule ccontr)
      assume "\<not> p \<le> d"
      then have "map (sec_of ?xs) ?ks ! d \<le> map (sec_of ?xs) ?ks ! p"
        using ok p(1,2) by (intro sorted_nth_mono) (simp_all add: ring_ok_def)
      then show False using p d \<open>x < y\<close> by simp
    qed
    then show ?thesis using that p d near by blast
  qed
qed

section \<open>The record\<close>

text \<open>A call that succeeds went through every step.\<close>

lemma record_end_ge: "s \<le> e \<Longrightarrow> s \<le> l \<Longrightarrow> 0 \<le> d \<Longrightarrow> s \<le> record_end s e d l"
  by (simp add: record_end_def)

lemma record_steps:
  assumes g: "get_h264_for_record b flushed init_ok (Some si) s e ill = Some (0, Some r, b', fl)"
    and m: "virtAddr_cmem b = Some m"
  obtains e' where "virtAddr_cmem b' = Some m" "index_recv_h264 b' = head_recv m" "s \<le> e'"
    "cut_record b' (index_h264 m) fl s e' (si\<lparr>h264_seg := 0\<rparr>) = Some (0, r)"
proof -
  define dur where "dur = (if ill < 5 \<or> ill > 120 then 5 else ill)"
  have se: "s \<le> e"
    using g m by (auto simp: get_h264_for_record_def Let_def split: if_splits)
  obtain newest where newest: "(if head_recv m > 0 then Some (head_recv m - 1) else map_option buf_h264_index_max (frame (index_h264 m) 0)) = Some newest"
    and n_ok: "\<not> (newest < 0 \<or> newest \<ge> max_index_h264 m)"
    using g m se by (auto simp: get_h264_for_record_def Let_def split: if_splits bind_splits)
  obtain l where l: "frame (index_h264 m) newest = Some l" "\<not> s > seconds l"
    using g m se newest n_ok by (auto simp: get_h264_for_record_def Let_def split: if_splits bind_splits)
  have "s \<le> record_end s e dur (seconds l)"
    using se l by (intro record_end_ge) (auto simp: dur_def)
  moreover have "virtAddr_cmem b' = Some m \<and> index_recv_h264 b' = head_recv m
    \<and> cut_record b' (index_h264 m) fl s (record_end s e dur (seconds l)) (si\<lparr>h264_seg := 0\<rparr>) = Some (0, r)"
    using g m se newest n_ok l
    by (auto simp: get_h264_for_record_def Let_def dur_def split: if_splits bind_splits)
  ultimately show ?thesis using that by blast
qed

lemma cut_record_steps:
  assumes "cut_record b xs fl s e si = Some (0, r)" 
  obtains i0 i j where "get_frame_at_sec b fl s e = Some (0, i0, j)" "get_I_frame_by_index b fl i0 = Some (0, i)"
    "segments xs i j (e - s) si = Some r"
proof -
  obtain r1 i0 j where 1: "get_frame_at_sec b fl s e = Some (r1, i0, j)" "\<not> r1 < 0"
    using assms by (auto simp: cut_record_def split: bind_splits if_splits)
  obtain r2 i where 2: "get_I_frame_by_index b fl i0 = Some (r2, i)" "\<not> r2 < 0"
    using assms 1 by (auto simp: cut_record_def split: bind_splits if_splits)
  have "r1 = 0" using 1 by (auto simp: get_frame_at_sec_def split: bind_splits if_splits)
  moreover have "r2 = 0" using 2 by (auto simp: get_I_frame_by_index_def Let_def split: bind_splits if_splits option.splits)
  moreover have "segments xs i j (e - s) si = Some r"
    using assms 1 2 by (auto simp: cut_record_def split: bind_splits)
  ultimately show ?thesis using that 1 2 by blast
qed

lemma nth_in_table: "in_table xs ks \<Longrightarrow> p < length ks \<Longrightarrow> 0 \<le> ks ! p \<and> ks ! p < int (length xs)"
  by (simp add: in_table_def list_all_length)

lemma segments_slice:
  assumes ok: "ring_ok m fl" and a: "a \<le> d" "d < length (frames_of m fl)"
    and s: "segments (index_h264 m) (frames_of m fl ! a) (frames_of m fl ! d) secs si = Some r"
  shows "sum_list (h264_buf_seg_size r) = sum_list (map (\<lambda>k. h264_Len (index_h264 m ! nat k)) (stretch a d (frames_of m fl)))
    \<and> hd (h264_buf_seg r) = h264_Position (index_h264 m ! nat (frames_of m fl ! a)) \<and> seconds_record_ret r = secs
    \<and> h264_seg r = int (length (h264_buf_seg r)) \<and> length (h264_buf_seg_size r) = length (h264_buf_seg r)"
proof -
  let ?xs = "index_h264 m" and ?ks = "frames_of m fl"
  let ?i = "?ks ! a" and ?j = "?ks ! d" and ?max = "buf_h264_index_max (index_h264 m ! 0)"
  have t: "in_table ?xs ?ks" and ne: "?xs \<noteq> []" and r0: "0 \<le> head_recv m" using ok by (simp_all add: ring_ok_def)
  have f0: "frame ?xs 0 = Some (?xs ! 0)" using ne by (simp add: frame_def)
  have i: "0 \<le> ?i" "?i < int (length ?xs)" and j: "0 \<le> ?j" "?j < int (length ?xs)"
    using nth_in_table [OF t] a by simp_all
  have sl: "stretch a d ?ks = (if ?i \<le> ?j then [?i..?j] else [?i..?max] @ [0..?j])"
    using slice_scan_order [of "head_recv m" "continuous_at m fl" ?max a d] r0 a
    by (simp add: frames_of_def Let_def continuous_at_def)
  have sub: "set (stretch a d ?ks) \<subseteq> set ?ks"
    by (auto simp: stretch_def dest: in_set_takeD in_set_dropD)
  have in_t: "0 \<le> k \<and> k < int (length ?xs)" if "k \<in> set (stretch a d ?ks)" for k
    using t sub that by (auto simp: in_table_def list_all_iff)
  show ?thesis
  proof (cases "?i \<le> ?j")
    case True
    have "sum_len ?xs ?i ?j 0 = Some (0 + sum_list (map (\<lambda>k. h264_Len (?xs ! nat k)) [?i..?j]))"
      using i j by (intro sum_len_upto) auto
    then show ?thesis using s True i by (auto simp: segments_def frame_in sl)
  next
    case False
    have "sum_len ?xs ?i ?max 0 = Some (0 + sum_list (map (\<lambda>k. h264_Len (?xs ! nat k)) [?i..?max]))"
      by (rule sum_len_upto, rule in_t) (use False in \<open>auto simp: sl\<close>)
    moreover have "sum_len ?xs 0 ?j 0 = Some (0 + sum_list (map (\<lambda>k. h264_Len (?xs ! nat k)) [0..?j]))"
      using j by (intro sum_len_upto) auto
    ultimately show ?thesis using s False i f0 by (auto simp: segments_def frame_in sl)
  qed
qed

text \<open>
  C33. On a ring whose frames are in the order of their seconds, a record that is found is one run of
  consecutive frames, in the order they were stored: it begins with an I frame, the nearest one at or
  before the frame of the start, it ends at a frame of the end, both within two seconds of what was
  asked for; the sizes of its one or two segments are those of exactly these frames, and the first
  segment begins where the I frame is stored.
\<close>

theorem record_is_a_run:
  assumes "get_h264_for_record b flushed init_ok (Some si) s e ill = Some (0, Some r, b', fl)"
    and "virtAddr_cmem b = Some m" and "ring_ok m fl"
  shows "\<exists>a p d. p \<le> d \<and> d < length (frames_of m fl) \<and> nearest_I (index_h264 m) (frames_of m fl) p a
    \<and> \<bar>sec_of (index_h264 m) (frames_of m fl ! p) - s\<bar> \<le> 2
    \<and> \<bar>sec_of (index_h264 m) (frames_of m fl ! d) - (s + seconds_record_ret r)\<bar> \<le> 2
    \<and> sum_list (h264_buf_seg_size r) = sum_list (map (\<lambda>k. h264_Len (index_h264 m ! nat k)) (stretch a d (frames_of m fl)))
    \<and> hd (h264_buf_seg r) = h264_Position (index_h264 m ! nat (frames_of m fl ! a))
    \<and> h264_seg r = int (length (h264_buf_seg r))"
proof -
  let ?xs = "index_h264 m" and ?ks = "frames_of m fl"
  obtain e' where b': "virtAddr_cmem b' = Some m" "index_recv_h264 b' = head_recv m" and e': "s \<le> e'"
    and cut: "cut_record b' ?xs fl s e' (si\<lparr>h264_seg := 0\<rparr>) = Some (0, r)"
    using record_steps [OF assms(1,2)] by blast
  obtain i0 i j where f: "get_frame_at_sec b' fl s e' = Some (0, i0, j)" and I: "get_I_frame_by_index b' fl i0 = Some (0, i)"
    and seg: "segments ?xs i j (e' - s) (si\<lparr>h264_seg := 0\<rparr>) = Some r"
    using cut_record_steps [OF cut] by blast
  obtain p d where pd: "p \<le> d" "d < length ?ks" "i0 = ?ks ! p" "j = ?ks ! d"
    "\<bar>sec_of ?xs i0 - s\<bar> \<le> 2" "\<bar>sec_of ?xs j - e'\<bar> \<le> 2"
    using get_frame_at_sec_found [OF b' assms(3) f e'] by blast
  have f0: "frame ?xs 0 = Some (?xs ! 0)" and r0: "0 \<le> index_recv_h264 b'"
    using assms(3) b'(2) by (auto simp: ring_ok_def frame_def)
  have I': "get_I_frame_by_index b' fl (?ks ! p) = Some (0, i)" and p: "p < length ?ks" using I pd by simp_all
  have ks: "?ks = scan_order (continuous_at m fl) (index_recv_h264 b') (buf_h264_index_max (?xs ! 0))"
    and c: "continuous_at m fl = (\<not> fl \<or> index_recv_h264 b' \<ge> buf_h264_index_max (?xs ! 0))"
    by (simp_all add: frames_of_def b'(2) continuous_at_def)
  obtain a where a: "?ks ! a = i" "nearest_I ?xs ?ks p a"
    using get_I_nearest [OF b'(1) f0 r0 c ks p I'] by blast
  then have "a \<le> d" using pd(1) by (simp add: nearest_I_def)
  from segments_slice [OF assms(3) this pd(2)] seg a(1) pd(4)
  have "sum_list (h264_buf_seg_size r) = sum_list (map (\<lambda>k. h264_Len (?xs ! nat k)) (stretch a d ?ks))
    \<and> hd (h264_buf_seg r) = h264_Position (?xs ! nat (?ks ! a)) \<and> seconds_record_ret r = e' - s
    \<and> h264_seg r = int (length (h264_buf_seg r))" by blast
  then show ?thesis using pd a by (intro exI [of _ a] exI [of _ p] exI [of _ d]) simp
qed

definition frame_at :: "int \<Rightarrow> int \<Rightarrow> int \<Rightarrow> int \<Rightarrow> h264_index" where
  "frame_at k n sec I = index0\<lparr>buf_h264_index := k, buf_h264_index_max := 4, h264_Position := 100 * k, h264_Len := n,
     seconds := sec, is_I_frame := I, h264_id := k + 5\<rparr>"

definition ring1 :: cmem where
  "ring1 = \<lparr>id_shmem = SYS_SHM_KEY, num_writer = 1, max_index_h264 = 5, len_buf_h264 = 500, head_recv = 2, version = ''v'',
     index_h264 = [frame_at 0 50 12 0, frame_at 1 60 13 0, frame_at 2 0 0 0, frame_at 3 70 10 1, frame_at 4 80 11 0]\<rparr>"

definition buffer1 :: h264_buffer where
  "buffer1 = map_H264Buffer (\<lambda>_. Some ring1) 4096 10000"

definition seg0 :: seg_info where
  "seg0 = \<lparr>h264_seg = 0, h264_buf_seg = [], h264_buf_seg_size = [], seconds_record_ret = 0\<rparr>"

lemma ring1_call:
  "get_h264_for_record buffer1 False True (Some seg0) 11 12 5 =
     Some (0, Some \<lparr>h264_seg = 2, h264_buf_seg = [300, 0], h264_buf_seg_size = [150, 110], seconds_record_ret = 2\<rparr>,
       buffer1, True)"
  by code_simp

theorem record_is_a_run_witness:
  "\<exists>a p d. p \<le> d \<and> d < length (frames_of ring1 True) \<and> nearest_I (index_h264 ring1) (frames_of ring1 True) p a
    \<and> 260 = sum_list (map (\<lambda>k. h264_Len (index_h264 ring1 ! nat k)) (stretch a d (frames_of ring1 True)))"
proof -
  have "ring_ok ring1 True" by code_simp
  moreover have "virtAddr_cmem buffer1 = Some ring1" by code_simp
  ultimately show ?thesis using record_is_a_run [OF ring1_call] by auto
qed

end
