(* ===== verification/Libxml.thy ===== *)
theory Libxml
  imports Cstdio
begin

text \<open>
  What the XML configuration code uses of libxml2 and iconv, as parameters: a record of the
  calls on nodes and documents and the locale of their documented laws. On top of it the idioms
  from which every function of \<open>xml/xmlCreater.c\<close> and \<open>xml/xmlParser.c\<close> is put together: a child
  with a text, a child with an \<open>id\<close> attribute, a child built by another function; the walk over
  the children of a node, the atoi of a content, the element of an array that an \<open>id\<close> names. The
  lemmas relate the two sides once for each idiom: what a group of creating calls adds to a node,
  the walk of the parser over the re-read node writes back.
\<close>

section \<open>The library calls\<close>

text \<open>
  \<open>'n\<close> is a node with all it holds, \<open>'f\<close> the file system. The creating code completes a node before
  it hangs it into its parent and never touches it again, so nodes are values here. \<open>xmlNewNode\<close>
  may find no memory. \<open>xmlReadFile\<close> is the call together with \<open>xmlDocGetRootElement\<close>: no document,
  or a document without or with a root. \<open>xml_valid\<close> tells the texts that may be part of an XML
  document, \<open>xmlNewDoc\<close> whether a document can be made. \<open>iconv\<close> gives for two names of character sets the conversion, if there is one, of a
  text into a zeroed buffer of a given size.
\<close>

record ('n, 'f) libxml =
  xmlNewDoc :: bool
  xmlNewNode :: "string \<Rightarrow> 'n option"
  xmlNewText :: "string \<Rightarrow> 'n"
  xmlAddChild :: "'n \<Rightarrow> 'n \<Rightarrow> 'n"
  xmlNewProp :: "'n \<Rightarrow> string \<Rightarrow> string \<Rightarrow> 'n"
  is_element :: "'n \<Rightarrow> bool"
  node_name :: "'n \<Rightarrow> string"
  node_children :: "'n \<Rightarrow> 'n list"
  node_properties :: "'n \<Rightarrow> (string \<times> string) list"
  xmlNodeGetContent :: "'n \<Rightarrow> string"
  xmlGetProp :: "'n \<Rightarrow> string \<Rightarrow> string option"
  xmlSave :: "string \<Rightarrow> 'n \<Rightarrow> 'f \<Rightarrow> 'f"
  xmlReadFile :: "'f \<Rightarrow> string \<Rightarrow> 'n option option"
  xmlParseMemory :: "string \<Rightarrow> 'n option option"
  xml_valid :: "string \<Rightarrow> bool"
  iconv :: "string \<Rightarrow> string \<Rightarrow> (string \<Rightarrow> nat \<Rightarrow> string) option"

definition elements :: "('n, 'f) libxml \<Rightarrow> 'n \<Rightarrow> 'n list" where
  "elements x n = filter (\<lambda>c. node_name x c \<noteq> ''text'') (node_children x n)"

text \<open>
  A document that is saved with indentation and read again has the same elements, attributes and
  texts; only text nodes of white space come between elements.
\<close>

inductive reread :: "('n, 'f) libxml \<Rightarrow> 'n \<Rightarrow> 'n \<Rightarrow> bool" for x where
  reread_node: "node_name x m = node_name x n \<Longrightarrow> node_properties x m = node_properties x n
    \<Longrightarrow> (elements x n = [] \<longrightarrow> xmlNodeGetContent x m = xmlNodeGetContent x n)
    \<Longrightarrow> list_all2 (reread x) (elements x n) (elements x m) \<Longrightarrow> reread x n m"

inductive_cases reread_cases: "reread x n m"

inductive storable :: "('n, 'f) libxml \<Rightarrow> 'n \<Rightarrow> bool" for x where
  storable_node: "(elements x n = [] \<longrightarrow> xml_valid x (xmlNodeGetContent x n))
    \<Longrightarrow> list_all (storable x) (elements x n) \<Longrightarrow> storable x n"

definition printable :: "string \<Rightarrow> bool" where
  "printable s \<longleftrightarrow> (\<forall>c \<in> set s. 32 \<le> (of_char c :: nat) \<and> (of_char c :: nat) < 127)"

locale libxml_laws =
  fixes x :: "('n, 'f) libxml"
  assumes new_doc: "xmlNewDoc x"
    and new_node: "\<exists>n. xmlNewNode x nm = Some n \<and> is_element x n \<and> node_name x n = nm \<and> node_children x n = []
      \<and> node_properties x n = [] \<and> xmlNodeGetContent x n = ''''"
    and text_name: "node_name x (xmlNewText x s) = ''text''"
    and text_content: "is_element x n \<Longrightarrow> node_children x n = [] \<Longrightarrow> xmlNodeGetContent x (xmlAddChild x n (xmlNewText x s)) = s"
    and text_child: "is_element x n \<Longrightarrow> node_children x n = [] \<Longrightarrow> node_children x (xmlAddChild x n (xmlNewText x s)) = [xmlNewText x s]"
    and add_child: "is_element x n \<Longrightarrow> node_name x c \<noteq> ''text'' \<Longrightarrow> node_children x (xmlAddChild x n c) = node_children x n @ [c]"
    and add_element: "is_element x n \<Longrightarrow> is_element x (xmlAddChild x n c)"
    and add_name: "node_name x (xmlAddChild x n c) = node_name x n"
    and add_props: "node_properties x (xmlAddChild x n c) = node_properties x n"
    and prop_name: "node_name x (xmlNewProp x n k v) = node_name x n"
    and prop_children: "node_children x (xmlNewProp x n k v) = node_children x n"
    and prop_content: "xmlNodeGetContent x (xmlNewProp x n k v) = xmlNodeGetContent x n"
    and prop_props: "is_element x n \<Longrightarrow> node_properties x (xmlNewProp x n k v) = node_properties x n @ [(k, v)]"
    and get_prop: "xmlGetProp x n k = map_of (node_properties x n) k"
    and printable_valid: "printable s \<Longrightarrow> xml_valid x s"
    and read_saved: "storable x n \<Longrightarrow> \<exists>m. xmlReadFile x (xmlSave x f n fs) f = Some (Some m) \<and> reread x n m"

section \<open>Building a node\<close>

text \<open>
  The creating functions work on the node under construction and a buffer \<open>txt\<close> of 256 bytes; the
  buffer is \<open>None\<close> as long as it holds no terminated text. A result \<open>None\<close> of a step is the read
  of a text that has no end.
\<close>

type_synonym 'n work = "'n \<times> string option"
type_synonym 'n making = "'n work \<Rightarrow> 'n work option"

definition add_text :: "('n, 'f) libxml \<Rightarrow> 'n \<Rightarrow> string \<Rightarrow> 'n" where
  "add_text x child txt = xmlAddChild x child (xmlNewText x txt)"

text \<open>
  \<open>sprintf(txt, ...)\<close>, a text node with it in a new child \<open>nm\<close>, and the child added to the node. The
  argument is the printed text, \<open>None\<close> if printing does not end within the printed array.
\<close>

definition text_child :: "('n, 'f) libxml \<Rightarrow> string \<Rightarrow> string option \<Rightarrow> 'n making" where
  "text_child x nm s = (\<lambda>(node, txt). case xmlNewNode x nm of
       None \<Rightarrow> Some (node, txt)
     | Some child \<Rightarrow> (case s of None \<Rightarrow> None | Some t \<Rightarrow> Some (xmlAddChild x node (add_text x child t), Some t)))"

definition id_text :: "nat \<Rightarrow> string" where
  "id_text i = dec_int (int i + 1)"

text \<open>The same with the attribute \<open>id\<close>, which counts from one.\<close>

definition id_text_child :: "('n, 'f) libxml \<Rightarrow> nat \<Rightarrow> string \<Rightarrow> string option \<Rightarrow> 'n making" where
  "id_text_child x i nm s = (\<lambda>(node, txt). case xmlNewNode x nm of
       None \<Rightarrow> Some (node, txt)
     | Some child \<Rightarrow> (case s of None \<Rightarrow> None
         | Some t \<Rightarrow> Some (xmlAddChild x node (xmlNewProp x (add_text x child t) ''id'' (id_text i)), Some (id_text i))))"

text \<open>A child without any content, as \<open>create_NTP_CONFIG_PARAM\<close> makes it.\<close>

definition id_empty_child :: "('n, 'f) libxml \<Rightarrow> nat \<Rightarrow> string \<Rightarrow> 'n making" where
  "id_empty_child x i nm = (\<lambda>(node, txt). case xmlNewNode x nm of
       None \<Rightarrow> Some (node, txt)
     | Some child \<Rightarrow> Some (xmlAddChild x node (xmlNewProp x child ''id'' (id_text i)), Some (id_text i)))"

text \<open>A child that another creating function returns, which may be \<open>NULL\<close>.\<close>

definition sub_child :: "('n, 'f) libxml \<Rightarrow> (string \<Rightarrow> 'n option option) \<Rightarrow> string \<Rightarrow> 'n making" where
  "sub_child x mk nm = (\<lambda>(node, txt). case mk nm of
       None \<Rightarrow> None
     | Some None \<Rightarrow> Some (node, txt)
     | Some (Some child) \<Rightarrow> Some (xmlAddChild x node child, txt))"

definition id_sub_child :: "('n, 'f) libxml \<Rightarrow> nat \<Rightarrow> (string \<Rightarrow> 'n option option) \<Rightarrow> string \<Rightarrow> 'n making" where
  "id_sub_child x i mk nm = (\<lambda>(node, txt). case mk nm of
       None \<Rightarrow> None
     | Some None \<Rightarrow> Some (node, txt)
     | Some (Some child) \<Rightarrow> Some (xmlAddChild x node (xmlNewProp x child ''id'' (id_text i)), Some (id_text i)))"

text \<open>
  \<open>convert_enc\<close> of \<open>commonfuncs.c\<close>: the target stays as it is when iconv does not know the character
  sets; otherwise it is zeroed and filled. What iconv returns is not used by the callers.
\<close>

definition convert_enc :: "('n, 'f) libxml \<Rightarrow> string \<Rightarrow> string \<Rightarrow> string \<Rightarrow> nat \<Rightarrow> string option \<Rightarrow> string option" where
  "convert_enc x fromcode tocode s outlen out = (case iconv x fromcode tocode of
       None \<Rightarrow> out
     | Some cd \<Rightarrow> let t = cd s outlen in Some t)"

text \<open>An array of \<open>n\<close> chars is held as its chars up to the first zero; one without a zero has \<open>n\<close> of them.\<close>

definition c_string :: "nat \<Rightarrow> string \<Rightarrow> string option" where
  "c_string n s = (if length s < n then Some s else None)"

definition enc_child :: "('n, 'f) libxml \<Rightarrow> string \<Rightarrow> string option \<Rightarrow> 'n making" where
  "enc_child x nm s = (\<lambda>(node, txt). case xmlNewNode x nm of
       None \<Rightarrow> Some (node, txt)
     | Some child \<Rightarrow> (case s of None \<Rightarrow> None
         | Some t \<Rightarrow> (let txt' = convert_enc x ''GBK'' ''UTF-8'' t 256 txt
             in case Option.bind txt' (c_string 256) of None \<Rightarrow> None
                | Some u \<Rightarrow> Some (xmlAddChild x node (add_text x child u), txt'))))"

text \<open>
  Two steps of \<open>create_BASIC_PARAM\<close> whose debug output reads on: one dereferences the child it has just
  made, the other prints an array.
\<close>

definition shown_child :: "('n, 'f) libxml \<Rightarrow> string \<Rightarrow> string option \<Rightarrow> 'n making" where
  "shown_child x nm s = (\<lambda>w. if xmlNewNode x nm = None then None else text_child x nm s w)"

definition shown :: "string option \<Rightarrow> 'n making" where
  "shown s = (\<lambda>w. if s = None then None else Some w)"

fun perform :: "'n making list \<Rightarrow> 'n making" where
  "perform [] w = Some w"
| "perform (c # cs) w = Option.bind (c w) (perform cs)"

definition loop :: "nat \<Rightarrow> (nat \<Rightarrow> 'a list) \<Rightarrow> 'a list" where
  "loop n body = concat (map body [0..<n])"

text \<open>The frame of all creating functions: no node, no result; otherwise the node after the steps.\<close>

definition build :: "('n, 'f) libxml \<Rightarrow> 'n making list \<Rightarrow> string \<Rightarrow> 'n option option" where
  "build x cs pNodeName = (case xmlNewNode x pNodeName of
       None \<Rightarrow> Some None
     | Some node \<Rightarrow> map_option (\<lambda>(n, _). Some n) (perform cs (node, None)))"

section \<open>Reading a node\<close>

text \<open>The walk over the children; \<open>None\<close> is an access through a null pointer or outside of an array.\<close>

fun each_node :: "('n \<Rightarrow> 'a \<Rightarrow> 'a option) \<Rightarrow> 'n list \<Rightarrow> 'a \<Rightarrow> 'a option" where
  "each_node f [] p = Some p"
| "each_node f (c # cs) p = Option.bind (f c p) (each_node f cs)"

definition each_child :: "('n, 'f) libxml \<Rightarrow> ('n \<Rightarrow> 'a \<Rightarrow> 'a option) \<Rightarrow> 'n \<Rightarrow> 'a \<Rightarrow> 'a option" where
  "each_child x f node p = each_node f (node_children x node) p"

text \<open>\<open>atoi\<close> of the content, stored into an integer of its width; \<open>strncpy\<close> and \<open>convert_enc\<close> of it into an array.\<close>

definition key_int :: "('n, 'f) libxml \<Rightarrow> 'n \<Rightarrow> 'w::len word" where
  "key_int x cur = word_of_int (atoi (xmlNodeGetContent x cur))"

definition key_str :: "('n, 'f) libxml \<Rightarrow> 'n \<Rightarrow> nat \<Rightarrow> string" where
  "key_str x cur n = take n (xmlNodeGetContent x cur)"

definition key_enc :: "('n, 'f) libxml \<Rightarrow> 'n \<Rightarrow> nat \<Rightarrow> string \<Rightarrow> string" where
  "key_enc x cur n old = (case convert_enc x ''UTF-8'' ''GBK'' (xmlNodeGetContent x cur) n (Some old) of
     None \<Rightarrow> old | Some s \<Rightarrow> s)"

definition at_index :: "int \<Rightarrow> ('a \<Rightarrow> 'a option) \<Rightarrow> 'a list \<Rightarrow> 'a list option" where
  "at_index i h xs = (if 0 \<le> i \<and> i < int (length xs)
     then map_option (\<lambda>v. xs[nat i := v]) (h (xs ! nat i)) else None)"

text \<open>
  The first attribute, if it is the \<open>id\<close>: a node without attributes is read through a null pointer.
  The \<open>id\<close> is used when the guard accepts it, as the index that it names, counted from one.
\<close>

definition at_id :: "('n, 'f) libxml \<Rightarrow> (string \<Rightarrow> bool) \<Rightarrow> 'n \<Rightarrow> (int \<Rightarrow> 'a \<Rightarrow> 'a option) \<Rightarrow> 'a \<Rightarrow> 'a option" where
  "at_id x guard cur put_in p = (case node_properties x cur of
       [] \<Rightarrow> None
     | (a, _) # _ \<Rightarrow> if a = ''id'' then (case xmlGetProp x cur ''id'' of
           None \<Rightarrow> None
         | Some szAttr \<Rightarrow> if guard szAttr then put_in (atoi szAttr - 1) p else Some p)
         else Some p)"

text \<open>The guards of the code: \<open>*szAttr >= '1'\<close>, \<open>atoi(szAttr) >= 1\<close>, and none at all.\<close>

definition first_digit :: "string \<Rightarrow> bool" where
  "first_digit s = (case s of [] \<Rightarrow> False | c # _ \<Rightarrow> 49 \<le> (of_char c :: nat))"

definition id_positive :: "string \<Rightarrow> bool" where
  "id_positive s = (1 \<le> atoi s)"

definition any_id :: "string \<Rightarrow> bool" where
  "any_id s = True"


section \<open>What is written is read back\<close>

text \<open>
  \<open>carries x cs f I g\<close>: the creating steps \<open>cs\<close> add some elements to the node, and the walk of \<open>f\<close> over
  these elements as they are re-read takes every structure with the property \<open>I\<close> by \<open>g\<close> to one with
  the property again. \<open>restores x mk parse I g\<close> is the same of a creating and a parsing function.
\<close>

definition hang :: "('n, 'f) libxml \<Rightarrow> 'n list \<Rightarrow> 'n \<Rightarrow> 'n" where
  "hang x ns node = fold (\<lambda>c n. xmlAddChild x n c) ns node"

definition carries :: "('n, 'f) libxml \<Rightarrow> 'n making list \<Rightarrow> ('n \<Rightarrow> 'a \<Rightarrow> 'a option) \<Rightarrow> ('a \<Rightarrow> bool) \<Rightarrow> ('a \<Rightarrow> 'a) \<Rightarrow> bool" where
  "carries x cs f I g \<longleftrightarrow> (\<forall>node txt. \<exists>ns txt'. perform cs (node, txt) = Some (hang x ns node, txt')
     \<and> (\<forall>n \<in> set ns. node_name x n \<noteq> ''text'' \<and> storable x n)
     \<and> (\<forall>ms q. list_all2 (reread x) ns ms \<longrightarrow> I q \<longrightarrow> each_node f ms q = Some (g q) \<and> I (g q)))"

definition same_elements :: "('n, 'f) libxml \<Rightarrow> 'n \<Rightarrow> 'n \<Rightarrow> bool" where
  "same_elements x n m \<longleftrightarrow> list_all2 (reread x) (elements x n) (elements x m)"

definition restores :: "('n, 'f) libxml \<Rightarrow> (string \<Rightarrow> 'n option option) \<Rightarrow> ('n \<Rightarrow> 'a \<Rightarrow> 'a option)
    \<Rightarrow> ('a \<Rightarrow> bool) \<Rightarrow> ('a \<Rightarrow> 'a) \<Rightarrow> bool" where
  "restores x mk parse I g \<longleftrightarrow> (\<forall>nm. \<exists>n. mk nm = Some (Some n) \<and> is_element x n \<and> node_name x n = nm \<and> node_properties x n = []
     \<and> storable x n \<and> (\<forall>m q. same_elements x n m \<longrightarrow> I q \<longrightarrow> parse m q = Some (g q) \<and> I (g q)))"

lemma perform_append: "perform (cs @ ds) w = Option.bind (perform cs w) (perform ds)"
  by (induction cs arbitrary: w) (auto simp: Option.bind_assoc split: Option.bind_split)

lemma each_node_append: "each_node f (cs @ ds) p = Option.bind (each_node f cs p) (each_node f ds)"
  by (induction cs arbitrary: p) (auto split: Option.bind_split)

lemma reread_same_elements: "reread x n m \<Longrightarrow> same_elements x n m"
  by (auto simp: same_elements_def elim: reread_cases)

lemma reread_facts: "reread x n m \<Longrightarrow> node_name x m = node_name x n"
  "reread x n m \<Longrightarrow> node_properties x m = node_properties x n"
  "reread x n m \<Longrightarrow> elements x n = [] \<Longrightarrow> xmlNodeGetContent x m = xmlNodeGetContent x n"
  by (auto elim: reread_cases)

lemma each_node_elements:
  assumes "\<And>m q. node_name x m = ''text'' \<Longrightarrow> f m q = Some q"
  shows "each_child x f node p = each_node f (elements x node) p"
proof -
  have "each_node f ns p = each_node f (filter (\<lambda>c. node_name x c \<noteq> ''text'') ns) p" for ns
    by (induction ns arbitrary: p) (auto simp: assms split: Option.bind_split)
  then show ?thesis
    by (simp add: each_child_def elements_def)
qed

lemma carries_Nil: "carries x [] f I (\<lambda>q. q)"
  by (auto simp: carries_def hang_def intro!: exI [of _ "[]"])

lemma carries_append:
  assumes "carries x cs f I g" and "carries x ds f I h"
  shows "carries x (cs @ ds) f I (\<lambda>q. h (g q))"
  unfolding carries_def
proof (intro allI)
  fix node buf
  obtain ns t where 1: "perform cs (node, buf) = Some (hang x ns node, t)"
      "\<forall>n \<in> set ns. node_name x n \<noteq> ''text'' \<and> storable x n"
      "\<forall>ms q. list_all2 (reread x) ns ms \<longrightarrow> I q \<longrightarrow> each_node f ms q = Some (g q) \<and> I (g q)"
    using assms(1) unfolding carries_def by blast
  obtain ns' t' where 2: "perform ds (hang x ns node, t) = Some (hang x ns' (hang x ns node), t')"
      "\<forall>n \<in> set ns'. node_name x n \<noteq> ''text'' \<and> storable x n"
      "\<forall>ms q. list_all2 (reread x) ns' ms \<longrightarrow> I q \<longrightarrow> each_node f ms q = Some (h q) \<and> I (h q)"
    using assms(2) unfolding carries_def by blast
  have "each_node f ms q = Some (h (g q)) \<and> I (h (g q))" if "list_all2 (reread x) (ns @ ns') ms" and "I q" for ms q
    using that 1(3) 2(3) by (auto simp: list_all2_append1 each_node_append)
  moreover have "perform (cs @ ds) (node, buf) = Some (hang x (ns @ ns') node, t')"
    using 1(1) 2(1) by (simp add: perform_append hang_def)
  moreover have "\<forall>n \<in> set (ns @ ns'). node_name x n \<noteq> ''text'' \<and> storable x n"
    using 1(2) 2(2) by auto
  ultimately show "\<exists>ns txt'. perform (cs @ ds) (node, buf) = Some (hang x ns node, txt')
     \<and> (\<forall>n \<in> set ns. node_name x n \<noteq> ''text'' \<and> storable x n)
     \<and> (\<forall>ms q. list_all2 (reread x) ns ms \<longrightarrow> I q \<longrightarrow> each_node f ms q = Some (h (g q)) \<and> I (h (g q)))"
    by blast
qed

lemma carries_Cons:
  "carries x [c] f I g \<Longrightarrow> carries x (d # cs) f I h \<Longrightarrow> carries x (c # d # cs) f I (\<lambda>q. h (g q))"
  using carries_append [of x "[c]" f I g "d # cs" h] by simp

lemma carries_concat:
  "(\<And>i. i \<in> set is \<Longrightarrow> carries x (body i) f I (h i)) \<Longrightarrow> carries x (concat (map body is)) f I (fold h is)"
proof (induction "is")
  case Nil
  then show ?case
    using carries_Nil by (simp add: id_def)
next
  case (Cons i "is")
  then show ?case
    using carries_append [of x "body i" f I "h i" "concat (map body is)" "fold h is"] by (simp add: comp_def)
qed

lemma carries_loop:
  "(\<And>i. i < n \<Longrightarrow> carries x (body i) f I (h i)) \<Longrightarrow> carries x (loop n body) f I (fold h [0..<n])"
  unfolding loop_def by (rule carries_concat) simp

lemma carries_single:
  assumes "\<And>node txt. \<exists>n txt'. c (node, txt) = Some (xmlAddChild x node n, txt') \<and> node_name x n \<noteq> ''text''
      \<and> storable x n \<and> (\<forall>m q. reread x n m \<longrightarrow> I q \<longrightarrow> f m q = Some (g q) \<and> I (g q))"
  shows "carries x [c] f I g"
  unfolding carries_def
proof (intro allI)
  fix node buf
  obtain n t where n: "c (node, buf) = Some (xmlAddChild x node n, t)" "node_name x n \<noteq> ''text''"
      "storable x n" "\<forall>m q. reread x n m \<longrightarrow> I q \<longrightarrow> f m q = Some (g q) \<and> I (g q)"
    using assms by blast
  show "\<exists>ns txt'. perform [c] (node, buf) = Some (hang x ns node, txt')
     \<and> (\<forall>n \<in> set ns. node_name x n \<noteq> ''text'' \<and> storable x n)
     \<and> (\<forall>ms q. list_all2 (reread x) ns ms \<longrightarrow> I q \<longrightarrow> each_node f ms q = Some (g q) \<and> I (g q))"
    using n by (intro exI [of _ "[n]"] exI [of _ t]) (auto simp: hang_def list_all2_Cons1)
qed

lemma storable_leaf: "elements x n = [] \<Longrightarrow> xml_valid x (xmlNodeGetContent x n) \<Longrightarrow> storable x n"
  by (rule storable_node) simp_all

text \<open>Text that goes to the file through iconv and comes back through it.\<close>

definition converts :: "('n, 'f) libxml \<Rightarrow> nat \<Rightarrow> string \<Rightarrow> bool" where
  "converts x k s \<longleftrightarrow> (\<exists>to_utf8 to_gbk. iconv x ''GBK'' ''UTF-8'' = Some to_utf8 \<and> iconv x ''UTF-8'' ''GBK'' = Some to_gbk
     \<and> length (to_utf8 s 256) < 256 \<and> xml_valid x (to_utf8 s 256) \<and> to_gbk (to_utf8 s 256) k = s)"

text \<open>A char array that is terminated and holds a text that XML admits is copied and copied back.\<close>

definition plain :: "('n, 'f) libxml \<Rightarrow> nat \<Rightarrow> string \<Rightarrow> bool" where
  "plain x n s \<longleftrightarrow> length s < n \<and> xml_valid x s"

text \<open>
  An array is written element by element and read back element by element into the places that the
  \<open>id\<close>s name. \<open>sel\<close> and \<open>upd\<close> are the selector and the update function of the field.
\<close>

definition field_laws :: "('a \<Rightarrow> 'v) \<Rightarrow> (('v \<Rightarrow> 'v) \<Rightarrow> 'a \<Rightarrow> 'a) \<Rightarrow> bool" where
  "field_laws sel upd \<longleftrightarrow> (\<forall>v q. sel (upd (\<lambda>_. v) q) = v) \<and> (\<forall>q. upd (\<lambda>_. sel q) q = q)
     \<and> (\<forall>v w q. upd (\<lambda>_. v) (upd (\<lambda>_. w) q) = upd (\<lambda>_. v) q)"

context libxml_laws
begin

lemma elements_text [simp]: "is_element x n \<Longrightarrow> node_children x n = [] \<Longrightarrow> elements x (add_text x n s) = []"
  by (simp add: elements_def add_text_def text_child text_name)

lemma elements_prop [simp]: "elements x (xmlNewProp x n k v) = elements x n"
  by (simp add: elements_def prop_children)

lemma add_text_facts [simp]: "node_name x (add_text x n s) = node_name x n"
  "node_properties x (add_text x n s) = node_properties x n"
  "is_element x n \<Longrightarrow> node_children x n = [] \<Longrightarrow> xmlNodeGetContent x (add_text x n s) = s"
  "is_element x n \<Longrightarrow> is_element x (add_text x n s)"
  by (simp_all add: add_text_def add_element add_name add_props text_content)

lemma storable_prop: "storable x n \<Longrightarrow> storable x (xmlNewProp x n k v)"
  by (rule storable_node) (auto simp: prop_content elim: storable.cases)

lemma hang_facts:
  "is_element x node \<Longrightarrow> \<forall>n \<in> set ns. node_name x n \<noteq> ''text'' \<Longrightarrow> elements x (hang x ns node) = elements x node @ ns
     \<and> is_element x (hang x ns node)
     \<and> node_name x (hang x ns node) = node_name x node \<and> node_properties x (hang x ns node) = node_properties x node"
  by (induction ns arbitrary: node) (auto simp: hang_def add_name add_props add_element elements_def add_child)

text \<open>The rules for the single idioms; each asks only what the parser does at a node of that name.\<close>

lemma carries_text:
  assumes f: "\<And>m q. node_name x m = nm \<Longrightarrow> I q \<Longrightarrow> xmlNodeGetContent x m = s \<Longrightarrow> f m q = Some (g q) \<and> I (g q)"
    and nm: "nm \<noteq> ''text''" and t: "t = Some s" and s: "xml_valid x s"
  shows "carries x [text_child x nm t] f I g"
proof (rule carries_single)
  fix node buf
  obtain c where c: "xmlNewNode x nm = Some c" "is_element x c" "node_name x c = nm" "node_children x c = []"
    using new_node by blast
  have "reread x (add_text x c s) m \<Longrightarrow> I q \<Longrightarrow> f m q = Some (g q) \<and> I (g q)" for m q
    by (rule f) (auto simp: reread_facts c)
  then show "\<exists>n txt'. text_child x nm t (node, buf) = Some (xmlAddChild x node n, txt')
      \<and> node_name x n \<noteq> ''text'' \<and> storable x n \<and> (\<forall>m q. reread x n m \<longrightarrow> I q \<longrightarrow> f m q = Some (g q) \<and> I (g q))"
    using c nm t s by (auto simp: text_child_def intro!: exI [of _ "add_text x c s"] storable_leaf)
qed

lemma carries_id_text:
  assumes f: "\<And>m q. node_name x m = nm \<Longrightarrow> I q \<Longrightarrow> xmlNodeGetContent x m = s
      \<Longrightarrow> node_properties x m = [(''id'', id_text i)] \<Longrightarrow> f m q = Some (g q) \<and> I (g q)"
    and nm: "nm \<noteq> ''text''" and t: "t = Some s" and s: "xml_valid x s"
  shows "carries x [id_text_child x i nm t] f I g"
proof (rule carries_single)
  fix node buf
  obtain c where c: "xmlNewNode x nm = Some c" "is_element x c" "node_name x c = nm" "node_children x c = []" "node_properties x c = []"
    using new_node by blast
  let ?n = "xmlNewProp x (add_text x c s) ''id'' (id_text i)"
  have "reread x ?n m \<Longrightarrow> I q \<Longrightarrow> f m q = Some (g q) \<and> I (g q)" for m q
    by (rule f) (auto simp: reread_facts c prop_name prop_props prop_content)
  then show "\<exists>n txt'. id_text_child x i nm t (node, buf) = Some (xmlAddChild x node n, txt')
      \<and> node_name x n \<noteq> ''text'' \<and> storable x n \<and> (\<forall>m q. reread x n m \<longrightarrow> I q \<longrightarrow> f m q = Some (g q) \<and> I (g q))"
    using c nm t s by (auto simp: id_text_child_def prop_name intro!: exI [of _ ?n] storable_prop storable_leaf)
qed

lemma carries_id_empty:
  assumes f: "\<And>m q. node_name x m = nm \<Longrightarrow> I q \<Longrightarrow> xmlNodeGetContent x m = ''''
      \<Longrightarrow> node_properties x m = [(''id'', id_text i)] \<Longrightarrow> f m q = Some (g q) \<and> I (g q)"
    and nm: "nm \<noteq> ''text''"
  shows "carries x [id_empty_child x i nm] f I g"
proof (rule carries_single)
  fix node buf
  obtain c where c: "xmlNewNode x nm = Some c" "is_element x c" "node_name x c = nm" "node_children x c = []"
      "node_properties x c = []" "xmlNodeGetContent x c = ''''"
    using new_node by blast
  let ?n = "xmlNewProp x c ''id'' (id_text i)"
  have e: "elements x c = []"
    by (simp add: elements_def c)
  then have "reread x ?n m \<Longrightarrow> I q \<Longrightarrow> f m q = Some (g q) \<and> I (g q)" for m q
    by (intro f) (auto simp: reread_facts c prop_name prop_props prop_content)
  moreover have "xml_valid x ''''"
    by (rule printable_valid) (simp add: printable_def)
  ultimately show "\<exists>n txt'. id_empty_child x i nm (node, buf) = Some (xmlAddChild x node n, txt')
      \<and> node_name x n \<noteq> ''text'' \<and> storable x n \<and> (\<forall>m q. reread x n m \<longrightarrow> I q \<longrightarrow> f m q = Some (g q) \<and> I (g q))"
    using c nm e by (auto simp: id_empty_child_def prop_name intro!: exI [of _ ?n] storable_prop storable_leaf)
qed

lemma carries_enc:
  assumes f: "\<And>m q. node_name x m = nm \<Longrightarrow> I q \<Longrightarrow> (\<And>old. key_enc x m k old = s) \<Longrightarrow> f m q = Some (g q) \<and> I (g q)"
    and nm: "nm \<noteq> ''text''" and t: "t = Some s" and s: "converts x k s"
  shows "carries x [enc_child x nm t] f I g"
proof (rule carries_single)
  fix node buf
  obtain c where c: "xmlNewNode x nm = Some c" "is_element x c" "node_name x c = nm" "node_children x c = []"
    using new_node by blast
  obtain a b where ab: "iconv x ''GBK'' ''UTF-8'' = Some a" "iconv x ''UTF-8'' ''GBK'' = Some b"
      "length (a s 256) < 256" "xml_valid x (a s 256)" "b (a s 256) k = s"
    using s unfolding converts_def by blast
  have "reread x (add_text x c (a s 256)) m \<Longrightarrow> I q \<Longrightarrow> f m q = Some (g q) \<and> I (g q)" for m q
    by (rule f) (auto simp: reread_facts c key_enc_def convert_enc_def ab)
  then show "\<exists>n txt'. enc_child x nm t (node, buf) = Some (xmlAddChild x node n, txt')
      \<and> node_name x n \<noteq> ''text'' \<and> storable x n \<and> (\<forall>m q. reread x n m \<longrightarrow> I q \<longrightarrow> f m q = Some (g q) \<and> I (g q))"
    using c nm t ab by (auto simp: enc_child_def convert_enc_def c_string_def Let_def
        intro!: exI [of _ "add_text x c (a s 256)"] storable_leaf)
qed

lemma carries_sub:
  assumes mk: "restores x mk parse J h"
    and f: "\<And>m q. node_name x m = nm \<Longrightarrow> I q
      \<Longrightarrow> (\<And>e. J e \<Longrightarrow> parse m e = Some (h e) \<and> J (h e)) \<Longrightarrow> f m q = Some (g q) \<and> I (g q)"
    and nm: "nm \<noteq> ''text''"
  shows "carries x [sub_child x mk nm] f I g"
proof (rule carries_single)
  fix node buf
  obtain c where c: "mk nm = Some (Some c)" "is_element x c" "node_name x c = nm" "storable x c"
      "\<And>m e. same_elements x c m \<Longrightarrow> J e \<Longrightarrow> parse m e = Some (h e) \<and> J (h e)"
    using mk unfolding restores_def by blast
  have "f m q = Some (g q) \<and> I (g q)" if "reread x c m" and "I q" for m q
    by (rule f [OF _ that(2) c(5) [OF reread_same_elements [OF that(1)]]])
      (simp_all add: reread_facts(1) [OF that(1)] c(3))
  then show "\<exists>n txt'. sub_child x mk nm (node, buf) = Some (xmlAddChild x node n, txt')
      \<and> node_name x n \<noteq> ''text'' \<and> storable x n \<and> (\<forall>m q. reread x n m \<longrightarrow> I q \<longrightarrow> f m q = Some (g q) \<and> I (g q))"
    using c nm by (auto simp: sub_child_def)
qed

lemma carries_id_sub:
  assumes mk: "restores x mk parse J h"
    and f: "\<And>m q. node_name x m = nm \<Longrightarrow> I q \<Longrightarrow> node_properties x m = [(''id'', id_text i)]
      \<Longrightarrow> (\<And>e. J e \<Longrightarrow> parse m e = Some (h e) \<and> J (h e)) \<Longrightarrow> f m q = Some (g q) \<and> I (g q)"
    and nm: "nm \<noteq> ''text''"
  shows "carries x [id_sub_child x i mk nm] f I g"
proof (rule carries_single)
  fix node buf
  obtain c where c: "mk nm = Some (Some c)" "is_element x c" "node_name x c = nm" "node_properties x c = []" "storable x c"
      "\<And>m e. same_elements x c m \<Longrightarrow> J e \<Longrightarrow> parse m e = Some (h e) \<and> J (h e)"
    using mk unfolding restores_def by blast
  let ?n = "xmlNewProp x c ''id'' (id_text i)"
  have "same_elements x c m" if "reread x ?n m" for m
    using reread_same_elements [OF that] by (simp add: same_elements_def)
  then have "reread x ?n m \<Longrightarrow> I q \<Longrightarrow> f m q = Some (g q) \<and> I (g q)" for m q
    by (intro f) (auto simp: reread_facts c(1-5) prop_name prop_props c(6) [THEN conjunct1]
        intro!: c(6) [THEN conjunct2])
  then show "\<exists>n txt'. id_sub_child x i mk nm (node, buf) = Some (xmlAddChild x node n, txt')
      \<and> node_name x n \<noteq> ''text'' \<and> storable x n \<and> (\<forall>m q. reread x n m \<longrightarrow> I q \<longrightarrow> f m q = Some (g q) \<and> I (g q))"
    using c nm by (auto simp: id_sub_child_def prop_name intro!: exI [of _ ?n] storable_prop)
qed

lemma restores_build:
  assumes cs: "carries x cs f I g" and f: "\<And>m q. node_name x m = ''text'' \<Longrightarrow> f m q = Some q"
  shows "restores x (build x cs) (each_child x f) I g"
  unfolding restores_def
proof (intro allI)
  fix nm
  obtain c where c: "xmlNewNode x nm = Some c" "is_element x c" "node_name x c = nm" "node_children x c = []"
      "node_properties x c = []" "xmlNodeGetContent x c = ''''"
    using new_node by blast
  obtain ns t where ns: "perform cs (c, None) = Some (hang x ns c, t)"
      "\<forall>n \<in> set ns. node_name x n \<noteq> ''text'' \<and> storable x n"
      "\<forall>ms q. list_all2 (reread x) ns ms \<longrightarrow> I q \<longrightarrow> each_node f ms q = Some (g q) \<and> I (g q)"
    using cs unfolding carries_def by blast
  have h: "elements x (hang x ns c) = ns" "is_element x (hang x ns c)" "node_name x (hang x ns c) = nm" "node_properties x (hang x ns c) = []"
    using hang_facts [of c ns] ns(2) c by (auto simp: elements_def)
  have v: "xml_valid x ''''"
    by (rule printable_valid) (simp add: printable_def)
  have "storable x (hang x ns c)"
  proof (rule storable_node)
    show "elements x (hang x ns c) = [] \<longrightarrow> xml_valid x (xmlNodeGetContent x (hang x ns c))"
      unfolding h using c v by (auto simp: hang_def)
    show "list_all (storable x) (elements x (hang x ns c))"
      unfolding h using ns(2) by (simp add: list_all_iff)
  qed
  then show "\<exists>n. build x cs nm = Some (Some n) \<and> is_element x n \<and> node_name x n = nm \<and> node_properties x n = []
     \<and> storable x n \<and> (\<forall>m q. same_elements x n m \<longrightarrow> I q \<longrightarrow> each_child x f m q = Some (g q) \<and> I (g q))"
    using c ns h by (intro exI [of _ "hang x ns c"]) (auto simp: build_def same_elements_def each_node_elements [OF f])
qed

lemma restores_eq:
  assumes "carries x cs f I g" and "\<And>m q. node_name x m = ''text'' \<Longrightarrow> f m q = Some q"
    and "\<And>q. I q \<Longrightarrow> g q = h q"
  shows "restores x (build x cs) (each_child x f) I h"
  using restores_build [OF assms(1,2)] assms(3) unfolding restores_def by metis

end

section \<open>Numbers in texts\<close>

text \<open>\<open>%d\<close> of an \<open>int\<close>, and of a narrower unsigned integer.\<close>

definition pr_int :: "'w::len word \<Rightarrow> string option" where
  "pr_int v = Some (dec_int (sint v))"

definition pr_uns :: "'w::len word \<Rightarrow> string option" where
  "pr_uns v = Some (dec_int (uint v))"

lemma printable_dec [simp]: "printable (dec v)"
proof (induction v rule: dec.induct)
  case (1 v)
  then show ?case
    by (cases "v < 10") (auto simp: dec.simps [of v] printable_def)
qed

lemma printable_dec_int [simp]: "printable (dec_int i)"
  using printable_dec by (auto simp: dec_int_def printable_def)

lemma printable_append [simp]: "printable (s @ t) \<longleftrightarrow> printable s \<and> printable t"
  by (auto simp: printable_def)

lemma key_int_sint: "xmlNodeGetContent x m = dec_int (sint v) \<Longrightarrow> key_int x m = v"
  by (simp add: key_int_def)

lemma key_int_uint: "xmlNodeGetContent x m = dec_int (uint v) \<Longrightarrow> key_int x m = v"
  by (simp add: key_int_def)

lemma dec_first: "0 < v \<Longrightarrow> \<exists>c r. dec v = c # r \<and> 49 \<le> (of_char c :: nat)"
proof (induction v rule: dec.induct)
  case (1 v)
  then show ?case
    by (cases "v < 10") (fastforce simp: dec.simps [of v])+
qed

lemma id_text_facts [simp]: "first_digit (id_text i)" "id_positive (id_text i)" "any_id (id_text i)"
  "atoi (id_text i) - 1 = int i"
proof -
  have "id_text i = dec (Suc i)"
    by (simp add: id_text_def dec_int_def nat_add_distrib)
  then show "first_digit (id_text i)"
    using dec_first [of "Suc i"] by (auto simp: first_digit_def)
qed (simp_all add: id_positive_def any_id_def id_text_def)

lemma at_index_nat [simp]: "at_index (int i) h xs = (if i < length xs
     then map_option (\<lambda>v. xs[i := v]) (h (xs ! i)) else None)"
  by (simp add: at_index_def)

section \<open>Rules for the fields of a structure\<close>

lemma carries_cong: "carries x cs f I g \<Longrightarrow> (\<And>q. I q \<Longrightarrow> g q = h q) \<Longrightarrow> carries x cs f I h"
  unfolding carries_def by metis

context libxml_laws
begin

lemma at_id_eq [simp]:
  "node_properties x m = [(''id'', id_text i)] \<Longrightarrow> guard (id_text i) \<Longrightarrow> at_id x guard m put_in p = put_in (int i) p"
  by (simp add: at_id_def get_prop)

lemma carries_int:
  assumes "nm \<noteq> ''text''"
    and "\<And>m q. node_name x m = nm \<Longrightarrow> I q \<Longrightarrow> key_int x m = v \<Longrightarrow> f m q = Some (g q)"
    and "\<And>q. I q \<Longrightarrow> I (g q)"
  shows "carries x [text_child x nm (pr_int v)] f I g"
  by (rule carries_text [where s = "dec_int (sint v)"])
    (auto simp: pr_int_def printable_valid key_int_sint assms)

lemma carries_uns:
  assumes "nm \<noteq> ''text''"
    and "\<And>m q. node_name x m = nm \<Longrightarrow> I q \<Longrightarrow> key_int x m = v \<Longrightarrow> f m q = Some (g q)"
    and "\<And>q. I q \<Longrightarrow> I (g q)"
  shows "carries x [text_child x nm (pr_uns v)] f I g"
  by (rule carries_text [where s = "dec_int (uint v)"])
    (auto simp: pr_uns_def printable_valid key_int_uint assms)

lemma carries_str:
  assumes "plain x n s" and "nm \<noteq> ''text''"
    and "\<And>m q. node_name x m = nm \<Longrightarrow> I q \<Longrightarrow> key_str x m n = s \<Longrightarrow> f m q = Some (g q)"
    and "\<And>q. I q \<Longrightarrow> I (g q)"
  shows "carries x [text_child x nm (c_string n s)] f I g"
  using assms by (intro carries_text [where s = s]) (auto simp: plain_def c_string_def key_str_def)

lemma carries_shown_child:
  assumes "carries x [text_child x nm s] f I g"
  shows "carries x [shown_child x nm s] f I g"
proof -
  have "xmlNewNode x nm \<noteq> None"
    using new_node by force
  then show ?thesis
    using assms by (simp add: carries_def shown_child_def)
qed

lemma carries_shown: "plain x n s \<Longrightarrow> carries x [shown (c_string n s)] f I (\<lambda>q. q)"
  by (auto simp: carries_def shown_def c_string_def plain_def hang_def intro!: exI [of _ "[]"])

lemma carries_gbk:
  assumes "length s < n" and "converts x n s" and "nm \<noteq> ''text''"
    and "\<And>m q. node_name x m = nm \<Longrightarrow> I q \<Longrightarrow> (\<And>old. key_enc x m n old = s) \<Longrightarrow> f m q = Some (g q)"
    and "\<And>q. I q \<Longrightarrow> I (g q)"
  shows "carries x [enc_child x nm (c_string n s)] f I g"
  using assms by (intro carries_enc [where s = s and k = n]) (auto simp: c_string_def)

lemma carries_struct:
  assumes mk: "restores x mk parse J h" and "nm \<noteq> ''text''"
    and J: "\<And>e. J e \<Longrightarrow> J (h e)"
    and f: "\<And>m q. node_name x m = nm \<Longrightarrow> I q \<Longrightarrow> (\<And>e. J e \<Longrightarrow> parse m e = Some (h e)) \<Longrightarrow> f m q = Some (g q)"
    and I: "\<And>q. I q \<Longrightarrow> I (g q)"
  shows "carries x [sub_child x mk nm] f I g"
  using mk assms(2) f I by (intro carries_sub [OF mk]) blast+

lemma fold_field_update:
  assumes "field_laws sel upd"
  shows "k \<le> length xs \<Longrightarrow> length (sel q) = length xs
    \<Longrightarrow> fold (\<lambda>i q. upd (\<lambda>_. (sel q)[i := xs ! i]) q) [0..<k] q = upd (\<lambda>_. take k xs @ drop k (sel q)) q"
proof (induction k)
  case 0
  then show ?case
    using assms by (simp add: field_laws_def)
next
  case (Suc k)
  have "(take k xs @ drop k (sel q))[k := xs ! k] = take (Suc k) xs @ drop (Suc k) (sel q)"
    using Suc.prems by (intro nth_equalityI) (auto simp: nth_list_update nth_append min_def less_Suc_eq)
  then show ?case
    using Suc assms by (simp add: field_laws_def)
qed

lemma carries_array:
  assumes "field_laws sel upd" and "length xs = n" and "\<And>q. I q \<Longrightarrow> length (sel q) = n"
    and "\<And>i. i < n \<Longrightarrow> carries x (body i) f I (\<lambda>q. upd (\<lambda>_. (sel q)[i := xs ! i]) q)"
  shows "carries x (loop n body) f I (upd (\<lambda>_. xs))"
proof (rule carries_cong [OF carries_loop])
  show "I q \<Longrightarrow> fold (\<lambda>i q. upd (\<lambda>_. (sel q)[i := xs ! i]) q) [0..<n] q = upd (\<lambda>_. xs) q" for q
    using fold_field_update [OF assms(1), of n xs q] assms(2,3) by simp
qed (rule assms(4))

lemma carries_ids:
  assumes "field_laws sel upd" and "length xs = n" and "\<And>q. I q \<Longrightarrow> length (sel q) = n" and "nm \<noteq> ''text''"
    and "\<And>m q i. node_name x m = nm \<Longrightarrow> I q \<Longrightarrow> i < n \<Longrightarrow> length (sel q) = n
      \<Longrightarrow> node_properties x m = [(''id'', id_text i)] \<Longrightarrow> key_int x m = xs ! i
      \<Longrightarrow> f m q = Some (upd (\<lambda>_. (sel q)[i := xs ! i]) q)"
    and "\<And>q i. I q \<Longrightarrow> i < n \<Longrightarrow> I (upd (\<lambda>_. (sel q)[i := xs ! i]) q)"
  shows "carries x (loop n (\<lambda>i. [id_text_child x i nm (pr_uns (xs ! i))])) f I (upd (\<lambda>_. xs))"
  by (rule carries_array [OF assms(1-3)], assumption, rule carries_id_text [where s = "dec_int (uint (xs ! i))" for i])
    (auto simp: pr_uns_def printable_valid assms key_int_uint)

lemma carries_empties:
  assumes "field_laws sel upd" and "\<And>q. I q \<Longrightarrow> length (sel q) = n" and "nm \<noteq> ''text''"
    and "\<And>m q i. node_name x m = nm \<Longrightarrow> I q \<Longrightarrow> i < n \<Longrightarrow> length (sel q) = n
      \<Longrightarrow> node_properties x m = [(''id'', id_text i)] \<Longrightarrow> key_int x m = (0 :: u8)
      \<Longrightarrow> f m q = Some (upd (\<lambda>_. (sel q)[i := 0 :: u8]) q)"
    and "\<And>q i. I q \<Longrightarrow> i < n \<Longrightarrow> I (upd (\<lambda>_. (sel q)[i := 0]) q)"
  shows "carries x (loop n (\<lambda>i. [id_empty_child x i nm])) f I (upd (\<lambda>_. replicate n 0))"
proof (rule carries_array [OF assms(1) _ assms(2)])
  fix i assume "i < n"
  then show "carries x [id_empty_child x i nm] f I (\<lambda>q. upd (\<lambda>_. (sel q)[i := replicate n 0 ! i]) q)"
    by (intro carries_id_empty) (auto simp: assms key_int_def atoi_def)
qed simp_all

lemma carries_structs:
  assumes mk: "\<And>i. i < n \<Longrightarrow> restores x (mk (xs ! i)) parse J (\<lambda>_. xs ! i)"
    and "field_laws sel upd" and "length xs = n" and "\<And>q. I q \<Longrightarrow> length (sel q) = n \<and> list_all J (sel q)"
    and "nm \<noteq> ''text''"
    and "\<And>m q i. node_name x m = nm \<Longrightarrow> I q \<Longrightarrow> i < n \<Longrightarrow> length (sel q) = n
      \<Longrightarrow> node_properties x m = [(''id'', id_text i)] \<Longrightarrow> parse m (sel q ! i) = Some (xs ! i)
      \<Longrightarrow> f m q = Some (upd (\<lambda>_. (sel q)[i := xs ! i]) q)"
    and "\<And>q i. I q \<Longrightarrow> i < n \<Longrightarrow> J (xs ! i) \<Longrightarrow> I (upd (\<lambda>_. (sel q)[i := xs ! i]) q)"
  shows "carries x (loop n (\<lambda>i. [id_sub_child x i (mk (xs ! i)) nm])) f I (upd (\<lambda>_. xs))"
proof (rule carries_array [OF assms(2,3)])
  fix i assume i: "i < n"
  show "carries x [id_sub_child x i (mk (xs ! i)) nm] f I (\<lambda>q. upd (\<lambda>_. (sel q)[i := xs ! i]) q)"
  proof (rule carries_id_sub [OF mk [OF i] _ assms(5)])
    fix m q assume a: "node_name x m = nm" "I q" "node_properties x m = [(''id'', id_text i)]"
      "\<And>e. J e \<Longrightarrow> parse m e = Some (xs ! i) \<and> J (xs ! i)"
    have "J (sel q ! i)"
      using assms(4) [OF a(2)] i by (simp add: list_all_length)
    then show "f m q = Some (upd (\<lambda>_. (sel q)[i := xs ! i]) q) \<and> I (upd (\<lambda>_. (sel q)[i := xs ! i]) q)"
      using a i assms(4,6,7) by blast
  qed
qed (use assms(4) in blast)

lemma carries_id_int:
  assumes "nm \<noteq> ''text''"
    and "\<And>m q. node_name x m = nm \<Longrightarrow> I q \<Longrightarrow> node_properties x m = [(''id'', id_text i)]
      \<Longrightarrow> key_int x m = v \<Longrightarrow> f m q = Some (g q)"
    and "\<And>q. I q \<Longrightarrow> I (g q)"
  shows "carries x [id_text_child x i nm (pr_int v)] f I g"
  by (rule carries_id_text [where s = "dec_int (sint v)"])
    (auto simp: pr_int_def printable_valid key_int_sint assms)

lemmas carries_rules = carries_int carries_uns carries_str carries_gbk carries_shown carries_shown_child carries_id_int
  carries_struct carries_Cons carries_append

end

end
