(* ===== verification/Camera_Config.thy ===== *)
theory Camera_Config
  imports Libxml
begin

text \<open>
  The camera configuration: the structures of \<open>camera_config.h\<close>, the functions of \<open>xml/xmlCreater.c\<close>
  that write them as XML nodes and those of \<open>xml/xmlParser.c\<close> that read them, and for each pair the
  lemma that reading gives back what was written. A \<open>char\<close> is unsigned on the target.
\<close>

section \<open>Structures, creating and parsing functions\<close>

record s_ExpMode =
  expmode_flag :: u32

definition create_s_ExpMode :: "('n, 'f) libxml \<Rightarrow> s_ExpMode \<Rightarrow> string \<Rightarrow> 'n option option" where
  "create_s_ExpMode x p pNodeName = build x
     [text_child x ''flag'' (pr_int (expmode_flag p))] pNodeName"

definition parse_s_ExpMode :: "('n, 'f) libxml \<Rightarrow> 'n \<Rightarrow> s_ExpMode \<Rightarrow> s_ExpMode option" where
  "parse_s_ExpMode x node = each_child x (\<lambda>cur p.
     if node_name x cur = ''flag'' then Some (p\<lparr>expmode_flag := key_int x cur\<rparr>)
     else Some p) node"

record s_ExpManu =
  expmanu_exp :: u32
  expmanu_gain :: u32

definition create_s_ExpManu :: "('n, 'f) libxml \<Rightarrow> s_ExpManu \<Rightarrow> string \<Rightarrow> 'n option option" where
  "create_s_ExpManu x p pNodeName = build x
     [text_child x ''exp'' (pr_int (expmanu_exp p)),
      text_child x ''gain'' (pr_int (expmanu_gain p))] pNodeName"

definition parse_s_ExpManu :: "('n, 'f) libxml \<Rightarrow> 'n \<Rightarrow> s_ExpManu \<Rightarrow> s_ExpManu option" where
  "parse_s_ExpManu x node = each_child x (\<lambda>cur p.
     if node_name x cur = ''exp'' then Some (p\<lparr>expmanu_exp := key_int x cur\<rparr>)
     else if node_name x cur = ''gain'' then Some (p\<lparr>expmanu_gain := key_int x cur\<rparr>)
     else Some p) node"

record s_ExpAuto =
  expauto_light_dt_mode :: u32
  expauto_exp_max :: u32
  expauto_gain_max :: u32
  expauto_exp_mid :: u32
  expauto_gain_mid :: u32
  expauto_exp_min :: u32
  expauto_gain_min :: u32

definition create_s_ExpAuto :: "('n, 'f) libxml \<Rightarrow> s_ExpAuto \<Rightarrow> string \<Rightarrow> 'n option option" where
  "create_s_ExpAuto x p pNodeName = build x
     [text_child x ''light_dt_mode'' (pr_int (expauto_light_dt_mode p)),
      text_child x ''exp_max'' (pr_int (expauto_exp_max p)),
      text_child x ''gain_max'' (pr_int (expauto_gain_max p)),
      text_child x ''exp_mid'' (pr_int (expauto_exp_mid p)),
      text_child x ''gain_mid'' (pr_int (expauto_gain_mid p)),
      text_child x ''exp_min'' (pr_int (expauto_exp_min p)),
      text_child x ''gain_min'' (pr_int (expauto_gain_min p))] pNodeName"

definition parse_s_ExpAuto :: "('n, 'f) libxml \<Rightarrow> 'n \<Rightarrow> s_ExpAuto \<Rightarrow> s_ExpAuto option" where
  "parse_s_ExpAuto x node = each_child x (\<lambda>cur p.
     if node_name x cur = ''light_dt_mode'' then Some (p\<lparr>expauto_light_dt_mode := key_int x cur\<rparr>)
     else if node_name x cur = ''exp_max'' then Some (p\<lparr>expauto_exp_max := key_int x cur\<rparr>)
     else if node_name x cur = ''gain_max'' then Some (p\<lparr>expauto_gain_max := key_int x cur\<rparr>)
     else if node_name x cur = ''exp_mid'' then Some (p\<lparr>expauto_exp_mid := key_int x cur\<rparr>)
     else if node_name x cur = ''gain_mid'' then Some (p\<lparr>expauto_gain_mid := key_int x cur\<rparr>)
     else if node_name x cur = ''exp_min'' then Some (p\<lparr>expauto_exp_min := key_int x cur\<rparr>)
     else if node_name x cur = ''gain_min'' then Some (p\<lparr>expauto_gain_min := key_int x cur\<rparr>)
     else Some p) node"

record s_ExpWnd =
  expwnd_line1 :: u8
  expwnd_line2 :: u8
  expwnd_line3 :: u8
  expwnd_line4 :: u8
  expwnd_line5 :: u8
  expwnd_line6 :: u8
  expwnd_line7 :: u8
  expwnd_line8 :: u8

definition create_s_ExpWnd :: "('n, 'f) libxml \<Rightarrow> s_ExpWnd \<Rightarrow> string \<Rightarrow> 'n option option" where
  "create_s_ExpWnd x p pNodeName = build x
     [text_child x ''line1'' (pr_uns (expwnd_line1 p)),
      text_child x ''line2'' (pr_uns (expwnd_line2 p)),
      text_child x ''line3'' (pr_uns (expwnd_line3 p)),
      text_child x ''line4'' (pr_uns (expwnd_line4 p)),
      text_child x ''line5'' (pr_uns (expwnd_line5 p)),
      text_child x ''line6'' (pr_uns (expwnd_line6 p)),
      text_child x ''line7'' (pr_uns (expwnd_line7 p)),
      text_child x ''line8'' (pr_uns (expwnd_line8 p))] pNodeName"

definition parse_s_ExpWnd :: "('n, 'f) libxml \<Rightarrow> 'n \<Rightarrow> s_ExpWnd \<Rightarrow> s_ExpWnd option" where
  "parse_s_ExpWnd x node = each_child x (\<lambda>cur p.
     if node_name x cur = ''line1'' then Some (p\<lparr>expwnd_line1 := key_int x cur\<rparr>)
     else if node_name x cur = ''line2'' then Some (p\<lparr>expwnd_line2 := key_int x cur\<rparr>)
     else if node_name x cur = ''line3'' then Some (p\<lparr>expwnd_line3 := key_int x cur\<rparr>)
     else if node_name x cur = ''line4'' then Some (p\<lparr>expwnd_line4 := key_int x cur\<rparr>)
     else if node_name x cur = ''line5'' then Some (p\<lparr>expwnd_line5 := key_int x cur\<rparr>)
     else if node_name x cur = ''line6'' then Some (p\<lparr>expwnd_line6 := key_int x cur\<rparr>)
     else if node_name x cur = ''line7'' then Some (p\<lparr>expwnd_line7 := key_int x cur\<rparr>)
     else if node_name x cur = ''line8'' then Some (p\<lparr>expwnd_line8 := key_int x cur\<rparr>)
     else Some p) node"

record s_AwbMode =
  awbmode_flag :: u32

definition create_s_AwbMode :: "('n, 'f) libxml \<Rightarrow> s_AwbMode \<Rightarrow> string \<Rightarrow> 'n option option" where
  "create_s_AwbMode x p pNodeName = build x
     [text_child x ''flag'' (pr_int (awbmode_flag p))] pNodeName"

definition parse_s_AwbMode :: "('n, 'f) libxml \<Rightarrow> 'n \<Rightarrow> s_AwbMode \<Rightarrow> s_AwbMode option" where
  "parse_s_AwbMode x node = each_child x (\<lambda>cur p.
     if node_name x cur = ''flag'' then Some (p\<lparr>awbmode_flag := key_int x cur\<rparr>)
     else Some p) node"

record s_AwbManu =
  awbmanu_gain_r :: u32
  awbmanu_gain_g :: u32
  awbmanu_gain_b :: u32

definition create_s_AwbManu :: "('n, 'f) libxml \<Rightarrow> s_AwbManu \<Rightarrow> string \<Rightarrow> 'n option option" where
  "create_s_AwbManu x p pNodeName = build x
     [text_child x ''gain_r'' (pr_int (awbmanu_gain_r p)),
      text_child x ''gain_g'' (pr_int (awbmanu_gain_g p)),
      text_child x ''gain_b'' (pr_int (awbmanu_gain_b p))] pNodeName"

definition parse_s_AwbManu :: "('n, 'f) libxml \<Rightarrow> 'n \<Rightarrow> s_AwbManu \<Rightarrow> s_AwbManu option" where
  "parse_s_AwbManu x node = each_child x (\<lambda>cur p.
     if node_name x cur = ''gain_r'' then Some (p\<lparr>awbmanu_gain_r := key_int x cur\<rparr>)
     else if node_name x cur = ''gain_g'' then Some (p\<lparr>awbmanu_gain_g := key_int x cur\<rparr>)
     else if node_name x cur = ''gain_b'' then Some (p\<lparr>awbmanu_gain_b := key_int x cur\<rparr>)
     else Some p) node"

record s_ColorParam =
  colorparam_contrast :: u32
  colorparam_luma :: u32
  colorparam_saturation :: u32

definition create_s_ColorParam :: "('n, 'f) libxml \<Rightarrow> s_ColorParam \<Rightarrow> string \<Rightarrow> 'n option option" where
  "create_s_ColorParam x p pNodeName = build x
     [text_child x ''contrast'' (pr_int (colorparam_contrast p)),
      text_child x ''luma'' (pr_int (colorparam_luma p)),
      text_child x ''saturation'' (pr_int (colorparam_saturation p))] pNodeName"

definition parse_s_ColorParam :: "('n, 'f) libxml \<Rightarrow> 'n \<Rightarrow> s_ColorParam \<Rightarrow> s_ColorParam option" where
  "parse_s_ColorParam x node = each_child x (\<lambda>cur p.
     if node_name x cur = ''contrast'' then Some (p\<lparr>colorparam_contrast := key_int x cur\<rparr>)
     else if node_name x cur = ''luma'' then Some (p\<lparr>colorparam_luma := key_int x cur\<rparr>)
     else if node_name x cur = ''saturation'' then Some (p\<lparr>colorparam_saturation := key_int x cur\<rparr>)
     else Some p) node"

record Syn_Info =
  syn_is_syn_open :: u8
  syn_phase :: u32

definition create_Syn_Info :: "('n, 'f) libxml \<Rightarrow> Syn_Info \<Rightarrow> string \<Rightarrow> 'n option option" where
  "create_Syn_Info x p pNodeName = build x
     [text_child x ''is_syn_open'' (pr_uns (syn_is_syn_open p)),
      text_child x ''phase'' (pr_int (syn_phase p))] pNodeName"

definition parse_Syn_Info :: "('n, 'f) libxml \<Rightarrow> 'n \<Rightarrow> Syn_Info \<Rightarrow> Syn_Info option" where
  "parse_Syn_Info x node = each_child x (\<lambda>cur p.
     if node_name x cur = ''is_syn_open'' then Some (p\<lparr>syn_is_syn_open := key_int x cur\<rparr>)
     else if node_name x cur = ''phase'' then Some (p\<lparr>syn_phase := key_int x cur\<rparr>)
     else Some p) node"

record Lamp_Info =
  lamp_nMode :: "u32 list"
  lamp_nLampType :: "u32 list"

definition create_Lamp_Info :: "('n, 'f) libxml \<Rightarrow> Lamp_Info \<Rightarrow> string \<Rightarrow> 'n option option" where
  "create_Lamp_Info x p pNodeName = build x
     (loop 4 (\<lambda>i. [id_text_child x i ''nMode'' (pr_int (lamp_nMode p ! i)),
        id_text_child x i ''nLampType'' (pr_int (lamp_nLampType p ! i))])) pNodeName"

definition parse_Lamp_Info :: "('n, 'f) libxml \<Rightarrow> 'n \<Rightarrow> Lamp_Info \<Rightarrow> Lamp_Info option" where
  "parse_Lamp_Info x node = each_child x (\<lambda>cur p.
     if node_name x cur = ''nMode'' then at_id x first_digit cur (\<lambda>i p. map_option (\<lambda>v. p\<lparr>lamp_nMode := v\<rparr>)
         (at_index i (\<lambda>_. Some (key_int x cur)) (lamp_nMode p))) p
     else if node_name x cur = ''nLampType'' then at_id x first_digit cur (\<lambda>i p. map_option (\<lambda>v. p\<lparr>lamp_nLampType := v\<rparr>)
         (at_index i (\<lambda>_. Some (key_int x cur)) (lamp_nLampType p))) p
     else Some p) node"

record Camera_config =
  cam_exp_mode :: s_ExpMode
  cam_exp_manu :: s_ExpManu
  cam_exp_auto :: s_ExpAuto
  cam_exp_wnd :: s_ExpWnd
  cam_awb_mode :: s_AwbMode
  cam_awb_manu :: s_AwbManu
  cam_color_param :: s_ColorParam
  cam_syn_info :: Syn_Info
  cam_lamp_info :: Lamp_Info

definition create_Camera_config :: "('n, 'f) libxml \<Rightarrow> Camera_config \<Rightarrow> string \<Rightarrow> 'n option option" where
  "create_Camera_config x p pNodeName = build x
     [sub_child x (create_s_ExpMode x (cam_exp_mode p)) ''exp_mode'',
      sub_child x (create_s_ExpManu x (cam_exp_manu p)) ''exp_manu'',
      sub_child x (create_s_ExpAuto x (cam_exp_auto p)) ''exp_auto'',
      sub_child x (create_s_ExpWnd x (cam_exp_wnd p)) ''exp_wnd'',
      sub_child x (create_s_AwbMode x (cam_awb_mode p)) ''awb_mode'',
      sub_child x (create_s_AwbManu x (cam_awb_manu p)) ''awb_manu'',
      sub_child x (create_s_ColorParam x (cam_color_param p)) ''color_param'',
      sub_child x (create_Syn_Info x (cam_syn_info p)) ''syn_info'',
      sub_child x (create_Lamp_Info x (cam_lamp_info p)) ''lamp_info''] pNodeName"

definition parse_Camera_config :: "('n, 'f) libxml \<Rightarrow> 'n \<Rightarrow> Camera_config \<Rightarrow> Camera_config option" where
  "parse_Camera_config x node = each_child x (\<lambda>cur p.
     if node_name x cur = ''exp_mode'' then
         map_option (\<lambda>v. p\<lparr>cam_exp_mode := v\<rparr>) (parse_s_ExpMode x cur (cam_exp_mode p))
     else if node_name x cur = ''exp_manu'' then
         map_option (\<lambda>v. p\<lparr>cam_exp_manu := v\<rparr>) (parse_s_ExpManu x cur (cam_exp_manu p))
     else if node_name x cur = ''exp_auto'' then
         map_option (\<lambda>v. p\<lparr>cam_exp_auto := v\<rparr>) (parse_s_ExpAuto x cur (cam_exp_auto p))
     else if node_name x cur = ''exp_wnd'' then
         map_option (\<lambda>v. p\<lparr>cam_exp_wnd := v\<rparr>) (parse_s_ExpWnd x cur (cam_exp_wnd p))
     else if node_name x cur = ''awb_mode'' then
         map_option (\<lambda>v. p\<lparr>cam_awb_mode := v\<rparr>) (parse_s_AwbMode x cur (cam_awb_mode p))
     else if node_name x cur = ''awb_manu'' then
         map_option (\<lambda>v. p\<lparr>cam_awb_manu := v\<rparr>) (parse_s_AwbManu x cur (cam_awb_manu p))
     else if node_name x cur = ''color_param'' then
         map_option (\<lambda>v. p\<lparr>cam_color_param := v\<rparr>) (parse_s_ColorParam x cur (cam_color_param p))
     else if node_name x cur = ''syn_info'' then
         map_option (\<lambda>v. p\<lparr>cam_syn_info := v\<rparr>) (parse_Syn_Info x cur (cam_syn_info p))
     else if node_name x cur = ''lamp_info'' then
         map_option (\<lambda>v. p\<lparr>cam_lamp_info := v\<rparr>) (parse_Lamp_Info x cur (cam_lamp_info p))
     else Some p) node"

text \<open>The sizes of the arrays.\<close>

definition shape_Lamp_Info :: "Lamp_Info \<Rightarrow> bool" where
  "shape_Lamp_Info q \<longleftrightarrow> length (lamp_nMode q) = 4
     \<and> length (lamp_nLampType q) = 4"

definition good_Lamp_Info :: "('n, 'f) libxml \<Rightarrow> Lamp_Info \<Rightarrow> bool" where
  "good_Lamp_Info x p \<longleftrightarrow> length (lamp_nMode p) = 4
     \<and> length (lamp_nLampType p) = 4"

definition shape_Camera_config :: "Camera_config \<Rightarrow> bool" where
  "shape_Camera_config q \<longleftrightarrow> shape_Lamp_Info (cam_lamp_info q)"

definition good_Camera_config :: "('n, 'f) libxml \<Rightarrow> Camera_config \<Rightarrow> bool" where
  "good_Camera_config x p \<longleftrightarrow> good_Lamp_Info x (cam_lamp_info p)"

section \<open>What is written is read back\<close>

context libxml_laws
begin

lemma restores_s_ExpMode: "restores x (create_s_ExpMode x p) (parse_s_ExpMode x) (\<lambda>_. True) (\<lambda>_. p)"
  unfolding create_s_ExpMode_def [abs_def] parse_s_ExpMode_def [abs_def]
  by (rule restores_eq) (rule carries_rules | simp)+

lemma restores_s_ExpManu: "restores x (create_s_ExpManu x p) (parse_s_ExpManu x) (\<lambda>_. True) (\<lambda>_. p)"
  unfolding create_s_ExpManu_def [abs_def] parse_s_ExpManu_def [abs_def]
  by (rule restores_eq) (rule carries_rules | simp)+

lemma restores_s_ExpAuto: "restores x (create_s_ExpAuto x p) (parse_s_ExpAuto x) (\<lambda>_. True) (\<lambda>_. p)"
  unfolding create_s_ExpAuto_def [abs_def] parse_s_ExpAuto_def [abs_def]
  by (rule restores_eq) (rule carries_rules | simp)+

lemma restores_s_ExpWnd: "restores x (create_s_ExpWnd x p) (parse_s_ExpWnd x) (\<lambda>_. True) (\<lambda>_. p)"
  unfolding create_s_ExpWnd_def [abs_def] parse_s_ExpWnd_def [abs_def]
  by (rule restores_eq) (rule carries_rules | simp)+

lemma restores_s_AwbMode: "restores x (create_s_AwbMode x p) (parse_s_AwbMode x) (\<lambda>_. True) (\<lambda>_. p)"
  unfolding create_s_AwbMode_def [abs_def] parse_s_AwbMode_def [abs_def]
  by (rule restores_eq) (rule carries_rules | simp)+

lemma restores_s_AwbManu: "restores x (create_s_AwbManu x p) (parse_s_AwbManu x) (\<lambda>_. True) (\<lambda>_. p)"
  unfolding create_s_AwbManu_def [abs_def] parse_s_AwbManu_def [abs_def]
  by (rule restores_eq) (rule carries_rules | simp)+

lemma restores_s_ColorParam: "restores x (create_s_ColorParam x p) (parse_s_ColorParam x) (\<lambda>_. True) (\<lambda>_. p)"
  unfolding create_s_ColorParam_def [abs_def] parse_s_ColorParam_def [abs_def]
  by (rule restores_eq) (rule carries_rules | simp)+

lemma restores_Syn_Info: "restores x (create_Syn_Info x p) (parse_Syn_Info x) (\<lambda>_. True) (\<lambda>_. p)"
  unfolding create_Syn_Info_def [abs_def] parse_Syn_Info_def [abs_def]
  by (rule restores_eq) (rule carries_rules | simp)+

lemma restores_Lamp_Info:
  assumes "shape_Lamp_Info p"
  shows "restores x (create_Lamp_Info x p) (parse_Lamp_Info x) shape_Lamp_Info (\<lambda>_. p)"
  unfolding create_Lamp_Info_def [abs_def] parse_Lamp_Info_def [abs_def]
proof (rule restores_eq [OF carries_loop])
  fix i :: nat
  assume i: "i < 4"
  let ?f = "\<lambda>cur p. if node_name x cur = ''nMode'' then at_id x first_digit cur
         (\<lambda>i p. map_option (\<lambda>v. p\<lparr>lamp_nMode := v\<rparr>) (at_index i (\<lambda>_. Some (key_int x cur)) (lamp_nMode p))) p
     else if node_name x cur = ''nLampType'' then at_id x first_digit cur
         (\<lambda>i p. map_option (\<lambda>v. p\<lparr>lamp_nLampType := v\<rparr>) (at_index i (\<lambda>_. Some (key_int x cur)) (lamp_nLampType p))) p
     else Some p"
  show "carries x [id_text_child x i ''nMode'' (pr_int (lamp_nMode p ! i)),
      id_text_child x i ''nLampType'' (pr_int (lamp_nLampType p ! i))] ?f shape_Lamp_Info
      (\<lambda>q. q\<lparr>lamp_nMode := (lamp_nMode q)[i := lamp_nMode p ! i],
             lamp_nLampType := (lamp_nLampType q)[i := lamp_nLampType p ! i]\<rparr>)"
    by (rule carries_cong) (rule carries_rules | use i in \<open>simp add: shape_Lamp_Info_def; fail\<close>)+
next
  fix q
  assume "shape_Lamp_Info q"
  then show "fold (\<lambda>i q. q\<lparr>lamp_nMode := (lamp_nMode q)[i := lamp_nMode p ! i],
             lamp_nLampType := (lamp_nLampType q)[i := lamp_nLampType p ! i]\<rparr>) [0..<4] q = p"
    using assms
    by (cases p; cases q) (auto simp: shape_Lamp_Info_def upt_rec numeral_eq_Suc length_Suc_conv)
qed simp


lemmas restores_camera = restores_s_ExpMode restores_s_ExpManu restores_s_ExpAuto restores_s_ExpWnd restores_s_AwbMode
  restores_s_AwbManu restores_s_ColorParam restores_Syn_Info restores_Lamp_Info

lemma restores_Camera_config:
  assumes "shape_Camera_config p"
  shows "restores x (create_Camera_config x p) (parse_Camera_config x) shape_Camera_config (\<lambda>_. p)"
  unfolding create_Camera_config_def [abs_def] parse_Camera_config_def [abs_def]
  by (rule restores_eq) (rule carries_rules restores_camera
     | use assms in \<open>simp add: shape_Camera_config_def; fail\<close>)+

end

end
