(* ===== verification/Arm_Config.thy ===== *)
theory Arm_Config
  imports Libxml
begin

text \<open>
  The configuration of the application: the structures of \<open>arm_config.h\<close>, the functions of
  \<open>xml/xmlCreater.c\<close> that write them as XML nodes and those of \<open>xml/xmlParser.c\<close> that read them. Of
  \<open>Type_info_color\<close>, which comes from a header outside of the repository, only the three components
  that the code names are there, as \<open>int\<close>. What is written is read back with two exceptions: the
  address of the NTP server comes back as zeros, because its digits never get into their node,
  and the two addresses of the neighbouring berths are not written at all.
\<close>

section \<open>Structures, creating and parsing functions\<close>

record DISK_WRI_DATA =
  disk_remain_disk :: u32
  disk_illegal_picture :: u16
  disk_vehicle :: u16
  disk_event_picture :: u16
  disk_illegal_video :: u16
  disk_event_video :: u16
  disk_flow_statistics :: u16

definition create_DISK_WRI_DATA :: "('n, 'f) libxml \<Rightarrow> DISK_WRI_DATA \<Rightarrow> string \<Rightarrow> 'n option option" where
  "create_DISK_WRI_DATA x p pNodeName = build x
     [text_child x ''remain_disk'' (pr_int (disk_remain_disk p)),
      text_child x ''illegal_picture'' (pr_uns (disk_illegal_picture p)),
      text_child x ''vehicle'' (pr_uns (disk_vehicle p)),
      text_child x ''event_picture'' (pr_uns (disk_event_picture p)),
      text_child x ''illegal_video'' (pr_uns (disk_illegal_video p)),
      text_child x ''event_video'' (pr_uns (disk_event_video p)),
      text_child x ''flow_statistics'' (pr_uns (disk_flow_statistics p))] pNodeName"

definition parse_DISK_WRI_DATA :: "('n, 'f) libxml \<Rightarrow> 'n \<Rightarrow> DISK_WRI_DATA \<Rightarrow> DISK_WRI_DATA option" where
  "parse_DISK_WRI_DATA x node = each_child x (\<lambda>cur p.
     if node_name x cur = ''remain_disk'' then Some (p\<lparr>disk_remain_disk := key_int x cur\<rparr>)
     else if node_name x cur = ''illegal_picture'' then Some (p\<lparr>disk_illegal_picture := key_int x cur\<rparr>)
     else if node_name x cur = ''vehicle'' then Some (p\<lparr>disk_vehicle := key_int x cur\<rparr>)
     else if node_name x cur = ''event_picture'' then Some (p\<lparr>disk_event_picture := key_int x cur\<rparr>)
     else if node_name x cur = ''illegal_video'' then Some (p\<lparr>disk_illegal_video := key_int x cur\<rparr>)
     else if node_name x cur = ''event_video'' then Some (p\<lparr>disk_event_video := key_int x cur\<rparr>)
     else if node_name x cur = ''flow_statistics'' then Some (p\<lparr>disk_flow_statistics := key_int x cur\<rparr>)
     else Some p) node"

record FTP_DATA_CONFIG =
  ftpdata_illegal_picture :: u16
  ftpdata_vehicle :: u16
  ftpdata_event_picture :: u16
  ftpdata_illegal_video :: u16
  ftpdata_event_video :: u16
  ftpdata_flow_statistics :: u16

definition create_FTP_DATA_CONFIG :: "('n, 'f) libxml \<Rightarrow> FTP_DATA_CONFIG \<Rightarrow> string \<Rightarrow> 'n option option" where
  "create_FTP_DATA_CONFIG x p pNodeName = build x
     [text_child x ''illegal_picture'' (pr_uns (ftpdata_illegal_picture p)),
      text_child x ''vehicle'' (pr_uns (ftpdata_vehicle p)),
      text_child x ''event_picture'' (pr_uns (ftpdata_event_picture p)),
      text_child x ''illegal_video'' (pr_uns (ftpdata_illegal_video p)),
      text_child x ''event_video'' (pr_uns (ftpdata_event_video p)),
      text_child x ''flow_statistics'' (pr_uns (ftpdata_flow_statistics p))] pNodeName"

definition parse_FTP_DATA_CONFIG :: "('n, 'f) libxml \<Rightarrow> 'n \<Rightarrow> FTP_DATA_CONFIG \<Rightarrow> FTP_DATA_CONFIG option" where
  "parse_FTP_DATA_CONFIG x node = each_child x (\<lambda>cur p.
     if node_name x cur = ''illegal_picture'' then Some (p\<lparr>ftpdata_illegal_picture := key_int x cur\<rparr>)
     else if node_name x cur = ''vehicle'' then Some (p\<lparr>ftpdata_vehicle := key_int x cur\<rparr>)
     else if node_name x cur = ''event_picture'' then Some (p\<lparr>ftpdata_event_picture := key_int x cur\<rparr>)
     else if node_name x cur = ''illegal_video'' then Some (p\<lparr>ftpdata_illegal_video := key_int x cur\<rparr>)
     else if node_name x cur = ''event_video'' then Some (p\<lparr>ftpdata_event_video := key_int x cur\<rparr>)
     else if node_name x cur = ''flow_statistics'' then Some (p\<lparr>ftpdata_flow_statistics := key_int x cur\<rparr>)
     else Some p) node"

record RESUME_UPLOAD_PARAM =
  resume_is_resume_passcar :: u32
  resume_is_resume_illegal :: u32
  resume_is_resume_event :: u32
  resume_is_resume_statistics :: u32

definition create_RESUME_UPLOAD_PARAM :: "('n, 'f) libxml \<Rightarrow> RESUME_UPLOAD_PARAM \<Rightarrow> string \<Rightarrow> 'n option option" where
  "create_RESUME_UPLOAD_PARAM x p pNodeName = build x
     [text_child x ''is_resume_passcar'' (pr_int (resume_is_resume_passcar p)),
      text_child x ''is_resume_illegal'' (pr_int (resume_is_resume_illegal p)),
      text_child x ''is_resume_event'' (pr_int (resume_is_resume_event p)),
      text_child x ''is_resume_statistics'' (pr_int (resume_is_resume_statistics p))] pNodeName"

definition parse_RESUME_UPLOAD_PARAM :: "('n, 'f) libxml \<Rightarrow> 'n \<Rightarrow> RESUME_UPLOAD_PARAM \<Rightarrow> RESUME_UPLOAD_PARAM option" where
  "parse_RESUME_UPLOAD_PARAM x node = each_child x (\<lambda>cur p.
     if node_name x cur = ''is_resume_passcar'' then Some (p\<lparr>resume_is_resume_passcar := key_int x cur\<rparr>)
     else if node_name x cur = ''is_resume_illegal'' then Some (p\<lparr>resume_is_resume_illegal := key_int x cur\<rparr>)
     else if node_name x cur = ''is_resume_event'' then Some (p\<lparr>resume_is_resume_event := key_int x cur\<rparr>)
     else if node_name x cur = ''is_resume_statistics'' then Some (p\<lparr>resume_is_resume_statistics := key_int x cur\<rparr>)
     else Some p) node"

record DATA_SAVE =
  save_disk_wri_data :: DISK_WRI_DATA
  save_ftp_data_config :: FTP_DATA_CONFIG
  save_resume_upload_data :: RESUME_UPLOAD_PARAM

definition create_DATA_SAVE :: "('n, 'f) libxml \<Rightarrow> DATA_SAVE \<Rightarrow> string \<Rightarrow> 'n option option" where
  "create_DATA_SAVE x p pNodeName = build x
     [sub_child x (create_DISK_WRI_DATA x (save_disk_wri_data p)) ''disk_wri_data'',
      sub_child x (create_FTP_DATA_CONFIG x (save_ftp_data_config p)) ''ftp_data_config'',
      sub_child x (create_RESUME_UPLOAD_PARAM x (save_resume_upload_data p)) ''resume_upload_data''] pNodeName"

definition parse_DATA_SAVE :: "('n, 'f) libxml \<Rightarrow> 'n \<Rightarrow> DATA_SAVE \<Rightarrow> DATA_SAVE option" where
  "parse_DATA_SAVE x node = each_child x (\<lambda>cur p.
     if node_name x cur = ''disk_wri_data'' then
         map_option (\<lambda>v. p\<lparr>save_disk_wri_data := v\<rparr>) (parse_DISK_WRI_DATA x cur (save_disk_wri_data p))
     else if node_name x cur = ''ftp_data_config'' then
         map_option (\<lambda>v. p\<lparr>save_ftp_data_config := v\<rparr>) (parse_FTP_DATA_CONFIG x cur (save_ftp_data_config p))
     else if node_name x cur = ''resume_upload_data'' then
         map_option (\<lambda>v. p\<lparr>save_resume_upload_data := v\<rparr>) (parse_RESUME_UPLOAD_PARAM x cur (save_resume_upload_data p))
     else Some p) node"

record TYPE_FTP_CONFIG_PARAM =
  ftp_user :: string
  ftp_passwd :: string
  ftp_ip :: "u8 list"
  ftp_port :: u32
  ftp_allow_anonymous :: u32

definition create_TYPE_FTP_CONFIG_PARAM :: "('n, 'f) libxml \<Rightarrow> TYPE_FTP_CONFIG_PARAM \<Rightarrow> string \<Rightarrow> 'n option option" where
  "create_TYPE_FTP_CONFIG_PARAM x p pNodeName = build x
     ([text_child x ''user'' (c_string 32 (ftp_user p)),
      text_child x ''passwd'' (c_string 32 (ftp_passwd p))]
     @ loop 4 (\<lambda>i. [id_text_child x i ''ip'' (pr_uns (ftp_ip p ! i))])
     @ [text_child x ''port'' (pr_int (ftp_port p)),
      text_child x ''allow_anonymous'' (pr_int (ftp_allow_anonymous p))]) pNodeName"

definition parse_TYPE_FTP_CONFIG_PARAM :: "('n, 'f) libxml \<Rightarrow> 'n \<Rightarrow> TYPE_FTP_CONFIG_PARAM \<Rightarrow> TYPE_FTP_CONFIG_PARAM option" where
  "parse_TYPE_FTP_CONFIG_PARAM x node = each_child x (\<lambda>cur p.
     if node_name x cur = ''user'' then Some (p\<lparr>ftp_user := key_str x cur 32\<rparr>)
     else if node_name x cur = ''passwd'' then Some (p\<lparr>ftp_passwd := key_str x cur 32\<rparr>)
     else if node_name x cur = ''ip'' then at_id x any_id cur (\<lambda>i p. map_option (\<lambda>v. p\<lparr>ftp_ip := v\<rparr>)
         (at_index i (\<lambda>_. Some (key_int x cur)) (ftp_ip p))) p
     else if node_name x cur = ''port'' then Some (p\<lparr>ftp_port := key_int x cur\<rparr>)
     else if node_name x cur = ''allow_anonymous'' then Some (p\<lparr>ftp_allow_anonymous := key_int x cur\<rparr>)
     else Some p) node"

record TYPE_MQ_CONFIG_PARAM =
  mq_ip :: "u8 list"
  mq_port :: u32

definition create_TYPE_MQ_CONFIG_PARAM :: "('n, 'f) libxml \<Rightarrow> TYPE_MQ_CONFIG_PARAM \<Rightarrow> string \<Rightarrow> 'n option option" where
  "create_TYPE_MQ_CONFIG_PARAM x p pNodeName = build x
     (loop 4 (\<lambda>i. [id_text_child x i ''ip'' (pr_uns (mq_ip p ! i))])
     @ [text_child x ''port'' (pr_int (mq_port p))]) pNodeName"

definition parse_TYPE_MQ_CONFIG_PARAM :: "('n, 'f) libxml \<Rightarrow> 'n \<Rightarrow> TYPE_MQ_CONFIG_PARAM \<Rightarrow> TYPE_MQ_CONFIG_PARAM option" where
  "parse_TYPE_MQ_CONFIG_PARAM x node = each_child x (\<lambda>cur p.
     if node_name x cur = ''ip'' then at_id x any_id cur (\<lambda>i p. map_option (\<lambda>v. p\<lparr>mq_ip := v\<rparr>)
         (at_index i (\<lambda>_. Some (key_int x cur)) (mq_ip p))) p
     else if node_name x cur = ''port'' then Some (p\<lparr>mq_port := key_int x cur\<rparr>)
     else Some p) node"

record NTP_CONFIG_PARAM =
  ntp_useNTP :: u32
  ntp_NTP_server_ip :: "u8 list"
  ntp_NTP_distance :: u16

definition create_NTP_CONFIG_PARAM :: "('n, 'f) libxml \<Rightarrow> NTP_CONFIG_PARAM \<Rightarrow> string \<Rightarrow> 'n option option" where
  "create_NTP_CONFIG_PARAM x p pNodeName = build x
     ([text_child x ''useNTP'' (pr_int (ntp_useNTP p))]
     @ loop 4 (\<lambda>i. [id_empty_child x i ''NTP_server_ip''])
     @ [text_child x ''NTP_distance'' (pr_uns (ntp_NTP_distance p))]) pNodeName"

definition parse_NTP_CONFIG_PARAM :: "('n, 'f) libxml \<Rightarrow> 'n \<Rightarrow> NTP_CONFIG_PARAM \<Rightarrow> NTP_CONFIG_PARAM option" where
  "parse_NTP_CONFIG_PARAM x node = each_child x (\<lambda>cur p.
     if node_name x cur = ''useNTP'' then Some (p\<lparr>ntp_useNTP := key_int x cur\<rparr>)
     else if node_name x cur = ''NTP_server_ip'' then at_id x first_digit cur (\<lambda>i p. map_option (\<lambda>v. p\<lparr>ntp_NTP_server_ip := v\<rparr>)
         (at_index i (\<lambda>_. Some (key_int x cur)) (ntp_NTP_server_ip p))) p
     else if node_name x cur = ''NTP_distance'' then Some (p\<lparr>ntp_NTP_distance := key_int x cur\<rparr>)
     else Some p) node"

record OSS_ALIYUN_PARAM =
  oss_username :: string
  oss_passwd :: string
  oss_url :: string
  oss_bucket_name :: string

definition create_TYPE_OSS_ALIYUN_CONFIG_PARAM :: "('n, 'f) libxml \<Rightarrow> OSS_ALIYUN_PARAM \<Rightarrow> string \<Rightarrow> 'n option option" where
  "create_TYPE_OSS_ALIYUN_CONFIG_PARAM x p pNodeName = build x
     [text_child x ''username'' (c_string 128 (oss_username p)),
      text_child x ''passwd'' (c_string 128 (oss_passwd p)),
      text_child x ''url'' (c_string 128 (oss_url p)),
      text_child x ''bucket_name'' (c_string 128 (oss_bucket_name p))] pNodeName"

definition parse_TYPE_OSS_ALIYUN_CONFIG_PARAM :: "('n, 'f) libxml \<Rightarrow> 'n \<Rightarrow> OSS_ALIYUN_PARAM \<Rightarrow> OSS_ALIYUN_PARAM option" where
  "parse_TYPE_OSS_ALIYUN_CONFIG_PARAM x node = each_child x (\<lambda>cur p.
     if node_name x cur = ''username'' then Some (p\<lparr>oss_username := key_str x cur 128\<rparr>)
     else if node_name x cur = ''passwd'' then Some (p\<lparr>oss_passwd := key_str x cur 128\<rparr>)
     else if node_name x cur = ''url'' then Some (p\<lparr>oss_url := key_str x cur 128\<rparr>)
     else if node_name x cur = ''bucket_name'' then Some (p\<lparr>oss_bucket_name := key_str x cur 128\<rparr>)
     else Some p) node"

record BASIC_PARAM =
  basic_monitor_type :: u16
  basic_spot_id :: string
  basic_road_id :: string
  basic_spot :: string
  basic_direction :: u16
  basic_ntp_config_param :: NTP_CONFIG_PARAM
  basic_exp_type :: u16
  basic_exp_device_id :: string
  basic_collect_actor_size :: u32
  basic_log_level :: u32
  basic_data_save :: DATA_SAVE
  basic_h264_record :: u32
  basic_ftp_param_illegal :: TYPE_FTP_CONFIG_PARAM
  basic_ftp_param_pass_car :: TYPE_FTP_CONFIG_PARAM
  basic_ftp_param_h264 :: TYPE_FTP_CONFIG_PARAM
  basic_mq_param :: TYPE_MQ_CONFIG_PARAM
  basic_ip_berth_front :: "u8 list"
  basic_ip_berth_back :: "u8 list"
  basic_oss_aliyun_param :: OSS_ALIYUN_PARAM

definition create_BASIC_PARAM :: "('n, 'f) libxml \<Rightarrow> BASIC_PARAM \<Rightarrow> string \<Rightarrow> 'n option option" where
  "create_BASIC_PARAM x p pNodeName = build x
     [text_child x ''monitor_type'' (pr_uns (basic_monitor_type p)),
      text_child x ''spot_id'' (c_string 16 (basic_spot_id p)),
      shown (c_string 16 (basic_spot_id p)),
      text_child x ''road_id'' (c_string 20 (basic_road_id p)),
      enc_child x ''spot'' (c_string 100 (basic_spot p)),
      shown_child x ''direction'' (pr_uns (basic_direction p)),
      sub_child x (create_NTP_CONFIG_PARAM x (basic_ntp_config_param p)) ''ntp_config_param'',
      text_child x ''exp_type'' (pr_uns (basic_exp_type p)),
      text_child x ''exp_device_id'' (c_string 20 (basic_exp_device_id p)),
      text_child x ''collect_actor_size'' (pr_int (basic_collect_actor_size p)),
      text_child x ''log_level'' (pr_int (basic_log_level p)),
      sub_child x (create_DATA_SAVE x (basic_data_save p)) ''data_save'',
      text_child x ''h264_record'' (pr_int (basic_h264_record p)),
      sub_child x (create_TYPE_FTP_CONFIG_PARAM x (basic_ftp_param_pass_car p)) ''ftp_param_pass_car'',
      sub_child x (create_TYPE_FTP_CONFIG_PARAM x (basic_ftp_param_illegal p)) ''ftp_param_illegal'',
      sub_child x (create_TYPE_FTP_CONFIG_PARAM x (basic_ftp_param_h264 p)) ''ftp_param_h264'',
      sub_child x (create_TYPE_MQ_CONFIG_PARAM x (basic_mq_param p)) ''mq_param'',
      sub_child x (create_TYPE_OSS_ALIYUN_CONFIG_PARAM x (basic_oss_aliyun_param p)) ''oss_aliyun_param''] pNodeName"

definition parse_IP_BERTH_FRONT :: "('n, 'f) libxml \<Rightarrow> 'n \<Rightarrow> u8 list \<Rightarrow> u8 list option" where
  "parse_IP_BERTH_FRONT x node = each_child x (\<lambda>cur p.
     if node_name x cur = ''ip'' then at_id x any_id cur (\<lambda>i. at_index i (\<lambda>_. Some (key_int x cur))) p
     else Some p) node"

definition parse_BASIC_PARAM :: "('n, 'f) libxml \<Rightarrow> 'n \<Rightarrow> BASIC_PARAM \<Rightarrow> BASIC_PARAM option" where
  "parse_BASIC_PARAM x node = each_child x (\<lambda>cur p.
     Option.bind (if node_name x cur = ''monitor_type'' then Some (p\<lparr>basic_monitor_type := key_int x cur\<rparr>)
       else if node_name x cur = ''spot_id'' then Some (p\<lparr>basic_spot_id := key_str x cur 16\<rparr>)
       else if node_name x cur = ''road_id'' then Some (p\<lparr>basic_road_id := key_str x cur 20\<rparr>)
       else if node_name x cur = ''spot'' then
           map_option (\<lambda>v. p\<lparr>basic_spot := v\<rparr>) (c_string 100 (key_enc x cur 100 (basic_spot p)))
       else if node_name x cur = ''direction'' then Some (p\<lparr>basic_direction := key_int x cur\<rparr>)
       else if node_name x cur = ''ntp_config_param'' then
           map_option (\<lambda>v. p\<lparr>basic_ntp_config_param := v\<rparr>) (parse_NTP_CONFIG_PARAM x cur (basic_ntp_config_param p))
       else if node_name x cur = ''exp_type'' then Some (p\<lparr>basic_exp_type := key_int x cur\<rparr>)
       else if node_name x cur = ''exp_device_id'' then Some (p\<lparr>basic_exp_device_id := key_str x cur 20\<rparr>)
       else if node_name x cur = ''collect_actor_size'' then Some (p\<lparr>basic_collect_actor_size := key_int x cur\<rparr>)
       else Some p) (\<lambda>p.
     if node_name x cur = ''log_level'' then Some (p\<lparr>basic_log_level := key_int x cur\<rparr>)
     else if node_name x cur = ''data_save'' then
         map_option (\<lambda>v. p\<lparr>basic_data_save := v\<rparr>) (parse_DATA_SAVE x cur (basic_data_save p))
     else if node_name x cur = ''h264_record'' then Some (p\<lparr>basic_h264_record := key_int x cur\<rparr>)
     else if node_name x cur = ''ftp_param_pass_car'' then
         map_option (\<lambda>v. p\<lparr>basic_ftp_param_pass_car := v\<rparr>) (parse_TYPE_FTP_CONFIG_PARAM x cur (basic_ftp_param_pass_car p))
     else if node_name x cur = ''ftp_param_illegal'' then
         map_option (\<lambda>v. p\<lparr>basic_ftp_param_illegal := v\<rparr>) (parse_TYPE_FTP_CONFIG_PARAM x cur (basic_ftp_param_illegal p))
     else if node_name x cur = ''ftp_param_h264'' then
         map_option (\<lambda>v. p\<lparr>basic_ftp_param_h264 := v\<rparr>) (parse_TYPE_FTP_CONFIG_PARAM x cur (basic_ftp_param_h264 p))
     else if node_name x cur = ''ftp_param_h264'' then
         map_option (\<lambda>v. p\<lparr>basic_ftp_param_h264 := v\<rparr>) (parse_TYPE_FTP_CONFIG_PARAM x cur (basic_ftp_param_h264 p))
     else if node_name x cur = ''mq_param'' then
         map_option (\<lambda>v. p\<lparr>basic_mq_param := v\<rparr>) (parse_TYPE_MQ_CONFIG_PARAM x cur (basic_mq_param p))
     else if node_name x cur = ''ip_berth_front'' then
         map_option (\<lambda>v. p\<lparr>basic_ip_berth_front := v\<rparr>) (parse_IP_BERTH_FRONT x cur (basic_ip_berth_front p))
     else if node_name x cur = ''ip_berth_back'' then
         map_option (\<lambda>v. p\<lparr>basic_ip_berth_back := v\<rparr>) (parse_IP_BERTH_FRONT x cur (basic_ip_berth_back p))
     else if node_name x cur = ''oss_aliyun_param'' then
         map_option (\<lambda>v. p\<lparr>basic_oss_aliyun_param := v\<rparr>) (parse_TYPE_OSS_ALIYUN_CONFIG_PARAM x cur (basic_oss_aliyun_param p))
     else Some p)) node"

record SerialParam =
  serial_dev_type :: u16
  serial_bps :: u32
  serial_check :: u16
  serial_data :: u16
  serial_stop :: u16

definition create_SerialParam :: "('n, 'f) libxml \<Rightarrow> SerialParam \<Rightarrow> string \<Rightarrow> 'n option option" where
  "create_SerialParam x p pNodeName = build x
     [text_child x ''dev_type'' (pr_uns (serial_dev_type p)),
      text_child x ''bps'' (pr_int (serial_bps p)),
      text_child x ''check'' (pr_uns (serial_check p)),
      text_child x ''data'' (pr_uns (serial_data p)),
      text_child x ''stop'' (pr_uns (serial_stop p))] pNodeName"

definition parse_SerialParam :: "('n, 'f) libxml \<Rightarrow> 'n \<Rightarrow> SerialParam \<Rightarrow> SerialParam option" where
  "parse_SerialParam x node = each_child x (\<lambda>cur p.
     Option.bind (if node_name x cur = ''dev_type'' then Some (p\<lparr>serial_dev_type := key_int x cur\<rparr>)
       else Some p) (\<lambda>p.
     if node_name x cur = ''bps'' then Some (p\<lparr>serial_bps := key_int x cur\<rparr>)
     else if node_name x cur = ''check'' then Some (p\<lparr>serial_check := key_int x cur\<rparr>)
     else if node_name x cur = ''data'' then Some (p\<lparr>serial_data := key_int x cur\<rparr>)
     else if node_name x cur = ''stop'' then Some (p\<lparr>serial_stop := key_int x cur\<rparr>)
     else Some p)) node"

record IO_cfg =
  io_trigger_type :: u8
  io_mode :: u8
  io_io_drt :: u8

definition create_IOParam :: "('n, 'f) libxml \<Rightarrow> IO_cfg \<Rightarrow> string \<Rightarrow> 'n option option" where
  "create_IOParam x p pNodeName = build x
     [text_child x ''trigger_type'' (pr_uns (io_trigger_type p)),
      text_child x ''mode'' (pr_uns (io_mode p)),
      text_child x ''io_drt'' (pr_uns (io_io_drt p))] pNodeName"

definition parse_IOParam :: "('n, 'f) libxml \<Rightarrow> 'n \<Rightarrow> IO_cfg \<Rightarrow> IO_cfg option" where
  "parse_IOParam x node = each_child x (\<lambda>cur p.
     Option.bind (if node_name x cur = ''trigger_type'' then Some (p\<lparr>io_trigger_type := key_int x cur\<rparr>)
       else Some p) (\<lambda>p.
     Option.bind (if node_name x cur = ''mode'' then Some (p\<lparr>io_mode := key_int x cur\<rparr>)
       else Some p) (\<lambda>p.
     if node_name x cur = ''io_drt'' then Some (p\<lparr>io_io_drt := key_int x cur\<rparr>)
     else Some p))) node"

record Interface_Param =
  intf_serial :: "SerialParam list"
  intf_io_input_params :: "IO_cfg list"
  intf_io_output_params :: "IO_cfg list"

definition create_Interface_Param :: "('n, 'f) libxml \<Rightarrow> Interface_Param \<Rightarrow> string \<Rightarrow> 'n option option" where
  "create_Interface_Param x p pNodeName = build x
     (loop 3 (\<lambda>i. [id_sub_child x i (create_SerialParam x (intf_serial p ! i)) ''serial''])
     @ loop 8 (\<lambda>i. [id_sub_child x i (create_IOParam x (intf_io_input_params p ! i)) ''io_input_params''])
     @ loop 4 (\<lambda>i. [id_sub_child x i (create_IOParam x (intf_io_output_params p ! i)) ''io_output_params''])) pNodeName"

definition parse_Interface_Param :: "('n, 'f) libxml \<Rightarrow> 'n \<Rightarrow> Interface_Param \<Rightarrow> Interface_Param option" where
  "parse_Interface_Param x node = each_child x (\<lambda>cur p.
     if node_name x cur = ''serial'' then at_id x first_digit cur (\<lambda>i p. map_option (\<lambda>v. p\<lparr>intf_serial := v\<rparr>)
         (at_index i (parse_SerialParam x cur) (intf_serial p))) p
     else if node_name x cur = ''io_input_params'' then at_id x first_digit cur (\<lambda>i p. map_option (\<lambda>v. p\<lparr>intf_io_input_params := v\<rparr>)
         (at_index i (parse_IOParam x cur) (intf_io_input_params p))) p
     else if node_name x cur = ''io_output_params'' then at_id x first_digit cur (\<lambda>i p. map_option (\<lambda>v. p\<lparr>intf_io_output_params := v\<rparr>)
         (at_index i (parse_IOParam x cur) (intf_io_output_params p))) p
     else Some p) node"

record Type_info_color =
  color_r :: u32
  color_g :: u32
  color_b :: u32

definition create_Type_info_color :: "('n, 'f) libxml \<Rightarrow> Type_info_color \<Rightarrow> string \<Rightarrow> 'n option option" where
  "create_Type_info_color x p pNodeName = build x
     [text_child x ''r'' (pr_int (color_r p)),
      text_child x ''g'' (pr_int (color_g p)),
      text_child x ''b'' (pr_int (color_b p))] pNodeName"

definition parse_Type_info_color :: "('n, 'f) libxml \<Rightarrow> 'n \<Rightarrow> Type_info_color \<Rightarrow> Type_info_color option" where
  "parse_Type_info_color x node = each_child x (\<lambda>cur p.
     if node_name x cur = ''r'' then Some (p\<lparr>color_r := key_int x cur\<rparr>)
     else if node_name x cur = ''g'' then Some (p\<lparr>color_g := key_int x cur\<rparr>)
     else if node_name x cur = ''b'' then Some (p\<lparr>color_b := key_int x cur\<rparr>)
     else Some p) node"

record Osd_item =
  osditem_switch_on :: u32
  osditem_x :: u32
  osditem_y :: u32
  osditem_is_time :: u32
  osditem_content :: string

definition create_Osd_item :: "('n, 'f) libxml \<Rightarrow> Osd_item \<Rightarrow> string \<Rightarrow> 'n option option" where
  "create_Osd_item x p pNodeName = build x
     [text_child x ''switch_on'' (pr_int (osditem_switch_on p)),
      text_child x ''x'' (pr_int (osditem_x p)),
      text_child x ''y'' (pr_int (osditem_y p)),
      text_child x ''is_time'' (pr_int (osditem_is_time p)),
      enc_child x ''content'' (c_string 40 (osditem_content p))] pNodeName"

definition parse_Osd_item :: "('n, 'f) libxml \<Rightarrow> 'n \<Rightarrow> Osd_item \<Rightarrow> Osd_item option" where
  "parse_Osd_item x node = each_child x (\<lambda>cur p.
     if node_name x cur = ''switch_on'' then Some (p\<lparr>osditem_switch_on := key_int x cur\<rparr>)
     else if node_name x cur = ''x'' then Some (p\<lparr>osditem_x := key_int x cur\<rparr>)
     else if node_name x cur = ''y'' then Some (p\<lparr>osditem_y := key_int x cur\<rparr>)
     else if node_name x cur = ''is_time'' then Some (p\<lparr>osditem_is_time := key_int x cur\<rparr>)
     else if node_name x cur = ''content'' then Some (p\<lparr>osditem_content := key_enc x cur 40 (osditem_content p)\<rparr>)
     else Some p) node"

record Osd_info =
  osdinfo_color :: Type_info_color
  osdinfo_osd_item :: "Osd_item list"

definition create_Osd_info :: "('n, 'f) libxml \<Rightarrow> Osd_info \<Rightarrow> string \<Rightarrow> 'n option option" where
  "create_Osd_info x p pNodeName = build x
     ([sub_child x (create_Type_info_color x (osdinfo_color p)) ''color'']
     @ loop 8 (\<lambda>i. [id_sub_child x i (create_Osd_item x (osdinfo_osd_item p ! i)) ''osd_item''])) pNodeName"

definition parse_Osd_info :: "('n, 'f) libxml \<Rightarrow> 'n \<Rightarrow> Osd_info \<Rightarrow> Osd_info option" where
  "parse_Osd_info x node = each_child x (\<lambda>cur p.
     if node_name x cur = ''color'' then
         map_option (\<lambda>v. p\<lparr>osdinfo_color := v\<rparr>) (parse_Type_info_color x cur (osdinfo_color p))
     else if node_name x cur = ''osd_item'' then at_id x first_digit cur (\<lambda>i p. map_option (\<lambda>v. p\<lparr>osdinfo_osd_item := v\<rparr>)
         (at_index i (parse_Osd_item x cur) (osdinfo_osd_item p))) p
     else Some p) node"

record H264_chanel =
  chanel_h264_on :: u32
  chanel_cast :: u32
  chanel_ip :: "u8 list"
  chanel_port :: u32
  chanel_fps :: u32
  chanel_rate :: u32
  chanel_width :: u32
  chanel_height :: u32
  chanel_osd_info :: Osd_info

definition create_H264_chanel :: "('n, 'f) libxml \<Rightarrow> H264_chanel \<Rightarrow> string \<Rightarrow> 'n option option" where
  "create_H264_chanel x p pNodeName = build x
     ([text_child x ''h264_on'' (pr_int (chanel_h264_on p)),
      text_child x ''cast'' (pr_int (chanel_cast p))]
     @ loop 4 (\<lambda>i. [id_text_child x i ''ip'' (pr_uns (chanel_ip p ! i))])
     @ [text_child x ''port'' (pr_int (chanel_port p)),
      text_child x ''fps'' (pr_int (chanel_fps p)),
      text_child x ''rate'' (pr_int (chanel_rate p)),
      text_child x ''width'' (pr_int (chanel_width p)),
      text_child x ''height'' (pr_int (chanel_height p)),
      sub_child x (create_Osd_info x (chanel_osd_info p)) ''osd_info'']) pNodeName"

definition parse_H264_chanel :: "('n, 'f) libxml \<Rightarrow> 'n \<Rightarrow> H264_chanel \<Rightarrow> H264_chanel option" where
  "parse_H264_chanel x node = each_child x (\<lambda>cur p.
     if node_name x cur = ''h264_on'' then Some (p\<lparr>chanel_h264_on := key_int x cur\<rparr>)
     else if node_name x cur = ''cast'' then Some (p\<lparr>chanel_cast := key_int x cur\<rparr>)
     else if node_name x cur = ''ip'' then at_id x first_digit cur (\<lambda>i p. map_option (\<lambda>v. p\<lparr>chanel_ip := v\<rparr>)
         (at_index i (\<lambda>_. Some (key_int x cur)) (chanel_ip p))) p
     else if node_name x cur = ''port'' then Some (p\<lparr>chanel_port := key_int x cur\<rparr>)
     else if node_name x cur = ''fps'' then Some (p\<lparr>chanel_fps := key_int x cur\<rparr>)
     else if node_name x cur = ''rate'' then Some (p\<lparr>chanel_rate := key_int x cur\<rparr>)
     else if node_name x cur = ''width'' then Some (p\<lparr>chanel_width := key_int x cur\<rparr>)
     else if node_name x cur = ''height'' then Some (p\<lparr>chanel_height := key_int x cur\<rparr>)
     else if node_name x cur = ''osd_info'' then
         map_option (\<lambda>v. p\<lparr>chanel_osd_info := v\<rparr>) (parse_Osd_info x cur (chanel_osd_info p))
     else Some p) node"

record H264_config =
  h264cfg_h264_channel :: "H264_chanel list"

definition create_H264_config :: "('n, 'f) libxml \<Rightarrow> H264_config \<Rightarrow> string \<Rightarrow> 'n option option" where
  "create_H264_config x p pNodeName = build x
     (loop 2 (\<lambda>i. [id_sub_child x i (create_H264_chanel x (h264cfg_h264_channel p ! i)) ''h264_channel''])) pNodeName"

definition parse_H264_config :: "('n, 'f) libxml \<Rightarrow> 'n \<Rightarrow> H264_config \<Rightarrow> H264_config option" where
  "parse_H264_config x node = each_child x (\<lambda>cur p.
     if node_name x cur = ''h264_channel'' then at_id x first_digit cur (\<lambda>i p. map_option (\<lambda>v. p\<lparr>h264cfg_h264_channel := v\<rparr>)
         (at_index i (parse_H264_chanel x cur) (h264cfg_h264_channel p))) p
     else Some p) node"

record ILLEGAL_CODE_INFO =
  illegal_illeagal_type :: u32
  illegal_illeagal_num :: u32

definition create_ILLEGAL_CODE_INFO :: "('n, 'f) libxml \<Rightarrow> ILLEGAL_CODE_INFO \<Rightarrow> string \<Rightarrow> 'n option option" where
  "create_ILLEGAL_CODE_INFO x p pNodeName = build x
     [text_child x ''illeagal_type'' (pr_int (illegal_illeagal_type p)),
      text_child x ''illeagal_num'' (pr_int (illegal_illeagal_num p))] pNodeName"

definition parse_ILLEGAL_CODE_INFO :: "('n, 'f) libxml \<Rightarrow> 'n \<Rightarrow> ILLEGAL_CODE_INFO \<Rightarrow> ILLEGAL_CODE_INFO option" where
  "parse_ILLEGAL_CODE_INFO x node = each_child x (\<lambda>cur p.
     if node_name x cur = ''illeagal_type'' then Some (p\<lparr>illegal_illeagal_type := key_int x cur\<rparr>)
     else if node_name x cur = ''illeagal_num'' then Some (p\<lparr>illegal_illeagal_num := key_int x cur\<rparr>)
     else Some p) node"

record ARM_config =
  arm_basic_param :: BASIC_PARAM
  arm_interface_param :: Interface_Param
  arm_h264_config :: H264_config
  arm_illegal_code_info :: "ILLEGAL_CODE_INFO list"

definition create_ARM_config :: "('n, 'f) libxml \<Rightarrow> ARM_config \<Rightarrow> string \<Rightarrow> 'n option option" where
  "create_ARM_config x p pNodeName = build x
     ([sub_child x (create_BASIC_PARAM x (arm_basic_param p)) ''basic_param'',
      sub_child x (create_Interface_Param x (arm_interface_param p)) ''interface_param'',
      sub_child x (create_H264_config x (arm_h264_config p)) ''h264_config'']
     @ loop 20 (\<lambda>i. [id_sub_child x i (create_ILLEGAL_CODE_INFO x (arm_illegal_code_info p ! i)) ''illegal_code_info''])) pNodeName"

definition parse_ARM_config :: "('n, 'f) libxml \<Rightarrow> 'n \<Rightarrow> ARM_config \<Rightarrow> ARM_config option" where
  "parse_ARM_config x node = each_child x (\<lambda>cur p.
     if node_name x cur = ''basic_param'' then
         map_option (\<lambda>v. p\<lparr>arm_basic_param := v\<rparr>) (parse_BASIC_PARAM x cur (arm_basic_param p))
     else if node_name x cur = ''interface_param'' then
         map_option (\<lambda>v. p\<lparr>arm_interface_param := v\<rparr>) (parse_Interface_Param x cur (arm_interface_param p))
     else if node_name x cur = ''h264_config'' then
         map_option (\<lambda>v. p\<lparr>arm_h264_config := v\<rparr>) (parse_H264_config x cur (arm_h264_config p))
     else if node_name x cur = ''illegal_code_info'' then at_id x id_positive cur (\<lambda>i p. map_option (\<lambda>v. p\<lparr>arm_illegal_code_info := v\<rparr>)
         (at_index i (parse_ILLEGAL_CODE_INFO x cur) (arm_illegal_code_info p))) p
     else Some p) node"

section \<open>What can be written and read\<close>

text \<open>
  \<open>shape\<close> gives the sizes of the arrays; \<open>good\<close> asks besides that the char arrays are terminated and
  hold texts that an XML document admits, those in GBK texts that iconv converts there and back.
\<close>

definition shape_TYPE_FTP_CONFIG_PARAM :: "TYPE_FTP_CONFIG_PARAM \<Rightarrow> bool" where
  "shape_TYPE_FTP_CONFIG_PARAM q \<longleftrightarrow> length (ftp_ip q) = 4"

definition good_TYPE_FTP_CONFIG_PARAM :: "('n, 'f) libxml \<Rightarrow> TYPE_FTP_CONFIG_PARAM \<Rightarrow> bool" where
  "good_TYPE_FTP_CONFIG_PARAM x p \<longleftrightarrow> plain x 32 (ftp_user p)
     \<and> plain x 32 (ftp_passwd p)
     \<and> length (ftp_ip p) = 4"

definition shape_TYPE_MQ_CONFIG_PARAM :: "TYPE_MQ_CONFIG_PARAM \<Rightarrow> bool" where
  "shape_TYPE_MQ_CONFIG_PARAM q \<longleftrightarrow> length (mq_ip q) = 4"

definition good_TYPE_MQ_CONFIG_PARAM :: "('n, 'f) libxml \<Rightarrow> TYPE_MQ_CONFIG_PARAM \<Rightarrow> bool" where
  "good_TYPE_MQ_CONFIG_PARAM x p \<longleftrightarrow> length (mq_ip p) = 4"

definition shape_NTP_CONFIG_PARAM :: "NTP_CONFIG_PARAM \<Rightarrow> bool" where
  "shape_NTP_CONFIG_PARAM q \<longleftrightarrow> length (ntp_NTP_server_ip q) = 4"

definition good_NTP_CONFIG_PARAM :: "('n, 'f) libxml \<Rightarrow> NTP_CONFIG_PARAM \<Rightarrow> bool" where
  "good_NTP_CONFIG_PARAM x p \<longleftrightarrow> length (ntp_NTP_server_ip p) = 4"

definition good_OSS_ALIYUN_PARAM :: "('n, 'f) libxml \<Rightarrow> OSS_ALIYUN_PARAM \<Rightarrow> bool" where
  "good_OSS_ALIYUN_PARAM x p \<longleftrightarrow> plain x 128 (oss_username p)
     \<and> plain x 128 (oss_passwd p)
     \<and> plain x 128 (oss_url p)
     \<and> plain x 128 (oss_bucket_name p)"

definition shape_BASIC_PARAM :: "BASIC_PARAM \<Rightarrow> bool" where
  "shape_BASIC_PARAM q \<longleftrightarrow> shape_NTP_CONFIG_PARAM (basic_ntp_config_param q)
     \<and> shape_TYPE_FTP_CONFIG_PARAM (basic_ftp_param_illegal q)
     \<and> shape_TYPE_FTP_CONFIG_PARAM (basic_ftp_param_pass_car q)
     \<and> shape_TYPE_FTP_CONFIG_PARAM (basic_ftp_param_h264 q)
     \<and> shape_TYPE_MQ_CONFIG_PARAM (basic_mq_param q)
     \<and> length (basic_ip_berth_front q) = 4
     \<and> length (basic_ip_berth_back q) = 4"

definition good_BASIC_PARAM :: "('n, 'f) libxml \<Rightarrow> BASIC_PARAM \<Rightarrow> bool" where
  "good_BASIC_PARAM x p \<longleftrightarrow> plain x 16 (basic_spot_id p)
     \<and> plain x 20 (basic_road_id p)
     \<and> length (basic_spot p) < 100 \<and> converts x 100 (basic_spot p)
     \<and> good_NTP_CONFIG_PARAM x (basic_ntp_config_param p)
     \<and> plain x 20 (basic_exp_device_id p)
     \<and> good_TYPE_FTP_CONFIG_PARAM x (basic_ftp_param_illegal p)
     \<and> good_TYPE_FTP_CONFIG_PARAM x (basic_ftp_param_pass_car p)
     \<and> good_TYPE_FTP_CONFIG_PARAM x (basic_ftp_param_h264 p)
     \<and> good_TYPE_MQ_CONFIG_PARAM x (basic_mq_param p)
     \<and> length (basic_ip_berth_front p) = 4
     \<and> length (basic_ip_berth_back p) = 4
     \<and> good_OSS_ALIYUN_PARAM x (basic_oss_aliyun_param p)"

definition shape_Interface_Param :: "Interface_Param \<Rightarrow> bool" where
  "shape_Interface_Param q \<longleftrightarrow> length (intf_serial q) = 3
     \<and> length (intf_io_input_params q) = 8
     \<and> length (intf_io_output_params q) = 4"

definition good_Interface_Param :: "('n, 'f) libxml \<Rightarrow> Interface_Param \<Rightarrow> bool" where
  "good_Interface_Param x p \<longleftrightarrow> length (intf_serial p) = 3
     \<and> length (intf_io_input_params p) = 8
     \<and> length (intf_io_output_params p) = 4"

definition good_Osd_item :: "('n, 'f) libxml \<Rightarrow> Osd_item \<Rightarrow> bool" where
  "good_Osd_item x p \<longleftrightarrow> length (osditem_content p) < 40 \<and> converts x 40 (osditem_content p)"

definition shape_Osd_info :: "Osd_info \<Rightarrow> bool" where
  "shape_Osd_info q \<longleftrightarrow> length (osdinfo_osd_item q) = 8"

definition good_Osd_info :: "('n, 'f) libxml \<Rightarrow> Osd_info \<Rightarrow> bool" where
  "good_Osd_info x p \<longleftrightarrow> length (osdinfo_osd_item p) = 8
     \<and> list_all (good_Osd_item x) (osdinfo_osd_item p)"

definition shape_H264_chanel :: "H264_chanel \<Rightarrow> bool" where
  "shape_H264_chanel q \<longleftrightarrow> length (chanel_ip q) = 4
     \<and> shape_Osd_info (chanel_osd_info q)"

definition good_H264_chanel :: "('n, 'f) libxml \<Rightarrow> H264_chanel \<Rightarrow> bool" where
  "good_H264_chanel x p \<longleftrightarrow> length (chanel_ip p) = 4
     \<and> good_Osd_info x (chanel_osd_info p)"

definition shape_H264_config :: "H264_config \<Rightarrow> bool" where
  "shape_H264_config q \<longleftrightarrow> length (h264cfg_h264_channel q) = 2
     \<and> list_all shape_H264_chanel (h264cfg_h264_channel q)"

definition good_H264_config :: "('n, 'f) libxml \<Rightarrow> H264_config \<Rightarrow> bool" where
  "good_H264_config x p \<longleftrightarrow> length (h264cfg_h264_channel p) = 2
     \<and> list_all (good_H264_chanel x) (h264cfg_h264_channel p)"

definition shape_ARM_config :: "ARM_config \<Rightarrow> bool" where
  "shape_ARM_config q \<longleftrightarrow> shape_BASIC_PARAM (arm_basic_param q)
     \<and> shape_Interface_Param (arm_interface_param q)
     \<and> shape_H264_config (arm_h264_config q)
     \<and> length (arm_illegal_code_info q) = 20"

definition good_ARM_config :: "('n, 'f) libxml \<Rightarrow> ARM_config \<Rightarrow> bool" where
  "good_ARM_config x p \<longleftrightarrow> good_BASIC_PARAM x (arm_basic_param p)
     \<and> good_Interface_Param x (arm_interface_param p)
     \<and> good_H264_config x (arm_h264_config p)
     \<and> length (arm_illegal_code_info p) = 20"

text \<open>What comes back of \<open>p\<close> when it is read into \<open>q\<close>.\<close>

definition written_NTP :: "NTP_CONFIG_PARAM \<Rightarrow> NTP_CONFIG_PARAM" where
  "written_NTP p = p\<lparr>ntp_NTP_server_ip := [0, 0, 0, 0]\<rparr>"

definition written_BASIC :: "BASIC_PARAM \<Rightarrow> BASIC_PARAM \<Rightarrow> BASIC_PARAM" where
  "written_BASIC p q = p\<lparr>basic_ntp_config_param := written_NTP (basic_ntp_config_param p),
     basic_ip_berth_front := basic_ip_berth_front q, basic_ip_berth_back := basic_ip_berth_back q\<rparr>"

definition written_ARM :: "ARM_config \<Rightarrow> ARM_config \<Rightarrow> ARM_config" where
  "written_ARM p q = p\<lparr>arm_basic_param := written_BASIC (arm_basic_param p) (arm_basic_param q)\<rparr>"

text \<open>A configuration that can be written has arrays of the sizes that reading needs.\<close>

lemma good_shape_TYPE_FTP_CONFIG_PARAM: "good_TYPE_FTP_CONFIG_PARAM x p \<Longrightarrow> shape_TYPE_FTP_CONFIG_PARAM p"
  by (simp add: good_TYPE_FTP_CONFIG_PARAM_def shape_TYPE_FTP_CONFIG_PARAM_def)

lemma good_shape_TYPE_MQ_CONFIG_PARAM: "good_TYPE_MQ_CONFIG_PARAM x p \<Longrightarrow> shape_TYPE_MQ_CONFIG_PARAM p"
  by (simp add: good_TYPE_MQ_CONFIG_PARAM_def shape_TYPE_MQ_CONFIG_PARAM_def)

lemma good_shape_NTP_CONFIG_PARAM: "good_NTP_CONFIG_PARAM x p \<Longrightarrow> shape_NTP_CONFIG_PARAM p"
  by (simp add: good_NTP_CONFIG_PARAM_def shape_NTP_CONFIG_PARAM_def)

lemma good_shape_BASIC_PARAM: "good_BASIC_PARAM x p \<Longrightarrow> shape_BASIC_PARAM p"
  by (auto simp: good_BASIC_PARAM_def shape_BASIC_PARAM_def dest: good_shape_NTP_CONFIG_PARAM good_shape_TYPE_FTP_CONFIG_PARAM good_shape_TYPE_MQ_CONFIG_PARAM)

lemma good_shape_Interface_Param: "good_Interface_Param x p \<Longrightarrow> shape_Interface_Param p"
  by (simp add: good_Interface_Param_def shape_Interface_Param_def list_all_length)

lemma good_shape_Osd_info: "good_Osd_info x p \<Longrightarrow> shape_Osd_info p"
  by (simp add: good_Osd_info_def shape_Osd_info_def list_all_length)

lemma good_shape_H264_chanel: "good_H264_chanel x p \<Longrightarrow> shape_H264_chanel p"
  by (auto simp: good_H264_chanel_def shape_H264_chanel_def dest: good_shape_Osd_info)

lemma good_shape_H264_config: "good_H264_config x p \<Longrightarrow> shape_H264_config p"
  by (auto simp: good_H264_config_def shape_H264_config_def list_all_length dest: good_shape_H264_chanel)

lemma good_shape_ARM_config: "good_ARM_config x p \<Longrightarrow> shape_ARM_config p"
  by (auto simp: good_ARM_config_def shape_ARM_config_def list_all_length dest: good_shape_BASIC_PARAM good_shape_Interface_Param good_shape_H264_config)

lemmas good_shape = good_shape_TYPE_FTP_CONFIG_PARAM good_shape_TYPE_MQ_CONFIG_PARAM good_shape_NTP_CONFIG_PARAM good_shape_BASIC_PARAM good_shape_Interface_Param good_shape_Osd_info good_shape_H264_chanel good_shape_H264_config good_shape_ARM_config

lemma shape_written:
  "good_NTP_CONFIG_PARAM x p \<Longrightarrow> shape_NTP_CONFIG_PARAM (written_NTP p)"
  "good_BASIC_PARAM x b \<Longrightarrow> shape_BASIC_PARAM e \<Longrightarrow> shape_BASIC_PARAM (written_BASIC b e)"
  using good_shape_BASIC_PARAM [of x b]
  by (simp_all add: written_NTP_def written_BASIC_def shape_NTP_CONFIG_PARAM_def shape_BASIC_PARAM_def)

section \<open>What is written is read back\<close>

context libxml_laws
begin

lemma restores_DISK_WRI_DATA: "restores x (create_DISK_WRI_DATA x p) (parse_DISK_WRI_DATA x) (\<lambda>_. True) (\<lambda>_. p)"
  unfolding create_DISK_WRI_DATA_def [abs_def] parse_DISK_WRI_DATA_def [abs_def]
  by (rule restores_eq)
    (rule carries_rules | simp)+

lemma restores_FTP_DATA_CONFIG: "restores x (create_FTP_DATA_CONFIG x p) (parse_FTP_DATA_CONFIG x) (\<lambda>_. True) (\<lambda>_. p)"
  unfolding create_FTP_DATA_CONFIG_def [abs_def] parse_FTP_DATA_CONFIG_def [abs_def]
  by (rule restores_eq)
    (rule carries_rules | simp)+

lemma restores_RESUME_UPLOAD_PARAM: "restores x (create_RESUME_UPLOAD_PARAM x p) (parse_RESUME_UPLOAD_PARAM x) (\<lambda>_. True) (\<lambda>_. p)"
  unfolding create_RESUME_UPLOAD_PARAM_def [abs_def] parse_RESUME_UPLOAD_PARAM_def [abs_def]
  by (rule restores_eq)
    (rule carries_rules | simp)+

lemma restores_DATA_SAVE: "restores x (create_DATA_SAVE x p) (parse_DATA_SAVE x) (\<lambda>_. True) (\<lambda>_. p)"
  unfolding create_DATA_SAVE_def [abs_def] parse_DATA_SAVE_def [abs_def]
  by (rule restores_eq)
    (rule carries_rules
      restores_DISK_WRI_DATA
      restores_FTP_DATA_CONFIG
      restores_RESUME_UPLOAD_PARAM | simp)+

lemma restores_TYPE_FTP_CONFIG_PARAM:
  assumes "good_TYPE_FTP_CONFIG_PARAM x p"
  shows "restores x (create_TYPE_FTP_CONFIG_PARAM x p) (parse_TYPE_FTP_CONFIG_PARAM x) shape_TYPE_FTP_CONFIG_PARAM (\<lambda>_. p)"
  unfolding create_TYPE_FTP_CONFIG_PARAM_def [abs_def] parse_TYPE_FTP_CONFIG_PARAM_def [abs_def]
  by (rule restores_eq)
    (rule carries_ids [where sel = ftp_ip and upd = ftp_ip_update]
      carries_rules
     | use assms in \<open>simp add: good_shape [of x] shape_written [of x] shape_TYPE_FTP_CONFIG_PARAM_def good_TYPE_FTP_CONFIG_PARAM_def field_laws_def; fail\<close>)+

lemma restores_TYPE_MQ_CONFIG_PARAM:
  assumes "good_TYPE_MQ_CONFIG_PARAM x p"
  shows "restores x (create_TYPE_MQ_CONFIG_PARAM x p) (parse_TYPE_MQ_CONFIG_PARAM x) shape_TYPE_MQ_CONFIG_PARAM (\<lambda>_. p)"
  unfolding create_TYPE_MQ_CONFIG_PARAM_def [abs_def] parse_TYPE_MQ_CONFIG_PARAM_def [abs_def]
  by (rule restores_eq)
    (rule carries_ids [where sel = mq_ip and upd = mq_ip_update]
      carries_rules
     | use assms in \<open>simp add: good_shape [of x] shape_written [of x] shape_TYPE_MQ_CONFIG_PARAM_def good_TYPE_MQ_CONFIG_PARAM_def field_laws_def; fail\<close>)+

lemma restores_NTP_CONFIG_PARAM:
  assumes "good_NTP_CONFIG_PARAM x p"
  shows "restores x (create_NTP_CONFIG_PARAM x p) (parse_NTP_CONFIG_PARAM x) shape_NTP_CONFIG_PARAM (\<lambda>_. written_NTP p)"
  unfolding create_NTP_CONFIG_PARAM_def [abs_def] parse_NTP_CONFIG_PARAM_def [abs_def]
  by (rule restores_eq)
    (rule carries_empties [where sel = ntp_NTP_server_ip and upd = ntp_NTP_server_ip_update]
      carries_rules
     | use assms in \<open>simp add: good_shape [of x] shape_written [of x] shape_NTP_CONFIG_PARAM_def good_NTP_CONFIG_PARAM_def written_NTP_def field_laws_def eval_nat_numeral; fail\<close>)+

lemma restores_OSS_ALIYUN_PARAM:
  assumes "good_OSS_ALIYUN_PARAM x p"
  shows "restores x (create_TYPE_OSS_ALIYUN_CONFIG_PARAM x p) (parse_TYPE_OSS_ALIYUN_CONFIG_PARAM x) (\<lambda>_. True) (\<lambda>_. p)"
  unfolding create_TYPE_OSS_ALIYUN_CONFIG_PARAM_def [abs_def] parse_TYPE_OSS_ALIYUN_CONFIG_PARAM_def [abs_def]
  by (rule restores_eq)
    (rule carries_rules
     | use assms in \<open>simp add: good_shape [of x] shape_written [of x] good_OSS_ALIYUN_PARAM_def; fail\<close>)+

lemma restores_BASIC_PARAM:
  assumes "good_BASIC_PARAM x p"
  shows "restores x (create_BASIC_PARAM x p) (parse_BASIC_PARAM x) shape_BASIC_PARAM (written_BASIC p)"
  unfolding create_BASIC_PARAM_def [abs_def] parse_BASIC_PARAM_def [abs_def]
  by (rule restores_eq)
    (rule carries_rules
      restores_NTP_CONFIG_PARAM
      restores_DATA_SAVE
      restores_TYPE_FTP_CONFIG_PARAM
      restores_TYPE_MQ_CONFIG_PARAM
      restores_OSS_ALIYUN_PARAM
     | use assms in \<open>simp add: good_shape [of x] shape_written [of x] shape_BASIC_PARAM_def good_BASIC_PARAM_def written_BASIC_def c_string_def; fail\<close>)+

lemma restores_SerialParam: "restores x (create_SerialParam x p) (parse_SerialParam x) (\<lambda>_. True) (\<lambda>_. p)"
  unfolding create_SerialParam_def [abs_def] parse_SerialParam_def [abs_def]
  by (rule restores_eq)
    (rule carries_rules | simp)+

lemma restores_IO_cfg: "restores x (create_IOParam x p) (parse_IOParam x) (\<lambda>_. True) (\<lambda>_. p)"
  unfolding create_IOParam_def [abs_def] parse_IOParam_def [abs_def]
  by (rule restores_eq)
    (rule carries_rules | simp)+

lemma restores_Interface_Param:
  assumes "good_Interface_Param x p"
  shows "restores x (create_Interface_Param x p) (parse_Interface_Param x) shape_Interface_Param (\<lambda>_. p)"
  unfolding create_Interface_Param_def [abs_def] parse_Interface_Param_def [abs_def]
  by (rule restores_eq)
    (rule carries_structs [where sel = intf_io_output_params and upd = intf_io_output_params_update and mk = "create_IOParam x"]
      carries_structs [where sel = intf_io_input_params and upd = intf_io_input_params_update and mk = "create_IOParam x"]
      carries_structs [where sel = intf_serial and upd = intf_serial_update and mk = "create_SerialParam x"]
      carries_rules
      restores_SerialParam
      restores_IO_cfg
     | use assms in \<open>simp add: good_shape [of x] shape_written [of x] shape_Interface_Param_def good_Interface_Param_def field_laws_def list_all_length nth_list_update; fail\<close>)+

lemma restores_Type_info_color: "restores x (create_Type_info_color x p) (parse_Type_info_color x) (\<lambda>_. True) (\<lambda>_. p)"
  unfolding create_Type_info_color_def [abs_def] parse_Type_info_color_def [abs_def]
  by (rule restores_eq)
    (rule carries_rules | simp)+

lemma restores_Osd_item:
  assumes "good_Osd_item x p"
  shows "restores x (create_Osd_item x p) (parse_Osd_item x) (\<lambda>_. True) (\<lambda>_. p)"
  unfolding create_Osd_item_def [abs_def] parse_Osd_item_def [abs_def]
  by (rule restores_eq)
    (rule carries_rules
     | use assms in \<open>simp add: good_shape [of x] shape_written [of x] good_Osd_item_def; fail\<close>)+

lemma restores_Osd_info:
  assumes "good_Osd_info x p"
  shows "restores x (create_Osd_info x p) (parse_Osd_info x) shape_Osd_info (\<lambda>_. p)"
  unfolding create_Osd_info_def [abs_def] parse_Osd_info_def [abs_def]
  by (rule restores_eq)
    (rule carries_structs [where sel = osdinfo_osd_item and upd = osdinfo_osd_item_update and mk = "create_Osd_item x"]
      carries_rules
      restores_Type_info_color
      restores_Osd_item
     | use assms in \<open>simp add: good_shape [of x] shape_written [of x] shape_Osd_info_def good_Osd_info_def field_laws_def list_all_length nth_list_update; fail\<close>)+

lemma restores_H264_chanel:
  assumes "good_H264_chanel x p"
  shows "restores x (create_H264_chanel x p) (parse_H264_chanel x) shape_H264_chanel (\<lambda>_. p)"
  unfolding create_H264_chanel_def [abs_def] parse_H264_chanel_def [abs_def]
  by (rule restores_eq)
    (rule carries_ids [where sel = chanel_ip and upd = chanel_ip_update]
      carries_rules
      restores_Osd_info
     | use assms in \<open>simp add: good_shape [of x] shape_written [of x] shape_H264_chanel_def good_H264_chanel_def field_laws_def; fail\<close>)+

lemma restores_H264_config:
  assumes "good_H264_config x p"
  shows "restores x (create_H264_config x p) (parse_H264_config x) shape_H264_config (\<lambda>_. p)"
  unfolding create_H264_config_def [abs_def] parse_H264_config_def [abs_def]
  by (rule restores_eq)
    (rule carries_structs [where sel = h264cfg_h264_channel and upd = h264cfg_h264_channel_update and mk = "create_H264_chanel x"]
      carries_rules
      restores_H264_chanel
     | use assms in \<open>simp add: good_shape [of x] shape_written [of x] shape_H264_config_def good_H264_config_def field_laws_def list_all_length nth_list_update; fail\<close>)+

lemma restores_ILLEGAL_CODE_INFO: "restores x (create_ILLEGAL_CODE_INFO x p) (parse_ILLEGAL_CODE_INFO x) (\<lambda>_. True) (\<lambda>_. p)"
  unfolding create_ILLEGAL_CODE_INFO_def [abs_def] parse_ILLEGAL_CODE_INFO_def [abs_def]
  by (rule restores_eq)
    (rule carries_rules | simp)+

lemma restores_ARM_config:
  assumes "good_ARM_config x p"
  shows "restores x (create_ARM_config x p) (parse_ARM_config x) shape_ARM_config (written_ARM p)"
  unfolding create_ARM_config_def [abs_def] parse_ARM_config_def [abs_def]
  by (rule restores_eq)
    (rule carries_structs [where sel = arm_illegal_code_info and upd = arm_illegal_code_info_update and mk = "create_ILLEGAL_CODE_INFO x"]
      carries_rules
      restores_BASIC_PARAM
      restores_Interface_Param
      restores_H264_config
      restores_ILLEGAL_CODE_INFO
     | use assms in \<open>simp add: good_shape [of x] shape_written [of x] shape_ARM_config_def good_ARM_config_def written_ARM_def field_laws_def list_all_length nth_list_update; fail\<close>)+

end

end
