(* ===== verification/Libxml_Dom.thy ===== *)
theory Libxml_Dom
  imports Libxml
begin

text \<open>
  A document tree that has the laws of \<open>libxml_laws\<close>: nodes are elements or texts, a saved document
  is indented wherever an element has element children only, and comes back with the white space
  as text nodes. The conversions of iconv are the identity on the texts both character sets share.
\<close>

datatype dom = Element string "(string \<times> string) list" "dom list" | Text_node string

primrec dom_is_element :: "dom \<Rightarrow> bool" where
  "dom_is_element (Element nm ps ks) = True"
| "dom_is_element (Text_node s) = False"

primrec dom_name :: "dom \<Rightarrow> string" where
  "dom_name (Element nm ps ks) = nm"
| "dom_name (Text_node s) = ''text''"

primrec dom_children :: "dom \<Rightarrow> dom list" where
  "dom_children (Element nm ps ks) = ks"
| "dom_children (Text_node s) = []"

primrec dom_properties :: "dom \<Rightarrow> (string \<times> string) list" where
  "dom_properties (Element nm ps ks) = ps"
| "dom_properties (Text_node s) = []"

primrec dom_content :: "dom \<Rightarrow> string" where
  "dom_content (Element nm ps ks) = concat (map dom_content ks)"
| "dom_content (Text_node s) = s"

primrec dom_add :: "dom \<Rightarrow> dom \<Rightarrow> dom" where
  "dom_add (Element nm ps ks) c = Element nm ps (ks @ [c])"
| "dom_add (Text_node s) c = Text_node (s @ dom_content c)"

primrec dom_prop :: "dom \<Rightarrow> string \<Rightarrow> string \<Rightarrow> dom" where
  "dom_prop (Element nm ps ks) k v = Element nm (ps @ [(k, v)]) ks"
| "dom_prop (Text_node s) k v = Text_node s"

text \<open>The white space that indentation puts in front of a child.\<close>

definition indentation :: dom where
  "indentation = Text_node [char_of (10 :: nat), CHR '' '', CHR '' '']"

primrec indented :: "dom \<Rightarrow> dom" where
  "indented (Element nm ps ks) = (if ks = [] \<or> (\<exists>k \<in> set ks. dom_name k = ''text'') then Element nm ps ks
     else Element nm ps (concat (map (\<lambda>k. [indentation, k]) (map indented ks)) @ [indentation]))"
| "indented (Text_node s) = Text_node s"

definition shared_iconv :: "string \<Rightarrow> string \<Rightarrow> (string \<Rightarrow> nat \<Rightarrow> string) option" where
  "shared_iconv fromcode tocode = (if {fromcode, tocode} \<subseteq> {''GBK'', ''UTF-8''} then Some (\<lambda>s n. take n s) else None)"

definition dom_xml :: "(dom, string \<rightharpoonup> dom) libxml" where
  "dom_xml = \<lparr>xmlNewDoc = True, xmlNewNode = (\<lambda>nm. Some (Element nm [] [])), xmlNewText = Text_node, xmlAddChild = dom_add,
     xmlNewProp = dom_prop, is_element = dom_is_element, node_name = dom_name, node_children = dom_children, node_properties = dom_properties,
     xmlNodeGetContent = dom_content, xmlGetProp = (\<lambda>n. map_of (dom_properties n)),
     xmlSave = (\<lambda>f n fs. fs(f \<mapsto> n)), xmlReadFile = (\<lambda>fs f. map_option (\<lambda>n. Some (indented n)) (fs f)),
     xmlParseMemory = (\<lambda>s. None), xml_valid = printable, iconv = shared_iconv\<rparr>"

lemma dom_xml_simps [simp]:
  "xmlNewDoc dom_xml" "xmlNewNode dom_xml = (\<lambda>nm. Some (Element nm [] []))" "xmlNewText dom_xml = Text_node"
  "is_element dom_xml = dom_is_element" "xmlAddChild dom_xml = dom_add" "xmlNewProp dom_xml = dom_prop" "node_name dom_xml = dom_name"
  "node_children dom_xml = dom_children" "node_properties dom_xml = dom_properties"
  "xmlNodeGetContent dom_xml = dom_content" "xmlGetProp dom_xml = (\<lambda>n. map_of (dom_properties n))"
  "xmlSave dom_xml = (\<lambda>f n fs. fs(f \<mapsto> n))"
  "xmlReadFile dom_xml = (\<lambda>fs f. map_option (\<lambda>n. Some (indented n)) (fs f))"
  "xml_valid dom_xml = printable" "iconv dom_xml = shared_iconv"
  by (simp_all add: dom_xml_def)

lemma dom_name_indented [simp]: "dom_name (indented n) = dom_name n"
  "dom_properties (indented n) = dom_properties n"
  by (cases n; simp)+

lemma indentation_name [simp]: "dom_name indentation = ''text''"
  by (simp add: indentation_def)

lemma reread_same: "reread dom_xml n n"
proof (induction n)
  case (Element nm ps ks)
  have "list_all2 (reread dom_xml) ms ms" if "set ms \<subseteq> set ks" for ms
    using that Element by (intro list.rel_refl_strong) auto
  then show ?case
    by (intro reread_node) (auto simp: elements_def)
qed (intro reread_node; simp add: elements_def)

lemma elements_indented:
  "filter (\<lambda>c. dom_name c \<noteq> ''text'') (concat (map (\<lambda>k. [indentation, k]) ks) @ [indentation])
     = filter (\<lambda>c. dom_name c \<noteq> ''text'') ks"
  by (induction ks) auto

lemma reread_indented: "reread dom_xml n (indented n)"
proof (induction n)
  case (Element nm ps ks)
  show ?case
  proof (cases "ks = [] \<or> (\<exists>k \<in> set ks. dom_name k = ''text'')")
    case True
    then show ?thesis
      using reread_same by simp
  next
    case False
    then have f: "filter (\<lambda>c. dom_name c \<noteq> ''text'') ks = ks"
        "filter (\<lambda>c. dom_name c \<noteq> ''text'') (map indented ks) = map indented ks"
      by (auto simp: filter_id_conv)
    have "list_all2 (reread dom_xml) ks (map indented ks)"
      using Element by (simp add: list_all2_conv_all_nth)
    then show ?thesis
      using False by (intro reread_node) (simp_all add: elements_def elements_indented f del: concat_map_singleton map_map filter_append)
  qed
qed (intro reread_node; simp add: elements_def)

lemma dom_add_facts:
  "dom_name (dom_add n c) = dom_name n" "dom_properties (dom_add n c) = dom_properties n"
  "dom_name (dom_prop n k v) = dom_name n" "dom_children (dom_prop n k v) = dom_children n"
  "dom_content (dom_prop n k v) = dom_content n"
  "dom_is_element n \<Longrightarrow> dom_is_element (dom_add n c)"
  "dom_is_element n \<Longrightarrow> dom_children (dom_add n c) = dom_children n @ [c]"
  "dom_is_element n \<Longrightarrow> dom_properties (dom_prop n k v) = dom_properties n @ [(k, v)]"
  by (cases n; simp)+

interpretation dom: libxml_laws dom_xml
proof unfold_locales
  fix n f fs
  show "\<exists>m. xmlReadFile dom_xml (xmlSave dom_xml f n fs) f = Some (Some m) \<and> reread dom_xml n m"
    using reread_indented by simp
next
  fix n s
  assume "is_element dom_xml n" and "node_children dom_xml n = []"
  then show "xmlNodeGetContent dom_xml (xmlAddChild dom_xml n (xmlNewText dom_xml s)) = s"
    by (cases n) auto
qed (auto simp: dom_add_facts)

end
