(* ===== verification/Xml_File.thy ===== *)
theory Xml_File
  imports Camera_Config Arm_Config Libxml_Dom
begin

text \<open>
  \<open>create_xml_file\<close>, \<open>parse_xml_doc\<close> and \<open>parse_xml_string\<close> (\<open>xml/xmlCreater.c\<close>, \<open>xml/xmlParser.c\<close>): which
  structures go to and come from which documents. The structures of the detection algorithm are
  declared outside of the repository; what the two files do with them is a parameter.
\<close>

record ('n, 'd) dsp_config_ops =
  flag_func :: "'d \<Rightarrow> int"
  set_flag_func :: "int \<Rightarrow> 'd \<Rightarrow> 'd"
  DEV_TYPE :: int
  create_DSP_config :: "'d \<Rightarrow> string \<Rightarrow> 'n option option"
  create_DSP_PD_config :: "'d \<Rightarrow> string \<Rightarrow> 'n option option"
  parse_DSP_config :: "'n \<Rightarrow> 'd \<Rightarrow> 'd option"
  parse_DSP_PD_config :: "'n \<Rightarrow> 'd \<Rightarrow> 'd option"

section \<open>Writing\<close>

text \<open>
  One document with one structure: \<open>None\<close> is a fault, \<open>-1\<close> a document or root that could not be made.
  What \<open>xmlSaveFormatFileEnc\<close> returns is not looked at.
\<close>

definition create_root_node :: "('n, 'f) libxml \<Rightarrow> string \<Rightarrow> 'n option" where
  "create_root_node x pRootName = xmlNewNode x pRootName"

definition write_doc :: "('n, 'f) libxml \<Rightarrow> string \<Rightarrow> string \<Rightarrow> (string \<Rightarrow> 'n option option) \<Rightarrow> string \<Rightarrow> 'f \<Rightarrow> (int \<times> 'f) option" where
  "write_doc x filename pRootName mk pNodeName fs = (if \<not> xmlNewDoc x then Some (-1, fs)
     else case create_root_node x pRootName of
         None \<Rightarrow> Some (-1, fs)
       | Some root \<Rightarrow> (case mk pNodeName of
           None \<Rightarrow> None
         | Some None \<Rightarrow> Some (0, xmlSave x filename root fs)
         | Some (Some child) \<Rightarrow> Some (0, xmlSave x filename (xmlAddChild x root child) fs)))"

definition write_dsp :: "('n, 'f) libxml \<Rightarrow> ('n, 'd) dsp_config_ops \<Rightarrow> string \<Rightarrow> 'd \<Rightarrow> 'f \<Rightarrow> (int \<times> 'f) option" where
  "write_dsp x d filename c fs =
     (if flag_func d c = 1 then write_doc x filename ''vdcs_protocol'' (create_DSP_config d c) ''park_config'' fs
      else if flag_func d c = 2 then write_doc x filename ''vdcs_protocol'' (create_DSP_config d c) ''VM_config'' fs
      else if flag_func d c = 3 then write_doc x filename ''vdcs_protocol'' (create_DSP_config d c) ''VM_P_config'' fs
      else if flag_func d c = 4 then write_doc x filename ''vdcs_protocol'' (create_DSP_PD_config d c) ''VP_config'' fs
      else if flag_func d c = 5 then write_doc x filename ''vdcs_protocol'' (create_DSP_config d c) ''VE_config'' fs
      else Some (0, fs))"

text \<open>A structure that is not given is skipped; the first failure ends the call.\<close>

definition then_write :: "(int \<times> 'f) option \<Rightarrow> ('f \<Rightarrow> (int \<times> 'f) option) \<Rightarrow> (int \<times> 'f) option" where
  "then_write r k = (case r of None \<Rightarrow> None | Some (e, fs) \<Rightarrow> if e = -1 then Some (e, fs) else k fs)"

definition create_xml_file :: "('n, 'f) libxml \<Rightarrow> ('n, 'd) dsp_config_ops \<Rightarrow> string
    \<Rightarrow> 'd option \<Rightarrow> Camera_config option \<Rightarrow> ARM_config option \<Rightarrow> 'f \<Rightarrow> (int \<times> 'f) option" where
  "create_xml_file x d filename pDSP_config pCamera_config pARM_config fs =
     then_write (case pDSP_config of None \<Rightarrow> Some (0, fs) | Some c \<Rightarrow> write_dsp x d filename c fs) (\<lambda>fs.
     then_write (case pCamera_config of None \<Rightarrow> Some (0, fs)
         | Some c \<Rightarrow> write_doc x filename ''epcs_protocol'' (create_Camera_config x c) ''camera_config'' fs) (\<lambda>fs.
     case pARM_config of None \<Rightarrow> Some (0, fs)
         | Some c \<Rightarrow> write_doc x filename ''vdcs_protocol'' (create_ARM_config x c) ''arm_config'' fs))"

section \<open>Reading\<close>

type_synonym 'd configs = "'d option \<times> Camera_config option \<times> ARM_config option"

text \<open>A structure that the caller did not ask for is skipped.\<close>

definition into :: "('a \<Rightarrow> 'a option) \<Rightarrow> 'a option \<Rightarrow> 'a option option" where
  "into parse v = (case v of None \<Rightarrow> Some None | Some c \<Rightarrow> map_option Some (parse c))"

definition parse_config_node :: "('n, 'f) libxml \<Rightarrow> ('n, 'd) dsp_config_ops \<Rightarrow> 'n \<Rightarrow> 'd configs \<Rightarrow> 'd configs option" where
  "parse_config_node x d cur = (\<lambda>(vd, cam, arm).
     if node_name x cur \<in> {''VM_P_config'', ''VM_config'', ''park_config'', ''VE_config''} then
       map_option (\<lambda>v. (v, cam, arm)) (into (\<lambda>c. parse_DSP_config d cur (set_flag_func d (DEV_TYPE d) c)) vd)
     else if node_name x cur = ''VP_config'' then
       map_option (\<lambda>v. (v, cam, arm)) (into (\<lambda>c. parse_DSP_PD_config d cur (set_flag_func d (DEV_TYPE d) c)) vd)
     else if node_name x cur = ''camera_config'' then
       map_option (\<lambda>v. (vd, v, arm)) (into (parse_Camera_config x cur) cam)
     else if node_name x cur = ''arm_config'' then
       map_option (\<lambda>v. (vd, cam, v)) (into (parse_ARM_config x cur) arm)
     else Some (vd, cam, arm))"

text \<open>
  \<open>open_xml_doc\<close> and \<open>get_root_node\<close> fail with \<open>-1\<close>. Before the loop the name of the first child is
  printed, so a root without children is a fault.
\<close>

definition parse_xml_doc :: "('n, 'f) libxml \<Rightarrow> ('n, 'd) dsp_config_ops \<Rightarrow> 'f \<Rightarrow> string \<Rightarrow> 'd configs \<Rightarrow> (int \<times> 'd configs) option" where
  "parse_xml_doc x d fs filename cs = (case xmlReadFile x fs filename of
       None \<Rightarrow> Some (-1, cs)
     | Some None \<Rightarrow> Some (-1, cs)
     | Some (Some root) \<Rightarrow> if node_children x root = [] then None
         else map_option (\<lambda>c. (0, c)) (each_child x (parse_config_node x d) root cs))"

text \<open>The same from memory, for the older name of the algorithm's structure and without the printing.\<close>

definition parse_string_node :: "('n, 'f) libxml \<Rightarrow> ('n, 'd) dsp_config_ops \<Rightarrow> 'n \<Rightarrow> 'd configs \<Rightarrow> 'd configs option" where
  "parse_string_node x d cur = (\<lambda>(vd, cam, arm).
     if node_name x cur = ''vdcs_config'' then map_option (\<lambda>v. (v, cam, arm)) (into (parse_DSP_config d cur) vd)
     else if node_name x cur = ''camera_config'' then
       map_option (\<lambda>v. (vd, v, arm)) (into (parse_Camera_config x cur) cam)
     else if node_name x cur = ''arm_config'' then
       map_option (\<lambda>v. (vd, cam, v)) (into (parse_ARM_config x cur) arm)
     else Some (vd, cam, arm))"

definition parse_xml_string :: "('n, 'f) libxml \<Rightarrow> ('n, 'd) dsp_config_ops \<Rightarrow> string \<Rightarrow> 'd configs \<Rightarrow> (int \<times> 'd configs) option" where
  "parse_xml_string x d buffer cs = (case xmlParseMemory x buffer of
       None \<Rightarrow> Some (-1, cs)
     | Some None \<Rightarrow> Some (-1, cs)
     | Some (Some root) \<Rightarrow> map_option (\<lambda>c. (0, c)) (each_child x (parse_string_node x d) root cs))"

section \<open>Round trips\<close>

context libxml_laws
begin

lemma document_round_trip:
  assumes mk: "restores x mk parse J h" and J: "J e" and nm: "nm \<noteq> ''text''"
    and f: "\<And>m. node_name x m = nm \<Longrightarrow> parse m e = Some (h e) \<Longrightarrow> parse_config_node x d m cs = Some cs'"
  shows "\<exists>fs'. write_doc x filename rootname mk nm fs = Some (0, fs') \<and> parse_xml_doc x d fs' filename cs = Some (0, cs')"
proof -
  obtain root where root: "xmlNewNode x rootname = Some root" "is_element x root" "node_children x root = []"
    using new_node by blast
  obtain c where c: "mk nm = Some (Some c)" "node_name x c = nm" "storable x c"
      "\<And>m e. same_elements x c m \<Longrightarrow> J e \<Longrightarrow> parse m e = Some (h e) \<and> J (h e)"
    using mk unfolding restores_def by blast
  let ?r = "xmlAddChild x root c"
  have el: "elements x ?r = [c]"
    using root c(2) nm by (simp add: elements_def add_child)
  then have "storable x ?r"
    using c(3) by (intro storable_node) simp_all
  then obtain r where r: "xmlReadFile x (xmlSave x filename ?r fs) filename = Some (Some r)" "reread x ?r r"
    using read_saved by blast
  then obtain m where m: "elements x r = [m]" "reread x c m"
    using reread_same_elements [OF r(2)] el by (auto simp: same_elements_def list_all2_Cons1)
  have "node_children x r \<noteq> []"
    using m(1) by (auto simp: elements_def)
  moreover have "parse_config_node x d m cs = Some cs'"
    using f [of m] m(2) c(2,4) J reread_facts(1) reread_same_elements by fastforce
  moreover have "parse_config_node x d n q = Some q" if "node_name x n = ''text''" for n q
    using that by (simp add: parse_config_node_def split: prod.split)
  ultimately have "parse_xml_doc x d (xmlSave x filename ?r fs) filename cs = Some (0, cs')"
    using m r(1) each_node_elements [of x "parse_config_node x d" r cs] by (simp add: parse_xml_doc_def)
  then show ?thesis
    using root(1) c(1) new_doc by (simp add: write_doc_def create_root_node_def)
qed

lemma camera_file_round_trip:
  assumes "shape_Camera_config p" and "shape_Camera_config q"
  shows "\<exists>fs'. create_xml_file x d filename None (Some p) None fs = Some (0, fs')
     \<and> parse_xml_doc x d fs' filename (vd, Some q, arm) = Some (0, (vd, Some p, arm))"
proof -
  have "\<exists>fs'. write_doc x filename ''epcs_protocol'' (create_Camera_config x p) ''camera_config'' fs = Some (0, fs')
     \<and> parse_xml_doc x d fs' filename (vd, Some q, arm) = Some (0, (vd, Some p, arm))"
    by (rule document_round_trip [OF restores_Camera_config [OF assms(1)] assms(2)])
      (simp_all add: parse_config_node_def into_def)
  then show ?thesis
    by (auto simp: create_xml_file_def then_write_def)
qed

lemma arm_file_round_trip:
  assumes "good_ARM_config x p" and "shape_ARM_config q"
  shows "\<exists>fs'. create_xml_file x d filename None None (Some p) fs = Some (0, fs')
     \<and> parse_xml_doc x d fs' filename (vd, cam, Some q) = Some (0, (vd, cam, Some (written_ARM p q)))"
proof -
  have "\<exists>fs'. write_doc x filename ''vdcs_protocol'' (create_ARM_config x p) ''arm_config'' fs = Some (0, fs')
     \<and> parse_xml_doc x d fs' filename (vd, cam, Some q) = Some (0, (vd, cam, Some (written_ARM p q)))"
    by (rule document_round_trip [OF restores_ARM_config [OF assms(1)] assms(2)])
      (simp_all add: parse_config_node_def into_def)
  then show ?thesis
    by (auto simp: create_xml_file_def then_write_def)
qed

end

text \<open>Concrete configurations, for the witnesses.\<close>

definition no_dsp :: "(dom, unit) dsp_config_ops" where
  "no_dsp = \<lparr>flag_func = (\<lambda>_. 0), set_flag_func = (\<lambda>_ u. u), DEV_TYPE = 1, create_DSP_config = (\<lambda>_ _. Some None),
     create_DSP_PD_config = (\<lambda>_ _. Some None), parse_DSP_config = (\<lambda>_. Some), parse_DSP_PD_config = (\<lambda>_. Some)\<rparr>"

definition camera_of :: "u32 \<Rightarrow> Camera_config" where
  "camera_of k = \<lparr>cam_exp_mode = \<lparr>expmode_flag = k\<rparr>, cam_exp_manu = \<lparr>expmanu_exp = 2 * k, expmanu_gain = 3\<rparr>,
     cam_exp_auto = \<lparr>expauto_light_dt_mode = 1, expauto_exp_max = 4000, expauto_gain_max = 60, expauto_exp_mid = 2000,
       expauto_gain_mid = 30, expauto_exp_min = 100, expauto_gain_min = 0\<rparr>,
     cam_exp_wnd = \<lparr>expwnd_line1 = 255, expwnd_line2 = 129, expwnd_line3 = 0, expwnd_line4 = 7, expwnd_line5 = 1,
       expwnd_line6 = 2, expwnd_line7 = 3, expwnd_line8 = 4\<rparr>,
     cam_awb_mode = \<lparr>awbmode_flag = 1\<rparr>, cam_awb_manu = \<lparr>awbmanu_gain_r = 10, awbmanu_gain_g = 20, awbmanu_gain_b = - 30\<rparr>,
     cam_color_param = \<lparr>colorparam_contrast = 5, colorparam_luma = 6, colorparam_saturation = 7\<rparr>,
     cam_syn_info = \<lparr>syn_is_syn_open = 1, syn_phase = 20\<rparr>,
     cam_lamp_info = \<lparr>lamp_nMode = [0, 1, 0, 1], lamp_nLampType = [1, 2, 3, k]\<rparr>\<rparr>"

definition ftp_of :: "u8 \<Rightarrow> TYPE_FTP_CONFIG_PARAM" where
  "ftp_of k = \<lparr>ftp_user = ''epark'', ftp_passwd = ''p<&>w'', ftp_ip = [192, 168, 1, k], ftp_port = 21, ftp_allow_anonymous = 0\<rparr>"

definition arm_of :: "u8 \<Rightarrow> ARM_config" where
  "arm_of k = \<lparr>arm_basic_param = \<lparr>basic_monitor_type = 1, basic_spot_id = ''370200000001'', basic_road_id = ''10021'',
       basic_spot = ''East gate'', basic_direction = 3,
       basic_ntp_config_param = \<lparr>ntp_useNTP = 1, ntp_NTP_server_ip = [192, 168, 1, k], ntp_NTP_distance = 60\<rparr>,
       basic_exp_type = 0, basic_exp_device_id = ''dev1'', basic_collect_actor_size = 12, basic_log_level = 2,
       basic_data_save = \<lparr>save_disk_wri_data = \<lparr>disk_remain_disk = 3000000000, disk_illegal_picture = 1, disk_vehicle = 1,
           disk_event_picture = 0, disk_illegal_video = 65535, disk_event_video = 0, disk_flow_statistics = 1\<rparr>,
         save_ftp_data_config = \<lparr>ftpdata_illegal_picture = 1, ftpdata_vehicle = 1, ftpdata_event_picture = 1,
           ftpdata_illegal_video = 1, ftpdata_event_video = 1, ftpdata_flow_statistics = 1\<rparr>,
         save_resume_upload_data = \<lparr>resume_is_resume_passcar = 1, resume_is_resume_illegal = 0,
           resume_is_resume_event = 0, resume_is_resume_statistics = 1\<rparr>\<rparr>,
       basic_h264_record = 1, basic_ftp_param_illegal = ftp_of 1, basic_ftp_param_pass_car = ftp_of 2,
       basic_ftp_param_h264 = ftp_of k, basic_mq_param = \<lparr>mq_ip = [10, 0, 0, k], mq_port = 61616\<rparr>,
       basic_ip_berth_front = [10, 0, 1, k], basic_ip_berth_back = [10, 0, 2, k],
       basic_oss_aliyun_param = \<lparr>oss_username = ''user'', oss_passwd = ''secret'', oss_url = ''oss.example'',
         oss_bucket_name = ''bucket''\<rparr>\<rparr>,
     arm_interface_param = \<lparr>intf_serial = replicate 3 \<lparr>serial_dev_type = 1, serial_bps = 9600, serial_check = 0,
         serial_data = 8, serial_stop = 1\<rparr>,
       intf_io_input_params = replicate 8 \<lparr>io_trigger_type = 2, io_mode = 1, io_io_drt = 4\<rparr>,
       intf_io_output_params = replicate 4 \<lparr>io_trigger_type = 0, io_mode = 0, io_io_drt = k\<rparr>\<rparr>,
     arm_h264_config = \<lparr>h264cfg_h264_channel = replicate 2 \<lparr>chanel_h264_on = 1, chanel_cast = 0, chanel_ip = [224, 0, 0, k],
       chanel_port = 5000, chanel_fps = 25, chanel_rate = 2000, chanel_width = 1920, chanel_height = 1080,
       chanel_osd_info = \<lparr>osdinfo_color = \<lparr>color_r = 255, color_g = 255, color_b = 0\<rparr>,
         osdinfo_osd_item = replicate 8 \<lparr>osditem_switch_on = 1, osditem_x = 10, osditem_y = 20, osditem_is_time = 0,
           osditem_content = ''Parking''\<rparr>\<rparr>\<rparr>\<rparr>,
     arm_illegal_code_info = replicate 20 \<lparr>illegal_illeagal_type = 3, illegal_illeagal_num = 1039\<rparr>\<rparr>"

lemma camera_of_shape: "shape_Camera_config (camera_of k)"
  by (simp add: camera_of_def shape_Camera_config_def shape_Lamp_Info_def)

lemma dom_plain: "plain dom_xml n s \<longleftrightarrow> length s < n \<and> printable s"
  by (simp add: plain_def)

lemma dom_converts: "length s < 256 \<Longrightarrow> length s \<le> n \<Longrightarrow> printable s \<Longrightarrow> converts dom_xml n s"
  by (simp add: converts_def shared_iconv_def)

lemma arm_of_good: "good_ARM_config dom_xml (arm_of k)"
  unfolding arm_of_def ftp_of_def good_ARM_config_def good_BASIC_PARAM_def good_NTP_CONFIG_PARAM_def
    good_TYPE_FTP_CONFIG_PARAM_def good_TYPE_MQ_CONFIG_PARAM_def good_OSS_ALIYUN_PARAM_def good_Interface_Param_def
    good_H264_config_def good_H264_chanel_def good_Osd_info_def good_Osd_item_def dom_plain
  by (simp add: dom_converts printable_def list_all_length)

text \<open>The camera configuration survives the file. Whatever camera configuration is written by
  \<open>create_xml_file\<close>, with no failure of the library, \<open>parse_xml_doc\<close> of the file succeeds and gives
  every field the value that was written, whatever the structure that it is read into held before.\<close>

theorem camera_configuration_round_trip:
  assumes "libxml_laws x" and "shape_Camera_config p" and "shape_Camera_config q"
  shows "\<exists>fs'. create_xml_file x d filename None (Some p) None fs = Some (0, fs')
     \<and> parse_xml_doc x d fs' filename (vd, Some q, arm) = Some (0, (vd, Some p, arm))"
  by (rule libxml_laws.camera_file_round_trip [OF assms])

theorem camera_configuration_round_trip_witness:
  "\<exists>fs'. create_xml_file dom_xml no_dsp ''/config/camera_config.xml'' None (Some (camera_of 1)) None Map.empty = Some (0, fs')
     \<and> parse_xml_doc dom_xml no_dsp fs' ''/config/camera_config.xml'' (None, Some (camera_of 9), None)
         = Some (0, (None, Some (camera_of 1), None))"
  by (rule camera_configuration_round_trip [OF dom.libxml_laws_axioms camera_of_shape camera_of_shape])

text \<open>C30. What of the application's configuration survives the file. Everything that
  \<open>create_xml_file\<close> is given comes back when the file is parsed, in whatever structure it is parsed into, except for three
  addresses: the NTP server's comes back as 0.0.0.0, as \<open>create_NTP_CONFIG_PARAM\<close> makes the text of
  each byte but does not add it to its node, and those of the two neighbouring berths keep the
  value they had in the structure, as they are not written.\<close>

theorem arm_configuration_round_trip:
  assumes "libxml_laws x" and "good_ARM_config x p" and "shape_ARM_config q"
  shows "\<exists>fs' r. create_xml_file x d filename None None (Some p) fs = Some (0, fs')
     \<and> parse_xml_doc x d fs' filename (vd, cam, Some q) = Some (0, (vd, cam, Some r))
     \<and> r = p\<lparr>arm_basic_param := (arm_basic_param p)
         \<lparr>basic_ntp_config_param := (basic_ntp_config_param (arm_basic_param p))\<lparr>ntp_NTP_server_ip := [0, 0, 0, 0]\<rparr>,
          basic_ip_berth_front := basic_ip_berth_front (arm_basic_param q),
          basic_ip_berth_back := basic_ip_berth_back (arm_basic_param q)\<rparr>\<rparr>"
  using libxml_laws.arm_file_round_trip [OF assms]
  by (simp add: written_ARM_def written_BASIC_def written_NTP_def)

theorem arm_configuration_round_trip_witness:
  "\<exists>fs' r. create_xml_file dom_xml no_dsp ''/config/arm_config.xml'' None None (Some (arm_of 7)) Map.empty = Some (0, fs')
     \<and> parse_xml_doc dom_xml no_dsp fs' ''/config/arm_config.xml'' (None, None, Some (arm_of 9)) = Some (0, (None, None, Some r))
     \<and> r = (arm_of 7)\<lparr>arm_basic_param := (arm_basic_param (arm_of 7))
         \<lparr>basic_ntp_config_param := (basic_ntp_config_param (arm_basic_param (arm_of 7)))\<lparr>ntp_NTP_server_ip := [0, 0, 0, 0]\<rparr>,
          basic_ip_berth_front := basic_ip_berth_front (arm_basic_param (arm_of 9)),
          basic_ip_berth_back := basic_ip_berth_back (arm_basic_param (arm_of 9))\<rparr>\<rparr>"
  by (rule arm_configuration_round_trip
      [OF dom.libxml_laws_axioms arm_of_good good_shape_ARM_config [OF arm_of_good]])

end
