(* ===== verification/Jsonc.thy ===== *)
theory Jsonc
  imports Cstdio
begin

text \<open>
  What the configuration of the entrance controller uses of json-c, as parameters: the calls on
  objects and texts and the locale of their documented laws. A text may be spread by white space
  next to the braces and commas between its values, and it is read as the same object.
\<close>

datatype json_type = json_type_null | json_type_boolean | json_type_double | json_type_int
  | json_type_object | json_type_array | json_type_string

text \<open>
  \<open>'j\<close> is an object with all it holds. The constructors may find no memory; \<open>json_object_pairs\<close> is
  what \<open>json_object_object_foreach\<close> runs over, \<open>json_tokener_parse\<close> is \<open>None\<close> for an error.
\<close>

record 'j jsonc =
  json_object_get_type :: "'j \<Rightarrow> json_type"
  json_object_get_string :: "'j \<Rightarrow> string"
  json_object_get_int :: "'j \<Rightarrow> int"
  json_object_get_boolean :: "'j \<Rightarrow> bool"
  json_object_pairs :: "'j \<Rightarrow> (string \<times> 'j) list"
  json_object_new_object :: "'j option"
  json_object_new_string :: "string \<Rightarrow> 'j option"
  json_object_new_int :: "int \<Rightarrow> 'j option"
  json_object_new_boolean :: "bool \<Rightarrow> 'j option"
  json_object_object_add :: "'j \<Rightarrow> string \<Rightarrow> 'j \<Rightarrow> 'j"
  json_object_to_json_string :: "'j \<Rightarrow> string"
  json_tokener_parse :: "string \<Rightarrow> 'j option"

text \<open>Objects that no call tells apart, as far as the program asks.\<close>

inductive same_json :: "'j jsonc \<Rightarrow> 'j \<Rightarrow> 'j \<Rightarrow> bool" for J where
  same_json: "json_object_get_type J k = json_object_get_type J j
    \<Longrightarrow> (json_object_get_type J j = json_type_string \<longrightarrow> json_object_get_string J k = json_object_get_string J j)
    \<Longrightarrow> (json_object_get_type J j = json_type_int \<longrightarrow> json_object_get_int J k = json_object_get_int J j)
    \<Longrightarrow> (json_object_get_type J j = json_type_boolean \<longrightarrow> json_object_get_boolean J k = json_object_get_boolean J j)
    \<Longrightarrow> (json_object_get_type J j = json_type_object
        \<longrightarrow> list_all2 (rel_prod (=) (same_json J)) (json_object_pairs J j) (json_object_pairs J k))
    \<Longrightarrow> same_json J j k"

inductive_cases same_json_cases: "same_json J j k"

text \<open>Reading a text, one is outside of the string literals, inside of one, or behind a backslash in one.\<close>

datatype where_in = Outside | Inside | Escaped

definition advance :: "where_in \<Rightarrow> char \<Rightarrow> where_in" where
  "advance w c = (case w of
       Outside \<Rightarrow> if c = CHR 0x22 then Inside else Outside
     | Inside \<Rightarrow> if c = CHR 0x22 then Outside else if c = CHR 0x5C then Escaped else Inside
     | Escaped \<Rightarrow> Inside)"

definition is_separator :: "char \<Rightarrow> bool" where
  "is_separator c \<longleftrightarrow> c = CHR ''{'' \<or> c = CHR '','' \<or> c = CHR ''}''"

text \<open>No string literal of the text has a brace or a comma.\<close>

primrec separators_outside :: "where_in \<Rightarrow> string \<Rightarrow> bool" where
  "separators_outside w [] = True"
| "separators_outside w (c # s) = ((is_separator c \<longrightarrow> w = Outside) \<and> separators_outside (advance w c) s)"

text \<open>
  \<open>spread p w s t\<close>: \<open>t\<close> is \<open>s\<close> with white space added behind opening braces and commas and in front of
  closing braces, outside of string literals; \<open>p\<close> tells that the last character allows it.
\<close>

definition is_white :: "char \<Rightarrow> bool" where
  "is_white c \<longleftrightarrow> c = CHR '' '' \<or> c = CHR 0x0A"

definition opens :: "char \<Rightarrow> bool" where
  "opens c \<longleftrightarrow> c = CHR ''{'' \<or> c = CHR '',''"

inductive spread :: "bool \<Rightarrow> where_in \<Rightarrow> string \<Rightarrow> string \<Rightarrow> bool" where
  spread_end: "spread p w [] []"
| spread_char: "spread (opens c \<and> w = Outside) (advance w c) s t \<Longrightarrow> spread p w (c # s) (c # t)"
| spread_white: "is_white b \<Longrightarrow> p \<or> (\<exists>s'. s = CHR ''}'' # s') \<Longrightarrow> spread p Outside s t \<Longrightarrow> spread p Outside s (b # t)"

text \<open>Objects of which no string, nor any key, has a brace or a comma (nor a NUL, as a C string has none).\<close>

definition no_separator :: "string \<Rightarrow> bool" where
  "no_separator s \<longleftrightarrow> (\<forall>c \<in> set s. \<not> is_separator c \<and> c \<noteq> CHR 0x00)"

inductive plain_json :: "'j jsonc \<Rightarrow> 'j \<Rightarrow> bool" for J where
  plain_json: "(json_object_get_type J j = json_type_string \<longrightarrow> no_separator (json_object_get_string J j))
    \<Longrightarrow> (json_object_get_type J j = json_type_object
        \<longrightarrow> list_all (\<lambda>(k, v). no_separator k \<and> plain_json J v) (json_object_pairs J j))
    \<Longrightarrow> json_object_get_type J j \<in> {json_type_string, json_type_int, json_type_boolean, json_type_object}
    \<Longrightarrow> plain_json J j"

definition int32 :: "int \<Rightarrow> bool" where
  "int32 i \<longleftrightarrow> - (2 ^ 31) \<le> i \<and> i < 2 ^ 31"

locale jsonc_laws =
  fixes J :: "'j jsonc"
  assumes new_object: "\<exists>j. json_object_new_object J = Some j \<and> json_object_get_type J j = json_type_object
      \<and> json_object_pairs J j = []"
    and new_string: "\<exists>j. json_object_new_string J s = Some j \<and> json_object_get_type J j = json_type_string
      \<and> json_object_get_string J j = s"
    and new_int: "int32 i \<Longrightarrow> \<exists>j. json_object_new_int J i = Some j \<and> json_object_get_type J j = json_type_int
      \<and> json_object_get_int J j = i"
    and new_boolean: "\<exists>j. json_object_new_boolean J b = Some j \<and> json_object_get_type J j = json_type_boolean
      \<and> json_object_get_boolean J j = b"
    and add_type: "json_object_get_type J j = json_type_object
      \<Longrightarrow> json_object_get_type J (json_object_object_add J j k v) = json_type_object"
    and add_pairs: "json_object_get_type J j = json_type_object \<Longrightarrow> k \<notin> fst ` set (json_object_pairs J j)
      \<Longrightarrow> json_object_pairs J (json_object_object_add J j k v) = json_object_pairs J j @ [(k, v)]"
    and text_separators: "plain_json J j \<Longrightarrow> separators_outside Outside (json_object_to_json_string J j)"
    and text_no_nul: "plain_json J j \<Longrightarrow> CHR 0x00 \<notin> set (json_object_to_json_string J j)"
    and text_object: "json_object_get_type J j = json_type_object
      \<Longrightarrow> \<exists>s. json_object_to_json_string J j = CHR ''{'' # s"
    and parse_text: "plain_json J j \<Longrightarrow> spread False Outside (json_object_to_json_string J j) t
      \<Longrightarrow> \<exists>k. json_tokener_parse J t = Some k \<and> same_json J j k"

end
