(* ===== verification/Json_Cfg.thy ===== *)
theory Json_Cfg
  imports Jsonc
begin

text \<open>
  The tables of configuration items and of names (\<open>ve/config/json_cfg.c\<close>), and the indentation of
  the text that is saved (\<open>ve/config/json_format.c\<close>). The hash table finds what a search through the
  table from its end finds. The indented text is read as the same object when no string has a brace
  or a comma; a text whose strings have too many closing braces makes it several gigabytes long.
\<close>

section \<open>The hash table of items\<close>

definition JSON_CFG_HASH_SIZE :: nat where
  "JSON_CFG_HASH_SIZE = 8"

text \<open>A \<open>char\<close> is unsigned on the target.\<close>

primrec hash_from :: "u32 \<Rightarrow> string \<Rightarrow> u32" where
  "hash_from v [] = v"
| "hash_from v (c # s) = hash_from (v * 37 + of_char c) s"

definition cal_str_hash_val :: "string \<Rightarrow> u32" where
  "cal_str_hash_val s = hash_from 0 s"

definition cal_parser_field_hash_pos :: "string \<Rightarrow> nat" where
  "cal_parser_field_hash_pos s = unat (cal_str_hash_val s mod word_of_nat JSON_CFG_HASH_SIZE)"

text \<open>A table is the list of its chains; an item is put in front of its chain. \<open>fld\<close> gives the name of an item.\<close>

definition json_cfg_parser_add_item :: "('i \<Rightarrow> string) \<Rightarrow> 'i list list \<Rightarrow> 'i \<Rightarrow> 'i list list" where
  "json_cfg_parser_add_item fld jc item = (let addr = cal_parser_field_hash_pos (fld item) in jc[addr := item # jc ! addr])"

definition json_cfg_init :: "('i \<Rightarrow> string) \<Rightarrow> 'i list \<Rightarrow> 'i list list" where
  "json_cfg_init fld tab = foldl (json_cfg_parser_add_item fld) (replicate JSON_CFG_HASH_SIZE []) tab"

definition json_cfg_find :: "('i \<Rightarrow> string) \<Rightarrow> 'i list list \<Rightarrow> string \<Rightarrow> 'i option" where
  "json_cfg_find fld jc s = List.find (\<lambda>item. length (fld item) = length s \<and> fld item = s)
     (jc ! cal_parser_field_hash_pos s)"

lemma hash_pos_less: "cal_parser_field_hash_pos s < JSON_CFG_HASH_SIZE"
  by (simp add: cal_parser_field_hash_pos_def JSON_CFG_HASH_SIZE_def unat_mod)

lemma init_chain:
  "i < JSON_CFG_HASH_SIZE \<Longrightarrow> json_cfg_init fld tab ! i = rev (filter (\<lambda>item. cal_parser_field_hash_pos (fld item) = i) tab)"
  "length (json_cfg_init fld tab) = JSON_CFG_HASH_SIZE"
  by (induction tab rule: rev_induct)
    (auto simp: json_cfg_init_def json_cfg_parser_add_item_def Let_def nth_list_update hash_pos_less)

lemma find_in_filter: "(\<And>y. P y \<Longrightarrow> Q y) \<Longrightarrow> List.find P (filter Q ys) = List.find P ys"
  by (induction ys) auto

lemma find_init: "json_cfg_find fld (json_cfg_init fld tab) s = List.find (\<lambda>item. fld item = s) (rev tab)"
proof -
  have "json_cfg_find fld (json_cfg_init fld tab) s
      = List.find (\<lambda>item. fld item = s) (filter (\<lambda>item. cal_parser_field_hash_pos (fld item) = cal_parser_field_hash_pos s) (rev tab))"
    using hash_pos_less [of s] by (auto simp: json_cfg_find_def init_chain rev_filter intro!: find_cong)
  then show ?thesis
    by (subst (asm) find_in_filter) auto
qed

lemma find_unique: "distinct (map fld tab) \<Longrightarrow> it \<in> set tab \<Longrightarrow> List.find (\<lambda>item. fld item = fld it) tab = Some it"
  by (induction tab) (auto simp: image_iff)

lemma find_distinct: "distinct (map fld tab) \<Longrightarrow> it \<in> set tab \<Longrightarrow> json_cfg_find fld (json_cfg_init fld tab) (fld it) = Some it"
  unfolding find_init by (rule find_unique) (simp_all add: rev_map [symmetric])

section \<open>Names of values\<close>

fun enum2str :: "(int \<times> string) list \<Rightarrow> int \<Rightarrow> string option" where
  "enum2str [] e = None"
| "enum2str ((f, s) # tab) e = (if f = e then Some s else enum2str tab e)"

fun str2enum :: "(int \<times> string) list \<Rightarrow> string \<Rightarrow> int" where
  "str2enum [] s = - 1"
| "str2enum ((e, t) # tab) s = (if length t = length s \<and> t = s then e else str2enum tab s)"

lemma enum2str_in: "enum2str tab e = Some s \<Longrightarrow> (e, s) \<in> set tab"
  by (induction tab e rule: enum2str.induct) (auto split: if_splits)

lemma str2enum_in: "distinct (map snd tab) \<Longrightarrow> (e, s) \<in> set tab \<Longrightarrow> str2enum tab s = e"
  by (induction tab s rule: str2enum.induct) force+

section \<open>Indentation\<close>

text \<open>
  \<open>json_format_stream\<close> of a text into a file that takes \<open>room\<close> more characters: the result, the
  number of characters or \<open>-1\<close>, and what was written. \<open>size_t\<close> has 32 bits.
\<close>

definition breaks :: "char \<Rightarrow> string \<Rightarrow> bool" where
  "breaks c s \<longleftrightarrow> c = CHR ''{'' \<or> c = CHR '','' \<or> take 1 s = ''}''"

definition next_indent :: "u32 \<Rightarrow> u32 \<Rightarrow> char \<Rightarrow> string \<Rightarrow> u32" where
  "next_indent indent indent_len c s =
     (if c = CHR ''{'' then indent_len + indent else if take 1 s = ''}'' then indent_len - indent else indent_len)"

fun format_loop :: "u32 \<Rightarrow> u32 \<Rightarrow> string \<Rightarrow> nat \<Rightarrow> string \<Rightarrow> int \<times> string" where
  "format_loop indent indent_len [] room out = (int (length out), out)"
| "format_loop indent indent_len (c # s) room out =
     (if room = 0 then (- 1, out)
      else let il = next_indent indent indent_len c s in
        if breaks c s then
          if room = 1 then (- 1, out @ [c])
          else if room < 2 + unat il then (- 1, out @ [c, CHR 0x0A] @ replicate (room - 2) (CHR '' ''))
          else format_loop indent il s (room - 2 - unat il) (out @ [c, CHR 0x0A] @ replicate (unat il) (CHR '' ''))
        else format_loop indent il s (room - 1) (out @ [c]))"

definition json_format_stream :: "string \<Rightarrow> u32 \<Rightarrow> nat \<Rightarrow> int \<times> string" where
  "json_format_stream src indent room = (if take 1 src \<noteq> ''{'' then (- 1, []) else format_loop indent 0 src room [])"

text \<open>The whole indented text, and that the loop writes as much of it as there is room for.\<close>

fun indented_text :: "u32 \<Rightarrow> u32 \<Rightarrow> string \<Rightarrow> string" where
  "indented_text indent indent_len [] = []"
| "indented_text indent indent_len (c # s) = (let il = next_indent indent indent_len c s in
     c # (if breaks c s then CHR 0x0A # replicate (unat il) (CHR '' '') else []) @ indented_text indent il s)"

lemma format_loop_text: "format_loop indent il s room out = (let t = indented_text indent il s in
   if length t \<le> room then (int (length (out @ t)), out @ t) else (- 1, out @ take room t))"
proof (induction indent il s room out rule: format_loop.induct)
  case (2 indent il c s room out)
  show ?case
  proof (cases "room = 0")
    case False
    then obtain r where r: "room = Suc r"
      by (cases room) auto
    show ?thesis
    proof (cases "breaks c s")
      case True
      show ?thesis
      proof (cases "room < 2 + unat (next_indent indent il c s)")
        case short: True
        then show ?thesis
          using True False r by (cases r) (auto simp: Let_def min_def)
      next
        case long: False
        then show ?thesis
          using True False r "2.IH"(1) [OF False refl True] by (cases r) (auto simp: Let_def)
      qed
    next
      case nobreak: False
      then show ?thesis
        using False r "2.IH"(2) [OF False refl nobreak] by (auto simp: Let_def)
    qed
  qed (simp add: Let_def)
qed (simp add: Let_def)

lemma json_format_stream_text:
  "json_format_stream src indent room = (if take 1 src \<noteq> ''{'' then (- 1, [])
     else let t = indented_text indent 0 src in if length t \<le> room then (int (length t), t) else (- 1, take room t))"
  by (simp add: json_format_stream_def format_loop_text Let_def)

section \<open>The indented text is read as the same object\<close>

lemma spread_whites:
  "list_all is_white ws \<Longrightarrow> p \<or> (\<exists>s'. s = CHR ''}'' # s') \<Longrightarrow> spread p Outside s t \<Longrightarrow> spread p Outside s (ws @ t)"
  by (induction ws) (auto intro: spread_white)

lemma indented_spread: "separators_outside w s \<Longrightarrow> spread p w s (indented_text indent il s)"
proof (induction s arbitrary: p w il)
  case (Cons c s)
  let ?il = "next_indent indent il c s"
  have rest: "spread (opens c \<and> w = Outside) (advance w c) s (indented_text indent ?il s)"
    using Cons by simp
  show ?case
  proof (cases "breaks c s")
    case True
    have out: "advance w c = Outside \<and> ((opens c \<and> w = Outside) \<or> (\<exists>s'. s = CHR ''}'' # s'))"
    proof (cases "opens c")
      case o: True
      then have "w = Outside"
        using Cons.prems by (auto simp: opens_def is_separator_def)
      then show ?thesis
        using o by (auto simp: opens_def advance_def)
    next
      case False
      then obtain s' where "s = CHR ''}'' # s'"
        using True by (cases s) (auto simp: opens_def breaks_def)
      then show ?thesis
        using Cons.prems by (simp add: is_separator_def)
    qed
    then have o: "advance w c = Outside"
      by simp
    have "spread (opens c \<and> w = Outside) (advance w c) s
        ((CHR 0x0A # replicate (unat ?il) (CHR '' '')) @ indented_text indent ?il s)"
      using rest out unfolding o by (intro spread_whites) (auto simp: is_white_def list_all_iff)
    then show ?thesis
      using True by (auto simp: Let_def intro: spread_char)
  next
    case False
    then show ?thesis
      using rest by (auto simp: Let_def intro: spread_char)
  qed
qed (simp add: spread_end)

context jsonc_laws
begin

lemma indented_text_is_read:
  "plain_json J j \<Longrightarrow> \<exists>k. json_tokener_parse J (indented_text indent 0 (json_object_to_json_string J j)) = Some k
     \<and> same_json J j k"
  by (rule parse_text) (auto intro: indented_spread text_separators)

end

section \<open>Braces in strings\<close>

text \<open>
  The indentation is counted down in front of every closing brace, one in a string included. When
  there are more of them than levels that are open it falls below zero, which as an unsigned
  number is four less than \<open>2 ^ 32\<close>.
\<close>

primrec dips :: "int \<Rightarrow> string \<Rightarrow> bool" where
  "dips k [] = False"
| "dips k (c # s) = (if c = CHR ''{'' then dips (k + 1) s
     else if take 1 s = ''}'' then k = 0 \<or> dips (k - 1) s else dips k s)"

lemma indented_text_dips:
  "dips k s \<Longrightarrow> 0 \<le> k \<Longrightarrow> 2 ^ 32 - 4 \<le> length (indented_text 4 (word_of_int (4 * k)) s)"
proof (induction s arbitrary: k)
  case (Cons c s)
  consider "c = CHR ''{''" | "c \<noteq> CHR ''{''" "take 1 s = ''}''" | "c \<noteq> CHR ''{''" "take 1 s \<noteq> ''}''"
    by blast
  then show ?case
  proof cases
    case 1
    have "word_of_int (4 * k) + 4 = (word_of_int (4 * (k + 1)) :: u32)"
      by (simp add: algebra_simps)
    then show ?thesis
      using Cons.IH [of "k + 1"] Cons.prems 1 by (simp add: next_indent_def Let_def)
  next
    case 2
    show ?thesis
    proof (cases "k = 0")
      case True
      then show ?thesis
        using 2 by (simp add: next_indent_def breaks_def Let_def)
    next
      case False
      have "word_of_int (4 * k) - 4 = (word_of_int (4 * (k - 1)) :: u32)"
        by (simp add: algebra_simps)
      then show ?thesis
        using Cons.IH [of "k - 1"] Cons.prems 2 False by (simp add: next_indent_def Let_def)
    qed
  next
    case 3
    then show ?thesis
      using Cons.IH [of k] Cons.prems by (simp add: next_indent_def Let_def)
  qed
qed simp

section \<open>The same into a buffer\<close>

text \<open>
  \<open>json_format\<close> keeps the last byte of the buffer for the NUL, but writes a line feed without asking
  for room: behind a brace or comma in the last but one byte it fills the last one, and the NUL, or
  the spaces before it, are stored outside. That is \<open>None\<close>.
\<close>

fun buffer_loop :: "u32 \<Rightarrow> u32 \<Rightarrow> nat \<Rightarrow> string \<Rightarrow> string \<Rightarrow> (int \<times> string) option" where
  "buffer_loop indent indent_len d_end [] out = Some (int (length out), out)"
| "buffer_loop indent indent_len d_end (c # s) out =
     (if d_end \<le> length out then Some (- 1, out)
      else if breaks c s then
        if d_end \<le> length out + 1 then None
        else let il = (if c = CHR ''{'' then indent_len + indent else if c = CHR '','' then indent_len else indent_len - indent)
          in buffer_loop indent il d_end s
               (out @ [c, CHR 0x0A] @ replicate (min (unat il) (d_end - length out - 2)) (CHR '' ''))
      else buffer_loop indent indent_len d_end s (out @ [c]))"

definition json_format :: "nat \<Rightarrow> string \<Rightarrow> u32 \<Rightarrow> (int \<times> string) option" where
  "json_format destsz src indent = (if take 1 src \<noteq> ''{'' then Some (- 1, [])
     else if destsz = 0 then None else buffer_loop indent 0 (destsz - 1) src [])"

text \<open>With room for the text both functions write the same, but for a closing brace behind a comma.\<close>

primrec no_comma_brace :: "string \<Rightarrow> bool" where
  "no_comma_brace [] = True"
| "no_comma_brace (c # s) = (\<not> (c = CHR '','' \<and> take 1 s = ''}'') \<and> no_comma_brace s)"

lemma buffer_loop_text:
  "no_comma_brace s \<Longrightarrow> length out + length (indented_text indent il s) \<le> d_end
     \<Longrightarrow> buffer_loop indent il d_end s out = Some (int (length (out @ indented_text indent il s)), out @ indented_text indent il s)"
proof (induction indent il s arbitrary: out rule: indented_text.induct)
  case (2 indent il c s)
  have il: "(if c = CHR ''{'' then il + indent else if c = CHR '','' then il else il - indent) = next_indent indent il c s"
    if "breaks c s"
    using that "2.prems"(1) by (auto simp: next_indent_def breaks_def)
  show ?case
  proof (cases "breaks c s")
    case True
    let ?il = "next_indent indent il c s"
    have room: "length out + (2 + unat ?il + length (indented_text indent ?il s)) \<le> d_end"
      using 2(3) True by (simp add: Let_def)
    then have "min (unat ?il) (d_end - length out - 2) = unat ?il"
      by (simp add: min_def)
    then show ?thesis
      using "2.IH" [OF refl] "2.prems"(1) True room il [OF True] by (simp add: Let_def)
  next
    case False
    then show ?thesis
      using "2.IH" [OF refl] "2.prems" by (simp add: Let_def next_indent_def breaks_def)
  qed
qed simp

lemma json_format_agrees:
  assumes "no_comma_brace src" and "length (indented_text indent 0 src) < destsz"
    and "length (indented_text indent 0 src) \<le> room"
  shows "json_format destsz src indent = Some (json_format_stream src indent room)"
  using assms buffer_loop_text [of src "[]" indent 0 "destsz - 1"]
  by (simp add: json_format_def json_format_stream_text Let_def)

lemma json_format_overflows: "json_format 2 ''{}'' 4 = None"
  by (simp add: json_format_def breaks_def)

end
