(* ===== verification/Ve_Config.thy ===== *)
theory Ve_Config
  imports Json_Cfg
begin

text \<open>
  The configuration of the entrance controller and its conversion to and from JSON objects
  (\<open>ve/config/global_cfg.c\<close>, \<open>dev_cfg.c\<close>, \<open>dev_light_cfg.c\<close>, \<open>dev_led_cfg.c\<close>, \<open>dev_audio_cfg.c\<close>, \<open>dsp_cfg.c\<close>,
  \<open>pfm_cfg.c\<close>, \<open>pfm_bitcom_cfg.c\<close>). A \<open>char\<close> array is the text in front of its NUL. Whatever JSON object is read,
  the values stay in their ranges, and an object that was made from a configuration is read as it.
\<close>

section \<open>Reading and writing a table of items\<close>

text \<open>A getter gives the result and the structure, a setter the object, the structure, which it may correct, and the calls it makes.\<close>

datatype dev_call = Led_set_model u8 | Audio_dev_change u8 | Audio_dev_set_volume u8

record ('j, 'c) json_cfg_item =
  item_field :: string
  item_get :: "'j \<Rightarrow> 'c \<Rightarrow> int \<times> 'c"
  item_set :: "'c \<Rightarrow> 'j option \<times> 'c \<times> dev_call list"
  item_set_cb :: "'c \<Rightarrow> dev_call list"

text \<open>The loops that all the files repeat, over the pairs of an object and over the fields of a table.\<close>

definition read_pair :: "('j, 'c) json_cfg_item list \<Rightarrow> string \<times> 'j \<Rightarrow> 'c \<Rightarrow> 'c" where
  "read_pair tab kv c = (case json_cfg_find item_field (json_cfg_init item_field tab) (fst kv) of
       None \<Rightarrow> c
     | Some item \<Rightarrow> snd (item_get item (snd kv) c))"

definition cfg_read_new :: "'j jsonc \<Rightarrow> ('j, 'c) json_cfg_item list \<Rightarrow> 'j \<Rightarrow> 'c \<Rightarrow> int \<times> 'c" where
  "cfg_read_new J tab obj c = (if json_object_get_type J obj \<noteq> json_type_object then (- 1, c)
     else (0, fold (read_pair tab) (json_object_pairs J obj) c))"

primrec write_fields :: "'j jsonc \<Rightarrow> ('j, 'c) json_cfg_item list list \<Rightarrow> string list \<Rightarrow> 'j \<Rightarrow> 'c \<Rightarrow> 'j \<times> 'c \<times> dev_call list" where
  "write_fields J jc [] root c = (root, c, [])"
| "write_fields J jc (f # fs) root c = (case json_cfg_find item_field jc f of
       None \<Rightarrow> write_fields J jc fs root c
     | Some item \<Rightarrow>
         (let (obj, c1, calls) = item_set item c;
              root1 = (case obj of None \<Rightarrow> root | Some j \<Rightarrow> json_object_object_add J root (item_field item) j);
              (root2, c2, calls2) = write_fields J jc fs root1 c1
          in (root2, c2, calls @ item_set_cb item c1 @ calls2)))"

definition cfg_write_new :: "'j jsonc \<Rightarrow> ('j, 'c) json_cfg_item list \<Rightarrow> 'c \<Rightarrow> 'j option \<times> 'c \<times> dev_call list" where
  "cfg_write_new J tab c = (case json_object_new_object J of
       None \<Rightarrow> (None, c, [])
     | Some root \<Rightarrow>
         (let (root, c, calls) = write_fields J (json_cfg_init item_field tab) (map item_field tab) root c in (Some root, c, calls)))"

text \<open>The forms of getters and setters. \<open>str2enum\<close> gives \<open>-1\<close> for an unknown name, stored as 255.\<close>

definition get_typed :: "'j jsonc \<Rightarrow> json_type \<Rightarrow> ('j \<Rightarrow> 'c \<Rightarrow> 'c) \<Rightarrow> 'j \<Rightarrow> 'c \<Rightarrow> int \<times> 'c" where
  "get_typed J ty f obj c = (if json_object_get_type J obj \<noteq> ty then (- 1, c) else (0, f obj c))"

definition read_enum :: "(int \<times> string) list \<Rightarrow> u8 \<Rightarrow> u8 \<Rightarrow> string \<Rightarrow> u8" where
  "read_enum tab end dft s = (let v = word_of_int (str2enum tab s) in if end \<le> v then dft else v)"

definition read_range :: "int \<Rightarrow> int \<Rightarrow> ('w :: len) word \<Rightarrow> int \<Rightarrow> 'w word" where
  "read_range lo hi dft tmp = (if lo \<le> tmp \<and> tmp \<le> hi then word_of_int tmp else dft)"

definition name_of :: "(int \<times> string) list \<Rightarrow> string \<Rightarrow> u8 \<Rightarrow> string" where
  "name_of tab dft e = (case enum2str tab (uint e) of None \<Rightarrow> dft | Some s \<Rightarrow> s)"

section \<open>IPv4 addresses\<close>

text \<open>\<open>inet_ntop\<close> into a buffer of \<open>n\<close> bytes and \<open>inet_pton\<close>, for \<open>AF_INET\<close>.\<close>

type_synonym in_addr = "u8 \<times> u8 \<times> u8 \<times> u8"

definition dotted :: "in_addr \<Rightarrow> string" where
  "dotted a = (case a of (p, q, r, s) \<Rightarrow>
     dec (unat p) @ ''.'' @ dec (unat q) @ ''.'' @ dec (unat r) @ ''.'' @ dec (unat s))"

definition inet_ntop :: "nat \<Rightarrow> in_addr \<Rightarrow> string option" where
  "inet_ntop n a = (if length (dotted a) < n then Some (dotted a) else None)"

text \<open>An octet has up to three digits, no leading zero, and is below 256.\<close>

definition octet :: "string \<Rightarrow> u8 option" where
  "octet s = (if 1 \<le> length s \<and> length s \<le> 3 \<and> list_all is_digit s \<and> (2 \<le> length s \<longrightarrow> hd s \<noteq> CHR ''0'') \<and> digits 0 s < 256
     then Some (of_nat (digits 0 s)) else None)"

fun dot_parts :: "string \<Rightarrow> string list" where
  "dot_parts [] = [[]]"
| "dot_parts (c # s) = (if c = CHR ''.'' then [] # dot_parts s
     else case dot_parts s of [] \<Rightarrow> [[c]] | p # ps \<Rightarrow> (c # p) # ps)"

definition inet_pton :: "string \<Rightarrow> in_addr option" where
  "inet_pton s = (case map octet (dot_parts s) of
       [Some p, Some q, Some r, Some t] \<Rightarrow> Some (p, q, r, t)
     | _ \<Rightarrow> None)"

section \<open>The structures\<close>

record global_cfg_t =
  prov :: string
  city :: string
  global_run_mode :: u8
  global_ve_mode :: u8
  global_detect_mode :: u8
  global_rg_mode :: u8

record light_cfg_t =
  light_white_bright :: u8
  light_white_mode :: u8

record led_cfg_t =
  led_model :: u8
  reboot_hour :: u8
  reboot_wday :: u8
  led_lattice :: u8
  led_height :: u8
  led_width :: u8
  reboot_enable :: bool
  user_content :: string

record audio_cfg_t =
  audio_model :: u8
  audio_volume :: u8

record dev_cfg_t =
  dev_light :: light_cfg_t
  dev_led :: led_cfg_t
  dev_audio :: audio_cfg_t

record dsp_cfg_t =
  white_list_match :: u8
  capture_mode :: u8
  non_motor_mode :: u8

record pfm_bitcom_cfg_t =
  bc_enable :: bool
  ftp_enable :: bool
  mq_enable :: bool
  http_long :: bool
  serv_ip :: in_addr
  up_port :: u16
  down_port :: u16
  bc_id :: string

record pfm_cfg_t =
  resend_rotate :: u8
  pfm_bitcom :: pfm_bitcom_cfg_t

record ve_cfg_t =
  ve_pfm :: pfm_cfg_t
  ve_dsp :: dsp_cfg_t
  ve_dev :: dev_cfg_t
  ve_global :: global_cfg_t

section \<open>Global settings\<close>

definition detect_mode_tab :: "(int \<times> string) list" where
  "detect_mode_tab = [(0, ''video''), (1, ''coil''), (2, ''mix'')]"

definition ve_mode_tab :: "(int \<times> string) list" where
  "ve_mode_tab = [(0, ''in''), (1, ''out'')]"

definition rg_mode_tab :: "(int \<times> string) list" where
  "rg_mode_tab = [(0, ''front''), (1, ''front_record''), (2, ''background''), (3, ''mix'')]"

definition global_cfg_init :: "global_cfg_t \<Rightarrow> global_cfg_t" where
  "global_cfg_init gc = gc\<lparr>prov := [CHR 0xC9, CHR 0xBD, CHR 0xB6, CHR 0xAB], city := [CHR 0xC7, CHR 0xE0, CHR 0xB5, CHR 0xBA],
     global_detect_mode := 1, global_ve_mode := 0, global_rg_mode := 0\<rparr>"

definition global_get_prov :: "'j jsonc \<Rightarrow> 'j \<Rightarrow> global_cfg_t \<Rightarrow> int \<times> global_cfg_t" where
  "global_get_prov J = get_typed J json_type_string (\<lambda>obj gc. gc\<lparr>prov := snprintf_s 32 (json_object_get_string J obj)\<rparr>)"

definition global_set_prov :: "'j jsonc \<Rightarrow> global_cfg_t \<Rightarrow> 'j option \<times> global_cfg_t \<times> dev_call list" where
  "global_set_prov J gc = (json_object_new_string J (prov gc), gc, [])"

definition global_get_city :: "'j jsonc \<Rightarrow> 'j \<Rightarrow> global_cfg_t \<Rightarrow> int \<times> global_cfg_t" where
  "global_get_city J = get_typed J json_type_string (\<lambda>obj gc. gc\<lparr>city := snprintf_s 32 (json_object_get_string J obj)\<rparr>)"

definition global_set_city :: "'j jsonc \<Rightarrow> global_cfg_t \<Rightarrow> 'j option \<times> global_cfg_t \<times> dev_call list" where
  "global_set_city J gc = (json_object_new_string J (city gc), gc, [])"

definition global_get_detect_mode :: "'j jsonc \<Rightarrow> 'j \<Rightarrow> global_cfg_t \<Rightarrow> int \<times> global_cfg_t" where
  "global_get_detect_mode J = get_typed J json_type_string (\<lambda>obj gc. gc\<lparr>global_detect_mode := read_enum detect_mode_tab 3 1 (json_object_get_string J obj)\<rparr>)"

definition global_set_detect_mode :: "'j jsonc \<Rightarrow> global_cfg_t \<Rightarrow> 'j option \<times> global_cfg_t \<times> dev_call list" where
  "global_set_detect_mode J gc = (json_object_new_string J (name_of detect_mode_tab ''video'' (global_detect_mode gc)), gc, [])"

definition global_get_ve_mode :: "'j jsonc \<Rightarrow> 'j \<Rightarrow> global_cfg_t \<Rightarrow> int \<times> global_cfg_t" where
  "global_get_ve_mode J = get_typed J json_type_string (\<lambda>obj gc. gc\<lparr>global_ve_mode := read_enum ve_mode_tab 2 0 (json_object_get_string J obj)\<rparr>)"

definition global_set_ve_mode :: "'j jsonc \<Rightarrow> global_cfg_t \<Rightarrow> 'j option \<times> global_cfg_t \<times> dev_call list" where
  "global_set_ve_mode J gc = (json_object_new_string J (name_of ve_mode_tab ''in'' (global_ve_mode gc)), gc, [])"

definition global_get_road_gate_mode :: "'j jsonc \<Rightarrow> 'j \<Rightarrow> global_cfg_t \<Rightarrow> int \<times> global_cfg_t" where
  "global_get_road_gate_mode J = get_typed J json_type_string (\<lambda>obj gc. gc\<lparr>global_rg_mode := read_enum rg_mode_tab 4 0 (json_object_get_string J obj)\<rparr>)"

definition global_set_rg_mode :: "'j jsonc \<Rightarrow> global_cfg_t \<Rightarrow> 'j option \<times> global_cfg_t \<times> dev_call list" where
  "global_set_rg_mode J gc = (json_object_new_string J (name_of rg_mode_tab ''front'' (global_rg_mode gc)), gc, [])"

definition global_entry :: "'j jsonc \<Rightarrow> ('j, global_cfg_t) json_cfg_item list" where
  "global_entry J = [
     \<lparr>item_field = ''province'', item_get = global_get_prov J, item_set = global_set_prov J, item_set_cb = (\<lambda>_. [])\<rparr>,
     \<lparr>item_field = ''city'', item_get = global_get_city J, item_set = global_set_city J, item_set_cb = (\<lambda>_. [])\<rparr>,
     \<lparr>item_field = ''detect_mode'', item_get = global_get_detect_mode J, item_set = global_set_detect_mode J, item_set_cb = (\<lambda>_. [])\<rparr>,
     \<lparr>item_field = ''ve_mode'', item_get = global_get_ve_mode J, item_set = global_set_ve_mode J, item_set_cb = (\<lambda>_. [])\<rparr>,
     \<lparr>item_field = ''road_gate_mode'', item_get = global_get_road_gate_mode J, item_set = global_set_rg_mode J, item_set_cb = (\<lambda>_. [])\<rparr>]"

definition global_cfg_read_new :: "'j jsonc \<Rightarrow> 'j \<Rightarrow> ve_cfg_t \<Rightarrow> int \<times> ve_cfg_t" where
  "global_cfg_read_new J obj vc = (let (r, c) = cfg_read_new J (global_entry J) obj (ve_global vc) in (r, vc\<lparr>ve_global := c\<rparr>))"

definition global_cfg_write_new :: "'j jsonc \<Rightarrow> ve_cfg_t \<Rightarrow> 'j option \<times> ve_cfg_t \<times> dev_call list" where
  "global_cfg_write_new J vc = (let (obj, c, calls) = cfg_write_new J (global_entry J) (ve_global vc) in (obj, vc\<lparr>ve_global := c\<rparr>, calls))"

section \<open>White lamp, display and sound\<close>

definition white_mode_tab :: "(int \<times> string) list" where
  "white_mode_tab = [(0, ''night_on''), (1, ''coil_toggle''), (2, ''always_on'')]"

definition dev_light_cfg_init :: "light_cfg_t \<Rightarrow> light_cfg_t" where
  "dev_light_cfg_init lc = lc\<lparr>light_white_bright := 50, light_white_mode := 0\<rparr>"

definition dev_light_get_white_bright :: "'j jsonc \<Rightarrow> 'j \<Rightarrow> light_cfg_t \<Rightarrow> int \<times> light_cfg_t" where
  "dev_light_get_white_bright J = get_typed J json_type_int (\<lambda>obj lc. lc\<lparr>light_white_bright := read_range 0 100 100 (json_object_get_int J obj)\<rparr>)"

definition dev_light_set_white_bright :: "'j jsonc \<Rightarrow> light_cfg_t \<Rightarrow> 'j option \<times> light_cfg_t \<times> dev_call list" where
  "dev_light_set_white_bright J lc = (let lc = (if 100 < light_white_bright lc then lc\<lparr>light_white_bright := 100\<rparr> else lc)
     in (json_object_new_int J (uint (light_white_bright lc)), lc, []))"

definition dev_light_get_white_mode :: "'j jsonc \<Rightarrow> 'j \<Rightarrow> light_cfg_t \<Rightarrow> int \<times> light_cfg_t" where
  "dev_light_get_white_mode J = get_typed J json_type_string (\<lambda>obj lc. lc\<lparr>light_white_mode := read_enum white_mode_tab 3 0 (json_object_get_string J obj)\<rparr>)"

definition dev_light_set_white_mode :: "'j jsonc \<Rightarrow> light_cfg_t \<Rightarrow> 'j option \<times> light_cfg_t \<times> dev_call list" where
  "dev_light_set_white_mode J lc = (json_object_new_string J (name_of white_mode_tab ''night_on'' (light_white_mode lc)), lc, [])"

definition light_entry :: "'j jsonc \<Rightarrow> ('j, light_cfg_t) json_cfg_item list" where
  "light_entry J = [
     \<lparr>item_field = ''white_bright'', item_get = dev_light_get_white_bright J, item_set = dev_light_set_white_bright J, item_set_cb = (\<lambda>_. [])\<rparr>,
     \<lparr>item_field = ''white_mode'', item_get = dev_light_get_white_mode J, item_set = dev_light_set_white_mode J, item_set_cb = (\<lambda>_. [])\<rparr>]"

definition dev_light_cfg_read_new :: "'j jsonc \<Rightarrow> 'j \<Rightarrow> dev_cfg_t \<Rightarrow> int \<times> dev_cfg_t" where
  "dev_light_cfg_read_new J obj dc = (let (r, c) = cfg_read_new J (light_entry J) obj (dev_light dc) in (r, dc\<lparr>dev_light := c\<rparr>))"

definition dev_light_cfg_write_new :: "'j jsonc \<Rightarrow> dev_cfg_t \<Rightarrow> 'j option \<times> dev_cfg_t \<times> dev_call list" where
  "dev_light_cfg_write_new J dc = (let (obj, c, calls) = cfg_write_new J (light_entry J) (dev_light dc) in (obj, dc\<lparr>dev_light := c\<rparr>, calls))"

definition led_model_tab :: "(int \<times> string) list" where
  "led_model_tab = [(0, ''degao''), (1, ''fly_eq20131''), (2, ''listen_a4'')]"

definition dev_led_cfg_init :: "led_cfg_t \<Rightarrow> led_cfg_t" where
  "dev_led_cfg_init lc = lc\<lparr>led_model := 0, reboot_hour := 2, reboot_wday := 6, reboot_enable := False, led_lattice := 16,
     led_width := 64, led_height := 32, user_content := [CHR 0xCC, CHR 0xD8, CHR 0xD2, CHR 0xD7, CHR 0xCD, CHR 0xA3]\<rparr>"

definition dev_led_get_model :: "'j jsonc \<Rightarrow> 'j \<Rightarrow> led_cfg_t \<Rightarrow> int \<times> led_cfg_t" where
  "dev_led_get_model J = get_typed J json_type_string (\<lambda>obj lc. lc\<lparr>led_model := read_enum led_model_tab 3 0 (json_object_get_string J obj)\<rparr>)"

definition dev_led_set_model :: "'j jsonc \<Rightarrow> led_cfg_t \<Rightarrow> 'j option \<times> led_cfg_t \<times> dev_call list" where
  "dev_led_set_model J lc = (json_object_new_string J (name_of led_model_tab ''degao'' (led_model lc)), lc, [])"

definition dev_led_get_reboot_enable :: "'j jsonc \<Rightarrow> 'j \<Rightarrow> led_cfg_t \<Rightarrow> int \<times> led_cfg_t" where
  "dev_led_get_reboot_enable J = get_typed J json_type_boolean (\<lambda>obj lc. lc\<lparr>reboot_enable := json_object_get_boolean J obj\<rparr>)"

definition dev_led_set_reboot_enable :: "'j jsonc \<Rightarrow> led_cfg_t \<Rightarrow> 'j option \<times> led_cfg_t \<times> dev_call list" where
  "dev_led_set_reboot_enable J lc = (json_object_new_boolean J (reboot_enable lc), lc, [])"

definition dev_led_get_reboot_wday :: "'j jsonc \<Rightarrow> 'j \<Rightarrow> led_cfg_t \<Rightarrow> int \<times> led_cfg_t" where
  "dev_led_get_reboot_wday J = get_typed J json_type_int (\<lambda>obj lc. lc\<lparr>reboot_wday := read_range 0 6 5 (json_object_get_int J obj)\<rparr>)"

definition dev_led_set_reboot_wday :: "'j jsonc \<Rightarrow> led_cfg_t \<Rightarrow> 'j option \<times> led_cfg_t \<times> dev_call list" where
  "dev_led_set_reboot_wday J lc = (let lc = (if 6 < reboot_wday lc then lc\<lparr>reboot_wday := 6\<rparr> else lc)
     in (json_object_new_int J (uint (reboot_wday lc)), lc, []))"

definition dev_led_get_reboot_hour :: "'j jsonc \<Rightarrow> 'j \<Rightarrow> led_cfg_t \<Rightarrow> int \<times> led_cfg_t" where
  "dev_led_get_reboot_hour J = get_typed J json_type_int (\<lambda>obj lc. lc\<lparr>reboot_hour := read_range 0 23 2 (json_object_get_int J obj)\<rparr>)"

definition dev_led_set_reboot_hour :: "'j jsonc \<Rightarrow> led_cfg_t \<Rightarrow> 'j option \<times> led_cfg_t \<times> dev_call list" where
  "dev_led_set_reboot_hour J lc = (let lc = (if 23 < reboot_hour lc then lc\<lparr>reboot_hour := 2\<rparr> else lc)
     in (json_object_new_int J (uint (reboot_hour lc)), lc, []))"

definition dev_led_get_user_content :: "'j jsonc \<Rightarrow> 'j \<Rightarrow> led_cfg_t \<Rightarrow> int \<times> led_cfg_t" where
  "dev_led_get_user_content J = get_typed J json_type_string (\<lambda>obj lc. lc\<lparr>user_content := snprintf_s 128 (json_object_get_string J obj)\<rparr>)"

definition dev_led_set_user_content :: "'j jsonc \<Rightarrow> led_cfg_t \<Rightarrow> 'j option \<times> led_cfg_t \<times> dev_call list" where
  "dev_led_set_user_content J lc = (json_object_new_string J (user_content lc), lc, [])"

definition dev_led_get_lattice :: "'j jsonc \<Rightarrow> 'j \<Rightarrow> led_cfg_t \<Rightarrow> int \<times> led_cfg_t" where
  "dev_led_get_lattice J = get_typed J json_type_int (\<lambda>obj lc. lc\<lparr>led_lattice := word_of_int (json_object_get_int J obj)\<rparr>)"

definition dev_led_set_lattice :: "'j jsonc \<Rightarrow> led_cfg_t \<Rightarrow> 'j option \<times> led_cfg_t \<times> dev_call list" where
  "dev_led_set_lattice J lc = (json_object_new_int J (uint (led_lattice lc)), lc, [])"

definition dev_led_get_width :: "'j jsonc \<Rightarrow> 'j \<Rightarrow> led_cfg_t \<Rightarrow> int \<times> led_cfg_t" where
  "dev_led_get_width J = get_typed J json_type_int (\<lambda>obj lc. lc\<lparr>led_width := word_of_int (json_object_get_int J obj)\<rparr>)"

definition dev_led_set_width :: "'j jsonc \<Rightarrow> led_cfg_t \<Rightarrow> 'j option \<times> led_cfg_t \<times> dev_call list" where
  "dev_led_set_width J lc = (json_object_new_int J (uint (led_width lc)), lc, [])"

definition dev_led_get_height :: "'j jsonc \<Rightarrow> 'j \<Rightarrow> led_cfg_t \<Rightarrow> int \<times> led_cfg_t" where
  "dev_led_get_height J = get_typed J json_type_int (\<lambda>obj lc. lc\<lparr>led_height := word_of_int (json_object_get_int J obj)\<rparr>)"

definition dev_led_set_height :: "'j jsonc \<Rightarrow> led_cfg_t \<Rightarrow> 'j option \<times> led_cfg_t \<times> dev_call list" where
  "dev_led_set_height J lc = (json_object_new_int J (uint (led_height lc)), lc, [])"

definition dev_led_set_mode_handle :: "led_cfg_t \<Rightarrow> dev_call list" where
  "dev_led_set_mode_handle lc = [Led_set_model (led_model lc)]"

definition led_entry :: "'j jsonc \<Rightarrow> ('j, led_cfg_t) json_cfg_item list" where
  "led_entry J = [
     \<lparr>item_field = ''model'', item_get = dev_led_get_model J, item_set = dev_led_set_model J, item_set_cb = dev_led_set_mode_handle\<rparr>,
     \<lparr>item_field = ''reboot_enable'', item_get = dev_led_get_reboot_enable J, item_set = dev_led_set_reboot_enable J, item_set_cb = (\<lambda>_. [])\<rparr>,
     \<lparr>item_field = ''reboot_wday'', item_get = dev_led_get_reboot_wday J, item_set = dev_led_set_reboot_wday J, item_set_cb = (\<lambda>_. [])\<rparr>,
     \<lparr>item_field = ''reboot_hour'', item_get = dev_led_get_reboot_hour J, item_set = dev_led_set_reboot_hour J, item_set_cb = (\<lambda>_. [])\<rparr>,
     \<lparr>item_field = ''user_content'', item_get = dev_led_get_user_content J, item_set = dev_led_set_user_content J, item_set_cb = (\<lambda>_. [])\<rparr>,
     \<lparr>item_field = ''lattice'', item_get = dev_led_get_lattice J, item_set = dev_led_set_lattice J, item_set_cb = (\<lambda>_. [])\<rparr>,
     \<lparr>item_field = ''width'', item_get = dev_led_get_width J, item_set = dev_led_set_width J, item_set_cb = (\<lambda>_. [])\<rparr>,
     \<lparr>item_field = ''height'', item_get = dev_led_get_height J, item_set = dev_led_set_height J, item_set_cb = (\<lambda>_. [])\<rparr>]"

definition dev_led_cfg_read_new :: "'j jsonc \<Rightarrow> 'j \<Rightarrow> dev_cfg_t \<Rightarrow> int \<times> dev_cfg_t" where
  "dev_led_cfg_read_new J obj dc = (let (r, c) = cfg_read_new J (led_entry J) obj (dev_led dc) in (r, dc\<lparr>dev_led := c\<rparr>))"

definition dev_led_cfg_write_new :: "'j jsonc \<Rightarrow> dev_cfg_t \<Rightarrow> 'j option \<times> dev_cfg_t \<times> dev_call list" where
  "dev_led_cfg_write_new J dc = (let (obj, c, calls) = cfg_write_new J (led_entry J) (dev_led dc) in (obj, dc\<lparr>dev_led := c\<rparr>, calls))"

definition audio_model_tab :: "(int \<times> string) list" where
  "audio_model_tab = [(0, ''off''), (1, ''local'')]"

definition dev_audio_cfg_init :: "audio_cfg_t \<Rightarrow> audio_cfg_t" where
  "dev_audio_cfg_init ac = ac\<lparr>audio_model := 0, audio_volume := 80\<rparr>"

definition dev_audio_get_model :: "'j jsonc \<Rightarrow> 'j \<Rightarrow> audio_cfg_t \<Rightarrow> int \<times> audio_cfg_t" where
  "dev_audio_get_model J = get_typed J json_type_string (\<lambda>obj ac. ac\<lparr>audio_model := read_enum audio_model_tab 2 0 (json_object_get_string J obj)\<rparr>)"

definition dev_audio_set_model :: "'j jsonc \<Rightarrow> audio_cfg_t \<Rightarrow> 'j option \<times> audio_cfg_t \<times> dev_call list" where
  "dev_audio_set_model J ac = (json_object_new_string J (name_of audio_model_tab ''off'' (audio_model ac)), ac, [])"

definition dev_audio_get_volume :: "'j jsonc \<Rightarrow> 'j \<Rightarrow> audio_cfg_t \<Rightarrow> int \<times> audio_cfg_t" where
  "dev_audio_get_volume J = get_typed J json_type_int (\<lambda>obj ac. ac\<lparr>audio_volume := read_range 0 100 100 (json_object_get_int J obj)\<rparr>)"

definition dev_audio_set_volume :: "'j jsonc \<Rightarrow> audio_cfg_t \<Rightarrow> 'j option \<times> audio_cfg_t \<times> dev_call list" where
  "dev_audio_set_volume J ac = (let ac = (if 100 < audio_volume ac then ac\<lparr>audio_volume := 100\<rparr> else ac)
     in (json_object_new_int J (uint (audio_volume ac)), ac, []))"

definition dev_audio_set_model_handle :: "audio_cfg_t \<Rightarrow> dev_call list" where
  "dev_audio_set_model_handle ac = [Audio_dev_change (audio_model ac)]"

definition dev_audio_set_volume_handle :: "audio_cfg_t \<Rightarrow> dev_call list" where
  "dev_audio_set_volume_handle ac = [Audio_dev_set_volume (audio_volume ac)]"

definition audio_entry :: "'j jsonc \<Rightarrow> ('j, audio_cfg_t) json_cfg_item list" where
  "audio_entry J = [
     \<lparr>item_field = ''model'', item_get = dev_audio_get_model J, item_set = dev_audio_set_model J, item_set_cb = dev_audio_set_model_handle\<rparr>,
     \<lparr>item_field = ''volume'', item_get = dev_audio_get_volume J, item_set = dev_audio_set_volume J, item_set_cb = dev_audio_set_volume_handle\<rparr>]"

definition dev_audio_cfg_read_new :: "'j jsonc \<Rightarrow> 'j \<Rightarrow> dev_cfg_t \<Rightarrow> int \<times> dev_cfg_t" where
  "dev_audio_cfg_read_new J obj dc = (let (r, c) = cfg_read_new J (audio_entry J) obj (dev_audio dc) in (r, dc\<lparr>dev_audio := c\<rparr>))"

definition dev_audio_cfg_write_new :: "'j jsonc \<Rightarrow> dev_cfg_t \<Rightarrow> 'j option \<times> dev_cfg_t \<times> dev_call list" where
  "dev_audio_cfg_write_new J dc = (let (obj, c, calls) = cfg_write_new J (audio_entry J) (dev_audio dc) in (obj, dc\<lparr>dev_audio := c\<rparr>, calls))"

definition dev_cfg_init :: "dev_cfg_t \<Rightarrow> dev_cfg_t" where
  "dev_cfg_init dc = dc\<lparr>dev_light := dev_light_cfg_init (dev_light dc), dev_led := dev_led_cfg_init (dev_led dc)\<rparr>"

definition dev_entry :: "'j jsonc \<Rightarrow> ('j, dev_cfg_t) json_cfg_item list" where
  "dev_entry J = [
     \<lparr>item_field = ''light'', item_get = dev_light_cfg_read_new J, item_set = dev_light_cfg_write_new J, item_set_cb = (\<lambda>_. [])\<rparr>,
     \<lparr>item_field = ''led'', item_get = dev_led_cfg_read_new J, item_set = dev_led_cfg_write_new J, item_set_cb = (\<lambda>_. [])\<rparr>,
     \<lparr>item_field = ''audio'', item_get = dev_audio_cfg_read_new J, item_set = dev_audio_cfg_write_new J, item_set_cb = (\<lambda>_. [])\<rparr>]"

definition dev_cfg_read_new :: "'j jsonc \<Rightarrow> 'j \<Rightarrow> ve_cfg_t \<Rightarrow> int \<times> ve_cfg_t" where
  "dev_cfg_read_new J obj vc = (let (r, c) = cfg_read_new J (dev_entry J) obj (ve_dev vc) in (r, vc\<lparr>ve_dev := c\<rparr>))"

definition dev_cfg_write_new :: "'j jsonc \<Rightarrow> ve_cfg_t \<Rightarrow> 'j option \<times> ve_cfg_t \<times> dev_call list" where
  "dev_cfg_write_new J vc = (let (obj, c, calls) = cfg_write_new J (dev_entry J) (ve_dev vc) in (obj, vc\<lparr>ve_dev := c\<rparr>, calls))"

section \<open>Signal processor and platforms\<close>

definition non_motor_mode_tab :: "(int \<times> string) list" where
  "non_motor_mode_tab = [(0, ''default''), (1, ''unlicensed''), (2, ''non-motor'')]"

definition capture_mode_tab :: "(int \<times> string) list" where
  "capture_mode_tab = [(0, ''default''), (1, ''realtime'')]"

definition dsp_cfg_init :: "dsp_cfg_t \<Rightarrow> dsp_cfg_t" where
  "dsp_cfg_init dc = dc\<lparr>white_list_match := 1, capture_mode := 0, non_motor_mode := 0\<rparr>"

definition dsp_get_white_list_match :: "'j jsonc \<Rightarrow> 'j \<Rightarrow> dsp_cfg_t \<Rightarrow> int \<times> dsp_cfg_t" where
  "dsp_get_white_list_match J = get_typed J json_type_int (\<lambda>obj dc. dc\<lparr>white_list_match := word_of_int (json_object_get_int J obj)\<rparr>)"

definition dsp_set_white_list_match :: "'j jsonc \<Rightarrow> dsp_cfg_t \<Rightarrow> 'j option \<times> dsp_cfg_t \<times> dev_call list" where
  "dsp_set_white_list_match J dc = (json_object_new_int J (uint (white_list_match dc)), dc, [])"

definition dsp_get_non_motor_mode :: "'j jsonc \<Rightarrow> 'j \<Rightarrow> dsp_cfg_t \<Rightarrow> int \<times> dsp_cfg_t" where
  "dsp_get_non_motor_mode J = get_typed J json_type_string (\<lambda>obj dc. dc\<lparr>non_motor_mode := read_enum non_motor_mode_tab 3 0 (json_object_get_string J obj)\<rparr>)"

definition dsp_set_non_motor_mode :: "'j jsonc \<Rightarrow> dsp_cfg_t \<Rightarrow> 'j option \<times> dsp_cfg_t \<times> dev_call list" where
  "dsp_set_non_motor_mode J dc = (json_object_new_string J (name_of non_motor_mode_tab ''default'' (non_motor_mode dc)), dc, [])"

definition dsp_get_capture_mode :: "'j jsonc \<Rightarrow> 'j \<Rightarrow> dsp_cfg_t \<Rightarrow> int \<times> dsp_cfg_t" where
  "dsp_get_capture_mode J = get_typed J json_type_string (\<lambda>obj dc. dc\<lparr>capture_mode := read_enum capture_mode_tab 2 0 (json_object_get_string J obj)\<rparr>)"

definition dsp_set_capture_mode :: "'j jsonc \<Rightarrow> dsp_cfg_t \<Rightarrow> 'j option \<times> dsp_cfg_t \<times> dev_call list" where
  "dsp_set_capture_mode J dc = (json_object_new_string J (name_of capture_mode_tab ''default'' (capture_mode dc)), dc, [])"

definition dsp_entry :: "'j jsonc \<Rightarrow> ('j, dsp_cfg_t) json_cfg_item list" where
  "dsp_entry J = [
     \<lparr>item_field = ''white_list_match'', item_get = dsp_get_white_list_match J, item_set = dsp_set_white_list_match J, item_set_cb = (\<lambda>_. [])\<rparr>,
     \<lparr>item_field = ''non_motor_mode'', item_get = dsp_get_non_motor_mode J, item_set = dsp_set_non_motor_mode J, item_set_cb = (\<lambda>_. [])\<rparr>,
     \<lparr>item_field = ''coil_capture_mode'', item_get = dsp_get_capture_mode J, item_set = dsp_set_capture_mode J, item_set_cb = (\<lambda>_. [])\<rparr>]"

definition dsp_cfg_read_new :: "'j jsonc \<Rightarrow> 'j \<Rightarrow> ve_cfg_t \<Rightarrow> int \<times> ve_cfg_t" where
  "dsp_cfg_read_new J obj vc = (let (r, c) = cfg_read_new J (dsp_entry J) obj (ve_dsp vc) in (r, vc\<lparr>ve_dsp := c\<rparr>))"

definition dsp_cfg_write_new :: "'j jsonc \<Rightarrow> ve_cfg_t \<Rightarrow> 'j option \<times> ve_cfg_t \<times> dev_call list" where
  "dsp_cfg_write_new J vc = (let (obj, c, calls) = cfg_write_new J (dsp_entry J) (ve_dsp vc) in (obj, vc\<lparr>ve_dsp := c\<rparr>, calls))"

definition pfm_bitcom_cfg_init :: "pfm_bitcom_cfg_t \<Rightarrow> pfm_bitcom_cfg_t" where
  "pfm_bitcom_cfg_init bc = bc\<lparr>bc_enable := False, ftp_enable := False, mq_enable := False, http_long := False,
     serv_ip := (case inet_pton ''192.168.9.70'' of Some a \<Rightarrow> a | None \<Rightarrow> serv_ip bc), bc_id := ''3700009099'',
     up_port := 8088, down_port := 2015\<rparr>"

definition pfm_bitcom_get_id :: "'j jsonc \<Rightarrow> 'j \<Rightarrow> pfm_bitcom_cfg_t \<Rightarrow> int \<times> pfm_bitcom_cfg_t" where
  "pfm_bitcom_get_id J = get_typed J json_type_string (\<lambda>obj bc. bc\<lparr>bc_id := snprintf_s 32 (json_object_get_string J obj)\<rparr>)"

definition pfm_bitcom_set_id :: "'j jsonc \<Rightarrow> pfm_bitcom_cfg_t \<Rightarrow> 'j option \<times> pfm_bitcom_cfg_t \<times> dev_call list" where
  "pfm_bitcom_set_id J bc = (json_object_new_string J (bc_id bc), bc, [])"

definition pfm_bitcom_get_enable :: "'j jsonc \<Rightarrow> 'j \<Rightarrow> pfm_bitcom_cfg_t \<Rightarrow> int \<times> pfm_bitcom_cfg_t" where
  "pfm_bitcom_get_enable J = get_typed J json_type_boolean (\<lambda>obj bc. bc\<lparr>bc_enable := json_object_get_boolean J obj\<rparr>)"

definition pfm_bitcom_set_enable :: "'j jsonc \<Rightarrow> pfm_bitcom_cfg_t \<Rightarrow> 'j option \<times> pfm_bitcom_cfg_t \<times> dev_call list" where
  "pfm_bitcom_set_enable J bc = (json_object_new_boolean J (bc_enable bc), bc, [])"

definition pfm_bitcom_get_ftp_enable :: "'j jsonc \<Rightarrow> 'j \<Rightarrow> pfm_bitcom_cfg_t \<Rightarrow> int \<times> pfm_bitcom_cfg_t" where
  "pfm_bitcom_get_ftp_enable J = get_typed J json_type_boolean (\<lambda>obj bc. bc\<lparr>ftp_enable := json_object_get_boolean J obj\<rparr>)"

definition pfm_bitcom_set_ftp_enable :: "'j jsonc \<Rightarrow> pfm_bitcom_cfg_t \<Rightarrow> 'j option \<times> pfm_bitcom_cfg_t \<times> dev_call list" where
  "pfm_bitcom_set_ftp_enable J bc = (json_object_new_boolean J (ftp_enable bc), bc, [])"

definition pfm_bitcom_get_mq_enable :: "'j jsonc \<Rightarrow> 'j \<Rightarrow> pfm_bitcom_cfg_t \<Rightarrow> int \<times> pfm_bitcom_cfg_t" where
  "pfm_bitcom_get_mq_enable J = get_typed J json_type_boolean (\<lambda>obj bc. bc\<lparr>mq_enable := json_object_get_boolean J obj\<rparr>)"

definition pfm_bitcom_set_mq_enable :: "'j jsonc \<Rightarrow> pfm_bitcom_cfg_t \<Rightarrow> 'j option \<times> pfm_bitcom_cfg_t \<times> dev_call list" where
  "pfm_bitcom_set_mq_enable J bc = (json_object_new_boolean J (mq_enable bc), bc, [])"

definition pfm_bitcom_get_serv_ip :: "'j jsonc \<Rightarrow> 'j \<Rightarrow> pfm_bitcom_cfg_t \<Rightarrow> int \<times> pfm_bitcom_cfg_t" where
  "pfm_bitcom_get_serv_ip J = get_typed J json_type_string (\<lambda>obj bc. bc\<lparr>serv_ip := (case inet_pton (json_object_get_string J obj) of Some a \<Rightarrow> a | None \<Rightarrow> (192, 168, 9, 70))\<rparr>)"

definition pfm_bitcom_set_serv_ip :: "'j jsonc \<Rightarrow> pfm_bitcom_cfg_t \<Rightarrow> 'j option \<times> pfm_bitcom_cfg_t \<times> dev_call list" where
  "pfm_bitcom_set_serv_ip J bc = (json_object_new_string J (case inet_ntop 16 (serv_ip bc) of Some s \<Rightarrow> s | None \<Rightarrow> ''192.168.9.70''), bc, [])"

definition pfm_bitcom_get_up_port :: "'j jsonc \<Rightarrow> 'j \<Rightarrow> pfm_bitcom_cfg_t \<Rightarrow> int \<times> pfm_bitcom_cfg_t" where
  "pfm_bitcom_get_up_port J = get_typed J json_type_int (\<lambda>obj bc. bc\<lparr>up_port := read_range 1 65535 8088 (json_object_get_int J obj)\<rparr>)"

definition pfm_bitcom_set_up_port :: "'j jsonc \<Rightarrow> pfm_bitcom_cfg_t \<Rightarrow> 'j option \<times> pfm_bitcom_cfg_t \<times> dev_call list" where
  "pfm_bitcom_set_up_port J bc = (json_object_new_int J (uint (up_port bc)), bc, [])"

definition pfm_bitcom_get_down_port :: "'j jsonc \<Rightarrow> 'j \<Rightarrow> pfm_bitcom_cfg_t \<Rightarrow> int \<times> pfm_bitcom_cfg_t" where
  "pfm_bitcom_get_down_port J = get_typed J json_type_int (\<lambda>obj bc. bc\<lparr>down_port := read_range 1 65535 2015 (json_object_get_int J obj)\<rparr>)"

definition pfm_bitcom_set_down_port :: "'j jsonc \<Rightarrow> pfm_bitcom_cfg_t \<Rightarrow> 'j option \<times> pfm_bitcom_cfg_t \<times> dev_call list" where
  "pfm_bitcom_set_down_port J bc = (json_object_new_int J (uint (down_port bc)), bc, [])"

definition bitcom_entry :: "'j jsonc \<Rightarrow> ('j, pfm_bitcom_cfg_t) json_cfg_item list" where
  "bitcom_entry J = [
     \<lparr>item_field = ''id'', item_get = pfm_bitcom_get_id J, item_set = pfm_bitcom_set_id J, item_set_cb = (\<lambda>_. [])\<rparr>,
     \<lparr>item_field = ''enable'', item_get = pfm_bitcom_get_enable J, item_set = pfm_bitcom_set_enable J, item_set_cb = (\<lambda>_. [])\<rparr>,
     \<lparr>item_field = ''ftp_enable'', item_get = pfm_bitcom_get_ftp_enable J, item_set = pfm_bitcom_set_ftp_enable J, item_set_cb = (\<lambda>_. [])\<rparr>,
     \<lparr>item_field = ''mq_enable'', item_get = pfm_bitcom_get_mq_enable J, item_set = pfm_bitcom_set_mq_enable J, item_set_cb = (\<lambda>_. [])\<rparr>,
     \<lparr>item_field = ''serv_ip'', item_get = pfm_bitcom_get_serv_ip J, item_set = pfm_bitcom_set_serv_ip J, item_set_cb = (\<lambda>_. [])\<rparr>,
     \<lparr>item_field = ''up_port'', item_get = pfm_bitcom_get_up_port J, item_set = pfm_bitcom_set_up_port J, item_set_cb = (\<lambda>_. [])\<rparr>,
     \<lparr>item_field = ''down_port'', item_get = pfm_bitcom_get_down_port J, item_set = pfm_bitcom_set_down_port J, item_set_cb = (\<lambda>_. [])\<rparr>]"

definition pfm_bitcom_cfg_read_new :: "'j jsonc \<Rightarrow> 'j \<Rightarrow> pfm_cfg_t \<Rightarrow> int \<times> pfm_cfg_t" where
  "pfm_bitcom_cfg_read_new J obj pc = (let (r, c) = cfg_read_new J (bitcom_entry J) obj (pfm_bitcom pc) in (r, pc\<lparr>pfm_bitcom := c\<rparr>))"

definition pfm_bitcom_cfg_write_new :: "'j jsonc \<Rightarrow> pfm_cfg_t \<Rightarrow> 'j option \<times> pfm_cfg_t \<times> dev_call list" where
  "pfm_bitcom_cfg_write_new J pc = (let (obj, c, calls) = cfg_write_new J (bitcom_entry J) (pfm_bitcom pc) in (obj, pc\<lparr>pfm_bitcom := c\<rparr>, calls))"

definition pfm_cfg_init :: "pfm_cfg_t \<Rightarrow> pfm_cfg_t" where
  "pfm_cfg_init pc = pc\<lparr>resend_rotate := 10, pfm_bitcom := pfm_bitcom_cfg_init (pfm_bitcom pc)\<rparr>"

definition pfm_get_resend_rotate :: "'j jsonc \<Rightarrow> 'j \<Rightarrow> pfm_cfg_t \<Rightarrow> int \<times> pfm_cfg_t" where
  "pfm_get_resend_rotate J = get_typed J json_type_int (\<lambda>obj pc. pc\<lparr>resend_rotate := word_of_int (json_object_get_int J obj)\<rparr>)"

definition pfm_set_resend_rotate :: "'j jsonc \<Rightarrow> pfm_cfg_t \<Rightarrow> 'j option \<times> pfm_cfg_t \<times> dev_call list" where
  "pfm_set_resend_rotate J pc = (json_object_new_int J (uint (resend_rotate pc)), pc, [])"

definition pfm_entry :: "'j jsonc \<Rightarrow> ('j, pfm_cfg_t) json_cfg_item list" where
  "pfm_entry J = [
     \<lparr>item_field = ''resend_rotate'', item_get = pfm_get_resend_rotate J, item_set = pfm_set_resend_rotate J, item_set_cb = (\<lambda>_. [])\<rparr>,
     \<lparr>item_field = ''bitcom'', item_get = pfm_bitcom_cfg_read_new J, item_set = pfm_bitcom_cfg_write_new J, item_set_cb = (\<lambda>_. [])\<rparr>]"

definition pfm_cfg_read_new :: "'j jsonc \<Rightarrow> 'j \<Rightarrow> ve_cfg_t \<Rightarrow> int \<times> ve_cfg_t" where
  "pfm_cfg_read_new J obj vc = (let (r, c) = cfg_read_new J (pfm_entry J) obj (ve_pfm vc) in (r, vc\<lparr>ve_pfm := c\<rparr>))"

definition pfm_cfg_write_new :: "'j jsonc \<Rightarrow> ve_cfg_t \<Rightarrow> 'j option \<times> ve_cfg_t \<times> dev_call list" where
  "pfm_cfg_write_new J vc = (let (obj, c, calls) = cfg_write_new J (pfm_entry J) (ve_pfm vc) in (obj, vc\<lparr>ve_pfm := c\<rparr>, calls))"

section \<open>The whole configuration\<close>

definition ve_cfg_init :: "ve_cfg_t \<Rightarrow> ve_cfg_t" where
  "ve_cfg_init vc = vc\<lparr>ve_dsp := dsp_cfg_init (ve_dsp vc), ve_global := global_cfg_init (ve_global vc),
     ve_dev := dev_cfg_init (ve_dev vc), ve_pfm := pfm_cfg_init (ve_pfm vc)\<rparr>"

definition root_entry :: "'j jsonc \<Rightarrow> ('j, ve_cfg_t) json_cfg_item list" where
  "root_entry J = [
     \<lparr>item_field = ''global'', item_get = global_cfg_read_new J, item_set = global_cfg_write_new J, item_set_cb = (\<lambda>_. [])\<rparr>,
     \<lparr>item_field = ''device'', item_get = dev_cfg_read_new J, item_set = dev_cfg_write_new J, item_set_cb = (\<lambda>_. [])\<rparr>,
     \<lparr>item_field = ''dsp'', item_get = dsp_cfg_read_new J, item_set = dsp_cfg_write_new J, item_set_cb = (\<lambda>_. [])\<rparr>,
     \<lparr>item_field = ''plateform'', item_get = pfm_cfg_read_new J, item_set = pfm_cfg_write_new J, item_set_cb = (\<lambda>_. [])\<rparr>]"

end
