(* ===== verification/Ve_Config_Correct.thy ===== *)
theory Ve_Config_Correct
  imports Ve_Config
begin

text \<open>
  The configuration stays in its ranges whatever is read, and an object made from a configuration is
  read as it. \<open>item_carries\<close> is the second for one item; a rule for each form of an item gives it, and
  the rule \<open>table_carries\<close> takes it from the items of a table to the structure that has the table.
\<close>

section \<open>Ranges\<close>

definition global_ok :: "global_cfg_t \<Rightarrow> bool" where
  "global_ok gc \<longleftrightarrow> length (prov gc) < 32 \<and> length (city gc) < 32 \<and> global_detect_mode gc < 3 \<and> global_ve_mode gc < 2
     \<and> global_rg_mode gc < 4"

definition light_ok :: "light_cfg_t \<Rightarrow> bool" where
  "light_ok lc \<longleftrightarrow> light_white_bright lc \<le> 100 \<and> light_white_mode lc < 3"

definition led_ok :: "led_cfg_t \<Rightarrow> bool" where
  "led_ok lc \<longleftrightarrow> led_model lc < 3 \<and> reboot_hour lc \<le> 23 \<and> reboot_wday lc \<le> 6 \<and> length (user_content lc) < 128"

definition audio_ok :: "audio_cfg_t \<Rightarrow> bool" where
  "audio_ok ac \<longleftrightarrow> audio_model ac < 2 \<and> audio_volume ac \<le> 100"

definition dsp_ok :: "dsp_cfg_t \<Rightarrow> bool" where
  "dsp_ok dc \<longleftrightarrow> non_motor_mode dc < 3 \<and> capture_mode dc < 2"

definition bitcom_ok :: "pfm_bitcom_cfg_t \<Rightarrow> bool" where
  "bitcom_ok bc \<longleftrightarrow> length (bc_id bc) < 32 \<and> 0 < up_port bc \<and> 0 < down_port bc"

definition dev_ok :: "dev_cfg_t \<Rightarrow> bool" where
  "dev_ok dc \<longleftrightarrow> light_ok (dev_light dc) \<and> led_ok (dev_led dc) \<and> audio_ok (dev_audio dc)"

definition pfm_ok :: "pfm_cfg_t \<Rightarrow> bool" where
  "pfm_ok pc \<longleftrightarrow> bitcom_ok (pfm_bitcom pc)"

definition ve_cfg_ok :: "ve_cfg_t \<Rightarrow> bool" where
  "ve_cfg_ok vc \<longleftrightarrow> global_ok (ve_global vc) \<and> dev_ok (ve_dev vc) \<and> dsp_ok (ve_dsp vc) \<and> pfm_ok (ve_pfm vc)"

lemma read_enum_less: "0 < n \<Longrightarrow> dft < n \<Longrightarrow> read_enum tab n dft s < n"
  by (auto simp: read_enum_def Let_def)

lemma word_of_int_le: "0 \<le> i \<Longrightarrow> i \<le> uint (m :: ('w :: len) word) \<Longrightarrow> word_of_int i \<le> m"
  by (metis order_le_less_trans uint_lt2p uint_word_of_int_eq word_le_def take_bit_int_eq_self)

lemma read_range_le: "0 \<le> lo \<Longrightarrow> hi \<le> uint m \<Longrightarrow> dft \<le> m \<Longrightarrow> read_range lo hi dft i \<le> m"
  by (auto simp: read_range_def intro: word_of_int_le)

lemma read_range_pos:
  assumes "0 < dft" shows "0 < (read_range 1 65535 dft i :: u16)"
proof (cases "1 \<le> i \<and> i \<le> 65535")
  case True
  then have "uint (word_of_int i :: u16) = i"
    by (simp add: uint_word_of_int)
  then show ?thesis
    using True by (simp add: read_range_def word_less_def)
qed (use assms in \<open>auto simp: read_range_def\<close>)

section \<open>Reading keeps the ranges\<close>

definition getter_keeps :: "('c \<Rightarrow> bool) \<Rightarrow> ('j \<Rightarrow> 'c \<Rightarrow> int \<times> 'c) \<Rightarrow> bool" where
  "getter_keeps P g \<longleftrightarrow> (\<forall>v c. P c \<longrightarrow> P (snd (g v c)))"

lemma getter_typed: "(\<And>obj c. P c \<Longrightarrow> P (f obj c)) \<Longrightarrow> getter_keeps P (get_typed J ty f)"
  by (auto simp: getter_keeps_def get_typed_def)

lemma find_item: "json_cfg_find fld (json_cfg_init fld tab) s = Some it \<Longrightarrow> it \<in> set tab"
  by (auto simp: find_init find_Some_iff in_set_conv_nth [symmetric] dest: nth_mem) (metis nth_mem length_rev set_rev)

lemma fold_keeps:
  assumes "\<And>it. it \<in> set tab \<Longrightarrow> getter_keeps P (item_get it)" and "P c"
  shows "P (fold (read_pair tab) kvs c)"
  using assms(2) by (induction kvs arbitrary: c)
    (auto simp: read_pair_def split: option.split dest!: find_item assms(1) [unfolded getter_keeps_def, rule_format])

lemma table_keeps: "(\<And>it. it \<in> set tab \<Longrightarrow> getter_keeps P (item_get it)) \<Longrightarrow> getter_keeps P (cfg_read_new J tab)"
  by (auto simp: getter_keeps_def [of P "cfg_read_new J tab"] cfg_read_new_def intro: fold_keeps)

lemma group_keeps:
  assumes "getter_keeps P (cfg_read_new J tab)" and "\<And>s. Q s \<Longrightarrow> P (sub s)" and "\<And>s c. Q s \<Longrightarrow> P c \<Longrightarrow> Q (upd c s)"
  shows "getter_keeps Q (\<lambda>obj s. case cfg_read_new J tab obj (sub s) of (r, c) \<Rightarrow> (r, upd c s))"
  using assms by (auto simp: getter_keeps_def split: prod.split) (metis snd_conv)

text \<open>The getters.\<close>

lemmas getters =
  global_get_prov_def global_get_city_def global_get_detect_mode_def global_get_ve_mode_def global_get_road_gate_mode_def
    dev_light_get_white_bright_def dev_light_get_white_mode_def dev_led_get_model_def dev_led_get_reboot_enable_def
    dev_led_get_reboot_wday_def dev_led_get_reboot_hour_def dev_led_get_user_content_def dev_led_get_lattice_def
    dev_led_get_width_def dev_led_get_height_def dev_audio_get_model_def dev_audio_get_volume_def
    dsp_get_white_list_match_def dsp_get_non_motor_mode_def dsp_get_capture_mode_def pfm_bitcom_get_id_def
    pfm_bitcom_get_enable_def pfm_bitcom_get_ftp_enable_def pfm_bitcom_get_mq_enable_def pfm_bitcom_get_serv_ip_def
    pfm_bitcom_get_up_port_def pfm_bitcom_get_down_port_def pfm_get_resend_rotate_def

lemmas tables = global_entry_def light_entry_def led_entry_def audio_entry_def dev_entry_def dsp_entry_def bitcom_entry_def
  pfm_entry_def root_entry_def

lemmas ok_defs = global_ok_def light_ok_def led_ok_def audio_ok_def dsp_ok_def bitcom_ok_def dev_ok_def pfm_ok_def ve_cfg_ok_def

lemma u16_pos: "0 < (8088 :: u16)" "0 < (2015 :: u16)"
  by simp_all

lemmas in_range = snprintf_s_def read_enum_less read_range_le read_range_pos [OF u16_pos(1)] read_range_pos [OF u16_pos(2)]

lemma global_keeps: "it \<in> set (global_entry J) \<Longrightarrow> getter_keeps global_ok (item_get it)"
  by (auto simp: tables getters ok_defs in_range intro!: getter_typed)

lemma light_keeps: "it \<in> set (light_entry J) \<Longrightarrow> getter_keeps light_ok (item_get it)"
  by (auto simp: tables getters ok_defs in_range intro!: getter_typed)

lemma led_keeps: "it \<in> set (led_entry J) \<Longrightarrow> getter_keeps led_ok (item_get it)"
  by (auto simp: tables getters ok_defs in_range intro!: getter_typed)

lemma audio_keeps: "it \<in> set (audio_entry J) \<Longrightarrow> getter_keeps audio_ok (item_get it)"
  by (auto simp: tables getters ok_defs in_range intro!: getter_typed)

lemma dsp_keeps: "it \<in> set (dsp_entry J) \<Longrightarrow> getter_keeps dsp_ok (item_get it)"
  by (auto simp: tables getters ok_defs in_range intro!: getter_typed)

lemma bitcom_keeps: "it \<in> set (bitcom_entry J) \<Longrightarrow> getter_keeps bitcom_ok (item_get it)"
  by (auto simp: tables getters ok_defs in_range intro!: getter_typed)

lemmas group_reads = global_cfg_read_new_def dev_light_cfg_read_new_def dev_led_cfg_read_new_def dev_audio_cfg_read_new_def
  dev_cfg_read_new_def dsp_cfg_read_new_def pfm_bitcom_cfg_read_new_def pfm_cfg_read_new_def

lemma dev_keeps: "it \<in> set (dev_entry J) \<Longrightarrow> getter_keeps dev_ok (item_get it)"
  by (auto simp: dev_entry_def group_reads [abs_def] dev_ok_def
      intro!: group_keeps [OF table_keeps [OF light_keeps]] group_keeps [OF table_keeps [OF led_keeps]]
        group_keeps [OF table_keeps [OF audio_keeps]])

lemma pfm_keeps: "it \<in> set (pfm_entry J) \<Longrightarrow> getter_keeps pfm_ok (item_get it)"
  by (auto simp: pfm_entry_def group_reads [abs_def] pfm_ok_def pfm_get_resend_rotate_def
      intro!: group_keeps [OF table_keeps [OF bitcom_keeps]] getter_typed)

lemma root_keeps: "it \<in> set (root_entry J) \<Longrightarrow> getter_keeps ve_cfg_ok (item_get it)"
  by (auto simp: root_entry_def group_reads [abs_def] ve_cfg_ok_def
      intro!: group_keeps [OF table_keeps [OF global_keeps]] group_keeps [OF table_keeps [OF dev_keeps]]
        group_keeps [OF table_keeps [OF dsp_keeps]] group_keeps [OF table_keeps [OF pfm_keeps]])

lemma ve_cfg_init_ok: "audio_ok (dev_audio (ve_dev vc)) \<Longrightarrow> ve_cfg_ok (ve_cfg_init vc)"
  by (simp add: ve_cfg_init_def ok_defs global_cfg_init_def dev_cfg_init_def dev_light_cfg_init_def dev_led_cfg_init_def
      dsp_cfg_init_def pfm_cfg_init_def pfm_bitcom_cfg_init_def)

section \<open>What is written is read\<close>

text \<open>
  For every structure with \<open>P\<close>, setting the item leaves the structure alone and gives an object from
  which getting the item takes what \<open>u\<close> takes from the structure.
\<close>

definition item_carries :: "'j jsonc \<Rightarrow> ('c \<Rightarrow> bool) \<Rightarrow> ('c \<Rightarrow> 'c \<Rightarrow> 'c) \<Rightarrow> ('j, 'c) json_cfg_item \<Rightarrow> bool" where
  "item_carries J P u it \<longleftrightarrow> no_separator (item_field it) \<and> (\<forall>c. P c \<longrightarrow> (\<exists>j calls. item_set it c = (Some j, c, calls)
     \<and> plain_json J j \<and> (\<forall>k d. same_json J j k \<longrightarrow> item_get it k d = (0, u c d))))"

definition copy_all :: "('c \<Rightarrow> 'c \<Rightarrow> 'c) list \<Rightarrow> 'c \<Rightarrow> 'c \<Rightarrow> 'c" where
  "copy_all us c d = fold (\<lambda>u. u c) us d"

definition table_calls :: "('j, 'c) json_cfg_item list \<Rightarrow> 'c \<Rightarrow> dev_call list" where
  "table_calls items c = concat (map (\<lambda>it. snd (snd (item_set it c)) @ item_set_cb it c) items)"

lemma table_calls_simps [simp]: "table_calls [] c = []"
  "table_calls (it # items) c = snd (snd (item_set it c)) @ item_set_cb it c @ table_calls items c"
  by (simp_all add: table_calls_def)

lemma copy_all_simps [simp]: "copy_all [] c d = d" "copy_all (u # us) c d = copy_all us c (u c d)"
  by (simp_all add: copy_all_def)

text \<open>The rules for the values.\<close>

lemma enum2str_mem: "distinct (map fst tab) \<Longrightarrow> (e, s) \<in> set tab \<Longrightarrow> enum2str tab e = Some s"
  by (induction tab e rule: enum2str.induct) force+

lemma name_of_mem:
  assumes "map fst tab = map int [0..<n]" and "unat v < n" shows "(uint v, name_of tab d v) \<in> set tab"
proof -
  have n: "n = length tab"
    using arg_cong [OF assms(1), of length] by simp
  have "fst (tab ! unat v) = uint v"
    using arg_cong [OF assms(1), of "\<lambda>xs. xs ! unat v"] assms(2) n by simp
  then obtain s where s: "(uint v, s) \<in> set tab"
    using assms(2) n nth_mem [of "unat v" tab] by (metis prod.collapse)
  moreover have "distinct (map fst tab)"
    unfolding assms(1) by (simp add: distinct_map)
  ultimately show ?thesis
    by (simp add: name_of_def enum2str_mem)
qed

lemma read_name:
  assumes "map fst tab = map int [0..<n]" and "distinct (map snd tab)" and "unat v < n" and "v < m"
  shows "read_enum tab m dft (name_of tab d v) = v"
  using str2enum_in [OF assms(2) name_of_mem [OF assms(1,3), of d]] assms(4) by (simp add: read_enum_def not_le [symmetric])

lemma name_plain: "map fst tab = map int [0..<n] \<Longrightarrow> unat v < n \<Longrightarrow> list_all no_separator (map snd tab) \<Longrightarrow> no_separator (name_of tab d v)"
  using name_of_mem [of tab n v d] by (force simp: list_all_iff)

lemma read_range_uint: "lo \<le> uint v \<Longrightarrow> uint v \<le> hi \<Longrightarrow> read_range lo hi dft (uint v) = v"
  by (simp add: read_range_def)

context jsonc_laws
begin

lemma typed_carries:
  assumes "no_separator (item_field it)" and "item_get it = get_typed J ty f"
    and "\<And>c. P c \<Longrightarrow> \<exists>j. item_set it c = (Some j, c, []) \<and> plain_json J j \<and> json_object_get_type J j = ty
       \<and> (\<forall>k d. same_json J j k \<longrightarrow> f k d = u c d)"
  shows "item_carries J P u it"
  unfolding item_carries_def
proof (intro conjI allI impI)
  fix c assume "P c"
  then obtain j where j: "item_set it c = (Some j, c, [])" "plain_json J j" "json_object_get_type J j = ty"
      "\<And>k d. same_json J j k \<Longrightarrow> f k d = u c d"
    using assms(3) by blast
  have "same_json J j k \<Longrightarrow> item_get it k d = (0, u c d)" for k d
    using j(3,4) by (auto simp: assms(2) get_typed_def elim: same_json_cases)
  then show "\<exists>j calls. item_set it c = (Some j, c, calls) \<and> plain_json J j
      \<and> (\<forall>k d. same_json J j k \<longrightarrow> item_get it k d = (0, u c d))"
    using j(1,2) by blast
qed (rule assms(1))

lemma string_carries:
  assumes "no_separator (item_field it)" and "item_get it = get_typed J json_type_string f"
    and "\<And>c. P c \<Longrightarrow> item_set it c = (json_object_new_string J (v c), c, []) \<and> no_separator (v c)"
    and "\<And>c d k. P c \<Longrightarrow> json_object_get_string J k = v c \<Longrightarrow> f k d = u c d"
  shows "item_carries J P u it"
proof (rule typed_carries [OF assms(1,2)])
  fix c assume c: "P c"
  obtain j where j: "json_object_new_string J (v c) = Some j" "json_object_get_type J j = json_type_string"
      "json_object_get_string J j = v c"
    using new_string by blast
  have "plain_json J j"
    using j assms(3) [OF c] by (intro plain_json) simp_all
  then show "\<exists>j. item_set it c = (Some j, c, []) \<and> plain_json J j \<and> json_object_get_type J j = json_type_string
      \<and> (\<forall>k d. same_json J j k \<longrightarrow> f k d = u c d)"
    using j assms(3,4) [OF c] by (auto elim: same_json_cases)
qed

lemma int_carries:
  assumes "no_separator (item_field it)" and "item_get it = get_typed J json_type_int f"
    and "\<And>c. P c \<Longrightarrow> item_set it c = (json_object_new_int J (v c), c, []) \<and> int32 (v c)"
    and "\<And>c d k. P c \<Longrightarrow> json_object_get_int J k = v c \<Longrightarrow> f k d = u c d"
  shows "item_carries J P u it"
proof (rule typed_carries [OF assms(1,2)])
  fix c assume c: "P c"
  obtain j where j: "json_object_new_int J (v c) = Some j" "json_object_get_type J j = json_type_int"
      "json_object_get_int J j = v c"
    using new_int assms(3) [OF c] by blast
  have "plain_json J j"
    using j by (intro plain_json) simp_all
  then show "\<exists>j. item_set it c = (Some j, c, []) \<and> plain_json J j \<and> json_object_get_type J j = json_type_int
      \<and> (\<forall>k d. same_json J j k \<longrightarrow> f k d = u c d)"
    using j assms(3,4) [OF c] by (auto elim: same_json_cases)
qed

lemma boolean_carries:
  assumes "no_separator (item_field it)" and "item_get it = get_typed J json_type_boolean f"
    and "\<And>c. P c \<Longrightarrow> item_set it c = (json_object_new_boolean J (v c), c, [])"
    and "\<And>c d k. P c \<Longrightarrow> json_object_get_boolean J k = v c \<Longrightarrow> f k d = u c d"
  shows "item_carries J P u it"
proof (rule typed_carries [OF assms(1,2)])
  fix c assume c: "P c"
  obtain j where j: "json_object_new_boolean J (v c) = Some j" "json_object_get_type J j = json_type_boolean"
      "json_object_get_boolean J j = v c"
    using new_boolean by blast
  have "plain_json J j"
    using j by (intro plain_json) simp_all
  then show "\<exists>j. item_set it c = (Some j, c, []) \<and> plain_json J j \<and> json_object_get_type J j = json_type_boolean
      \<and> (\<forall>k d. same_json J j k \<longrightarrow> f k d = u c d)"
    using j assms(3,4) [OF c] by (auto elim: same_json_cases)
qed

text \<open>From the items of a table to the object with the pairs of all, and to the calls of all.\<close>

lemma items_written:
  assumes "list_all2 (item_carries J P) us items" and "P c" and "json_object_get_type J root = json_type_object"
    and "distinct (map fst (json_object_pairs J root) @ map item_field items)" and "set items \<subseteq> set tab" and "distinct (map item_field tab)"
  shows "\<exists>root' js. write_fields J (json_cfg_init item_field tab) (map item_field items) root c = (root', c, table_calls items c)
     \<and> json_object_get_type J root' = json_type_object
     \<and> json_object_pairs J root' = json_object_pairs J root @ zip (map item_field items) js \<and> length js = length items
     \<and> list_all (\<lambda>(k, j). no_separator k \<and> plain_json J j) (zip (map item_field items) js)
     \<and> (\<forall>ks d. list_all2 (rel_prod (=) (same_json J)) (zip (map item_field items) js) ks \<longrightarrow> fold (read_pair tab) ks d = copy_all us c d)"
  using assms
proof (induction us items arbitrary: root rule: list_all2_induct)
  case Nil
  then show ?case
    by (simp add: table_calls_def)
next
  case (Cons u us it items)
  obtain j calls where it: "item_set it c = (Some j, c, calls)" "plain_json J j" "no_separator (item_field it)"
      "\<And>k d. same_json J j k \<Longrightarrow> item_get it k d = (0, u c d)"
    using Cons.hyps(1) Cons.prems(1) unfolding item_carries_def by blast
  have find: "json_cfg_find item_field (json_cfg_init item_field tab) (item_field it) = Some it"
    using Cons.prems(4,5) by (intro find_distinct) auto
  let ?r = "json_object_object_add J root (item_field it) j"
  have r: "json_object_get_type J ?r = json_type_object" "json_object_pairs J ?r = json_object_pairs J root @ [(item_field it, j)]"
    using Cons.prems(2,3) by (auto simp: add_type add_pairs)
  obtain root' js where ih: "write_fields J (json_cfg_init item_field tab) (map item_field items) ?r c = (root', c, table_calls items c)"
      "json_object_get_type J root' = json_type_object"
      "json_object_pairs J root' = json_object_pairs J ?r @ zip (map item_field items) js" "length js = length items"
      "list_all (\<lambda>(k, j). no_separator k \<and> plain_json J j) (zip (map item_field items) js)"
      "\<And>ks d. list_all2 (rel_prod (=) (same_json J)) (zip (map item_field items) js) ks \<Longrightarrow> fold (read_pair tab) ks d = copy_all us c d"
    using Cons.IH [OF Cons.prems(1) r(1)] Cons.prems(3-5) r(2) by auto
  have read: "fold (read_pair tab) ks d = copy_all (u # us) c d"
    if "list_all2 (rel_prod (=) (same_json J)) (zip (map item_field (it # items)) (j # js)) ks" for ks d
    using that ih(6) it(4) find by (auto simp: list_all2_Cons1 read_pair_def)
  show ?case
    using ih it find read r(2) by (intro exI [of _ root'] exI [of _ "j # js"]) (simp add: table_calls_def)
qed

lemma table_carries:
  assumes "list_all2 (item_carries J P) us tab" and "distinct (map item_field tab)" and "P c"
  shows "\<exists>j. cfg_write_new J tab c = (Some j, c, table_calls tab c) \<and> plain_json J j \<and> json_object_get_type J j = json_type_object
     \<and> (\<forall>k d. same_json J j k \<longrightarrow> cfg_read_new J tab k d = (0, copy_all us c d) \<and> json_object_get_type J k = json_type_object
          \<and> fold (read_pair tab) (json_object_pairs J k) d = copy_all us c d)"
proof -
  obtain root where root: "json_object_new_object J = Some root" "json_object_get_type J root = json_type_object"
      "json_object_pairs J root = []"
    using new_object by blast
  obtain root' js where w: "write_fields J (json_cfg_init item_field tab) (map item_field tab) root c = (root', c, table_calls tab c)"
      "json_object_get_type J root' = json_type_object" "json_object_pairs J root' = zip (map item_field tab) js"
      "list_all (\<lambda>(k, j). no_separator k \<and> plain_json J j) (zip (map item_field tab) js)"
      "\<And>ks d. list_all2 (rel_prod (=) (same_json J)) (zip (map item_field tab) js) ks \<Longrightarrow> fold (read_pair tab) ks d = copy_all us c d"
    using items_written [OF assms(1,3) root(2), of tab] assms(2) root(3) by auto
  have "plain_json J root'"
    using w(2-4) by (intro plain_json) simp_all
  moreover have "cfg_write_new J tab c = (Some root', c, table_calls tab c)"
    using root(1) w(1) by (simp add: cfg_write_new_def)
  moreover have "cfg_read_new J tab k d = (0, copy_all us c d) \<and> json_object_get_type J k = json_type_object
      \<and> fold (read_pair tab) (json_object_pairs J k) d = copy_all us c d" if "same_json J root' k" for k d
    using that w(2,3,5) by (auto simp: cfg_read_new_def elim!: same_json_cases)
  ultimately show ?thesis
    using w(2) by blast
qed

lemma group_carries:
  assumes "list_all2 (item_carries J P) us tab" and "distinct (map item_field tab)" and "\<And>c d. copy_all us c d = u c d"
    and "\<And>s. Q s \<Longrightarrow> P (sub s) \<and> upd (\<lambda>_. sub s) s = s" and "no_separator (item_field it)"
    and "item_get it = (\<lambda>obj s. case cfg_read_new J tab obj (sub s) of (r, c) \<Rightarrow> (r, upd (\<lambda>_. c) s))"
    and "item_set it = (\<lambda>s. case cfg_write_new J tab (sub s) of (obj, c, calls) \<Rightarrow> (obj, upd (\<lambda>_. c) s, calls))"
  shows "item_carries J Q (\<lambda>s t. upd (\<lambda>_. u (sub s) (sub t)) t) it"
  unfolding item_carries_def
proof (intro conjI allI impI)
  fix s assume s: "Q s"
  show "\<exists>j calls. item_set it s = (Some j, s, calls) \<and> plain_json J j
      \<and> (\<forall>k d. same_json J j k \<longrightarrow> item_get it k d = (0, upd (\<lambda>_. u (sub s) (sub d)) d))"
    using table_carries [OF assms(1,2), of "sub s"] assms(3) assms(4) [OF s] by (auto simp: assms(6,7))
qed (rule assms(5))

end

section \<open>The tables\<close>

text \<open>Configurations in range of which no text has a brace or a comma.\<close>

definition ve_cfg_plain :: "ve_cfg_t \<Rightarrow> bool" where
  "ve_cfg_plain vc \<longleftrightarrow> no_separator (prov (ve_global vc)) \<and> no_separator (city (ve_global vc))
     \<and> no_separator (user_content (dev_led (ve_dev vc))) \<and> no_separator (bc_id (pfm_bitcom (ve_pfm vc)))"

lemmas setters =
  global_set_prov_def global_set_city_def global_set_detect_mode_def global_set_ve_mode_def global_set_rg_mode_def
    dev_light_set_white_bright_def dev_light_set_white_mode_def dev_led_set_model_def dev_led_set_reboot_enable_def
    dev_led_set_reboot_wday_def dev_led_set_reboot_hour_def dev_led_set_user_content_def dev_led_set_lattice_def
    dev_led_set_width_def dev_led_set_height_def dev_audio_set_model_def dev_audio_set_volume_def
    dsp_set_white_list_match_def dsp_set_non_motor_mode_def dsp_set_capture_mode_def pfm_bitcom_set_id_def
    pfm_bitcom_set_enable_def pfm_bitcom_set_ftp_enable_def pfm_bitcom_set_mq_enable_def pfm_bitcom_set_serv_ip_def
    pfm_bitcom_set_up_port_def pfm_bitcom_set_down_port_def pfm_set_resend_rotate_def

lemmas name_tabs = detect_mode_tab_def ve_mode_tab_def rg_mode_tab_def white_mode_tab_def led_model_tab_def audio_model_tab_def
  non_motor_mode_tab_def capture_mode_tab_def

lemmas group_defs = group_reads [abs_def] dev_light_cfg_write_new_def [abs_def] dev_led_cfg_write_new_def [abs_def]
  dev_audio_cfg_write_new_def [abs_def] dev_cfg_write_new_def [abs_def] global_cfg_write_new_def [abs_def]
  dsp_cfg_write_new_def [abs_def] pfm_bitcom_cfg_write_new_def [abs_def] pfm_cfg_write_new_def [abs_def] Let_def

lemmas is_separator_chars = is_separator_def tables

lemma uint_int32 [simp]: "int32 (uint (v :: u8))" "int32 (uint (w :: u16))"
  using uint_lt2p [of v] uint_lt2p [of w] by (auto simp: int32_def intro: order_trans [OF _ uint_ge_0])

lemma upto_names: "[0..<2] = [0, 1]" "[0..<3] = [0, 1, 2 :: nat]" "[0..<4] = [0, 1, 2, 3 :: nat]"
  by (simp_all add: upt_rec numeral_eq_Suc)

lemma uint_u16_pos: "0 < (v :: u16) \<Longrightarrow> 1 \<le> uint v \<and> uint v \<le> 65535"
  using uint_lt2p [of v] by (simp add: word_less_def)

lemmas range_defs = ok_defs word_le_def word_less_def

lemma no_separator_Cons [simp]: "no_separator []" "no_separator (c # s) \<longleftrightarrow> \<not> is_separator c \<and> c \<noteq> CHR 0x00 \<and> no_separator s"
  by (simp_all add: no_separator_def)

lemmas item_defs = getters setters is_separator_def upto_names name_tabs

section \<open>Addresses\<close>

text \<open>The address in the text of an address is the address, whose text fits \<open>INET_ADDRSTRLEN\<close>.\<close>

lemma dec_value: "digits 0 (dec m) = m"
  using digits_dec [of 0 m "[]"] by simp

lemma dec_chars: "c \<in> set (dec v) \<Longrightarrow> is_digit c"
proof (induction v rule: dec.induct)
  case (1 v)
  then show ?case
    by (cases "v < 10") (auto simp: dec.simps [of v])
qed

lemma dec_not_empty: "dec v \<noteq> []"
  using dec_head [of v] by auto

lemma dec_leading: "hd (dec v) = CHR ''0'' \<Longrightarrow> v = 0"
proof (induction v rule: dec.induct)
  case (1 v)
  show ?case
  proof (cases "v < 10")
    case True
    have "(of_char (char_of (48 + v) :: char) :: nat) = 48 + v"
      by (rule of_char_digit [OF True])
    moreover have "char_of (48 + v) = CHR ''0''"
      using "1.prems" True by (simp add: dec.simps [of v])
    ultimately show ?thesis
      by simp
  next
    case False
    then show ?thesis
      using 1 by (simp add: dec.simps [of v] dec_not_empty)
  qed
qed

lemma unat_octet: "unat (v :: u8) < 256"
  using unsigned_less [where 'b = 8 and 'a = nat, of v] by simp

lemma dec_octet: "length (dec (unat (v :: u8))) \<le> 3"
  by (rule length_dec, rule order_less_trans [OF unat_octet]) simp_all

lemma octet_dec: "octet (dec (unat (v :: u8))) = Some v"
proof -
  have "2 \<le> length (dec (unat v)) \<Longrightarrow> hd (dec (unat v)) \<noteq> CHR ''0''"
    using dec_leading [of "unat v"] by (auto simp: dec.simps [of 0])
  then show ?thesis
    using dec_octet [of v] dec_not_empty [of "unat v"] unat_octet [of v]
    by (auto simp: octet_def dec_value list_all_iff dec_chars Suc_le_eq)
qed

lemma dot_parts_append: "CHR ''.'' \<notin> set s \<Longrightarrow> dot_parts (s @ CHR ''.'' # t) = s # dot_parts t"
  by (induction s) auto

lemma dot_parts_last: "CHR ''.'' \<notin> set s \<Longrightarrow> dot_parts s = [s]"
  by (induction s) auto

lemma no_dot: "CHR ''.'' \<notin> set (dec v)"
  using dec_chars by (fastforce simp: is_digit_def)

lemma pton_dotted [simp]: "inet_pton (dotted a) = Some a"
  by (cases a) (simp add: inet_pton_def dotted_def dot_parts_append dot_parts_last no_dot octet_dec)

lemma inet_ntop_dotted [simp]: "inet_ntop 16 a = Some (dotted a)"
proof (cases a)
  case (fields p q r s)
  then show ?thesis
    using dec_octet [of p] dec_octet [of q] dec_octet [of r] dec_octet [of s] by (simp add: inet_ntop_def dotted_def)
qed

lemma dotted_plain: "no_separator (dotted a)"
  by (cases a) (auto simp: no_separator_def dotted_def is_separator_def is_digit_def dest!: dec_chars)

section \<open>Each item\<close>

text \<open>The rules for names and for numbers that are kept in a range.\<close>

context jsonc_laws
begin

lemma name_carries:
  assumes "no_separator (item_field it)"
    and "item_get it = get_typed J json_type_string (\<lambda>obj. upd (\<lambda>_. read_enum tab m dft (json_object_get_string J obj)))"
    and "\<And>c. P c \<Longrightarrow> item_set it c = (json_object_new_string J (name_of tab e (v c)), c, []) \<and> v c < m"
    and "map fst tab = map int [0..<unat m]" and "distinct (map snd tab)" and "list_all no_separator (map snd tab)"
  shows "item_carries J P (\<lambda>c. upd (\<lambda>_. v c)) it"
  using read_name [OF assms(4,5)] name_plain [OF assms(4) _ assms(6)] assms(3)
  by (intro string_carries [OF assms(1,2)]) (auto simp: word_less_nat_alt)

lemma range_carries:
  assumes "no_separator (item_field it)"
    and "item_get it = get_typed J json_type_int (\<lambda>obj. upd (\<lambda>_. read_range lo hi dft (json_object_get_int J obj)))"
    and "\<And>c. P c \<Longrightarrow> item_set it c = (json_object_new_int J (uint (v c)), c, []) \<and> lo \<le> uint (v c) \<and> uint (v c) \<le> hi \<and> int32 (uint (v c))"
  shows "item_carries J P (\<lambda>c. upd (\<lambda>_. v c)) it"
  using assms(3) by (intro int_carries [OF assms(1,2)]) (auto simp: read_range_uint)

lemma global_carries: "list_all2 (item_carries J (\<lambda>gc. global_ok gc \<and> no_separator (prov gc) \<and> no_separator (city gc)))
    [\<lambda>c d. d\<lparr>prov := prov c\<rparr>,
     \<lambda>c d. d\<lparr>city := city c\<rparr>,
     \<lambda>c d. d\<lparr>global_detect_mode := global_detect_mode c\<rparr>,
     \<lambda>c d. d\<lparr>global_ve_mode := global_ve_mode c\<rparr>,
     \<lambda>c d. d\<lparr>global_rg_mode := global_rg_mode c\<rparr>] (global_entry J)"
  unfolding global_entry_def list.rel_inject list_all2_Cons
  by (intro conjI,
      rule string_carries [where v = prov], (auto simp: item_defs range_defs snprintf_s_def)[4],
      rule string_carries [where v = city], (auto simp: item_defs range_defs snprintf_s_def)[4],
      rule name_carries, (auto simp: item_defs range_defs)[6],
      rule name_carries, (auto simp: item_defs range_defs)[6],
      rule name_carries, (auto simp: item_defs range_defs)[6],
      simp)

lemma light_carries: "list_all2 (item_carries J light_ok)
    [\<lambda>c d. d\<lparr>light_white_bright := light_white_bright c\<rparr>,
     \<lambda>c d. d\<lparr>light_white_mode := light_white_mode c\<rparr>] (light_entry J)"
  unfolding light_entry_def list.rel_inject list_all2_Cons
  by (intro conjI,
      rule range_carries, (auto simp: item_defs range_defs)[3],
      rule name_carries, (auto simp: item_defs range_defs)[6],
      simp)

lemma led_carries: "list_all2 (item_carries J (\<lambda>lc. led_ok lc \<and> no_separator (user_content lc)))
    [\<lambda>c d. d\<lparr>led_model := led_model c\<rparr>,
     \<lambda>c d. d\<lparr>reboot_enable := reboot_enable c\<rparr>,
     \<lambda>c d. d\<lparr>reboot_wday := reboot_wday c\<rparr>,
     \<lambda>c d. d\<lparr>reboot_hour := reboot_hour c\<rparr>,
     \<lambda>c d. d\<lparr>user_content := user_content c\<rparr>,
     \<lambda>c d. d\<lparr>led_lattice := led_lattice c\<rparr>,
     \<lambda>c d. d\<lparr>led_width := led_width c\<rparr>,
     \<lambda>c d. d\<lparr>led_height := led_height c\<rparr>] (led_entry J)"
  unfolding led_entry_def list.rel_inject list_all2_Cons
  by (intro conjI,
      rule name_carries, (auto simp: item_defs range_defs)[6],
      rule boolean_carries [where v = reboot_enable], (auto simp: item_defs range_defs)[4],
      rule range_carries, (auto simp: item_defs range_defs)[3],
      rule range_carries, (auto simp: item_defs range_defs)[3],
      rule string_carries [where v = user_content], (auto simp: item_defs range_defs snprintf_s_def)[4],
      rule int_carries [where v = "uint \<circ> led_lattice"], (auto simp: item_defs range_defs)[4],
      rule int_carries [where v = "uint \<circ> led_width"], (auto simp: item_defs range_defs)[4],
      rule int_carries [where v = "uint \<circ> led_height"], (auto simp: item_defs range_defs)[4],
      simp)

lemma audio_carries: "list_all2 (item_carries J audio_ok)
    [\<lambda>c d. d\<lparr>audio_model := audio_model c\<rparr>,
     \<lambda>c d. d\<lparr>audio_volume := audio_volume c\<rparr>] (audio_entry J)"
  unfolding audio_entry_def list.rel_inject list_all2_Cons
  by (intro conjI,
      rule name_carries, (auto simp: item_defs range_defs)[6],
      rule range_carries, (auto simp: item_defs range_defs)[3],
      simp)

lemma dsp_carries: "list_all2 (item_carries J dsp_ok)
    [\<lambda>c d. d\<lparr>white_list_match := white_list_match c\<rparr>,
     \<lambda>c d. d\<lparr>non_motor_mode := non_motor_mode c\<rparr>,
     \<lambda>c d. d\<lparr>capture_mode := capture_mode c\<rparr>] (dsp_entry J)"
  unfolding dsp_entry_def list.rel_inject list_all2_Cons
  by (intro conjI,
      rule int_carries [where v = "uint \<circ> white_list_match"], (auto simp: item_defs range_defs)[4],
      rule name_carries, (auto simp: item_defs range_defs)[6],
      rule name_carries, (auto simp: item_defs range_defs)[6],
      simp)

lemma bitcom_carries: "list_all2 (item_carries J (\<lambda>bc. bitcom_ok bc \<and> no_separator (bc_id bc)))
    [\<lambda>c d. d\<lparr>bc_id := bc_id c\<rparr>,
     \<lambda>c d. d\<lparr>bc_enable := bc_enable c\<rparr>,
     \<lambda>c d. d\<lparr>ftp_enable := ftp_enable c\<rparr>,
     \<lambda>c d. d\<lparr>mq_enable := mq_enable c\<rparr>,
     \<lambda>c d. d\<lparr>serv_ip := serv_ip c\<rparr>,
     \<lambda>c d. d\<lparr>up_port := up_port c\<rparr>,
     \<lambda>c d. d\<lparr>down_port := down_port c\<rparr>] (bitcom_entry J)"
  unfolding bitcom_entry_def list.rel_inject list_all2_Cons
  by (intro conjI,
      rule string_carries [where v = bc_id], (auto simp: item_defs range_defs snprintf_s_def)[4],
      rule boolean_carries [where v = bc_enable], (auto simp: item_defs range_defs)[4],
      rule boolean_carries [where v = ftp_enable], (auto simp: item_defs range_defs)[4],
      rule boolean_carries [where v = mq_enable], (auto simp: item_defs range_defs)[4],
      rule string_carries [where v = "dotted \<circ> serv_ip"], (auto simp: item_defs ok_defs inet_ntop_dotted pton_dotted dotted_plain)[4],
      rule range_carries, (auto simp: item_defs ok_defs uint_u16_pos)[3],
      rule range_carries, (auto simp: item_defs ok_defs uint_u16_pos)[3],
      simp)

lemma dev_carries: "list_all2 (item_carries J (\<lambda>dc. dev_ok dc \<and> no_separator (user_content (dev_led dc))))
    [\<lambda>c d. d\<lparr>dev_light := dev_light c\<rparr>, \<lambda>c d. d\<lparr>dev_led := dev_led c\<rparr>, \<lambda>c d. d\<lparr>dev_audio := dev_audio c\<rparr>] (dev_entry J)"
  unfolding dev_entry_def list.rel_inject list_all2_Cons
  by (intro conjI,
      rule group_carries [OF light_carries, where u = "\<lambda>c d. c"], (auto simp: is_separator_chars group_defs dev_ok_def)[6],
      rule group_carries [OF led_carries, where u = "\<lambda>c d. c"], (auto simp: is_separator_chars group_defs dev_ok_def)[6],
      rule group_carries [OF audio_carries, where u = "\<lambda>c d. c"], (auto simp: is_separator_chars group_defs dev_ok_def)[6],
      simp)

lemma pfm_carries: "list_all2 (item_carries J (\<lambda>pc. pfm_ok pc \<and> no_separator (bc_id (pfm_bitcom pc))))
    [\<lambda>c d. d\<lparr>resend_rotate := resend_rotate c\<rparr>,
     \<lambda>c d. d\<lparr>pfm_bitcom := (pfm_bitcom c)\<lparr>http_long := http_long (pfm_bitcom d)\<rparr>\<rparr>] (pfm_entry J)"
  unfolding pfm_entry_def list.rel_inject list_all2_Cons
  by (intro conjI,
      rule int_carries [where v = "uint \<circ> resend_rotate"], (auto simp: item_defs)[4],
      rule group_carries [OF bitcom_carries, where u = "\<lambda>c d. c\<lparr>http_long := http_long d\<rparr>"],
      (auto simp: is_separator_chars group_defs pfm_ok_def)[6],
      simp)

lemma root_carries: "list_all2 (item_carries J (\<lambda>vc. ve_cfg_ok vc \<and> ve_cfg_plain vc))
    [\<lambda>c d. d\<lparr>ve_global := (ve_global c)\<lparr>global_run_mode := global_run_mode (ve_global d)\<rparr>\<rparr>,
     \<lambda>c d. d\<lparr>ve_dev := ve_dev c\<rparr>, \<lambda>c d. d\<lparr>ve_dsp := ve_dsp c\<rparr>,
     \<lambda>c d. d\<lparr>ve_pfm := (ve_pfm c)\<lparr>pfm_bitcom := (pfm_bitcom (ve_pfm c))\<lparr>http_long := http_long (pfm_bitcom (ve_pfm d))\<rparr>\<rparr>\<rparr>]
    (root_entry J)"
  unfolding root_entry_def list.rel_inject list_all2_Cons
  by (intro conjI,
      rule group_carries [OF global_carries, where u = "\<lambda>c d. c\<lparr>global_run_mode := global_run_mode d\<rparr>"],
      (auto simp: is_separator_chars group_defs ve_cfg_ok_def ve_cfg_plain_def)[6],
      rule group_carries [OF dev_carries, where u = "\<lambda>c d. c"],
      (auto simp: is_separator_chars group_defs ve_cfg_ok_def ve_cfg_plain_def)[6],
      rule group_carries [OF dsp_carries, where u = "\<lambda>c d. c"],
      (auto simp: is_separator_chars group_defs ve_cfg_ok_def ve_cfg_plain_def)[6],
      rule group_carries [OF pfm_carries, where u = "\<lambda>c d. c\<lparr>pfm_bitcom := (pfm_bitcom c)\<lparr>http_long := http_long (pfm_bitcom d)\<rparr>\<rparr>"],
      (auto simp: is_separator_chars group_defs ve_cfg_ok_def ve_cfg_plain_def)[6],
      simp)

end

text \<open>What is copied: everything but \<open>run_mode\<close> and \<open>http_long\<close>, which have no item.\<close>

definition copied :: "ve_cfg_t \<Rightarrow> ve_cfg_t \<Rightarrow> ve_cfg_t" where
  "copied c d = c\<lparr>ve_global := (ve_global c)\<lparr>global_run_mode := global_run_mode (ve_global d)\<rparr>,
     ve_pfm := (ve_pfm c)\<lparr>pfm_bitcom := (pfm_bitcom (ve_pfm c))\<lparr>http_long := http_long (pfm_bitcom (ve_pfm d))\<rparr>\<rparr>\<rparr>"

definition device_calls :: "ve_cfg_t \<Rightarrow> dev_call list" where
  "device_calls vc = [Led_set_model (led_model (dev_led (ve_dev vc))), Audio_dev_change (audio_model (dev_audio (ve_dev vc))),
     Audio_dev_set_volume (audio_volume (dev_audio (ve_dev vc)))]"

lemma leaf_calls:
  "table_calls (global_entry J) gc = []" "table_calls (light_entry J) lc = []"
  "table_calls (led_entry J) dl = [Led_set_model (led_model dl)]"
  "table_calls (audio_entry J) ac = [Audio_dev_change (audio_model ac), Audio_dev_set_volume (audio_volume ac)]"
  "table_calls (dsp_entry J) dc = []" "table_calls (bitcom_entry J) bc = []"
  by (simp_all add: tables setters Let_def dev_led_set_mode_handle_def dev_audio_set_model_handle_def
      dev_audio_set_volume_handle_def)

context jsonc_laws
begin

lemma dev_calls:
  assumes "dev_ok dc" and "no_separator (user_content (dev_led dc))"
  shows "table_calls (dev_entry J) dc = [Led_set_model (led_model (dev_led dc)), Audio_dev_change (audio_model (dev_audio dc)),
     Audio_dev_set_volume (audio_volume (dev_audio dc))]"
proof -
  obtain j1 j2 j3 where "cfg_write_new J (light_entry J) (dev_light dc) = (j1, dev_light dc, table_calls (light_entry J) (dev_light dc))"
      "cfg_write_new J (led_entry J) (dev_led dc) = (j2, dev_led dc, table_calls (led_entry J) (dev_led dc))"
      "cfg_write_new J (audio_entry J) (dev_audio dc) = (j3, dev_audio dc, table_calls (audio_entry J) (dev_audio dc))"
    using assms table_carries [OF light_carries _, of "dev_light dc"] table_carries [OF led_carries _, of "dev_led dc"]
      table_carries [OF audio_carries _, of "dev_audio dc"] by (auto simp: dev_ok_def light_entry_def led_entry_def audio_entry_def)
  then show ?thesis
    by (simp add: dev_entry_def group_defs leaf_calls)
qed

lemma root_calls:
  assumes "ve_cfg_ok vc" and "ve_cfg_plain vc" shows "table_calls (root_entry J) vc = device_calls vc"
proof -
  obtain j1 j2 j3 where "cfg_write_new J (global_entry J) (ve_global vc) = (j1, ve_global vc, table_calls (global_entry J) (ve_global vc))"
      "cfg_write_new J (dev_entry J) (ve_dev vc) = (j2, ve_dev vc, table_calls (dev_entry J) (ve_dev vc))"
      "cfg_write_new J (dsp_entry J) (ve_dsp vc) = (j3, ve_dsp vc, table_calls (dsp_entry J) (ve_dsp vc))"
    using assms table_carries [OF global_carries _, of "ve_global vc"] table_carries [OF dev_carries _, of "ve_dev vc"]
      table_carries [OF dsp_carries _, of "ve_dsp vc"]
    by (auto simp: ve_cfg_ok_def ve_cfg_plain_def global_entry_def dev_entry_def dsp_entry_def)
  moreover obtain j4 where "cfg_write_new J (pfm_entry J) (ve_pfm vc) = (j4, ve_pfm vc, table_calls (pfm_entry J) (ve_pfm vc))"
    using assms table_carries [OF pfm_carries _, of "ve_pfm vc"] by (auto simp: ve_cfg_ok_def ve_cfg_plain_def pfm_entry_def)
  moreover obtain j5 where "cfg_write_new J (bitcom_entry J) (pfm_bitcom (ve_pfm vc))
      = (j5, pfm_bitcom (ve_pfm vc), table_calls (bitcom_entry J) (pfm_bitcom (ve_pfm vc)))"
    using assms table_carries [OF bitcom_carries _, of "pfm_bitcom (ve_pfm vc)"]
    by (auto simp: ve_cfg_ok_def ve_cfg_plain_def pfm_ok_def bitcom_entry_def)
  moreover have "table_calls (pfm_entry J) (ve_pfm vc) = []"
    using calculation(5) by (simp add: pfm_entry_def pfm_set_resend_rotate_def group_defs leaf_calls)
  ultimately show ?thesis
    using assms by (simp add: root_entry_def group_defs leaf_calls dev_calls ve_cfg_ok_def
        ve_cfg_plain_def device_calls_def)
qed

end

end
