(* ===== verification/Jsonc_Text.thy ===== *)
theory Jsonc_Text
  imports Jsonc
begin

text \<open>
  Objects with the laws of \<open>jsonc_laws\<close>: values, a printer and a reader of their texts.
\<close>

datatype jval = JNull | JBool bool | JInt int | JStr string | JObj "(string \<times> jval) list"

fun escaped :: "string \<Rightarrow> string" where
  "escaped [] = []"
| "escaped (c # s) = (if c = CHR 0x22 \<or> c = CHR 0x5C then CHR 0x5C # c # escaped s else c # escaped s)"

definition str_lit :: "string \<Rightarrow> string" where
  "str_lit s = CHR 0x22 # escaped s @ [CHR 0x22]"

fun print_val :: "jval \<Rightarrow> string" and print_pairs :: "(string \<times> jval) list \<Rightarrow> string" where
  "print_val JNull = ''null''"
| "print_val (JBool b) = (if b then ''true'' else ''false'')"
| "print_val (JInt i) = dec_int i"
| "print_val (JStr s) = str_lit s"
| "print_val (JObj ps) = CHR ''{'' # print_pairs ps @ ''}''"
| "print_pairs [] = []"
| "print_pairs ((k, v) # ps) = str_lit k @ CHR '':'' # print_val v @ (if ps = [] then [] else CHR '','' # print_pairs ps)"

definition skip_white :: "string \<Rightarrow> string" where
  "skip_white s = dropWhile is_white s"

fun read_str_lit :: "string \<Rightarrow> (string \<times> string) option" where
  "read_str_lit [] = None"
| "read_str_lit (c # s) = (if c = CHR 0x22 then Some ([], s)
     else if c = CHR 0x5C then (case s of [] \<Rightarrow> None | d # r \<Rightarrow> map_option (apfst (Cons d)) (read_str_lit r))
     else map_option (apfst (Cons c)) (read_str_lit s))"

definition in_int :: "char \<Rightarrow> bool" where
  "in_int c \<longleftrightarrow> is_digit c \<or> c = CHR ''-''"

fun read_val :: "nat \<Rightarrow> string \<Rightarrow> (jval \<times> string) option"
  and read_pairs :: "nat \<Rightarrow> string \<Rightarrow> ((string \<times> jval) list \<times> string) option" where
  "read_val 0 s = None"
| "read_val (Suc n) s = (case skip_white s of [] \<Rightarrow> None
     | c # r \<Rightarrow> if c = CHR ''{'' then (if take 1 (skip_white r) = ''}'' then Some (JObj [], drop 1 (skip_white r))
             else map_option (apfst JObj) (read_pairs n r))
         else if c = CHR 0x22 then map_option (apfst JStr) (read_str_lit r)
         else if take 4 (c # r) = ''true'' then Some (JBool True, drop 3 r)
         else if take 5 (c # r) = ''false'' then Some (JBool False, drop 4 r)
         else if take 4 (c # r) = ''null'' then Some (JNull, drop 3 r)
         else if in_int c then Some (JInt (atoi (takeWhile in_int (c # r))), dropWhile in_int (c # r))
         else None)"
| "read_pairs 0 s = None"
| "read_pairs (Suc n) s = (case skip_white s of [] \<Rightarrow> None
     | c # r \<Rightarrow> if c \<noteq> CHR 0x22 then None else (case read_str_lit r of None \<Rightarrow> None
         | Some (k, r1) \<Rightarrow> (case skip_white r1 of [] \<Rightarrow> None
           | d # r2 \<Rightarrow> if d \<noteq> CHR '':'' then None else (case read_val n r2 of None \<Rightarrow> None
             | Some (v, r3) \<Rightarrow> (case skip_white r3 of [] \<Rightarrow> None
               | e # r4 \<Rightarrow> if e = CHR '','' then map_option (apfst (Cons (k, v))) (read_pairs n r4)
                   else if e = CHR ''}'' then Some ([(k, v)], r4) else None)))))"

definition read_json :: "string \<Rightarrow> jval option" where
  "read_json t = (case read_val (Suc (length t)) t of None \<Rightarrow> None
     | Some (j, r) \<Rightarrow> if skip_white r = [] then Some j else None)"

section \<open>Spread texts\<close>

inductive_cases spread_Nil: "spread p w [] t"
inductive_cases spread_Cons: "spread p w (c # s) t"

lemma spread_same: "spread p w s s"
  by (induction s arbitrary: p w) (auto intro: spread.intros)

lemma spread_closed_char:
  assumes "spread False w (c # s) t" and "w = Outside \<Longrightarrow> c \<noteq> CHR ''}''"
  shows "\<exists>t'. t = c # t' \<and> spread (opens c \<and> w = Outside) (advance w c) s t'"
  using assms by (auto elim: spread_Cons)

lemma spread_skip:
  "spread p Outside u t \<Longrightarrow> u = c # s \<Longrightarrow> \<not> is_white c
     \<Longrightarrow> \<exists>t'. skip_white t = c # t' \<and> spread (opens c) (advance Outside c) s t'"
proof (induction p "Outside" u t rule: spread.induct)
  case (spread_white b p u t)
  then show ?case
    by (auto simp: skip_white_def)
qed (auto simp: skip_white_def)

lemma spread_word:
  "\<forall>c \<in> set u. \<not> is_separator c \<and> c \<noteq> CHR 0x22 \<Longrightarrow> spread False Outside (u @ s) t
     \<Longrightarrow> \<exists>t'. t = u @ t' \<and> spread False Outside s t'"
proof (induction u arbitrary: t)
  case (Cons c u)
  then obtain t' where "t = c # t'" "spread (opens c) (advance Outside c) (u @ s) t'"
    using spread_closed_char [of Outside c "u @ s" t] by (auto simp: is_separator_def)
  then show ?case
    using Cons by (auto simp: is_separator_def opens_def advance_def)
qed simp

lemma spread_escaped:
  "spread False Inside (escaped k @ CHR 0x22 # s) t \<Longrightarrow> \<exists>t'. t = escaped k @ CHR 0x22 # t' \<and> spread False Outside s t'"
proof (induction k arbitrary: t)
  case Nil
  then show ?case
    using spread_closed_char [of Inside "CHR 0x22" s t] by (auto simp: advance_def)
next
  case (Cons c k)
  show ?case
  proof (cases "c = CHR 0x22 \<or> c = CHR 0x5C")
    case True
    then obtain t1 where t1: "t = CHR 0x5C # t1" "spread False Escaped (c # escaped k @ CHR 0x22 # s) t1"
      using spread_closed_char [of Inside "CHR 0x5C" "c # escaped k @ CHR 0x22 # s" t] Cons.prems
      by (auto simp: advance_def)
    then obtain t2 where "t1 = c # t2" "spread False Inside (escaped k @ CHR 0x22 # s) t2"
      using spread_closed_char [of Escaped c "escaped k @ CHR 0x22 # s" t1] by (auto simp: advance_def)
    then show ?thesis
      using t1 Cons.IH True by auto
  next
    case False
    then obtain t1 where "t = c # t1" "spread False Inside (escaped k @ CHR 0x22 # s) t1"
      using spread_closed_char [of Inside c "escaped k @ CHR 0x22 # s" t] Cons.prems by (auto simp: advance_def)
    then show ?thesis
      using Cons.IH False by auto
  qed
qed

lemma read_lit_escaped [simp]: "read_str_lit (escaped k @ CHR 0x22 # t) = Some (k, t)"
  by (induction k) auto

lemma spread_lit: "spread p Outside (str_lit k @ s) t \<Longrightarrow> \<exists>t'. skip_white t = str_lit k @ t' \<and> spread False Outside s t'"
  using spread_skip [of p "str_lit k @ s" t "CHR 0x22" "escaped k @ CHR 0x22 # s"] spread_escaped [of k s]
  by (fastforce simp: str_lit_def is_white_def advance_def opens_def)

lemma spread_closed_lit: "spread False Outside (str_lit k @ s) t \<Longrightarrow> \<exists>t'. t = str_lit k @ t' \<and> spread False Outside s t'"
  using spread_closed_char [of Outside "CHR 0x22" "escaped k @ CHR 0x22 # s" t] spread_escaped [of k s]
  by (fastforce simp: str_lit_def advance_def opens_def)

section \<open>What is printed is read\<close>

fun need :: "jval \<Rightarrow> nat" and need_pairs :: "(string \<times> jval) list \<Rightarrow> nat" where
  "need JNull = 1"
| "need (JBool b) = 1"
| "need (JInt i) = 1"
| "need (JStr s) = 1"
| "need (JObj ps) = Suc (need_pairs ps)"
| "need_pairs [] = 0"
| "need_pairs ((k, v) # ps) = Suc (max (need v) (need_pairs ps))"

lemma dec_int_chars: "c \<in> set (dec_int i) \<Longrightarrow> in_int c"
proof -
  have "c \<in> set (dec v) \<Longrightarrow> is_digit c" for v
  proof (induction v rule: dec.induct)
    case (1 v)
    then show ?case
      by (cases "v < 10") (auto simp: dec.simps [of v])
  qed
  then show "c \<in> set (dec_int i) \<Longrightarrow> in_int c"
    by (auto simp: dec_int_def in_int_def split: if_splits)
qed

lemma dec_int_nonempty: "\<exists>c r. dec_int i = c # r"
  using dec_head [of "nat i"] by (auto simp: dec_int_def)

lemma in_int_facts: "in_int c \<Longrightarrow> \<not> is_separator c \<and> c \<noteq> CHR 0x22 \<and> \<not> is_white c \<and> c \<noteq> CHR ''t'' \<and> c \<noteq> CHR ''f'' \<and> c \<noteq> CHR ''n''"
  by (auto simp: in_int_def is_digit_def is_separator_def is_white_def)

lemma need_le: "need j \<le> length (print_val j)" "need_pairs ps \<le> length (print_pairs ps)"
proof (induction j and ps rule: print_val_print_pairs.induct)
  case (3 i)
  then show ?case
    using dec_int_nonempty [of i] by auto
qed (auto simp: str_lit_def)

definition at_end :: "string \<Rightarrow> bool" where
  "at_end s \<longleftrightarrow> (case s of [] \<Rightarrow> True | c # _ \<Rightarrow> c = CHR '','' \<or> c = CHR ''}'')"

lemma at_end_spread:
  assumes "spread False Outside s t" and "at_end s"
  shows "takeWhile in_int t = [] \<and> dropWhile in_int t = t"
  using assms
proof cases
  case (spread_char c u v)
  then show ?thesis
    using assms(2) by (auto simp: at_end_def in_int_def is_digit_def)
next
  case (spread_white b u)
  then show ?thesis
    using in_int_facts [of b] by auto
qed simp

lemma read_printed:
  "spread False Outside (print_val j @ s) t \<Longrightarrow> at_end s \<Longrightarrow> need j \<le> n
     \<Longrightarrow> \<exists>t'. read_val n t = Some (j, t') \<and> spread False Outside s t'"
  "spread True Outside (print_pairs ps @ CHR ''}'' # s) t \<Longrightarrow> ps \<noteq> [] \<Longrightarrow> need_pairs ps \<le> n
     \<Longrightarrow> \<exists>t'. read_pairs n t = Some (ps, t') \<and> spread False Outside s t'"
proof (induction j and ps arbitrary: s t n and s t n rule: print_val_print_pairs.induct)
  case 1
  then obtain m where m: "n = Suc m"
    by (cases n) auto
  obtain t' where "t = ''null'' @ t'" "spread False Outside s t'"
    using spread_word [of "''null''" s t] 1 by (auto simp: is_separator_def)
  then show ?case
    by (simp add: m skip_white_def is_white_def)
next
  case (2 b)
  then obtain m where m: "n = Suc m"
    by (cases n) auto
  obtain t' where "t = (if b then ''true'' else ''false'') @ t'" "spread False Outside s t'"
    using spread_word [of "if b then ''true'' else ''false''" s t] 2 by (auto simp: is_separator_def split: if_splits)
  then show ?case
    by (simp add: m skip_white_def is_white_def)
next
  case (3 i)
  then obtain m where m: "n = Suc m"
    by (cases n) auto
  obtain t' where t': "t = dec_int i @ t'" "spread False Outside s t'"
    using spread_word [of "dec_int i" s t] 3 dec_int_chars in_int_facts by fastforce
  obtain c r where c: "dec_int i = c # r"
    using dec_int_nonempty by blast
  have "in_int c"
    using dec_int_chars [of c i] c by simp
  moreover have "takeWhile in_int (dec_int i @ t') = dec_int i" "dropWhile in_int (dec_int i @ t') = t'"
    using at_end_spread [OF t'(2) "3.prems"(2)] dec_int_chars [of _ i] by (simp_all add: takeWhile_append2 dropWhile_append2)
  ultimately show ?case
    using in_int_facts [of c] t' c atoi_dec_int [of i] by (simp add: m skip_white_def is_separator_def)
next
  case (4 k)
  then obtain m where m: "n = Suc m"
    by (cases n) auto
  obtain t' where "t = str_lit k @ t'" "spread False Outside s t'"
    using spread_closed_lit [of k s t] 4 by auto
  then show ?case
    by (simp add: m skip_white_def is_white_def str_lit_def)
next
  case (5 ps)
  then obtain m where m: "n = Suc m" "need_pairs ps \<le> m"
    by (cases n) auto
  obtain r where r: "t = CHR ''{'' # r" "spread True Outside (print_pairs ps @ CHR ''}'' # s) r"
    using spread_closed_char [of Outside "CHR ''{''" "print_pairs ps @ CHR ''}'' # s" t] 5
    by (auto simp: opens_def advance_def)
  show ?case
  proof (cases ps)
    case Nil
    then obtain t' where "skip_white r = CHR ''}'' # t'" "spread False Outside s t'"
      using spread_skip [of True "CHR ''}'' # s" r "CHR ''}''" s] r(2)
      by (auto simp: is_white_def opens_def advance_def)
    then show ?thesis
      using r Nil by (simp add: m skip_white_def is_white_def)
  next
    case (Cons q qs)
    then obtain k v where q: "ps = (k, v) # qs"
      by (cases q) auto
    obtain t1 where "skip_white r = str_lit k @ t1"
      using spread_lit [of True k] r(2) q by fastforce
    then have "take 1 (skip_white r) \<noteq> ''}''"
      by (simp add: str_lit_def)
    moreover obtain t' where "read_pairs m r = Some (ps, t')" "spread False Outside s t'"
      using "5.IH" [OF r(2) _ m(2)] Cons by blast
    ultimately show ?thesis
      using r by (simp add: m skip_white_def is_white_def)
  qed
next
  case 6
  then show ?case
    by simp
next
  case (7 k v ps)
  then obtain m where m: "n = Suc m" "need v \<le> m" "need_pairs ps \<le> m"
    by (cases n) auto
  let ?rest = "(if ps = [] then [] else CHR '','' # print_pairs ps) @ CHR ''}'' # s"
  obtain t1 where t1: "skip_white t = str_lit k @ t1" "spread False Outside (CHR '':'' # print_val v @ ?rest) t1"
    using spread_lit [of True k "CHR '':'' # print_val v @ ?rest" t] "7.prems"(1) by auto
  then obtain t2 where t2: "t1 = CHR '':'' # t2" "spread False Outside (print_val v @ ?rest) t2"
    using spread_closed_char [of Outside "CHR '':''" "print_val v @ ?rest" t1] by (auto simp: opens_def advance_def)
  obtain t3 where t3: "read_val m t2 = Some (v, t3)" "spread False Outside ?rest t3"
    using "7.IH"(1) [OF t2(2) _ m(2)] by (cases "ps = []") (auto simp: at_end_def)
  have colon: "skip_white t1 = t1"
    using t2 by (simp add: skip_white_def is_white_def)
  show ?case
  proof (cases "ps = []")
    case True
    then obtain t4 where "skip_white t3 = CHR ''}'' # t4" "spread False Outside s t4"
      using spread_skip [of False ?rest t3 "CHR ''}''" s] t3(2) by (auto simp: is_white_def opens_def advance_def)
    then show ?thesis
      using t1 t2 t3 colon True by (simp add: m str_lit_def)
  next
    case False
    then obtain t4 where t4: "skip_white t3 = CHR '','' # t4" "spread True Outside (print_pairs ps @ CHR ''}'' # s) t4"
      using spread_skip [of False ?rest t3 "CHR '',''" "print_pairs ps @ CHR ''}'' # s"] t3(2)
      by (auto simp: is_white_def opens_def advance_def)
    obtain t5 where "read_pairs m t4 = Some (ps, t5)" "spread False Outside s t5"
      using "7.IH"(2) [OF False t4(2) False m(3)] by blast
    then show ?thesis
      using t1 t2 t3 t4 colon by (simp add: m str_lit_def)
  qed
qed

lemma read_json_printed: "spread False Outside (print_val j) t \<Longrightarrow> read_json t = Some j"
proof -
  assume s: "spread False Outside (print_val j) t"
  have "length (print_val j) \<le> length t"
    using s by (induction rule: spread.induct) auto
  then have "need j \<le> Suc (length t)"
    using need_le(1) [of j] by simp
  then obtain t' where "read_val (Suc (length t)) t = Some (j, t')" "spread False Outside [] t'"
    using read_printed(1) [of j "[]" t "Suc (length t)"] s by (auto simp: at_end_def)
  moreover from this(2) have "t' = []"
    by cases auto
  ultimately show ?thesis
    by (simp add: read_json_def skip_white_def)
qed

section \<open>The laws\<close>

primrec jtype :: "jval \<Rightarrow> json_type" where
  "jtype JNull = json_type_null"
| "jtype (JBool b) = json_type_boolean"
| "jtype (JInt i) = json_type_int"
| "jtype (JStr s) = json_type_string"
| "jtype (JObj ps) = json_type_object"

definition jpairs :: "jval \<Rightarrow> (string \<times> jval) list" where
  "jpairs j = (case j of JObj ps \<Rightarrow> ps | _ \<Rightarrow> [])"

definition value_json :: "jval jsonc" where
  "value_json = \<lparr>json_object_get_type = jtype,
     json_object_get_string = (\<lambda>j. case j of JStr s \<Rightarrow> s | _ \<Rightarrow> print_val j),
     json_object_get_int = (\<lambda>j. case j of JInt i \<Rightarrow> i | JBool b \<Rightarrow> of_bool b | _ \<Rightarrow> 0),
     json_object_get_boolean = (\<lambda>j. case j of JBool b \<Rightarrow> b | JInt i \<Rightarrow> i \<noteq> 0 | _ \<Rightarrow> False),
     json_object_pairs = jpairs,
     json_object_new_object = Some (JObj []), json_object_new_string = (\<lambda>s. Some (JStr s)),
     json_object_new_int = (\<lambda>i. Some (JInt i)), json_object_new_boolean = (\<lambda>b. Some (JBool b)),
     json_object_object_add = (\<lambda>j k v. JObj (if k \<in> fst ` set (jpairs j)
         then map (\<lambda>(l, w). if l = k then (l, v) else (l, w)) (jpairs j) else jpairs j @ [(k, v)])),
     json_object_to_json_string = print_val, json_tokener_parse = read_json\<rparr>"

lemma value_json_simps [simp]:
  "json_object_get_type value_json = jtype" "json_object_get_string value_json (JStr s) = s"
  "json_object_get_int value_json (JInt i) = i" "json_object_get_boolean value_json (JBool b) = b"
  "json_object_pairs value_json = jpairs" "json_object_new_object value_json = Some (JObj [])"
  "json_object_new_string value_json s = Some (JStr s)" "json_object_new_int value_json i = Some (JInt i)"
  "json_object_new_boolean value_json b = Some (JBool b)"
  "json_object_to_json_string value_json = print_val" "json_tokener_parse value_json = read_json"
  by (simp_all add: value_json_def)

lemma jpairs_JObj [simp]: "jpairs (JObj ps) = ps"
  by (simp add: jpairs_def)

lemma same_value: "same_json value_json j j"
proof (induction j)
  case (JObj ps)
  have "list_all2 (rel_prod (=) (same_json value_json)) qs qs" if "set qs \<subseteq> set ps" for qs
    using that JObj by (intro list.rel_refl_strong) (auto simp: rel_prod_sel)
  then show ?case
    by (intro same_json.intros) auto
qed (intro same_json.intros; simp)+

lemma separators_lit:
  "no_separator k \<Longrightarrow> separators_outside Outside (str_lit k @ s) = separators_outside Outside s"
proof -
  have "no_separator k \<Longrightarrow> separators_outside Inside (escaped k @ CHR 0x22 # s) = separators_outside Outside s"
    by (induction k) (auto simp: advance_def is_separator_def no_separator_def)
  then show "no_separator k \<Longrightarrow> separators_outside Outside (str_lit k @ s) = separators_outside Outside s"
    by (simp add: str_lit_def advance_def is_separator_def)
qed

lemma separators_word:
  "\<forall>c \<in> set u. c \<noteq> CHR 0x22 \<Longrightarrow> separators_outside Outside (u @ s) = separators_outside Outside s"
  by (induction u) (auto simp: advance_def)

lemma separators_printed:
  "plain_json value_json j \<Longrightarrow> separators_outside Outside (print_val j @ s) = separators_outside Outside s"
  "list_all (\<lambda>(k, v). no_separator k \<and> plain_json value_json v) ps
     \<Longrightarrow> separators_outside Outside (print_pairs ps @ s) = separators_outside Outside s"
proof (induction j and ps arbitrary: s and s rule: print_val_print_pairs.induct)
  case (3 i)
  then show ?case
    using separators_word [of "dec_int i" s] dec_int_chars in_int_facts by force
next
  case (4 k)
  then have "no_separator k"
    by (auto elim: plain_json.cases)
  then show ?case
    by (simp add: separators_lit)
next
  case (5 ps)
  then have "list_all (\<lambda>(k, v). no_separator k \<and> plain_json value_json v) ps"
    by (auto elim: plain_json.cases)
  then show ?case
    using 5 by (simp add: advance_def is_separator_def)
next
  case (7 k v ps)
  then show ?case
    by (auto simp: separators_lit advance_def is_separator_def)
qed (simp_all add: separators_word advance_def is_separator_def)

lemma no_nul_lit: "no_separator k \<Longrightarrow> CHR 0x00 \<notin> set (str_lit k)"
proof -
  have "no_separator k \<Longrightarrow> CHR 0x00 \<notin> set (escaped k)"
    by (induction k) (auto simp: no_separator_def)
  then show "no_separator k \<Longrightarrow> CHR 0x00 \<notin> set (str_lit k)"
    by (simp add: str_lit_def)
qed

lemma no_nul_printed:
  "plain_json value_json j \<Longrightarrow> CHR 0x00 \<notin> set (print_val j)"
  "list_all (\<lambda>(k, v). no_separator k \<and> plain_json value_json v) ps \<Longrightarrow> CHR 0x00 \<notin> set (print_pairs ps)"
proof (induction j and ps rule: print_val_print_pairs.induct)
  case (3 i)
  then show ?case
    using dec_int_chars [of "CHR 0x00" i] by (auto simp: in_int_def is_digit_def)
next
  case (4 k)
  then show ?case
    by (auto elim: plain_json.cases simp: no_nul_lit)
next
  case (5 ps)
  then have "list_all (\<lambda>(k, v). no_separator k \<and> plain_json value_json v) ps"
    by (auto elim: plain_json.cases)
  then show ?case
    using 5 by simp
qed (auto simp: no_nul_lit)

interpretation value_json: jsonc_laws value_json
proof unfold_locales
  fix j t
  assume "spread False Outside (json_object_to_json_string value_json j) t"
  then show "\<exists>k. json_tokener_parse value_json t = Some k \<and> same_json value_json j k"
    using read_json_printed same_value by simp
next
  fix j :: jval
  assume "json_object_get_type value_json j = json_type_object"
  then show "\<exists>s. json_object_to_json_string value_json j = CHR ''{'' # s"
    by (cases j) auto
next
  fix j :: jval
  assume "plain_json value_json j"
  then show "separators_outside Outside (json_object_to_json_string value_json j)"
    using separators_printed(1) [of j "[]"] by simp
next
  fix j :: jval
  assume "plain_json value_json j"
  then show "CHR 0x00 \<notin> set (json_object_to_json_string value_json j)"
    using no_nul_printed(1) by simp
qed (auto simp: value_json_def jpairs_def image_iff)

end
