(* ===== verification/Ve_Cfg_File.thy ===== *)
theory Ve_Cfg_File
  imports Ve_Config_Correct Jsonc_Text
begin

text \<open>
  The file of the configuration (\<open>ve/config/ve_cfg.c\<close>): reading it, saving it behind a backup, sending it
  to the signal processor, and the mutexes that saving takes. Files are a map from paths to contents.
\<close>

record ve_cfg_mng =
  cm_cfg :: ve_cfg_t
  cm_profile :: string

text \<open>
  What a call meets: memory, \<open>fopen\<close>, the backup and restoring renames, the bytes that the device takes,
  the buffer of the stream, and the text that happens to be in fresh memory.
\<close>

record cfg_env =
  env_malloc :: bool
  env_open :: bool
  env_backup :: bool
  env_restore :: bool
  env_room :: nat
  env_buffer :: nat
  env_heap :: string

type_synonym files = "string \<Rightarrow> string option"

section \<open>Reading and writing the objects\<close>

text \<open>\<open>json_object_object_foreach\<close> on something other than an object reads a null pointer: \<open>None\<close>.\<close>

definition ve_cfg_read_new :: "'j jsonc \<Rightarrow> string \<Rightarrow> ve_cfg_mng \<Rightarrow> (int \<times> ve_cfg_mng) option" where
  "ve_cfg_read_new J json cm = (case json_tokener_parse J json of
       None \<Rightarrow> Some (- 1, cm)
     | Some root \<Rightarrow> if json_object_get_type J root \<noteq> json_type_object then None
         else Some (0, cm\<lparr>cm_cfg := fold (read_pair (root_entry J)) (json_object_pairs J root) (cm_cfg cm)\<rparr>))"

text \<open>The result, the text in the buffer if it was filled, and the calls.\<close>

definition ve_cfg_write_new :: "'j jsonc \<Rightarrow> nat \<Rightarrow> ve_cfg_mng \<Rightarrow> int \<times> string option \<times> ve_cfg_mng \<times> dev_call list" where
  "ve_cfg_write_new J bufsz cm = (case json_object_new_object J of
       None \<Rightarrow> (- 1, None, cm, [])
     | Some root \<Rightarrow>
         (let (root, c, calls) = write_fields J (json_cfg_init item_field (root_entry J)) (map item_field (root_entry J)) root (cm_cfg cm);
              s = json_object_to_json_string J root
          in if length s + 1 \<le> bufsz then (int (length s), Some s, cm\<lparr>cm_cfg := c\<rparr>, calls)
             else (- 1, None, cm\<lparr>cm_cfg := c\<rparr>, calls)))"

section \<open>The operations\<close>

definition VE_CFG_FILE_PATH :: string where
  "VE_CFG_FILE_PATH = ''/mnt/nand/ve.conf''"

definition ve_cfg_ram_init :: "ve_cfg_mng \<Rightarrow> ve_cfg_mng" where
  "ve_cfg_ram_init cm = cm\<lparr>cm_cfg := ve_cfg_init (cm_cfg cm), cm_profile := snprintf_s 256 VE_CFG_FILE_PATH\<rparr>"

definition cm_set :: "ve_cfg_t \<Rightarrow> ve_cfg_mng \<Rightarrow> ve_cfg_mng" where
  "cm_set cfg cm = cm\<lparr>cm_cfg := cfg\<rparr>"

definition cm_get :: "ve_cfg_mng \<Rightarrow> ve_cfg_t" where
  "cm_get cm = cm_cfg cm"

definition c_text :: "string \<Rightarrow> string" where
  "c_text s = takeWhile (\<lambda>c. c \<noteq> CHR 0x00) s"

text \<open>\<open>EPERM\<close> is 1, \<open>ENOBUFS\<close> 105. \<open>get_file_size\<close> fails when there is no file.\<close>

definition ve_cfg_load :: "'j jsonc \<Rightarrow> cfg_env \<Rightarrow> files \<Rightarrow> ve_cfg_mng \<Rightarrow> (int \<times> ve_cfg_mng) option" where
  "ve_cfg_load J e fs cm = (case fs (cm_profile cm) of
       None \<Rightarrow> Some (- 1, cm)
     | Some content \<Rightarrow> if \<not> env_malloc e then Some (- 105, cm) else if \<not> env_open e then Some (- 1, cm)
         else ve_cfg_read_new J (c_text content) cm)"

definition rename_file :: "string \<Rightarrow> string \<Rightarrow> files \<Rightarrow> files" where
  "rename_file p q fs = (fs(q := fs p))(p := None)"

text \<open>
  A stream has a buffer: \<open>fputc\<close> fails only when the buffer is full and cannot be written. So a text is
  taken up to the end of the first buffer that does not fit on the device; what is on the device in
  the end is no more than the device takes.
\<close>

definition stream_takes :: "cfg_env \<Rightarrow> nat" where
  "stream_takes e = (if env_buffer e = 0 then env_room e else (env_room e div env_buffer e + 1) * env_buffer e)"

definition save_text :: "cfg_env \<Rightarrow> string \<Rightarrow> int \<times> string" where
  "save_text e src = (let (len, out) = json_format_stream src 4 (stream_takes e) in (len, take (env_room e) out))"

definition bak_path :: "ve_cfg_mng \<Rightarrow> string" where
  "bak_path cm = snprintf_s 4097 (cm_profile cm @ ''.bak'')"

text \<open>The end of \<open>ve_cfg_dump\<close>: the backup is removed, or takes the place of the file.\<close>

definition settle :: "cfg_env \<Rightarrow> ve_cfg_mng \<Rightarrow> int \<Rightarrow> files \<Rightarrow> files" where
  "settle e cm len fs = (if fs (bak_path cm) = None then fs
     else if 0 < len then fs(bak_path cm := None)
     else if env_restore e then rename_file (bak_path cm) (cm_profile cm) fs else fs)"

definition ve_cfg_dump :: "'j jsonc \<Rightarrow> cfg_env \<Rightarrow> files \<Rightarrow> ve_cfg_mng \<Rightarrow> int \<times> files \<times> ve_cfg_mng \<times> dev_call list" where
  "ve_cfg_dump J e fs cm =
     (let fs1 = (if fs (cm_profile cm) \<noteq> None \<and> env_backup e then rename_file (cm_profile cm) (bak_path cm) fs else fs)
      in if \<not> env_open e then (- 1, fs1, cm, [])
      else let fs2 = fs1(cm_profile cm \<mapsto> [])
      in if \<not> env_malloc e then (0, settle e cm (- 1) fs2, cm, [])
      else let (l, buf, cm', calls) = ve_cfg_write_new J (1024 * 1024) cm;
               (len, out) = save_text e (case buf of Some s \<Rightarrow> s | None \<Rightarrow> env_heap e)
      in (0, settle e cm len (fs2(cm_profile cm \<mapsto> out)), cm', calls))"

text \<open>\<open>send_dsp_msg\<close> is a parameter; the message is sent with its NUL, as type 12.\<close>

definition ve_cfg_send_to_dsp :: "'j jsonc \<Rightarrow> cfg_env \<Rightarrow> (string \<Rightarrow> int) \<Rightarrow> ve_cfg_mng
    \<Rightarrow> int \<times> string list \<times> ve_cfg_mng \<times> dev_call list" where
  "ve_cfg_send_to_dsp J e send_dsp_msg cm = (if \<not> env_malloc e then (- 105, [], cm, [])
     else let (len, buf, cm', calls) = ve_cfg_write_new J (1024 * 1024) cm
       in case buf of Some s \<Rightarrow> if 0 < len then (send_dsp_msg s, [s], cm', calls) else (- 1, [], cm', calls)
          | None \<Rightarrow> (- 1, [], cm', calls))"

section \<open>What a file holds is read\<close>

lemma bak_path_other: "length (cm_profile cm) < 256 \<Longrightarrow> bak_path cm \<noteq> cm_profile cm"
  by (simp add: bak_path_def snprintf_s_def)

lemma c_text_id: "CHR 0x00 \<notin> set s \<Longrightarrow> c_text s = s"
  by (auto simp: c_text_def takeWhile_eq_all_conv)

lemma indented_no_nul: "CHR 0x00 \<notin> set s \<Longrightarrow> CHR 0x00 \<notin> set (indented_text indent il s)"
  by (induction indent il s rule: indented_text.induct) (auto simp: Let_def)

text \<open>The text of a configuration.\<close>

definition cfg_text :: "'j jsonc \<Rightarrow> ve_cfg_t \<Rightarrow> string" where
  "cfg_text J c = (case cfg_write_new J (root_entry J) c of (Some root, _) \<Rightarrow> json_object_to_json_string J root | (None, _) \<Rightarrow> [])"

definition profile_text :: "'j jsonc \<Rightarrow> ve_cfg_t \<Rightarrow> string" where
  "profile_text J c = indented_text 4 0 (cfg_text J c)"

context jsonc_laws
begin

lemma cfg_written:
  assumes "ve_cfg_ok c" and "ve_cfg_plain c"
  shows "\<exists>j. cfg_write_new J (root_entry J) c = (Some j, c, device_calls c) \<and> plain_json J j
     \<and> json_object_get_type J j = json_type_object \<and> cfg_text J c = json_object_to_json_string J j
     \<and> (\<forall>k d. same_json J j k \<longrightarrow> json_object_get_type J k = json_type_object
          \<and> fold (read_pair (root_entry J)) (json_object_pairs J k) d = copied c d)"
proof -
  obtain j where j: "cfg_write_new J (root_entry J) c = (Some j, c, table_calls (root_entry J) c)" "plain_json J j"
      "json_object_get_type J j = json_type_object"
      "\<And>k d. same_json J j k \<Longrightarrow> json_object_get_type J k = json_type_object"
      "\<And>k d. same_json J j k \<Longrightarrow> fold (read_pair (root_entry J)) (json_object_pairs J k) d = copied c d"
    using table_carries [OF root_carries _, of c] assms by (auto simp: copied_def root_entry_def)
  then show ?thesis
    using root_calls [OF assms] by (auto simp: cfg_text_def)
qed

lemma write_new_text:
  assumes "ve_cfg_ok (cm_cfg cm)" and "ve_cfg_plain (cm_cfg cm)"
  shows "ve_cfg_write_new J n cm = (let t = cfg_text J (cm_cfg cm) in
     if length t + 1 \<le> n then (int (length t), Some t, cm, device_calls (cm_cfg cm)) else (- 1, None, cm, device_calls (cm_cfg cm)))"
  using cfg_written [OF assms]
  by (auto simp: ve_cfg_write_new_def cfg_write_new_def cfg_text_def Let_def split: option.splits prod.splits)

lemma profile_is_read:
  assumes "ve_cfg_ok c" and "ve_cfg_plain c"
  shows "ve_cfg_read_new J (c_text (profile_text J c)) cm = Some (0, cm\<lparr>cm_cfg := copied c (cm_cfg cm)\<rparr>)"
proof -
  obtain j where j: "plain_json J j" "cfg_text J c = json_object_to_json_string J j"
      "\<And>k d. same_json J j k \<Longrightarrow> json_object_get_type J k = json_type_object
         \<and> fold (read_pair (root_entry J)) (json_object_pairs J k) d = copied c d"
    using cfg_written [OF assms] by blast
  obtain k where "json_tokener_parse J (profile_text J c) = Some k" "same_json J j k"
    using indented_text_is_read [OF j(1)] by (auto simp: profile_text_def j(2))
  moreover have "c_text (profile_text J c) = profile_text J c"
    using text_no_nul [OF j(1)] by (simp add: c_text_id profile_text_def j(2) indented_no_nul)
  ultimately show ?thesis
    using j(3) by (simp add: ve_cfg_read_new_def)
qed

lemma text_starts:
  assumes "ve_cfg_ok c" and "ve_cfg_plain c" shows "\<exists>s. cfg_text J c = CHR ''{'' # s"
  using cfg_written [OF assms] text_object by fastforce

lemma profile_length: "length s \<le> length (indented_text indent il s)"
  by (induction indent il s rule: indented_text.induct) (auto simp: Let_def)

lemma profile_not_empty: "ve_cfg_ok c \<Longrightarrow> ve_cfg_plain c \<Longrightarrow> 0 < length (profile_text J c)"
  using text_starts [of c] by (auto simp: profile_text_def Let_def)

lemma save_cfg_text:
  assumes "ve_cfg_ok c" and "ve_cfg_plain c"
  shows "save_text e (cfg_text J c) = (let t = profile_text J c in
     if length t \<le> stream_takes e then (int (length t), take (env_room e) t) else (- 1, take (min (env_room e) (stream_takes e)) t))"
  using text_starts [OF assms] by (auto simp: save_text_def json_format_stream_text profile_text_def Let_def min.commute)

text \<open>What is in the files after saving, when a profile was there.\<close>

lemma dump_files:
  assumes "ve_cfg_ok (cm_cfg cm)" and "ve_cfg_plain (cm_cfg cm)" and "length (cm_profile cm) < 256"
    and "length (cfg_text J (cm_cfg cm)) < 1024 * 1024" and "fs (cm_profile cm) = Some old"
    and "env_malloc e" and "env_open e" and "env_backup e" and "env_restore e"
  shows "ve_cfg_dump J e fs cm = (0, fs(bak_path cm := None, cm_profile cm \<mapsto>
       (if length (profile_text J (cm_cfg cm)) \<le> stream_takes e then take (env_room e) (profile_text J (cm_cfg cm)) else old)),
     cm, device_calls (cm_cfg cm))"
proof -
  show ?thesis
    using bak_path_other [OF assms(3)] assms(4-) profile_not_empty [OF assms(1,2)]
    by (auto simp: ve_cfg_dump_def write_new_text [OF assms(1,2)] save_cfg_text [OF assms(1,2)] Let_def rename_file_def settle_def fun_eq_iff
        split: prod.splits)
qed

end

lemma room_le_takes: "env_room e \<le> stream_takes e"
proof (cases "env_buffer e = 0")
  case False
  then have "env_room e < (env_room e div env_buffer e + 1) * env_buffer e"
    by (metis Suc_eq_plus1 dividend_less_div_times gr0I mult_Suc add.commute)
  then show ?thesis
    using False by (simp add: stream_takes_def)
qed (simp add: stream_takes_def)

section \<open>Mutexes\<close>

text \<open>
  Saving holds the mutex of the configuration while the display and the sound are told their models,
  which take their own mutex. The display thread holds the mutex of the display while it draws, and
  drawing on the Listen card takes the mutex of the configuration.
\<close>

datatype mutex = Cfg_mutex | Led_mutex | Audio_mutex

datatype lock_op = Lock mutex | Unlock mutex

fun call_locks :: "dev_call \<Rightarrow> lock_op list" where
  "call_locks (Led_set_model m) = [Lock Led_mutex, Unlock Led_mutex]"
| "call_locks (Audio_dev_change m) = [Lock Audio_mutex, Unlock Audio_mutex]"
| "call_locks (Audio_dev_set_volume v) = [Lock Audio_mutex, Unlock Audio_mutex]"

definition write_locks :: "dev_call list \<Rightarrow> lock_op list" where
  "write_locks calls = Lock Cfg_mutex # concat (map call_locks calls) @ [Unlock Cfg_mutex]"

definition listen_refresh_locks :: "lock_op list" where
  "listen_refresh_locks = [Lock Led_mutex, Lock Cfg_mutex, Unlock Cfg_mutex, Unlock Led_mutex]"

text \<open>The holders of the mutexes, and what each thread has left to do.\<close>

type_synonym lock_state = "(mutex \<Rightarrow> nat option) \<times> lock_op list list"

inductive lock_step :: "lock_state \<Rightarrow> lock_state \<Rightarrow> bool" where
  lock: "i < length ts \<Longrightarrow> ts ! i = Lock m # r \<Longrightarrow> h m = None \<Longrightarrow> lock_step (h, ts) (h(m \<mapsto> i), ts[i := r])"
| unlock: "i < length ts \<Longrightarrow> ts ! i = Unlock m # r \<Longrightarrow> h m = Some i \<Longrightarrow> lock_step (h, ts) (h(m := None), ts[i := r])"

inductive_cases lock_step_cases: "lock_step (h, ts) s"

definition deadlocked :: "lock_state \<Rightarrow> bool" where
  "deadlocked s \<longleftrightarrow> (\<forall>s'. \<not> lock_step s s') \<and> (\<exists>ops \<in> set (snd s). ops \<noteq> [])"

lemma crossed_deadlocked:
  "m \<noteq> n \<Longrightarrow> h m = Some 0 \<Longrightarrow> h n = Some 1 \<Longrightarrow> deadlocked (h, [Lock n # r, Lock m # q])"
  by (auto simp: deadlocked_def nth_Cons elim!: lock_step_cases split: nat.splits)

lemma crossed_reached:
  assumes "m \<noteq> n"
  shows "lock_step\<^sup>*\<^sup>* (\<lambda>_. None, [Lock m # Lock n # r, Lock n # Lock m # q])
    ((\<lambda>_. None)(m \<mapsto> 0, n \<mapsto> 1), [Lock n # r, Lock m # q])"
proof -
  have "lock_step (\<lambda>_. None, [Lock m # Lock n # r, Lock n # Lock m # q]) ((\<lambda>_. None)(m \<mapsto> 0), [Lock n # r, Lock n # Lock m # q])"
    using lock [of 0 "[Lock m # Lock n # r, Lock n # Lock m # q]" m "Lock n # r" "\<lambda>_. None"] by simp
  moreover have "lock_step ((\<lambda>_. None)(m \<mapsto> 0), [Lock n # r, Lock n # Lock m # q])
      ((\<lambda>_. None)(m \<mapsto> 0, n \<mapsto> 1), [Lock n # r, Lock m # q])"
    using lock [of 1 "[Lock n # r, Lock n # Lock m # q]" n "Lock m # q" "(\<lambda>_. None)(m \<mapsto> 0)"] assms by simp
  ultimately show ?thesis
    by (meson converse_rtranclp_into_rtranclp rtranclp.rtrancl_refl)
qed

section \<open>A configuration to try\<close>

text \<open>The static structure before and after \<open>ve_cfg_ram_init\<close>, and an environment without failures.\<close>

definition zero_ve_cfg :: ve_cfg_t where
  "zero_ve_cfg = \<lparr>ve_pfm = \<lparr>resend_rotate = 0, pfm_bitcom = \<lparr>bc_enable = False, ftp_enable = False, mq_enable = False, http_long = False,
     serv_ip = (0, 0, 0, 0), up_port = 0, down_port = 0, bc_id = []\<rparr>\<rparr>,
     ve_dsp = \<lparr>white_list_match = 0, capture_mode = 0, non_motor_mode = 0\<rparr>,
     ve_dev = \<lparr>dev_light = \<lparr>light_white_bright = 0, light_white_mode = 0\<rparr>,
       dev_led = \<lparr>led_model = 0, reboot_hour = 0, reboot_wday = 0, led_lattice = 0, led_height = 0, led_width = 0, reboot_enable = False,
         user_content = []\<rparr>,
       dev_audio = \<lparr>audio_model = 0, audio_volume = 0\<rparr>\<rparr>,
     ve_global = \<lparr>prov = [], city = [], global_run_mode = 0, global_ve_mode = 0, global_detect_mode = 0, global_rg_mode = 0\<rparr>\<rparr>"
definition first_cm :: ve_cfg_mng where
  "first_cm = ve_cfg_ram_init \<lparr>cm_cfg = zero_ve_cfg, cm_profile = []\<rparr>"

definition good_env :: cfg_env where
  "good_env = \<lparr>env_malloc = True, env_open = True, env_backup = True, env_restore = True, env_room = 100000, env_buffer = 4096,
     env_heap = []\<rparr>"

lemma good_env_simps [simp]: "env_malloc good_env" "env_open good_env" "env_backup good_env" "env_restore good_env"
  "env_room good_env = 100000" "env_buffer good_env = 4096"
  by (simp_all add: good_env_def)

lemma first_cm_facts [simp]:
  "cm_cfg first_cm = ve_cfg_init zero_ve_cfg" "ve_cfg_ok (ve_cfg_init zero_ve_cfg)" "ve_cfg_plain (ve_cfg_init zero_ve_cfg)"
  "length (cm_profile first_cm) < 256"
proof -
  show "ve_cfg_ok (ve_cfg_init zero_ve_cfg)"
    by (rule ve_cfg_init_ok) (simp add: zero_ve_cfg_def audio_ok_def)
  show "ve_cfg_plain (ve_cfg_init zero_ve_cfg)"
    by (simp add: ve_cfg_plain_def ve_cfg_init_def global_cfg_init_def dev_cfg_init_def dev_led_cfg_init_def pfm_cfg_init_def
        pfm_bitcom_cfg_init_def is_separator_def)
qed (simp_all add: first_cm_def ve_cfg_ram_init_def snprintf_s_def VE_CFG_FILE_PATH_def)

lemmas init_defs = ve_cfg_init_def global_cfg_init_def dev_cfg_init_def dev_light_cfg_init_def dev_led_cfg_init_def dsp_cfg_init_def
  pfm_cfg_init_def pfm_bitcom_cfg_init_def zero_ve_cfg_def

lemma add_value: "k \<notin> fst ` set ps \<Longrightarrow> json_object_object_add value_json (JObj ps) k v = JObj (ps @ [(k, v)])"
  by (simp add: value_json_def)

lemma init_ip: "inet_pton ''192.168.9.70'' = Some (192, 168, 9, 70)" "dotted (192, 168, 9, 70) = ''192.168.9.70''"
  by code_simp+

text \<open>The first object, with a text in place of the province.\<close>

definition first_object :: "string \<Rightarrow> jval" where
  "first_object p = JObj
   [(''global'', JObj [(''province'', JStr p), (''city'', JStr [CHR 0xC7, CHR 0xE0, CHR 0xB5, CHR 0xBA]),
      (''detect_mode'', JStr ''coil''), (''ve_mode'', JStr ''in''), (''road_gate_mode'', JStr ''front'')]),
    (''device'', JObj [(''light'', JObj [(''white_bright'', JInt 50), (''white_mode'', JStr ''night_on'')]),
      (''led'', JObj [(''model'', JStr ''degao''), (''reboot_enable'', JBool False), (''reboot_wday'', JInt 6), (''reboot_hour'', JInt 2),
         (''user_content'', JStr [CHR 0xCC, CHR 0xD8, CHR 0xD2, CHR 0xD7, CHR 0xCD, CHR 0xA3]), (''lattice'', JInt 16), (''width'', JInt 64),
         (''height'', JInt 32)]),
      (''audio'', JObj [(''model'', JStr ''off''), (''volume'', JInt 0)])]),
    (''dsp'', JObj [(''white_list_match'', JInt 1), (''non_motor_mode'', JStr ''default''), (''coil_capture_mode'', JStr ''default'')]),
    (''plateform'', JObj [(''resend_rotate'', JInt 10), (''bitcom'', JObj [(''id'', JStr ''3700009099''), (''enable'', JBool False),
      (''ftp_enable'', JBool False), (''mq_enable'', JBool False), (''serv_ip'', JStr ''192.168.9.70''), (''up_port'', JInt 8088),
      (''down_port'', JInt 2015)])])]"

definition named_cfg :: "string \<Rightarrow> ve_cfg_t" where
  "named_cfg p = (ve_cfg_init zero_ve_cfg)\<lparr>ve_global := (ve_global (ve_cfg_init zero_ve_cfg))\<lparr>prov := p\<rparr>\<rparr>"

lemma first_written: "\<exists>calls. cfg_write_new value_json (root_entry value_json) (named_cfg p) = (Some (first_object p), named_cfg p, calls)"
  by (simp add: named_cfg_def cfg_write_new_def tables find_init group_defs setters init_defs add_value init_ip name_of_def name_tabs
      first_object_def)

lemma named_init: "named_cfg [CHR 0xC9, CHR 0xBD, CHR 0xB6, CHR 0xAB] = ve_cfg_init zero_ve_cfg"
  by (simp add: named_cfg_def init_defs)

lemma digit_chars: "char_of (48 :: nat) = CHR ''0''" "char_of (49 :: nat) = CHR ''1''" "char_of (50 :: nat) = CHR ''2''"
  "char_of (51 :: nat) = CHR ''3''" "char_of (52 :: nat) = CHR ''4''" "char_of (53 :: nat) = CHR ''5''" "char_of (54 :: nat) = CHR ''6''"
  "char_of (55 :: nat) = CHR ''7''" "char_of (56 :: nat) = CHR ''8''" "char_of (57 :: nat) = CHR ''9''"
  by code_simp+

lemmas text_defs = first_object_def str_lit_def dec_int_def dec.simps digit_chars

lemma first_text: "length (cfg_text value_json (ve_cfg_init zero_ve_cfg)) = 598"
proof -
  have "cfg_text value_json (ve_cfg_init zero_ve_cfg) = print_val (first_object [CHR 0xC9, CHR 0xBD, CHR 0xB6, CHR 0xAB])"
    using first_written [of "[CHR 0xC9, CHR 0xBD, CHR 0xB6, CHR 0xAB]"] by (auto simp: cfg_text_def named_init)
  then show ?thesis
    by (simp add: text_defs)
qed

lemma braces_dip: "dips 0 (print_val (first_object ''}}}}''))" "length (print_val (first_object ''}}}}'')) = 598"
  by (simp_all add: text_defs)

end
