(* ===== verification/Ve_Cfg_Behaviour.thy ===== *)
theory Ve_Cfg_Behaviour
  imports Ve_Cfg_File
begin

text \<open>
  What the configuration file does for the program: what is saved is loaded, values stay in their
  ranges, and the ways in which saving loses or keeps the file.
\<close>

text \<open>C29. The hash table of configuration items finds, for every table and every key, the item that a
search through the table from its end finds.\<close>

theorem json_cfg_find_is_search:
  "json_cfg_find fld (json_cfg_init fld tab) s = List.find (\<lambda>item. fld item = s) (rev tab)"
  by (rule find_init)

text \<open>C24. Whatever text is read as the configuration, every value stays in its range: names of the
enumerations, hour, weekday, brightness, volume, ports other than 0, and texts that fit their arrays.\<close>

theorem every_read_is_in_range:
  assumes "ve_cfg_ok (cm_cfg cm)" and "ve_cfg_read_new J json cm = Some (r, cm')"
  shows "ve_cfg_ok (cm_cfg cm') \<and> cm_profile cm' = cm_profile cm"
  using assms fold_keeps [OF root_keeps] by (auto simp: ve_cfg_read_new_def split: option.splits if_splits)

theorem every_read_is_in_range_witness:
  "\<exists>cm'. ve_cfg_read_new value_json ''{\"global\" : {\"ve_mode\" : \"both\", \"city\" : 8}, \"plateform\" : 7}'' first_cm = Some (0, cm')
     \<and> ve_cfg_ok (cm_cfg cm')"
proof -
  have "read_json ''{\"global\" : {\"ve_mode\" : \"both\", \"city\" : 8}, \"plateform\" : 7}''
      = Some (JObj [(''global'', JObj [(''ve_mode'', JStr ''both''), (''city'', JInt 8)]), (''plateform'', JInt 7)])"
    by code_simp
  then have "\<exists>cm'. ve_cfg_read_new value_json ''{\"global\" : {\"ve_mode\" : \"both\", \"city\" : 8}, \"plateform\" : 7}'' first_cm = Some (0, cm')"
    by (simp add: ve_cfg_read_new_def)
  then show ?thesis
    using every_read_is_in_range [of first_cm value_json] by auto
qed

text \<open>C23. A configuration in range whose texts have no brace and no comma, saved by \<open>ve_cfg_dump\<close> on a
device with room for it, is what \<open>ve_cfg_load\<close> reads into any later state, except for \<open>run_mode\<close> and
\<open>http_long\<close>, which keep the values they have there; the backup is gone and no other file is changed.\<close>

theorem ve_configuration_round_trip:
  assumes "jsonc_laws J" and "ve_cfg_ok (cm_cfg cm)" and "ve_cfg_plain (cm_cfg cm)" and "length (cm_profile cm) < 256"
    and "length (cfg_text J (cm_cfg cm)) < 1024 * 1024" and "length (profile_text J (cm_cfg cm)) \<le> env_room e"
    and "fs (cm_profile cm) \<noteq> None" and "env_malloc e" and "env_open e" and "env_backup e" and "env_restore e"
    and "env_malloc e'" and "env_open e'" and "cm_profile later = cm_profile cm"
  shows "\<exists>fs'. ve_cfg_dump J e fs cm = (0, fs', cm, device_calls (cm_cfg cm)) \<and> fs' (bak_path cm) = None
     \<and> (\<forall>p. p \<noteq> cm_profile cm \<longrightarrow> p \<noteq> bak_path cm \<longrightarrow> fs' p = fs p)
     \<and> ve_cfg_load J e' fs' later = Some (0, later\<lparr>cm_cfg := copied (cm_cfg cm) (cm_cfg later)\<rparr>)"
proof -
  obtain old where old: "fs (cm_profile cm) = Some old"
    using assms(7) by blast
  have "length (profile_text J (cm_cfg cm)) \<le> stream_takes e"
    using assms(6) room_le_takes by (rule order_trans)
  then have "ve_cfg_dump J e fs cm = (0, fs(bak_path cm := None, cm_profile cm \<mapsto> profile_text J (cm_cfg cm)), cm, device_calls (cm_cfg cm))"
    using jsonc_laws.dump_files [OF assms(1-5), of fs old] old assms(6,8-11) by simp
  then show ?thesis
    using jsonc_laws.profile_is_read [OF assms(1-3), of later] assms(12-14) bak_path_other [OF assms(4)]
    by (auto simp: ve_cfg_load_def)
qed

theorem ve_configuration_round_trip_witness:
  "\<exists>fs'. ve_cfg_dump value_json (good_env\<lparr>env_room := length (profile_text value_json (ve_cfg_init zero_ve_cfg))\<rparr>)
       (\<lambda>p. if p = cm_profile first_cm then Some ''{}'' else None) first_cm = (0, fs', first_cm, device_calls (ve_cfg_init zero_ve_cfg))
     \<and> ve_cfg_load value_json good_env fs' (first_cm\<lparr>cm_cfg := zero_ve_cfg\<rparr>)
       = Some (0, first_cm\<lparr>cm_cfg := copied (ve_cfg_init zero_ve_cfg) zero_ve_cfg\<rparr>)"
  using ve_configuration_round_trip [OF value_json.jsonc_laws_axioms, of first_cm
      "good_env\<lparr>env_room := length (profile_text value_json (ve_cfg_init zero_ve_cfg))\<rparr>"
      "\<lambda>p. if p = cm_profile first_cm then Some ''{}'' else None" good_env "first_cm\<lparr>cm_cfg := zero_ve_cfg\<rparr>"]
  by (auto simp: first_text)

text \<open>When the device has room for the new text, or when a write that fails is seen by \<open>fputc\<close>, saving
leaves the whole new text or the whole old one as the profile.\<close>

theorem dump_keeps_a_profile:
  assumes "jsonc_laws J" and "ve_cfg_ok (cm_cfg cm)" and "ve_cfg_plain (cm_cfg cm)" and "length (cm_profile cm) < 256"
    and "length (cfg_text J (cm_cfg cm)) < 1024 * 1024" and "fs (cm_profile cm) = Some old"
    and "env_malloc e" and "env_open e" and "env_backup e" and "env_restore e"
    and "length (profile_text J (cm_cfg cm)) \<le> env_room e \<or> stream_takes e < length (profile_text J (cm_cfg cm))"
  shows "\<exists>fs'. ve_cfg_dump J e fs cm = (0, fs', cm, device_calls (cm_cfg cm)) \<and> fs' (bak_path cm) = None
     \<and> fs' (cm_profile cm) = Some (if length (profile_text J (cm_cfg cm)) \<le> env_room e then profile_text J (cm_cfg cm) else old)"
  using jsonc_laws.dump_files [OF assms(1-5), of fs old, OF assms(6-10)] assms(11) room_le_takes [of e] bak_path_other [OF assms(4)] by auto

theorem dump_keeps_a_profile_witness:
  "\<exists>fs'. ve_cfg_dump value_json (good_env\<lparr>env_room := 0, env_buffer := 0\<rparr>)
       (\<lambda>p. if p = cm_profile first_cm then Some ''{}'' else None) first_cm = (0, fs', first_cm, device_calls (ve_cfg_init zero_ve_cfg))
     \<and> fs' (cm_profile first_cm) = Some ''{}''"
proof -
  have "0 < length (profile_text value_json (ve_cfg_init zero_ve_cfg))"
    by (rule value_json.profile_not_empty) simp_all
  then show ?thesis
    using dump_keeps_a_profile [OF value_json.jsonc_laws_axioms, of first_cm "\<lambda>p. if p = cm_profile first_cm then Some ''{}'' else None" "''{}''"
        "good_env\<lparr>env_room := 0, env_buffer := 0\<rparr>"]
    by (auto simp: first_text stream_takes_def)
qed

text \<open>C25. When the text fits the buffer of the stream, a device without room for it shows only when the
buffer is flushed, which nobody looks at: the call succeeds, the backup is removed, and the profile is cut off.\<close>

theorem full_device_loses_the_profile:
  assumes "jsonc_laws J" and "ve_cfg_ok (cm_cfg cm)" and "ve_cfg_plain (cm_cfg cm)" and "length (cm_profile cm) < 256"
    and "length (cfg_text J (cm_cfg cm)) < 1024 * 1024" and "fs (cm_profile cm) = Some old"
    and "env_malloc e" and "env_open e" and "env_backup e" and "env_restore e"
    and "length (profile_text J (cm_cfg cm)) \<le> env_buffer e" and "env_room e < length (profile_text J (cm_cfg cm))"
  shows "\<exists>fs'. ve_cfg_dump J e fs cm = (0, fs', cm, device_calls (cm_cfg cm)) \<and> fs' (bak_path cm) = None
     \<and> fs' (cm_profile cm) = Some (take (env_room e) (profile_text J (cm_cfg cm)))"
proof -
  have "length (profile_text J (cm_cfg cm)) \<le> stream_takes e"
    using assms(11,12) by (auto simp: stream_takes_def)
  then show ?thesis
    using jsonc_laws.dump_files [OF assms(1-5), of fs old, OF assms(6-10)] bak_path_other [OF assms(4)] by auto
qed

theorem full_device_loses_the_profile_witness:
  "\<exists>fs'. ve_cfg_dump value_json (good_env\<lparr>env_room := 0, env_buffer := length (profile_text value_json (ve_cfg_init zero_ve_cfg))\<rparr>)
       (\<lambda>p. if p = cm_profile first_cm then Some ''{}'' else None) first_cm = (0, fs', first_cm, device_calls (ve_cfg_init zero_ve_cfg))
     \<and> fs' (cm_profile first_cm) = Some []"
proof -
  have "0 < length (profile_text value_json (ve_cfg_init zero_ve_cfg))"
    by (rule value_json.profile_not_empty) simp_all
  then show ?thesis
    using full_device_loses_the_profile [OF value_json.jsonc_laws_axioms, of first_cm
        "\<lambda>p. if p = cm_profile first_cm then Some ''{}'' else None" "''{}''"
        "good_env\<lparr>env_room := 0, env_buffer := length (profile_text value_json (ve_cfg_init zero_ve_cfg))\<rparr>"]
    by (auto simp: first_text)
qed

text \<open>C26. A configuration whose text closes more braces than it has opened, which braces in its texts
can do, is never saved on a device of less than 4 GiB: the indentation passes below zero, the old profile is put back, and the call reports success.\<close>

theorem unbalanced_braces_are_never_saved:
  assumes "ve_cfg_write_new J (1024 * 1024) cm = (l, Some t, cm', calls)" and "dips 0 t" and "length (cm_profile cm) < 256"
    and "stream_takes e < 2 ^ 32 - 4" and "fs (cm_profile cm) = Some old"
    and "env_malloc e" and "env_open e" and "env_backup e" and "env_restore e"
  shows "\<exists>fs'. ve_cfg_dump J e fs cm = (0, fs', cm', calls) \<and> fs' (cm_profile cm) = Some old"
proof -
  have "fst (save_text e t) = - 1"
    using indented_text_dips [OF assms(2)] assms(4) by (auto simp: save_text_def json_format_stream_text Let_def)
  then show ?thesis
    using assms bak_path_other [OF assms(3)]
    by (auto simp: ve_cfg_dump_def Let_def settle_def rename_file_def split: prod.splits)
qed

theorem unbalanced_braces_are_never_saved_witness:
  "\<exists>fs' calls. ve_cfg_dump value_json good_env (\<lambda>p. if p = ''ve.conf'' then Some ''{}'' else None)
       \<lparr>cm_cfg = named_cfg ''}}}}'', cm_profile = ''ve.conf''\<rparr> = (0, fs', \<lparr>cm_cfg = named_cfg ''}}}}'', cm_profile = ''ve.conf''\<rparr>, calls)
     \<and> fs' ''ve.conf'' = Some ''{}''"
proof -
  obtain calls where "cfg_write_new value_json (root_entry value_json) (named_cfg ''}}}}'')
      = (Some (first_object ''}}}}''), named_cfg ''}}}}'', calls)"
    using first_written by blast
  then have "ve_cfg_write_new value_json (1024 * 1024) \<lparr>cm_cfg = named_cfg ''}}}}'', cm_profile = ''ve.conf''\<rparr>
      = (598, Some (print_val (first_object ''}}}}'')), \<lparr>cm_cfg = named_cfg ''}}}}'', cm_profile = ''ve.conf''\<rparr>, calls)"
    by (auto simp: ve_cfg_write_new_def cfg_write_new_def braces_dip Let_def split: prod.splits)
  from unbalanced_braces_are_never_saved [OF this braces_dip(1), of good_env "\<lambda>p. if p = ''ve.conf'' then Some ''{}'' else None" "''{}''"]
  show ?thesis
    by (auto simp: stream_takes_def)
qed

text \<open>C27. Saving a configuration while the display thread draws on the Listen card can block both for
ever: the one waits for the mutex of the display with the mutex of the configuration in its hand, the other
the other way round.\<close>

theorem saving_deadlocks_with_drawing:
  assumes "jsonc_laws J" and "ve_cfg_ok (cm_cfg cm)" and "ve_cfg_plain (cm_cfg cm)"
    and "ve_cfg_write_new J n cm = (l, t, cm', calls)"
  shows "\<exists>s. lock_step\<^sup>*\<^sup>* (\<lambda>_. None, [write_locks calls, listen_refresh_locks]) s \<and> deadlocked s"
proof -
  have "calls = device_calls (cm_cfg cm)"
    using assms(4) by (auto simp: jsonc_laws.write_new_text [OF assms(1-3)] Let_def split: if_splits)
  then obtain r where r: "write_locks calls = Lock Cfg_mutex # Lock Led_mutex # r"
    by (simp add: write_locks_def device_calls_def)
  show ?thesis
    unfolding r listen_refresh_locks_def by (intro exI conjI, rule crossed_reached, simp, rule crossed_deadlocked) auto
qed

theorem saving_deadlocks_with_drawing_witness:
  "\<exists>l t cm' calls s. ve_cfg_write_new value_json 4096 first_cm = (l, t, cm', calls)
     \<and> lock_step\<^sup>*\<^sup>* (\<lambda>_. None, [write_locks calls, listen_refresh_locks]) s \<and> deadlocked s"
proof -
  obtain l t cm' calls where "ve_cfg_write_new value_json 4096 first_cm = (l, t, cm', calls)"
    by (cases "ve_cfg_write_new value_json 4096 first_cm") auto
  with saving_deadlocks_with_drawing [OF value_json.jsonc_laws_axioms _ _ this] show ?thesis
    by auto
qed

section \<open>Other failures\<close>

text \<open>When the profile was renamed and cannot be opened, it is not put back, and the next load fails.\<close>

lemma failed_open_loses_the_profile:
  assumes "fs (cm_profile cm) = Some old" and "env_backup e" and "\<not> env_open e" and "length (cm_profile cm) < 256"
  shows "\<exists>fs'. ve_cfg_dump J e fs cm = (- 1, fs', cm, []) \<and> ve_cfg_load J e' fs' cm = Some (- 1, cm)"
  using assms bak_path_other [OF assms(4)] by (simp add: ve_cfg_dump_def ve_cfg_load_def rename_file_def)

text \<open>A profile that is JSON, but not an object, is read through a null pointer.\<close>

lemma array_profile_faults:
  "json_tokener_parse J json = Some root \<Longrightarrow> json_object_get_type J root \<noteq> json_type_object \<Longrightarrow> ve_cfg_read_new J json cm = None"
  by (simp add: ve_cfg_read_new_def)

text \<open>The sound settings are not initialised: the volume is that of the static structure, not 80.\<close>

lemma audio_not_initialised: "dev_audio (ve_dev (ve_cfg_init vc)) = dev_audio (ve_dev vc)"
  by (simp add: ve_cfg_init_def dev_cfg_init_def)

text \<open>A weekday out of range becomes 5 when it is read and 6 when it is saved.\<close>

lemma weekday_defaults:
  "json_object_get_type J j = json_type_int \<Longrightarrow> 6 < json_object_get_int J j
     \<Longrightarrow> dev_led_get_reboot_wday J j lc = (0, lc\<lparr>reboot_wday := 5\<rparr>)"
  "6 < reboot_wday lc \<Longrightarrow> fst (snd (dev_led_set_reboot_wday J lc)) = lc\<lparr>reboot_wday := 6\<rparr>"
  by (simp_all add: dev_led_get_reboot_wday_def dev_led_set_reboot_wday_def get_typed_def read_range_def)

end
