(* ===== verification/Ve_Cfg_Web.thy ===== *)
theory Ve_Cfg_Web
  imports Complex_Main Ve_Cfg_File
begin

text \<open>
  The settings of the entrance controller in the messages of the web interface: the parts of
  \<open>alleway_jsparam_decode\<close> and \<open>alleway_jsparam_encode\<close> (\<open>vdsystem/src/vsparam_parse.cpp\<close>) that take them
  from a message, store, save and send them, and that put them into a message; with the conversions
  of \<open>lib/Json/source/json_value.cpp\<close> and \<open>convert_enc_s\<close>. \<open>None\<close> is an exception or a failed assertion,
  which nothing catches. \<open>iconv\<close> is a parameter: the converted text, or nothing.
\<close>

section \<open>JSON values\<close>

datatype json_value = nullValue | intValue int | uintValue int | realValue real | booleanValue bool | stringValue string
  | arrayValue "json_value list" | objectValue "(string \<times> json_value) list"

definition maxInt :: int where "maxInt = 2 ^ 31 - 1"

definition minInt :: int where "minInt = - (2 ^ 31)"

definition asInt :: "json_value \<Rightarrow> int option" where
  "asInt v = (case v of
       nullValue \<Rightarrow> Some 0
     | intValue i \<Rightarrow> Some i
     | uintValue i \<Rightarrow> if i < maxInt then Some i else None
     | realValue r \<Rightarrow> if of_int minInt \<le> r \<and> r \<le> of_int maxInt then Some (if 0 \<le> r then \<lfloor>r\<rfloor> else \<lceil>r\<rceil>) else None
     | booleanValue b \<Rightarrow> Some (if b then 1 else 0)
     | _ \<Rightarrow> None)"

definition asString :: "json_value \<Rightarrow> string option" where
  "asString v = (case v of
       nullValue \<Rightarrow> Some []
     | stringValue s \<Rightarrow> Some s
     | booleanValue b \<Rightarrow> Some (if b then ''true'' else ''false'')
     | _ \<Rightarrow> None)"

definition json_member :: "json_value \<Rightarrow> string \<Rightarrow> json_value option" where
  "json_member v k = (case v of
       nullValue \<Rightarrow> Some nullValue
     | objectValue m \<Rightarrow> Some (case map_of m k of None \<Rightarrow> nullValue | Some w \<Rightarrow> w)
     | _ \<Rightarrow> None)"

section \<open>Texts\<close>

type_synonym conv = "string \<Rightarrow> string \<Rightarrow> string \<Rightarrow> string option"

definition convert_enc_s :: "conv \<Rightarrow> string \<Rightarrow> string \<Rightarrow> string \<Rightarrow> nat \<Rightarrow> string option" where
  "convert_enc_s iconv fromcode tocode inbuf outlen = (case iconv fromcode tocode inbuf of
       None \<Rightarrow> None
     | Some t \<Rightarrow> if length t \<le> outlen then Some t else None)"

text \<open>What the buffer holds behind the call and the NUL that is stored behind the text.\<close>

definition ended :: "string option \<Rightarrow> string" where
  "ended r = (case r of Some t \<Rightarrow> c_text t | None \<Rightarrow> [])"

section \<open>Messages\<close>

definition get_int :: "json_value \<Rightarrow> string \<Rightarrow> (u8 \<Rightarrow> ve_cfg_t \<Rightarrow> ve_cfg_t) \<Rightarrow> ve_cfg_t \<Rightarrow> ve_cfg_t option" where
  "get_int param k upd cfg = Option.bind (json_member param k) (\<lambda>v. Option.bind (asInt v) (\<lambda>i. Some (upd (word_of_int i) cfg)))"

text \<open>Present and of type \<open>intValue\<close>.\<close>

definition get_int_if :: "json_value \<Rightarrow> string \<Rightarrow> (u8 \<Rightarrow> ve_cfg_t \<Rightarrow> ve_cfg_t) \<Rightarrow> ve_cfg_t \<Rightarrow> ve_cfg_t option" where
  "get_int_if param k upd cfg = map_option (\<lambda>v. case v of intValue i \<Rightarrow> upd (word_of_int i) cfg | _ \<Rightarrow> cfg) (json_member param k)"

definition get_text :: "conv \<Rightarrow> json_value \<Rightarrow> string \<Rightarrow> nat \<Rightarrow> (string \<Rightarrow> ve_cfg_t \<Rightarrow> ve_cfg_t) \<Rightarrow> ve_cfg_t \<Rightarrow> ve_cfg_t option" where
  "get_text iconv obj k n upd cfg = Option.bind (json_member obj k) (\<lambda>v. Option.bind (asString v)
     (\<lambda>s. Some (upd (ended (convert_enc_s iconv ''UTF-8'' ''GBK'' s n)) cfg)))"

definition get_install_city :: "conv \<Rightarrow> json_value \<Rightarrow> ve_cfg_t \<Rightarrow> ve_cfg_t option" where
  "get_install_city iconv param cfg = Option.bind (json_member param ''install_city'')
     (\<lambda>v. if v = nullValue then Some cfg
       else Option.bind (get_text iconv v ''province'' 2047
              (\<lambda>s c. c\<lparr>ve_global := (ve_global c)\<lparr>prov := snprintf_s 32 s\<rparr>\<rparr>) cfg)
            (get_text iconv v ''city'' 2047 (\<lambda>s c. c\<lparr>ve_global := (ve_global c)\<lparr>city := snprintf_s 32 s\<rparr>\<rparr>)))"

definition set_direction :: "int \<Rightarrow> ve_cfg_t \<Rightarrow> ve_cfg_t option" where
  "set_direction dir c = Some (c\<lparr>ve_global := (ve_global c)\<lparr>global_ve_mode := (if dir = 9 then 0 else 1)\<rparr>\<rparr>)"

primrec steps :: "('a \<Rightarrow> 'a option) list \<Rightarrow> 'a \<Rightarrow> 'a option" where
  "steps [] c = Some c"
| "steps (f # fs) c = Option.bind (f c) (steps fs)"

definition advanced_decode :: "conv \<Rightarrow> int \<Rightarrow> json_value \<Rightarrow> ve_cfg_t \<Rightarrow> ve_cfg_t option" where
  "advanced_decode iconv dir p = steps [get_install_city iconv p, set_direction dir,
     get_int p ''coilControlMode'' (\<lambda>v c. c\<lparr>ve_global := (ve_global c)\<lparr>global_detect_mode := v\<rparr>\<rparr>),
     get_int p ''roadBrakeLiftMode'' (\<lambda>v c. c\<lparr>ve_global := (ve_global c)\<lparr>global_rg_mode := v\<rparr>\<rparr>),
     get_int p ''whiteLightMaxRate'' (\<lambda>v c. c\<lparr>ve_dev := (ve_dev c)\<lparr>dev_light := (dev_light (ve_dev c))\<lparr>light_white_bright := v\<rparr>\<rparr>\<rparr>),
     get_int p ''whiteLightMode'' (\<lambda>v c. c\<lparr>ve_dev := (ve_dev c)\<lparr>dev_light := (dev_light (ve_dev c))\<lparr>light_white_mode := v\<rparr>\<rparr>\<rparr>),
     get_int p ''ledModel'' (\<lambda>v c. c\<lparr>ve_dev := (ve_dev c)\<lparr>dev_led := (dev_led (ve_dev c))\<lparr>led_model := v\<rparr>\<rparr>\<rparr>),
     get_int p ''volume'' (\<lambda>v c. c\<lparr>ve_dev := (ve_dev c)\<lparr>dev_audio := (dev_audio (ve_dev c))\<lparr>audio_volume := v\<rparr>\<rparr>\<rparr>),
     get_int p ''audioCard'' (\<lambda>v c. c\<lparr>ve_dev := (ve_dev c)\<lparr>dev_audio := (dev_audio (ve_dev c))\<lparr>audio_model := v\<rparr>\<rparr>\<rparr>),
     get_text iconv p ''ledUserDefineDisplay'' 127 (\<lambda>s c. c\<lparr>ve_dev := (ve_dev c)\<lparr>dev_led := (dev_led (ve_dev c))\<lparr>user_content := s\<rparr>\<rparr>\<rparr>),
     get_int_if p ''ledWidth'' (\<lambda>v c. c\<lparr>ve_dev := (ve_dev c)\<lparr>dev_led := (dev_led (ve_dev c))\<lparr>led_width := v\<rparr>\<rparr>\<rparr>),
     get_int_if p ''ledHeight'' (\<lambda>v c. c\<lparr>ve_dev := (ve_dev c)\<lparr>dev_led := (dev_led (ve_dev c))\<lparr>led_height := v\<rparr>\<rparr>\<rparr>),
     get_int_if p ''ledLattice'' (\<lambda>v c. c\<lparr>ve_dev := (ve_dev c)\<lparr>dev_led := (dev_led (ve_dev c))\<lparr>led_lattice := v\<rparr>\<rparr>\<rparr>),
     get_int_if p ''whiteListMatch'' (\<lambda>v c. c\<lparr>ve_dsp := (ve_dsp c)\<lparr>white_list_match := v\<rparr>\<rparr>),
     get_int_if p ''captureMode'' (\<lambda>v c. c\<lparr>ve_dsp := (ve_dsp c)\<lparr>capture_mode := v\<rparr>\<rparr>),
     get_int_if p ''nonMotorMode'' (\<lambda>v c. c\<lparr>ve_dsp := (ve_dsp c)\<lparr>non_motor_mode := v\<rparr>\<rparr>)]"

text \<open>The message is acted on: stored, saved and sent to the signal processor.\<close>

definition web_set :: "'j jsonc \<Rightarrow> cfg_env \<Rightarrow> (string \<Rightarrow> int) \<Rightarrow> conv \<Rightarrow> int \<Rightarrow> json_value \<Rightarrow> files \<Rightarrow> ve_cfg_mng
    \<Rightarrow> (files \<times> ve_cfg_mng \<times> string list \<times> dev_call list) option" where
  "web_set J e send iconv dir p fs cm = (if p = nullValue then Some (fs, cm, [], [])
     else Option.bind (advanced_decode iconv dir p (cm_get cm)) (\<lambda>cfg.
       let (r, fs, cm, calls) = ve_cfg_dump J e fs (cm_set cfg cm);
           (r, msgs, cm, calls2) = ve_cfg_send_to_dsp J e send cm
       in Some (fs, cm, msgs, calls @ calls2)))"

definition put_int :: "string \<Rightarrow> u8 \<Rightarrow> string \<times> json_value" where
  "put_int k v = (k, intValue (uint v))"

definition put_text :: "conv \<Rightarrow> string \<Rightarrow> string \<Rightarrow> string \<times> json_value" where
  "put_text iconv k s = (k, stringValue (ended (convert_enc_s iconv ''GBK'' ''UTF-8'' s 1023)))"

definition advanced_encode :: "conv \<Rightarrow> ve_cfg_t \<Rightarrow> json_value" where
  "advanced_encode iconv c = objectValue [
     (''install_city'', objectValue [put_text iconv ''province'' (prov (ve_global c)), put_text iconv ''city'' (city (ve_global c))]),
     put_int ''coilControlMode'' (global_detect_mode (ve_global c)),
     put_int ''roadBrakeLiftMode'' (global_rg_mode (ve_global c)),
     put_int ''whiteLightMaxRate'' (light_white_bright (dev_light (ve_dev c))),
     put_int ''whiteLightMode'' (light_white_mode (dev_light (ve_dev c))),
     put_int ''volume'' (audio_volume (dev_audio (ve_dev c))),
     put_int ''audioCard'' (audio_model (dev_audio (ve_dev c))),
     put_int ''ledModel'' (led_model (dev_led (ve_dev c))),
     put_text iconv ''ledUserDefineDisplay'' (user_content (dev_led (ve_dev c))),
     put_int ''ledWidth'' (led_width (dev_led (ve_dev c))),
     put_int ''ledLattice'' (led_lattice (dev_led (ve_dev c))),
     put_int ''ledHeight'' (led_height (dev_led (ve_dev c))),
     put_int ''whiteListMatch'' (white_list_match (ve_dsp c)),
     put_int ''nonMotorMode'' (non_motor_mode (ve_dsp c)),
     put_int ''captureMode'' (capture_mode (ve_dsp c))]"

section \<open>Lemmas\<close>

lemma json_member_object [simp]: "json_member (objectValue m) k = Some (case map_of m k of None \<Rightarrow> nullValue | Some w \<Rightarrow> w)"
  by (simp add: json_member_def)

lemma get_int_object: "map_of m k = Some (intValue (uint v)) \<Longrightarrow> get_int (objectValue m) k upd cfg = Some (upd v cfg)"
  by (simp add: get_int_def asInt_def)

lemma get_int_if_object: "map_of m k = Some (intValue (uint v)) \<Longrightarrow> get_int_if (objectValue m) k upd cfg = Some (upd v cfg)"
  by (simp add: get_int_if_def)

text \<open>Texts that \<open>iconv\<close> takes to the other encoding and back, and that fit the buffers.\<close>

definition convertible :: "conv \<Rightarrow> string \<Rightarrow> bool" where
  "convertible iconv s \<longleftrightarrow> (\<exists>u. iconv ''GBK'' ''UTF-8'' s = Some u \<and> iconv ''UTF-8'' ''GBK'' u = Some s
     \<and> length u \<le> 1023 \<and> CHR 0x00 \<notin> set u \<and> CHR 0x00 \<notin> set s)"

lemma get_text_object:
  assumes "map_of m k = Some (snd (put_text iconv k s))" and "convertible iconv s" and "length s \<le> n"
  shows "get_text iconv (objectValue m) k n upd cfg = Some (upd s cfg)"
  using assms by (auto simp: get_text_def put_text_def convertible_def convert_enc_s_def ended_def asString_def c_text_id)

text \<open>What the web interface is shown of a configuration.\<close>

definition web_copy :: "ve_cfg_t \<Rightarrow> ve_cfg_t \<Rightarrow> ve_cfg_t" where
  "web_copy c d = d\<lparr>
     ve_global := (ve_global d)\<lparr>prov := prov (ve_global c), city := city (ve_global c),
       global_detect_mode := global_detect_mode (ve_global c), global_rg_mode := global_rg_mode (ve_global c)\<rparr>,
     ve_dev := (ve_dev d)\<lparr>dev_light := dev_light (ve_dev c), dev_audio := dev_audio (ve_dev c),
       dev_led := (dev_led (ve_dev d))\<lparr>led_model := led_model (dev_led (ve_dev c)), user_content := user_content (dev_led (ve_dev c)),
         led_width := led_width (dev_led (ve_dev c)), led_height := led_height (dev_led (ve_dev c)),
         led_lattice := led_lattice (dev_led (ve_dev c))\<rparr>\<rparr>,
     ve_dsp := ve_dsp c\<rparr>"

lemma decode_encode:
  assumes "convertible iconv (prov (ve_global c))" and "convertible iconv (city (ve_global c))"
    and "convertible iconv (user_content (dev_led (ve_dev c)))"
    and "length (prov (ve_global c)) < 32" and "length (city (ve_global c)) < 32" and "length (user_content (dev_led (ve_dev c))) < 128"
  shows "advanced_decode iconv dir (advanced_encode iconv c) d = set_direction dir (web_copy c d)"
proof -
  have city: "get_install_city iconv (advanced_encode iconv c) d = Some (d\<lparr>ve_global := (ve_global d)\<lparr>prov := prov (ve_global c),
      city := city (ve_global c)\<rparr>\<rparr>)"
    using assms(1,2,4,5)
    by (simp add: get_install_city_def advanced_encode_def get_text_object put_text_def snprintf_s_def)
  show ?thesis
    using assms(3,6) unfolding advanced_decode_def steps.simps city
    by (simp add: advanced_encode_def put_int_def get_int_object get_int_if_object get_text_object put_text_def set_direction_def
        web_copy_def)
qed

text \<open>The message that shows a configuration to the web interface, sent back unchanged, sets what it shows
and, from the direction of the device, whether it is an entrance or an exit, and nothing else.\<close>

theorem web_message_round_trip:
  assumes "convertible iconv (prov (ve_global c))" and "convertible iconv (city (ve_global c))"
    and "convertible iconv (user_content (dev_led (ve_dev c)))"
    and "length (prov (ve_global c)) < 32" and "length (city (ve_global c)) < 32" and "length (user_content (dev_led (ve_dev c))) < 128"
  shows "advanced_decode iconv dir (advanced_encode iconv c) d = set_direction dir (web_copy c d)"
  using assms by (rule decode_encode)

theorem web_message_round_trip_witness:
  "advanced_decode (\<lambda>_ _. Some) 9 (advanced_encode (\<lambda>_ _. Some) (ve_cfg_init zero_ve_cfg)) zero_ve_cfg
     = set_direction 9 (web_copy (ve_cfg_init zero_ve_cfg) zero_ve_cfg)"
  by (rule web_message_round_trip) (simp_all add: convertible_def init_defs)

text \<open>C28. A message that makes a configuration in range, of texts without brace and comma, is stored, sent to the
signal processor and saved such that a later start of the program has the configuration that is running, but for the two settings that have no item.\<close>

theorem web_setting_survives_restart:
  assumes "jsonc_laws J" and "p \<noteq> nullValue" and "advanced_decode iconv dir p (cm_cfg cm) = Some c"
    and "ve_cfg_ok c" and "ve_cfg_plain c" and "length (cm_profile cm) < 256"
    and "length (cfg_text J c) < 1024 * 1024" and "length (profile_text J c) \<le> env_room e"
    and "fs (cm_profile cm) \<noteq> None" and "env_malloc e" and "env_open e" and "env_backup e" and "env_restore e"
    and "env_malloc e'" and "env_open e'" and "cm_profile later = cm_profile cm"
  shows "\<exists>fs'. web_set J e send iconv dir p fs cm = Some (fs', cm\<lparr>cm_cfg := c\<rparr>, [cfg_text J c], device_calls c @ device_calls c)
     \<and> ve_cfg_load J e' fs' later = Some (0, later\<lparr>cm_cfg := copied c (cm_cfg later)\<rparr>)"
proof -
  let ?cm = "cm\<lparr>cm_cfg := c\<rparr>"
  obtain old where old: "fs (cm_profile ?cm) = Some old"
    using assms(9) by auto
  have c: "ve_cfg_ok (cm_cfg ?cm)" "ve_cfg_plain (cm_cfg ?cm)" "length (cm_profile ?cm) < 256" "length (cfg_text J (cm_cfg ?cm)) < 1024 * 1024"
    using assms(4-7) by simp_all
  have "length (profile_text J c) \<le> stream_takes e"
    using assms(8) room_le_takes by (rule order_trans)
  then have dump: "ve_cfg_dump J e fs ?cm = (0, fs(bak_path ?cm := None, cm_profile cm \<mapsto> profile_text J c), ?cm, device_calls c)"
    using jsonc_laws.dump_files [OF assms(1) c, of fs old e] old assms(8,10-13) by simp
  have "0 < length (cfg_text J c)"
    using jsonc_laws.text_starts [OF assms(1,4,5)] by auto
  then have "ve_cfg_send_to_dsp J e send ?cm = (send (cfg_text J c), [cfg_text J c], ?cm, device_calls c)"
    using assms(7,10) jsonc_laws.write_new_text [OF assms(1) c(1,2), of "1024 * 1024"] by (simp add: ve_cfg_send_to_dsp_def Let_def)
  then have "web_set J e send iconv dir p fs cm = Some (fs(bak_path ?cm := None, cm_profile cm \<mapsto> profile_text J c), ?cm,
      [cfg_text J c], device_calls c @ device_calls c)"
    using assms(2,3) dump by (simp add: web_set_def cm_get_def cm_set_def)
  then show ?thesis
    using jsonc_laws.profile_is_read [OF assms(1,4,5), of later] assms(14-16) by (auto simp: ve_cfg_load_def)
qed

theorem web_setting_survives_restart_witness:
  "\<exists>fs'. web_set value_json (good_env\<lparr>env_room := length (profile_text value_json (ve_cfg_init zero_ve_cfg))\<rparr>) (\<lambda>_. 0) (\<lambda>_ _. Some) 9
       (advanced_encode (\<lambda>_ _. Some) (ve_cfg_init zero_ve_cfg)) (\<lambda>p. if p = cm_profile first_cm then Some ''{}'' else None) first_cm
     = Some (fs', first_cm, [cfg_text value_json (ve_cfg_init zero_ve_cfg)],
         device_calls (ve_cfg_init zero_ve_cfg) @ device_calls (ve_cfg_init zero_ve_cfg))"
proof -
  have "advanced_decode (\<lambda>_ _. Some) 9 (advanced_encode (\<lambda>_ _. Some) (ve_cfg_init zero_ve_cfg)) (cm_cfg first_cm)
      = Some (ve_cfg_init zero_ve_cfg)"
    using decode_encode [of "\<lambda>_ _. Some" "ve_cfg_init zero_ve_cfg" 9 "cm_cfg first_cm"]
    by (simp add: convertible_def init_defs set_direction_def web_copy_def first_cm_def ve_cfg_ram_init_def)
  moreover have "first_cm\<lparr>cm_cfg := ve_cfg_init zero_ve_cfg\<rparr> = first_cm"
    by (simp add: first_cm_def ve_cfg_ram_init_def)
  ultimately show ?thesis
    using web_setting_survives_restart [OF value_json.jsonc_laws_axioms, of "advanced_encode (\<lambda>_ _. Some) (ve_cfg_init zero_ve_cfg)"
        "\<lambda>_ _. Some" 9 first_cm "ve_cfg_init zero_ve_cfg"
        "good_env\<lparr>env_room := length (profile_text value_json (ve_cfg_init zero_ve_cfg))\<rparr>"
        "\<lambda>p. if p = cm_profile first_cm then Some ''{}'' else None" good_env first_cm "\<lambda>_. 0"]
    by (auto simp: first_text advanced_encode_def)
qed

section \<open>Messages that are not checked\<close>

text \<open>
  A detection mode out of range is stored as it is, but saved as \<open>video\<close>: after the next start another
  mode runs than before it. A text in place of a number throws an exception that nothing catches.
\<close>

lemma unchecked_mode_changes_at_restart:
  assumes "3 \<le> m"
  shows "get_int (objectValue [put_int ''coilControlMode'' m]) ''coilControlMode''
      (\<lambda>v c. c\<lparr>ve_global := (ve_global c)\<lparr>global_detect_mode := v\<rparr>\<rparr>) c = Some (c\<lparr>ve_global := (ve_global c)\<lparr>global_detect_mode := m\<rparr>\<rparr>)"
    and "read_enum detect_mode_tab 3 1 (name_of detect_mode_tab ''video'' m) = 0"
proof -
  show "get_int (objectValue [put_int ''coilControlMode'' m]) ''coilControlMode''
      (\<lambda>v c. c\<lparr>ve_global := (ve_global c)\<lparr>global_detect_mode := v\<rparr>\<rparr>) c = Some (c\<lparr>ve_global := (ve_global c)\<lparr>global_detect_mode := m\<rparr>\<rparr>)"
    by (simp add: put_int_def get_int_object)
  have "3 \<le> uint m"
    using assms by (simp add: word_le_def)
  then show "read_enum detect_mode_tab 3 1 (name_of detect_mode_tab ''video'' m) = 0"
    by (simp add: name_of_def detect_mode_tab_def read_enum_def)
qed

lemma text_for_number_aborts: "map_of m k = Some (stringValue s) \<Longrightarrow> get_int (objectValue m) k upd cfg = None"
  by (simp add: get_int_def asInt_def)

end
