(* ===== verification/Eplate.thy ===== *)
theory Eplate
  imports Vd_Prelude
begin

unbundle bit_operations_syntax

text \<open>
  The reader of electronic plates (\<open>toggle/eplate/eplate.c\<close>): what its thread does with the bytes that
  arrive on the serial line, and \<open>eplate_get_status\<close>, which takes one of the plates counted. \<open>None\<close> is
  an access outside of the buffer. The counter is a C \<open>int\<close>, which the 255 plates of a frame do not bring near
  its bound.
\<close>

section \<open>Frames in the buffer\<close>

abbreviation EPLATE_BUF :: nat where "EPLATE_BUF \<equiv> 1024"

text \<open>The buffer keeps what earlier receptions left behind the \<open>wp\<close> bytes that count.\<close>

record eplate =
  ep_buf :: "u8 list"
  ep_wp :: nat
  epc_cnt :: int

definition eplate_find_hdr :: "u8 list \<Rightarrow> nat \<Rightarrow> nat option" where
  "eplate_find_hdr buf len = List.find (\<lambda>i. buf ! i = 0x0B) [0..<len]"

text \<open>The check sum over the six bytes of the address.\<close>

definition eplate_cs :: "u8 list \<Rightarrow> nat \<Rightarrow> u8" where
  "eplate_cs buf h = (let cs = sum_list (map (\<lambda>i. buf ! i) [h + 1..<h + 7]);
       cs = cs XOR 0xFF; cs = cs + 1 in cs XOR 0xFF)"

definition eplate_frm_is_heartbeat :: "u8 list \<Rightarrow> nat \<Rightarrow> bool option" where
  "eplate_frm_is_heartbeat buf len = (case eplate_find_hdr buf len of
       None \<Rightarrow> Some False
     | Some h \<Rightarrow> if length buf \<le> h + 7 then None else Some (eplate_cs buf h = buf ! (h + 7)))"

definition SZ_EPLATE_ID :: nat where "SZ_EPLATE_ID = 12"

definition EPLATE_GET_FRM_LEN :: "u8 list \<Rightarrow> nat \<Rightarrow> nat" where
  "EPLATE_GET_FRM_LEN buf h = 8 + unat (buf ! (h + 7)) * SZ_EPLATE_ID + 1"

definition eplate_chk_frm :: "u8 list \<Rightarrow> nat \<Rightarrow> nat \<Rightarrow> bool" where
  "eplate_chk_frm buf h len \<longleftrightarrow> (let frm_len = EPLATE_GET_FRM_LEN buf h in
     frm_len \<le> len \<and> eplate_cs buf h = buf ! (h + frm_len - 1))"

text \<open>The plates of the frame, when it passes; it is only asked behind \<open>eplate_frm_is_heartbeat\<close>.\<close>

definition eplate_parse :: "u8 list \<Rightarrow> nat \<Rightarrow> int option" where
  "eplate_parse buf len = (case eplate_find_hdr buf len of
       None \<Rightarrow> None
     | Some h \<Rightarrow> if eplate_chk_frm buf h (len - h) then Some (int (unat (buf ! (h + 7)))) else None)"

section \<open>The thread\<close>

text \<open>The bytes that arrive are put behind those that count.\<close>

definition joined :: "u8 list \<Rightarrow> eplate \<Rightarrow> u8 list" where
  "joined bs ep = take (ep_wp ep) (ep_buf ep) @ bs @ drop (ep_wp ep + length bs) (ep_buf ep)"

text \<open>One pass with the bytes that \<open>read\<close> gives, at most as many as there is room for.\<close>

definition eplate_received :: "u8 list \<Rightarrow> eplate \<Rightarrow> eplate option" where
  "eplate_received bs ep = (if bs = [] then Some ep
     else let buf = joined bs ep; wp = ep_wp ep + length bs
       in case eplate_frm_is_heartbeat buf wp of
            None \<Rightarrow> None
          | Some True \<Rightarrow> Some (ep\<lparr>ep_buf := buf, ep_wp := 0\<rparr>)
          | Some False \<Rightarrow> (case eplate_parse buf wp of
                Some nr \<Rightarrow> Some (ep\<lparr>ep_buf := buf, ep_wp := 0, epc_cnt := epc_cnt ep + nr\<rparr>)
              | None \<Rightarrow> Some (ep\<lparr>ep_buf := buf, ep_wp := (if EPLATE_BUF \<le> wp then 0 else wp)\<rparr>)))"

text \<open>The result is a \<open>char\<close>, unsigned on the target, so \<open>-1\<close> is 255.\<close>

definition eplate_get_status :: "eplate \<Rightarrow> u8 \<times> eplate" where
  "eplate_get_status ep = (if 0 < epc_cnt ep then (0, ep\<lparr>epc_cnt := epc_cnt ep - 1\<rparr>) else (255, ep))"

text \<open>The outcomes of making the mutex, the attribute and the thread, which starts with an empty buffer.\<close>

definition eplate_init :: "bool \<Rightarrow> bool \<Rightarrow> int \<Rightarrow> eplate \<Rightarrow> int \<times> eplate" where
  "eplate_init mutex_ok attr_ok created ep = (let ep = ep\<lparr>epc_cnt := 0\<rparr> in
     if \<not> mutex_ok then (- 1, ep)
     else if \<not> attr_ok then (- 1, ep)
     else (created, if created = 0 then ep\<lparr>ep_wp := 0\<rparr> else ep))"

definition eplate_ok :: "eplate \<Rightarrow> bool" where
  "eplate_ok ep \<longleftrightarrow> length (ep_buf ep) = EPLATE_BUF \<and> ep_wp ep < EPLATE_BUF"

text \<open>The bytes that count.\<close>

definition ep_pending :: "eplate \<Rightarrow> u8 list" where
  "ep_pending ep = take (ep_wp ep) (ep_buf ep)"

section \<open>Frames\<close>

definition mac_cs :: "u8 list \<Rightarrow> u8" where
  "mac_cs mac = sum_list mac - 1"

definition data_frame :: "u8 list \<Rightarrow> u8 \<Rightarrow> u8 list \<Rightarrow> u8 list" where
  "data_frame mac nr ids = 0x0B # mac @ nr # ids @ [mac_cs mac]"

definition heartbeat :: "u8 list \<Rightarrow> u8 list" where
  "heartbeat mac = 0x0B # mac @ [mac_cs mac]"

lemma xor_inc_xor: "(((w :: u8) XOR 0xFF) + 1) XOR 0xFF = w - 1"
proof -
  have "(0xFF :: u8) = - 1"
    by simp
  then show ?thesis
    by (simp only: bit.xor_one_right) (simp add: not_eq_complement)
qed

lemma sub_nth: "a \<le> b \<Longrightarrow> b \<le> length xs \<Longrightarrow> map (\<lambda>i. xs ! i) [a..<b] = take (b - a) (drop a xs)"
  by (rule nth_equalityI) simp_all

lemma eplate_cs_take: "h + 7 \<le> length buf \<Longrightarrow> eplate_cs buf h = mac_cs (take 6 (drop (h + 1) buf))"
  using sub_nth [of "h + 1" "h + 7" buf] by (simp add: eplate_cs_def mac_cs_def Let_def xor_inc_xor)

text \<open>Where the header is: behind bytes that are none.\<close>

lemma find_hdr_Some:
  assumes "take wp buf = g @ 0x0B # r" and "0x0B \<notin> set g" and "wp \<le> length buf"
  shows "eplate_find_hdr buf wp = Some (length g)"
proof -
  have wp: "wp = length g + 1 + length r"
    using arg_cong [OF assms(1), of length] assms(3) by simp
  have nth: "i < wp \<Longrightarrow> buf ! i = (g @ 0x0B # r) ! i" for i
    by (simp add: assms(1) [symmetric])
  have "buf ! length g = 0x0B" "\<And>j. j < length g \<Longrightarrow> buf ! j \<noteq> 0x0B"
    using nth assms(2) wp by (auto simp: nth_append dest: nth_mem)
  moreover have "length g < wp"
    using wp by simp
  ultimately show ?thesis
    unfolding eplate_find_hdr_def find_Some_iff by (intro exI [of _ "length g"]) simp
qed

lemma find_hdr_None:
  assumes "0x0B \<notin> set (take wp buf)" and "wp \<le> length buf" shows "eplate_find_hdr buf wp = None"
  using assms by (auto simp: eplate_find_hdr_def find_None_iff in_set_conv_nth)

lemma joined_facts:
  assumes "eplate_ok ep" and "ep_wp ep + length bs \<le> EPLATE_BUF"
  shows "length (joined bs ep) = EPLATE_BUF" "take (ep_wp ep + length bs) (joined bs ep) = ep_pending ep @ bs"
    "length (ep_pending ep) = ep_wp ep"
  using assms by (auto simp: eplate_ok_def joined_def ep_pending_def)

text \<open>A frame at the front: its check sum, its number of plates and its end.\<close>

lemma frame_parts:
  assumes "take wp buf = g @ 0x0B # mac @ nr # r" and "length mac = 6" and "wp \<le> length buf"
  shows "eplate_cs buf (length g) = mac_cs mac" "buf ! (length g + 7) = nr"
    "length g + 8 + k < wp \<Longrightarrow> buf ! (length g + 8 + k) = r ! k"
proof -
  have wp: "wp = length g + 8 + length r"
    using arg_cong [OF assms(1), of length] assms(2,3) by simp
  have nth: "i < wp \<Longrightarrow> buf ! i = (g @ 0x0B # mac @ nr # r) ! i" for i
    by (simp add: assms(1) [symmetric])
  show "buf ! (length g + 7) = nr"
    using nth [of "length g + 7"] wp assms(2) by (simp add: nth_append nth_Cons')
  show "length g + 8 + k < wp \<Longrightarrow> buf ! (length g + 8 + k) = r ! k"
    using nth [of "length g + 8 + k"] wp assms(2) by (simp add: nth_append nth_Cons')
  have "take 6 (drop (length g + 1) buf) = take 6 (drop (length g + 1) (take wp buf))"
    using wp by (simp add: drop_take take_take)
  also have "\<dots> = mac"
    unfolding assms(1) using assms(2) by simp
  finally show "eplate_cs buf (length g) = mac_cs mac"
    using wp assms(3) by (simp add: eplate_cs_take)
qed

lemma received_cases:
  assumes "eplate_ok ep" and "ep_wp ep + length bs \<le> EPLATE_BUF" and "bs \<noteq> []"
    and "ep_pending ep @ bs = g @ 0x0B # mac @ nr # r" and "0x0B \<notin> set g" and "length mac = 6"
  shows "eplate_received bs ep = Some (
     if nr = mac_cs mac then ep\<lparr>ep_buf := joined bs ep, ep_wp := 0\<rparr>
     else if unat nr * 12 < length r \<and> r ! (unat nr * 12) = mac_cs mac
       then ep\<lparr>ep_buf := joined bs ep, ep_wp := 0, epc_cnt := epc_cnt ep + int (unat nr)\<rparr>
     else ep\<lparr>ep_buf := joined bs ep, ep_wp := (if EPLATE_BUF \<le> ep_wp ep + length bs then 0 else ep_wp ep + length bs)\<rparr>)"
proof -
  let ?buf = "joined bs ep" and ?wp = "ep_wp ep + length bs"
  have t: "take ?wp ?buf = g @ 0x0B # mac @ nr # r" "?wp \<le> length ?buf" "length ?buf = EPLATE_BUF"
    using joined_facts [OF assms(1,2)] assms(2,4) by simp_all
  have wp: "?wp = length g + 8 + length r"
    using arg_cong [OF t(1), of length] t(2) assms(6) by simp
  have hdr: "eplate_find_hdr ?buf ?wp = Some (length g)"
    using find_hdr_Some [OF t(1) assms(5) t(2)] .
  note parts = frame_parts [OF t(1) assms(6) t(2)]
  have chk: "eplate_chk_frm ?buf (length g) (?wp - length g) \<longleftrightarrow> unat nr * 12 < length r \<and> r ! (unat nr * 12) = mac_cs mac"
  proof (cases "unat nr * 12 < length r")
    case True
    then show ?thesis
      using parts(3) [of "unat nr * 12"] wp
      by (auto simp: eplate_chk_frm_def EPLATE_GET_FRM_LEN_def SZ_EPLATE_ID_def parts(1,2) Let_def ac_simps)
  next
    case False
    then show ?thesis
      using wp by (simp add: eplate_chk_frm_def EPLATE_GET_FRM_LEN_def SZ_EPLATE_ID_def parts(2) Let_def)
  qed
  have beat: "eplate_frm_is_heartbeat ?buf ?wp = Some (nr = mac_cs mac)"
    unfolding eplate_frm_is_heartbeat_def hdr option.case parts using wp t(2,3) by auto
  have "eplate_received bs ep = (case eplate_frm_is_heartbeat ?buf ?wp of
            None \<Rightarrow> None
          | Some True \<Rightarrow> Some (ep\<lparr>ep_buf := ?buf, ep_wp := 0\<rparr>)
          | Some False \<Rightarrow> (case eplate_parse ?buf ?wp of
                Some nr \<Rightarrow> Some (ep\<lparr>ep_buf := ?buf, ep_wp := 0, epc_cnt := epc_cnt ep + nr\<rparr>)
              | None \<Rightarrow> Some (ep\<lparr>ep_buf := ?buf, ep_wp := (if EPLATE_BUF \<le> ?wp then 0 else ?wp)\<rparr>)))"
    using assms(3) by (simp add: eplate_received_def Let_def)
  then show ?thesis
    by (simp add: beat eplate_parse_def hdr chk parts(2))
qed

fun eplate_run :: "u8 list list \<Rightarrow> eplate \<Rightarrow> eplate option" where
  "eplate_run [] ep = Some ep"
| "eplate_run (bs # bss) ep = (case eplate_received bs ep of None \<Rightarrow> None | Some ep' \<Rightarrow> eplate_run bss ep')"

text \<open>Bytes whose first header starts something that is no frame, or none that the buffer can hold.\<close>

definition ep_stuck :: "u8 list \<Rightarrow> bool" where
  "ep_stuck c \<longleftrightarrow> (\<exists>g mac nr r. c = g @ 0x0B # mac @ nr # r \<and> 0x0B \<notin> set g \<and> length mac = 6 \<and> nr \<noteq> mac_cs mac
     \<and> (EPLATE_BUF < length g + 9 + unat nr * 12 \<or> unat nr * 12 < length r \<and> r ! (unat nr * 12) \<noteq> mac_cs mac))"

lemma ep_stuck_append: "ep_stuck c \<Longrightarrow> ep_stuck (c @ bs)"
proof -
  assume "ep_stuck c"
  then obtain g mac nr r where "c = g @ 0x0B # mac @ nr # r" "0x0B \<notin> set g" "length mac = 6" "nr \<noteq> mac_cs mac"
      "EPLATE_BUF < length g + 9 + unat nr * 12 \<or> unat nr * 12 < length r \<and> r ! (unat nr * 12) \<noteq> mac_cs mac"
    unfolding ep_stuck_def by blast
  then show ?thesis
    unfolding ep_stuck_def by (intro exI [of _ g] exI [of _ mac] exI [of _ nr] exI [of _ "r @ bs"]) (auto simp: nth_append)
qed

lemma ep_stuck_received:
  assumes "eplate_ok ep" and "ep_stuck (ep_pending ep)" and "ep_wp ep + length bs \<le> EPLATE_BUF"
  shows "\<exists>ep'. eplate_received bs ep = Some ep' \<and> epc_cnt ep' = epc_cnt ep \<and> eplate_ok ep'
     \<and> ep_pending ep' = (if ep_wp ep + length bs < EPLATE_BUF then ep_pending ep @ bs else [])"
proof (cases "bs = []")
  case True
  then show ?thesis
    using assms(1) by (auto simp: eplate_received_def eplate_ok_def)
next
  case False
  obtain g mac nr r where f: "ep_pending ep @ bs = g @ 0x0B # mac @ nr # r" "0x0B \<notin> set g" "length mac = 6" "nr \<noteq> mac_cs mac"
      "EPLATE_BUF < length g + 9 + unat nr * 12 \<or> unat nr * 12 < length r \<and> r ! (unat nr * 12) \<noteq> mac_cs mac"
    using ep_stuck_append [OF assms(2)] unfolding ep_stuck_def by blast
  have "\<not> (unat nr * 12 < length r \<and> r ! (unat nr * 12) = mac_cs mac)"
    using f(5) arg_cong [OF f(1), of length] joined_facts(3) [OF assms(1,3)] assms(3) f(3) by auto
  then show ?thesis
    using received_cases [OF assms(1,3) False f(1-3)] f(4) joined_facts [OF assms(1,3)] assms(3)
    by (auto simp: eplate_ok_def ep_pending_def)
qed

definition fresh_ep :: eplate where
  "fresh_ep = \<lparr>ep_buf = replicate EPLATE_BUF 0, ep_wp = 0, epc_cnt = 0\<rparr>"

lemma fresh_ep_facts [simp]: "eplate_ok fresh_ep" "ep_pending fresh_ep = []" "ep_wp fresh_ep = 0" "epc_cnt fresh_ep = 0"
  "length (ep_buf fresh_ep) = EPLATE_BUF"
  by (simp_all add: fresh_ep_def eplate_ok_def ep_pending_def)

section \<open>Properties\<close>

text \<open>C21. The reception that completes the first data frame in the buffer, behind any bytes other than
header bytes, empties the buffer, with all that follows the frame, and counts the plates of the frame
once; but a frame whose number of plates happens to equal the check sum of its address is taken for a
heartbeat, and its plates are not counted.\<close>

theorem eplate_frame_is_counted:
  assumes "eplate_ok ep" and "ep_wp ep + length bs \<le> EPLATE_BUF" and "bs \<noteq> []"
    and "ep_pending ep @ bs = g @ data_frame mac nr ids @ rest" and "0x0B \<notin> set g"
    and "length mac = 6" and "length ids = unat nr * 12"
  shows "\<exists>ep'. eplate_received bs ep = Some ep' \<and> ep_pending ep' = [] \<and> eplate_ok ep'
     \<and> epc_cnt ep' = epc_cnt ep + (if nr = mac_cs mac then 0 else int (unat nr))"
  using received_cases [OF assms(1-3), of g mac nr "ids @ mac_cs mac # rest"] joined_facts(1) [OF assms(1,2)] assms(4-7)
  by (cases "nr = mac_cs mac") (auto simp: data_frame_def nth_append eplate_ok_def ep_pending_def)

theorem eplate_frame_is_counted_witness:
  "\<exists>ep'. eplate_received ([9] @ data_frame [1, 2, 3, 4, 5, 6] 1 [1, 2, 3, 4, 5, 6, 7, 8, 9, 10, 12, 13] @ []) fresh_ep = Some ep'
     \<and> epc_cnt ep' = 1 \<and> ep_pending ep' = []"
  using eplate_frame_is_counted [of fresh_ep "[9] @ data_frame [1, 2, 3, 4, 5, 6] 1 [1, 2, 3, 4, 5, 6, 7, 8, 9, 10, 12, 13] @ []"
      "[9]" "[1, 2, 3, 4, 5, 6]" 1 "[1, 2, 3, 4, 5, 6, 7, 8, 9, 10, 12, 13]" "[]"]
  by (auto simp: data_frame_def mac_cs_def)

text \<open>Once the first header byte in the buffer starts something that is no frame, nothing is counted until
the buffer is full, and then everything in it is dropped: correct frames of up to 1 KB are lost.\<close>

theorem corrupt_header_blocks_frames:
  assumes "eplate_ok ep" and "ep_stuck (ep_pending ep)" and "ep_wp ep + length (concat bss) < EPLATE_BUF"
    and "ep_wp ep + length (concat bss) + length bs = EPLATE_BUF"
  shows "\<exists>ep' ep''. eplate_run bss ep = Some ep' \<and> epc_cnt ep' = epc_cnt ep \<and> ep_pending ep' = ep_pending ep @ concat bss
     \<and> eplate_received bs ep' = Some ep'' \<and> epc_cnt ep'' = epc_cnt ep \<and> ep_pending ep'' = []"
  using assms
proof (induction bss arbitrary: ep)
  case Nil
  then show ?case
    using ep_stuck_received [of ep bs] by auto
next
  case (Cons b bss)
  obtain ep1 where ep1: "eplate_received b ep = Some ep1" "epc_cnt ep1 = epc_cnt ep" "eplate_ok ep1" "ep_pending ep1 = ep_pending ep @ b"
    using ep_stuck_received [OF Cons.prems(1,2), of b] Cons.prems(3) by auto
  have "ep_wp ep1 = ep_wp ep + length b"
    using ep1(3) Cons.prems(1) arg_cong [OF ep1(4), of length] by (simp add: ep_pending_def eplate_ok_def)
  then show ?case
    using Cons.IH [OF ep1(3)] ep_stuck_append [OF Cons.prems(2), of b] Cons.prems(3,4) ep1 by (auto simp: add.assoc)
qed

theorem corrupt_header_blocks_frames_witness:
  "\<exists>ep ep' ep''. eplate_received [0x0B, 1, 2, 3, 4, 5, 6, 0, 77] fresh_ep = Some ep
     \<and> eplate_run [data_frame [1, 2, 3, 4, 5, 6] 0 []] ep = Some ep' \<and> epc_cnt ep' = 0
     \<and> eplate_received (replicate 1006 0) ep' = Some ep'' \<and> epc_cnt ep'' = 0 \<and> ep_pending ep'' = []"
proof -
  have ep_stuck: "ep_stuck ([] @ 0x0B # [1, 2, 3, 4, 5, 6] @ 0 # [77])"
    unfolding ep_stuck_def
    by (intro exI [of _ "[]"] exI [of _ "[1, 2, 3, 4, 5, 6]"] exI [of _ 0] exI [of _ "[77]"]) (simp add: mac_cs_def)
  obtain ep where ep: "eplate_received [0x0B, 1, 2, 3, 4, 5, 6, 0, 77] fresh_ep = Some ep" "epc_cnt ep = 0" "eplate_ok ep"
      "ep_pending ep = [0x0B, 1, 2, 3, 4, 5, 6, 0, 77]"
    using received_cases [of fresh_ep "[0x0B, 1, 2, 3, 4, 5, 6, 0, 77]" "[]" "[1, 2, 3, 4, 5, 6]" 0 "[77]"]
      joined_facts [of fresh_ep "[0x0B, 1, 2, 3, 4, 5, 6, 0, 77]"]
    by (auto simp: mac_cs_def eplate_ok_def ep_pending_def)
  have "ep_wp ep = length (ep_pending ep)"
    using ep(3) by (simp add: ep_pending_def eplate_ok_def)
  then have "ep_wp ep = 9"
    by (simp add: ep(4))
  then show ?thesis
    using corrupt_header_blocks_frames [of ep "[data_frame [1, 2, 3, 4, 5, 6] 0 []]" "replicate 1006 0"] ep_stuck ep
    by (auto simp: data_frame_def)
qed

section \<open>Other behaviour\<close>

text \<open>A data frame whose number of plates equals the check sum of its address is taken for a heartbeat.\<close>

lemma frame_taken_for_heartbeat:
  assumes "eplate_ok ep" and "ep_wp ep + length bs \<le> EPLATE_BUF" and "bs \<noteq> []"
    and "ep_pending ep @ bs = data_frame mac (mac_cs mac) ids @ rest" and "length mac = 6"
  shows "\<exists>ep'. eplate_received bs ep = Some ep' \<and> epc_cnt ep' = epc_cnt ep \<and> ep_pending ep' = []"
  using received_cases [OF assms(1-3), of "[]" mac "mac_cs mac" "ids @ mac_cs mac # rest"] assms(4,5)
  by (auto simp: data_frame_def ep_pending_def)

text \<open>
  A header byte among the last seven of the buffer makes the check for heartbeats read behind it.
\<close>

lemma late_header_overreads:
  assumes "eplate_ok ep" and "bs \<noteq> []" and "ep_wp ep + length bs \<le> EPLATE_BUF" and "ep_pending ep @ bs = g @ 0x0B # r"
    and "0x0B \<notin> set g" and "1017 \<le> length g"
  shows "eplate_received bs ep = None"
proof -
  have "eplate_find_hdr (joined bs ep) (ep_wp ep + length bs) = Some (length g)"
    using find_hdr_Some [of "ep_wp ep + length bs" "joined bs ep" g r] joined_facts [OF assms(1,3)] assms(3-5) by simp
  then show ?thesis
    using assms(2,6) joined_facts(1) [OF assms(1,3)]
    by (simp add: eplate_received_def Let_def eplate_frm_is_heartbeat_def)
qed

text \<open>Each plate counted is reported once; none is counted at the start.\<close>

lemma status_takes_one:
  "fst (eplate_get_status ep) = 0 \<longleftrightarrow> 0 < epc_cnt ep"
  "0 < epc_cnt ep \<Longrightarrow> epc_cnt (snd (eplate_get_status ep)) = epc_cnt ep - 1"
  "fst (eplate_get_status (snd (eplate_init m a t ep))) = 255"
  by (auto simp: eplate_get_status_def eplate_init_def Let_def)

end
