(* ===== verification/Spec2Isabelle.thy ===== *)
theory Spec2Isabelle
  imports Gate_Behaviour Led_Ports Serial Event Platform Resend Flow_Reupload Light_Ctl H264_Adjust H264_Record Xml_File Ve_Cfg_Behaviour Ve_Cfg_Web Eplate
begin

text \<open>
  \<^bold>\<open>Verification of the controller software of vd.\<close>

  The program is the application of a parking and traffic camera. Its own core logic, in C, is the
  entrance controller under \<open>ve/\<close>: a road gate driven by one of 24 state machines, induction coils
  that detect vehicles, lamps, displays and sound, and the device and string helpers below them.
  Around it, records of passing vehicles are distributed to platforms, stored and sent again
  (\<open>ve/platform/\<close>, \<open>storage/\<close>), and the lamps of parking spaces are controlled (\<open>light_ctl.c\<close>). The rest
  is glue to message queues, FTP, a DSP and vendor protocols, mostly C++.

  \<^bold>\<open>How the parts interact.\<close> The gate thread (\<open>ve/dev/roadgate/roadgate.c\<close>) runs, every millisecond
  and under the gate's mutex, the machine that the configuration selects; a machine looks at the
  first control of the gate's queue, the clock and the detection coil, drives the stop, down and up
  lines of a port expander (\<open>dev/pcf8574.c\<close>) and gives the next status. Controls are queued by the
  coil detection threads (\<open>roadgate/coil/detect.c\<close>, \<open>roadgate/mix/detect.c\<close>), which also switch the
  white lamp, and by the parking center. The lamp thread (\<open>ve/dev/light.c\<close>) drives lamps on the same
  port expander and on GPIO lines. The display thread (\<open>ve/dev/led.c\<close>) serves sixteen rows of queued
  lines, hands screens to the driver of the selected display (\<open>ve/dev/led_ports.c\<close>, \<open>dev/led/\<close>) and
  Base64 sound to the audio card. Every move of the gate is queued as an event, which the event
  thread (\<open>ve/event.c\<close>) writes to a log. Platforms that run take each record from a pool; what they
  cannot transmit goes to a data base and is sent again later.

  \<^bold>\<open>Theories.\<close>

  \<^item> \<open>Vd_Prelude\<close>: machine integers, the state monad with its equational reading \<open>eval\<close> and \<open>exec\<close>,
    and locale \<open>effect\<close>: a preorder on states that programs respect, closed under composition.
    \<open>Bytes\<close>: bounded byte buffers and little-endian fields. \<open>Cstdio\<close>: \<open>printf\<close>, \<open>strstr\<close>, \<open>atoi\<close>.
  \<^item> \<open>Time_Util\<close> (\<open>sys/time_util.c\<close>), \<open>Xstring\<close> (\<open>sys/xstring.c\<close>, \<open>sys/str_util.c\<close>), \<open>Base64\<close>
    (\<open>sys/base64.c\<close>), \<open>Pool\<close> (\<open>sys/pool.c\<close>, with locale \<open>allocator\<close> as the contract its clients use).
  \<^item> \<open>World\<close>: the surroundings (clocks, GPIO bytes, outcomes of I2C transactions and allocations as
    functions of a tick that each access advances, so that theorems hold for every behaviour of the
    hardware), the history of what reached the hardware, and \<open>dev/gpio.c\<close>, \<open>dev/pcf8574.c\<close>, the
    queueing half of \<open>ve/event.c\<close>. \<open>Event\<close>: the writing half, with the rotation of the log.
  \<^item> \<open>Roadgate_Data\<close> (\<open>roadgate_data.c\<close>), \<open>Roadgate_Ports\<close> (\<open>roadgate_ports.c\<close>, \<open>dsp_msg.c\<close>).
  \<^item> \<open>Rg_Machine\<close>: the two dozen handler bodies that the 24 machine files repeat, with the action
    tables as arguments. \<open>Rg_Contract\<close>: locale \<open>rg_machine\<close>, what a machine promises to the daemon,
    and one lemma per handler body; \<open>Rg_Effect\<close>: locale \<open>rg_effect\<close>, what a machine does to its
    surroundings, proved once for every relation its dozen primitive calls respect.
  \<^item> \<open>Coil_Entrance\<close>, \<open>Coil_Export\<close>, \<open>Mix_Entrance\<close>, \<open>Mix_Export\<close>, \<open>Video_Entrance\<close>, \<open>Video_Export\<close>:
    the machines, one definition per source function, each an \<open>interpretation\<close> of \<open>rg_machine\<close>.
  \<^item> \<open>Light\<close>, \<open>Light_Correct\<close> (\<open>ve/dev/light.c\<close>, \<open>ve/dev/light_ports.c\<close>, \<open>isdaytime\<close> of
    \<open>ve/config/cam_param.c\<close>), \<open>Detect\<close> (the coil detection threads), \<open>Light_Ctl\<close> (\<open>light_ctl.c\<close>).
  \<^item> \<open>Roadgate\<close>: the dispatch tables of \<open>coil.c\<close>, \<open>mix.c\<close>, \<open>video.c\<close> and the daemon; locale
    \<open>daemon_effect\<close> lifts every effect of the machines to it. \<open>Device\<close>: the device as a transition
    system; \<open>Gate_Behaviour\<close>: the behaviour of the gate under every valid configuration.
  \<^item> \<open>Audio\<close> (\<open>ve/dev/audio.c\<close>), \<open>Led\<close> and \<open>Led_Correct\<close> (\<open>dev/led/led.c\<close>, \<open>ve/dev/led.c\<close>), the display
    drivers \<open>Degao\<close> (\<open>degao.c\<close>), \<open>Fly\<close> (\<open>fly_eq20131.c\<close>), \<open>Listen\<close> and \<open>Listen_Correct\<close> (\<open>listen.c\<close>),
    \<open>Serial\<close> (\<open>dev/common/serial.c\<close>), and \<open>Led_Ports\<close> (\<open>ve/dev/led_ports.c\<close>), where the manager and the
    drivers are composed.
  \<^item> \<open>Platform\<close> (\<open>ve/platform/platform.c\<close> over \<open>Pool\<close>), \<open>Sqlite\<close> (what the program uses of SQLite),
    \<open>Resend\<close> (the resend queues of \<open>ve/platform/bitcom/\<close>), \<open>Flow\<close> and \<open>Flow_Reupload\<close>
    (\<open>storage/traffic_flow_process.c\<close>, \<open>data_process_flow.cpp\<close> and parts of \<open>data_process.cpp\<close> and
    \<open>database_mng.cpp\<close>).

  \<^item> The video buffer (\<open>h264/h264_buffer.cpp\<close>): \<open>H264_Stamp\<close> (search for headers, fields of time stamps,
    the adjusting loop), \<open>H264_Bits\<close> (masks and round trips), \<open>H264_Headers\<close> and \<open>H264_Layout\<close> (the headers
    of a stream, and that rewriting stamps keeps them), \<open>H264_Adjust\<close> (the loop as one visit per header),
    \<open>H264_Ring\<close> and \<open>H264_Record\<close> (the ring of frames and the records cut out of it).

  \<^item> The XML configuration (\<open>xml/xmlCreater.c\<close>, \<open>xml/xmlParser.c\<close>): \<open>Libxml\<close> (libxml2 and iconv, the idioms
    of the two files and for each idiom the lemma that relates writing and reading), \<open>Libxml_Dom\<close> (a
    document tree with the laws), \<open>Camera_Config\<close>, \<open>Arm_Config\<close> (the structures of \<open>camera_config.h\<close> and
    \<open>arm_config.h\<close>), \<open>Xml_File\<close> (the documents).

  \<^item> The JSON configuration (\<open>ve/config/\<close>): \<open>Jsonc\<close> (json-c and its laws), \<open>Jsonc_Text\<close> (values with a printer
    and a reader that have them), \<open>Json_Cfg\<close> (\<open>json_cfg.c\<close>, \<open>json_format.c\<close>), \<open>Ve_Config\<close> (the structures and
    their items, one definition per getter, setter and table), \<open>Ve_Config_Correct\<close> (ranges, and the rules by
    which what an item writes is what it reads), \<open>Ve_Cfg_File\<close> (\<open>ve_cfg.c\<close>), \<open>Ve_Cfg_Behaviour\<close>. \<open>Ve_Cfg_Web\<close>: how
    these settings are changed and shown in messages of the web interface (\<open>vdsystem/src/vsparam_parse.cpp\<close>).

  \<^item> \<open>Eplate\<close> (\<open>toggle/eplate/eplate.c\<close>): the reader of electronic plates, whose frames are found in a buffer
    of received bytes.

  \<^bold>\<open>State and operations.\<close> Functions that change state are programs of the state monad over
  extensible records: \<open>world\<close> (surroundings, port register, event queue, configuration, history),
  \<open>rgw\<close> (with the gate record \<open>rg_t\<close>) and \<open>vew\<close> (with the lamps, the camera parameters and the static
  variables of the detection threads). A dispatch table is the association list of its initialised
  entries; calling an entry that is not initialised is the fault \<open>NullHandler\<close>. A function that
  blocks for ever on a mutex returns \<open>None\<close>. Fields of 8 to 32 bits are words; signed C arithmetic is
  \<open>int\<close> reduced by \<open>s32\<close> or \<open>s64\<close>. The \<open>long\<close> and \<open>time_t\<close> of the 32-bit target have 32 bits.
  Functions over one buffer or structure are plain functions; in them \<open>None\<close> is an access outside
  the buffer, or another behaviour that C leaves undefined.

  \<^bold>\<open>Parameters.\<close> The SQL engine is an argument of the definitions that use it: locale
  \<open>sqlite_laws\<close> states what is used of it for the traffic flow (a statement that returns 0 has inserted, updated
  or deleted rows as it says, with the next free key; one that fails has changed nothing), \<open>sqlite_works\<close> that it
  fails only for wrong statements, the locales \<open>sql_table\<close> and \<open>http_table\<close> the laws for the resend tables, whose
  insertions may fail while the other statements succeed; each is interpreted on a data base in memory. libxml2 and iconv are the
  record \<open>libxml\<close> with the laws \<open>libxml_laws\<close>, interpreted on a document tree; the structures of the
  detection algorithm, which the repository does not declare, are a parameter of the XML files.
  json-c is the record \<open>jsonc\<close> with the laws \<open>jsonc_laws\<close>, interpreted on values with a printer and a reader.
  The \<open>iconv\<close> of the web messages is an argument, a function from texts to texts or failure.
  \<open>localtime_r\<close> is an argument as well. The configuration header of \<open>light_ctl.c\<close> is not in the repository, and what it
  declares is taken from its uses.

  \<^bold>\<open>What the theorems show.\<close> Safety: in every reachable state the down line has only ever fallen over
  a safe coil just read as free, for all interleavings of the threads and all configuration
  changes; with a fixed configuration the daemon never calls a null handler. Service: the controls
  taken and those still queued are all that were queued, in order; the first one within two passes once the waiting conditions hold;
  an open gate closes by itself and releases the up line; manual commands of the center, normally
  open and normally closed behave as their tables say on all 24 machines. Isolation: gate and lamps
  do not disturb each other on the shared register. Displays: a queued line is shown, on the Listen card in
  the region of its row; frames are read back by models of the displays. Records: each running
  platform gets a record once; the rows and the files of the store for repeated transmission belong
  together except where a file could not be written; traffic flow records are stored in order and, when the data base
  works, completely. Log: every event is written in order, and the files are bounded. Video: time stamps of a complete stream
  are made to follow one another, and a record is a run of consecutive frames from an I frame on.
  Configuration: what is written as XML is read back, except for the addresses of the NTP server and of the neighbouring berths; the JSON
  configuration of the entrance controller is read back too, stays in its ranges whatever is read, and is
  lost or kept by a failed save as the theorems of \<open>Ve_Cfg_Behaviour\<close> say; saving it can deadlock with drawing. What the
  web interface sets is stored, sent to the signal processor and found again after a restart.
  Electronic plates: the first frame in the buffer is counted once, unless it passes for a heartbeat; a corrupt header holds all frames up to the end of the buffer.
  Lamps: the manager's lists partition the
  registered lamps; the white lamp follows the night. Helpers: the string functions stay in their
  buffers, the pool hands out each entry once, the debounced reading is a strict majority vote.
  Several theorems state faults the code has: a null handler after a configuration change in the
  wrong status, normally closed cancelled by a repeated command, a borrow error of
  \<open>timespec_sub\<close> that makes flashing lamps toggle early, a 32-bit overflow of the overtime test, a
  mutex left locked by a failed lamp registration, a driver that ignores brightness, a display
  answer that is refused when it is complete, a loop that does not end on a truncated stream, records that are lost because a key is used again
  or because of an apostrophe in a name.

  \<^bold>\<open>Bounds and fuel.\<close> No fuel is used. The one loop that can run for ever,
  that of \<open>h264_ps_adjust_timestamp\<close>, is a partial function with the result \<open>None\<close> for a call that does
  not return, and it is proved when it returns and when not. All other definitions are total. The loops of \<open>light.c\<close> run over the
  lists they find, the sampling loop over its count, \<open>create_pool\<close> over its number of entries, the
  transmission of the Fly driver over its retries, the searches in buffers over their offsets.

  \<^bold>\<open>What is not modelled.\<close> Log output; thread creation beyond the flags that it has happened;
  interleaving inside one pass of a thread (the passes are atomic: the gate's mutex makes the gate
  record so, while accesses of other threads to other lines may in truth come in between); the
  sunrise computation; functions without a caller (voice and region frames of the Fly display);
  \<open>db_upload_flow_records\<close> is modelled although its call in \<open>db_upload_Thr\<close> is at present commented
  out. Playback of MP3, the other record types of \<open>storage/\<close>, network protocols
  and the C++ parts that only connect libraries are not modelled, as listed in the manifest.
\<close>

end
